(* ===== verification/Prelude.thy ===== *)
theory Prelude
  imports Complex_Main "HOL-Library.Word" "HOL-Library.DAList" "HOL-Library.Signed_Division"
begin

text \<open>
  Shared material of the LODEEN development: the collections of facts that the component
  theories extend, Go's 64-bit \<open>int\<close> arithmetic, generic facts about lists, folds and
  association lists with unique keys (the model of Go's \<open>map[string]T\<close>).
\<close>

named_theorems server_defs \<open>definitions of the operations of the server\<close>
named_theorems inv_intros \<open>preservation of the invariants\<close>
named_theorems frame_simps \<open>parts of the state an operation leaves alone\<close>

section \<open>Go integers\<close>

text \<open>Go's \<open>int\<close> has 64 bits on the supported platforms and wraps around silently.\<close>

definition i64 :: "int \<Rightarrow> int" where
  "i64 x = (x + 2 ^ 63) mod 2 ^ 64 - 2 ^ 63"

definition in_i64 :: "int \<Rightarrow> bool" where
  "in_i64 x \<longleftrightarrow> - (2 ^ 63) \<le> x \<and> x < 2 ^ 63"

lemma i64_id: "in_i64 x \<Longrightarrow> i64 x = x"
  by (simp add: i64_def in_i64_def)

lemma in_i64_i64 [simp]: "in_i64 (i64 x)"
proof -
  have "0 \<le> (x + 2 ^ 63) mod 2 ^ 64" "(x + 2 ^ 63) mod 2 ^ 64 < 2 ^ 64" by simp_all
  then show ?thesis by (simp add: i64_def in_i64_def)
qed

lemma i64_idem [simp]: "i64 (i64 x) = i64 x"
  by (rule i64_id) simp

lemma i64_small: "- 9223372036854775808 \<le> x \<Longrightarrow> x \<le> 9223372036854775807 \<Longrightarrow> i64 x = x"
  by (rule i64_id) (simp add: in_i64_def)

lemma i64_add_mod: "i64 (i64 x + y) = i64 (x + y)"
proof -
  have "i64 x + y + 2 ^ 63 = (x + 2 ^ 63) mod 2 ^ 64 + y" by (simp add: i64_def)
  then have "(i64 x + y + 2 ^ 63) mod 2 ^ 64 = (x + 2 ^ 63 + y) mod 2 ^ 64"
    by (simp only: mod_add_left_eq)
  then show ?thesis by (simp add: i64_def ac_simps)
qed

section \<open>Folds\<close>

lemma fold_invariant_on:
  assumes "\<And>x s. x \<in> set xs \<Longrightarrow> P s \<Longrightarrow> P (f x s)" "P s"
  shows "P (fold f xs s)"
  using assms by (induction xs arbitrary: s) auto

lemma fold_preserves: "(\<And>x s. g (f x s) = g s) \<Longrightarrow> g (fold f xs s) = g s"
  by (induction xs arbitrary: s) auto

section \<open>Go maps\<close>

type_synonym 'v gomap = "(string, 'v) alist"

abbreviation mempty :: "'v gomap" where "mempty \<equiv> DAList.empty"
abbreviation mget :: "'v gomap \<Rightarrow> string \<Rightarrow> 'v option" where "mget \<equiv> DAList.lookup"
abbreviation mput :: "string \<Rightarrow> 'v \<Rightarrow> 'v gomap \<Rightarrow> 'v gomap" where "mput \<equiv> DAList.update"
abbreviation mdel :: "string \<Rightarrow> 'v gomap \<Rightarrow> 'v gomap" where "mdel \<equiv> DAList.delete"

definition mkeys :: "'v gomap \<Rightarrow> string list" where
  "mkeys m = map fst (DAList.impl_of m)"

definition mlen :: "'v gomap \<Rightarrow> nat" where
  "mlen m = length (DAList.impl_of m)"

lift_definition mmap :: "('v \<Rightarrow> 'w) \<Rightarrow> 'v gomap \<Rightarrow> 'w gomap"
  is "\<lambda>f. map (\<lambda>(k, v). (k, f v))"
  by (simp add: case_prod_unfold comp_def)

lemma lookup_delete_if: "mget (mdel k m) k' = (if k = k' then None else mget m k')"
  by simp

lemma lookup_mmap [simp]: "mget (mmap f m) k = map_option f (mget m k)"
  by transfer (simp add: map_of_map)

lemma mkeys_distinct [simp]: "distinct (mkeys m)"
  by (simp add: mkeys_def)

lemma set_mkeys: "set (mkeys m) = dom (mget m)"
  unfolding mkeys_def by transfer (simp add: dom_map_of_conv_image_fst)

lemma mlen_card: "mlen m = card (dom (mget m))"
proof -
  have "mlen m = length (mkeys m)" by (simp add: mlen_def mkeys_def)
  then show ?thesis by (simp add: distinct_card flip: set_mkeys)
qed

lemma finite_dom_mget [simp]: "finite (dom (mget m))"
  by (simp flip: set_mkeys)

text \<open>All values of a map satisfy a predicate.\<close>

definition mall :: "('v \<Rightarrow> bool) \<Rightarrow> 'v gomap \<Rightarrow> bool" where
  "mall P m \<longleftrightarrow> (\<forall>k v. mget m k = Some v \<longrightarrow> P v)"

lemma mallD: "mall P m \<Longrightarrow> mget m k = Some v \<Longrightarrow> P v"
  by (auto simp: mall_def)

lemma mall_empty [simp]: "mall P mempty"
  by (simp add: mall_def)

lemma mall_put: "mall P m \<Longrightarrow> P v \<Longrightarrow> mall P (mput k v m)"
  by (auto simp: mall_def lookup_update split: if_splits)

lemma mall_del: "mall P m \<Longrightarrow> mall P (mdel k m)"
  by (auto simp: mall_def split: if_splits)

lemma mall_mmap: "(\<And>v. P v \<Longrightarrow> Q (f v)) \<Longrightarrow> mall P m \<Longrightarrow> mall Q (mmap f m)"
  by (auto simp: mall_def)

lemma mall_code [code]: "mall P m = list_all (\<lambda>(k, v). P v) (DAList.impl_of m)"
proof -
  have "mget m k = Some v \<longleftrightarrow> (k, v) \<in> set (DAList.impl_of m)" for k v
    by transfer auto
  then show ?thesis by (auto simp: mall_def list_all_iff)
qed

text \<open>The value of an absent key is the zero value.\<close>

definition mget_int :: "int gomap \<Rightarrow> string \<Rightarrow> int" where
  "mget_int m k = (case mget m k of None \<Rightarrow> 0 | Some n \<Rightarrow> n)"

lemma mget_int_empty [simp]: "mget_int mempty k = 0"
  by (simp add: mget_int_def)

lemma mget_int_put: "mget_int (mput k v m) k' = (if k = k' then v else mget_int m k')"
  by (simp add: mget_int_def lookup_update)

lemma mget_int_del: "mget_int (mdel k m) k' = (if k = k' then 0 else mget_int m k')"
  by (simp add: mget_int_def)

section \<open>Ranging over a map\<close>

text \<open>
  Go leaves the order of \<open>for k, v := range m\<close> open. An oracle answers, for the place in the
  code and the keys of the map, with the order of this run; an answer that is not an order of
  those keys is ignored, so every oracle is a possible run-time system.
\<close>

type_synonym range_oracle = "string list \<Rightarrow> string list \<Rightarrow> string list"

definition order_of :: "string list \<Rightarrow> string list \<Rightarrow> string list" where
  "order_of ks ks' = (if distinct ks' \<and> set ks' = set ks then ks' else ks)"

definition range_keys :: "range_oracle \<Rightarrow> string list \<Rightarrow> 'v gomap \<Rightarrow> string list" where
  "range_keys ord site m = order_of (mkeys m) (ord site (mkeys m))"

definition range_entries :: "range_oracle \<Rightarrow> string list \<Rightarrow> 'v gomap \<Rightarrow> (string \<times> 'v) list" where
  "range_entries ord site m =
     List.map_filter (\<lambda>k. map_option (Pair k) (mget m k)) (range_keys ord site m)"

definition range_vals :: "range_oracle \<Rightarrow> string list \<Rightarrow> 'v gomap \<Rightarrow> 'v list" where
  "range_vals ord site m = map snd (range_entries ord site m)"

lemma set_range_keys [simp]: "set (range_keys ord site m) = dom (mget m)"
  by (auto simp: range_keys_def order_of_def set_mkeys)

lemma distinct_range_keys [simp]: "distinct (range_keys ord site m)"
  by (auto simp: range_keys_def order_of_def)

lemma in_range_entries [simp]:
  "(k, v) \<in> set (range_entries ord site m) \<longleftrightarrow> mget m k = Some v"
  by (force simp: range_entries_def List.map_filter_def)

lemma map_fst_range_entries: "map fst (range_entries ord site m) = range_keys ord site m"
proof -
  have "map fst (List.map_filter (\<lambda>k. map_option (Pair k) (mget m k)) ks) = ks"
    if "set ks \<subseteq> dom (mget m)" for ks
    using that by (induction ks) (auto simp: List.map_filter_def)
  then show ?thesis by (simp add: range_entries_def)
qed

lemma distinct_range_entries [simp]: "distinct (map fst (range_entries ord site m))"
  by (simp add: map_fst_range_entries)

lemma set_range_vals: "set (range_vals ord site m) = ran (mget m)"
  unfolding range_vals_def ran_def set_map
  by (rule set_eqI) (simp add: image_iff, metis in_range_entries prod.collapse snd_conv)

lemma in_range_vals: "v \<in> set (range_vals ord site m) \<longleftrightarrow> (\<exists>k. mget m k = Some v)"
  by (auto simp: set_range_vals ran_def)

end
