(* ===== verification/Go_Float.thy ===== *)
theory Go_Float
  imports Prelude "HOL-Library.Log_Nat"
begin

text \<open>
  Go's floating-point types: a datum is a rational number, an infinity or NaN; a result is
  rounded to nearest, ties to even, in the precision of its format. The types \<open>f32\<close> and \<open>f64\<close>
  carry the operators of the source.
\<close>

datatype fmt = Binary32 | Binary64

primrec prec :: "fmt \<Rightarrow> nat" where
  "prec Binary32 = 24"
| "prec Binary64 = 53"

primrec emin :: "fmt \<Rightarrow> int" where
  "emin Binary32 = - 149"
| "emin Binary64 = - 1074"

primrec fmax :: "fmt \<Rightarrow> rat" where
  "fmax Binary32 = 340282346638528859811704183484516925440"
| "fmax Binary64 = 179769313486231570814527423731704356798070567525844996598917476803157260780028538760589558632766878171540458953514382464234321326889464182768467546703537516986049910576551282076245490090389328944075868508455133942304583236903222948165808559332123348274797826204144723168738177180919299881250404026184124858368"

definition p2 :: "int \<Rightarrow> rat" where
  "p2 e = (if 0 \<le> e then of_int (2 ^ nat e) else inverse (of_int (2 ^ nat (- e))))"

lemma p2_powi [simp]: "p2 e = 2 powi e"
  by (simp add: p2_def power_int_def power_one_over inverse_eq_divide)

definition rne_sel :: "int \<Rightarrow> rat \<Rightarrow> int" where
  "rne_sel f d = (if d < 1 / 2 then f else if 1 / 2 < d then f + 1 else if even f then f else f + 1)"

definition rne_at :: "rat \<Rightarrow> int \<Rightarrow> int" where
  "rne_at x f = rne_sel f (x - of_int f)"

definition rne :: "rat \<Rightarrow> int" where
  "rne x = rne_at x \<lfloor>x\<rfloor>"

definition expo_adj :: "rat \<Rightarrow> int \<Rightarrow> int" where
  "expo_adj x e = (if p2 e \<le> x then e else e - 1)"

definition expo :: "rat \<Rightarrow> int" where
  "expo x = (case quotient_of \<bar>x\<bar> of (a, b) \<Rightarrow> expo_adj \<bar>x\<bar> (bitlen a - bitlen b))"

definition quantum :: "fmt \<Rightarrow> rat \<Rightarrow> int" where
  "quantum f x = max (emin f) (expo x - int (prec f) + 1)"

definition scale_rne :: "rat \<Rightarrow> rat \<Rightarrow> rat" where
  "scale_rne x u = of_int (rne (x / u)) * u"

definition rv :: "fmt \<Rightarrow> rat \<Rightarrow> rat" where
  "rv f x = (if x = 0 then 0 else scale_rne x (p2 (quantum f x)))"

lemma prec_pos: "0 < prec f"
  by (cases f) simp_all

lemma rne_ge_floor: "\<lfloor>x\<rfloor> \<le> rne x" and rne_le_floor: "rne x \<le> \<lfloor>x\<rfloor> + 1"
  by (auto simp: rne_def rne_at_def rne_sel_def)

lemma rne_of_int [simp]: "rne (of_int k) = k"
  by (simp add: rne_def rne_at_def rne_sel_def)

lemma rne_mono: "x \<le> y \<Longrightarrow> rne x \<le> rne y"
proof (cases "\<lfloor>x\<rfloor> = \<lfloor>y\<rfloor>")
  case True
  assume "x \<le> y"
  with True show ?thesis by (auto simp: rne_def rne_at_def rne_sel_def)
next
  case False
  assume "x \<le> y"
  with False have "\<lfloor>x\<rfloor> + 1 \<le> \<lfloor>y\<rfloor>"
    using floor_mono [of x y] by linarith
  with rne_le_floor [of x] rne_ge_floor [of y] show ?thesis by linarith
qed

lemma rne_minus: "rne (- x) = - rne x"
proof (cases "x = of_int \<lfloor>x\<rfloor>")
  case True
  then have "rne (- x) = rne (of_int (- \<lfloor>x\<rfloor>))" by simp
  also have "\<dots> = - rne (of_int \<lfloor>x\<rfloor>)" by (simp only: rne_of_int)
  finally show ?thesis using True by simp
next
  case False
  then have fl: "\<lfloor>- x\<rfloor> = - \<lfloor>x\<rfloor> - 1"
    by (metis (no_types, opaque_lifting) ceiling_altdef ceiling_def minus_diff_eq add.inverse_inverse diff_minus_eq_add minus_add_distrib uminus_add_conv_diff)
  show ?thesis
    by (auto simp: rne_def rne_at_def rne_sel_def fl)
qed

lemma expo_bounds:
  assumes "x \<noteq> 0"
  shows "2 powi expo x \<le> \<bar>x\<bar>" and "\<bar>x\<bar> < 2 powi (expo x + 1)"
proof -
  obtain a b where ab: "quotient_of \<bar>x\<bar> = (a, b)" by force
  have b: "0 < b" using quotient_of_denom_pos [OF ab] .
  have x: "\<bar>x\<bar> = of_int a / of_int b" using quotient_of_div [OF ab] .
  with assms b have a: "0 < a"
    by (metis abs_of_pos divide_eq_0_iff linorder_neqE_linordered_idom not_less_iff_gr_or_eq
        of_int_0_eq_iff of_int_0_less_iff zero_less_abs_iff zero_less_divide_iff)
  define e where "e = bitlen a - bitlen b"
  have la: "0 < bitlen a" and lb: "0 < bitlen b"
    using a b by (metis bitlen_eq_zero_iff bitlen_nonneg le_less linorder_not_le)+
  have A: "2 powi (bitlen a - 1) \<le> (of_int a :: rat)" "(of_int a :: rat) < 2 powi bitlen a"
    using bitlen_bounds [OF a] la by (auto simp: power_int_def)
  have B: "2 powi (bitlen b - 1) \<le> (of_int b :: rat)" "(of_int b :: rat) < 2 powi bitlen b"
    using bitlen_bounds [OF b] lb by (auto simp: power_int_def)
  have up: "\<bar>x\<bar> < 2 powi (e + 1)"
  proof -
    have "of_int a / of_int b < (2 powi bitlen a / 2 powi (bitlen b - 1) :: rat)"
      using A(2) B(1) b by (intro frac_less) (auto simp: a less_imp_le)
    also have "\<dots> = 2 powi (e + 1)"
      by (simp add: e_def power_int_diff [symmetric] algebra_simps)
    finally show ?thesis by (simp add: x)
  qed
  have lo: "2 powi (e - 1) < \<bar>x\<bar>"
  proof -
    have "2 powi (e - 1) = (2 powi (bitlen a - 1) / 2 powi bitlen b :: rat)"
      by (simp add: e_def power_int_diff [symmetric] algebra_simps)
    also have "\<dots> < of_int a / of_int b"
      using A(1) B(2) b by (intro frac_less2) (auto simp: a)
    finally show ?thesis by (simp add: x)
  qed
  show "2 powi expo x \<le> \<bar>x\<bar>" "\<bar>x\<bar> < 2 powi (expo x + 1)"
    using up lo by (auto simp: expo_def ab e_def [symmetric] expo_adj_def)
qed

lemma powi_mono: "a \<le> b \<Longrightarrow> (2 :: rat) powi a \<le> 2 powi b"
  by (rule power_int_increasing) auto

lemma powi_mono_strict: "a < b \<Longrightarrow> (2 :: rat) powi a < 2 powi b"
  by (rule power_int_strict_increasing) auto

lemma powi_pos [simp]: "0 < (2 :: rat) powi a"
  by simp

lemma powi_multiple:
  assumes "q \<le> k"
  shows "(2 :: rat) powi k = of_int (2 ^ nat (k - q)) * 2 powi q"
proof -
  have "(2 :: rat) powi k = 2 powi ((k - q) + q)" by simp
  also have "\<dots> = 2 powi (k - q) * 2 powi q" by (rule power_int_add) simp
  also have "(2 :: rat) powi (k - q) = of_int (2 ^ nat (k - q))"
    using assms by (simp add: power_int_def)
  finally show ?thesis .
qed

lemma expo_unique:
  assumes "2 powi e \<le> \<bar>x\<bar>" "\<bar>x\<bar> < 2 powi (e + 1)"
  shows "expo x = e"
proof -
  have nz: "x \<noteq> 0"
  proof
    assume "x = 0"
    with assms(1) have "(2 :: rat) powi e \<le> 0" by simp
    moreover have "0 < (2 :: rat) powi e" by (rule powi_pos)
    ultimately show False by linarith
  qed
  note b = expo_bounds [OF nz]
  have "\<not> e < expo x" using assms(2) b(1) powi_mono [of "e + 1" "expo x"] by linarith
  moreover have "\<not> expo x < e" using assms(1) b(2) powi_mono [of "expo x + 1" e] by linarith
  ultimately show ?thesis by simp
qed

lemma expo_minus [simp]: "expo (- x) = expo x"
  by (simp add: expo_def)

lemma quantum_minus [simp]: "quantum f (- x) = quantum f x"
  by (simp add: quantum_def)

lemma rv_0 [simp]: "rv f 0 = 0"
  by (simp add: rv_def scale_rne_def)

lemma rv_minus: "rv f (- x) = - rv f x"
  by (simp add: rv_def scale_rne_def rne_minus)

lemma rv_pos_cases:
  assumes "0 < x"
  shows "rv f x = of_int (rne (x / 2 powi quantum f x)) * 2 powi quantum f x"
  using assms by (simp add: rv_def scale_rne_def)

lemma rv_le_powi:
  assumes "0 < x" "quantum f x \<le> k" "x \<le> 2 powi k"
  shows "rv f x \<le> 2 powi k"
proof -
  let ?q = "quantum f x"
  have eq: "(2 :: rat) powi k / 2 powi ?q = of_int (2 ^ nat (k - ?q))"
    using powi_multiple [OF assms(2)] by simp
  have "x / 2 powi ?q \<le> 2 powi k / 2 powi ?q"
    using assms(3) by (simp add: divide_right_mono)
  then have "rne (x / 2 powi ?q) \<le> 2 ^ nat (k - ?q)"
    using rne_mono unfolding eq by (metis rne_of_int)
  then have "of_int (rne (x / 2 powi ?q)) * 2 powi ?q \<le> of_int (2 ^ nat (k - ?q)) * (2 :: rat) powi ?q"
    by (intro mult_right_mono) (simp_all only: of_int_le_iff, simp_all)
  then show ?thesis
    using rv_pos_cases [OF assms(1)] powi_multiple [OF assms(2)] by simp
qed

lemma rv_ge_powi:
  assumes "0 < x" "quantum f x \<le> k" "2 powi k \<le> x"
  shows "2 powi k \<le> rv f x"
proof -
  let ?q = "quantum f x"
  have eq: "(2 :: rat) powi k / 2 powi ?q = of_int (2 ^ nat (k - ?q))"
    using powi_multiple [OF assms(2)] by simp
  have "2 powi k / 2 powi ?q \<le> x / 2 powi ?q"
    using assms(3) by (simp add: divide_right_mono)
  then have "2 ^ nat (k - ?q) \<le> rne (x / 2 powi ?q)"
    using rne_mono unfolding eq by (metis rne_of_int)
  then have "of_int (2 ^ nat (k - ?q)) * (2 :: rat) powi ?q \<le> of_int (rne (x / 2 powi ?q)) * 2 powi ?q"
    by (intro mult_right_mono) (simp_all only: of_int_le_iff, simp_all)
  then show ?thesis
    using rv_pos_cases [OF assms(1)] powi_multiple [OF assms(2)] by simp
qed

lemma rv_nonneg: "0 \<le> x \<Longrightarrow> 0 \<le> rv f x"
proof -
  assume "0 \<le> x"
  then have "0 \<le> rne (x / 2 powi quantum f x)"
    using rne_mono [of 0 "x / 2 powi quantum f x"] rne_of_int [of 0] by simp
  then show ?thesis by (simp add: rv_def scale_rne_def)
qed

lemma expo_mono: "0 < x \<Longrightarrow> x \<le> y \<Longrightarrow> expo x \<le> expo y"
proof (rule ccontr)
  assume *: "0 < x" "x \<le> y" "\<not> expo x \<le> expo y"
  then have "(2 :: rat) powi (expo y + 1) \<le> 2 powi expo x" by (intro powi_mono) simp
  with * expo_bounds [of x] expo_bounds [of y] show False by simp
qed

lemma rv_mono_pos:
  assumes "0 < x" "x \<le> y"
  shows "rv f x \<le> rv f y"
proof -
  have y: "0 < y" using assms by simp
  have e: "expo x \<le> expo y" by (rule expo_mono [OF assms])
  show ?thesis
  proof (cases "quantum f x = quantum f y")
    case True
    have "x / 2 powi quantum f y \<le> y / 2 powi quantum f y"
      using assms by (simp add: divide_right_mono)
    from rne_mono [OF this] show ?thesis
      using rv_pos_cases [OF assms(1), of f] rv_pos_cases [OF y, of f] True
      by (simp add: mult_right_mono)
  next
    case False
    then have q: "quantum f y = expo y - int (prec f) + 1" "quantum f x < quantum f y"
      using e by (auto simp: quantum_def max_def split: if_splits)
    have k: "quantum f y \<le> expo y" using q(1) prec_pos [of f] by simp
    have "expo x < expo y" using False e by (auto simp: quantum_def)
    then have "x \<le> 2 powi expo y"
      using expo_bounds(2) [of x] powi_mono [of "expo x + 1" "expo y"] assms(1) by simp
    then have "rv f x \<le> 2 powi expo y"
      using rv_le_powi [OF assms(1)] k q(2) by simp
    also have "\<dots> \<le> rv f y"
      using rv_ge_powi [OF y k] expo_bounds(1) [of y] y by simp
    finally show ?thesis .
  qed
qed

lemma rv_mono: "x \<le> y \<Longrightarrow> rv f x \<le> rv f y"
proof -
  assume le: "x \<le> y"
  consider "0 < x" | "x \<le> 0" "0 \<le> y" | "y < 0" using le by linarith
  then show ?thesis
  proof cases
    case 1 with le show ?thesis by (intro rv_mono_pos)
  next
    case 2
    then have "rv f x \<le> 0" using rv_nonneg [of "- x" f] by (simp add: rv_minus)
    also have "0 \<le> rv f y" using 2 by (intro rv_nonneg)
    finally show ?thesis .
  next
    case 3
    with le have "rv f (- y) \<le> rv f (- x)" by (intro rv_mono_pos) auto
    then show ?thesis by (simp add: rv_minus)
  qed
qed

definition rep :: "fmt \<Rightarrow> rat \<Rightarrow> bool" where
  "rep f r \<longleftrightarrow> rv f r = r"

lemma rep_form:
  assumes r: "r = of_int m * 2 powi q" and q: "emin f \<le> q" and m: "\<bar>m\<bar> \<le> 2 ^ prec f"
  shows "rep f r"
proof (cases "r = 0")
  case False
  let ?Q = "quantum f r"
  have "\<exists>k. r / 2 powi ?Q = of_int k"
  proof (cases "?Q \<le> q")
    case True
    define Q where "Q = ?Q"
    have "r = of_int m * (of_int (2 ^ nat (q - Q)) * 2 powi Q)"
      using powi_multiple [OF True] r unfolding Q_def by metis
    then have "r / 2 powi Q = of_int (m * 2 ^ nat (q - Q))" by simp
    then show ?thesis unfolding Q_def ..
  next
    case False
    then have Q: "?Q = expo r - int (prec f) + 1" "q < ?Q" using q by (auto simp: quantum_def max_def split: if_splits)
    have "(2 :: rat) powi (q + int (prec f)) \<le> 2 powi expo r" using Q by (intro powi_mono) simp
    also have "\<dots> \<le> \<bar>r\<bar>" by (rule expo_bounds) (fact \<open>r \<noteq> 0\<close>)
    also have "\<dots> = of_int \<bar>m\<bar> * 2 powi q" by (simp add: r abs_mult)
    finally have "2 powi (int (prec f)) \<le> (of_int \<bar>m\<bar> :: rat)"
      by (simp add: power_int_add)
    then have "(2 :: rat) ^ prec f \<le> of_int \<bar>m\<bar>" by (simp add: power_int_def)
    then have "2 ^ prec f \<le> \<bar>m\<bar>" by (metis of_int_le_iff of_int_numeral of_int_power)
    with m have m': "\<bar>m\<bar> = 2 ^ prec f" by simp
    then have ar: "\<bar>r\<bar> = 2 powi (q + int (prec f))"
      by (simp add: r abs_mult power_int_add flip: of_int_abs)
    have "expo r = q + int (prec f)"
      by (rule expo_unique) (auto simp: ar intro: powi_mono_strict)
    with Q have Q': "?Q = q + 1" by simp
    have "2 ^ prec f = (2 :: int) * 2 ^ (prec f - 1)" using prec_pos [of f]
      by (metis Suc_pred' power_Suc)
    then obtain j where "m = 2 * j" using m' by (metis abs_if dvd_def dvd_minus_iff dvd_triv_left)
    then have "r = of_int j * 2 powi (q + 1)" by (simp add: r power_int_add)
    then have "r / 2 powi (q + 1) = of_int j" by simp
    then show ?thesis unfolding Q' ..
  qed
  then obtain k where "r / 2 powi ?Q = of_int k" ..
  then show ?thesis using False
    by (auto simp: rep_def rv_def scale_rne_def) (metis nonzero_divide_eq_eq less_irrefl powi_pos)
qed (simp add: rep_def)

lemma rep_rv [simp]: "rep f (rv f x)"
proof (cases "x = 0")
  case False
  let ?q = "quantum f x"
  have q: "expo x + 1 \<le> ?q + int (prec f)" by (simp add: quantum_def)
  have "\<bar>x\<bar> \<le> 2 powi (?q + int (prec f))"
    using expo_bounds(2) [OF False] powi_mono [OF q] by simp
  also have "(2 :: rat) powi (?q + int (prec f)) = of_int (2 ^ prec f) * 2 powi ?q"
    by (simp add: power_int_add)
  finally have "\<bar>x\<bar> / 2 powi ?q \<le> of_int (2 ^ prec f)"
    by (simp add: divide_le_eq)
  then have "rne (\<bar>x\<bar> / 2 powi ?q) \<le> 2 ^ prec f"
    using rne_mono by (metis rne_of_int)
  moreover have "0 \<le> rne (\<bar>x\<bar> / 2 powi ?q)"
    using rne_mono [of 0 "\<bar>x\<bar> / 2 powi ?q"] rne_of_int [of 0] by simp
  moreover have "\<bar>rne (x / 2 powi ?q)\<bar> = \<bar>rne (\<bar>x\<bar> / 2 powi ?q)\<bar>"
    by (cases "0 \<le> x") (simp_all add: rne_minus flip: minus_divide_left)
  ultimately have "\<bar>rne (x / 2 powi ?q)\<bar> \<le> 2 ^ prec f" by simp
  then show ?thesis
    by (intro rep_form [of _ "rne (x / 2 powi ?q)" ?q]) (auto simp: rv_def scale_rne_def False quantum_def)
qed (simp add: rep_def)

section \<open>Floating-point data\<close>

datatype gofloat = NaN | PInf | NInf | NZero | Fin rat

fun fval :: "gofloat \<Rightarrow> rat" where
  "fval (Fin r) = r"
| "fval _ = 0"

fun is_fin :: "gofloat \<Rightarrow> bool" where
  "is_fin (Fin r) = True"
| "is_fin NZero = True"
| "is_fin _ = False"

fun sign_bit :: "gofloat \<Rightarrow> bool" where
  "sign_bit (Fin r) = (r < 0)"
| "sign_bit NInf = True"
| "sign_bit NZero = True"
| "sign_bit _ = False"

abbreviation is_inf :: "gofloat \<Rightarrow> bool" where
  "is_inf a \<equiv> a = PInf \<or> a = NInf"

abbreviation is_zero :: "gofloat \<Rightarrow> bool" where
  "is_zero a \<equiv> a = NZero \<or> a = Fin 0"

definition mk_sel :: "fmt \<Rightarrow> bool \<Rightarrow> rat \<Rightarrow> gofloat" where
  "mk_sel f neg r =
    (if fmax f < r then PInf else if r < - fmax f then NInf
     else if r = 0 then (if neg then NZero else Fin 0) else Fin r)"

definition mk :: "fmt \<Rightarrow> bool \<Rightarrow> rat \<Rightarrow> gofloat" where
  "mk f neg x = mk_sel f neg (rv f x)"

fun fneg :: "gofloat \<Rightarrow> gofloat" where
  "fneg NaN = NaN"
| "fneg PInf = NInf"
| "fneg NInf = PInf"
| "fneg NZero = Fin 0"
| "fneg (Fin r) = (if r = 0 then NZero else Fin (- r))"

definition fadd :: "fmt \<Rightarrow> gofloat \<Rightarrow> gofloat \<Rightarrow> gofloat" where
  "fadd f a b =
    (if a = NaN \<or> b = NaN \<or> (a = PInf \<and> b = NInf) \<or> (a = NInf \<and> b = PInf) then NaN
     else if a = PInf \<or> b = PInf then PInf
     else if a = NInf \<or> b = NInf then NInf
     else mk f (a = NZero \<and> b = NZero) (fval a + fval b))"

definition fmul :: "fmt \<Rightarrow> gofloat \<Rightarrow> gofloat \<Rightarrow> gofloat" where
  "fmul f a b =
    (let neg = (sign_bit a \<noteq> sign_bit b) in
     if a = NaN \<or> b = NaN \<or> (is_inf a \<and> is_zero b) \<or> (is_zero a \<and> is_inf b) then NaN
     else if is_inf a \<or> is_inf b then (if neg then NInf else PInf)
     else mk f neg (fval a * fval b))"

definition fdiv :: "fmt \<Rightarrow> gofloat \<Rightarrow> gofloat \<Rightarrow> gofloat" where
  "fdiv f a b =
    (let neg = (sign_bit a \<noteq> sign_bit b) in
     if a = NaN \<or> b = NaN \<or> (is_inf a \<and> is_inf b) \<or> (is_zero a \<and> is_zero b) then NaN
     else if is_inf a \<or> is_zero b then (if neg then NInf else PInf)
     else if is_inf b then (if neg then NZero else Fin 0)
     else mk f neg (fval a / fval b))"

definition flt :: "gofloat \<Rightarrow> gofloat \<Rightarrow> bool" where
  "flt a b \<longleftrightarrow> a \<noteq> NaN \<and> b \<noteq> NaN \<and>
    (if a = NInf then b \<noteq> NInf else if b = PInf then a \<noteq> PInf
     else if a = PInf \<or> b = NInf then False else fval a < fval b)"

definition feq :: "gofloat \<Rightarrow> gofloat \<Rightarrow> bool" where
  "feq a b \<longleftrightarrow> a \<noteq> NaN \<and> (a = b \<or> (is_zero a \<and> is_zero b))"

definition fle :: "gofloat \<Rightarrow> gofloat \<Rightarrow> bool" where
  "fle a b \<longleftrightarrow> flt a b \<or> feq a b"

definition isqrt_step :: "int \<Rightarrow> int \<Rightarrow> int" where
  "isqrt_step n r = (if (r + 1) * (r + 1) \<le> n then r + 1 else r)"

function isqrt :: "int \<Rightarrow> int" where
  "isqrt n = (if n \<le> 0 then 0 else isqrt_step n (2 * isqrt (n div 4)))"
  by pat_completeness auto
termination by (relation "measure nat") auto

declare isqrt.simps [simp del]

definition sticky :: "rat \<Rightarrow> int \<Rightarrow> rat" where
  "sticky y s = (if of_int (s * s) = y then of_int s else of_int s + 1 / 2)"

definition sqrt_scaled :: "rat \<Rightarrow> rat" where
  "sqrt_scaled y = sticky y (isqrt \<lfloor>y\<rfloor>)"

definition sqrt_at :: "rat \<Rightarrow> int \<Rightarrow> rat" where
  "sqrt_at r k = sqrt_scaled (r * p2 (2 * k)) * p2 (- k)"

definition sqrt_sticky :: "fmt \<Rightarrow> rat \<Rightarrow> rat" where
  "sqrt_sticky f r = sqrt_at r (int (prec f) + 3 - expo r div 2)"

fun fsqrt :: "fmt \<Rightarrow> gofloat \<Rightarrow> gofloat" where
  "fsqrt f (Fin r) = (if r < 0 then NaN else if r = 0 then Fin 0 else mk f False (sqrt_sticky f r))"
| "fsqrt f NInf = NaN"
| "fsqrt f x = x"

fun cvt :: "fmt \<Rightarrow> gofloat \<Rightarrow> gofloat" where
  "cvt f (Fin r) = mk f (r < 0) r"
| "cvt f x = x"

definition trunc_rat :: "rat \<Rightarrow> int" where
  "trunc_rat r = (if 0 \<le> r then \<lfloor>r\<rfloor> else \<lceil>r\<rceil>)"

fun f_to_int :: "gofloat \<Rightarrow> int" where
  "f_to_int (Fin r) = (let t = trunc_rat r in if - (2 ^ 63) \<le> t \<and> t < 2 ^ 63 then t else - (2 ^ 63))"
| "f_to_int NZero = 0"
| "f_to_int _ = - (2 ^ 63)"

lemma isqrt_bounds:
  assumes "0 \<le> n"
  shows "0 \<le> isqrt n \<and> isqrt n * isqrt n \<le> n \<and> n < (isqrt n + 1) * (isqrt n + 1)"
  using assms
proof (induction n rule: isqrt.induct)
  case (1 n)
  show ?case
  proof (cases "n \<le> 0")
    case True
    with 1 have "n = 0" by simp
    then show ?thesis by (simp add: isqrt.simps [of 0])
  next
    case False
    define r where "r = isqrt (n div 4)"
    have IH: "0 \<le> r" "r * r \<le> n div 4" "n div 4 < (r + 1) * (r + 1)"
      using 1 False by (auto simp: r_def)
    have lo: "(2 * r) * (2 * r) \<le> n" using IH(2) by (auto simp: algebra_simps)
    have "n div 4 + 1 \<le> (r + 1) * (r + 1)" using IH(3) by simp
    then have hi: "n < (2 * r + 2) * (2 * r + 2)" by (auto simp: algebra_simps)
    have eq: "isqrt n = (if (2 * r + 1) * (2 * r + 1) \<le> n then 2 * r + 1 else 2 * r)"
      using False by (simp add: isqrt.simps [of n] r_def isqrt_step_def)
    show ?thesis using IH(1) lo hi by (auto simp: eq algebra_simps)
  qed
qed

lemma is_fin_cases: "is_fin a \<Longrightarrow> (a = NZero \<Longrightarrow> P) \<Longrightarrow> (\<And>r. a = Fin r \<Longrightarrow> P) \<Longrightarrow> P"
  by (cases a) auto

lemma is_fin_not_special: "is_fin a \<Longrightarrow> a \<noteq> NaN \<and> a \<noteq> PInf \<and> a \<noteq> NInf"
  by (cases a) auto

lemma flt_fin [simp]: "is_fin a \<Longrightarrow> is_fin b \<Longrightarrow> flt a b \<longleftrightarrow> fval a < fval b"
  by (auto simp: flt_def dest: is_fin_not_special)

lemma feq_fin [simp]: "is_fin a \<Longrightarrow> is_fin b \<Longrightarrow> feq a b \<longleftrightarrow> fval a = fval b"
  by (cases a; cases b) (auto simp: feq_def)

lemma fle_fin [simp]: "is_fin a \<Longrightarrow> is_fin b \<Longrightarrow> fle a b \<longleftrightarrow> fval a \<le> fval b"
  by (auto simp: fle_def)

lemma is_fin_fneg [simp]: "is_fin (fneg a) = is_fin a"
  by (cases a) auto

lemma fval_fneg [simp]: "fval (fneg a) = - fval a"
  by (cases a) auto

definition in_rng :: "rat \<Rightarrow> rat \<Rightarrow> gofloat \<Rightarrow> bool" where
  "in_rng lo hi a \<longleftrightarrow> is_fin a \<and> lo \<le> fval a \<and> fval a \<le> hi"

lemma in_rng_weaken: "in_rng a b x \<Longrightarrow> c \<le> a \<Longrightarrow> b \<le> d \<Longrightarrow> in_rng c d x"
  by (auto simp: in_rng_def)

lemma mk_fin: "\<bar>rv f x\<bar> \<le> fmax f \<Longrightarrow> is_fin (mk f n x) \<and> fval (mk f n x) = rv f x"
  by (auto simp: mk_def mk_sel_def)

lemma mk_in_rng:
  assumes "lo \<le> x" "x \<le> hi" "- fmax f \<le> rv f lo" "rv f hi \<le> fmax f"
  shows "in_rng (rv f lo) (rv f hi) (mk f n x)"
proof -
  have "rv f lo \<le> rv f x" "rv f x \<le> rv f hi" using assms by (auto intro: rv_mono)
  with assms have "\<bar>rv f x\<bar> \<le> fmax f" by auto
  from mk_fin [OF this, of n] show ?thesis
    using \<open>rv f lo \<le> rv f x\<close> \<open>rv f x \<le> rv f hi\<close> by (simp add: in_rng_def)
qed

lemma fadd_in_rng:
  assumes "in_rng a b x" "in_rng c d y" "- fmax f \<le> rv f (a + c)" "rv f (b + d) \<le> fmax f"
  shows "in_rng (rv f (a + c)) (rv f (b + d)) (fadd f x y)"
proof -
  have "fadd f x y = mk f (x = NZero \<and> y = NZero) (fval x + fval y)"
    using assms(1,2) by (auto simp: fadd_def in_rng_def dest!: is_fin_not_special)
  moreover have "a + c \<le> fval x + fval y" "fval x + fval y \<le> b + d"
    using assms(1,2) by (auto simp: in_rng_def)
  ultimately show ?thesis using assms(3,4) mk_in_rng by metis
qed

lemma fmul_in_rng:
  assumes "in_rng (- a) a x" "in_rng (- b) b y" "rv f (a * b) \<le> fmax f"
  shows "in_rng (- rv f (a * b)) (rv f (a * b)) (fmul f x y)"
proof -
  have "fmul f x y = mk f (sign_bit x \<noteq> sign_bit y) (fval x * fval y)"
    using assms(1,2) by (auto simp: fmul_def in_rng_def Let_def dest!: is_fin_not_special)
  moreover have "\<bar>fval x * fval y\<bar> \<le> a * b"
    using assms(1,2) unfolding abs_mult by (intro mult_mono) (auto simp: in_rng_def)
  then have "- (a * b) \<le> fval x * fval y" "fval x * fval y \<le> a * b" by auto
  moreover have "- fmax f \<le> rv f (- (a * b))" using assms(3) by (simp add: rv_minus)
  ultimately show ?thesis using assms(3) mk_in_rng [of "- (a * b)" "fval x * fval y" "a * b" f] by (simp add: rv_minus)
qed

lemma fmul_in_rng_nonneg:
  assumes "in_rng 0 a x" "in_rng 0 b y" "rv f (a * b) \<le> fmax f"
  shows "in_rng 0 (rv f (a * b)) (fmul f x y)"
proof -
  have "fmul f x y = mk f (sign_bit x \<noteq> sign_bit y) (fval x * fval y)"
    using assms(1,2) by (auto simp: fmul_def in_rng_def Let_def dest!: is_fin_not_special)
  moreover have "0 \<le> fval x * fval y" "fval x * fval y \<le> a * b"
    using assms(1,2) by (auto simp: in_rng_def intro: mult_mono)
  moreover have "- fmax f \<le> rv f 0" by (cases f) simp_all
  ultimately show ?thesis using assms(3) mk_in_rng [of 0 "fval x * fval y" "a * b" f] by simp
qed

section \<open>The types \<open>float32\<close> and \<open>float64\<close>\<close>

datatype f32 = F32 (raw32: gofloat)
datatype f64 = F64 (raw64: gofloat)

instantiation f32 :: "{plus, minus, uminus, times, inverse, ord, zero, one}"
begin
definition plus_f32 :: "f32 \<Rightarrow> f32 \<Rightarrow> f32" where
  "a + b = F32 (fadd Binary32 (raw32 a) (raw32 b))"
definition minus_f32 :: "f32 \<Rightarrow> f32 \<Rightarrow> f32" where
  "a - b = F32 (fadd Binary32 (raw32 a) (fneg (raw32 b)))"
definition uminus_f32 :: "f32 \<Rightarrow> f32" where
  "- a = F32 (fneg (raw32 a))"
definition times_f32 :: "f32 \<Rightarrow> f32 \<Rightarrow> f32" where
  "a * b = F32 (fmul Binary32 (raw32 a) (raw32 b))"
definition zero_f32 :: f32 where "0 = F32 (Fin 0)"
definition one_f32 :: f32 where "1 = F32 (Fin 1)"
definition divide_f32 :: "f32 \<Rightarrow> f32 \<Rightarrow> f32" where
  "a div b = F32 (fdiv Binary32 (raw32 a) (raw32 b))"
definition inverse_f32 :: "f32 \<Rightarrow> f32" where
  "inverse a = F32 (fdiv Binary32 (Fin 1) (raw32 a))"
definition less_f32 :: "f32 \<Rightarrow> f32 \<Rightarrow> bool" where
  "a < b \<longleftrightarrow> flt (raw32 a) (raw32 b)"
definition less_eq_f32 :: "f32 \<Rightarrow> f32 \<Rightarrow> bool" where
  "a \<le> b \<longleftrightarrow> fle (raw32 a) (raw32 b)"
instance ..
end

instantiation f64 :: "{plus, minus, uminus, times, inverse, ord, zero, one}"
begin
definition plus_f64 :: "f64 \<Rightarrow> f64 \<Rightarrow> f64" where
  "a + b = F64 (fadd Binary64 (raw64 a) (raw64 b))"
definition minus_f64 :: "f64 \<Rightarrow> f64 \<Rightarrow> f64" where
  "a - b = F64 (fadd Binary64 (raw64 a) (fneg (raw64 b)))"
definition uminus_f64 :: "f64 \<Rightarrow> f64" where
  "- a = F64 (fneg (raw64 a))"
definition times_f64 :: "f64 \<Rightarrow> f64 \<Rightarrow> f64" where
  "a * b = F64 (fmul Binary64 (raw64 a) (raw64 b))"
definition zero_f64 :: f64 where "0 = F64 (Fin 0)"
definition one_f64 :: f64 where "1 = F64 (Fin 1)"
definition divide_f64 :: "f64 \<Rightarrow> f64 \<Rightarrow> f64" where
  "a div b = F64 (fdiv Binary64 (raw64 a) (raw64 b))"
definition inverse_f64 :: "f64 \<Rightarrow> f64" where
  "inverse a = F64 (fdiv Binary64 (Fin 1) (raw64 a))"
definition less_f64 :: "f64 \<Rightarrow> f64 \<Rightarrow> bool" where
  "a < b \<longleftrightarrow> flt (raw64 a) (raw64 b)"
definition less_eq_f64 :: "f64 \<Rightarrow> f64 \<Rightarrow> bool" where
  "a \<le> b \<longleftrightarrow> fle (raw64 a) (raw64 b)"
instance ..
end

definition c32 :: "rat \<Rightarrow> f32" where "c32 r = F32 (mk Binary32 False r)"
definition c64 :: "rat \<Rightarrow> f64" where "c64 r = F64 (mk Binary64 False r)"
definition eq32 :: "f32 \<Rightarrow> f32 \<Rightarrow> bool" where "eq32 a b = feq (raw32 a) (raw32 b)"
definition f64_of :: "f32 \<Rightarrow> f64" where "f64_of a = F64 (cvt Binary64 (raw32 a))"
definition f32_of :: "f64 \<Rightarrow> f32" where "f32_of a = F32 (cvt Binary32 (raw64 a))"
definition f32_of_int :: "int \<Rightarrow> f32" where "f32_of_int i = c32 (of_int i)"
definition f64_of_int :: "int \<Rightarrow> f64" where "f64_of_int i = c64 (of_int i)"
definition sqrt64 :: "f64 \<Rightarrow> f64" where "sqrt64 a = F64 (fsqrt Binary64 (raw64 a))"
definition sqrt32 :: "f32 \<Rightarrow> f32" where "sqrt32 a = f32_of (sqrt64 (f64_of a))"
definition int_of_f32 :: "f32 \<Rightarrow> int" where "int_of_f32 a = f_to_int (raw32 a)"

section \<open>Intervals and lower bounds\<close>

lemma cvt_in_rng:
  assumes "in_rng a b x" "- fmax f \<le> rv f a" "rv f b \<le> fmax f"
  shows "in_rng (rv f a) (rv f b) (cvt f x)"
proof (cases x)
  case NZero
  have "rv f a \<le> 0" "0 \<le> rv f b"
    using assms(1) NZero rv_mono [of a 0 f] rv_mono [of 0 b f] by (auto simp: in_rng_def)
  then show ?thesis using NZero by (simp add: in_rng_def)
next
  case (Fin r)
  with assms(1) have "a \<le> r" "r \<le> b" by (auto simp: in_rng_def)
  from mk_in_rng [OF this assms(2,3)] Fin show ?thesis by simp
qed (use assms in \<open>auto simp: in_rng_def\<close>)

lemma fdiv_in_rng:
  assumes "is_fin x" "is_fin y" "fval y \<noteq> 0" "\<bar>fval x\<bar> \<le> c * \<bar>fval y\<bar>" "rv f c \<le> fmax f"
  shows "in_rng (- rv f c) (rv f c) (fdiv f x y)"
proof -
  have nz: "\<not> is_zero y" using assms(3) by auto
  have eq: "fdiv f x y = mk f (sign_bit x \<noteq> sign_bit y) (fval x / fval y)"
    using assms(1,2) nz by (auto simp: fdiv_def Let_def dest!: is_fin_not_special)
  have "\<bar>fval x / fval y\<bar> \<le> c" using assms(3,4) by (simp add: divide_le_eq)
  then have "- c \<le> fval x / fval y" "fval x / fval y \<le> c" by (simp_all only: abs_le_iff, linarith)
  moreover have "- fmax f \<le> rv f (- c)" using assms(5) by (simp add: rv_minus)
  ultimately show ?thesis using assms(5) mk_in_rng [of "- c" "fval x / fval y" c f] by (simp add: eq rv_minus)
qed

lemma fdiv_inf: "is_fin x \<Longrightarrow> in_rng 0 0 (fdiv f x PInf)"
  by (auto simp: fdiv_def Let_def in_rng_def dest!: is_fin_not_special)

text \<open>At least \<open>c\<close>: a finite value \<open>\<ge> c\<close>, or \<open>+Inf\<close>.\<close>

definition at_least :: "rat \<Rightarrow> gofloat \<Rightarrow> bool" where
  "at_least c a \<longleftrightarrow> a = PInf \<or> is_fin a \<and> c \<le> fval a"

lemma at_least_weaken: "at_least c a \<Longrightarrow> d \<le> c \<Longrightarrow> at_least d a"
  by (auto simp: at_least_def)

lemma fmax_pos: "0 < fmax f"
  by (cases f) simp_all

lemma mk_at_least:
  assumes "c \<le> x" "0 \<le> c"
  shows "at_least (rv f c) (mk f n x)"
proof -
  have "rv f c \<le> rv f x" "0 \<le> rv f c" using assms by (auto intro: rv_mono rv_nonneg)
  then show ?thesis using fmax_pos [of f] by (auto simp: at_least_def mk_def mk_sel_def)
qed

lemma fmul_self_at_least:
  assumes "is_fin x"
  shows "at_least (rv f (fval x * fval x)) (fmul f x x)"
proof -
  have "fmul f x x = mk f False (fval x * fval x)"
    using assms by (auto simp: fmul_def Let_def dest!: is_fin_not_special)
  then show ?thesis using mk_at_least [of "fval x * fval x"] by simp
qed

lemma fadd_at_least:
  assumes "at_least c x" "at_least 0 y" "0 \<le> c"
  shows "at_least (rv f c) (fadd f x y)"
proof (cases "x = PInf \<or> y = PInf")
  case True
  then have "fadd f x y = PInf"
    using assms by (auto simp: fadd_def at_least_def)
  then show ?thesis by (simp add: at_least_def)
next
  case False
  then have "fadd f x y = mk f (x = NZero \<and> y = NZero) (fval x + fval y)"
    using assms by (auto simp: fadd_def at_least_def)
  moreover have "c \<le> fval x + fval y" using False assms by (auto simp: at_least_def)
  ultimately show ?thesis using assms(3) by (simp add: mk_at_least)
qed

lemma fadd_at_least_right:
  assumes "at_least 0 x" "at_least c y" "0 \<le> c"
  shows "at_least (rv f c) (fadd f x y)"
proof -
  have "fadd f x y = fadd f y x"
    by (auto simp: fadd_def ac_simps)
  then show ?thesis using fadd_at_least [OF assms(2,1,3)] by simp
qed

lemma cvt_at_least:
  assumes "at_least c x" "0 \<le> c"
  shows "at_least (rv f c) (cvt f x)"
proof (cases x)
  case NZero
  then have "c = 0" using assms by (simp add: at_least_def)
  then show ?thesis using NZero by (simp add: at_least_def)
next
  case (Fin r)
  with assms have "c \<le> r" by (simp add: at_least_def)
  from mk_at_least [OF this assms(2)] Fin show ?thesis by simp
qed (use assms in \<open>auto simp: at_least_def\<close>)

lemma rv_ge_half:
  assumes "2 powi emin f \<le> c"
  shows "c / 2 \<le> rv f c"
proof -
  have c: "0 < c" using assms powi_pos [of "emin f"] by linarith
  then have b: "2 powi expo c \<le> c" "c < 2 powi (expo c + 1)" using expo_bounds [of c] by auto
  have "\<not> expo c < emin f"
  proof
    assume "expo c < emin f"
    then have "(2 :: rat) powi (expo c + 1) \<le> 2 powi emin f" by (intro powi_mono) simp
    with b assms show False by linarith
  qed
  then have "quantum f c \<le> expo c" using prec_pos [of f] by (simp add: quantum_def)
  from rv_ge_powi [OF c this b(1)] have "2 powi expo c \<le> rv f c" .
  then show ?thesis using b(2) by (simp add: power_int_add)
qed

lemma sqrt_sticky_ge:
  assumes r: "0 < r" and d: "0 \<le> d" "4 * (d * d) \<le> r"
  shows "d \<le> sqrt_sticky f r"
proof -
  define k where "k = int (prec f) + 3 - expo r div 2"
  define y where "y = r * 2 powi (2 * k)"
  define s where "s = isqrt \<lfloor>y\<rfloor>"
  have e: "expo r \<ge> 2 * (expo r div 2)" by simp
  have "(1 :: rat) \<le> 2 powi (expo r + 2 * k)"
    using e power_int_increasing [of 0 "expo r + 2 * k" "2 :: rat"] by (simp add: k_def)
  also have "\<dots> = 2 powi expo r * 2 powi (2 * k)" by (simp add: power_int_add)
  also have "\<dots> \<le> y" unfolding y_def using expo_bounds(1) [of r] r by (intro mult_right_mono) auto
  finally have y1: "1 \<le> y" .
  then have fy: "1 \<le> \<lfloor>y\<rfloor>" by simp
  have sb: "0 \<le> s" "s * s \<le> \<lfloor>y\<rfloor>" "\<lfloor>y\<rfloor> < (s + 1) * (s + 1)"
    using isqrt_bounds [of "\<lfloor>y\<rfloor>"] fy by (auto simp: s_def)
  have s1: "1 \<le> s" using sb fy by (cases "s = 0") auto
  have "\<lfloor>y\<rfloor> + 1 \<le> (s + 1) * (s + 1)" using sb(3) by simp
  also have "\<dots> \<le> (2 * s) * (2 * s)" using s1 by (intro mult_mono) auto
  finally have "y < of_int ((2 * s) * (2 * s))" by linarith
  then have "y \<le> 4 * (of_int s * of_int s)" by simp
  have sq: "(2 :: rat) powi (2 * k) = 2 powi k * 2 powi k" unfolding mult_2 by (rule power_int_add) simp
  have "4 * (d * 2 powi k * (d * 2 powi k)) = 4 * (d * d) * 2 powi (2 * k)"
    unfolding sq by simp
  also have "\<dots> \<le> y" unfolding y_def using d(2) by (intro mult_right_mono) auto
  finally have "(d * 2 powi k) * (d * 2 powi k) \<le> of_int s * of_int s"
    using \<open>y \<le> 4 * (of_int s * of_int s)\<close> by simp
  then have ds: "d * 2 powi k \<le> of_int s"
    using s1 d(1) by (metis abs_le_square_iff abs_of_nonneg of_int_0_le_iff order_trans mult_nonneg_nonneg
        power2_eq_square sb(1) zero_le_one less_imp_le powi_pos)
  have "of_int s \<le> sticky y s" by (simp add: sticky_def)
  with ds have "d * 2 powi k \<le> sticky y s" by linarith
  then have "d \<le> sticky y s * 2 powi (- k)"
    by (simp add: power_int_minus field_simps)
  then show ?thesis by (simp add: sqrt_sticky_def sqrt_at_def sqrt_scaled_def k_def y_def s_def)
qed

lemma fsqrt_at_least:
  assumes "at_least c x" "0 \<le> d" "4 * (d * d) \<le> c" "0 < c"
  shows "at_least (rv f d) (fsqrt f x)"
proof (cases x)
  case (Fin r)
  with assms have "0 < r" "4 * (d * d) \<le> r" by (auto simp: at_least_def)
  with assms(2) have "d \<le> sqrt_sticky f r" by (intro sqrt_sticky_ge)
  then show ?thesis using Fin \<open>0 < r\<close> assms(2) by (auto intro!: mk_at_least)
qed (use assms in \<open>auto simp: at_least_def\<close>)

lemma fsqrt_nonneg:
  assumes "at_least 0 x"
  shows "at_least 0 (fsqrt f x)"
proof (cases x)
  case (Fin r)
  then show ?thesis
    using assms sqrt_sticky_ge [of r 0 f] mk_at_least [of 0 "sqrt_sticky f r" f False]
    by (auto simp: at_least_def)
qed (use assms in \<open>auto simp: at_least_def\<close>)

section \<open>The operators of the two types\<close>

lemma raw32_ops:
  "raw32 (a + b) = fadd Binary32 (raw32 a) (raw32 b)"
  "raw32 (a - b) = fadd Binary32 (raw32 a) (fneg (raw32 b))"
  "raw32 (- a) = fneg (raw32 a)"
  "raw32 (a * b) = fmul Binary32 (raw32 a) (raw32 b)"
  "raw32 (a / b) = fdiv Binary32 (raw32 a) (raw32 b)"
  "raw32 0 = Fin 0" "raw32 1 = Fin 1" "raw32 (c32 r) = mk Binary32 False r"
  "raw32 (f32_of x) = cvt Binary32 (raw64 x)"
  "raw32 (sqrt32 a) = cvt Binary32 (fsqrt Binary64 (cvt Binary64 (raw32 a)))"
  by (simp_all add: plus_f32_def minus_f32_def uminus_f32_def times_f32_def divide_f32_def
      zero_f32_def one_f32_def c32_def f32_of_def sqrt32_def sqrt64_def f64_of_def)

lemma raw64_ops:
  "raw64 (x + y) = fadd Binary64 (raw64 x) (raw64 y)"
  "raw64 (x - y) = fadd Binary64 (raw64 x) (fneg (raw64 y))"
  "raw64 (- x) = fneg (raw64 x)"
  "raw64 (x * y) = fmul Binary64 (raw64 x) (raw64 y)"
  "raw64 (x / y) = fdiv Binary64 (raw64 x) (raw64 y)"
  "raw64 0 = Fin 0" "raw64 1 = Fin 1" "raw64 (c64 r) = mk Binary64 False r"
  "raw64 (f64_of a) = cvt Binary64 (raw32 a)"
  "raw64 (sqrt64 x) = fsqrt Binary64 (raw64 x)"
  by (simp_all add: plus_f64_def minus_f64_def uminus_f64_def times_f64_def divide_f64_def
      zero_f64_def one_f64_def c64_def f64_of_def sqrt64_def)

abbreviation fin32 :: "f32 \<Rightarrow> bool" where "fin32 a \<equiv> is_fin (raw32 a)"
abbreviation val32 :: "f32 \<Rightarrow> rat" where "val32 a \<equiv> fval (raw32 a)"
abbreviation in32 :: "rat \<Rightarrow> rat \<Rightarrow> f32 \<Rightarrow> bool" where "in32 lo hi a \<equiv> in_rng lo hi (raw32 a)"

lemma less32: "fin32 a \<Longrightarrow> fin32 b \<Longrightarrow> a < b \<longleftrightarrow> val32 a < val32 b"
  by (simp add: less_f32_def)

lemma le32: "fin32 a \<Longrightarrow> fin32 b \<Longrightarrow> a \<le> b \<longleftrightarrow> val32 a \<le> val32 b"
  by (simp add: less_eq_f32_def)

text \<open>A literal that the format represents exactly is itself.\<close>

lemma mk_exact: "rv f r = r \<Longrightarrow> \<bar>r\<bar> \<le> fmax f \<Longrightarrow> mk f False r = Fin r"
  by (auto simp: mk_def mk_sel_def)

end
