(* ===== verification/Go_Runtime.thy ===== *)
theory Go_Runtime
  imports Go_Float
begin

text \<open>
  What the server uses of the Go run-time system and standard library beside floating-point
  arithmetic: the clock (package \<open>time\<close>), the two random sources (\<open>crypto/rand\<close> and
  \<open>math/rand\<close>), hexadecimal identifiers (\<open>newID\<close> of \<open>server_util.go\<close>), and the environment
  in which one operation runs.
\<close>

section \<open>Time\<close>

text \<open>
  A \<open>time.Time\<close> is the number of nanoseconds since the zero time (January 1, year 1), a
  \<open>time.Duration\<close> a 64-bit number of nanoseconds. \<open>Sub\<close> saturates.
\<close>

type_synonym gotime = int
type_synonym duration = int

definition zero_time :: gotime where "zero_time = 0"

definition is_zero_time :: "gotime \<Rightarrow> bool" where "is_zero_time t \<longleftrightarrow> t = 0"

definition time_sub :: "gotime \<Rightarrow> gotime \<Rightarrow> duration" where
  "time_sub a b = max (- (2 ^ 63)) (min (2 ^ 63 - 1) (a - b))"

definition time_add :: "gotime \<Rightarrow> duration \<Rightarrow> gotime" where
  "time_add t d = t + d"

definition millisecond :: duration where "millisecond = 1000000"
definition second :: duration where "second = 1000000000"

definition unix_epoch :: gotime where "unix_epoch = 62135596800000000000"

definition unix_milli :: "gotime \<Rightarrow> int" where
  "unix_milli t = (t - unix_epoch) div 1000000"

lemma time_sub_less: "d \<le> 2 ^ 63 - 1 \<Longrightarrow> - (2 ^ 63) < d \<Longrightarrow> time_sub a b < d \<longleftrightarrow> a - b < d"
  by (auto simp: time_sub_def)

lemma time_sub_ge: "d \<le> 2 ^ 63 - 1 \<Longrightarrow> - (2 ^ 63) < d \<Longrightarrow> d \<le> time_sub a b \<longleftrightarrow> d \<le> a - b"
  by (auto simp: time_sub_def)

lemma time_sub_gt: "d < 2 ^ 63 - 1 \<Longrightarrow> - (2 ^ 63) \<le> d \<Longrightarrow> d < time_sub a b \<longleftrightarrow> d < a - b"
  by (auto simp: time_sub_def)

section \<open>Randomness\<close>

text \<open>
  \<open>crypto/rand\<close> is an infinite stream of bytes, read from a position; \<open>math/rand\<close> is a
  stream of draws, of which \<open>Float32\<close> and \<open>Intn\<close> take one each.
\<close>

record rng =
  crypto :: "nat \<Rightarrow> 8 word"
  cpos :: nat
  mfloat :: "nat \<Rightarrow> f32"
  mint :: "nat \<Rightarrow> nat"
  mpos :: nat

definition rand_read :: "nat \<Rightarrow> rng \<Rightarrow> 8 word list \<times> rng" where
  "rand_read n r = (map (\<lambda>i. crypto r (cpos r + i)) [0..<n], r\<lparr>cpos := cpos r + n\<rparr>)"

definition mrand_float32 :: "rng \<Rightarrow> f32 \<times> rng" where
  "mrand_float32 r = (mfloat r (mpos r), r\<lparr>mpos := mpos r + 1\<rparr>)"

definition mrand_intn :: "nat \<Rightarrow> rng \<Rightarrow> nat \<times> rng" where
  "mrand_intn n r = (mint r (mpos r) mod n, r\<lparr>mpos := mpos r + 1\<rparr>)"

text \<open>\<open>hex.EncodeToString\<close>: two lower-case hexadecimal digits per byte.\<close>

definition hex_digit :: "nat \<Rightarrow> char" where
  "hex_digit n = ''0123456789abcdef'' ! n"

definition hex_byte :: "8 word \<Rightarrow> string" where
  "hex_byte b = [hex_digit (unat b div 16), hex_digit (unat b mod 16)]"

definition hex_encode :: "8 word list \<Rightarrow> string" where
  "hex_encode bs = concat (map hex_byte bs)"

text \<open>\<open>newID\<close>: eight random bytes in hexadecimal.\<close>

definition newID :: "rng \<Rightarrow> string \<times> rng" where
  "newID r = (case rand_read 8 r of (bs, r') \<Rightarrow> (hex_encode bs, r'))"

lemma hex_digit_inj: "a < 16 \<Longrightarrow> b < 16 \<Longrightarrow> hex_digit a = hex_digit b \<longleftrightarrow> a = b"
proof -
  assume "a < 16" "b < 16"
  moreover have "distinct ''0123456789abcdef''" by simp
  moreover have "length ''0123456789abcdef'' = 16" by simp
  ultimately show ?thesis unfolding hex_digit_def by (metis nth_eq_iff_index_eq)
qed

lemma hex_byte_inj: "hex_byte a = hex_byte b \<longleftrightarrow> a = b"
proof
  assume eq: "hex_byte a = hex_byte b"
  have u: "unat x < 256" for x :: "8 word" using unsigned_less [of x, where ?'a = nat] by simp
  have d: "unat x div 16 < 16" for x :: "8 word" using u [of x] by simp
  from eq have "unat a div 16 = unat b div 16" "unat a mod 16 = unat b mod 16"
    by (simp_all add: hex_byte_def hex_digit_inj d)
  then have "unat a = unat b" by (metis div_mod_decomp)
  then show "a = b" by (rule unsigned_word_eqI)
qed simp

lemma length_hex_encode [simp]: "length (hex_encode bs) = 2 * length bs"
  by (induction bs) (auto simp: hex_encode_def hex_byte_def)

lemma hex_encode_inj: "length as = length bs \<Longrightarrow> hex_encode as = hex_encode bs \<longleftrightarrow> as = bs"
proof (induction as bs rule: list_induct2)
  case (Cons a as b bs)
  have "hex_encode (a # as) = hex_encode (b # bs) \<longleftrightarrow>
      hex_byte a = hex_byte b \<and> hex_encode as = hex_encode bs"
    by (auto simp: hex_encode_def hex_byte_def)
  then show ?case using Cons.IH by (simp add: hex_byte_inj)
qed simp

lemma newID_length: "length (fst (newID r)) = 16"
  by (simp add: newID_def rand_read_def)

lemma newID_nonempty: "fst (newID r) \<noteq> ''''"
  using newID_length [of r] by fastforce

text \<open>Two identifiers agree exactly when the bytes drawn for them agree.\<close>

lemma newID_eq_iff:
  "fst (newID r) = fst (newID r') \<longleftrightarrow> (\<forall>i<8. crypto r (cpos r + i) = crypto r' (cpos r' + i))"
  by (auto simp: newID_def rand_read_def hex_encode_inj)

section \<open>The environment of an operation\<close>

text \<open>
  The transcendental functions of package \<open>math\<close> (Go does not promise the same last bits on
  every platform), the clock reading of the operation, and the order of its map ranges.
\<close>

record env =
  m_sin :: "f64 \<Rightarrow> f64"
  m_cos :: "f64 \<Rightarrow> f64"
  m_acos :: "f64 \<Rightarrow> f64"
  m_exp :: "f64 \<Rightarrow> f64"
  e_now :: gotime
  e_ord :: range_oracle

text \<open>What the documentation of \<open>math.Sin\<close> and \<open>math.Cos\<close> promises on finite arguments.\<close>

definition math_ok :: "env \<Rightarrow> bool" where
  "math_ok E \<longleftrightarrow> (\<forall>x. is_fin (raw64 x) \<longrightarrow>
     in_rng (- 1) 1 (raw64 (m_sin E x)) \<and> in_rng (- 1) 1 (raw64 (m_cos E x)))"

end
