(* ===== verification/Protocol.thy ===== *)
theory Protocol
  imports Go_Runtime
begin

text \<open>
  The data of \<open>internal/shared/protocol\<close>: the message tags of \<open>messages.go\<close>, the payload and
  snapshot structs of \<open>messages_player.go\<close>, \<open>messages_world.go\<close>, \<open>messages_industry.go\<close>,
  \<open>messages_rocket.go\<close> and \<open>messages_snapshot.go\<close>, and the constants of \<open>constants.go\<close>. Go's
  \<open>int\<close>, \<open>int32\<close> and \<open>int64\<close> fields are HOL integers, \<open>uint64\<close> is a 64-bit word, \<open>float32\<close>
  is \<open>f32\<close>.
\<close>

section \<open>Message tags\<close>

datatype msg_type =
    TypeHello
  | TypeWelcome
  | TypeState
  | TypeSnapshot
  | TypeChat
  | TypePing
  | TypePong
  | TypePickupItem
  | TypeInventoryUpdate
  | TypeEatFruit
  | TypeThrowSpear
  | TypeCraftItem
  | TypeHitMammoth
  | TypePlantSeed
  | TypeWaterPlant
  | TypeTakeWater
  | TypeTameMammoth
  | TypeSelectItem
  | TypeLeashMammoth
  | TypePlaceHouse
  | TypePlaceSolar
  | TypePlaceBattery
  | TypePlaceFactory
  | TypeToggleDoor
  | TypeSaddleMammoth
  | TypeRideMammoth
  | TypePlaceBoat
  | TypeEnterBoat
  | TypeHitMob
  | TypeAcceptContract
  | TypeOpenFactory
  | TypeCraftFactory
  | TypePlaceRocket
  | TypeBoardRocket
  | TypeExitRocket
  | TypeRocketInput
  | TypeTeleport

fun tag :: "msg_type \<Rightarrow> string" where
  "tag TypeHello = ''hello''"
| "tag TypeWelcome = ''welcome''"
| "tag TypeState = ''state''"
| "tag TypeSnapshot = ''snapshot''"
| "tag TypeChat = ''chat''"
| "tag TypePing = ''ping''"
| "tag TypePong = ''pong''"
| "tag TypePickupItem = ''pickup_item''"
| "tag TypeInventoryUpdate = ''inventory_update''"
| "tag TypeEatFruit = ''eat_fruit''"
| "tag TypeThrowSpear = ''throw_spear''"
| "tag TypeCraftItem = ''craft_item''"
| "tag TypeHitMammoth = ''hit_mammoth''"
| "tag TypePlantSeed = ''plant_seed''"
| "tag TypeWaterPlant = ''water_plant''"
| "tag TypeTakeWater = ''take_water''"
| "tag TypeTameMammoth = ''tame_mammoth''"
| "tag TypeSelectItem = ''select_item''"
| "tag TypeLeashMammoth = ''leash_mammoth''"
| "tag TypePlaceHouse = ''place_house''"
| "tag TypePlaceSolar = ''place_solar''"
| "tag TypePlaceBattery = ''place_battery''"
| "tag TypePlaceFactory = ''place_factory''"
| "tag TypeToggleDoor = ''toggle_door''"
| "tag TypeSaddleMammoth = ''saddle_mammoth''"
| "tag TypeRideMammoth = ''ride_mammoth''"
| "tag TypePlaceBoat = ''place_boat''"
| "tag TypeEnterBoat = ''enter_boat''"
| "tag TypeHitMob = ''hit_mob''"
| "tag TypeAcceptContract = ''accept_contract''"
| "tag TypeOpenFactory = ''open_factory''"
| "tag TypeCraftFactory = ''craft_factory''"
| "tag TypePlaceRocket = ''place_rocket''"
| "tag TypeBoardRocket = ''board_rocket''"
| "tag TypeExitRocket = ''exit_rocket''"
| "tag TypeRocketInput = ''rocket_input''"
| "tag TypeTeleport = ''teleport''"

definition all_types :: "msg_type list" where
  "all_types = [TypeHello, TypeWelcome, TypeState, TypeSnapshot, TypeChat, TypePing, TypePong, TypePickupItem, TypeInventoryUpdate, TypeEatFruit, TypeThrowSpear, TypeCraftItem, TypeHitMammoth, TypePlantSeed, TypeWaterPlant, TypeTakeWater, TypeTameMammoth, TypeSelectItem, TypeLeashMammoth, TypePlaceHouse, TypePlaceSolar, TypePlaceBattery, TypePlaceFactory, TypeToggleDoor, TypeSaddleMammoth, TypeRideMammoth, TypePlaceBoat, TypeEnterBoat, TypeHitMob, TypeAcceptContract, TypeOpenFactory, TypeCraftFactory, TypePlaceRocket, TypeBoardRocket, TypeExitRocket, TypeRocketInput, TypeTeleport]"

text \<open>The tag of an envelope, looked up among the known ones.\<close>

definition type_of_tag :: "string \<Rightarrow> msg_type option" where
  "type_of_tag t = List.find (\<lambda>ty. tag ty = t) all_types"

record Vector3 =
  v_X :: f32
  v_Y :: f32
  v_Z :: f32

section \<open>\<open>messages_player.go\<close>\<close>

record Hello =
  hello_Nick :: string
  hello_Version :: string
  hello_ColorHex :: string

record Welcome =
  welcome_PlayerID :: string
  welcome_WorldName :: string
  welcome_TickRate :: int
  welcome_ServerVersion :: string

record PlayerState =
  ps_ID :: string
  ps_Nick :: string
  ps_X :: f32
  ps_Y :: f32
  ps_Z :: f32
  ps_Yaw :: f32
  ps_Pitch :: f32
  ps_Hunger :: f32
  ps_HP :: int
  ps_RTTms :: int
  ps_ColorHex :: string

record Teleport =
  tp_X :: f32
  tp_Y :: f32
  tp_Z :: f32

record ChatMessage =
  chat_From :: string
  chat_Text :: string
  chat_TS :: int

record Ping =
  ping_Sent :: int

record Pong =
  pong_Sent :: int
  pong_ServerTS :: int

record SelectItem =
  sel_Item :: string

record InventoryUpdate =
  iu_Items :: "int gomap"

record PickupItem =
  pick_ResourceID :: string

section \<open>\<open>messages_world.go\<close>\<close>

record Resource =
  res_ID :: string
  res_Type :: string
  res_X :: f32
  res_Y :: f32
  res_Z :: f32
  res_Watered :: bool
  res_GrowAt :: int

record Well =
  well_ID :: string
  well_X :: f32
  well_Y :: f32
  well_Z :: f32

record TakeWater =
  tw_WellID :: string

record PlantSeed =
  plant_X :: f32
  plant_Y :: f32
  plant_Z :: f32

record WaterPlant =
  wp_ResourceID :: string

record PMammoth =
  pmam_ID :: string
  pmam_X :: f32
  pmam_Y :: f32
  pmam_Z :: f32
  pmam_HP :: int
  pmam_Tamed :: bool
  pmam_Sex :: string
  pmam_FedCount :: int
  pmam_Baby :: bool
  pmam_LeashedTo :: string
  pmam_Saddle :: bool
  pmam_RiderID :: string

record TameMammoth =
  tame_MammothID :: string

record LeashMammoth =
  leash_MammothID :: string

record SaddleMammoth =
  sad_MammothID :: string

record RideMammoth =
  ride_MammothID :: string

record PMob =
  pmob_ID :: string
  pmob_X :: f32
  pmob_Y :: f32
  pmob_Z :: f32
  pmob_HP :: int
  pmob_Kind :: string
  pmob_Contract :: string
  pmob_OwnerID :: string

record HitMob =
  hmob_MobID :: string

record AcceptContract =
  acc_MobID :: string
  acc_ContractID :: string

record PHouse =
  phouse_ID :: string
  phouse_X :: f32
  phouse_Y :: f32
  phouse_Z :: f32
  phouse_Yaw :: f32
  phouse_DoorOpen :: bool

record PlaceHouse =
  plh_X :: f32
  plh_Y :: f32
  plh_Z :: f32
  plh_Yaw :: f32

record ToggleDoor =
  td_HouseID :: string

record PBoat =
  pboat_ID :: string
  pboat_X :: f32
  pboat_Y :: f32
  pboat_Z :: f32
  pboat_Yaw :: f32
  pboat_RiderID :: string

record PlaceBoat =
  plb_X :: f32
  plb_Y :: f32
  plb_Z :: f32
  plb_Yaw :: f32

record EnterBoat =
  eb_BoatID :: string

section \<open>\<open>messages_industry.go\<close>\<close>

record PSolar =
  psolar_ID :: string
  psolar_X :: f32
  psolar_Y :: f32
  psolar_Z :: f32
  psolar_Yaw :: f32

record PlaceSolar =
  pls_X :: f32
  pls_Y :: f32
  pls_Z :: f32
  pls_Yaw :: f32

record PBattery =
  pbat_ID :: string
  pbat_X :: f32
  pbat_Y :: f32
  pbat_Z :: f32
  pbat_Yaw :: f32
  pbat_Energy :: int
  pbat_MaxEnergy :: int

record PlaceBattery =
  plbat_X :: f32
  plbat_Y :: f32
  plbat_Z :: f32
  plbat_Yaw :: f32

record PFactory =
  pfac_ID :: string
  pfac_X :: f32
  pfac_Y :: f32
  pfac_Z :: f32
  pfac_Yaw :: f32
  pfac_Crafting :: string
  pfac_Progress :: int

record PlaceFactory =
  plf_X :: f32
  plf_Y :: f32
  plf_Z :: f32
  plf_Yaw :: f32

record OpenFactory =
  of_FactoryID :: string

record CraftFactory =
  cf_FactoryID :: string
  cf_Recipe :: string

section \<open>\<open>messages_rocket.go\<close>\<close>

record PRocket =
  prock_ID :: string
  prock_X :: f32
  prock_Y :: f32
  prock_Z :: f32
  prock_DX :: f32
  prock_DY :: f32
  prock_DZ :: f32
  prock_Fuel :: int
  prock_MaxFuel :: int
  prock_Piloted :: bool
  prock_OwnerID :: string
  prock_InOrbit :: bool
  prock_Apoapsis :: f32
  prock_Periapsis :: f32
  prock_Speed :: f32
  prock_Altitude :: f32
  prock_TargetVelocity :: f32
  prock_VX :: f32
  prock_VY :: f32
  prock_VZ :: f32
  prock_PrimaryBody :: string
  prock_DistSun :: f32
  prock_SOIRadius :: f32

record PlaceRocket =
  plr_X :: f32
  plr_Y :: f32
  plr_Z :: f32

record BoardRocket =
  br_RocketID :: string

record RocketInput =
  ri_Thrust :: f32
  ri_TargetUpX :: f32
  ri_TargetUpY :: f32
  ri_TargetUpZ :: f32
  ri_AutoPilot :: string

section \<open>\<open>messages_snapshot.go\<close>\<close>

record ThrowSpear =
  ts_Dir :: Vector3

record CraftItem =
  ci_Recipe :: string

record HitMammoth =
  hm_MammothID :: string

record MobProjectile =
  pproj_ID :: string
  pproj_X :: f32
  pproj_Y :: f32
  pproj_Z :: f32
  pproj_DX :: f32
  pproj_DY :: f32
  pproj_DZ :: f32

record Snapshot =
  snap_Tick :: "64 word"
  snap_Players :: "PlayerState list"
  snap_Resources :: "Resource list"
  snap_Mammoths :: "PMammoth list"
  snap_Wells :: "Well list"
  snap_Houses :: "PHouse list"
  snap_Boats :: "PBoat list"
  snap_Mobs :: "PMob list"
  snap_Projectiles :: "MobProjectile list"
  snap_Solar :: "PSolar list"
  snap_Batteries :: "PBattery list"
  snap_Factories :: "PFactory list"
  snap_Rockets :: "PRocket list"
  snap_EarthPos :: Vector3
  snap_EarthVel :: Vector3
  snap_Planet2Pos :: Vector3
  snap_Planet2Vel :: Vector3

section \<open>Constants\<close>

definition vec :: "f32 \<Rightarrow> f32 \<Rightarrow> f32 \<Rightarrow> Vector3" where
  "vec x y z = \<lparr>v_X = x, v_Y = y, v_Z = z\<rparr>"

lemma vec_sel [simp]: "v_X (vec x y z) = x" "v_Y (vec x y z) = y" "v_Z (vec x y z) = z"
  by (simp_all add: vec_def)

definition zero_vec :: Vector3 where "zero_vec = vec 0 0 0"

definition SunDistance :: f32 where "SunDistance = c32 5000"
definition SunRadius :: f32 where "SunRadius = c32 250"
definition PlanetRadius :: f32 where "PlanetRadius = c32 50"
definition PlayerHeight :: f32 where "PlayerHeight = c32 (3 / 2)"
definition MuEarth :: f32 where "MuEarth = c32 100000"
definition MuSun :: f32 where "MuSun = c32 2000000"
definition SOIEarth :: f32 where "SOIEarth = c32 400"
definition Star2Distance :: f32 where "Star2Distance = c32 30000"
definition Star2Radius :: f32 where "Star2Radius = c32 180"
definition MuStar2 :: f32 where "MuStar2 = c32 1500000"
definition Planet2OrbitRadius :: f32 where "Planet2OrbitRadius = c32 3000"
definition Planet2Radius :: f32 where "Planet2Radius = c32 60"
definition MuPlanet2 :: f32 where "MuPlanet2 = c32 150000"
definition SOIPlanet2 :: f32 where "SOIPlanet2 = c32 500"

text \<open>\<open>x*x + y*y + z*z\<close> and its root, as the code writes them everywhere.\<close>

definition sq3 :: "f32 \<Rightarrow> f32 \<Rightarrow> f32 \<Rightarrow> f32" where
  "sq3 x y z = x * x + y * y + z * z"

definition len3 :: "f32 \<Rightarrow> f32 \<Rightarrow> f32 \<Rightarrow> f32" where
  "len3 x y z = sqrt32 (sq3 x y z)"

definition vlen :: "Vector3 \<Rightarrow> f32" where
  "vlen v = len3 (v_X v) (v_Y v) (v_Z v)"

text \<open>\<open>Vector3{X: d.X / l * dist, ...}\<close> for a direction \<open>d\<close> of length \<open>l\<close>.\<close>

definition along :: "Vector3 \<Rightarrow> f32 \<Rightarrow> f32 \<Rightarrow> Vector3" where
  "along d l r = vec (v_X d / l * r) (v_Y d / l * r) (v_Z d / l * r)"

definition SunDirection :: Vector3 where
  "SunDirection = vec (c32 (70 / 100)) (c32 0) (c32 (70 / 100))"

definition SunPos :: Vector3 where
  "SunPos = along SunDirection (vlen SunDirection) SunDistance"

definition Star2Direction :: Vector3 where
  "Star2Direction = vec (c32 (- 707 / 1000)) (c32 0) (c32 (- 707 / 1000))"

definition Star2Pos :: Vector3 where
  "Star2Pos = along Star2Direction (vlen Star2Direction) Star2Distance"

section \<open>Tags\<close>

lemma type_of_tag_tag [simp]: "type_of_tag (tag t) = Some t"
  by (cases t) (simp_all add: type_of_tag_def all_types_def)

lemma tag_inj: "tag a = tag b \<longleftrightarrow> a = b"
  by (metis option.inject type_of_tag_tag)

lemma type_of_tag_Some: "type_of_tag s = Some t \<longleftrightarrow> s = tag t"
  by (metis (mono_tags, lifting) find_Some_iff type_of_tag_def type_of_tag_tag)

end
