(* ===== verification/Terrain.thy ===== *)
theory Terrain
  imports Protocol
begin

text \<open>
  The planet's surface, \<open>internal/shared/protocol/terrain.go\<close>, and the first facts that every
  component placing something on it relies on: on finite coordinates the relief stays within
  twelve units of \<open>PlanetRadius\<close>, so the surface radius is between the sea level 52 and 62.
\<close>

definition SeaLevel :: f32 where "SeaLevel = c32 52"
definition MaxRelief :: f32 where "MaxRelief = c32 12"

definition TerrainHeight :: "env \<Rightarrow> f32 \<Rightarrow> f32 \<Rightarrow> f32 \<Rightarrow> f32" where
  "TerrainHeight E nx ny nz =
    PlanetRadius +
     (f32_of (m_sin E (f64_of (nx * c32 (31 / 10))) * m_cos E (f64_of (ny * c32 (27 / 10)))
        * m_sin E (f64_of (nz * c32 (33 / 10)))) * MaxRelief * c32 (6 / 10)
      + f32_of (m_sin E (f64_of (nx * c32 (73 / 10) + ny * c32 (51 / 10)))
        * m_cos E (f64_of (nz * c32 (67 / 10)))) * MaxRelief * c32 (3 / 10)
      + f32_of (m_cos E (f64_of (nx * c32 (115 / 10) + ny * c32 (131 / 10) + nz * c32 (97 / 10))))
        * MaxRelief * c32 (1 / 10))"

text \<open>The height of the surface or of the sea in the direction \<open>(x, y, z)\<close> of length \<open>l\<close>.\<close>

definition sea_clamp :: "f32 \<Rightarrow> f32" where
  "sea_clamp h = (if h < SeaLevel then SeaLevel else h)"

definition height_at :: "env \<Rightarrow> Vector3 \<Rightarrow> f32 \<Rightarrow> f32" where
  "height_at E pos l = TerrainHeight E (v_X pos / l) (v_Y pos / l) (v_Z pos / l)"

definition SurfaceRadius_l :: "env \<Rightarrow> Vector3 \<Rightarrow> f32 \<Rightarrow> f32" where
  "SurfaceRadius_l E pos l =
     (if l < c32 (1 / 100) then PlanetRadius else sea_clamp (height_at E pos l))"

definition SurfaceRadius :: "env \<Rightarrow> Vector3 \<Rightarrow> f32" where
  "SurfaceRadius E pos = SurfaceRadius_l E pos (vlen pos)"

definition scale_dir :: "Vector3 \<Rightarrow> f32 \<Rightarrow> f32 \<Rightarrow> Vector3" where
  "scale_dir pos l h = vec (v_X pos / l * h) (v_Y pos / l * h) (v_Z pos / l * h)"

definition ClampToSurface_l :: "env \<Rightarrow> Vector3 \<Rightarrow> f32 \<Rightarrow> Vector3" where
  "ClampToSurface_l E pos l =
     (if l < c32 (1 / 100) then pos else scale_dir pos l (sea_clamp (height_at E pos l)))"

definition ClampToSurface :: "env \<Rightarrow> Vector3 \<Rightarrow> Vector3" where
  "ClampToSurface E pos = ClampToSurface_l E pos (vlen pos)"

abbreviation fin_vec :: "Vector3 \<Rightarrow> bool" where
  "fin_vec v \<equiv> fin32 (v_X v) \<and> fin32 (v_Y v) \<and> fin32 (v_Z v)"

section \<open>Bounds\<close>

lemma c32_exact: "c32 12 = F32 (Fin 12)" "c32 50 = F32 (Fin 50)" "c32 52 = F32 (Fin 52)"
  by code_simp+

lemma c32_tenths: "c32 (6 / 10) = F32 (Fin (5033165 / 8388608))"
  "c32 (3 / 10) = F32 (Fin (10066330 / 33554432))" "c32 (1 / 10) = F32 (Fin (13421773 / 134217728))"
  by code_simp+

lemma rv32_values: "rv Binary32 1 = 1" "rv Binary32 12 = 12" "rv Binary64 1 = 1"
  "rv Binary32 (12 * (5033165 / 8388608)) = 15099495 / 2097152"
  "rv Binary32 (12 * (10066330 / 33554432)) = 15099495 / 4194304"
  "rv Binary32 (12 * (13421773 / 134217728)) = 5033165 / 4194304"
  "rv Binary32 (15099495 / 2097152 + 15099495 / 4194304) = 11324621 / 1048576"
  "rv Binary32 (11324621 / 1048576 + 5033165 / 4194304) = 12"
  "rv Binary32 62 = 62" "rv Binary32 38 = 38" "rv Binary32 32 = 32"
  by code_simp+

lemma relief_term:
  assumes "rv Binary32 (12 * q) = w" "in_rng (- 1) 1 (raw64 x)" "0 \<le> q" "w \<le> 12"
  shows "in32 (- w) w (f32_of x * MaxRelief * F32 (Fin q))"
proof -
  have "in32 (- 1) 1 (f32_of x)"
    using cvt_in_rng [OF assms(2), of Binary32] by (simp add: raw32_ops rv_minus rv32_values)
  moreover have "in32 (- 12) 12 MaxRelief" by (simp add: MaxRelief_def c32_exact in_rng_def)
  ultimately have "in32 (- 12) 12 (f32_of x * MaxRelief)"
    using fmul_in_rng [of 1 "raw32 (f32_of x)" 12 "raw32 MaxRelief" Binary32]
    by (simp add: raw32_ops rv32_values)
  moreover have "in_rng (- q) q (Fin q)" using assms(3) by (simp add: in_rng_def)
  ultimately show ?thesis
    using fmul_in_rng [of 12 "raw32 (f32_of x * MaxRelief)" q "Fin q" Binary32] assms(1,4)
    by (simp add: raw32_ops(4))
qed

lemma mul64_unit:
  assumes "in_rng (- 1) 1 (raw64 x)" "in_rng (- 1) 1 (raw64 y)"
  shows "in_rng (- 1) 1 (raw64 (x * y))"
  using fmul_in_rng [OF assms, of Binary64] by (simp add: raw64_ops rv32_values)

lemma add32_sym:
  assumes "in32 (- a) a x" "in32 (- b) b y" "rv Binary32 (a + b) \<le> fmax Binary32"
  shows "in32 (- rv Binary32 (a + b)) (rv Binary32 (a + b)) (x + y)"
proof -
  have "- fmax Binary32 \<le> rv Binary32 (- a + - b)"
    using assms(3) rv_minus [of Binary32 "a + b"] by simp
  from fadd_in_rng [OF assms(1,2) this assms(3)] show ?thesis
    using rv_minus [of Binary32 "a + b"] by (simp add: raw32_ops)
qed

lemma arg_fin:
  assumes "in32 (- 32) 32 n" "in_rng (- 14) 14 (raw32 c)"
  shows "in32 (- 448) 448 (n * c)"
proof -
  have "rv Binary32 448 = 448" by code_simp
  then show ?thesis using fmul_in_rng [OF assms, of Binary32] by (simp add: raw32_ops)
qed

lemma arg_consts:
  "list_all (\<lambda>r. in32 (- 14) 14 (c32 r)) [31 / 10, 27 / 10, 33 / 10, 73 / 10, 51 / 10, 67 / 10,
     115 / 10, 131 / 10, 97 / 10]"
  by code_simp

lemma f64_of_fin: "in32 (- b) b x \<Longrightarrow> rv Binary64 b \<le> fmax Binary64 \<Longrightarrow> is_fin (raw64 (f64_of x))"
  using cvt_in_rng [of "- b" b "raw32 x" Binary64] by (simp add: raw64_ops rv_minus in_rng_def)

lemma TerrainHeight_rng:
  assumes "math_ok E" "in32 (- 32) 32 nx" "in32 (- 32) 32 ny" "in32 (- 32) 32 nz"
  shows "in32 38 62 (TerrainHeight E nx ny nz)"
proof -
  have v: "rv Binary32 896 = 896" "rv Binary32 1344 = 1344" "rv Binary64 448 = 448"
    "rv Binary64 896 = 896" "rv Binary64 1344 = 1344" by code_simp+
  have one: "is_fin (raw64 (f64_of (n * c32 r)))"
    if "in32 (- 32) 32 n" "in32 (- 14) 14 (c32 r)" for n r
    by (rule f64_of_fin [OF arg_fin [OF that]]) (simp add: v)
  have two: "in32 (- 896) 896 (n * c32 r + n' * c32 r')"
    if "in32 (- 32) 32 n" "in32 (- 14) 14 (c32 r)" "in32 (- 32) 32 n'" "in32 (- 14) 14 (c32 r')" for n r n' r'
    using add32_sym [OF arg_fin [OF that(1,2)] arg_fin [OF that(3,4)]] by (simp add: v)
  have three: "in32 (- 1344) 1344 (n * c32 r + n' * c32 r' + n'' * c32 r'')"
    if "in32 (- 32) 32 n" "in32 (- 14) 14 (c32 r)" "in32 (- 32) 32 n'" "in32 (- 14) 14 (c32 r')"
      "in32 (- 32) 32 n''" "in32 (- 14) 14 (c32 r'')" for n r n' r' n'' r''
    using add32_sym [OF two [OF that(1-4)] arg_fin [OF that(5,6)]] by (simp add: v)
  have two': "is_fin (raw64 (f64_of (nx * c32 (73 / 10) + ny * c32 (51 / 10))))"
    using assms arg_consts by (intro f64_of_fin [OF two]) (simp_all add: v)
  have three': "is_fin (raw64 (f64_of (nx * c32 (115 / 10) + ny * c32 (131 / 10) + nz * c32 (97 / 10))))"
    using assms arg_consts by (intro f64_of_fin [OF three]) (simp_all add: v)
  have sin: "in_rng (- 1) 1 (raw64 (m_sin E x))" and cos: "in_rng (- 1) 1 (raw64 (m_cos E x))"
    if "is_fin (raw64 x)" for x using assms(1) that by (auto simp: math_ok_def)
  let ?h1 = "f32_of (m_sin E (f64_of (nx * c32 (31 / 10))) * m_cos E (f64_of (ny * c32 (27 / 10)))
        * m_sin E (f64_of (nz * c32 (33 / 10)))) * MaxRelief * c32 (6 / 10)"
  let ?h2 = "f32_of (m_sin E (f64_of (nx * c32 (73 / 10) + ny * c32 (51 / 10)))
        * m_cos E (f64_of (nz * c32 (67 / 10)))) * MaxRelief * c32 (3 / 10)"
  let ?h3 = "f32_of (m_cos E (f64_of (nx * c32 (115 / 10) + ny * c32 (131 / 10) + nz * c32 (97 / 10))))
        * MaxRelief * c32 (1 / 10)"
  have h1: "in32 (- (15099495 / 2097152)) (15099495 / 2097152) ?h1"
    unfolding c32_tenths(1) using assms arg_consts
    by (intro relief_term [OF rv32_values(4)] mul64_unit sin cos one) simp_all
  have h2: "in32 (- (15099495 / 4194304)) (15099495 / 4194304) ?h2"
    unfolding c32_tenths(2) using assms arg_consts
    by (intro relief_term [OF rv32_values(5)] mul64_unit sin cos one two') simp_all
  have h3: "in32 (- (5033165 / 4194304)) (5033165 / 4194304) ?h3"
    unfolding c32_tenths(3)
    by (intro relief_term [OF rv32_values(6)] cos three') simp_all
  have "in32 (- (11324621 / 1048576)) (11324621 / 1048576) (?h1 + ?h2)"
    using add32_sym [OF h1 h2] unfolding rv32_values(7) by simp
  from add32_sym [OF this h3] have "in32 (- 12) 12 (?h1 + ?h2 + ?h3)"
    unfolding rv32_values(8) by simp
  moreover have "in32 50 50 PlanetRadius" by (simp add: PlanetRadius_def c32_exact in_rng_def)
  ultimately show ?thesis
    using fadd_in_rng [of 50 50 "raw32 PlanetRadius" "- 12" 12 "raw32 (?h1 + ?h2 + ?h3)" Binary32]
    by (simp add: TerrainHeight_def raw32_ops(1) rv32_values)
qed

section \<open>Directions\<close>

text \<open>Crude but sufficient: the computed length is at least a 32nd of each component.\<close>

lemma emin_le: "2 powi emin f \<le> (1 / 2 ^ 100 :: rat)"
proof -
  have "(2 :: rat) powi emin f \<le> 2 powi (- 100)" by (rule powi_mono) (cases f; simp)
  then show ?thesis by (simp add: power_int_minus field_simps)
qed

lemma rv_half: "1 / 2 ^ 100 \<le> c \<Longrightarrow> c / 2 \<le> rv f c"
  using emin_le [of f] by (intro rv_ge_half) linarith

lemma sq3_at_least:
  assumes "fin32 x" "fin32 y" "fin32 z" "a \<in> {x, y, z}" "1 / 128 \<le> \<bar>val32 a\<bar>"
  shows "at_least (val32 a * val32 a / 8) (raw32 (sq3 x y z))"
proof -
  let ?q = "\<lambda>b. fmul Binary32 (raw32 b) (raw32 b)"
  let ?c = "val32 a * val32 a"
  have nn: "at_least 0 (?q b)" if "fin32 b" for b
    using fmul_self_at_least [OF that, of Binary32] rv_nonneg [of "val32 b * val32 b" Binary32]
    by (auto intro: at_least_weaken)
  have "(1 / 128) * (1 / 128) \<le> \<bar>val32 a\<bar> * \<bar>val32 a\<bar>" using assms(5) by (intro mult_mono) auto
  then have c: "1 / 16384 \<le> ?c" by (simp flip: abs_mult)
  have fa: "fin32 a" using assms by auto
  have q: "at_least (?c / 2) (?q a)"
    by (rule at_least_weaken [OF fmul_self_at_least [OF fa] rv_half]) (use c in simp)
  have h1: "?c / 4 \<le> rv Binary32 (?c / 2)" using rv_half [of "?c / 2" Binary32] c by simp
  have h2: "?c / 8 \<le> rv Binary32 (?c / 4)" using rv_half [of "?c / 4" Binary32] c by simp
  have h3: "?c / 8 \<le> rv Binary32 (?c / 2)" using h1 c by simp
  have add: "at_least (rv Binary32 d) (fadd Binary32 u v)"
    if "at_least d u \<and> at_least 0 v \<or> at_least 0 u \<and> at_least d v" "0 \<le> d" for d u v
    using that fadd_at_least fadd_at_least_right by blast
  have z2: "at_least 0 (fadd Binary32 (?q x) (?q y))"
    using add [of 0 "?q x" "?q y"] nn assms(1,2) by simp
  consider "a = x \<or> a = y" | "a = z" using assms(4) by blast
  then show ?thesis
  proof cases
    case 1
    then have "at_least (?c / 4) (fadd Binary32 (?q x) (?q y))"
      using q nn assms(1,2) c by (intro at_least_weaken [OF add h1]) auto
    then show ?thesis using nn [OF assms(3)] c
      unfolding sq3_def raw32_ops by (intro at_least_weaken [OF add h2]) auto
  next
    case 2
    then show ?thesis using q z2 c
      unfolding sq3_def raw32_ops by (intro at_least_weaken [OF add h3]) auto
  qed
qed

lemma sq3_nonneg:
  assumes "fin32 x" "fin32 y" "fin32 z"
  shows "at_least 0 (raw32 (sq3 x y z))"
proof -
  have nn: "at_least 0 (fmul Binary32 (raw32 b) (raw32 b))" if "fin32 b" for b
    using fmul_self_at_least [OF that, of Binary32] rv_nonneg [of "val32 b * val32 b" Binary32]
    by (auto intro: at_least_weaken)
  show ?thesis using fadd_at_least [of 0 _ _ Binary32] nn assms
    by (simp add: sq3_def raw32_ops)
qed

lemma len3_nonneg:
  assumes "fin32 x" "fin32 y" "fin32 z"
  shows "at_least 0 (raw32 (len3 x y z))"
  using cvt_at_least [of 0 _ Binary32] fsqrt_nonneg [of _ Binary64] cvt_at_least [of 0 _ Binary64]
    sq3_nonneg [OF assms] by (simp add: len3_def raw32_ops)

lemma len3_at_least:
  assumes "fin32 x" "fin32 y" "fin32 z" "a \<in> {x, y, z}" "1 / 128 \<le> \<bar>val32 a\<bar>"
  shows "at_least (\<bar>val32 a\<bar> / 32) (raw32 (len3 x y z))"
proof -
  let ?A = "\<bar>val32 a\<bar>"
  have sq: "val32 a * val32 a = ?A * ?A" by simp
  have A: "1 / 16384 \<le> ?A * ?A" using mult_mono [of "1 / 128" ?A "1 / 128" ?A] assms(5) by simp
  have "at_least (?A * ?A / 8) (raw32 (sq3 x y z))"
    using sq3_at_least [OF assms] unfolding sq .
  from cvt_at_least [OF this, of Binary64]
  have "at_least (?A * ?A / 16) (cvt Binary64 (raw32 (sq3 x y z)))"
    using rv_half [of "?A * ?A / 8" Binary64] A by (auto intro: at_least_weaken)
  from fsqrt_at_least [OF this, of "?A / 8" Binary64]
  have "at_least (rv Binary64 (?A / 8)) (fsqrt Binary64 (cvt Binary64 (raw32 (sq3 x y z))))"
    using A by simp
  then have "at_least (?A / 16) (fsqrt Binary64 (cvt Binary64 (raw32 (sq3 x y z))))"
    using rv_half [of "?A / 8" Binary64] assms(5) by (auto intro: at_least_weaken)
  from cvt_at_least [OF this, of Binary32] show ?thesis
    using rv_half [of "?A / 16" Binary32] assms(5)
    by (auto intro: at_least_weaken simp: len3_def raw32_ops)
qed

lemma c32_001: "c32 (1 / 100) = F32 (Fin (5368709 / 536870912))"
  by code_simp

lemma dir_rng:
  assumes "fin_vec v" "\<not> vlen v < c32 (1 / 100)" "a \<in> {v_X v, v_Y v, v_Z v}"
  shows "in32 (- 32) 32 (a / vlen v)"
proof -
  have fa: "fin32 a" using assms by auto
  have nn: "at_least 0 (raw32 (vlen v))" using assms(1) len3_nonneg by (simp add: vlen_def)
  show ?thesis
  proof (cases "raw32 (vlen v) = PInf")
    case True
    then show ?thesis using fdiv_inf [OF fa, of Binary32]
      by (auto simp: raw32_ops intro: in_rng_weaken)
  next
    case False
    with nn have fl: "fin32 (vlen v)" by (simp add: at_least_def)
    then have l: "5368709 / 536870912 \<le> val32 (vlen v)"
      using assms(2) by (simp add: less32 c32_001)
    have "\<bar>val32 a\<bar> \<le> 32 * \<bar>val32 (vlen v)\<bar>"
    proof (cases "1 / 128 \<le> \<bar>val32 a\<bar>")
      case True
      then have "at_least (\<bar>val32 a\<bar> / 32) (raw32 (vlen v))"
        using len3_at_least [of "v_X v" "v_Y v" "v_Z v" a] assms(1,3) by (simp add: vlen_def)
      then show ?thesis using False l by (simp add: at_least_def abs_of_nonneg)
    next
      case False
      then show ?thesis using l by simp
    qed
    from fdiv_in_rng [OF fa fl _ this, of Binary32] l show ?thesis
      by (simp add: raw32_ops rv32_values)
  qed
qed

lemma height_at_rng:
  assumes "math_ok E" "fin_vec v" "\<not> vlen v < c32 (1 / 100)"
  shows "in32 38 62 (height_at E v (vlen v))"
  unfolding height_at_def
  by (rule TerrainHeight_rng [OF assms(1)]; rule dir_rng [OF assms(2,3)]) simp_all

lemma sea_clamp_rng: "in32 38 62 h \<Longrightarrow> in32 52 62 (sea_clamp h)"
  by (auto simp: sea_clamp_def SeaLevel_def c32_exact in_rng_def less32)

lemma fin_scaled: "in32 (- 32) 32 n \<Longrightarrow> in32 52 62 h \<Longrightarrow> in32 (- 1984) 1984 (n * h)"
proof -
  assume "in32 (- 32) 32 n" "in32 52 62 h"
  moreover from this(2) have "in32 (- 62) 62 h" by (rule in_rng_weaken) simp_all
  moreover have "rv Binary32 1984 = 1984" by code_simp
  ultimately show ?thesis using fmul_in_rng [of 32 "raw32 n" 62 "raw32 h" Binary32] by (simp add: raw32_ops)
qed

lemma ClampToSurface_fin:
  assumes "math_ok E" "fin_vec pos"
  shows "fin_vec (ClampToSurface E pos)"
proof (cases "vlen pos < c32 (1 / 100)")
  case True
  then show ?thesis using assms(2) by (simp add: ClampToSurface_def ClampToSurface_l_def)
next
  case False
  note h = sea_clamp_rng [OF height_at_rng [OF assms False]]
  have "fin32 (a / vlen pos * sea_clamp (height_at E pos (vlen pos)))"
    if "a \<in> {v_X pos, v_Y pos, v_Z pos}" for a
    using fin_scaled [OF dir_rng [OF assms(2) False that] h] by (simp add: in_rng_def)
  then show ?thesis using False
    by (simp add: ClampToSurface_def ClampToSurface_l_def scale_dir_def)
qed

text \<open>
  For every finite position, however large, the surface below it lies between the sea
  level 52 and 62; only within a hundredth of the planet's centre is it \<open>PlanetRadius\<close>. The
  hypothesis is that \<open>math.Sin\<close> and \<open>math.Cos\<close> of finite arguments are in \<open>[-1, 1]\<close>.
\<close>

theorem SurfaceRadius_bounds:
  assumes "math_ok E" and "fin_vec pos"
  shows "if vlen pos < c32 (1 / 100) then SurfaceRadius E pos = PlanetRadius
         else in32 52 62 (SurfaceRadius E pos)"
  using sea_clamp_rng [OF height_at_rng [OF assms]]
  by (simp add: SurfaceRadius_def SurfaceRadius_l_def)

text \<open>An environment with very simple trigonometry, for examples.\<close>

definition flat_env :: env where
  "flat_env = \<lparr>m_sin = (\<lambda>_. 0), m_cos = (\<lambda>_. 1), m_acos = (\<lambda>_. 0), m_exp = (\<lambda>_. 1),
     e_now = unix_epoch, e_ord = (\<lambda>_ ks. ks)\<rparr>"

lemma flat_env_ok: "math_ok flat_env"
  by (simp add: math_ok_def flat_env_def raw64_ops in_rng_def)

theorem SurfaceRadius_bounds_witness:
  "in32 52 62 (SurfaceRadius flat_env (vec (c32 30) 0 (c32 (- 40))))"
proof -
  have "fin_vec (vec (c32 30) 0 (c32 (- 40)))" "\<not> vlen (vec (c32 30) 0 (c32 (- 40))) < c32 (1 / 100)"
    by code_simp+
  with SurfaceRadius_bounds [OF flat_env_ok this(1)] show ?thesis by simp
qed

end
