(* ===== verification/Store.thy ===== *)
theory Store
  imports Prelude
begin

text \<open>
  \<open>internal/server/net/store.go\<close>: the typed map with its own lock that holds each kind of
  entity. Between \<open>Lock\<close> and \<open>Unlock\<close> a goroutine owns the map, so every method is one atomic
  function of it. The contract that the components rely on is the locale \<open>keyed_store\<close>; it is
  interpreted on the methods of the model.
\<close>

section \<open>The contract\<close>

locale keyed_store =
  fixes empty :: 's
    and get :: "'s \<Rightarrow> string \<Rightarrow> 'v option"
    and put :: "string \<Rightarrow> 'v \<Rightarrow> 's \<Rightarrow> 's"
    and delete :: "string \<Rightarrow> 's \<Rightarrow> 's"
    and size_of :: "'s \<Rightarrow> nat"
  assumes get_empty: "get empty k = None"
    and get_put: "get (put k v s) k' = (if k = k' then Some v else get s k')"
    and get_delete: "get (delete k s) k' = (if k = k' then None else get s k')"
    and finite_keys: "finite (dom (get s))"
    and size_of_card: "size_of s = card (dom (get s))"
begin

lemma size_of_put: "size_of (put k v s) = (if get s k = None then size_of s + 1 else size_of s)"
proof -
  have "dom (get (put k v s)) = insert k (dom (get s))" by (auto simp: get_put split: if_splits)
  then show ?thesis using finite_keys [of s] by (auto simp: size_of_card card_insert_if)
qed

lemma size_of_delete: "size_of (delete k s) = (if get s k = None then size_of s else size_of s - 1)"
proof -
  have "dom (get (delete k s)) = dom (get s) - {k}" by (auto simp: get_delete split: if_splits)
  then show ?thesis using finite_keys [of s]
    by (auto simp: size_of_card card_Diff_singleton_if domIff)
qed

text \<open>Writes of other keys do not disturb an entry: the last write of a key decides.\<close>

lemma get_fold_put:
  "get (fold (\<lambda>(k, v). put k v) kvs s) k =
     (case map_of (rev kvs) k of None \<Rightarrow> get s k | Some v \<Rightarrow> Some v)"
proof (induction kvs arbitrary: s)
  case (Cons p kvs)
  obtain a b where "p = (a, b)" by fastforce
  then show ?case using Cons.IH [of "put a b s"]
    by (auto simp: get_put map_add_def split: option.splits)
qed simp

lemma get_fold_delete: "get (fold delete ks s) k = (if k \<in> set ks then None else get s k)"
  by (induction ks arbitrary: s) (auto simp: get_delete)

end

section \<open>The methods\<close>

type_synonym 'v store = "'v gomap"

definition newStore :: "'v store" where "newStore = mempty"

definition store_Get :: "'v store \<Rightarrow> string \<Rightarrow> 'v option" where "store_Get s i = mget s i"

definition store_Put :: "string \<Rightarrow> 'v \<Rightarrow> 'v store \<Rightarrow> 'v store" where "store_Put i v s = mput i v s"

definition store_Delete :: "string \<Rightarrow> 'v store \<Rightarrow> 'v store" where "store_Delete i s = mdel i s"

definition store_Len :: "'v store \<Rightarrow> nat" where "store_Len s = mlen s"

definition store_Read :: "('v store \<Rightarrow> 'r) \<Rightarrow> 'v store \<Rightarrow> 'r" where "store_Read f s = f s"

definition store_Update :: "('v store \<Rightarrow> 'r \<times> 'v store) \<Rightarrow> 'v store \<Rightarrow> 'r \<times> 'v store" where
  "store_Update f s = f s"

interpretation store: keyed_store newStore store_Get store_Put store_Delete store_Len
  by unfold_locales
     (auto simp: newStore_def store_Get_def [abs_def] store_Put_def store_Delete_def store_Len_def
        lookup_update mlen_card)

text \<open>Every entity carries its own key.\<close>

definition keyed :: "('v \<Rightarrow> string) \<Rightarrow> 'v store \<Rightarrow> bool" where
  "keyed f m \<longleftrightarrow> (\<forall>k v. mget m k = Some v \<longrightarrow> f v = k)"

lemma keyed_empty [simp]: "keyed f mempty"
  by (simp add: keyed_def)

lemma keyedD: "keyed f m \<Longrightarrow> mget m k = Some v \<Longrightarrow> f v = k"
  by (simp add: keyed_def)

lemma keyed_put [inv_intros]: "keyed f m \<Longrightarrow> f v = k \<Longrightarrow> keyed f (mput k v m)"
  by (simp add: keyed_def lookup_update)

lemma keyed_del [inv_intros]: "keyed f m \<Longrightarrow> keyed f (mdel k m)"
  by (simp add: keyed_def)

lemma keyed_mmap [inv_intros]: "keyed f m \<Longrightarrow> (\<And>v. f (g v) = f v) \<Longrightarrow> keyed f (mmap g m)"
  by (auto simp: keyed_def)

text \<open>
  A value put under a key is the one \<open>Get\<close> returns until the key is put again or deleted,
  whatever happens to the other keys, and \<open>Len\<close> counts the keys: over a run of \<open>Put\<close> calls
  the last write of a key decides, after a run of \<open>Delete\<close> calls exactly those keys are gone.
\<close>

theorem store_contract:
  "store_Get (fold (\<lambda>(k, v). store_Put k v) kvs s) k =
     (case map_of (rev kvs) k of None \<Rightarrow> store_Get s k | Some v \<Rightarrow> Some v) \<and>
   store_Get (fold store_Delete ks s) k = (if k \<in> set ks then None else store_Get s k) \<and>
   store_Len (store_Put k v s) = (if store_Get s k = None then store_Len s + 1 else store_Len s) \<and>
   store_Len (store_Delete k s) = (if store_Get s k = None then store_Len s else store_Len s - 1)"
  by (simp add: store.get_fold_put store.get_fold_delete store.size_of_put store.size_of_delete)

end
