(* ===== verification/Server_State.thy ===== *)
theory Server_State
  imports Terrain Store
begin

text \<open>
  The state of the game server, \<open>internal/server/net\<close>: one record per entity struct (field
  names carry a prefix, since record fields are global), the connected player \<open>Client\<close> of
  \<open>player.go\<close>, and \<open>Server\<close> of \<open>server.go\<close>. A \<open>store[T]\<close> of \<open>store.go\<close> is a map from identifiers
  to values; a pointer to an entity is its key in that map. Connections, loggers and mutexes
  are left out: an operation runs from one \<open>Lock\<close> to the matching \<open>Unlock\<close>.
\<close>

section \<open>Messages to the clients\<close>

datatype srv_msg =
    MsgWelcome Welcome
  | MsgInventory "int gomap"
  | MsgChat ChatMessage
  | MsgPong Pong
  | MsgTeleport Teleport
  | MsgSnapshot Snapshot

fun msg_tag :: "srv_msg \<Rightarrow> msg_type" where
  "msg_tag (MsgWelcome _) = TypeWelcome"
| "msg_tag (MsgInventory _) = TypeInventoryUpdate"
| "msg_tag (MsgChat _) = TypeChat"
| "msg_tag (MsgPong _) = TypePong"
| "msg_tag (MsgTeleport _) = TypeTeleport"
| "msg_tag (MsgSnapshot _) = TypeSnapshot"

text \<open>
  \<open>json.Marshal\<close> fails on a \<open>float32\<close> that is not finite, and on nothing else that the server
  sends. \<open>finite_snapshot\<close> collects the \<open>float32\<close> fields of a snapshot.
\<close>

definition finite_player :: "PlayerState \<Rightarrow> bool" where
  "finite_player p \<longleftrightarrow> list_all fin32 [ps_X p, ps_Y p, ps_Z p, ps_Yaw p, ps_Pitch p, ps_Hunger p]"

definition finite_rocket :: "PRocket \<Rightarrow> bool" where
  "finite_rocket r \<longleftrightarrow> list_all fin32 [prock_X r, prock_Y r, prock_Z r, prock_DX r, prock_DY r,
     prock_DZ r, prock_Apoapsis r, prock_Periapsis r, prock_Speed r, prock_Altitude r,
     prock_TargetVelocity r, prock_VX r, prock_VY r, prock_VZ r, prock_DistSun r, prock_SOIRadius r]"

definition finite_snapshot :: "Snapshot \<Rightarrow> bool" where
  "finite_snapshot s \<longleftrightarrow>
     list_all finite_player (snap_Players s) \<and>
     list_all (\<lambda>r. list_all fin32 [res_X r, res_Y r, res_Z r]) (snap_Resources s) \<and>
     list_all (\<lambda>m. list_all fin32 [pmam_X m, pmam_Y m, pmam_Z m]) (snap_Mammoths s) \<and>
     list_all (\<lambda>w. list_all fin32 [well_X w, well_Y w, well_Z w]) (snap_Wells s) \<and>
     list_all (\<lambda>h. list_all fin32 [phouse_X h, phouse_Y h, phouse_Z h, phouse_Yaw h]) (snap_Houses s) \<and>
     list_all (\<lambda>b. list_all fin32 [pboat_X b, pboat_Y b, pboat_Z b, pboat_Yaw b]) (snap_Boats s) \<and>
     list_all (\<lambda>m. list_all fin32 [pmob_X m, pmob_Y m, pmob_Z m]) (snap_Mobs s) \<and>
     list_all (\<lambda>p. list_all fin32 [pproj_X p, pproj_Y p, pproj_Z p, pproj_DX p, pproj_DY p, pproj_DZ p])
       (snap_Projectiles s) \<and>
     list_all (\<lambda>p. list_all fin32 [psolar_X p, psolar_Y p, psolar_Z p, psolar_Yaw p]) (snap_Solar s) \<and>
     list_all (\<lambda>b. list_all fin32 [pbat_X b, pbat_Y b, pbat_Z b, pbat_Yaw b]) (snap_Batteries s) \<and>
     list_all (\<lambda>f. list_all fin32 [pfac_X f, pfac_Y f, pfac_Z f, pfac_Yaw f]) (snap_Factories s) \<and>
     list_all finite_rocket (snap_Rockets s) \<and>
     list_all fin_vec [snap_EarthPos s, snap_EarthVel s, snap_Planet2Pos s, snap_Planet2Vel s]"

fun marshal_ok :: "srv_msg \<Rightarrow> bool" where
  "marshal_ok (MsgTeleport t) = (fin32 (tp_X t) \<and> fin32 (tp_Y t) \<and> fin32 (tp_Z t))"
| "marshal_ok (MsgSnapshot s) = finite_snapshot s"
| "marshal_ok _ = True"

section \<open>The connected player\<close>

record Client =
  c_ID :: string
  c_Nick :: string
  c_send :: "srv_msg list"
  c_state :: PlayerState
  c_inventory :: "int gomap"
  c_hunger :: f32
  c_hp :: int
  c_lastThrowAt :: gotime
  c_lastHitAt :: gotime
  c_heldItem :: string
  c_colorHex :: string
  c_infiniteFuel :: bool

section \<open>The entities\<close>

record House =
  h_ID :: string
  h_Pos :: Vector3
  h_Yaw :: f32
  h_DoorOpen :: bool

record Boat =
  b_ID :: string
  b_Pos :: Vector3
  b_Yaw :: f32
  b_RiderID :: string

record Solar =
  sol_ID :: string
  sol_Pos :: Vector3
  sol_Yaw :: f32

record Battery =
  bat_ID :: string
  bat_Pos :: Vector3
  bat_Yaw :: f32
  bat_Energy :: int
  bat_MaxEnergy :: int

record Factory =
  fac_ID :: string
  fac_Pos :: Vector3
  fac_Yaw :: f32
  fac_Crafting :: string
  fac_Progress :: int

record Mammoth =
  mam_ID :: string
  mam_Pos :: Vector3
  mam_HP :: int
  mam_Tamed :: bool
  mam_Sex :: string
  mam_FedCount :: int
  mam_Baby :: bool
  mam_LeashedTo :: string
  mam_Saddle :: bool
  mam_RiderID :: string
  mam_MateID :: string
  mam_TogetherSince :: gotime
  mam_BornAt :: gotime

record Mob =
  mob_ID :: string
  mob_Pos :: Vector3
  mob_HP :: int
  mob_MaxHP :: int
  mob_Kind :: string
  mob_LastAttackAt :: gotime
  mob_Angered :: bool
  mob_Inventory :: "int gomap"
  mob_Contract :: string
  mob_OwnerID :: string
  mob_DeliveredAt :: gotime

record Projectile =
  proj_ID :: string
  proj_Pos :: Vector3
  proj_Dir :: Vector3
  proj_Speed :: f32
  proj_OwnerMobID :: string
  proj_TargetID :: string
  proj_SpawnAt :: gotime

record Rocket =
  rk_ID :: string
  rk_Pos :: Vector3
  rk_Vel :: Vector3
  rk_Up :: Vector3
  rk_Yaw :: f32
  rk_Fuel :: int
  rk_MaxFuel :: int
  rk_Piloted :: bool
  rk_OwnerID :: string
  rk_InOrbit :: bool
  rk_Thrust :: f32
  rk_lastLogAt :: gotime
  rk_fuelAccum :: f32
  rk_TargetUp :: Vector3
  rk_Apoapsis :: f32
  rk_Periapsis :: f32
  rk_Speed :: f32
  rk_Altitude :: f32
  rk_TargetVelocity :: f32
  rk_InfiniteFuel :: bool
  rk_AutoPilot :: string
  rk_PrimaryBody :: string
  rk_DistSun :: f32
  rk_SOIRadius :: f32
  rk_LocalPos :: Vector3

record WorldState =
  w_EarthPos :: Vector3
  w_EarthVel :: Vector3
  w_Planet2Pos :: Vector3
  w_Planet2Vel :: Vector3

section \<open>The server\<close>

text \<open>
  Of the metrics the two counters and the gauge are kept; the histograms are only observed.
  \<open>s_rng\<close> holds the random sources that \<open>newID\<close> and the spawning code read.
\<close>

record Server =
  s_tickRate :: int
  s_clients :: "Client gomap"
  s_resources :: "Resource store"
  s_mammoths :: "Mammoth store"
  s_wells :: "Well store"
  s_houses :: "House store"
  s_solar :: "Solar store"
  s_batteries :: "Battery store"
  s_factories :: "Factory store"
  s_rockets :: "Rocket store"
  s_boats :: "Boat store"
  s_mobs :: "Mob store"
  s_projectiles :: "Projectile store"
  s_tick :: "64 word"
  s_world :: WorldState
  s_rng :: rng
  s_PlayersConnected :: int
  s_TicksTotal :: nat
  s_ChatMessages :: nat

section \<open>Access\<close>

definition with_client :: "string \<Rightarrow> Server \<Rightarrow> (Client \<Rightarrow> Server) \<Rightarrow> Server" where
  "with_client cid s f = (case mget (s_clients s) cid of None \<Rightarrow> s | Some c \<Rightarrow> f c)"

definition put_client :: "string \<Rightarrow> Client \<Rightarrow> Server \<Rightarrow> Server" where
  "put_client cid c s = s\<lparr>s_clients := mput cid c (s_clients s)\<rparr>"

definition new_id :: "Server \<Rightarrow> string \<times> Server" where
  "new_id s = (case newID (s_rng s) of (i, r) \<Rightarrow> (i, s\<lparr>s_rng := r\<rparr>))"

definition res_pos :: "Resource \<Rightarrow> Vector3" where "res_pos r = vec (res_X r) (res_Y r) (res_Z r)"
definition well_pos :: "Well \<Rightarrow> Vector3" where "well_pos w = vec (well_X w) (well_Y w) (well_Z w)"
definition ps_pos :: "PlayerState \<Rightarrow> Vector3" where "ps_pos p = vec (ps_X p) (ps_Y p) (ps_Z p)"

text \<open>
  The two ways the code computes a squared distance: \<open>float32\<close> throughout, or differences in
  \<open>float32\<close> that are squared and added in \<open>float64\<close>.
\<close>

definition d2_32 :: "Vector3 \<Rightarrow> Vector3 \<Rightarrow> f32" where
  "d2_32 a b = sq3 (v_X a - v_X b) (v_Y a - v_Y b) (v_Z a - v_Z b)"

definition sq3_64 :: "f64 \<Rightarrow> f64 \<Rightarrow> f64 \<Rightarrow> f64" where
  "sq3_64 x y z = x * x + y * y + z * z"

definition d2_64 :: "Vector3 \<Rightarrow> Vector3 \<Rightarrow> f64" where
  "d2_64 a b = sq3_64 (f64_of (v_X a - v_X b)) (f64_of (v_Y a - v_Y b)) (f64_of (v_Z a - v_Z b))"

definition vadd :: "Vector3 \<Rightarrow> Vector3 \<Rightarrow> Vector3" where
  "vadd a b = vec (v_X a + v_X b) (v_Y a + v_Y b) (v_Z a + v_Z b)"

definition vsub :: "Vector3 \<Rightarrow> Vector3 \<Rightarrow> Vector3" where
  "vsub a b = vec (v_X a - v_X b) (v_Y a - v_Y b) (v_Z a - v_Z b)"

definition vscale :: "Vector3 \<Rightarrow> f32 \<Rightarrow> Vector3" where
  "vscale a k = vec (v_X a * k) (v_Y a * k) (v_Z a * k)"

definition vdiv :: "Vector3 \<Rightarrow> f32 \<Rightarrow> Vector3" where
  "vdiv a k = vec (v_X a / k) (v_Y a / k) (v_Z a / k)"

definition vneg :: "Vector3 \<Rightarrow> Vector3" where
  "vneg a = vec (- v_X a) (- v_Y a) (- v_Z a)"

definition vdot :: "Vector3 \<Rightarrow> Vector3 \<Rightarrow> f32" where
  "vdot a b = v_X a * v_X b + v_Y a * v_Y b + v_Z a * v_Z b"

text \<open>
  The loop \<open>if d2 < best { target = x; best = d2 }\<close> by which every component looks for the
  nearest of something within a radius.
\<close>

definition nearest_step :: "('a \<Rightarrow> f32) \<Rightarrow> 'a \<Rightarrow> 'a option \<times> f32 \<Rightarrow> 'a option \<times> f32" where
  "nearest_step d x best = (if d x < snd best then (Some x, d x) else best)"

definition nearest :: "('a \<Rightarrow> f32) \<Rightarrow> f32 \<Rightarrow> 'a list \<Rightarrow> 'a option \<times> f32" where
  "nearest d r xs = fold (nearest_step d) xs (None, r)"

lemma less32_trans: "(a :: f32) < b \<Longrightarrow> b < c \<Longrightarrow> a < c"
  unfolding less_f32_def
  by (cases "raw32 a"; cases "raw32 b"; cases "raw32 c") (auto simp: flt_def)

lemma less32_irrefl [simp]: "\<not> (a :: f32) < a"
  unfolding less_f32_def by (cases "raw32 a") (auto simp: flt_def)

lemma nearest_inv:
  assumes "fold (nearest_step d) xs (o0, r) = (t, b)"
  shows "(\<forall>y\<in>set xs. \<not> d y < b) \<and> (t = o0 \<and> b = r \<or> b < r \<and> (\<exists>x\<in>set xs. t = Some x \<and> b = d x))"
  using assms
proof (induction xs arbitrary: o0 r)
  case (Cons x xs)
  show ?case
  proof (cases "d x < r")
    case True
    with Cons.prems have "fold (nearest_step d) xs (Some x, d x) = (t, b)" by (simp add: nearest_step_def [of d x])
    from Cons.IH [OF this] True show ?thesis
      using less32_trans [of "d x" b "d x"] less32_trans [of b "d x" r] by auto
  next
    case False
    with Cons.prems have "fold (nearest_step d) xs (o0, r) = (t, b)" by (simp add: nearest_step_def [of d x])
    from Cons.IH [OF this] False show ?thesis using less32_trans [of "d x" b r] by auto
  qed
qed simp

text \<open>The search returns an element within the radius to which none is nearer, if there is one.\<close>

lemma nearest_Some:
  "nearest d r xs = (Some x, b) \<Longrightarrow> x \<in> set xs \<and> b = d x \<and> d x < r \<and> (\<forall>y\<in>set xs. \<not> d y < d x)"
  unfolding nearest_def by (drule nearest_inv) auto

lemma nearest_None: "nearest d r xs = (None, b) \<Longrightarrow> b = r \<and> (\<forall>y\<in>set xs. \<not> d y < r)"
  unfolding nearest_def by (drule nearest_inv) auto

lemma mget_put_client [simp]:
  "mget (s_clients (put_client cid c s)) k = (if cid = k then Some c else mget (s_clients s) k)"
  by (simp add: put_client_def lookup_update)

lemma put_client_frame [simp]:
  "s_resources (put_client cid c s) = s_resources s" "s_mammoths (put_client cid c s) = s_mammoths s"
  "s_wells (put_client cid c s) = s_wells s" "s_houses (put_client cid c s) = s_houses s"
  "s_solar (put_client cid c s) = s_solar s" "s_batteries (put_client cid c s) = s_batteries s"
  "s_factories (put_client cid c s) = s_factories s" "s_rockets (put_client cid c s) = s_rockets s"
  "s_boats (put_client cid c s) = s_boats s" "s_mobs (put_client cid c s) = s_mobs s"
  "s_projectiles (put_client cid c s) = s_projectiles s" "s_world (put_client cid c s) = s_world s"
  "s_rng (put_client cid c s) = s_rng s" "s_tick (put_client cid c s) = s_tick s"
  "s_tickRate (put_client cid c s) = s_tickRate s"
  by (simp_all add: put_client_def)

lemma with_client_cases:
  "P s \<Longrightarrow> (\<And>c. mget (s_clients s) cid = Some c \<Longrightarrow> P (f c)) \<Longrightarrow> P (with_client cid s f)"
  by (simp add: with_client_def split: option.split)

lemma with_client_Some [simp]: "mget (s_clients s) cid = Some c \<Longrightarrow> with_client cid s f = f c"
  by (simp add: with_client_def)

lemma with_client_None: "mget (s_clients s) cid = None \<Longrightarrow> with_client cid s f = s"
  by (simp add: with_client_def)

lemma new_id_frame:
  "s_clients (snd (new_id s)) = s_clients s" "s_resources (snd (new_id s)) = s_resources s"
  "s_mammoths (snd (new_id s)) = s_mammoths s" "s_wells (snd (new_id s)) = s_wells s"
  "s_houses (snd (new_id s)) = s_houses s" "s_solar (snd (new_id s)) = s_solar s"
  "s_batteries (snd (new_id s)) = s_batteries s" "s_factories (snd (new_id s)) = s_factories s"
  "s_rockets (snd (new_id s)) = s_rockets s" "s_boats (snd (new_id s)) = s_boats s"
  "s_mobs (snd (new_id s)) = s_mobs s" "s_projectiles (snd (new_id s)) = s_projectiles s"
  "s_world (snd (new_id s)) = s_world s" "s_tickRate (snd (new_id s)) = s_tickRate s"
  by (simp_all add: new_id_def split: prod.split)

lemmas new_id_simps [simp] = new_id_frame

lemma put_client_mall: "mall P (s_clients s) \<Longrightarrow> P c \<Longrightarrow> mall P (s_clients (put_client cid c s))"
  by (simp add: put_client_def mall_put)

end
