(* ===== verification/Player.thy ===== *)
theory Player
  imports Server_State
begin

text \<open>
  The methods of \<open>Client\<close>, \<open>internal/server/net/player.go\<close>, each under the client's mutex and so
  one function of the record, with the invariant of a player: hunger is a number between 0 and
  100, the health points are between 0 and 100, the identifier is not empty, the queue of outgoing messages is not longer
  than its buffer, and the item counts are 64-bit integers.
\<close>

definition sendBufSize :: nat where "sendBufSize = 256"

definition State :: "Client \<Rightarrow> PlayerState" where
  "State c = (c_state c)\<lparr>ps_HP := c_hp c, ps_ColorHex := c_colorHex c\<rparr>"

definition SetColorHex :: "string \<Rightarrow> Client \<Rightarrow> Client" where
  "SetColorHex h c = c\<lparr>c_colorHex := h\<rparr>"

text \<open>\<open>enqueue\<close> of a connected client: the message is dropped when the buffer is full.\<close>

definition enqueue :: "srv_msg \<Rightarrow> Client \<Rightarrow> Client" where
  "enqueue m c = (if length (c_send c) < sendBufSize then c\<lparr>c_send := c_send c @ [m]\<rparr> else c)"

definition sendEnvelope :: "srv_msg \<Rightarrow> Client \<Rightarrow> Client" where
  "sendEnvelope m c = (if marshal_ok m then enqueue m c else c)"

definition server_chat :: "env \<Rightarrow> string \<Rightarrow> srv_msg" where
  "server_chat E t = MsgChat \<lparr>chat_From = ''server'', chat_Text = t, chat_TS = unix_milli (e_now E)\<rparr>"

definition hurt :: "int \<Rightarrow> int \<Rightarrow> int" where
  "hurt n hp = (if i64 (hp - n) < 0 then 0 else i64 (hp - n))"

definition damage :: "env \<Rightarrow> int \<Rightarrow> Client \<Rightarrow> Client" where
  "damage E n c =
     (if hurt n (c_hp c) = 0
      then sendEnvelope (server_chat E ''you died'') (c\<lparr>c_hp := hurt n (c_hp c)\<rparr>)
      else c\<lparr>c_hp := hurt n (c_hp c)\<rparr>)"

definition setState :: "PlayerState \<Rightarrow> Client \<Rightarrow> Client" where
  "setState st c = c\<lparr>c_state := st\<lparr>ps_ColorHex := c_colorHex c\<rparr>\<rparr>"

definition inv_add :: "string \<Rightarrow> int \<Rightarrow> int gomap \<Rightarrow> int gomap" where
  "inv_add item n m = mput item (i64 (mget_int m item + n)) m"

definition addItem :: "string \<Rightarrow> Client \<Rightarrow> int gomap \<times> Client" where
  "addItem item c = (inv_add item 1 (c_inventory c), c\<lparr>c_inventory := inv_add item 1 (c_inventory c)\<rparr>)"

definition clamp_hunger :: "f32 \<Rightarrow> f32" where
  "clamp_hunger h = (if c32 100 < h then c32 100 else if h < c32 0 then c32 0 else h)"

definition addHunger :: "f32 \<Rightarrow> Client \<Rightarrow> Client" where
  "addHunger delta c = c\<lparr>c_hunger := clamp_hunger (c_hunger c + delta)\<rparr>"

definition Hunger :: "Client \<Rightarrow> f32" where "Hunger c = c_hunger c"

definition inv_take :: "string \<Rightarrow> int gomap \<Rightarrow> int gomap" where
  "inv_take item m =
     (if i64 (mget_int m item - 1) = 0 then mdel item m
      else mput item (i64 (mget_int m item - 1)) m)"

definition consumeItem :: "string \<Rightarrow> Client \<Rightarrow> bool \<times> Client" where
  "consumeItem item c =
     (if mget_int (c_inventory c) item \<le> 0 then (False, c)
      else (True, c\<lparr>c_inventory := inv_take item (c_inventory c)\<rparr>))"

definition inventorySnapshot :: "Client \<Rightarrow> int gomap" where
  "inventorySnapshot c = c_inventory c"

text \<open>\<open>sendInventory\<close>, and the places that copy the inventory under the mutex and send it.\<close>

definition sendInventory :: "Client \<Rightarrow> Client" where
  "sendInventory c = sendEnvelope (MsgInventory (inventorySnapshot c)) c"

section \<open>The invariant\<close>

definition hunger_ok :: "f32 \<Rightarrow> bool" where "hunger_ok h \<longleftrightarrow> in32 0 100 h"

definition client_ok :: "Client \<Rightarrow> bool" where
  "client_ok c \<longleftrightarrow> c_ID c \<noteq> '''' \<and> hunger_ok (c_hunger c) \<and> 0 \<le> c_hp c \<and> c_hp c \<le> 100 \<and>
     length (c_send c) \<le> sendBufSize \<and> mall in_i64 (c_inventory c)"

lemma c32_hunger: "c32 100 = F32 (Fin 100)" "c32 0 = F32 (Fin 0)"
  by code_simp+

lemma fadd_not_nan: "is_fin a \<Longrightarrow> b \<noteq> NaN \<Longrightarrow> fadd f a b \<noteq> NaN"
  by (cases a; cases b) (auto simp: fadd_def mk_def mk_sel_def)

lemma clamp_hunger_ok:
  assumes "raw32 h \<noteq> NaN"
  shows "hunger_ok (clamp_hunger h)"
  using assms by (cases "raw32 h")
    (auto simp: hunger_ok_def clamp_hunger_def c32_hunger in_rng_def less_f32_def flt_def)

lemma client_ok_addHunger [inv_intros]:
  assumes "client_ok c" "raw32 delta \<noteq> NaN"
  shows "client_ok (addHunger delta c)"
proof -
  have "raw32 (c_hunger c + delta) \<noteq> NaN"
    using assms fadd_not_nan by (simp add: client_ok_def hunger_ok_def in_rng_def raw32_ops)
  then show ?thesis using assms(1) clamp_hunger_ok by (simp add: client_ok_def addHunger_def)
qed

lemma client_ok_enqueue [inv_intros]: "client_ok c \<Longrightarrow> client_ok (enqueue m c)"
  by (simp add: client_ok_def enqueue_def)

lemma client_ok_sendEnvelope [inv_intros]: "client_ok c \<Longrightarrow> client_ok (sendEnvelope m c)"
  by (simp add: sendEnvelope_def client_ok_enqueue)

lemma client_ok_sendInventory [inv_intros]: "client_ok c \<Longrightarrow> client_ok (sendInventory c)"
  by (simp add: sendInventory_def client_ok_sendEnvelope)

lemma hurt_bounds: "0 \<le> n \<Longrightarrow> 0 \<le> hp \<Longrightarrow> hp \<le> 100 \<Longrightarrow> n \<le> 2 ^ 62 \<Longrightarrow> hurt n hp = max 0 (hp - n)"
  by (simp add: hurt_def i64_small max_def)

lemma client_ok_damage [inv_intros]:
  "client_ok c \<Longrightarrow> 0 \<le> n \<Longrightarrow> n \<le> 2 ^ 62 \<Longrightarrow> client_ok (damage E n c)"
  by (auto simp: damage_def hurt_bounds client_ok_def intro!: client_ok_sendEnvelope [unfolded client_ok_def])

lemma client_ok_setState [inv_intros]: "client_ok c \<Longrightarrow> client_ok (setState st c)"
  by (simp add: client_ok_def setState_def)

lemma inv_add_i64: "mall in_i64 m \<Longrightarrow> mall in_i64 (inv_add item n m)"
  by (simp add: inv_add_def mall_put)

lemma inv_take_i64: "mall in_i64 m \<Longrightarrow> mall in_i64 (inv_take item m)"
  by (simp add: inv_take_def mall_put mall_del)

lemma client_ok_inventory:
  "client_ok c \<Longrightarrow> mall in_i64 m \<Longrightarrow> client_ok (c\<lparr>c_inventory := m\<rparr>)"
  by (simp add: client_ok_def)

lemma client_okD_inv: "client_ok c \<Longrightarrow> mall in_i64 (c_inventory c)"
  by (simp add: client_ok_def)

lemma client_ok_addItem [inv_intros]: "client_ok c \<Longrightarrow> client_ok (snd (addItem item c))"
  by (simp add: addItem_def client_ok_inventory inv_add_i64 client_okD_inv)

lemma client_ok_consumeItem [inv_intros]: "client_ok c \<Longrightarrow> client_ok (snd (consumeItem item c))"
  by (simp add: consumeItem_def client_ok_inventory inv_take_i64 client_okD_inv)

section \<open>What the operations do to an inventory\<close>

lemma mget_int_i64: "mall in_i64 m \<Longrightarrow> in_i64 (mget_int m k)"
  by (auto simp: mget_int_def mall_def in_i64_def split: option.splits)

lemma i64_pred_le: "0 < n \<Longrightarrow> i64 (n - 1) < n"
  using zmod_le_nonneg_dividend [of "n - 1 + 2 ^ 63" "2 ^ 64"] by (simp add: i64_def)

lemma mget_int_take: "mget_int (inv_take item m) k = (if k = item then i64 (mget_int m item - 1) else mget_int m k)"
  by (simp add: inv_take_def mget_int_put mget_int_del)

lemma mget_int_add: "mget_int (inv_add item n m) k = (if k = item then i64 (mget_int m item + n) else mget_int m k)"
  by (simp add: inv_add_def mget_int_put)

text \<open>The number of an item a player owns.\<close>

definition has :: "string \<Rightarrow> Client \<Rightarrow> int" where
  "has item c = mget_int (c_inventory c) item"

lemma consumeItem_iff: "fst (consumeItem item c) \<longleftrightarrow> 0 < has item c"
  by (auto simp: consumeItem_def has_def)

lemma consumeItem_fail: "\<not> 0 < has item c \<Longrightarrow> consumeItem item c = (False, c)"
  by (simp add: consumeItem_def has_def)

lemma has_consumeItem:
  assumes "client_ok c" "fst (consumeItem item c)"
  shows "has k (snd (consumeItem item c)) = has k c - (if k = item then 1 else 0)"
proof -
  have "in_i64 (mget_int (c_inventory c) item)" using assms(1) by (simp add: client_okD_inv mget_int_i64)
  then have "i64 (mget_int (c_inventory c) item - 1) = mget_int (c_inventory c) item - 1"
    if "0 < mget_int (c_inventory c) item" using that by (intro i64_id) (simp add: in_i64_def)
  then show ?thesis using assms(2) by (auto simp: consumeItem_def has_def mget_int_take split: if_splits)
qed

lemma has_sendEnvelope [simp]: "has k (sendEnvelope m c) = has k c"
  by (simp add: has_def sendEnvelope_def enqueue_def)

lemma has_sendInventory [simp]: "has k (sendInventory c) = has k c"
  by (simp add: sendInventory_def)

lemma has_addHunger [simp]: "has k (addHunger d c) = has k c"
  by (simp add: has_def addHunger_def)

text \<open>What the operations leave alone.\<close>

lemma enqueue_frame [simp]:
  "c_ID (enqueue m c) = c_ID c" "c_Nick (enqueue m c) = c_Nick c" "c_inventory (enqueue m c) = c_inventory c"
  "c_hunger (enqueue m c) = c_hunger c" "c_hp (enqueue m c) = c_hp c" "c_state (enqueue m c) = c_state c"
  "c_colorHex (enqueue m c) = c_colorHex c" "c_heldItem (enqueue m c) = c_heldItem c"
  "c_lastThrowAt (enqueue m c) = c_lastThrowAt c" "c_lastHitAt (enqueue m c) = c_lastHitAt c"
  "c_infiniteFuel (enqueue m c) = c_infiniteFuel c"
  by (simp_all add: enqueue_def)

lemma sendEnvelope_frame [simp]:
  "c_ID (sendEnvelope m c) = c_ID c" "c_Nick (sendEnvelope m c) = c_Nick c"
  "c_inventory (sendEnvelope m c) = c_inventory c"
  "c_hunger (sendEnvelope m c) = c_hunger c" "c_hp (sendEnvelope m c) = c_hp c"
  "c_state (sendEnvelope m c) = c_state c" "c_colorHex (sendEnvelope m c) = c_colorHex c"
  "c_heldItem (sendEnvelope m c) = c_heldItem c" "c_lastThrowAt (sendEnvelope m c) = c_lastThrowAt c"
  "c_lastHitAt (sendEnvelope m c) = c_lastHitAt c" "c_infiniteFuel (sendEnvelope m c) = c_infiniteFuel c"
  by (simp_all add: sendEnvelope_def)

lemma sendInventory_frame [simp]:
  "c_ID (sendInventory c) = c_ID c" "c_Nick (sendInventory c) = c_Nick c"
  "c_inventory (sendInventory c) = c_inventory c"
  "c_hunger (sendInventory c) = c_hunger c" "c_hp (sendInventory c) = c_hp c"
  "c_state (sendInventory c) = c_state c" "c_colorHex (sendInventory c) = c_colorHex c"
  "c_lastThrowAt (sendInventory c) = c_lastThrowAt c" "c_lastHitAt (sendInventory c) = c_lastHitAt c"
  by (simp_all add: sendInventory_def)

lemma State_sendEnvelope [simp]: "State (sendEnvelope m c) = State c"
  by (simp add: State_def)

lemma State_sel [simp]:
  "ps_X (State c) = ps_X (c_state c)" "ps_Y (State c) = ps_Y (c_state c)" "ps_Z (State c) = ps_Z (c_state c)"
  by (simp_all add: State_def)

lemma c_ID_ops [simp]:
  "c_ID (damage E n c) = c_ID c" "c_ID (setState st c) = c_ID c" "c_ID (SetColorHex h c) = c_ID c"
  "c_ID (snd (addItem item c)) = c_ID c" "c_ID (addHunger d c) = c_ID c"
  "c_ID (snd (consumeItem item c)) = c_ID c"
  by (simp_all add: damage_def setState_def SetColorHex_def addItem_def addHunger_def consumeItem_def)

text \<open>The registry: every connected player is in order and stands under its own identifier.\<close>

definition clients_inv :: "Server \<Rightarrow> bool" where
  "clients_inv s \<longleftrightarrow> mall client_ok (s_clients s) \<and> keyed c_ID (s_clients s)"

lemma clients_invD: "clients_inv s \<Longrightarrow> mget (s_clients s) cid = Some c \<Longrightarrow> client_ok c \<and> c_ID c = cid"
  by (auto simp: clients_inv_def mall_def keyed_def)

lemma clients_inv_cong: "s_clients s' = s_clients s \<Longrightarrow> clients_inv s' = clients_inv s"
  by (simp add: clients_inv_def)

lemma clients_inv_frame [simp]:
  "clients_inv (s\<lparr>s_resources := a1\<rparr>) = clients_inv s" "clients_inv (s\<lparr>s_mammoths := a2\<rparr>) = clients_inv s"
  "clients_inv (s\<lparr>s_wells := a3\<rparr>) = clients_inv s" "clients_inv (s\<lparr>s_houses := a4\<rparr>) = clients_inv s"
  "clients_inv (s\<lparr>s_solar := a5\<rparr>) = clients_inv s" "clients_inv (s\<lparr>s_batteries := a6\<rparr>) = clients_inv s"
  "clients_inv (s\<lparr>s_factories := a7\<rparr>) = clients_inv s" "clients_inv (s\<lparr>s_rockets := a8\<rparr>) = clients_inv s"
  "clients_inv (s\<lparr>s_boats := a9\<rparr>) = clients_inv s" "clients_inv (s\<lparr>s_mobs := a10\<rparr>) = clients_inv s"
  "clients_inv (s\<lparr>s_projectiles := a11\<rparr>) = clients_inv s" "clients_inv (s\<lparr>s_world := a12\<rparr>) = clients_inv s"
  "clients_inv (s\<lparr>s_tick := a13\<rparr>) = clients_inv s" "clients_inv (s\<lparr>s_rng := a14\<rparr>) = clients_inv s"
  "clients_inv (s\<lparr>s_TicksTotal := a15\<rparr>) = clients_inv s" "clients_inv (s\<lparr>s_ChatMessages := a16\<rparr>) = clients_inv s"
  "clients_inv (s\<lparr>s_PlayersConnected := a17\<rparr>) = clients_inv s" "clients_inv (snd (new_id s)) = clients_inv s"
  by (simp_all add: clients_inv_def)

text \<open>A handler keeps the registry if it does so on a player in order.\<close>

lemma clients_inv_with:
  "clients_inv s \<Longrightarrow>
   (\<And>c. mget (s_clients s) cid = Some c \<Longrightarrow> client_ok c \<Longrightarrow> c_ID c = cid \<Longrightarrow> clients_inv (f c)) \<Longrightarrow>
   clients_inv (with_client cid s f)"
  by (rule with_client_cases) (auto dest: clients_invD)

lemma clients_inv_put [inv_intros]:
  "clients_inv s \<Longrightarrow> client_ok c \<Longrightarrow> c_ID c = cid \<Longrightarrow> clients_inv (put_client cid c s)"
  by (simp add: clients_inv_def put_client_def mall_put keyed_put)

text \<open>
  \<open>damage\<close> takes the points off and stops at 0, tells the player \<open>you died\<close> exactly when the
  result is 0 (and the buffer has room), and changes nothing else of the player.
\<close>

theorem damage_correct:
  assumes "client_ok c" and "0 \<le> n" and "n \<le> 2 ^ 62"
  shows "client_ok (damage E n c) \<and>
    damage E n c = c\<lparr>c_hp := max 0 (c_hp c - n), c_send := c_send c @
      (if c_hp c \<le> n \<and> length (c_send c) < sendBufSize then [server_chat E ''you died''] else [])\<rparr>"
proof -
  have h: "hurt n (c_hp c) = max 0 (c_hp c - n)"
    using assms by (intro hurt_bounds) (simp_all add: client_ok_def)
  have "damage E n c = c\<lparr>c_hp := max 0 (c_hp c - n), c_send := c_send c @
      (if c_hp c \<le> n \<and> length (c_send c) < sendBufSize then [server_chat E ''you died''] else [])\<rparr>"
    by (simp add: damage_def h sendEnvelope_def enqueue_def server_chat_def)
  with client_ok_damage [OF assms, of E] show ?thesis by blast
qed

section \<open>A fresh player\<close>

definition zero_state :: "string \<Rightarrow> string \<Rightarrow> PlayerState" where
  "zero_state i n = \<lparr>ps_ID = i, ps_Nick = n, ps_X = 0, ps_Y = 0, ps_Z = 0, ps_Yaw = 0, ps_Pitch = 0,
     ps_Hunger = 0, ps_HP = 0, ps_RTTms = 0, ps_ColorHex = ''''\<rparr>"

definition new_client :: "string \<Rightarrow> Client" where
  "new_client i = \<lparr>c_ID = i, c_Nick = '''', c_send = [], c_state = zero_state '''' '''',
     c_inventory = mempty, c_hunger = c32 100, c_hp = 100, c_lastThrowAt = zero_time,
     c_lastHitAt = zero_time, c_heldItem = '''', c_colorHex = '''', c_infiniteFuel = False\<rparr>"

lemma client_ok_new: "i \<noteq> '''' \<Longrightarrow> client_ok (new_client i)"
  by (simp add: client_ok_def new_client_def hunger_ok_def c32_hunger in_rng_def)

text \<open>A server without entities and with one player, for examples.\<close>

definition bare_rng :: rng where
  "bare_rng = \<lparr>crypto = (\<lambda>_. 0), cpos = 0, mfloat = (\<lambda>_. 0), mint = (\<lambda>_. 0), mpos = 0\<rparr>"

definition bare_world :: WorldState where
  "bare_world = \<lparr>w_EarthPos = zero_vec, w_EarthVel = zero_vec, w_Planet2Pos = zero_vec, w_Planet2Vel = zero_vec\<rparr>"

definition lone_server :: "Client \<Rightarrow> Server" where
  "lone_server c = \<lparr>s_tickRate = 20, s_clients = mput (c_ID c) c mempty, s_resources = newStore,
     s_mammoths = newStore, s_wells = newStore, s_houses = newStore, s_solar = newStore,
     s_batteries = newStore, s_factories = newStore, s_rockets = newStore, s_boats = newStore,
     s_mobs = newStore, s_projectiles = newStore, s_tick = 0, s_world = bare_world, s_rng = bare_rng,
     s_PlayersConnected = 1, s_TicksTotal = 0, s_ChatMessages = 0\<rparr>"

definition stock :: "(string \<times> int) list \<Rightarrow> int gomap" where
  "stock kns = fold (\<lambda>kn. mput (fst kn) (snd kn)) kns mempty"

definition player_with :: "(string \<times> int) list \<Rightarrow> Client" where
  "player_with kns = (new_client ''a'')\<lparr>c_inventory := stock kns\<rparr>"

lemma lone_server_client [simp]: "mget (s_clients (lone_server c)) k = (if c_ID c = k then Some c else None)"
  by (simp add: lone_server_def lookup_update)

lemma clients_inv_lone: "client_ok c \<Longrightarrow> clients_inv (lone_server c)"
  by (simp add: clients_inv_def mall_def keyed_def)

lemma stock_i64: "list_all (\<lambda>kn. in_i64 (snd kn)) kns \<Longrightarrow> mall in_i64 (stock kns)"
  unfolding stock_def
  by (rule fold_invariant_on [where P = "mall in_i64"]) (auto simp: list_all_iff mall_put)

lemma client_ok_player_with: "list_all (\<lambda>kn. in_i64 (snd kn)) kns \<Longrightarrow> client_ok (player_with kns)"
  unfolding player_with_def by (intro client_ok_inventory client_ok_new stock_i64) simp

lemma player_with_sel [simp]:
  "c_ID (player_with kns) = ''a''" "c_inventory (player_with kns) = stock kns"
  by (simp_all add: player_with_def new_client_def)

theorem damage_correct_witness:
  "c_hp (damage flat_env 2 (new_client ''a'')) = 98 \<and> c_hp (damage flat_env 200 (new_client ''a'')) = 0"
  using damage_correct [OF client_ok_new, of "''a''" 2 flat_env]
    damage_correct [OF client_ok_new, of "''a''" 200 flat_env]
  by (simp add: new_client_def)

end
