(* ===== verification/Invariants.thy ===== *)
theory Invariants
  imports Player
begin

text \<open>
  The invariant of the server: what each entity and each store satisfies in every reachable
  state. Every operation is shown to keep it in the theory that models the operation; the root
  theory puts the operations together.
\<close>

section \<open>Entities\<close>

definition batteryMaxEnergy :: int where "batteryMaxEnergy = 1000"
definition rocketMaxFuel :: int where "rocketMaxFuel = 100"

definition battery_ok :: "Battery \<Rightarrow> bool" where
  "battery_ok b \<longleftrightarrow> 0 \<le> bat_Energy b \<and> bat_Energy b \<le> bat_MaxEnergy b \<and> bat_MaxEnergy b = batteryMaxEnergy"

text \<open>A rocket has a pilot exactly when it has an owner, and its tank never overflows.\<close>

definition rocket_ok :: "Rocket \<Rightarrow> bool" where
  "rocket_ok r \<longleftrightarrow> 0 \<le> rk_Fuel r \<and> rk_Fuel r \<le> rk_MaxFuel r \<and> rk_MaxFuel r = rocketMaxFuel \<and>
     (rk_Piloted r \<longleftrightarrow> rk_OwnerID r \<noteq> '''')"

text \<open>
  Only grown mammoths carry a saddle, only saddled ones a rider. (Not: only tamed ones a saddle, see
  \<open>saddle_race\<close> in \<open>Game\<close>.)
\<close>

definition mammoth_ok :: "Mammoth \<Rightarrow> bool" where
  "mammoth_ok m \<longleftrightarrow> 0 < mam_HP m \<and> mam_HP m \<le> 1 \<and>
     (mam_RiderID m \<noteq> '''' \<longrightarrow> mam_Saddle m) \<and> (mam_Saddle m \<longrightarrow> \<not> mam_Baby m) \<and> mam_Sex m \<in> {''m'', ''f''}"

definition mob_kinds :: "string list" where "mob_kinds = [''hostile'', ''collector'', ''pink'']"
definition contracts :: "string list" where "contracts = [''gather4'', ''guard'']"

text \<open>Only pink mobs work; a mob has an owner exactly when it has a contract.\<close>

definition mob_ok :: "Mob \<Rightarrow> bool" where
  "mob_ok m \<longleftrightarrow> 0 < mob_HP m \<and> mob_HP m \<le> mob_MaxHP m \<and> mob_MaxHP m \<le> 10 \<and> mob_Kind m \<in> set mob_kinds \<and>
     (mob_Contract m = '''' \<longleftrightarrow> mob_OwnerID m = '''') \<and>
     (mob_Contract m \<noteq> '''' \<longrightarrow> mob_Contract m \<in> set contracts \<and> mob_Kind m = ''pink'') \<and>
     (mob_Angered m \<longrightarrow> mob_Kind m = ''collector'') \<and> mall in_i64 (mob_Inventory m)"

definition projectile_ok :: "Projectile \<Rightarrow> bool" where
  "projectile_ok p \<longleftrightarrow> proj_Speed p = c32 12"

definition factory_ok :: "Factory \<Rightarrow> bool" where
  "factory_ok f \<longleftrightarrow> fac_Crafting f = '''' \<and> fac_Progress f = 0"

section \<open>Stores\<close>

text \<open>No player rides two mounts of a store.\<close>

definition one_rider :: "('v \<Rightarrow> string) \<Rightarrow> 'v store \<Rightarrow> bool" where
  "one_rider rider m \<longleftrightarrow> (\<forall>k k' v v'. mget m k = Some v \<longrightarrow> mget m k' = Some v' \<longrightarrow>
     rider v = rider v' \<longrightarrow> rider v \<noteq> '''' \<longrightarrow> k = k')"

definition mammoths_inv :: "Mammoth store \<Rightarrow> bool" where
  "mammoths_inv m \<longleftrightarrow> keyed mam_ID m \<and> mall mammoth_ok m \<and> one_rider mam_RiderID m"

definition boats_inv :: "Boat store \<Rightarrow> bool" where
  "boats_inv m \<longleftrightarrow> keyed b_ID m \<and> one_rider b_RiderID m"

definition batteries_inv :: "Battery store \<Rightarrow> bool" where
  "batteries_inv m \<longleftrightarrow> keyed bat_ID m \<and> mall battery_ok m"

definition factories_inv :: "Factory store \<Rightarrow> bool" where
  "factories_inv m \<longleftrightarrow> keyed fac_ID m \<and> mall factory_ok m"

definition rockets_inv :: "Rocket store \<Rightarrow> bool" where
  "rockets_inv m \<longleftrightarrow> keyed rk_ID m \<and> mall rocket_ok m"

definition mobs_inv :: "Mob store \<Rightarrow> bool" where
  "mobs_inv m \<longleftrightarrow> keyed mob_ID m \<and> mall mob_ok m"

definition projectiles_inv :: "Projectile store \<Rightarrow> bool" where
  "projectiles_inv m \<longleftrightarrow> keyed proj_ID m \<and> mall projectile_ok m"

definition world_inv :: "Server \<Rightarrow> bool" where
  "world_inv s \<longleftrightarrow> keyed res_ID (s_resources s) \<and> mammoths_inv (s_mammoths s) \<and> keyed well_ID (s_wells s) \<and>
     keyed h_ID (s_houses s) \<and> keyed sol_ID (s_solar s) \<and> batteries_inv (s_batteries s) \<and>
     factories_inv (s_factories s) \<and> rockets_inv (s_rockets s) \<and> boats_inv (s_boats s) \<and>
     mobs_inv (s_mobs s) \<and> projectiles_inv (s_projectiles s)"

definition server_inv :: "Server \<Rightarrow> bool" where
  "server_inv s \<longleftrightarrow> clients_inv s \<and> world_inv s \<and> 1 \<le> s_tickRate s \<and> s_tickRate s \<le> 1000"

section \<open>Rules\<close>

lemma server_invI: "clients_inv s \<Longrightarrow> world_inv s \<Longrightarrow> 1 \<le> s_tickRate s \<Longrightarrow> s_tickRate s \<le> 1000 \<Longrightarrow> server_inv s"
  by (simp add: server_inv_def)

lemma server_invD: "server_inv s \<Longrightarrow> clients_inv s" "server_inv s \<Longrightarrow> world_inv s"
  "server_inv s \<Longrightarrow> 1 \<le> s_tickRate s" "server_inv s \<Longrightarrow> s_tickRate s \<le> 1000"
  by (simp_all add: server_inv_def)

lemma world_inv_frame [simp]:
  "world_inv (s\<lparr>s_clients := a1\<rparr>) = world_inv s" "world_inv (s\<lparr>s_world := a2\<rparr>) = world_inv s"
  "world_inv (s\<lparr>s_tick := a3\<rparr>) = world_inv s" "world_inv (s\<lparr>s_rng := a4\<rparr>) = world_inv s"
  "world_inv (s\<lparr>s_TicksTotal := a5\<rparr>) = world_inv s" "world_inv (s\<lparr>s_ChatMessages := a6\<rparr>) = world_inv s"
  "world_inv (s\<lparr>s_PlayersConnected := a7\<rparr>) = world_inv s" "world_inv (put_client cid c s) = world_inv s"
  "world_inv (snd (new_id s)) = world_inv s"
  by (simp_all add: world_inv_def)

lemma world_inv_updates [inv_intros]:
  "world_inv s \<Longrightarrow> keyed res_ID a1 \<Longrightarrow> world_inv (s\<lparr>s_resources := a1\<rparr>)"
  "world_inv s \<Longrightarrow> mammoths_inv a2 \<Longrightarrow> world_inv (s\<lparr>s_mammoths := a2\<rparr>)"
  "world_inv s \<Longrightarrow> keyed well_ID a3 \<Longrightarrow> world_inv (s\<lparr>s_wells := a3\<rparr>)"
  "world_inv s \<Longrightarrow> keyed h_ID a4 \<Longrightarrow> world_inv (s\<lparr>s_houses := a4\<rparr>)"
  "world_inv s \<Longrightarrow> keyed sol_ID a5 \<Longrightarrow> world_inv (s\<lparr>s_solar := a5\<rparr>)"
  "world_inv s \<Longrightarrow> batteries_inv a6 \<Longrightarrow> world_inv (s\<lparr>s_batteries := a6\<rparr>)"
  "world_inv s \<Longrightarrow> factories_inv a7 \<Longrightarrow> world_inv (s\<lparr>s_factories := a7\<rparr>)"
  "world_inv s \<Longrightarrow> rockets_inv a8 \<Longrightarrow> world_inv (s\<lparr>s_rockets := a8\<rparr>)"
  "world_inv s \<Longrightarrow> boats_inv a9 \<Longrightarrow> world_inv (s\<lparr>s_boats := a9\<rparr>)"
  "world_inv s \<Longrightarrow> mobs_inv a10 \<Longrightarrow> world_inv (s\<lparr>s_mobs := a10\<rparr>)"
  "world_inv s \<Longrightarrow> projectiles_inv a11 \<Longrightarrow> world_inv (s\<lparr>s_projectiles := a11\<rparr>)"
  by (simp_all add: world_inv_def)

lemma world_invD:
  "world_inv s \<Longrightarrow> keyed res_ID (s_resources s)" "world_inv s \<Longrightarrow> mammoths_inv (s_mammoths s)"
  "world_inv s \<Longrightarrow> keyed well_ID (s_wells s)" "world_inv s \<Longrightarrow> keyed h_ID (s_houses s)"
  "world_inv s \<Longrightarrow> keyed sol_ID (s_solar s)" "world_inv s \<Longrightarrow> batteries_inv (s_batteries s)"
  "world_inv s \<Longrightarrow> factories_inv (s_factories s)" "world_inv s \<Longrightarrow> rockets_inv (s_rockets s)"
  "world_inv s \<Longrightarrow> boats_inv (s_boats s)" "world_inv s \<Longrightarrow> mobs_inv (s_mobs s)"
  "world_inv s \<Longrightarrow> projectiles_inv (s_projectiles s)"
  by (simp_all add: world_inv_def)

text \<open>
  A handler keeps the invariant if, for a player in order, what it returns does; the other
  rules say so of the updates a handler is made of.
\<close>

lemma server_inv_with:
  assumes "server_inv s"
    "\<And>c. mget (s_clients s) cid = Some c \<Longrightarrow> client_ok c \<Longrightarrow> c_ID c = cid \<Longrightarrow> server_inv (f c)"
  shows "server_inv (with_client cid s f)"
proof (rule with_client_cases [where P = server_inv, OF assms(1)])
  fix c assume c: "mget (s_clients s) cid = Some c"
  from clients_invD [OF server_invD(1) [OF assms(1)] c] show "server_inv (f c)"
    using assms(2) [OF c] by simp
qed

lemma server_inv_put [inv_intros]:
  "server_inv s \<Longrightarrow> client_ok c \<Longrightarrow> c_ID c = cid \<Longrightarrow> server_inv (put_client cid c s)"
  by (simp add: server_inv_def clients_inv_put)

lemma server_inv_frame [simp]:
  "server_inv (s\<lparr>s_world := a2\<rparr>) = server_inv s" "server_inv (s\<lparr>s_tick := a3\<rparr>) = server_inv s"
  "server_inv (s\<lparr>s_rng := a4\<rparr>) = server_inv s" "server_inv (s\<lparr>s_TicksTotal := a5\<rparr>) = server_inv s"
  "server_inv (s\<lparr>s_ChatMessages := a6\<rparr>) = server_inv s"
  "server_inv (s\<lparr>s_PlayersConnected := a7\<rparr>) = server_inv s" "server_inv (snd (new_id s)) = server_inv s"
  by (simp_all add: server_inv_def)

lemma server_inv_updates [inv_intros]:
  "server_inv s \<Longrightarrow> keyed res_ID a1 \<Longrightarrow> server_inv (s\<lparr>s_resources := a1\<rparr>)"
  "server_inv s \<Longrightarrow> mammoths_inv a2 \<Longrightarrow> server_inv (s\<lparr>s_mammoths := a2\<rparr>)"
  "server_inv s \<Longrightarrow> keyed well_ID a3 \<Longrightarrow> server_inv (s\<lparr>s_wells := a3\<rparr>)"
  "server_inv s \<Longrightarrow> keyed h_ID a4 \<Longrightarrow> server_inv (s\<lparr>s_houses := a4\<rparr>)"
  "server_inv s \<Longrightarrow> keyed sol_ID a5 \<Longrightarrow> server_inv (s\<lparr>s_solar := a5\<rparr>)"
  "server_inv s \<Longrightarrow> batteries_inv a6 \<Longrightarrow> server_inv (s\<lparr>s_batteries := a6\<rparr>)"
  "server_inv s \<Longrightarrow> factories_inv a7 \<Longrightarrow> server_inv (s\<lparr>s_factories := a7\<rparr>)"
  "server_inv s \<Longrightarrow> rockets_inv a8 \<Longrightarrow> server_inv (s\<lparr>s_rockets := a8\<rparr>)"
  "server_inv s \<Longrightarrow> boats_inv a9 \<Longrightarrow> server_inv (s\<lparr>s_boats := a9\<rparr>)"
  "server_inv s \<Longrightarrow> mobs_inv a10 \<Longrightarrow> server_inv (s\<lparr>s_mobs := a10\<rparr>)"
  "server_inv s \<Longrightarrow> projectiles_inv a11 \<Longrightarrow> server_inv (s\<lparr>s_projectiles := a11\<rparr>)"
  by (auto simp: server_inv_def intro: world_inv_updates)

lemmas server_inv_stores =
  world_invD [OF server_invD(2)]

text \<open>Stores under \<open>mput\<close>, \<open>mdel\<close> and pointwise change.\<close>

lemma one_riderD: "one_rider f m \<Longrightarrow> mget m k = Some v \<Longrightarrow> mget m k' = Some v' \<Longrightarrow> f v = f v' \<Longrightarrow>
    f v \<noteq> '''' \<Longrightarrow> k = k'"
  unfolding one_rider_def by blast

lemma one_rider_empty [simp]: "one_rider f mempty"
  by (simp add: one_rider_def)

lemma one_riderI:
  "(\<And>k k' v v'. mget m k = Some v \<Longrightarrow> mget m k' = Some v' \<Longrightarrow> f v = f v' \<Longrightarrow> f v \<noteq> '''' \<Longrightarrow> k = k') \<Longrightarrow> one_rider f m"
  unfolding one_rider_def by blast

lemma one_rider_put_free:
  assumes "one_rider f m" "\<And>k' v'. mget m k' = Some v' \<Longrightarrow> k' \<noteq> k \<Longrightarrow> f v' \<noteq> f v \<or> f v = ''''"
  shows "one_rider f (mput k v m)"
proof (rule one_riderI)
  fix a a' u u'
  assume "mget (mput k v m) a = Some u" "mget (mput k v m) a' = Some u'" "f u = f u'" "f u \<noteq> ''''"
  then show "a = a'"
    using assms(2) [of a u] assms(2) [of a' u'] one_riderD [OF assms(1), of a u a' u']
    by (auto simp: lookup_update split: if_splits)
qed

lemma one_rider_put_same:
  assumes "one_rider f m" "mget m k = Some v0" "f v = f v0 \<or> f v = ''''"
  shows "one_rider f (mput k v m)"
proof (rule one_rider_put_free [OF assms(1)])
  fix k' v' assume "mget m k' = Some v'" "k' \<noteq> k"
  then show "f v' \<noteq> f v \<or> f v = ''''" using assms(3) one_riderD [OF assms(1,2), of k' v'] by metis
qed

lemma one_rider_del: "one_rider f m \<Longrightarrow> one_rider f (mdel k m)"
  by (rule one_riderI) (auto split: if_splits dest: one_riderD)

lemma one_rider_mmap:
  assumes "one_rider f m" "\<And>v. f (g v) = f v \<or> f (g v) = ''''"
  shows "one_rider f (mmap g m)"
proof -
  have "f v = f (g v)" if "f (g v) \<noteq> ''''" for v using assms(2) [of v] that by simp
  then show ?thesis unfolding one_rider_def
    by (auto intro: one_riderD [OF assms(1)])
qed

lemma stores_empty [simp]:
  "mammoths_inv mempty" "boats_inv mempty" "batteries_inv mempty" "factories_inv mempty"
  "rockets_inv mempty" "mobs_inv mempty" "projectiles_inv mempty"
  by (simp_all add: mammoths_inv_def boats_inv_def batteries_inv_def factories_inv_def rockets_inv_def
      mobs_inv_def projectiles_inv_def)

lemma server_inv_lone: "client_ok c \<Longrightarrow> server_inv (lone_server c)"
  by (rule server_invI, erule clients_inv_lone) (simp_all add: world_inv_def lone_server_def newStore_def in_i64_def)

end
