(* ===== verification/Farm.thy ===== *)
theory Farm
  imports Invariants
begin

text \<open>
  \<open>internal/server/net/farm.go\<close> and \<open>wells.go\<close>: resources scattered on the surface, planting,
  watering and growing of seeds, and the wells. \<open>handleWaterPlant\<close> gives up the lock of the
  resources between its check and its commit, so it is the composition of three atomic phases.
\<close>

section \<open>Random places\<close>

definition be_uint64 :: "8 word list \<Rightarrow> nat" where
  "be_uint64 bs = foldl (\<lambda>a b. a * 256 + unat b) 0 bs"

definition unit_interval :: "8 word list \<Rightarrow> f64" where
  "unit_interval bs = f64_of_int (int (be_uint64 bs)) / c64 (2 ^ 64 - 1)"

definition pi_rat :: rat where
  "pi_rat = 314159265358979323846264338327950288419716939937510582097494459 / 10 ^ 62"

definition two_pi :: f64 where "two_pi = c64 (2 * pi_rat)"

text \<open>The pair \<open>(theta, phi)\<close> of 16 random bytes.\<close>

definition rand_angles :: "env \<Rightarrow> rng \<Rightarrow> (f64 \<times> f64) \<times> rng" where
  "rand_angles E r = (case rand_read 16 r of (b, r') \<Rightarrow>
     ((two_pi * unit_interval (take 8 b), m_acos E (c64 2 * unit_interval (drop 8 b) - c64 1)), r'))"

definition sphere_point :: "env \<Rightarrow> f64 \<times> f64 \<Rightarrow> Vector3" where
  "sphere_point E tp = vec (f32_of (m_sin E (snd tp) * m_cos E (fst tp))) (f32_of (m_cos E (snd tp)))
     (f32_of (m_sin E (snd tp) * m_sin E (fst tp)))"

definition surface_point :: "env \<Rightarrow> Server \<Rightarrow> Vector3 \<times> Server" where
  "surface_point E s = (case rand_angles E (s_rng s) of (tp, r) \<Rightarrow>
     (ClampToSurface E (sphere_point E tp), s\<lparr>s_rng := r\<rparr>))"

section \<open>Resources\<close>

definition resourceTypes :: "string list" where
  "resourceTypes = [''stone'', ''wood'', ''ore'', ''fruit'', ''fruit'', ''fruit'', ''fruit'', ''fruit'', ''water'', ''liana'']"

definition mk_resource :: "string \<Rightarrow> string \<Rightarrow> Vector3 \<Rightarrow> Resource" where
  "mk_resource i t p = \<lparr>res_ID = i, res_Type = t, res_X = v_X p, res_Y = v_Y p, res_Z = v_Z p,
     res_Watered = False, res_GrowAt = 0\<rparr>"

definition add_resource :: "string \<Rightarrow> Vector3 \<Rightarrow> Server \<Rightarrow> Server" where
  "add_resource t p s = (case new_id s of (i, s') \<Rightarrow>
     s'\<lparr>s_resources := mput i (mk_resource i t p) (s_resources s')\<rparr>)"

definition spawn_resource :: "env \<Rightarrow> nat \<Rightarrow> Server \<Rightarrow> Server" where
  "spawn_resource E i s = (case surface_point E s of (pos, s') \<Rightarrow>
     add_resource (resourceTypes ! (i mod length resourceTypes)) pos s')"

definition spawnResources :: "env \<Rightarrow> nat \<Rightarrow> Server \<Rightarrow> Server" where
  "spawnResources E n s = fold (spawn_resource E) [0..<n] s"

definition plant_d2 :: f64 where "plant_d2 = c64 25"
definition growDelay :: duration where "growDelay = 30 * second"

definition plant_pos :: "PlantSeed \<Rightarrow> Vector3" where
  "plant_pos p = vec (plant_X p) (plant_Y p) (plant_Z p)"

definition handlePlantSeed :: "env \<Rightarrow> string \<Rightarrow> PlantSeed \<Rightarrow> Server \<Rightarrow> Server" where
  "handlePlantSeed E cid p s = with_client cid s (\<lambda>c.
     if plant_d2 < d2_64 (plant_pos p) (ps_pos (State c)) then s
     else if \<not> fst (consumeItem ''fruit'' c) then s
     else put_client cid (sendInventory (snd (consumeItem ''fruit'' c)))
            (add_resource ''seed'' (ClampToSurface E (plant_pos p)) s))"

text \<open>Check, payment and commit of \<open>handleWaterPlant\<close>.\<close>

definition thirsty :: "Resource \<Rightarrow> bool" where
  "thirsty r \<longleftrightarrow> res_Type r = ''seed'' \<and> \<not> res_Watered r"

definition water_check :: "string \<Rightarrow> Client \<Rightarrow> Server \<Rightarrow> bool" where
  "water_check rid c s = (case mget (s_resources s) rid of
     None \<Rightarrow> False
   | Some r \<Rightarrow> thirsty r \<and> \<not> c64 25 < d2_64 (res_pos r) (ps_pos (State c)))"

definition water_commit :: "env \<Rightarrow> string \<Rightarrow> Server \<Rightarrow> Server" where
  "water_commit E rid s = (case mget (s_resources s) rid of
     None \<Rightarrow> s
   | Some r \<Rightarrow> if thirsty r
       then s\<lparr>s_resources := mput rid (r\<lparr>res_Watered := True,
              res_GrowAt := unix_milli (time_add (e_now E) growDelay)\<rparr>) (s_resources s)\<rparr>
       else s)"

definition water_opens :: "string \<Rightarrow> string \<Rightarrow> Server \<Rightarrow> bool" where
  "water_opens cid rid s = (case mget (s_clients s) cid of None \<Rightarrow> False | Some c \<Rightarrow> water_check rid c s)"

definition handleWaterPlant :: "env \<Rightarrow> string \<Rightarrow> string \<Rightarrow> Server \<Rightarrow> Server" where
  "handleWaterPlant E cid rid s = with_client cid s (\<lambda>c.
     if \<not> water_check rid c s then s
     else if \<not> fst (consumeItem ''water'' c) then s
     else water_commit E rid (put_client cid (sendInventory (snd (consumeItem ''water'' c))) s))"

section \<open>Growth\<close>

definition ripe :: "int \<Rightarrow> Resource \<Rightarrow> bool" where
  "ripe now r \<longleftrightarrow> res_Type r = ''seed'' \<and> res_Watered r \<and> \<not> now < res_GrowAt r"

definition harvestFruits :: nat where "harvestFruits = 2"

definition harvest :: "Resource \<Rightarrow> Server \<Rightarrow> Server" where
  "harvest r s = fold (\<lambda>i. add_resource ''fruit''
     (vec (res_X r + f32_of_int (int i) * c32 (3 / 2)) (res_Y r) (res_Z r))) [0..<harvestFruits] s"

definition grow_seed :: "int \<Rightarrow> string \<Rightarrow> Server \<Rightarrow> Server" where
  "grow_seed now i s = (case mget (s_resources s) i of
     None \<Rightarrow> s
   | Some r \<Rightarrow> if \<not> ripe now r then s
       else harvest r (s\<lparr>s_resources := mdel i (s_resources s)\<rparr>))"

definition tickResources :: "env \<Rightarrow> Server \<Rightarrow> Server" where
  "tickResources E s = fold (grow_seed (unix_milli (e_now E)))
     (range_keys (e_ord E) [''tickResources''] (s_resources s)) s"

section \<open>Wells\<close>

definition spawn_well :: "env \<Rightarrow> nat \<Rightarrow> Server \<Rightarrow> Server" where
  "spawn_well E i s = (case surface_point E s of (pos, s') \<Rightarrow> case new_id s' of (w, s'') \<Rightarrow>
     s''\<lparr>s_wells := mput w \<lparr>well_ID = w, well_X = v_X pos, well_Y = v_Y pos, well_Z = v_Z pos\<rparr> (s_wells s'')\<rparr>)"

definition spawnWells :: "env \<Rightarrow> nat \<Rightarrow> Server \<Rightarrow> Server" where
  "spawnWells E n s = fold (spawn_well E) [0..<n] s"

definition handleTakeWater :: "string \<Rightarrow> string \<Rightarrow> Server \<Rightarrow> Server" where
  "handleTakeWater cid wellID s = with_client cid s (\<lambda>c.
     case mget (s_wells s) wellID of
       None \<Rightarrow> s
     | Some w \<Rightarrow>
         if c64 25 < d2_64 (well_pos w) (ps_pos (State c)) then s
         else put_client cid (sendEnvelope (MsgInventory (fst (addItem ''water'' c))) (snd (addItem ''water'' c))) s)"

section \<open>Frames and invariants\<close>

lemma add_resource_eq: "add_resource t p s = (snd (new_id s))\<lparr>s_resources :=
    mput (fst (new_id s)) (mk_resource (fst (new_id s)) t p) (s_resources s)\<rparr>"
  by (simp add: add_resource_def case_prod_beta)

lemma server_inv_add_resource [inv_intros]: "server_inv s \<Longrightarrow> server_inv (add_resource t p s)"
  unfolding add_resource_eq
  by (rule server_inv_updates) (auto intro!: keyed_put intro: server_inv_stores simp: mk_resource_def)

lemma add_resource_clients [simp]: "s_clients (add_resource t p s) = s_clients s"
  by (simp add: add_resource_eq)

lemma server_inv_surface_point [inv_intros]: "server_inv s \<Longrightarrow> server_inv (snd (surface_point E s))"
  by (simp add: surface_point_def split: prod.split)

lemma server_inv_spawnResources [inv_intros]: "server_inv s \<Longrightarrow> server_inv (spawnResources E n s)"
  unfolding spawnResources_def
proof (rule fold_invariant_on [where P = server_inv])
  fix i s assume "server_inv s"
  then show "server_inv (spawn_resource E i s)" unfolding spawn_resource_def case_prod_beta
    by (intro inv_intros)
qed

lemma server_inv_spawnWells [inv_intros]: "server_inv s \<Longrightarrow> server_inv (spawnWells E n s)"
  unfolding spawnWells_def
proof (rule fold_invariant_on [where P = server_inv])
  fix i s assume "server_inv s"
  then show "server_inv (spawn_well E i s)" unfolding spawn_well_def case_prod_beta
    by (intro inv_intros) (auto intro: server_inv_stores inv_intros)
qed

lemma server_inv_handlePlantSeed [inv_intros]: "server_inv s \<Longrightarrow> server_inv (handlePlantSeed E cid p s)"
  unfolding handlePlantSeed_def by (rule server_inv_with) (auto intro!: inv_intros)

lemma server_inv_water_commit [inv_intros]: "server_inv s \<Longrightarrow> server_inv (water_commit E rid s)"
  by (auto simp: water_commit_def split: option.split intro!: inv_intros intro: server_inv_stores
      dest: keyedD [OF server_inv_stores(1)])

lemma server_inv_handleWaterPlant [inv_intros]: "server_inv s \<Longrightarrow> server_inv (handleWaterPlant E cid rid s)"
  unfolding handleWaterPlant_def by (rule server_inv_with) (auto intro!: inv_intros)

lemma server_inv_handleTakeWater [inv_intros]: "server_inv s \<Longrightarrow> server_inv (handleTakeWater cid w s)"
  unfolding handleTakeWater_def
  by (rule server_inv_with) (auto split: option.split intro!: inv_intros)

lemma server_inv_harvest [inv_intros]: "server_inv s \<Longrightarrow> server_inv (harvest r s)"
  unfolding harvest_def by (rule fold_invariant_on [where P = server_inv]) (auto intro: inv_intros)

lemma server_inv_tickResources [inv_intros]: "server_inv s \<Longrightarrow> server_inv (tickResources E s)"
  unfolding tickResources_def
  by (rule fold_invariant_on [where P = server_inv])
     (auto simp: grow_seed_def split: option.split intro!: inv_intros intro: server_inv_stores)

section \<open>Correctness\<close>

text \<open>
  Planting within reach turns one fruit into one seed: the count of fruit goes down by one, a
  fresh dry seed lies on the surface below the chosen point, and nothing else of the player's
  inventory changes. Out of reach or without fruit nothing changes at all.
\<close>

theorem handlePlantSeed_correct:
  assumes "server_inv s" and "mget (s_clients s) cid = Some c"
  shows "if \<not> plant_d2 < d2_64 (plant_pos p) (ps_pos (State c)) \<and> 0 < has ''fruit'' c then
      (\<exists>c' i. mget (s_clients (handlePlantSeed E cid p s)) cid = Some c' \<and>
         (\<forall>k. has k c' = has k c - (if k = ''fruit'' then 1 else 0)) \<and>
         s_resources (handlePlantSeed E cid p s) =
           mput i (mk_resource i ''seed'' (ClampToSurface E (plant_pos p))) (s_resources s) \<and> length i = 16)
    else handlePlantSeed E cid p s = s"
proof -
  have ok: "client_ok c" using clients_invD [OF server_invD(1) [OF assms(1)] assms(2)] by simp
  have "length (fst (new_id s)) = 16" 
    using newID_length [of "s_rng s"] by (simp add: new_id_def case_prod_beta)
  moreover have "has k (snd (consumeItem ''fruit'' c)) = has k c - (if k = ''fruit'' then 1 else 0)"
    if "0 < has ''fruit'' c" for k
    using has_consumeItem [OF ok] that by (simp add: consumeItem_iff)
  ultimately show ?thesis using assms(2)
    by (auto simp: handlePlantSeed_def consumeItem_iff add_resource_eq)
qed

theorem handlePlantSeed_correct_witness:
  "\<exists>c'. mget (s_clients (handlePlantSeed flat_env ''a'' \<lparr>plant_X = 0, plant_Y = 0, plant_Z = 0\<rparr>
      (lone_server (player_with [(''fruit'', 2)])))) ''a'' = Some c' \<and> has ''fruit'' c' = 1"
proof -
  let ?c = "player_with [(''fruit'', 2)]" and ?p = "\<lparr>plant_X = 0, plant_Y = 0, plant_Z = 0\<rparr>"
  have "server_inv (lone_server ?c)"
    by (intro server_inv_lone client_ok_player_with) (simp add: in_i64_def)
  moreover have "\<not> plant_d2 < d2_64 (plant_pos ?p) (ps_pos (State ?c))"
    by code_simp
  moreover have "has ''fruit'' ?c = 2" by (simp add: has_def stock_def mget_int_put)
  ultimately show ?thesis using handlePlantSeed_correct [of "lone_server ?c" "''a''" ?c ?p flat_env] by auto
qed

text \<open>
  A seed is watered once: after a commit a later commit (by whichever player's handler, at any
  later time, with anything in between that keeps the seed's entry) neither restarts its clock
  nor changes anything. The second of two handlers that passed their checks together has then
  paid its water for nothing.
\<close>

theorem water_once:
  assumes "mget (s_resources s') rid = mget (s_resources (water_commit E rid s)) rid"
  shows "water_commit E' rid s' = s'"
  using assms by (auto simp: water_commit_def thirsty_def lookup_update split: option.splits if_splits)

theorem water_once_witness:
  "water_commit flat_env ''r'' (water_commit flat_env ''r''
     ((lone_server (new_client ''a''))\<lparr>s_resources := mput ''r'' (mk_resource ''r'' ''seed'' zero_vec) mempty\<rparr>)) =
   (lone_server (new_client ''a''))\<lparr>s_resources := mput ''r'' ((mk_resource ''r'' ''seed'' zero_vec)
     \<lparr>res_Watered := True, res_GrowAt := unix_milli (e_now flat_env + 30000000000)\<rparr>)
       (mput ''r'' (mk_resource ''r'' ''seed'' zero_vec) mempty)\<rparr>"
  unfolding water_once [OF refl]
  by (simp add: water_commit_def thirsty_def mk_resource_def lookup_update growDelay_def second_def time_add_def)

lemma mget_add_resource:
  "mget (s_resources (add_resource t p s)) k =
     (if k = fst (new_id s) then Some (mk_resource k t p) else mget (s_resources s) k)"
  by (auto simp: add_resource_eq lookup_update)

text \<open>A store of resources where every change since \<open>m\<close> is a new fruit or a ripe seed taken.\<close>

definition grown :: "int \<Rightarrow> Resource store \<Rightarrow> Resource store \<Rightarrow> bool" where
  "grown now m m' \<longleftrightarrow> (\<forall>k. mget m' k = mget m k \<or>
     (\<exists>p. mget m' k = Some (mk_resource k ''fruit'' p)) \<or>
     mget m' k = None \<and> (\<exists>r. mget m k = Some r \<and> ripe now r))"

lemma grown_add_fruit: "grown now m (s_resources s) \<Longrightarrow> grown now m (s_resources (add_resource ''fruit'' p s))"
  by (auto simp: grown_def mget_add_resource)

lemma grown_harvest: "grown now m (s_resources s) \<Longrightarrow> grown now m (s_resources (harvest r s))"
  unfolding harvest_def
  by (rule fold_invariant_on [where P = "\<lambda>s. grown now m (s_resources s)"]) (auto intro: grown_add_fruit)

lemma not_ripe_fruit: "\<not> ripe now (mk_resource k ''fruit'' p)"
  by (simp add: ripe_def mk_resource_def)

lemma grown_grow_seed:
  assumes "grown now m (s_resources s)"
  shows "grown now m (s_resources (grow_seed now i s))"
proof (cases "mget (s_resources s) i")
  case (Some r)
  show ?thesis
  proof (cases "ripe now r")
    case True
    then have "mget (s_resources s) i = mget m i"
      using assms Some not_ripe_fruit unfolding grown_def by (metis option.inject option.simps(3))
    then have "grown now m (mdel i (s_resources s))" using assms Some True by (auto simp: grown_def)
    then show ?thesis using Some True by (simp add: grow_seed_def grown_harvest)
  qed (use Some assms in \<open>simp add: grow_seed_def\<close>)
qed (use assms in \<open>simp add: grow_seed_def\<close>)

lemma no_ripe_harvest:
  "(\<And>r. mget (s_resources s) k = Some r \<Longrightarrow> \<not> ripe now r) \<Longrightarrow>
   mget (s_resources (harvest r' s)) k = Some r \<Longrightarrow> \<not> ripe now r"
  unfolding harvest_def harvestFruits_def
  by (auto simp: mget_add_resource not_ripe_fruit numeral_2_eq_2 split: if_splits)

lemma no_ripe_grow_seed:
  assumes "k \<noteq> i \<Longrightarrow> (\<And>r. mget (s_resources s) k = Some r \<Longrightarrow> \<not> ripe now r)"
    "mget (s_resources (grow_seed now i s)) k = Some r"
  shows "\<not> ripe now r"
proof (cases "mget (s_resources s) i")
  case (Some r0)
  show ?thesis
  proof (cases "ripe now r0")
    case True
    have "\<not> ripe now r'" if "mget (mdel i (s_resources s)) k = Some r'" for r'
      using that assms(1) by (auto split: if_splits)
    then show ?thesis
      using assms(2) Some True no_ripe_harvest [of "s\<lparr>s_resources := mdel i (s_resources s)\<rparr>" k now r0 r]
      by (simp add: grow_seed_def)
  qed (use Some assms in \<open>cases "k = i"; auto simp: grow_seed_def\<close>)
qed (use assms in \<open>cases "k = i"; auto simp: grow_seed_def\<close>)

lemma no_ripe_fold:
  assumes "k \<in> set ks \<or> (\<forall>r. mget (s_resources s) k = Some r \<longrightarrow> \<not> ripe now r)"
    "mget (s_resources (fold (grow_seed now) ks s)) k = Some r"
  shows "\<not> ripe now r"
  using assms
proof (induction ks arbitrary: s)
  case (Cons i ks)
  have "k \<in> set ks \<or> (\<forall>r. mget (s_resources (grow_seed now i s)) k = Some r \<longrightarrow> \<not> ripe now r)"
    using Cons.prems(1) no_ripe_grow_seed [of k i s now] by auto
  with Cons show ?case by simp
qed simp

text \<open>
  After a growth tick, in whatever order Go walks the map, no ripe seed is left; every other
  resource is still there unchanged unless a fresh fruit took its identifier; and all that is
  new is fruit. So seeds that are dry or still growing are never harvested.
\<close>

theorem tickResources_correct:
  "(\<forall>k. case mget (s_resources (tickResources E s)) k of
      None \<Rightarrow> (case mget (s_resources s) k of None \<Rightarrow> True | Some r \<Rightarrow> ripe (unix_milli (e_now E)) r)
    | Some r \<Rightarrow> \<not> ripe (unix_milli (e_now E)) r \<and>
        (mget (s_resources s) k = Some r \<or> (\<exists>p. r = mk_resource k ''fruit'' p)))"
proof -
  let ?now = "unix_milli (e_now E)" and ?m' = "s_resources (tickResources E s)"
  let ?ks = "range_keys (e_ord E) [''tickResources''] (s_resources s)"
  have "grown ?now (s_resources s) (s_resources s)" by (simp add: grown_def)
  then have g: "grown ?now (s_resources s) ?m'"
    unfolding tickResources_def
    by (intro fold_invariant_on [where P = "\<lambda>s'. grown ?now (s_resources s) (s_resources s')"])
       (auto intro: grown_grow_seed)
  have n: "\<not> ripe ?now r" if "mget ?m' k = Some r" for k r
    using that no_ripe_fold [of k ?ks s ?now r] by (auto simp: tickResources_def)
  show ?thesis
  proof
    fix k
    from g [unfolded grown_def, rule_format, of k] n [of k]
    show "case mget ?m' k of
        None \<Rightarrow> (case mget (s_resources s) k of None \<Rightarrow> True | Some r \<Rightarrow> ripe ?now r)
      | Some r \<Rightarrow> \<not> ripe ?now r \<and>
          (mget (s_resources s) k = Some r \<or> (\<exists>p. r = mk_resource k ''fruit'' p))"
      by (auto split: option.split)
  qed
qed

end
