(* ===== verification/Structures.thy ===== *)
theory Structures
  imports Invariants
begin

text \<open>
  \<open>internal/server/net/houses.go\<close> and \<open>boats.go\<close>, the placing handlers of \<open>energy.go\<close>, and the
  contract that the four unconditional placing handlers share, the locale \<open>placement\<close>.
\<close>

section \<open>Houses\<close>

definition handlePlaceHouse :: "string \<Rightarrow> PlaceHouse \<Rightarrow> Server \<Rightarrow> Server" where
  "handlePlaceHouse cid p s = with_client cid s (\<lambda>c.
     if \<not> fst (consumeItem ''house'' c) then s
     else case new_id s of (i, s') \<Rightarrow>
       put_client cid (sendInventory (snd (consumeItem ''house'' c)))
         (s'\<lparr>s_houses := mput i \<lparr>h_ID = i, h_Pos = vec (plh_X p) (plh_Y p) (plh_Z p), h_Yaw = plh_Yaw p,
            h_DoorOpen = False\<rparr> (s_houses s')\<rparr>))"

definition handleToggleDoor :: "string \<Rightarrow> string \<Rightarrow> Server \<Rightarrow> Server" where
  "handleToggleDoor cid houseID s = with_client cid s (\<lambda>c.
     case mget (s_houses s) houseID of
       None \<Rightarrow> s
     | Some h \<Rightarrow>
         if c64 64 < d2_64 (h_Pos h) (ps_pos (State c)) then s
         else s\<lparr>s_houses := mput houseID (h\<lparr>h_DoorOpen := \<not> h_DoorOpen h\<rparr>) (s_houses s)\<rparr>)"

section \<open>Boats\<close>

definition at_sea :: "Vector3 \<Rightarrow> f32 \<Rightarrow> Vector3" where
  "at_sea d l = vec (v_X d / l * SeaLevel) (v_Y d / l * SeaLevel) (v_Z d / l * SeaLevel)"

definition place_boat_at :: "env \<Rightarrow> string \<Rightarrow> PlaceBoat \<Rightarrow> Vector3 \<Rightarrow> f32 \<Rightarrow> Server \<Rightarrow> Server" where
  "place_boat_at E cid p d l s = with_client cid s (\<lambda>c.
     if l < c32 (1 / 100) then s
     else if SeaLevel \<le> TerrainHeight E (v_X d / l) (v_Y d / l) (v_Z d / l) then s
     else if \<not> fst (consumeItem ''boat'' c) then s
     else case new_id s of (i, s') \<Rightarrow>
       put_client cid (sendInventory (snd (consumeItem ''boat'' c)))
         (s'\<lparr>s_boats := mput i \<lparr>b_ID = i, b_Pos = at_sea d l, b_Yaw = plb_Yaw p, b_RiderID = ''''\<rparr>
            (s_boats s')\<rparr>))"

definition handlePlaceBoat :: "env \<Rightarrow> string \<Rightarrow> PlaceBoat \<Rightarrow> Server \<Rightarrow> Server" where
  "handlePlaceBoat E cid p s = place_boat_at E cid p (vec (plb_X p) (plb_Y p) (plb_Z p))
     (vlen (vec (plb_X p) (plb_Y p) (plb_Z p))) s"

definition leave_boat :: "string \<Rightarrow> Boat \<Rightarrow> Boat" where
  "leave_boat cid b = (if b_RiderID b = cid then b\<lparr>b_RiderID := ''''\<rparr> else b)"

definition leave_mammoth :: "string \<Rightarrow> Mammoth \<Rightarrow> Mammoth" where
  "leave_mammoth cid m = (if mam_RiderID m = cid then m\<lparr>mam_RiderID := ''''\<rparr> else m)"

definition dismount :: "string \<Rightarrow> Server \<Rightarrow> Server" where
  "dismount cid s = s\<lparr>s_boats := mmap (leave_boat cid) (s_boats s),
     s_mammoths := mmap (leave_mammoth cid) (s_mammoths s)\<rparr>"

definition board_boat :: "string \<Rightarrow> string \<Rightarrow> PlayerState \<Rightarrow> Server \<Rightarrow> Server" where
  "board_boat cid boatID ps s =
     (if boatID = '''' then s
      else case mget (s_boats s) boatID of
        None \<Rightarrow> s
      | Some b \<Rightarrow>
          if c64 64 < d2_64 (b_Pos b) (ps_pos ps) then s
          else if b_RiderID b \<noteq> '''' then s
          else s\<lparr>s_boats := mput boatID (b\<lparr>b_RiderID := cid\<rparr>) (s_boats s)\<rparr>)"

definition handleEnterBoat :: "string \<Rightarrow> string \<Rightarrow> Server \<Rightarrow> Server" where
  "handleEnterBoat cid boatID s = with_client cid s (\<lambda>c.
     board_boat (c_ID c) boatID (State c) (dismount (c_ID c) s))"

definition boat_rider :: "env \<Rightarrow> Server \<Rightarrow> Boat \<Rightarrow> Client option" where
  "boat_rider E s b = List.find (\<lambda>c. c_ID c = b_RiderID b)
     (range_vals (e_ord E) [''tickBoats'', b_ID b] (s_clients s))"

definition sail_to :: "Vector3 \<Rightarrow> f32 \<Rightarrow> Boat \<Rightarrow> Boat" where
  "sail_to d l b = (if l < c32 (1 / 100) then b else b\<lparr>b_Pos := at_sea d l\<rparr>)"

definition tick_boat :: "env \<Rightarrow> Server \<Rightarrow> Boat \<Rightarrow> Boat" where
  "tick_boat E s b =
     (if b_RiderID b = '''' then b
      else case boat_rider E s b of
        None \<Rightarrow> b\<lparr>b_RiderID := ''''\<rparr>
      | Some c \<Rightarrow> sail_to (ps_pos (State c)) (vlen (ps_pos (State c))) b)"

definition tickBoats :: "env \<Rightarrow> Server \<Rightarrow> Server" where
  "tickBoats E s = s\<lparr>s_boats := mmap (tick_boat E s) (s_boats s)\<rparr>"

section \<open>Panels, batteries, factories\<close>

definition handlePlaceSolar :: "string \<Rightarrow> PlaceSolar \<Rightarrow> Server \<Rightarrow> Server" where
  "handlePlaceSolar cid p s = with_client cid s (\<lambda>c.
     if \<not> fst (consumeItem ''solar'' c) then s
     else case new_id s of (i, s') \<Rightarrow>
       put_client cid (sendInventory (snd (consumeItem ''solar'' c)))
         (s'\<lparr>s_solar := mput i \<lparr>sol_ID = i, sol_Pos = vec (pls_X p) (pls_Y p) (pls_Z p), sol_Yaw = pls_Yaw p\<rparr>
            (s_solar s')\<rparr>))"

definition handlePlaceBattery :: "string \<Rightarrow> PlaceBattery \<Rightarrow> Server \<Rightarrow> Server" where
  "handlePlaceBattery cid p s = with_client cid s (\<lambda>c.
     if \<not> fst (consumeItem ''battery'' c) then s
     else case new_id s of (i, s') \<Rightarrow>
       put_client cid (sendInventory (snd (consumeItem ''battery'' c)))
         (s'\<lparr>s_batteries := mput i \<lparr>bat_ID = i, bat_Pos = vec (plbat_X p) (plbat_Y p) (plbat_Z p),
            bat_Yaw = plbat_Yaw p, bat_Energy = 0, bat_MaxEnergy = batteryMaxEnergy\<rparr> (s_batteries s')\<rparr>))"

definition handlePlaceFactory :: "string \<Rightarrow> PlaceFactory \<Rightarrow> Server \<Rightarrow> Server" where
  "handlePlaceFactory cid p s = with_client cid s (\<lambda>c.
     if \<not> fst (consumeItem ''factory'' c) then s
     else case new_id s of (i, s') \<Rightarrow>
       put_client cid (sendInventory (snd (consumeItem ''factory'' c)))
         (s'\<lparr>s_factories := mput i \<lparr>fac_ID = i, fac_Pos = vec (plf_X p) (plf_Y p) (plf_Z p), fac_Yaw = plf_Yaw p,
            fac_Crafting = '''', fac_Progress = 0\<rparr> (s_factories s')\<rparr>))"

section \<open>The contract of placing\<close>

text \<open>How many of an item a player owns and how many stand in the world, together.\<close>

definition matter :: "string \<Rightarrow> (Server \<Rightarrow> 'v store) \<Rightarrow> string \<Rightarrow> Server \<Rightarrow> int" where
  "matter item entities cid s =
     (case mget (s_clients s) cid of None \<Rightarrow> 0 | Some c \<Rightarrow> has item c) + int (store_Len (entities s))"

locale placement =
  fixes item :: string
    and place :: "string \<Rightarrow> 'p \<Rightarrow> Server \<Rightarrow> Server"
    and entities :: "Server \<Rightarrow> 'v store"
    and entity :: "string \<Rightarrow> 'p \<Rightarrow> 'v"
  assumes place_without: "mget (s_clients s) cid = Some c \<Longrightarrow> \<not> 0 < has item c \<Longrightarrow> place cid p s = s"
    and place_player: "mget (s_clients s) cid = Some c \<Longrightarrow> 0 < has item c \<Longrightarrow>
      s_clients (place cid p s) = mput cid (sendInventory (snd (consumeItem item c))) (s_clients s)"
    and place_entity: "mget (s_clients s) cid = Some c \<Longrightarrow> 0 < has item c \<Longrightarrow>
      entities (place cid p s) = mput (fst (new_id s)) (entity (fst (new_id s)) p) (entities s)"
begin

text \<open>Items in the pocket and things in the world together stay the same in number.\<close>

lemma place_conserves:
  assumes "clients_inv s" "mget (s_clients s) cid = Some c" "mget (entities s) (fst (new_id s)) = None"
  shows "matter item entities cid (place cid p s) = matter item entities cid s"
proof (cases "0 < has item c")
  case True
  have "client_ok c" using clients_invD [OF assms(1,2)] by simp
  then have "has item (snd (consumeItem item c)) = has item c - 1"
    using has_consumeItem True by (simp add: consumeItem_iff)
  moreover have "store_Len (entities (place cid p s)) = store_Len (entities s) + 1"
    using assms(3) store.size_of_put [of _ _ "entities s"]
    by (simp add: place_entity [OF assms(2) True] store_Put_def store_Get_def)
  ultimately show ?thesis using assms(2) True by (simp add: matter_def place_player lookup_update)
next
  case False
  then show ?thesis using assms(2) by (simp add: place_without)
qed

lemma place_others:
  assumes "mget (s_clients s) cid = Some c" "cid' \<noteq> cid"
  shows "mget (s_clients (place cid p s)) cid' = mget (s_clients s) cid'"
  using assms by (cases "0 < has item c") (simp_all add: place_without place_player lookup_update)

end

definition house_of :: "string \<Rightarrow> PlaceHouse \<Rightarrow> House" where
  "house_of i p = \<lparr>h_ID = i, h_Pos = vec (plh_X p) (plh_Y p) (plh_Z p), h_Yaw = plh_Yaw p, h_DoorOpen = False\<rparr>"

definition solar_of :: "string \<Rightarrow> PlaceSolar \<Rightarrow> Solar" where
  "solar_of i p = \<lparr>sol_ID = i, sol_Pos = vec (pls_X p) (pls_Y p) (pls_Z p), sol_Yaw = pls_Yaw p\<rparr>"

definition battery_of :: "string \<Rightarrow> PlaceBattery \<Rightarrow> Battery" where
  "battery_of i p = \<lparr>bat_ID = i, bat_Pos = vec (plbat_X p) (plbat_Y p) (plbat_Z p), bat_Yaw = plbat_Yaw p,
     bat_Energy = 0, bat_MaxEnergy = batteryMaxEnergy\<rparr>"

definition factory_of :: "string \<Rightarrow> PlaceFactory \<Rightarrow> Factory" where
  "factory_of i p = \<lparr>fac_ID = i, fac_Pos = vec (plf_X p) (plf_Y p) (plf_Z p), fac_Yaw = plf_Yaw p,
     fac_Crafting = '''', fac_Progress = 0\<rparr>"

interpretation house: placement "''house''" handlePlaceHouse s_houses house_of
  by unfold_locales (auto simp: handlePlaceHouse_def house_of_def consumeItem_iff case_prod_beta put_client_def)

interpretation solar: placement "''solar''" handlePlaceSolar s_solar solar_of
  by unfold_locales (auto simp: handlePlaceSolar_def solar_of_def consumeItem_iff case_prod_beta put_client_def)

interpretation battery: placement "''battery''" handlePlaceBattery s_batteries battery_of
  by unfold_locales (auto simp: handlePlaceBattery_def battery_of_def consumeItem_iff case_prod_beta put_client_def)

interpretation factory: placement "''factory''" handlePlaceFactory s_factories factory_of
  by unfold_locales (auto simp: handlePlaceFactory_def factory_of_def consumeItem_iff case_prod_beta put_client_def)

section \<open>The invariant\<close>

lemma server_inv_handlePlaceHouse [inv_intros]: "server_inv s \<Longrightarrow> server_inv (handlePlaceHouse cid p s)"
  unfolding handlePlaceHouse_def case_prod_beta
  by (rule server_inv_with) (auto intro!: inv_intros intro: server_inv_stores)

lemma server_inv_handleToggleDoor [inv_intros]: "server_inv s \<Longrightarrow> server_inv (handleToggleDoor cid h s)"
  unfolding handleToggleDoor_def
  by (rule server_inv_with) (auto split: option.split intro!: inv_intros intro: server_inv_stores
      dest: keyedD [OF server_inv_stores(4)])

lemma boats_inv_put_new:
  "boats_inv m \<Longrightarrow> b_ID b = i \<Longrightarrow> b_RiderID b = '''' \<Longrightarrow> boats_inv (mput i b m)"
  by (simp add: boats_inv_def keyed_put one_rider_put_free)

lemma server_inv_handlePlaceBoat [inv_intros]: "server_inv s \<Longrightarrow> server_inv (handlePlaceBoat E cid p s)"
  unfolding handlePlaceBoat_def place_boat_at_def case_prod_beta
  by (rule server_inv_with) (auto intro!: inv_intros boats_inv_put_new intro: server_inv_stores)

lemma server_inv_handlePlaceSolar [inv_intros]: "server_inv s \<Longrightarrow> server_inv (handlePlaceSolar cid p s)"
  unfolding handlePlaceSolar_def case_prod_beta
  by (rule server_inv_with) (auto intro!: inv_intros intro: server_inv_stores)

lemma batteries_inv_put:
  "batteries_inv m \<Longrightarrow> bat_ID b = i \<Longrightarrow> battery_ok b \<Longrightarrow> batteries_inv (mput i b m)"
  by (simp add: batteries_inv_def keyed_put mall_put)

lemma server_inv_handlePlaceBattery [inv_intros]: "server_inv s \<Longrightarrow> server_inv (handlePlaceBattery cid p s)"
  unfolding handlePlaceBattery_def case_prod_beta
  by (rule server_inv_with)
     (auto intro!: inv_intros batteries_inv_put intro: server_inv_stores simp: battery_ok_def batteryMaxEnergy_def)

lemma factories_inv_put:
  "factories_inv m \<Longrightarrow> fac_ID b = i \<Longrightarrow> factory_ok b \<Longrightarrow> factories_inv (mput i b m)"
  by (simp add: factories_inv_def keyed_put mall_put)

lemma server_inv_handlePlaceFactory [inv_intros]: "server_inv s \<Longrightarrow> server_inv (handlePlaceFactory cid p s)"
  unfolding handlePlaceFactory_def case_prod_beta
  by (rule server_inv_with)
     (auto intro!: inv_intros factories_inv_put intro: server_inv_stores simp: factory_ok_def)

lemma mammoths_inv_leave: "mammoths_inv m \<Longrightarrow> mammoths_inv (mmap (leave_mammoth cid) m)"
  unfolding mammoths_inv_def
  by (auto intro!: keyed_mmap one_rider_mmap mall_mmap [where P = mammoth_ok] simp: leave_mammoth_def mammoth_ok_def)

lemma boats_inv_leave: "boats_inv m \<Longrightarrow> boats_inv (mmap (leave_boat cid) m)"
  unfolding boats_inv_def by (auto intro!: keyed_mmap one_rider_mmap simp: leave_boat_def)

lemma server_inv_dismount [inv_intros]: "server_inv s \<Longrightarrow> server_inv (dismount cid s)"
  unfolding dismount_def
  by (intro inv_intros mammoths_inv_leave boats_inv_leave) (auto intro: server_inv_stores)

lemma leave_not_rider: "cid \<noteq> '''' \<Longrightarrow> b_RiderID (leave_boat cid b) \<noteq> cid"
    "cid \<noteq> '''' \<Longrightarrow> mam_RiderID (leave_mammoth cid m) \<noteq> cid"
  by (simp_all add: leave_boat_def leave_mammoth_def)

lemma no_rider_dismount: "mget (s_boats (dismount cid s)) k = Some b \<Longrightarrow> cid \<noteq> '''' \<Longrightarrow> b_RiderID b \<noteq> cid"
  by (auto simp: dismount_def leave_not_rider)

lemma boats_inv_board:
  assumes "boats_inv m" "mget m i = Some b" "\<And>k b. mget m k = Some b \<Longrightarrow> b_RiderID b \<noteq> cid"
  shows "boats_inv (mput i (b\<lparr>b_RiderID := cid\<rparr>) m)"
  using assms keyedD [of b_ID m i b]
  by (auto simp: boats_inv_def intro!: keyed_put one_rider_put_free)

lemma server_inv_handleEnterBoat [inv_intros]: "server_inv s \<Longrightarrow> server_inv (handleEnterBoat cid i s)"
  unfolding handleEnterBoat_def
proof (rule server_inv_with)
  fix c assume s: "server_inv s" and c: "client_ok c" "c_ID c = cid"
  then have d: "server_inv (dismount (c_ID c) s)" by (intro inv_intros)
  have n: "b_RiderID b \<noteq> c_ID c" if "mget (s_boats (dismount (c_ID c) s)) k = Some b" for k b
    using no_rider_dismount [OF that] c(1) by (simp add: client_ok_def)
  show "server_inv (board_boat (c_ID c) i (State c) (dismount (c_ID c) s))"
    using d n unfolding board_boat_def
    by (auto split: option.split intro!: server_inv_updates boats_inv_board intro: server_inv_stores)
qed

lemma tick_boat_frame: "b_ID (tick_boat E s b) = b_ID b"
    "b_RiderID (tick_boat E s b) = b_RiderID b \<or> b_RiderID (tick_boat E s b) = ''''"
  by (auto simp: tick_boat_def sail_to_def split: option.split)

lemma server_inv_tickBoats [inv_intros]: "server_inv s \<Longrightarrow> server_inv (tickBoats E s)"
proof -
  assume s: "server_inv s"
  from server_inv_stores(9) [OF s] have "boats_inv (mmap (tick_boat E s) (s_boats s))"
    unfolding boats_inv_def by (intro conjI keyed_mmap one_rider_mmap) (rule tick_boat_frame | simp)+
  with s show ?thesis unfolding tickBoats_def by (intro inv_intros)
qed

section \<open>Correctness\<close>

text \<open>
  Placing a house, solar panel, battery or factory moves one item from the pocket into the
  world or changes nothing: for each of the four handlers, as long as the drawn identifier is
  new, the player's items of that kind plus the entities of that kind stay the same in number.
\<close>

theorem placing_conserves:
  assumes "clients_inv s" and "mget (s_clients s) cid = Some c"
    and "mget (s_houses s) (fst (new_id s)) = None" and "mget (s_solar s) (fst (new_id s)) = None"
    and "mget (s_batteries s) (fst (new_id s)) = None" and "mget (s_factories s) (fst (new_id s)) = None"
  shows "matter ''house'' s_houses cid (handlePlaceHouse cid q1 s) = matter ''house'' s_houses cid s \<and>
    matter ''solar'' s_solar cid (handlePlaceSolar cid q2 s) = matter ''solar'' s_solar cid s \<and>
    matter ''battery'' s_batteries cid (handlePlaceBattery cid q3 s) = matter ''battery'' s_batteries cid s \<and>
    matter ''factory'' s_factories cid (handlePlaceFactory cid q4 s) = matter ''factory'' s_factories cid s"
  using assms
  by (simp add: house.place_conserves solar.place_conserves battery.place_conserves factory.place_conserves)

theorem placing_conserves_witness:
  "matter ''house'' s_houses ''a''
     (handlePlaceHouse ''a'' \<lparr>plh_X = 0, plh_Y = 0, plh_Z = 0, plh_Yaw = 0\<rparr> (lone_server (player_with [(''house'', 3)]))) = 3"
proof -
  let ?s = "lone_server (player_with [(''house'', 3)])"
  have "clients_inv ?s" by (intro clients_inv_lone client_ok_player_with) (simp add: in_i64_def)
  moreover have "matter ''house'' s_houses ''a'' ?s = 3" by code_simp
  ultimately show ?thesis
    using placing_conserves [of ?s "''a''" "player_with [(''house'', 3)]"] by (simp add: lone_server_def newStore_def)
qed

text \<open>
  Whoever asks for a boat first leaves every mount: afterwards the player rides no mammoth, and
  rides exactly the requested boat if it exists, is within eight units and nobody else is in
  it, and no boat at all otherwise. Other riders keep their boats.
\<close>

theorem handleEnterBoat_correct:
  assumes "server_inv s" and "mget (s_clients s) cid = Some c"
  shows "(\<forall>k. case mget (s_mammoths (handleEnterBoat cid i s)) k of None \<Rightarrow> True | Some m \<Rightarrow> mam_RiderID m \<noteq> cid) \<and>
    (\<forall>k. case mget (s_boats s) k of
       None \<Rightarrow> mget (s_boats (handleEnterBoat cid i s)) k = None
     | Some b \<Rightarrow> \<exists>rider. mget (s_boats (handleEnterBoat cid i s)) k = Some (b\<lparr>b_RiderID := rider\<rparr>) \<and>
         rider = (if k = i \<and> i \<noteq> '''' \<and> \<not> c64 64 < d2_64 (b_Pos b) (ps_pos (State c)) \<and> b_RiderID b \<in> {'''', cid}
                  then cid else if b_RiderID b = cid then '''' else b_RiderID b))"
proof -
  have c: "c_ID c = cid" "cid \<noteq> ''''"
    using clients_invD [OF server_invD(1) [OF assms(1)] assms(2)] by (auto simp: client_ok_def)
  have e: "handleEnterBoat cid i s = board_boat cid i (State c) (dismount cid s)"
    using assms(2) c(1) by (simp add: handleEnterBoat_def)
  have m: "s_mammoths (board_boat cid i (State c) s') = s_mammoths s'" for s'
    by (simp add: board_boat_def split: option.split)
  have "mam_RiderID v \<noteq> cid" if "mget (s_mammoths (handleEnterBoat cid i s)) k = Some v" for k v
    using that c(2) by (auto simp: e m dismount_def leave_not_rider)
  moreover have "mget (s_boats (handleEnterBoat cid i s)) k = None" if "mget (s_boats s) k = None" for k
    using that by (auto simp: e board_boat_def dismount_def lookup_update split: option.split)
  moreover have "mget (s_boats (handleEnterBoat cid i s)) k = Some (b\<lparr>b_RiderID :=
      (if k = i \<and> i \<noteq> '''' \<and> \<not> c64 64 < d2_64 (b_Pos b) (ps_pos (State c)) \<and> b_RiderID b \<in> {'''', cid}
       then cid else if b_RiderID b = cid then '''' else b_RiderID b)\<rparr>)"
    if "mget (s_boats s) k = Some b" for k b
    using that c(2)
    by (cases "k = i") (auto simp: e board_boat_def dismount_def leave_boat_def lookup_update split: option.split)
  ultimately show ?thesis by (auto split: option.split)
qed

definition moored :: Boat where "moored = \<lparr>b_ID = ''b'', b_Pos = zero_vec, b_Yaw = 0, b_RiderID = ''''\<rparr>"

theorem handleEnterBoat_correct_witness:
  "mget (s_boats (handleEnterBoat ''a'' ''b'' ((lone_server (new_client ''a''))\<lparr>s_boats := mput ''b'' moored mempty\<rparr>))) ''b''
     = Some (moored\<lparr>b_RiderID := ''a''\<rparr>)"
proof -
  let ?c = "new_client ''a''"
  let ?s = "(lone_server ?c)\<lparr>s_boats := mput ''b'' moored mempty\<rparr>"
  have "server_inv ?s"
    by (intro inv_intros server_inv_lone client_ok_new boats_inv_put_new) (simp_all add: moored_def)
  moreover have "mget (s_clients ?s) ''a'' = Some ?c" by (simp add: new_client_def)
  moreover have "\<not> c64 64 < d2_64 (b_Pos moored) (ps_pos (State ?c))" by code_simp
  ultimately show ?thesis using handleEnterBoat_correct [of ?s "''a''" ?c "''b''"]
    by (auto simp: lookup_update moored_def dest!: spec [of _ "''b''"])
qed

lemma boat_rider_eq: "clients_inv s \<Longrightarrow> boat_rider E s b = mget (s_clients s) (b_RiderID b)"
proof -
  assume k: "clients_inv s"
  show ?thesis
  proof (cases "boat_rider E s b")
    case None
    then have "\<And>c. c \<in> set (range_vals (e_ord E) [''tickBoats'', b_ID b] (s_clients s)) \<Longrightarrow> c_ID c \<noteq> b_RiderID b"
      by (simp add: boat_rider_def find_None_iff)
    then have "mget (s_clients s) (b_RiderID b) = None"
      using clients_invD [OF k] by (cases "mget (s_clients s) (b_RiderID b)") (auto simp: in_range_vals)
    with None show ?thesis by simp
  next
    case (Some c)
    then have "c_ID c = b_RiderID b" "c \<in> set (range_vals (e_ord E) [''tickBoats'', b_ID b] (s_clients s))"
      by (auto simp: boat_rider_def find_Some_iff)
    then show ?thesis using Some clients_invD [OF k] by (auto simp: in_range_vals)
  qed
qed

text \<open>
  A boat whose rider has left the server is free after the next tick; a boat whose rider is
  connected keeps the rider and is moved to sea level under that player; an empty boat stays.
\<close>

theorem tickBoats_correct:
  assumes "server_inv s" and "mget (s_boats s) k = Some b"
  shows "\<exists>b'. mget (s_boats (tickBoats E s)) k = Some b' \<and>
    (if b_RiderID b = '''' then b' = b
     else case mget (s_clients s) (b_RiderID b) of
       None \<Rightarrow> b' = b\<lparr>b_RiderID := ''''\<rparr>
     | Some c \<Rightarrow> b' = (if vlen (ps_pos (State c)) < c32 (1 / 100) then b
                     else b\<lparr>b_Pos := at_sea (ps_pos (State c)) (vlen (ps_pos (State c)))\<rparr>))"
  using assms boat_rider_eq [OF server_invD(1) [OF assms(1)], of E b]
  by (auto simp: tickBoats_def tick_boat_def sail_to_def split: option.split)

theorem tickBoats_correct_witness:
  "mget (s_boats (tickBoats flat_env ((lone_server (new_client ''a''))
     \<lparr>s_boats := mput ''b'' (moored\<lparr>b_RiderID := ''gone''\<rparr>) mempty\<rparr>))) ''b'' = Some moored"
proof -
  let ?s = "(lone_server (new_client ''a''))\<lparr>s_boats := mput ''b'' (moored\<lparr>b_RiderID := ''gone''\<rparr>) mempty\<rparr>"
  have "boats_inv (mput ''b'' (moored\<lparr>b_RiderID := ''gone''\<rparr>) mempty)"
    by (auto simp: boats_inv_def moored_def intro!: keyed_put one_rider_put_free)
  then have "server_inv ?s" by (intro inv_intros server_inv_lone client_ok_new) simp_all
  from tickBoats_correct [OF this, of "''b''" "moored\<lparr>b_RiderID := ''gone''\<rparr>" flat_env] show ?thesis
    by (simp add: lookup_update new_client_def moored_def)
qed

end
