(* ===== verification/Mammoths.thy ===== *)
theory Mammoths
  imports Farm Structures
begin

text \<open>
  \<open>internal/server/net/mammoths.go\<close>, \<open>mammoths_handlers.go\<close>, \<open>mammoths_tick.go\<close> and
  \<open>mammoths_breeding.go\<close>: taming, leashing, saddling, riding and hunting of mammoths, how they
  move each tick, and breeding. \<open>handleTameMammoth\<close> gives up the lock between marking a wild
  mammoth as tame and paying for it; its two halves are \<open>tame_begin\<close> and \<open>tame_end\<close>, and
  \<open>tame_opens\<close> tells when it has two.
\<close>

section \<open>Spawning\<close>

definition mk_mammoth :: "string \<Rightarrow> Vector3 \<Rightarrow> string \<Rightarrow> Mammoth" where
  "mk_mammoth i pos sex = \<lparr>mam_ID = i, mam_Pos = pos, mam_HP = 1, mam_Tamed = False, mam_Sex = sex,
     mam_FedCount = 0, mam_Baby = False, mam_LeashedTo = '''', mam_Saddle = False, mam_RiderID = '''',
     mam_MateID = '''', mam_TogetherSince = zero_time, mam_BornAt = zero_time\<rparr>"

definition mammoth_place :: "env \<Rightarrow> f64 \<times> f64 \<Rightarrow> Vector3" where
  "mammoth_place E tp = (let r = c64 50 + c64 2 in
     vec (f32_of (m_sin E (snd tp) * m_cos E (fst tp) * r)) (f32_of (m_cos E (snd tp) * r))
       (f32_of (m_sin E (snd tp) * m_sin E (fst tp) * r)))"

definition spawn_mammoth :: "env \<Rightarrow> nat \<Rightarrow> Server \<Rightarrow> Server" where
  "spawn_mammoth E i s = (case rand_angles E (s_rng s) of (tp, r) \<Rightarrow> case new_id (s\<lparr>s_rng := r\<rparr>) of (k, s') \<Rightarrow>
     s'\<lparr>s_mammoths := mput k (mk_mammoth k (mammoth_place E tp) (if i mod 2 = 1 then ''f'' else ''m''))
        (s_mammoths s')\<rparr>)"

definition spawnMammoths :: "env \<Rightarrow> nat \<Rightarrow> Server \<Rightarrow> Server" where
  "spawnMammoths E n s = fold (spawn_mammoth E) [0..<n] s"

section \<open>The tick\<close>

record nearPlayer =
  np_id :: string
  np_state :: PlayerState
  np_held :: string
  np_fruit :: bool

definition collectNearPlayers :: "env \<Rightarrow> Server \<Rightarrow> nearPlayer list" where
  "collectNearPlayers E s = map (\<lambda>c. \<lparr>np_id = c_ID c, np_state = State c, np_held = c_heldItem c,
     np_fruit = 0 < mget_int (c_inventory c) ''fruit''\<rparr>)
     (range_vals (e_ord E) [''collectNearPlayers''] (s_clients s))"

definition findNearPlayer :: "nearPlayer list \<Rightarrow> string \<Rightarrow> nearPlayer option" where
  "findNearPlayer players i = List.find (\<lambda>p. np_id p = i) players"

definition tickRiddenMammoth :: "nearPlayer list \<Rightarrow> Mammoth \<Rightarrow> Mammoth" where
  "tickRiddenMammoth players m =
     (case findNearPlayer players (mam_RiderID m) of
        None \<Rightarrow> m\<lparr>mam_RiderID := ''''\<rparr>
      | Some rider \<Rightarrow> m\<lparr>mam_Pos := vec (ps_X (np_state rider)) (ps_Y (np_state rider) - c32 1) (ps_Z (np_state rider))\<rparr>)"

text \<open>\<open>Pos.X += (dx / d) * speed * dt\<close> in each coordinate, and back to the surface.\<close>

definition walk :: "env \<Rightarrow> Vector3 \<Rightarrow> Vector3 \<Rightarrow> f32 \<Rightarrow> f32 \<Rightarrow> f32 \<Rightarrow> Vector3" where
  "walk E pos dir d speed dt = ClampToSurface E
     (vec (v_X pos + v_X dir / d * speed * dt) (v_Y pos + v_Y dir / d * speed * dt)
          (v_Z pos + v_Z dir / d * speed * dt))"

definition follow :: "env \<Rightarrow> Vector3 \<Rightarrow> f32 \<Rightarrow> f32 \<Rightarrow> Mammoth \<Rightarrow> Mammoth" where
  "follow E dir d2 dt m =
     (if d2 \<le> c32 9 then m else m\<lparr>mam_Pos := walk E (mam_Pos m) dir (sqrt32 d2) (c32 6) dt\<rparr>)"

definition tickLeashedMammoth :: "env \<Rightarrow> nearPlayer list \<Rightarrow> f32 \<Rightarrow> Mammoth \<Rightarrow> Mammoth" where
  "tickLeashedMammoth E players dt m =
     (case findNearPlayer players (mam_LeashedTo m) of
        None \<Rightarrow> m\<lparr>mam_LeashedTo := ''''\<rparr>
      | Some owner \<Rightarrow> follow E (vsub (ps_pos (np_state owner)) (mam_Pos m))
          (d2_32 (ps_pos (np_state owner)) (mam_Pos m)) dt m)"

text \<open>
  Fleeing: \<open>away\<close> is the unit vector away from the player in the tangent plane, computed as the
  code does from the up direction and its dot product.
\<close>

definition tangent :: "Vector3 \<Rightarrow> Vector3 \<Rightarrow> f32 \<Rightarrow> Vector3" where
  "tangent to up d = vec (v_X to - v_X up * d) (v_Y to - v_Y up * d) (v_Z to - v_Z up * d)"

definition flee_to :: "env \<Rightarrow> Vector3 \<Rightarrow> Mammoth \<Rightarrow> Mammoth" where
  "flee_to E pos m = (if vlen pos < c32 (1 / 100) then m\<lparr>mam_Pos := pos\<rparr>
     else m\<lparr>mam_Pos := ClampToSurface E pos\<rparr>)"

definition flee_along :: "env \<Rightarrow> Vector3 \<Rightarrow> f32 \<Rightarrow> f32 \<Rightarrow> Mammoth \<Rightarrow> Mammoth" where
  "flee_along E tg lt dt m =
     (if lt < c32 (1 / 10) then m
      else flee_to E (vec (v_X (mam_Pos m) + - v_X tg / lt * c32 8 * dt)
                          (v_Y (mam_Pos m) + - v_Y tg / lt * c32 8 * dt)
                          (v_Z (mam_Pos m) + - v_Z tg / lt * c32 8 * dt)) m)"

definition flee_from :: "env \<Rightarrow> Vector3 \<Rightarrow> Vector3 \<Rightarrow> f32 \<Rightarrow> Mammoth \<Rightarrow> Mammoth" where
  "flee_from E to up dt m = (let tg = tangent to up (vdot to up) in flee_along E tg (vlen tg) dt m)"

definition tickWildMammoth :: "env \<Rightarrow> nearPlayer list \<Rightarrow> f32 \<Rightarrow> Mammoth \<Rightarrow> Mammoth" where
  "tickWildMammoth E players dt m =
     (case fst (nearest (\<lambda>p. d2_32 (ps_pos (np_state p)) (mam_Pos m)) (c32 900) players) of
        None \<Rightarrow> m
      | Some p \<Rightarrow>
          if np_held p = ''fruit'' then m
          else if vlen (mam_Pos m) < c32 (1 / 100) then m
          else flee_from E (vsub (ps_pos (np_state p)) (mam_Pos m)) (vdiv (mam_Pos m) (vlen (mam_Pos m))) dt m)"

definition tick_mammoth :: "env \<Rightarrow> nearPlayer list \<Rightarrow> f32 \<Rightarrow> Mammoth \<Rightarrow> Mammoth" where
  "tick_mammoth E players dt m =
     (if mam_RiderID m \<noteq> '''' then tickRiddenMammoth players m
      else if mam_LeashedTo m \<noteq> '''' then tickLeashedMammoth E players dt m
      else if mam_Tamed m then m
      else tickWildMammoth E players dt m)"

definition tickMammoths :: "env \<Rightarrow> f32 \<Rightarrow> Server \<Rightarrow> Server" where
  "tickMammoths E dt s = s\<lparr>s_mammoths := mmap (tick_mammoth E (collectNearPlayers E s) dt) (s_mammoths s)\<rparr>"

section \<open>Handlers\<close>

definition put_mammoth :: "string \<Rightarrow> Mammoth \<Rightarrow> Server \<Rightarrow> Server" where
  "put_mammoth i m s = s\<lparr>s_mammoths := mput i m (s_mammoths s)\<rparr>"

definition near5 :: "Mammoth \<Rightarrow> Client \<Rightarrow> bool" where
  "near5 m c \<longleftrightarrow> \<not> c64 25 < d2_64 (mam_Pos m) (ps_pos (State c))"

text \<open>Through the pointer: a mammoth that has left the map meanwhile is not put back.\<close>

definition set_tamed :: "string \<Rightarrow> bool \<Rightarrow> Server \<Rightarrow> Server" where
  "set_tamed i b s = (case mget (s_mammoths s) i of None \<Rightarrow> s | Some m \<Rightarrow> put_mammoth i (m\<lparr>mam_Tamed := b\<rparr>) s)"

definition tame_begin :: "string \<Rightarrow> Server \<Rightarrow> Server" where
  "tame_begin i s = set_tamed i True s"

definition tame_end :: "string \<Rightarrow> string \<Rightarrow> Server \<Rightarrow> Server" where
  "tame_end cid i s = with_client cid s (\<lambda>c.
     if fst (consumeItem ''fruit'' c) then put_client cid (sendInventory (snd (consumeItem ''fruit'' c))) s
     else set_tamed i False s)"

definition feed :: "string \<Rightarrow> string \<Rightarrow> Mammoth \<Rightarrow> Server \<Rightarrow> Server" where
  "feed cid i m s = with_client cid s (\<lambda>c.
     if \<not> fst (consumeItem ''fruit'' c) then s
     else put_client cid (sendInventory (snd (consumeItem ''fruit'' c)))
            (put_mammoth i (m\<lparr>mam_FedCount := i64 (mam_FedCount m + 1)\<rparr>) s))"

text \<open>The first critical section marks a wild mammoth.\<close>

definition tame_opens :: "string \<Rightarrow> string \<Rightarrow> Server \<Rightarrow> bool" where
  "tame_opens cid i s = (case mget (s_clients s) cid of None \<Rightarrow> False
     | Some c \<Rightarrow> (case mget (s_mammoths s) i of None \<Rightarrow> False | Some m \<Rightarrow> near5 m c \<and> \<not> mam_Tamed m))"

definition handleTameMammoth :: "string \<Rightarrow> string \<Rightarrow> Server \<Rightarrow> Server" where
  "handleTameMammoth cid i s = with_client cid s (\<lambda>c.
     case mget (s_mammoths s) i of
       None \<Rightarrow> s
     | Some m \<Rightarrow>
         if \<not> near5 m c then s
         else if \<not> mam_Tamed m then tame_end cid i (tame_begin i s)
         else feed cid i m s)"

definition handleLeashMammoth :: "string \<Rightarrow> string \<Rightarrow> Server \<Rightarrow> Server" where
  "handleLeashMammoth cid i s = with_client cid s (\<lambda>c.
     case mget (s_mammoths s) i of
       None \<Rightarrow> s
     | Some m \<Rightarrow>
         if \<not> near5 m c then s
         else if \<not> mam_Tamed m then s
         else if mam_LeashedTo m = c_ID c then put_mammoth i (m\<lparr>mam_LeashedTo := ''''\<rparr>) s
         else put_mammoth i (m\<lparr>mam_LeashedTo := c_ID c\<rparr>) s)"

definition handleSaddleMammoth :: "string \<Rightarrow> string \<Rightarrow> Server \<Rightarrow> Server" where
  "handleSaddleMammoth cid i s = with_client cid s (\<lambda>c.
     case mget (s_mammoths s) i of
       None \<Rightarrow> s
     | Some m \<Rightarrow>
         if \<not> near5 m c then s
         else if \<not> mam_Tamed m then s
         else if mam_Baby m then s
         else if \<not> mam_Saddle m then
           (if \<not> fst (consumeItem ''saddle'' c) then s
            else put_client cid (sendInventory (snd (consumeItem ''saddle'' c)))
                   (put_mammoth i (m\<lparr>mam_Saddle := True\<rparr>) s))
         else if mam_RiderID m \<noteq> '''' then s
         else put_client cid (sendInventory (snd (addItem ''saddle'' c)))
                (put_mammoth i (m\<lparr>mam_Saddle := False\<rparr>) s))"

definition mount :: "string \<Rightarrow> Client \<Rightarrow> Server \<Rightarrow> Server" where
  "mount i c s =
     (if i = '''' then s
      else case mget (s_mammoths s) i of
        None \<Rightarrow> s
      | Some m \<Rightarrow>
          if c64 36 < d2_64 (mam_Pos m) (ps_pos (State c)) then s
          else if \<not> mam_Tamed m \<or> \<not> mam_Saddle m \<or> mam_RiderID m \<noteq> '''' then s
          else put_mammoth i (m\<lparr>mam_RiderID := c_ID c\<rparr>) s)"

definition handleRideMammoth :: "env \<Rightarrow> string \<Rightarrow> string \<Rightarrow> Server \<Rightarrow> Server" where
  "handleRideMammoth E cid i s = with_client cid s (\<lambda>c.
     case List.find (\<lambda>km. mam_RiderID (snd km) = c_ID c)
            (range_entries (e_ord E) [''handleRideMammoth''] (s_mammoths s)) of
       Some (k, m) \<Rightarrow> put_mammoth k (m\<lparr>mam_RiderID := ''''\<rparr>) s
     | None \<Rightarrow> mount i c s)"

record mammothHitResult =
  mhr_killed :: bool
  mhr_hpAfter :: int
  mhr_pos :: Vector3

definition hit_result :: "Mammoth \<Rightarrow> int \<Rightarrow> mammothHitResult" where
  "hit_result m hp = \<lparr>mhr_killed = (hp \<le> 0), mhr_hpAfter = hp, mhr_pos = (if hp \<le> 0 then mam_Pos m else zero_vec)\<rparr>"

definition applyHitMammoth :: "Client \<Rightarrow> string \<Rightarrow> Server \<Rightarrow> (mammothHitResult \<times> Server) option" where
  "applyHitMammoth c i s =
     (case mget (s_mammoths s) i of
        None \<Rightarrow> None
      | Some m \<Rightarrow>
          if c32 6400 < d2_32 (mam_Pos m) (ps_pos (State c)) then None
          else Some (hit_result m (i64 (mam_HP m - 1)),
            if i64 (mam_HP m - 1) \<le> 0 then s\<lparr>s_mammoths := mdel i (s_mammoths s)\<rparr>
            else put_mammoth i (m\<lparr>mam_HP := i64 (mam_HP m - 1)\<rparr>) s))"

definition spawnMammothDrops :: "Vector3 \<Rightarrow> Server \<Rightarrow> Server" where
  "spawnMammothDrops pos s =
     add_resource ''spear'' (vec (v_X pos + c32 (3 / 2)) (v_Y pos) (v_Z pos + c32 (3 / 2)))
       (add_resource ''meat'' pos s)"

definition handleHitMammoth :: "env \<Rightarrow> string \<Rightarrow> string \<Rightarrow> Server \<Rightarrow> Server" where
  "handleHitMammoth E cid i s = with_client cid s (\<lambda>c.
     if time_sub (e_now E) (c_lastHitAt c) < 200 * millisecond then s
     else if 2 * second < time_sub (e_now E) (c_lastThrowAt c) then s
     else case applyHitMammoth (c\<lparr>c_lastHitAt := e_now E\<rparr>) i (put_client cid (c\<lparr>c_lastHitAt := e_now E\<rparr>) s) of
       None \<Rightarrow> put_client cid (c\<lparr>c_lastHitAt := e_now E\<rparr>) s
     | Some (res, s') \<Rightarrow> if mhr_killed res then spawnMammothDrops (mhr_pos res) s' else s')"

section \<open>Breeding\<close>

definition babyGrowTime :: duration where "babyGrowTime = 60 * second"
definition breedingMinFed :: int where "breedingMinFed = 4"

definition grow_up :: "gotime \<Rightarrow> Mammoth \<Rightarrow> Mammoth" where
  "grow_up now m =
     (if \<not> mam_Baby m \<or> is_zero_time (mam_BornAt m) then m
      else if babyGrowTime \<le> time_sub now (mam_BornAt m) then m\<lparr>mam_Baby := False\<rparr> else m)"

definition growUpMammoths :: "gotime \<Rightarrow> Server \<Rightarrow> Server" where
  "growUpMammoths now s = s\<lparr>s_mammoths := mmap (grow_up now) (s_mammoths s)\<rparr>"

definition can_breed :: "Mammoth \<Rightarrow> bool" where
  "can_breed m \<longleftrightarrow> mam_Tamed m \<and> \<not> mam_Baby m \<and> \<not> mam_FedCount m < breedingMinFed"

definition collectBreedingCandidates ::
    "env \<Rightarrow> Mammoth store \<Rightarrow> (string \<times> Mammoth) list \<times> (string \<times> Mammoth) list" where
  "collectBreedingCandidates E ms =
     (let all = filter (\<lambda>km. can_breed (snd km)) (range_entries (e_ord E) [''collectBreedingCandidates''] ms) in
      (filter (\<lambda>km. mam_Sex (snd km) = ''m'') all, filter (\<lambda>km. mam_Sex (snd km) = ''f'') all))"

definition mammothsAreClose :: "Mammoth \<Rightarrow> Mammoth \<Rightarrow> bool" where
  "mammothsAreClose a b \<longleftrightarrow> d2_32 (mam_Pos a) (mam_Pos b) \<le> c32 25"

definition half_way :: "Vector3 \<Rightarrow> Vector3 \<Rightarrow> Vector3" where
  "half_way a b = vdiv (vadd a b) (c32 2)"

definition mk_baby :: "string \<Rightarrow> Vector3 \<Rightarrow> string \<Rightarrow> gotime \<Rightarrow> Mammoth" where
  "mk_baby i pos sex now = (mk_mammoth i pos sex)\<lparr>mam_Tamed := True, mam_Baby := True, mam_BornAt := now\<rparr>"

definition birthMammoth :: "string \<times> Mammoth \<Rightarrow> string \<times> Mammoth \<Rightarrow> gotime \<Rightarrow> Server \<Rightarrow> Server" where
  "birthMammoth male female now s =
     (case new_id s of (babyID, s1) \<Rightarrow> case mrand_intn 2 (s_rng s1) of (n, r) \<Rightarrow>
       s1\<lparr>s_rng := r, s_mammoths :=
         mput babyID (mk_baby babyID (half_way (mam_Pos (snd male)) (mam_Pos (snd female)))
                        (if n = 0 then ''f'' else ''m'') now)
          (mput (fst female) ((snd female)\<lparr>mam_FedCount := 0\<rparr>)
            (mput (fst male) ((snd male)\<lparr>mam_FedCount := 0\<rparr>) (s_mammoths s1)))\<rparr>)"

definition breeding_pair ::
    "(string \<times> Mammoth) list \<Rightarrow> (string \<times> Mammoth) list \<Rightarrow> ((string \<times> Mammoth) \<times> (string \<times> Mammoth)) option" where
  "breeding_pair males females =
     List.find (\<lambda>(a, b). mammothsAreClose (snd a) (snd b)) (List.product males females)"

definition tickBreeding :: "env \<Rightarrow> Server \<Rightarrow> Server" where
  "tickBreeding E s = (let s1 = growUpMammoths (e_now E) s in
     case collectBreedingCandidates E (s_mammoths s1) of (males, females) \<Rightarrow>
       (case breeding_pair males females of
          None \<Rightarrow> s1
        | Some (male, female) \<Rightarrow> birthMammoth male female (e_now E) s1))"

section \<open>The invariant\<close>

lemma mammoths_inv_get:
  "mammoths_inv ms \<Longrightarrow> mget ms k = Some m \<Longrightarrow> mammoth_ok m \<and> mam_ID m = k"
  by (auto simp: mammoths_inv_def mall_def keyed_def)

lemma mammoths_inv_put_same:
  assumes "mammoths_inv ms" "mget ms i = Some m0" "mammoth_ok m" "mam_ID m = i"
    "mam_RiderID m = mam_RiderID m0 \<or> mam_RiderID m = ''''"
  shows "mammoths_inv (mput i m ms)"
  using assms one_rider_put_same [of mam_RiderID ms i m0 m] by (simp add: mammoths_inv_def keyed_put mall_put)

lemma mammoths_inv_put_free:
  assumes "mammoths_inv ms" "mammoth_ok m" "mam_ID m = i"
    "\<And>k m'. mget ms k = Some m' \<Longrightarrow> k \<noteq> i \<Longrightarrow> mam_RiderID m' \<noteq> mam_RiderID m \<or> mam_RiderID m = ''''"
  shows "mammoths_inv (mput i m ms)"
  using assms(1-3) one_rider_put_free [of mam_RiderID ms i m] assms(4)
  by (simp add: mammoths_inv_def keyed_put mall_put)

lemma mammoths_inv_put_new:
  "mammoths_inv ms \<Longrightarrow> mammoth_ok m \<Longrightarrow> mam_ID m = i \<Longrightarrow> mam_RiderID m = '''' \<Longrightarrow> mammoths_inv (mput i m ms)"
  by (rule mammoths_inv_put_free) simp_all

lemma mammoths_inv_del: "mammoths_inv ms \<Longrightarrow> mammoths_inv (mdel i ms)"
  by (simp add: mammoths_inv_def keyed_del mall_del one_rider_del)

lemma mammoths_inv_mmap:
  assumes "mammoths_inv ms" "\<And>m. mammoth_ok m \<Longrightarrow> mammoth_ok (f m)" "\<And>m. mam_ID (f m) = mam_ID m"
    "\<And>m. mam_RiderID (f m) = mam_RiderID m \<or> mam_RiderID (f m) = ''''"
  shows "mammoths_inv (mmap f ms)"
  using assms(1) unfolding mammoths_inv_def
  by (elim conjE, intro conjI keyed_mmap one_rider_mmap mall_mmap [where P = mammoth_ok])
     (assumption | rule assms)+

lemma mk_mammoth_ok: "sex \<in> {''m'', ''f''} \<Longrightarrow> mammoth_ok (mk_mammoth i pos sex)"
    "sex \<in> {''m'', ''f''} \<Longrightarrow> mammoth_ok (mk_baby i pos sex now)"
    "mam_ID (mk_mammoth i pos sex) = i" "mam_RiderID (mk_mammoth i pos sex) = ''''"
    "mam_ID (mk_baby i pos sex now) = i" "mam_RiderID (mk_baby i pos sex now) = ''''"
  by (simp_all add: mammoth_ok_def mk_mammoth_def mk_baby_def)

lemma server_inv_spawnMammoths [inv_intros]: "server_inv s \<Longrightarrow> server_inv (spawnMammoths E n s)"
  unfolding spawnMammoths_def
proof (rule fold_invariant_on [where P = server_inv])
  fix i s assume "server_inv s"
  then show "server_inv (spawn_mammoth E i s)" unfolding spawn_mammoth_def case_prod_beta
    by (intro inv_intros mammoths_inv_put_new) (auto simp: mk_mammoth_ok intro: server_inv_stores)
qed

text \<open>What a tick may do to one mammoth: move it, or drop a rider or leash whose player left.\<close>

definition tick_change :: "Mammoth \<Rightarrow> Mammoth \<Rightarrow> bool" where
  "tick_change m m' \<longleftrightarrow> (\<exists>p. m' = m\<lparr>mam_Pos := p\<rparr>) \<or> m' = m\<lparr>mam_RiderID := ''''\<rparr> \<or> m' = m\<lparr>mam_LeashedTo := ''''\<rparr>"

lemma tick_change_refl: "tick_change m m"
  unfolding tick_change_def by (rule disjI1, rule exI [of _ "mam_Pos m"]) simp

lemma tick_change_pos: "tick_change m (m\<lparr>mam_Pos := p\<rparr>)"
  unfolding tick_change_def by blast

lemma tick_change_flee: "tick_change m (flee_to E p m)" "tick_change m (flee_along E tg lt dt m)"
  "tick_change m (flee_from E to up dt m)"
  by (simp_all add: flee_to_def flee_along_def flee_from_def Let_def tick_change_refl tick_change_pos)

lemma tick_mammoth_change: "tick_change m (tick_mammoth E players dt m)"
proof -
  have "tick_change m (tickRiddenMammoth players m)"
    by (auto simp: tickRiddenMammoth_def tick_change_def split: option.split)
  moreover have "tick_change m (tickLeashedMammoth E players dt m)"
    by (cases "findNearPlayer players (mam_LeashedTo m)")
       (simp_all add: tickLeashedMammoth_def follow_def tick_change_refl tick_change_pos,
        simp add: tick_change_def)
  moreover have "tick_change m (tickWildMammoth E players dt m)"
    unfolding tickWildMammoth_def by (simp add: tick_change_refl tick_change_flee split: option.split)
  ultimately show ?thesis by (simp add: tick_mammoth_def tick_change_refl)
qed

lemma tick_change_ok:
  assumes "tick_change m m'"
  shows "(mammoth_ok m \<longrightarrow> mammoth_ok m') \<and> mam_ID m' = mam_ID m \<and> (mam_RiderID m' = mam_RiderID m \<or> mam_RiderID m' = '''')"
  using assms by (auto simp: tick_change_def mammoth_ok_def)

lemma server_inv_tickMammoths [inv_intros]: "server_inv s \<Longrightarrow> server_inv (tickMammoths E dt s)"
  unfolding tickMammoths_def
  by (intro inv_intros mammoths_inv_mmap)
     (use tick_change_ok [OF tick_mammoth_change] in \<open>blast intro: server_inv_stores\<close>)+

lemma server_inv_put_mammoth:
  "server_inv s \<Longrightarrow> mget (s_mammoths s) i = Some m0 \<Longrightarrow> mammoth_ok m \<Longrightarrow> mam_ID m = mam_ID m0 \<Longrightarrow>
   mam_RiderID m = mam_RiderID m0 \<or> mam_RiderID m = '''' \<Longrightarrow> server_inv (put_mammoth i m s)"
  unfolding put_mammoth_def
  using mammoths_inv_get [OF server_inv_stores(2)] by (auto intro!: inv_intros mammoths_inv_put_same intro: server_inv_stores)

lemma server_inv_get_mammoth:
  "server_inv s \<Longrightarrow> mget (s_mammoths s) i = Some m \<Longrightarrow> mammoth_ok m \<and> mam_ID m = i"
  using mammoths_inv_get server_inv_stores(2) by blast

lemma server_inv_put_mammoth_client [simp]:
  "s_clients (put_mammoth i m s) = s_clients s" "s_resources (put_mammoth i m s) = s_resources s"
  "put_mammoth i m (put_client cid c s) = put_client cid c (put_mammoth i m s)"
  by (simp_all add: put_mammoth_def put_client_def)

lemma set_tamed_clients [simp]: "s_clients (set_tamed i b s) = s_clients s"
  by (simp add: set_tamed_def split: option.split)

lemma server_inv_set_tamed [inv_intros]: "server_inv s \<Longrightarrow> server_inv (set_tamed i b s)"
proof -
  assume s: "server_inv s"
  have "mammoth_ok (m\<lparr>mam_Tamed := b\<rparr>) = mammoth_ok m" for m by (simp add: mammoth_ok_def)
  then show ?thesis
    using s server_inv_put_mammoth [OF s, of i _ "_\<lparr>mam_Tamed := b\<rparr>"] server_inv_get_mammoth [OF s, of i]
    by (auto simp: set_tamed_def split: option.split)
qed

lemma server_inv_tame_end [inv_intros]: "server_inv s \<Longrightarrow> server_inv (tame_end cid i s)"
  unfolding tame_end_def by (rule server_inv_with) (auto intro!: server_inv_put inv_intros)

lemma server_inv_handleTameMammoth [inv_intros]: "server_inv s \<Longrightarrow> server_inv (handleTameMammoth cid i s)"
  unfolding handleTameMammoth_def
proof (rule server_inv_with)
  fix c assume s: "server_inv s" and m: "mget (s_clients s) cid = Some c" and c: "client_ok c" "c_ID c = cid"
  have "server_inv (tame_end cid i (tame_begin i s))"
    unfolding tame_begin_def by (intro inv_intros s)
  moreover have "server_inv (feed cid i ma s)" if "mget (s_mammoths s) i = Some ma" "mam_Tamed ma" for ma
    using server_inv_put_mammoth [OF s that(1), of "ma\<lparr>mam_FedCount := i64 (mam_FedCount ma + 1)\<rparr>"] m c s
      server_inv_get_mammoth [OF s that(1)]
    by (auto simp: feed_def mammoth_ok_def intro!: server_inv_put inv_intros)
  ultimately show "server_inv (case mget (s_mammoths s) i of None \<Rightarrow> s | Some m \<Rightarrow>
      if \<not> near5 m c then s else if \<not> mam_Tamed m then tame_end cid i (tame_begin i s) else feed cid i m s)"
    using s by (auto split: option.split)
qed

lemma server_inv_handleLeashMammoth [inv_intros]: "server_inv s \<Longrightarrow> server_inv (handleLeashMammoth cid i s)"
  unfolding handleLeashMammoth_def
  by (rule server_inv_with)
     (auto split: option.split intro!: server_inv_put_mammoth dest: server_inv_get_mammoth simp: mammoth_ok_def)

lemma server_inv_handleSaddleMammoth [inv_intros]: "server_inv s \<Longrightarrow> server_inv (handleSaddleMammoth cid i s)"
  unfolding handleSaddleMammoth_def
  by (rule server_inv_with)
     (auto split: option.split intro!: server_inv_put server_inv_put_mammoth client_ok_sendInventory
        client_ok_consumeItem client_ok_addItem dest: server_inv_get_mammoth simp: mammoth_ok_def)

lemma find_SomeD: "List.find P xs = Some x \<Longrightarrow> x \<in> set xs \<and> P x"
  by (induction xs) (auto split: if_splits)

lemma find_rider:
  "List.find (\<lambda>km. mam_RiderID (snd km) = cid) (range_entries ord site ms) = Some (k, m) \<Longrightarrow>
     mget ms k = Some m \<and> mam_RiderID m = cid"
  "List.find (\<lambda>km. mam_RiderID (snd km) = cid) (range_entries ord site ms) = None \<Longrightarrow>
     mget ms k = Some m \<Longrightarrow> mam_RiderID m \<noteq> cid"
proof -
  let ?es = "range_entries ord site ms"
  assume "List.find (\<lambda>km. mam_RiderID (snd km) = cid) ?es = Some (k, m)"
  then have "(k, m) \<in> set ?es" "mam_RiderID m = cid" by (auto dest!: find_SomeD simp del: in_range_entries)
  then show "mget ms k = Some m \<and> mam_RiderID m = cid" by simp
next
  let ?es = "range_entries ord site ms"
  assume n: "List.find (\<lambda>km. mam_RiderID (snd km) = cid) ?es = None" and "mget ms k = Some m"
  then have "(k, m) \<in> set ?es" by simp
  with n show "mam_RiderID m \<noteq> cid" by (auto simp: find_None_iff simp del: in_range_entries)
qed

lemma server_inv_mount:
  fixes c :: Client
  assumes "server_inv s" "\<And>k m. mget (s_mammoths s) k = Some m \<Longrightarrow> mam_RiderID m \<noteq> c_ID c"
  shows "server_inv (mount i c s)"
proof -
  have "server_inv (put_mammoth i (m\<lparr>mam_RiderID := c_ID c\<rparr>) s)"
    if m: "mget (s_mammoths s) i = Some m" and "mam_Tamed m" "mam_Saddle m" "mam_RiderID m = ''''" for m
    unfolding put_mammoth_def using that server_inv_get_mammoth [OF assms(1) m] assms
    by (auto intro!: inv_intros mammoths_inv_put_free intro: server_inv_stores simp: mammoth_ok_def)
  then show ?thesis using assms(1) unfolding mount_def by (auto split: option.split)
qed

lemma server_inv_handleRideMammoth [inv_intros]: "server_inv s \<Longrightarrow> server_inv (handleRideMammoth E cid i s)"
  unfolding handleRideMammoth_def
proof (rule server_inv_with)
  fix c :: Client assume s: "server_inv s"
  let ?f = "List.find (\<lambda>km. mam_RiderID (snd km) = c_ID c) (range_entries (e_ord E) [''handleRideMammoth''] (s_mammoths s))"
  show "server_inv (case ?f of Some (k, m) \<Rightarrow> put_mammoth k (m\<lparr>mam_RiderID := ''''\<rparr>) s | None \<Rightarrow> mount i c s)"
  proof (cases ?f)
    case None
    have "server_inv (mount i c s)" by (rule server_inv_mount [OF s find_rider(2) [OF None]])
    with None show ?thesis by simp
  next
    case (Some km)
    obtain k m where km: "km = (k, m)" by fastforce
    have m: "mget (s_mammoths s) k = Some m" using find_rider(1) Some km by blast
    with Some km show ?thesis using server_inv_put_mammoth [OF s m] server_inv_get_mammoth [OF s m]
      by (auto simp: mammoth_ok_def)
  qed
qed simp

lemma client_ok_times [inv_intros]: "client_ok c \<Longrightarrow> client_ok (c\<lparr>c_lastHitAt := t\<rparr>)"
    "client_ok c \<Longrightarrow> client_ok (c\<lparr>c_lastThrowAt := t\<rparr>)"
  by (simp_all add: client_ok_def)

lemma server_inv_applyHitMammoth:
  "server_inv s \<Longrightarrow> applyHitMammoth c i s = Some (res, s') \<Longrightarrow> server_inv s'"
proof -
  assume s: "server_inv s" and a: "applyHitMammoth c i s = Some (res, s')"
  then obtain m where m: "mget (s_mammoths s) i = Some m"
    by (auto simp: applyHitMammoth_def split: option.splits)
  then have "mam_HP m = 1" using server_inv_get_mammoth [OF s] by (fastforce simp: mammoth_ok_def)
  then have "s' = s\<lparr>s_mammoths := mdel i (s_mammoths s)\<rparr>"
    using a m by (auto simp: applyHitMammoth_def i64_small split: if_splits)
  then show ?thesis using s by (auto intro!: inv_intros mammoths_inv_del intro: server_inv_stores)
qed

lemma server_inv_handleHitMammoth [inv_intros]: "server_inv s \<Longrightarrow> server_inv (handleHitMammoth E cid i s)"
  unfolding handleHitMammoth_def spawnMammothDrops_def
  by (rule server_inv_with)
     (auto split: option.split intro!: inv_intros elim!: server_inv_applyHitMammoth [rotated])

lemma grow_up_ok: "mammoth_ok m \<Longrightarrow> mammoth_ok (grow_up now m)" "mam_ID (grow_up now m) = mam_ID m"
    "mam_RiderID (grow_up now m) = mam_RiderID m"
  by (auto simp: grow_up_def mammoth_ok_def)

lemma server_inv_growUp [inv_intros]: "server_inv s \<Longrightarrow> server_inv (growUpMammoths now s)"
  unfolding growUpMammoths_def
  by (intro inv_intros mammoths_inv_mmap) (auto simp: grow_up_ok intro: server_inv_stores)

lemma breeding_pair_Some:
  assumes "breeding_pair ms fs = Some (a, b)"
  shows "a \<in> set ms \<and> b \<in> set fs \<and> mammothsAreClose (snd a) (snd b)"
  using find_SomeD [OF assms [unfolded breeding_pair_def]] by auto

lemma candidates:
  assumes "collectBreedingCandidates E ms = (males, females)"
  shows "km \<in> set males \<longleftrightarrow> mget ms (fst km) = Some (snd km) \<and> can_breed (snd km) \<and> mam_Sex (snd km) = ''m''"
    and "km \<in> set females \<longleftrightarrow> mget ms (fst km) = Some (snd km) \<and> can_breed (snd km) \<and> mam_Sex (snd km) = ''f''"
  using assms in_range_entries [of "fst km" "snd km" "e_ord E" "[''collectBreedingCandidates'']" ms]
  by (auto simp: collectBreedingCandidates_def Let_def)

lemma birthMammoth_eq:
  "\<exists>r sex. sex \<in> {''m'', ''f''} \<and> birthMammoth male female now s = s\<lparr>s_rng := r, s_mammoths :=
     mput (fst (new_id s)) (mk_baby (fst (new_id s)) (half_way (mam_Pos (snd male)) (mam_Pos (snd female))) sex now)
       (mput (fst female) ((snd female)\<lparr>mam_FedCount := 0\<rparr>)
         (mput (fst male) ((snd male)\<lparr>mam_FedCount := 0\<rparr>) (s_mammoths s)))\<rparr>"
  unfolding birthMammoth_def case_prod_beta new_id_def
  by (intro exI [of _ "snd (mrand_intn 2 (snd (newID (s_rng s))))"]
        exI [of _ "if fst (mrand_intn 2 (snd (newID (s_rng s)))) = 0 then ''f'' else ''m''"]) simp

lemma server_inv_birth:
  assumes "server_inv s" "mget (s_mammoths s) (fst male) = Some (snd male)"
    "mget (s_mammoths s) (fst female) = Some (snd female)"
  shows "server_inv (birthMammoth male female now s)"
proof -
  obtain r sex where sex: "sex \<in> {''m'', ''f''}" and e: "birthMammoth male female now s = s\<lparr>s_rng := r, s_mammoths :=
     mput (fst (new_id s)) (mk_baby (fst (new_id s)) (half_way (mam_Pos (snd male)) (mam_Pos (snd female))) sex now)
       (mput (fst female) ((snd female)\<lparr>mam_FedCount := 0\<rparr>)
         (mput (fst male) ((snd male)\<lparr>mam_FedCount := 0\<rparr>) (s_mammoths s)))\<rparr>"
    using birthMammoth_eq [of male female now s] by blast
  let ?m1 = "mput (fst male) ((snd male)\<lparr>mam_FedCount := 0\<rparr>) (s_mammoths s)"
  have fed: "mammoth_ok (m\<lparr>mam_FedCount := 0\<rparr>) = mammoth_ok m" for m by (simp add: mammoth_ok_def)
  note g = server_inv_get_mammoth [OF assms(1)]
  have m1: "mammoths_inv ?m1"
    using assms g [OF assms(2)] by (intro mammoths_inv_put_same) (auto simp: fed intro: server_inv_stores)
  have "mammoths_inv (mput (fst female) ((snd female)\<lparr>mam_FedCount := 0\<rparr>) ?m1)"
    using assms(2,3) g [OF assms(3)]
    by (intro mammoths_inv_put_same [OF m1, where ?m0.0 = "the (mget ?m1 (fst female))"])
       (auto simp: fed lookup_update)
  from mammoths_inv_put_new [OF this mk_mammoth_ok(2) [OF sex] mk_mammoth_ok(5,6)] assms(1)
  show ?thesis unfolding e by (intro server_inv_updates(2)) simp_all
qed

lemma server_inv_tickBreeding [inv_intros]: "server_inv s \<Longrightarrow> server_inv (tickBreeding E s)"
proof -
  assume s: "server_inv s"
  let ?s1 = "growUpMammoths (e_now E) s"
  have s1: "server_inv ?s1" using s by (intro inv_intros)
  obtain males females where mf: "collectBreedingCandidates E (s_mammoths ?s1) = (males, females)" by fastforce
  have "server_inv (birthMammoth a b (e_now E) ?s1)" if "breeding_pair males females = Some (a, b)" for a b
    using breeding_pair_Some [OF that] candidates [OF mf] by (intro server_inv_birth [OF s1]) auto
  then show ?thesis using s1 mf by (auto simp: tickBreeding_def Let_def split: option.split)
qed

section \<open>Correctness\<close>

lemma findNearPlayer_None: "clients_inv s \<Longrightarrow>
    findNearPlayer (collectNearPlayers E s) i = None \<longleftrightarrow> mget (s_clients s) i = None"
proof -
  assume s: "clients_inv s"
  have "findNearPlayer (collectNearPlayers E s) i = None \<longleftrightarrow>
      (\<forall>c\<in>set (range_vals (e_ord E) [''collectNearPlayers''] (s_clients s)). c_ID c \<noteq> i)"
    by (auto simp: findNearPlayer_def collectNearPlayers_def find_None_iff)
  also have "\<dots> \<longleftrightarrow> mget (s_clients s) i = None"
  proof (cases "mget (s_clients s) i")
    case (Some c)
    then have "c \<in> set (range_vals (e_ord E) [''collectNearPlayers''] (s_clients s))" by (auto simp: in_range_vals)
    then show ?thesis using Some clients_invD [OF s Some] by auto
  qed (use clients_invD [OF s] in \<open>auto simp: in_range_vals\<close>)
  finally show ?thesis .
qed

lemma tick_mammoth_cases:
  assumes "clients_inv s" "players = collectNearPlayers E s"
  shows "(\<exists>p. tick_mammoth E players dt m = m\<lparr>mam_Pos := p\<rparr>) \<or>
    mam_RiderID m \<noteq> '''' \<and> mget (s_clients s) (mam_RiderID m) = None \<and> tick_mammoth E players dt m = m\<lparr>mam_RiderID := ''''\<rparr> \<or>
    mam_RiderID m = '''' \<and> mam_LeashedTo m \<noteq> '''' \<and> mget (s_clients s) (mam_LeashedTo m) = None \<and>
      tick_mammoth E players dt m = m\<lparr>mam_LeashedTo := ''''\<rparr>"
proof -
  note n = findNearPlayer_None [OF assms(1), of E, folded assms(2)]
  have id: "\<exists>p. m = m\<lparr>mam_Pos := p\<rparr>" by (rule exI [of _ "mam_Pos m"]) simp
  have w: "\<exists>p. tickWildMammoth E players dt m = m\<lparr>mam_Pos := p\<rparr>"
    unfolding tickWildMammoth_def flee_from_def flee_along_def flee_to_def Let_def
    using id by (auto split: option.split)
  show ?thesis
  proof (cases "mam_RiderID m = ''''")
    case False
    then show ?thesis using n [of "mam_RiderID m"]
      by (cases "findNearPlayer players (mam_RiderID m)") (auto simp: tick_mammoth_def tickRiddenMammoth_def)
  next
    case True
    then show ?thesis using n [of "mam_LeashedTo m"] id w
      by (cases "findNearPlayer players (mam_LeashedTo m)")
         (auto simp: tick_mammoth_def tickLeashedMammoth_def follow_def)
  qed
qed

text \<open>
  A tick of the mammoths, for every step and every order of players: none is lost or created,
  none loses health, tameness, saddle or age; a mammoth is only moved, or loses the rider or
  the leash whose player is no longer connected; a tame one that nobody rides or leads stands
  still.
\<close>

theorem tickMammoths_correct:
  assumes "server_inv s"
  shows "server_inv (tickMammoths E dt s) \<and>
    (\<forall>k. case mget (s_mammoths s) k of
       None \<Rightarrow> mget (s_mammoths (tickMammoths E dt s)) k = None
     | Some m \<Rightarrow> \<exists>m'. mget (s_mammoths (tickMammoths E dt s)) k = Some m' \<and>
        ((\<exists>p. m' = m\<lparr>mam_Pos := p\<rparr>) \<or>
         m' = m\<lparr>mam_RiderID := ''''\<rparr> \<and> mget (s_clients s) (mam_RiderID m) = None \<or>
         m' = m\<lparr>mam_LeashedTo := ''''\<rparr> \<and> mget (s_clients s) (mam_LeashedTo m) = None) \<and>
        (mam_Tamed m \<and> mam_RiderID m = '''' \<and> mam_LeashedTo m = '''' \<longrightarrow> m' = m))"
proof -
  have "mam_Tamed m \<and> mam_RiderID m = '''' \<and> mam_LeashedTo m = '''' \<longrightarrow>
      tick_mammoth E (collectNearPlayers E s) dt m = m" for m
    by (simp add: tick_mammoth_def)
  with server_inv_tickMammoths [OF assms] tick_mammoth_cases [OF server_invD(1) [OF assms] refl, of E dt]
  show ?thesis by (fastforce simp: tickMammoths_def split: option.split)
qed

definition herd_of :: "Mammoth \<Rightarrow> Server" where
  "herd_of m = (lone_server (player_with [(''fruit'', 1), (''saddle'', 1)]))\<lparr>s_mammoths := mput ''m1'' m mempty\<rparr>"

lemma server_inv_herd: "mammoth_ok m \<Longrightarrow> mam_ID m = ''m1'' \<Longrightarrow> server_inv (herd_of m)"
  unfolding herd_of_def
  by (intro inv_intros server_inv_lone client_ok_player_with mammoths_inv_put_free) (simp_all add: in_i64_def)

theorem tickMammoths_correct_witness:
  "\<exists>m'. mget (s_mammoths (tickMammoths flat_env (c32 (1 / 20)) (herd_of ((mk_mammoth ''m1'' zero_vec ''m'')\<lparr>mam_Tamed := True\<rparr>)))) ''m1'' = Some m' \<and>
     mam_Tamed m' \<and> mam_HP m' = 1"
proof -
  let ?m = "(mk_mammoth ''m1'' zero_vec ''m'')\<lparr>mam_Tamed := True\<rparr>"
  have "mammoth_ok ?m" "mam_ID ?m = ''m1''" by (simp_all add: mammoth_ok_def mk_mammoth_def)
  from tickMammoths_correct [OF server_inv_herd [OF this], of flat_env "c32 (1 / 20)"] show ?thesis
    by (auto simp: herd_of_def lookup_update mk_mammoth_def dest!: spec [of _ "''m1''"])
qed

text \<open>
  A blow counts only if the player threw a spear within the last two seconds, has not struck
  within the last 200 ms and stands within 80 units; then the mammoth (all have one health
  point) dies, meat appears where it stood and a spear one and a half units beside it. Every
  rejected blow leaves mammoths and resources alone.
\<close>

theorem handleHitMammoth_correct:
  assumes "server_inv s" and "mget (s_clients s) cid = Some c" and "mget (s_mammoths s) i = Some m"
  shows "if 200 * millisecond \<le> e_now E - c_lastHitAt c \<and> e_now E - c_lastThrowAt c \<le> 2 * second \<and>
        \<not> c32 6400 < d2_32 (mam_Pos m) (ps_pos (State c))
    then handleHitMammoth E cid i s = spawnMammothDrops (mam_Pos m)
        ((put_client cid (c\<lparr>c_lastHitAt := e_now E\<rparr>) s)\<lparr>s_mammoths := mdel i (s_mammoths s)\<rparr>)
    else s_mammoths (handleHitMammoth E cid i s) = s_mammoths s \<and>
      s_resources (handleHitMammoth E cid i s) = s_resources s"
proof -
  have hp: "i64 (mam_HP m - 1) = 0"
    using server_inv_get_mammoth [OF assms(1,3)] by (auto simp: mammoth_ok_def i64_small)
  have t: "time_sub a b < 200 * millisecond \<longleftrightarrow> \<not> 200 * millisecond \<le> a - b"
    "2 * second < time_sub a b \<longleftrightarrow> \<not> a - b \<le> 2 * second" for a b
    by (auto simp: time_sub_less time_sub_gt millisecond_def second_def)
  have st: "ps_pos (State (c\<lparr>c_lastHitAt := t\<rparr>)) = ps_pos (State c)" for t
    by (simp add: ps_pos_def)
  show ?thesis using assms(2,3) hp
    by (auto simp: handleHitMammoth_def applyHitMammoth_def t st hit_result_def)
qed

theorem handleHitMammoth_correct_witness:
  "mget (s_mammoths (handleHitMammoth (flat_env\<lparr>e_now := 5 * second\<rparr>) ''a'' ''m1''
     ((herd_of (mk_mammoth ''m1'' zero_vec ''m''))\<lparr>s_clients := mput ''a'' ((new_client ''a'')\<lparr>c_lastThrowAt := 4 * second\<rparr>) mempty\<rparr>))) ''m1'' = None"
proof -
  let ?c = "(new_client ''a'')\<lparr>c_lastThrowAt := 4 * second\<rparr>"
  let ?m = "mk_mammoth ''m1'' zero_vec ''m''"
  let ?s = "(herd_of ?m)\<lparr>s_clients := mput ''a'' ?c mempty\<rparr>"
  have "server_inv (herd_of ?m)" by (rule server_inv_herd) (simp_all add: mk_mammoth_ok)
  moreover have "client_ok ?c" "c_ID ?c = ''a''"
    using client_ok_times(2) [OF client_ok_new [of "''a''"]] by (simp_all add: new_client_def)
  ultimately have "server_inv ?s"
    by (simp add: server_inv_def clients_inv_def keyed_put mall_put)
  moreover have "\<not> c32 6400 < d2_32 (mam_Pos ?m) (ps_pos (State ?c))" by code_simp
  ultimately show ?thesis
    using handleHitMammoth_correct [of ?s "''a''" ?c "''m1''" ?m "flat_env\<lparr>e_now := 5 * second\<rparr>"]
    by (simp add: herd_of_def lookup_update spawnMammothDrops_def add_resource_eq new_client_def
        millisecond_def second_def zero_time_def)
qed

definition riding :: "string \<Rightarrow> Mammoth store \<Rightarrow> bool" where
  "riding cid ms \<longleftrightarrow> \<not> mall (\<lambda>m. mam_RiderID m \<noteq> cid) ms"

text \<open>
  A player already on a mammoth dismounts and does nothing else. Otherwise the player mounts
  exactly if the mammoth exists, is within six units, tame, saddled and free. In both cases at
  most one mammoth changes, and only its rider.
\<close>

theorem handleRideMammoth_correct:
  assumes "server_inv s" and "mget (s_clients s) cid = Some c"
  shows "case mget (s_mammoths s) k of
      None \<Rightarrow> mget (s_mammoths (handleRideMammoth E cid i s)) k = None
    | Some m \<Rightarrow> mget (s_mammoths (handleRideMammoth E cid i s)) k = Some (m\<lparr>mam_RiderID :=
        (if mam_RiderID m = cid then ''''
         else if k = i \<and> i \<noteq> '''' \<and> \<not> riding cid (s_mammoths s) \<and>
           \<not> c64 36 < d2_64 (mam_Pos m) (ps_pos (State c)) \<and> mam_Tamed m \<and> mam_Saddle m \<and> mam_RiderID m = ''''
         then cid else mam_RiderID m)\<rparr>)"
proof -
  have c: "c_ID c = cid" "cid \<noteq> ''''"
    using clients_invD [OF server_invD(1) [OF assms(1)] assms(2)] by (auto simp: client_ok_def)
  let ?f = "List.find (\<lambda>km. mam_RiderID (snd km) = cid) (range_entries (e_ord E) [''handleRideMammoth''] (s_mammoths s))"
  have h: "handleRideMammoth E cid i s =
      (case ?f of Some (k, m) \<Rightarrow> put_mammoth k (m\<lparr>mam_RiderID := ''''\<rparr>) s | None \<Rightarrow> mount i c s)"
    using assms(2) c(1) by (simp add: handleRideMammoth_def)
  show ?thesis
  proof (cases ?f)
    case None
    have n: "mam_RiderID m \<noteq> cid" if "mget (s_mammoths s) k = Some m" for k m
      using find_rider(2) [OF None that] .
    then have "\<not> riding cid (s_mammoths s)" by (simp add: riding_def mall_def)
    then show ?thesis using None c n
      by (auto simp: h mount_def put_mammoth_def lookup_update split: option.split)
  next
    case (Some km)
    obtain k0 m0 where km: "km = (k0, m0)" by fastforce
    have m: "mget (s_mammoths s) k0 = Some m0" "mam_RiderID m0 = cid" using find_rider(1) Some km by blast+
    have u: "k' = k0" if "mget (s_mammoths s) k' = Some m'" "mam_RiderID m' = cid" for k' m'
      using server_inv_stores(2) [OF assms(1)] one_riderD [of mam_RiderID "s_mammoths s" k' m' k0 m0] that m c(2)
      by (simp add: mammoths_inv_def)
    have busy: "riding cid (s_mammoths s)" using m by (auto simp: riding_def mall_def)
    have e: "mget (s_mammoths (handleRideMammoth E cid i s)) k =
        (if k = k0 then Some (m0\<lparr>mam_RiderID := ''''\<rparr>) else mget (s_mammoths s) k)"
      using Some km by (simp add: h put_mammoth_def lookup_update)
    show ?thesis
    proof (cases "mget (s_mammoths s) k")
      case None
      then show ?thesis using e m by auto
    next
      case k: (Some ma)
      then show ?thesis unfolding e using m u [OF k] busy by (cases "k = k0") auto
    qed
  qed
qed

theorem handleRideMammoth_correct_witness:
  "mget (s_mammoths (handleRideMammoth flat_env ''a'' ''m1'' (herd_of ((mk_mammoth ''m1'' zero_vec ''m'')
     \<lparr>mam_Tamed := True, mam_Saddle := True\<rparr>)))) ''m1'' =
   Some ((mk_mammoth ''m1'' zero_vec ''m'')\<lparr>mam_Tamed := True, mam_Saddle := True, mam_RiderID := ''a''\<rparr>)"
proof -
  let ?m = "(mk_mammoth ''m1'' zero_vec ''m'')\<lparr>mam_Tamed := True, mam_Saddle := True\<rparr>"
  let ?c = "player_with [(''fruit'', 1), (''saddle'', 1)]"
  have "mammoth_ok ?m" "mam_ID ?m = ''m1''" by (simp_all add: mammoth_ok_def mk_mammoth_def)
  from server_inv_herd [OF this] have "server_inv (herd_of ?m)" .
  moreover have "\<not> c64 36 < d2_64 (mam_Pos ?m) (ps_pos (State ?c))" by code_simp
  ultimately show ?thesis using handleRideMammoth_correct [of "herd_of ?m" "''a''" ?c flat_env "''m1''" "''m1''"]
    by (simp add: herd_of_def lookup_update mk_mammoth_def riding_def mall_def split: option.splits)
qed

text \<open>
  Breeding, for every order of the map. Babies of sixty seconds and more grow up. At most one
  baby is born in a tick: then its parents are a male and a female, both tame, grown, fed at
  least four times and within five units of each other; the baby lies half way between them,
  tame, with one health point, and the two parents have to be fed anew. Nothing else changes.
\<close>

theorem tickBreeding_correct:
  assumes "s1 = mmap (grow_up (e_now E)) (s_mammoths s)"
  shows "s_mammoths (tickBreeding E s) = s1 \<or>
    (\<exists>k m k' m' i sex. mget s1 k = Some m \<and> mget s1 k' = Some m' \<and>
       can_breed m \<and> mam_Sex m = ''m'' \<and> can_breed m' \<and> mam_Sex m' = ''f'' \<and> mammothsAreClose m m' \<and>
       sex \<in> {''m'', ''f''} \<and>
       s_mammoths (tickBreeding E s) = mput i (mk_baby i (half_way (mam_Pos m) (mam_Pos m')) sex (e_now E))
         (mput k' (m'\<lparr>mam_FedCount := 0\<rparr>) (mput k (m\<lparr>mam_FedCount := 0\<rparr>) s1)))"
proof -
  let ?s1 = "growUpMammoths (e_now E) s"
  have s1: "s_mammoths ?s1 = s1" using assms by (simp add: growUpMammoths_def)
  obtain males females where mf: "collectBreedingCandidates E s1 = (males, females)" by fastforce
  show ?thesis
  proof (cases "breeding_pair males females")
    case None
    then show ?thesis using mf s1 by (simp add: tickBreeding_def Let_def)
  next
    case (Some ab)
    obtain k m k' m' where ab: "ab = ((k, m), (k', m'))" by (metis surj_pair)
    have p: "mget s1 k = Some m" "mget s1 k' = Some m'" "can_breed m" "mam_Sex m = ''m''" "can_breed m'"
      "mam_Sex m' = ''f''" "mammothsAreClose m m'"
      using breeding_pair_Some [OF Some [unfolded ab]] candidates [OF mf] by auto
    have "tickBreeding E s = birthMammoth (k, m) (k', m') (e_now E) ?s1"
      using mf s1 Some ab by (simp add: tickBreeding_def Let_def)
    with birthMammoth_eq [of "(k, m)" "(k', m')" "e_now E" ?s1] obtain r sex where sex: "sex \<in> {''m'', ''f''}"
      and t: "tickBreeding E s = ?s1\<lparr>s_rng := r, s_mammoths :=
        mput (fst (new_id ?s1)) (mk_baby (fst (new_id ?s1)) (half_way (mam_Pos m) (mam_Pos m')) sex (e_now E))
          (mput k' (m'\<lparr>mam_FedCount := 0\<rparr>) (mput k (m\<lparr>mam_FedCount := 0\<rparr>) (s_mammoths ?s1)))\<rparr>"
      by (metis fst_conv snd_conv)
    have "s_mammoths (tickBreeding E s) =
        mput (fst (new_id ?s1)) (mk_baby (fst (new_id ?s1)) (half_way (mam_Pos m) (mam_Pos m')) sex (e_now E))
          (mput k' (m'\<lparr>mam_FedCount := 0\<rparr>) (mput k (m\<lparr>mam_FedCount := 0\<rparr>) s1))"
      unfolding t s1 by simp
    with p sex show ?thesis by blast
  qed
qed

definition fed_pair :: "Mammoth store" where
  "fed_pair = mput ''m2'' ((mk_mammoth ''m2'' zero_vec ''f'')\<lparr>mam_Tamed := True, mam_FedCount := 4\<rparr>)
     (mput ''m1'' ((mk_mammoth ''m1'' zero_vec ''m'')\<lparr>mam_Tamed := True, mam_FedCount := 5\<rparr>) mempty)"

theorem tickBreeding_correct_witness:
  "\<exists>k m k' m'. mget (mmap (grow_up 0) fed_pair) k = Some m \<and> mget (mmap (grow_up 0) fed_pair) k' = Some m' \<and>
     can_breed m \<and> can_breed m' \<and> mammothsAreClose m m' \<and> mlen (s_mammoths
       (tickBreeding (flat_env\<lparr>e_now := 0\<rparr>) ((lone_server (new_client ''a''))\<lparr>s_mammoths := fed_pair\<rparr>))) = 3"
proof -
  let ?E = "flat_env\<lparr>e_now := 0\<rparr>" and ?s = "(lone_server (new_client ''a''))\<lparr>s_mammoths := fed_pair\<rparr>"
  have three: "mlen (s_mammoths (tickBreeding ?E ?s)) = 3" by code_simp
  have "mlen (mmap (grow_up 0) fed_pair) = 2" by code_simp
  with three have ne: "s_mammoths (tickBreeding ?E ?s) \<noteq> mmap (grow_up 0) fed_pair" by auto
  have "mmap (grow_up 0) fed_pair = mmap (grow_up (e_now ?E)) (s_mammoths ?s)" by simp
  from tickBreeding_correct [OF this] ne three show ?thesis by blast
qed

definition two_players :: Server where
  "two_players = (put_client ''b'' (new_client ''b'') (lone_server (new_client ''a'')))\<lparr>
     s_mammoths := mput ''m1'' (mk_mammoth ''m1'' zero_vec ''m'') mempty\<rparr>"

text \<open>
  \<open>handleTameMammoth\<close> is two critical sections: if
  another player leashes the mammoth between the halves and the first player turns out to have
  no fruit, the roll-back leaves a wild mammoth on a leash, which no sequence of whole handlers
  can produce.
\<close>

theorem tame_race:
  "server_inv two_players \<and>
   (\<exists>m. mget (s_mammoths (tame_end ''a'' ''m1'' (handleLeashMammoth ''b'' ''m1'' (tame_begin ''m1'' two_players)))) ''m1'' = Some m \<and>
      \<not> mam_Tamed m \<and> mam_LeashedTo m = ''b'')"
proof
  show "server_inv two_players" unfolding two_players_def
    by (intro inv_intros server_inv_lone client_ok_new mammoths_inv_put_free)
       (simp_all add: mk_mammoth_ok, simp add: new_client_def)
  have "near5 ((mk_mammoth ''m1'' zero_vec ''m'')\<lparr>mam_Tamed := True\<rparr>) (new_client ''b'')" by code_simp
  then show "\<exists>m. mget (s_mammoths (tame_end ''a'' ''m1'' (handleLeashMammoth ''b'' ''m1'' (tame_begin ''m1'' two_players)))) ''m1'' = Some m \<and>
      \<not> mam_Tamed m \<and> mam_LeashedTo m = ''b''"
    by (simp add: two_players_def tame_begin_def tame_end_def set_tamed_def put_mammoth_def lookup_update
        handleLeashMammoth_def with_client_def consumeItem_def)
       (simp add: new_client_def mk_mammoth_def consumeItem_def lookup_update)
qed

end
