(* ===== verification/Rockets.thy ===== *)
theory Rockets
  imports Mammoths
begin

text \<open>
  \<open>internal/server/net/world.go\<close>, \<open>rockets.go\<close>, \<open>rockets_tick.go\<close> and \<open>rockets_orbit.go\<close>: the two
  planets on their orbits, and the rockets: placing, boarding, steering, flight and orbital
  parameters. A tick of a rocket is a pipeline of functions of the \<open>Rocket\<close> record, in the order
  of \<open>tickPilotedRocket\<close>. Intermediate values that the code binds to variables are arguments of
  helper functions, so that evaluation computes them once.
\<close>

section \<open>The planets\<close>

definition NewWorldState :: WorldState where
  "NewWorldState = \<lparr>
     w_EarthPos = vec (v_X SunPos + SunDistance) (v_Y SunPos) (v_Z SunPos),
     w_EarthVel = vec 0 0 (f32_of (sqrt64 (f64_of MuSun / f64_of SunDistance))),
     w_Planet2Pos = vec (v_X Star2Pos + Planet2OrbitRadius) (v_Y Star2Pos) (v_Z Star2Pos),
     w_Planet2Vel = vec 0 0 (f32_of (sqrt64 (f64_of MuStar2 / f64_of Planet2OrbitRadius)))\<rparr>"

definition move_body :: "Vector3 \<Rightarrow> Vector3 \<Rightarrow> f32 \<Rightarrow> Vector3 \<times> Vector3" where
  "move_body pos vel dt = (vadd pos (vscale vel dt), vel)"

definition pull_body :: "Vector3 \<Rightarrow> f32 \<Rightarrow> f32 \<Rightarrow> f32 \<Rightarrow> Vector3 \<Rightarrow> Vector3 \<Rightarrow> Vector3 \<times> Vector3" where
  "pull_body dir d g dt pos vel = move_body pos
     (vec (v_X vel + v_X dir / d * g * dt) (v_Y vel + v_Y dir / d * g * dt) (v_Z vel + v_Z dir / d * g * dt)) dt"

definition tick_body_at :: "Vector3 \<Rightarrow> f32 \<Rightarrow> f32 \<Rightarrow> f32 \<Rightarrow> Vector3 \<Rightarrow> Vector3 \<Rightarrow> Vector3 \<times> Vector3" where
  "tick_body_at dir d mu dt pos vel =
     (if d < c32 1 then (pos, vel) else pull_body dir d (mu / (d * d)) dt pos vel)"

definition tickBody :: "Vector3 \<Rightarrow> f32 \<Rightarrow> f32 \<Rightarrow> Vector3 \<Rightarrow> Vector3 \<Rightarrow> Vector3 \<times> Vector3" where
  "tickBody center mu dt pos vel =
     tick_body_at (vsub center pos) (vlen (vsub center pos)) mu dt pos vel"

definition World_Tick :: "f32 \<Rightarrow> WorldState \<Rightarrow> WorldState" where
  "World_Tick dt w =
     (case tickBody SunPos MuSun dt (w_EarthPos w) (w_EarthVel w) of (ep, ev) \<Rightarrow>
      case tickBody Star2Pos MuStar2 dt (w_Planet2Pos w) (w_Planet2Vel w) of (pp, pv) \<Rightarrow>
        \<lparr>w_EarthPos = ep, w_EarthVel = ev, w_Planet2Pos = pp, w_Planet2Vel = pv\<rparr>)"

section \<open>Handlers\<close>

definition new_rocket :: "string \<Rightarrow> Vector3 \<Rightarrow> Vector3 \<Rightarrow> Vector3 \<Rightarrow> Vector3 \<Rightarrow> Rocket" where
  "new_rocket i pos vel up lp = \<lparr>rk_ID = i, rk_Pos = pos, rk_Vel = vel, rk_Up = up, rk_Yaw = 0,
     rk_Fuel = rocketMaxFuel, rk_MaxFuel = rocketMaxFuel, rk_Piloted = False, rk_OwnerID = '''', rk_InOrbit = False,
     rk_Thrust = 0, rk_lastLogAt = zero_time, rk_fuelAccum = 0, rk_TargetUp = zero_vec, rk_Apoapsis = 0,
     rk_Periapsis = 0, rk_Speed = 0, rk_Altitude = 0, rk_TargetVelocity = 0, rk_InfiniteFuel = False,
     rk_AutoPilot = '''', rk_PrimaryBody = '''', rk_DistSun = 0, rk_SOIRadius = 0, rk_LocalPos = lp\<rparr>"

text \<open>The item is consumed before the position is checked, and not given back.\<close>

definition place_rocket_at :: "string \<Rightarrow> Vector3 \<Rightarrow> f32 \<Rightarrow> Server \<Rightarrow> Server" where
  "place_rocket_at cid lp l s = with_client cid s (\<lambda>c.
     if \<not> fst (consumeItem ''rocket'' c) then s
     else if l < c32 (1 / 100) then put_client cid (snd (consumeItem ''rocket'' c)) s
     else case new_id s of (i, s') \<Rightarrow>
       put_client cid (sendInventory (snd (consumeItem ''rocket'' c)))
         (s'\<lparr>s_rockets := mput i (new_rocket i (vadd (w_EarthPos (s_world s)) lp) (w_EarthVel (s_world s)) (vdiv lp l) lp)
            (s_rockets s')\<rparr>))"

definition handlePlaceRocket :: "env \<Rightarrow> string \<Rightarrow> PlaceRocket \<Rightarrow> Server \<Rightarrow> Server" where
  "handlePlaceRocket E cid p s =
     place_rocket_at cid (ClampToSurface E (vec (plr_X p) (plr_Y p) (plr_Z p)))
       (vlen (ClampToSurface E (vec (plr_X p) (plr_Y p) (plr_Z p)))) s"

definition put_rocket :: "string \<Rightarrow> Rocket \<Rightarrow> Server \<Rightarrow> Server" where
  "put_rocket i r s = s\<lparr>s_rockets := mput i r (s_rockets s)\<rparr>"

definition handleBoardRocket :: "string \<Rightarrow> string \<Rightarrow> Server \<Rightarrow> Server" where
  "handleBoardRocket cid rocketID s = with_client cid s (\<lambda>c.
     case mget (s_rockets s) rocketID of
       None \<Rightarrow> s
     | Some r \<Rightarrow>
         if rk_Piloted r \<and> rk_OwnerID r \<noteq> c_ID c then s
         else if c32 64 < d2_32 (vsub (rk_Pos r) (w_EarthPos (s_world s))) (ps_pos (State c)) then s
         else put_rocket rocketID (r\<lparr>rk_Piloted := True, rk_OwnerID := c_ID c\<rparr>) s)"

definition own_rocket :: "env \<Rightarrow> string \<Rightarrow> Client \<Rightarrow> Server \<Rightarrow> (string \<times> Rocket) option" where
  "own_rocket E site c s = List.find (\<lambda>kr. rk_OwnerID (snd kr) = c_ID c \<and> rk_Piloted (snd kr))
     (range_entries (e_ord E) [site] (s_rockets s))"

definition handleExitRocket :: "env \<Rightarrow> string \<Rightarrow> Server \<Rightarrow> Server" where
  "handleExitRocket E cid s = with_client cid s (\<lambda>c.
     case own_rocket E ''handleExitRocket'' c s of
       None \<Rightarrow> s
     | Some (k, r) \<Rightarrow> put_rocket k (r\<lparr>rk_Piloted := False, rk_OwnerID := ''''\<rparr>) s)"

definition steer_input :: "Client \<Rightarrow> RocketInput \<Rightarrow> Rocket \<Rightarrow> Rocket" where
  "steer_input c p r = r\<lparr>rk_Thrust := ri_Thrust p, rk_AutoPilot := ri_AutoPilot p,
     rk_TargetUp := (if ri_AutoPilot p = '''' then vec (ri_TargetUpX p) (ri_TargetUpY p) (ri_TargetUpZ p) else rk_TargetUp r),
     rk_InfiniteFuel := c_infiniteFuel c,
     rk_Fuel := (if c_infiniteFuel c then rk_MaxFuel r else rk_Fuel r)\<rparr>"

definition handleRocketInput :: "env \<Rightarrow> string \<Rightarrow> RocketInput \<Rightarrow> Server \<Rightarrow> Server" where
  "handleRocketInput E cid p s = with_client cid s (\<lambda>c.
     case own_rocket E ''handleRocketInput'' c s of
       None \<Rightarrow> s
     | Some (k, r) \<Rightarrow> put_rocket k (steer_input c p r) s)"

section \<open>Rockets without a pilot\<close>

definition ride_along :: "Vector3 \<Rightarrow> Vector3 \<Rightarrow> Rocket \<Rightarrow> Rocket" where
  "ride_along bodyPos bodyVel r = r\<lparr>rk_Pos := vadd bodyPos (rk_LocalPos r), rk_Vel := bodyVel, rk_Thrust := 0\<rparr>"

definition sun_target :: f32 where "sun_target = SunRadius + c32 (3 / 2)"

definition sun_rest_at :: "Vector3 \<Rightarrow> f32 \<Rightarrow> Rocket \<Rightarrow> Rocket" where
  "sun_rest_at lp llen r = r\<lparr>rk_LocalPos := lp, rk_Up := vdiv lp llen\<rparr>"

definition sun_rest_scaled :: "Vector3 \<Rightarrow> f32 \<Rightarrow> Rocket \<Rightarrow> Rocket" where
  "sun_rest_scaled lp llen r =
     sun_rest_at (if llen < sun_target then vscale lp (sun_target / llen) else lp) llen r"

definition sun_rest :: "f32 \<Rightarrow> Rocket \<Rightarrow> Rocket" where
  "sun_rest llen r =
     (if llen < c32 (1 / 100) then sun_rest_scaled (vec SunRadius 0 0) (c32 (1 / 100)) r
      else sun_rest_scaled (rk_LocalPos r) llen r)"

definition earth_rest :: "Vector3 \<Rightarrow> f32 \<Rightarrow> Rocket \<Rightarrow> Rocket" where
  "earth_rest lp llen r = (if c32 (1 / 100) < llen then r\<lparr>rk_LocalPos := lp, rk_Up := vdiv lp llen\<rparr>
     else r\<lparr>rk_LocalPos := lp\<rparr>)"

definition earth_rest_clamped :: "Vector3 \<Rightarrow> Rocket \<Rightarrow> Rocket" where
  "earth_rest_clamped lp r = earth_rest lp (vlen lp) r"

definition tickFreeRocket :: "env \<Rightarrow> Vector3 \<Rightarrow> Vector3 \<Rightarrow> Rocket \<Rightarrow> Rocket" where
  "tickFreeRocket E ep ev r =
     (if rk_PrimaryBody r = ''sun'' then ride_along SunPos zero_vec (sun_rest (vlen (rk_LocalPos r)) r)
      else ride_along ep ev (earth_rest_clamped (ClampToSurface E (rk_LocalPos r)) r))"

section \<open>Steering\<close>

definition unit_if :: "bool \<Rightarrow> Vector3 \<Rightarrow> f32 \<Rightarrow> Vector3" where
  "unit_if b v l = (if b then vdiv v l else zero_vec)"

definition cross :: "Vector3 \<Rightarrow> Vector3 \<Rightarrow> Vector3" where
  "cross a b = vec (v_Y a * v_Z b - v_Z a * v_Y b) (v_Z a * v_X b - v_X a * v_Z b) (v_X a * v_Y b - v_Y a * v_X b)"

definition orbit_normal :: "Vector3 \<Rightarrow> f32 \<Rightarrow> f32 \<Rightarrow> Vector3" where
  "orbit_normal n nl k =
     (if c32 (1 / 100) < nl then vec (v_X n / nl * k) (v_Y n / nl * k) (v_Z n / nl * k) else zero_vec)"

definition autopilot_target :: "string \<Rightarrow> Vector3 \<Rightarrow> Vector3 \<Rightarrow> f32 \<Rightarrow> f32 \<Rightarrow> Vector3" where
  "autopilot_target mode relPos relVel vLen rLen =
     (if mode = ''prograde'' then unit_if (c32 (1 / 10) < vLen) relVel vLen
      else if mode = ''retrograde'' then unit_if (c32 (1 / 10) < vLen) (vneg relVel) vLen
      else if mode = ''radial_out'' then unit_if (c32 (1 / 10) < rLen) relPos rLen
      else if mode = ''radial_in'' then unit_if (c32 (1 / 10) < rLen) (vneg relPos) rLen
      else if mode = ''normal'' \<or> mode = ''antinormal''
      then orbit_normal (cross relPos relVel) (vlen (cross relPos relVel))
             (if mode = ''antinormal'' then c32 (- 1) else c32 1)
      else zero_vec)"

definition is_zero_vec :: "Vector3 \<Rightarrow> bool" where
  "is_zero_vec v \<longleftrightarrow> eq32 (v_X v) (c32 0) \<and> eq32 (v_Y v) (c32 0) \<and> eq32 (v_Z v) (c32 0)"

definition aim_at :: "Vector3 \<Rightarrow> Rocket \<Rightarrow> Rocket" where
  "aim_at t r = (if is_zero_vec t then r else r\<lparr>rk_TargetUp := t\<rparr>)"

definition applyAutopilot :: "Vector3 \<Rightarrow> Vector3 \<Rightarrow> f32 \<Rightarrow> Rocket \<Rightarrow> Rocket" where
  "applyAutopilot relPos relVel distEarth r =
     (if rk_AutoPilot r = '''' then r
      else aim_at (autopilot_target (rk_AutoPilot r) relPos relVel (vlen relVel) distEarth) r)"

definition clamp_dot :: "f32 \<Rightarrow> f32" where
  "clamp_dot d = (if c32 1 < d then c32 1 else if d < c32 (- 1) then c32 (- 1) else d)"

definition renormalise :: "Vector3 \<Rightarrow> f32 \<Rightarrow> Vector3" where
  "renormalise up l = (if c32 (1 / 100) < l then vdiv up l else up)"

definition renormalised :: "Vector3 \<Rightarrow> Vector3" where
  "renormalised up = renormalise up (vlen up)"

definition turn_by :: "Vector3 \<Rightarrow> Vector3 \<Rightarrow> f32 \<Rightarrow> Vector3" where
  "turn_by up t k = renormalised (vec (v_X up + (v_X t - v_X up) * k) (v_Y up + (v_Y t - v_Y up) * k)
     (v_Z up + (v_Z t - v_Z up) * k))"

definition turn_up :: "Vector3 \<Rightarrow> Vector3 \<Rightarrow> f32 \<Rightarrow> f32 \<Rightarrow> Vector3" where
  "turn_up up t angle maxAngle =
     (if maxAngle < angle \<and> c32 (1 / 1000) < angle then turn_by up t (maxAngle / angle) else t)"

definition steer_to :: "env \<Rightarrow> Vector3 \<Rightarrow> f32 \<Rightarrow> Rocket \<Rightarrow> Rocket" where
  "steer_to E t dt r = r\<lparr>rk_Up := turn_up (rk_Up r) t
     (f32_of (m_acos E (f64_of (clamp_dot (vdot (rk_Up r) t))))) (c32 3 * dt)\<rparr>"

definition steer_len :: "env \<Rightarrow> f32 \<Rightarrow> f32 \<Rightarrow> Rocket \<Rightarrow> Rocket" where
  "steer_len E tLen dt r = (if tLen \<le> c32 (1 / 100) then r else steer_to E (vdiv (rk_TargetUp r) tLen) dt r)"

definition steerUpTowardTarget :: "env \<Rightarrow> f32 \<Rightarrow> Rocket \<Rightarrow> Rocket" where
  "steerUpTowardTarget E dt r =
     (if is_zero_vec (rk_TargetUp r) then r else steer_len E (vlen (rk_TargetUp r)) dt r)"

section \<open>Forces\<close>

definition add_pull :: "Vector3 \<Rightarrow> Vector3 \<Rightarrow> f32 \<Rightarrow> f32 \<Rightarrow> Vector3" where
  "add_pull g v d a = vec (v_X g + - v_X v / d * a) (v_Y g + - v_Y v / d * a) (v_Z g + - v_Z v / d * a)"

definition earth_pull :: "f32 \<Rightarrow> f32" where
  "earth_pull g = (if c32 500 < g then c32 500 else g)"

definition gravityAccel :: "Vector3 \<Rightarrow> f32 \<Rightarrow> f32 \<Rightarrow> bool \<Rightarrow> Vector3 \<Rightarrow> Vector3" where
  "gravityAccel relPos distEarth distSun isEarth sv =
     (let g1 = (if c32 1 < distSun then add_pull zero_vec sv distSun (MuSun / (distSun * distSun)) else zero_vec) in
      if isEarth \<and> c32 1 < distEarth
      then add_pull g1 relPos distEarth (earth_pull (MuEarth / (distEarth * distEarth))) else g1)"

text \<open>The loop \<open>for r.fuelAccum >= 1 && r.Fuel > 0\<close>: it ends because the fuel is used up.\<close>

function burn :: "int \<Rightarrow> f32 \<Rightarrow> int \<times> f32" where
  "burn fuel acc = (if c32 1 \<le> acc \<and> 0 < fuel then burn (fuel - 1) (acc - c32 1) else (fuel, acc))"
  by pat_completeness auto
termination by (relation "measure (\<lambda>(fuel, _). nat fuel)") auto

declare burn.simps [simp del]

definition abs_thrust :: "f32 \<Rightarrow> f32" where
  "abs_thrust t = (if t < c32 0 then - t else t)"

definition burn_fuel :: "f32 \<Rightarrow> Rocket \<Rightarrow> Rocket" where
  "burn_fuel dt r =
     (if rk_InfiniteFuel r then r
      else case burn (rk_Fuel r) (rk_fuelAccum r + c32 5 * dt * abs_thrust (rk_Thrust r)) of
        (f, a) \<Rightarrow> r\<lparr>rk_Fuel := f, rk_fuelAccum := a\<rparr>)"

definition consumeThrust :: "f32 \<Rightarrow> Rocket \<Rightarrow> Vector3 \<times> Rocket" where
  "consumeThrust dt r =
     (if eq32 (rk_Thrust r) (c32 0) \<or> rk_Fuel r \<le> 0 then (zero_vec, r)
      else (vscale (rk_Up r) (c32 50 * rk_Thrust r), burn_fuel dt r))"

definition accelerate :: "Vector3 \<Rightarrow> f32 \<Rightarrow> Vector3 \<times> Rocket \<Rightarrow> Rocket" where
  "accelerate g dt tr = (snd tr)\<lparr>rk_Vel := vadd (rk_Vel (snd tr)) (vscale (vadd g (fst tr)) dt)\<rparr>"

definition drag_dv :: "f32 \<Rightarrow> f32 \<Rightarrow> f32" where
  "drag_dv speed dv = (if speed < dv then speed else dv)"

definition drag_to :: "Vector3 \<Rightarrow> Vector3 \<Rightarrow> f32 \<Rightarrow> f32 \<Rightarrow> Rocket \<Rightarrow> Rocket" where
  "drag_to ev rel speed dv r = r\<lparr>rk_Vel := vec (v_X ev + (v_X rel - v_X rel / speed * dv))
     (v_Y ev + (v_Y rel - v_Y rel / speed * dv)) (v_Z ev + (v_Z rel - v_Z rel / speed * dv))\<rparr>"

definition drag_at :: "env \<Rightarrow> Vector3 \<Rightarrow> Vector3 \<Rightarrow> f32 \<Rightarrow> f32 \<Rightarrow> f32 \<Rightarrow> f32 \<Rightarrow> Rocket \<Rightarrow> Rocket" where
  "drag_at E ev rel alt speedSq speed dt r =
     drag_to ev rel speed (drag_dv speed
       (c32 (2 / 100) * f32_of (m_exp E (- f64_of alt / c64 12)) * speedSq / speed * dt)) r"

definition drag_in :: "env \<Rightarrow> Vector3 \<Rightarrow> Vector3 \<Rightarrow> f32 \<Rightarrow> f32 \<Rightarrow> f32 \<Rightarrow> Rocket \<Rightarrow> Rocket" where
  "drag_in E ev rel alt speedSq dt r =
     (if alt \<le> c32 0 \<or> c32 50 \<le> alt then r
      else if speedSq \<le> c32 (1 / 100) then r
      else drag_at E ev rel alt speedSq (sqrt32 speedSq) dt r)"

definition vsq :: "Vector3 \<Rightarrow> f32" where "vsq v = sq3 (v_X v) (v_Y v) (v_Z v)"

definition applyAtmosphericDrag :: "env \<Rightarrow> Vector3 \<Rightarrow> f32 \<Rightarrow> f32 \<Rightarrow> Rocket \<Rightarrow> Rocket" where
  "applyAtmosphericDrag E ev distEarth dt r =
     drag_in E ev (vsub (rk_Vel r) ev) (distEarth - PlanetRadius) (vsq (vsub (rk_Vel r) ev)) dt r"

definition limit_by :: "Vector3 \<Rightarrow> Vector3 \<Rightarrow> f32 \<Rightarrow> Rocket \<Rightarrow> Rocket" where
  "limit_by ev rel k r = r\<lparr>rk_Vel := vadd ev (vscale rel k)\<rparr>"

definition limit_speed :: "Vector3 \<Rightarrow> Vector3 \<Rightarrow> f32 \<Rightarrow> Rocket \<Rightarrow> Rocket" where
  "limit_speed ev rel speedSq r =
     (if speedSq \<le> c32 10000 then r else limit_by ev rel (c32 100 / sqrt32 speedSq) r)"

definition applySpeedLimit :: "Vector3 \<Rightarrow> bool \<Rightarrow> Rocket \<Rightarrow> Rocket" where
  "applySpeedLimit ev isEarth r =
     (if \<not> isEarth then r else limit_speed ev (vsub (rk_Vel r) ev) (vsq (vsub (rk_Vel r) ev)) r)"

section \<open>Collisions and frames\<close>

definition land_on_earth :: "Vector3 \<Rightarrow> Vector3 \<Rightarrow> Vector3 \<Rightarrow> f32 \<Rightarrow> f32 \<Rightarrow> f32 \<Rightarrow> Rocket \<Rightarrow> Rocket" where
  "land_on_earth ep ev newRel newDist surfR d r =
     (if surfR + c32 (3 / 2) \<le> newDist then r
      else if c32 0 \<le> d \<and> surfR \<le> newDist then r
      else r\<lparr>rk_Pos := vadd ep (vscale newRel ((surfR + c32 (3 / 2)) / newDist)), rk_Vel := ev\<rparr>)"

definition collideWithEarth :: "env \<Rightarrow> Vector3 \<Rightarrow> Vector3 \<Rightarrow> Rocket \<Rightarrow> Rocket" where
  "collideWithEarth E ep ev r =
     land_on_earth ep ev (vsub (rk_Pos r) ep) (vlen (vsub (rk_Pos r) ep)) (SurfaceRadius E (vsub (rk_Pos r) ep))
       (vdot (vsub (rk_Pos r) ep) (vsub (rk_Vel r) ev)) r"

definition updateRocketFrame :: "Vector3 \<Rightarrow> bool \<Rightarrow> f32 \<Rightarrow> Rocket \<Rightarrow> Rocket" where
  "updateRocketFrame ep isEarth distSun r =
     r\<lparr>rk_LocalPos := vsub (rk_Pos r) (if isEarth then ep else SunPos),
       rk_PrimaryBody := (if isEarth then ''earth'' else ''sun''),
       rk_DistSun := distSun, rk_SOIRadius := SOIEarth\<rparr>"

definition sun_dist :: "f32 \<Rightarrow> f32" where
  "sun_dist d = (if d < c32 (1 / 100) then c32 (1 / 100) else d)"

definition land_on_sun :: "Vector3 \<Rightarrow> f32 \<Rightarrow> Rocket \<Rightarrow> Rocket" where
  "land_on_sun sd sunDist r =
     (if c32 0 \<le> vdot (rk_Vel r) sd \<and> SunRadius \<le> sunDist then r
      else r\<lparr>rk_Pos := vadd SunPos (vscale sd (sun_target / sunDist)), rk_Vel := zero_vec, rk_PrimaryBody := ''sun''\<rparr>)"

definition sun_contact :: "Vector3 \<Rightarrow> f32 \<Rightarrow> Rocket \<Rightarrow> Rocket" where
  "sun_contact sd sunDistSq r =
     (if sun_target * sun_target \<le> sunDistSq then r else land_on_sun sd (sun_dist (sqrt32 sunDistSq)) r)"

definition collideWithSun :: "Rocket \<Rightarrow> Rocket" where
  "collideWithSun r = sun_contact (vsub (rk_Pos r) SunPos) (vsq (vsub (rk_Pos r) SunPos)) r"

section \<open>Orbits\<close>

record orbit =
  o_apo :: f32
  o_peri :: f32
  o_speed :: f32
  o_alt :: f32
  o_targetV :: f32

definition orbit_apsides :: "f32 \<Rightarrow> f32 \<Rightarrow> f32 \<Rightarrow> f32 \<Rightarrow> f32 \<Rightarrow> f32 \<Rightarrow> orbit" where
  "orbit_apsides a e bodyRadius speed alt tv =
     \<lparr>o_apo = a * (c32 1 + e) - bodyRadius, o_peri = a * (c32 1 - e) - bodyRadius,
      o_speed = speed, o_alt = alt, o_targetV = tv\<rparr>"

definition ecc :: "Vector3 \<Rightarrow> Vector3 \<Rightarrow> f32 \<Rightarrow> f32 \<Rightarrow> f32 \<Rightarrow> f32" where
  "ecc rel vel k rdv mu =
     len3 ((k * v_X rel - rdv * v_X vel) / mu) ((k * v_Y rel - rdv * v_Y vel) / mu) ((k * v_Z rel - rdv * v_Z vel) / mu)"

definition orbit_energy :: "Vector3 \<Rightarrow> Vector3 \<Rightarrow> f32 \<Rightarrow> f32 \<Rightarrow> f32 \<Rightarrow> f32 \<Rightarrow> f32 \<Rightarrow> f32 \<Rightarrow> f32 \<Rightarrow> orbit" where
  "orbit_energy rel vel r v2 en mu bodyRadius speed tv =
     (if c32 0 \<le> en then \<lparr>o_apo = 0, o_peri = 0, o_speed = speed, o_alt = r - bodyRadius, o_targetV = tv\<rparr>
      else orbit_apsides (- mu / (c32 2 * en)) (ecc rel vel (v2 - mu / r) (vdot rel vel) mu) bodyRadius speed
             (r - bodyRadius) tv)"

definition orbit_at :: "Vector3 \<Rightarrow> Vector3 \<Rightarrow> f32 \<Rightarrow> f32 \<Rightarrow> f32 \<Rightarrow> f32 \<Rightarrow> orbit" where
  "orbit_at rel vel r v2 mu bodyRadius =
     (let speed = sqrt32 v2; tv = (if c32 1 < r then sqrt32 (mu / r) else 0) in
      if r < c32 1 then \<lparr>o_apo = 0, o_peri = 0, o_speed = speed, o_alt = r - bodyRadius, o_targetV = tv\<rparr>
      else orbit_energy rel vel r v2 (v2 / c32 2 - mu / r) mu bodyRadius speed tv)"

definition orbitalParams :: "Vector3 \<Rightarrow> Vector3 \<Rightarrow> Vector3 \<Rightarrow> f32 \<Rightarrow> f32 \<Rightarrow> orbit" where
  "orbitalParams pos vel primaryPos mu bodyRadius =
     orbit_at (vsub pos primaryPos) vel (vlen (vsub pos primaryPos)) (vsq vel) mu bodyRadius"

definition set_orbit :: "bool \<Rightarrow> orbit \<Rightarrow> Rocket \<Rightarrow> Rocket" where
  "set_orbit isEarth ob r = r\<lparr>rk_Apoapsis := o_apo ob, rk_Periapsis := o_peri ob, rk_Speed := o_speed ob,
     rk_Altitude := o_alt ob, rk_TargetVelocity := o_targetV ob,
     rk_InOrbit := (if isEarth then c32 50 < o_peri ob \<and> c32 50 < o_alt ob else c32 0 < o_peri ob)\<rparr>"

definition updateOrbitalParams :: "Vector3 \<Rightarrow> bool \<Rightarrow> Rocket \<Rightarrow> Rocket" where
  "updateOrbitalParams ep isEarth r =
     (if isEarth then set_orbit True (orbitalParams (rk_Pos r) (rk_Vel r) ep MuEarth PlanetRadius) r
      else set_orbit False (orbitalParams (rk_Pos r) (rk_Vel r) SunPos MuSun SunRadius) r)"

definition logRocketTick :: "env \<Rightarrow> Rocket \<Rightarrow> Rocket" where
  "logRocketTick E r = (if time_sub (e_now E) (rk_lastLogAt r) \<le> second then r else r\<lparr>rk_lastLogAt := e_now E\<rparr>)"

section \<open>The tick of the rockets\<close>

definition drift :: "f32 \<Rightarrow> Rocket \<Rightarrow> Rocket" where
  "drift dt r = r\<lparr>rk_Pos := vadd (rk_Pos r) (vscale (rk_Vel r) dt)\<rparr>"

definition after_thrust :: "env \<Rightarrow> Vector3 \<Rightarrow> Vector3 \<Rightarrow> f32 \<Rightarrow> f32 \<Rightarrow> f32 \<Rightarrow> bool \<Rightarrow> Rocket \<Rightarrow> Rocket" where
  "after_thrust E ep ev distEarth distSun dt isEarth r0 =
     (let r1 = (if isEarth then applyAtmosphericDrag E ev distEarth dt r0 else r0);
          r2 = drift dt (applySpeedLimit ev isEarth r1);
          r3 = (if isEarth then collideWithEarth E ep ev r2 else r2)
      in logRocketTick E (updateOrbitalParams ep isEarth
           (collideWithSun (updateRocketFrame ep isEarth distSun r3))))"

definition piloted_at :: "env \<Rightarrow> Vector3 \<Rightarrow> Vector3 \<Rightarrow> f32 \<Rightarrow> f32 \<Rightarrow> f32 \<Rightarrow> bool \<Rightarrow> Rocket \<Rightarrow> Rocket" where
  "piloted_at E ep ev distEarth distSun dt isEarth r =
     (let r1 = steerUpTowardTarget E dt (applyAutopilot (vsub (rk_Pos r) ep) (vsub (rk_Vel r) ev) distEarth r);
          g = gravityAccel (vsub (rk_Pos r) ep) distEarth distSun isEarth (vsub (rk_Pos r) SunPos)
      in after_thrust E ep ev distEarth distSun dt isEarth (accelerate g dt (consumeThrust dt r1)))"

definition piloted_dist :: "env \<Rightarrow> Vector3 \<Rightarrow> Vector3 \<Rightarrow> f32 \<Rightarrow> f32 \<Rightarrow> f32 \<Rightarrow> Rocket \<Rightarrow> Rocket" where
  "piloted_dist E ep ev distEarth distSun dt r =
     piloted_at E ep ev distEarth distSun dt (distEarth < SOIEarth) r"

definition tickPilotedRocket :: "env \<Rightarrow> Vector3 \<Rightarrow> Vector3 \<Rightarrow> f32 \<Rightarrow> Rocket \<Rightarrow> Rocket" where
  "tickPilotedRocket E ep ev dt r =
     piloted_dist E ep ev (vlen (vsub (rk_Pos r) ep)) (vlen (vsub (rk_Pos r) SunPos)) dt r"

definition tick_rocket :: "env \<Rightarrow> Vector3 \<Rightarrow> Vector3 \<Rightarrow> f32 \<Rightarrow> Rocket \<Rightarrow> Rocket" where
  "tick_rocket E ep ev dt r =
     (if \<not> rk_Piloted r then tickFreeRocket E ep ev r else tickPilotedRocket E ep ev dt r)"

definition tickRockets :: "env \<Rightarrow> f32 \<Rightarrow> Server \<Rightarrow> Server" where
  "tickRockets E dt s =
     s\<lparr>s_rockets := mmap (tick_rocket E (w_EarthPos (s_world s)) (w_EarthVel (s_world s)) dt) (s_rockets s)\<rparr>"

end
