(* ===== verification/Handlers.thy ===== *)
theory Handlers
  imports Invariants
begin

text \<open>
  \<open>internal/server/net/handlers.go\<close>: the handlers of a player's own state, ping, eating and
  item selection, the crafting of the basic recipes and the picking up of resources. A handler
  takes the environment, the identifier of the sender and the decoded payload, and returns the
  server after it.
\<close>

section \<open>State, ping, eating, selection\<close>

definition lift_player_l :: "Vector3 \<Rightarrow> f32 \<Rightarrow> Vector3" where
  "lift_player_l pos l = (if c32 (1 / 100) < l then vscale pos ((l + PlayerHeight) / l) else pos)"

definition lift_player :: "Vector3 \<Rightarrow> Vector3" where
  "lift_player pos = lift_player_l pos (vlen pos)"

definition state_of_msg :: "PlayerState \<Rightarrow> Client \<Rightarrow> Vector3 \<Rightarrow> PlayerState" where
  "state_of_msg st c pos =
     st\<lparr>ps_ID := c_ID c, ps_Nick := c_Nick c, ps_X := v_X pos, ps_Y := v_Y pos, ps_Z := v_Z pos\<rparr>"

definition handleStateMsg :: "env \<Rightarrow> string \<Rightarrow> PlayerState \<Rightarrow> Server \<Rightarrow> Server" where
  "handleStateMsg E cid st s = with_client cid s (\<lambda>c.
     put_client cid (setState (state_of_msg st c (lift_player (ClampToSurface E (ps_pos st)))) c) s)"

definition handlePingMsg :: "env \<Rightarrow> string \<Rightarrow> Ping \<Rightarrow> Server \<Rightarrow> Server" where
  "handlePingMsg E cid p s = with_client cid s (\<lambda>c.
     put_client cid (sendEnvelope (MsgPong
       \<lparr>pong_Sent = ping_Sent p, pong_ServerTS = unix_milli (e_now E)\<rparr>) c) s)"

definition handleEatFruitMsg :: "string \<Rightarrow> Server \<Rightarrow> Server" where
  "handleEatFruitMsg cid s = with_client cid s (\<lambda>c.
     if fst (consumeItem ''fruit'' c)
     then put_client cid (sendInventory (addHunger (c32 20) (snd (consumeItem ''fruit'' c)))) s
     else s)"

definition handleSelectItemMsg :: "string \<Rightarrow> SelectItem \<Rightarrow> Server \<Rightarrow> Server" where
  "handleSelectItemMsg cid p s = with_client cid s (\<lambda>c.
     put_client cid (c\<lparr>c_heldItem := sel_Item p\<rparr>) s)"

section \<open>Recipes\<close>

text \<open>
  A recipe's \<open>need\<close> and \<open>have\<close> are Go maps with distinct items; the loops over them commute
  (\<open>mget_int_spend\<close> below does not mention an order), so they are lists here.
\<close>

type_synonym req = "(string \<times> int) list"

definition enough :: "req \<Rightarrow> int gomap \<Rightarrow> bool" where
  "enough need items \<longleftrightarrow> list_all (\<lambda>(k, n). n \<le> mget_int items k) need"

definition spend_item :: "string \<times> int \<Rightarrow> int gomap \<Rightarrow> int gomap" where
  "spend_item kn items =
     (if i64 (mget_int items (fst kn) - snd kn) = 0 then mdel (fst kn) items
      else mput (fst kn) (i64 (mget_int items (fst kn) - snd kn)) items)"

definition spend :: "req \<Rightarrow> int gomap \<Rightarrow> int gomap" where
  "spend need items = fold spend_item need items"

definition gain :: "req \<Rightarrow> int gomap \<Rightarrow> int gomap" where
  "gain got items = fold (\<lambda>kn. inv_add (fst kn) (snd kn)) got items"

definition recipes :: "(string \<times> req \<times> req) list" where
  "recipes =
    [(''spear'', [(''stone'', 2), (''wood'', 1)], [(''spear'', 1)]),
     (''leash'', [(''liana'', 2)], [(''leash'', 1)]),
     (''house'', [(''wood'', 50)], [(''house'', 1)]),
     (''saddle'', [(''liana'', 4)], [(''saddle'', 1)]),
     (''boat'', [(''wood'', 20)], [(''boat'', 1)])]"

definition handleCraft :: "string \<Rightarrow> string \<Rightarrow> Server \<Rightarrow> Server" where
  "handleCraft cid recipe s = with_client cid s (\<lambda>c.
     case map_of recipes recipe of
       None \<Rightarrow> s
     | Some (need, got) \<Rightarrow>
         if \<not> enough need (c_inventory c) then s
         else put_client cid (sendInventory
                (c\<lparr>c_inventory := gain got (spend need (c_inventory c))\<rparr>)) s)"

section \<open>Picking up\<close>

definition pickup_d2 :: f64 where "pickup_d2 = c64 25"

definition handlePickup :: "string \<Rightarrow> string \<Rightarrow> Server \<Rightarrow> Server" where
  "handlePickup cid resourceID s = with_client cid s (\<lambda>c.
     case mget (s_resources s) resourceID of
       None \<Rightarrow> s
     | Some r \<Rightarrow>
         if res_Type r = ''seed'' then s
         else if pickup_d2 < d2_64 (res_pos r) (ps_pos (State c)) then s
         else put_client cid
                (sendEnvelope (MsgInventory (fst (addItem (res_Type r) c))) (snd (addItem (res_Type r) c)))
                (s\<lparr>s_resources := mdel resourceID (s_resources s)\<rparr>))"

section \<open>Inventories under recipes\<close>

lemma spend_i64: "mall in_i64 m \<Longrightarrow> mall in_i64 (spend need m)"
  unfolding spend_def
  by (rule fold_invariant_on [where P = "mall in_i64"]) (simp_all add: spend_item_def mall_put mall_del)

lemma gain_i64: "mall in_i64 m \<Longrightarrow> mall in_i64 (gain got m)"
  unfolding gain_def by (rule fold_invariant_on [where P = "mall in_i64"]) (simp_all add: inv_add_i64)

lemma mget_int_spend_item:
  "mget_int (spend_item kn m) k = (if k = fst kn then i64 (mget_int m k - snd kn) else mget_int m k)"
  by (simp add: spend_item_def mget_int_put mget_int_del)

definition amount :: "req \<Rightarrow> string \<Rightarrow> int" where
  "amount rq k = (case map_of rq k of None \<Rightarrow> 0 | Some n \<Rightarrow> n)"

lemma amount_Nil [simp]: "amount [] k = 0"
  by (simp add: amount_def)

lemma amount_Cons: "amount ((a, n) # rq) k = (if k = a then n else amount rq k)"
  by (simp add: amount_def)

lemma amount_notin: "k \<notin> fst ` set rq \<Longrightarrow> amount rq k = 0"
  unfolding amount_def by (metis map_of_eq_None_iff option.simps(4))

lemma mget_int_spend:
  assumes "distinct (map fst need)" "mall in_i64 m"
  shows "mget_int (spend need m) k = i64 (mget_int m k - amount need k)"
  using assms
proof (induction need arbitrary: m)
  case Nil
  then show ?case by (simp add: spend_def i64_id mget_int_i64)
next
  case (Cons p need)
  obtain a n where p: "p = (a, n)" by fastforce
  have "mall in_i64 (spend_item p m)" using Cons.prems by (simp add: spend_item_def mall_put mall_del)
  with Cons have "mget_int (spend (p # need) m) k = i64 (mget_int (spend_item p m) k - amount need k)"
    by (simp add: spend_def)
  then show ?case using Cons.prems(1) p by (auto simp: mget_int_spend_item amount_Cons amount_notin)
qed

lemma mget_int_gain:
  assumes "distinct (map fst got)" "mall in_i64 m"
  shows "mget_int (gain got m) k = i64 (mget_int m k + amount got k)"
  using assms
proof (induction got arbitrary: m)
  case Nil
  then show ?case by (simp add: gain_def i64_id mget_int_i64)
next
  case (Cons p got)
  obtain a n where p: "p = (a, n)" by fastforce
  have "mall in_i64 (inv_add a n m)" using Cons.prems by (simp add: inv_add_i64)
  with Cons p have "mget_int (gain (p # got) m) k = i64 (mget_int (inv_add a n m) k + amount got k)"
    by (simp add: gain_def)
  then show ?case using Cons.prems(1) p by (auto simp: mget_int_add amount_Cons amount_notin)
qed

lemma recipes_distinct:
  "map_of recipes r = Some (need, got) \<Longrightarrow> distinct (map fst need) \<and> distinct (map fst got)"
  by (auto simp: recipes_def split: if_splits)

section \<open>The invariant\<close>

lemma client_ok_held [inv_intros]: "client_ok c \<Longrightarrow> client_ok (c\<lparr>c_heldItem := x\<rparr>)"
  by (simp add: client_ok_def)

lemma raw32_c32_20: "raw32 (c32 20) \<noteq> NaN"
proof -
  have "c32 20 = F32 (Fin 20)" by code_simp
  then show ?thesis by simp
qed

lemma server_inv_handleStateMsg [inv_intros]: "server_inv s \<Longrightarrow> server_inv (handleStateMsg E cid st s)"
  unfolding handleStateMsg_def by (rule server_inv_with) (auto intro!: inv_intros)

lemma server_inv_handlePingMsg [inv_intros]: "server_inv s \<Longrightarrow> server_inv (handlePingMsg E cid p s)"
  unfolding handlePingMsg_def by (rule server_inv_with) (auto intro!: inv_intros)

lemma server_inv_handleEatFruitMsg [inv_intros]: "server_inv s \<Longrightarrow> server_inv (handleEatFruitMsg cid s)"
  unfolding handleEatFruitMsg_def by (rule server_inv_with) (auto intro!: inv_intros simp: raw32_c32_20)

lemma server_inv_handleSelectItemMsg [inv_intros]: "server_inv s \<Longrightarrow> server_inv (handleSelectItemMsg cid p s)"
  unfolding handleSelectItemMsg_def by (rule server_inv_with) (auto intro!: inv_intros)

lemma server_inv_handleCraft [inv_intros]: "server_inv s \<Longrightarrow> server_inv (handleCraft cid r s)"
  unfolding handleCraft_def
  by (rule server_inv_with)
     (auto split: option.split intro!: inv_intros client_ok_inventory gain_i64 spend_i64 client_okD_inv)

lemma server_inv_handlePickup [inv_intros]: "server_inv s \<Longrightarrow> server_inv (handlePickup cid r s)"
  unfolding handlePickup_def
  by (rule server_inv_with) (auto split: option.split intro!: inv_intros intro: server_inv_stores)

section \<open>What the handlers do\<close>

text \<open>
  C10. Crafting is all or nothing. With every material of a known recipe in the inventory the
  materials are taken, the product is added, the new inventory is sent and nothing else in the
  server changes; otherwise the server is left exactly as it was. Counts are 64-bit integers.
\<close>

theorem handleCraft_correct:
  assumes "clients_inv s" and "mget (s_clients s) cid = Some c"
  shows "case map_of recipes r of
      None \<Rightarrow> handleCraft cid r s = s
    | Some (need, got) \<Rightarrow>
        if list_all (\<lambda>(k, n). n \<le> has k c) need then
          (\<exists>c'. handleCraft cid r s = put_client cid (sendInventory c') s \<and>
             (\<forall>k. has k c' = i64 (has k c - amount need k + amount got k)) \<and>
             c' = c\<lparr>c_inventory := c_inventory c'\<rparr>)
        else handleCraft cid r s = s"
proof (cases "map_of recipes r")
  case None
  then show ?thesis using assms by (simp add: handleCraft_def)
next
  case (Some ng)
  obtain need got where ng: "ng = (need, got)" by fastforce
  let ?c' = "c\<lparr>c_inventory := gain got (spend need (c_inventory c))\<rparr>"
  have d: "distinct (map fst need)" "distinct (map fst got)" using recipes_distinct Some ng by blast+
  have i: "mall in_i64 (c_inventory c)" using clients_invD [OF assms] client_okD_inv by blast
  have h: "has k ?c' = i64 (has k c - amount need k + amount got k)" for k
    using mget_int_gain [OF d(2) spend_i64 [OF i]] mget_int_spend [OF d(1) i]
    by (simp add: has_def i64_add_mod)
  show ?thesis using Some ng assms h
    by (auto simp: handleCraft_def enough_def has_def intro!: exI [of _ ?c'])
qed

theorem handleCraft_correct_witness:
  "\<exists>c'. handleCraft ''a'' ''spear'' (lone_server (player_with [(''stone'', 3), (''wood'', 1)])) =
     put_client ''a'' (sendInventory c') (lone_server (player_with [(''stone'', 3), (''wood'', 1)])) \<and>
     has ''spear'' c' = 1 \<and> has ''stone'' c' = 1 \<and> has ''wood'' c' = 0"
proof -
  let ?c = "player_with [(''stone'', 3), (''wood'', 1)]"
  have "clients_inv (lone_server ?c)"
    by (intro clients_inv_lone client_ok_player_with) (simp add: in_i64_def)
  from handleCraft_correct [OF this, of "''a''" ?c "''spear''"] show ?thesis
    by (auto simp: recipes_def has_def stock_def mget_int_put amount_def i64_small)
qed

definition can_pick :: "Client \<Rightarrow> Resource \<Rightarrow> bool" where
  "can_pick c r \<longleftrightarrow> res_Type r \<noteq> ''seed'' \<and> \<not> pickup_d2 < d2_64 (res_pos r) (ps_pos (State c))"

text \<open>
  A resource changes hands only when it exists, is not a planted seed and lies within five
  units of the player: then it leaves the world, exactly one item of its type enters the
  inventory and the player is told; otherwise nothing changes. Of two players who reach for the
  same resource the second finds nothing.
\<close>

theorem handlePickup_correct:
  assumes "clients_inv s" and "mget (s_clients s) cid = Some c"
  shows "(case mget (s_resources s) rid of
      None \<Rightarrow> handlePickup cid rid s = s
    | Some r \<Rightarrow>
        if can_pick c r then
          (\<exists>c'. handlePickup cid rid s = put_client cid c' (s\<lparr>s_resources := mdel rid (s_resources s)\<rparr>) \<and>
             c' = sendInventory (c\<lparr>c_inventory := c_inventory c'\<rparr>) \<and>
             (\<forall>k. has k c' = i64 (has k c + (if k = res_Type r then 1 else 0))))
        else handlePickup cid rid s = s) \<and>
    (handlePickup cid rid s \<noteq> s \<longrightarrow>
       handlePickup cid' rid (handlePickup cid rid s) = handlePickup cid rid s)"
proof -
  have i: "in_i64 (has k c)" for k
    using clients_invD [OF assms] by (simp add: has_def mget_int_i64 client_okD_inv)
  have gone: "handlePickup cid' rid s' = s'" if "mget (s_resources s') rid = None" for s'
    using that by (simp add: handlePickup_def with_client_def split: option.split)
  show ?thesis
  proof (cases "mget (s_resources s) rid")
    case None
    then show ?thesis using assms by (simp add: handlePickup_def)
  next
    case (Some r)
    let ?c' = "sendEnvelope (MsgInventory (fst (addItem (res_Type r) c))) (snd (addItem (res_Type r) c))"
    have "?c' = sendInventory (c\<lparr>c_inventory := c_inventory ?c'\<rparr>)"
      by (simp add: addItem_def sendInventory_def inventorySnapshot_def)
    moreover have "has k ?c' = i64 (has k c + (if k = res_Type r then 1 else 0))" for k
      using i [of k] by (simp add: has_def addItem_def mget_int_add i64_id)
    moreover have "handlePickup cid rid s =
        (if can_pick c r then put_client cid ?c' (s\<lparr>s_resources := mdel rid (s_resources s)\<rparr>) else s)"
      using assms Some by (simp add: handlePickup_def can_pick_def)
    ultimately show ?thesis using Some gone
      by (auto split: if_splits intro!: exI [of _ ?c'])
  qed
qed

definition stone_at_origin :: Resource where
  "stone_at_origin = \<lparr>res_ID = ''r'', res_Type = ''stone'', res_X = 0, res_Y = 0, res_Z = 0,
     res_Watered = False, res_GrowAt = 0\<rparr>"

theorem handlePickup_correct_witness:
  "\<exists>c'. handlePickup ''a'' ''r'' ((lone_server (player_with []))\<lparr>s_resources := mput ''r'' stone_at_origin mempty\<rparr>) =
     put_client ''a'' c' ((lone_server (player_with []))\<lparr>s_resources := mdel ''r'' (mput ''r'' stone_at_origin mempty)\<rparr>) \<and>
     has ''stone'' c' = 1"
proof -
  let ?c = "player_with []"
  let ?s = "(lone_server ?c)\<lparr>s_resources := mput ''r'' stone_at_origin mempty\<rparr>"
  have "clients_inv ?s" by (simp add: clients_inv_lone client_ok_player_with)
  moreover have "can_pick ?c stone_at_origin" by code_simp
  moreover have "has ''stone'' ?c = 0" by (simp add: has_def stock_def)
  moreover have "res_Type stone_at_origin = ''stone''" by (simp add: stone_at_origin_def)
  moreover have "i64 1 = 1" by (simp add: i64_small)
  ultimately show ?thesis using handlePickup_correct [of ?s "''a''" ?c "''r''" "''a''"]
    by (auto simp: lookup_update)
qed

text \<open>
  A state message sets the position, view and latency that the client reports and nothing
  else: identifier, nick and colour stay the server's, health, hunger, inventory and the
  message queue are untouched, and what other players see as health and colour is what the
  server keeps, whatever the message claims.
\<close>

theorem handleStateMsg_correct:
  assumes "mget (s_clients s) cid = Some c"
  shows "\<exists>c'. handleStateMsg E cid st s = put_client cid c' s \<and>
    c' = c\<lparr>c_state := c_state c'\<rparr> \<and>
    ps_ID (State c') = c_ID c \<and> ps_Nick (State c') = c_Nick c \<and>
    ps_HP (State c') = c_hp c \<and> ps_ColorHex (State c') = c_colorHex c \<and>
    ps_Yaw (State c') = ps_Yaw st \<and> ps_Pitch (State c') = ps_Pitch st \<and> ps_RTTms (State c') = ps_RTTms st \<and>
    ps_pos (State c') = lift_player (ClampToSurface E (ps_pos st))"
  using assms
  by (simp add: handleStateMsg_def setState_def state_of_msg_def State_def ps_pos_def vec_def)
     (intro exI [of _ "setState (state_of_msg st c (lift_player (ClampToSurface E (ps_pos st)))) c"],
      simp add: setState_def state_of_msg_def ps_pos_def vec_def)

theorem handleStateMsg_correct_witness:
  "\<exists>c'. handleStateMsg flat_env ''a'' ((zero_state ''evil'' ''root'')\<lparr>ps_HP := 9999\<rparr>) (lone_server (player_with [])) =
     put_client ''a'' c' (lone_server (player_with [])) \<and> ps_HP (State c') = 100 \<and> ps_ID (State c') = ''a''"
  using handleStateMsg_correct [of "lone_server (player_with [])" "''a''" "player_with []" flat_env
      "(zero_state ''evil'' ''root'')\<lparr>ps_HP := 9999\<rparr>"]
  by (auto simp: player_with_def new_client_def)

end
