(* ===== verification/Energy.thy ===== *)
theory Energy
  imports Handlers Structures
begin

text \<open>
  \<open>internal/server/net/energy.go\<close>: factories that craft with the energy of the nearest battery,
  and solar panels that charge the nearest battery every tick. \<open>tryCraftFactory\<close> holds the
  player's mutex throughout and is one atomic step.
\<close>

record factoryRecipe =
  fr_need :: req
  fr_energy :: int
  fr_out :: string
  fr_outQty :: int

definition factoryRecipes :: "(string \<times> factoryRecipe) list" where
  "factoryRecipes =
    [(''steel'', \<lparr>fr_need = [(''ore'', 5)], fr_energy = 10, fr_out = ''steel'', fr_outQty = 1\<rparr>),
     (''gear'', \<lparr>fr_need = [(''stone'', 2), (''wood'', 2)], fr_energy = 20, fr_out = ''gear'', fr_outQty = 1\<rparr>),
     (''circuit'', \<lparr>fr_need = [(''ore'', 3), (''liana'', 1)], fr_energy = 50, fr_out = ''circuit'', fr_outQty = 1\<rparr>),
     (''drone'', \<lparr>fr_need = [(''gear'', 1), (''circuit'', 1)], fr_energy = 100, fr_out = ''drone'', fr_outQty = 1\<rparr>),
     (''rocket'', \<lparr>fr_need = [(''circuit'', 3), (''steel'', 5), (''gear'', 2)], fr_energy = 500, fr_out = ''rocket'',
        fr_outQty = 1\<rparr>)]"

definition energyLinkRadiusD2 :: f32 where "energyLinkRadiusD2 = c32 100"

definition nearestBatteryLocked :: "env \<Rightarrow> string list \<Rightarrow> Vector3 \<Rightarrow> Server \<Rightarrow> (string \<times> Battery) option" where
  "nearestBatteryLocked E site pos s =
     fst (nearest (\<lambda>kb. d2_32 (bat_Pos (snd kb)) pos) energyLinkRadiusD2
       (range_entries (e_ord E) site (s_batteries s)))"

text \<open>\<open>handleOpenFactory\<close> only looks the factory up and logs.\<close>

definition handleOpenFactory :: "string \<Rightarrow> string \<Rightarrow> Server \<Rightarrow> Server" where
  "handleOpenFactory cid factoryID s = s"

definition lookupFactoryAndRecipe :: "string \<Rightarrow> string \<Rightarrow> Server \<Rightarrow> (Factory \<times> factoryRecipe) option" where
  "lookupFactoryAndRecipe factoryID recipeID s =
     (case mget (s_factories s) factoryID of
        None \<Rightarrow> None
      | Some f \<Rightarrow> (case map_of factoryRecipes recipeID of None \<Rightarrow> None | Some r \<Rightarrow> Some (f, r)))"

definition use_item :: "string \<times> int \<Rightarrow> int gomap \<Rightarrow> int gomap" where
  "use_item kn m =
     (if i64 (mget_int m (fst kn) - snd kn) \<le> 0 then mdel (fst kn) m
      else mput (fst kn) (i64 (mget_int m (fst kn) - snd kn)) m)"

definition drain :: "int \<Rightarrow> Battery \<Rightarrow> Battery" where
  "drain e b = b\<lparr>bat_Energy := i64 (bat_Energy b - e)\<rparr>"

definition craft_with :: "factoryRecipe \<Rightarrow> Client \<Rightarrow> Client" where
  "craft_with r c = c\<lparr>c_inventory := inv_add (fr_out r) (fr_outQty r) (fold use_item (fr_need r) (c_inventory c))\<rparr>"

definition tryCraftFactory :: "env \<Rightarrow> Client \<Rightarrow> Factory \<Rightarrow> factoryRecipe \<Rightarrow> Server \<Rightarrow> (Client \<times> Server) option" where
  "tryCraftFactory E c f r s =
     (if \<not> enough (fr_need r) (c_inventory c) then None
      else case nearestBatteryLocked E [''tryCraftFactory''] (fac_Pos f) s of
        None \<Rightarrow> None
      | Some (k, b) \<Rightarrow>
          if bat_Energy b < fr_energy r then None
          else Some (craft_with r c, s\<lparr>s_batteries := mput k (drain (fr_energy r) b) (s_batteries s)\<rparr>))"

definition handleCraftFactory :: "env \<Rightarrow> string \<Rightarrow> string \<Rightarrow> string \<Rightarrow> Server \<Rightarrow> Server" where
  "handleCraftFactory E cid factoryID recipeID s = with_client cid s (\<lambda>c.
     case lookupFactoryAndRecipe factoryID recipeID s of
       None \<Rightarrow> s
     | Some (f, r) \<Rightarrow>
         (case tryCraftFactory E c f r s of
            None \<Rightarrow> s
          | Some (c', s') \<Rightarrow> put_client cid (sendInventory c') s'))"

definition energyPerPanel :: "f32 \<Rightarrow> int" where
  "energyPerPanel dt = int_of_f32 (c32 5 * dt * c32 100)"

definition charge :: "int \<Rightarrow> Battery \<Rightarrow> Battery" where
  "charge epp b =
     (if bat_MaxEnergy b < i64 (bat_Energy b + epp sdiv 100) then b\<lparr>bat_Energy := bat_MaxEnergy b\<rparr>
      else b\<lparr>bat_Energy := i64 (bat_Energy b + epp sdiv 100)\<rparr>)"

definition charge_from :: "env \<Rightarrow> int \<Rightarrow> Solar \<Rightarrow> Server \<Rightarrow> Server" where
  "charge_from E epp p s =
     (case nearestBatteryLocked E [''tickEnergy'', sol_ID p] (sol_Pos p) s of
        None \<Rightarrow> s
      | Some (k, b) \<Rightarrow> s\<lparr>s_batteries := mput k (charge epp b) (s_batteries s)\<rparr>)"

definition tickEnergy :: "env \<Rightarrow> f32 \<Rightarrow> Server \<Rightarrow> Server" where
  "tickEnergy E dt s =
     fold (charge_from E (energyPerPanel dt)) (range_vals (e_ord E) [''tickEnergy''] (s_solar s)) s"

section \<open>The nearest battery\<close>

lemma nearestBattery_Some:
  assumes "nearestBatteryLocked E site pos s = Some (k, b)"
  shows "mget (s_batteries s) k = Some b \<and> d2_32 (bat_Pos b) pos < energyLinkRadiusD2 \<and>
    (\<forall>k' b'. mget (s_batteries s) k' = Some b' \<longrightarrow> \<not> d2_32 (bat_Pos b') pos < d2_32 (bat_Pos b) pos)"
proof -
  obtain d where "nearest (\<lambda>kb. d2_32 (bat_Pos (snd kb)) pos) energyLinkRadiusD2
      (range_entries (e_ord E) site (s_batteries s)) = (Some (k, b), d)"
    using assms unfolding nearestBatteryLocked_def by (metis prod.collapse)
  from nearest_Some [OF this] show ?thesis by (metis in_range_entries snd_conv)
qed

lemma nearestBattery_None:
  assumes "nearestBatteryLocked E site pos s = None" "mget (s_batteries s) k = Some b"
  shows "\<not> d2_32 (bat_Pos b) pos < energyLinkRadiusD2"
proof -
  obtain d where "nearest (\<lambda>kb. d2_32 (bat_Pos (snd kb)) pos) energyLinkRadiusD2
      (range_entries (e_ord E) site (s_batteries s)) = (None, d)"
    using assms(1) unfolding nearestBatteryLocked_def by (metis prod.collapse)
  from nearest_None [OF this] assms(2) show ?thesis by (metis in_range_entries snd_conv)
qed

section \<open>The invariant\<close>

lemma use_item_i64: "mall in_i64 m \<Longrightarrow> mall in_i64 (use_item kn m)"
  by (simp add: use_item_def mall_put mall_del)

lemma client_ok_craft_with: "client_ok c \<Longrightarrow> client_ok (craft_with r c)"
  unfolding craft_with_def
  by (intro client_ok_inventory inv_add_i64 fold_invariant_on [where P = "mall in_i64"])
     (auto intro: use_item_i64 client_okD_inv)

lemma batteries_inv_get:
  "server_inv s \<Longrightarrow> mget (s_batteries s) k = Some b \<Longrightarrow> battery_ok b \<and> bat_ID b = k"
  using server_inv_stores(6) [of s] by (auto simp: batteries_inv_def mall_def keyed_def)

lemma recipe_energy: "map_of factoryRecipes i = Some r \<Longrightarrow> 0 \<le> fr_energy r \<and> fr_energy r \<le> 500"
  by (auto simp: factoryRecipes_def split: if_splits)

lemma drain_ok:
  "battery_ok b \<Longrightarrow> 0 \<le> e \<Longrightarrow> e \<le> bat_Energy b \<Longrightarrow> battery_ok (drain e b) \<and> bat_Energy (drain e b) = bat_Energy b - e"
  by (simp add: battery_ok_def drain_def batteryMaxEnergy_def i64_small)

lemma server_inv_handleCraftFactory [inv_intros]:
  "server_inv s \<Longrightarrow> server_inv (handleCraftFactory E cid f i s)"
  unfolding handleCraftFactory_def
proof (rule server_inv_with)
  fix c assume s: "server_inv s" and c: "client_ok c" "c_ID c = cid"
  have "server_inv (put_client cid (sendInventory c') s')"
    if r: "map_of factoryRecipes i = Some r" and t: "tryCraftFactory E c fa r s = Some (c', s')" for fa r c' s'
  proof -
    obtain k b where kb: "nearestBatteryLocked E [''tryCraftFactory''] (fac_Pos fa) s = Some (k, b)"
      and e: "fr_energy r \<le> bat_Energy b" and c': "c' = craft_with r c"
      and s': "s' = s\<lparr>s_batteries := mput k (drain (fr_energy r) b) (s_batteries s)\<rparr>"
      using t by (auto simp: tryCraftFactory_def split: if_splits option.splits)
    have "battery_ok b" "bat_ID b = k" using nearestBattery_Some [OF kb] batteries_inv_get [OF s] by blast+
    then have "server_inv s'" unfolding s' using drain_ok [of b "fr_energy r"] recipe_energy [OF r] e s
      by (auto intro!: inv_intros batteries_inv_put intro: server_inv_stores simp: drain_def)
    then show ?thesis using c client_ok_craft_with [OF c(1)] unfolding c'
      by (intro inv_intros) (simp_all add: craft_with_def)
  qed
  then show "server_inv (case lookupFactoryAndRecipe f i s of None \<Rightarrow> s
      | Some (f, r) \<Rightarrow> (case tryCraftFactory E c f r s of None \<Rightarrow> s
          | Some (c', s') \<Rightarrow> put_client cid (sendInventory c') s'))"
    using s by (auto simp: lookupFactoryAndRecipe_def split: option.split)
qed simp

lemma server_inv_handleOpenFactory [inv_intros]: "server_inv s \<Longrightarrow> server_inv (handleOpenFactory cid f s)"
  by (simp add: handleOpenFactory_def)

lemma charge_ok:
  assumes "battery_ok b" "0 \<le> epp" "epp \<le> 1000000"
  shows "battery_ok (charge epp b) \<and> bat_ID (charge epp b) = bat_ID b \<and>
    bat_Energy (charge epp b) = min (bat_MaxEnergy b) (bat_Energy b + epp div 100)"
proof -
  have "epp sdiv 100 = epp div 100" using assms(2) by (cases "epp = 0") (auto simp: signed_divide_int_def)
  moreover have "0 \<le> epp div 100" "epp div 100 \<le> 1000000" using assms(2,3) by presburger+
  ultimately show ?thesis using assms(1)
    by (auto simp: battery_ok_def charge_def batteryMaxEnergy_def i64_small min_def)
qed


text \<open>The step of the simulation at tick rate \<open>n\<close>: \<open>float32(1.0) / float32(tickRate)\<close>.\<close>

definition tick_dt :: "int \<Rightarrow> f32" where
  "tick_dt n = c32 1 / f32_of_int n"

lemma c32_1: "c32 1 = F32 (Fin 1)"
  by code_simp

lemma rate_rng:
  assumes "1 \<le> lo" "lo \<le> n" "n \<le> 1000" "rv Binary32 (of_int lo) = of_int lo"
  shows "in32 (of_int lo) 1000 (f32_of_int n)"
proof -
  have "rv Binary32 1000 = 1000" by code_simp
  then show ?thesis using mk_in_rng [of "of_int lo" "of_int n" 1000 Binary32 False] assms
    by (simp add: f32_of_int_def c32_def)
qed

lemma tick_dt_upper:
  assumes "1 \<le> lo" "lo \<le> n" "n \<le> 1000" "rv Binary32 (of_int lo) = of_int lo"
    "rv Binary32 (1 / of_int lo) = q" "q \<le> 1"
  shows "in32 0 q (tick_dt n)"
proof -
  let ?d = "raw32 (f32_of_int n)"
  have d: "is_fin ?d" "of_int lo \<le> fval ?d" using rate_rng [OF assms(1-4)] by (auto simp: in_rng_def)
  have lo: "0 < (of_int lo :: rat)" using assms(1) by simp
  with d(2) have p: "0 < fval ?d" by linarith
  have eq: "raw32 (tick_dt n) = mk Binary32 (sign_bit (Fin 1) \<noteq> sign_bit ?d) (1 / fval ?d)"
    using d(1) p by (cases ?d) (auto simp: tick_dt_def raw32_ops(5) c32_1 fdiv_def Let_def)
  have "1 / fval ?d \<le> 1 / of_int lo" using d(2) lo by (intro divide_left_mono) auto
  moreover have "0 \<le> 1 / fval ?d" using p by simp
  ultimately show ?thesis
    unfolding eq using mk_in_rng [of 0 "1 / fval ?d" "1 / of_int lo" Binary32] assms(5,6) by simp
qed

lemma tick_dt_unit: "1 \<le> n \<Longrightarrow> n \<le> 1000 \<Longrightarrow> in32 0 1 (tick_dt n)"
  by (rule tick_dt_upper [of 1]) (simp_all add: rv32_values)

lemma f_to_int_rng: "in_rng 0 b x \<Longrightarrow> b < 2 ^ 63 \<Longrightarrow> 0 \<le> f_to_int x \<and> f_to_int x \<le> \<lfloor>b\<rfloor>"
proof (cases x)
  case (Fin r)
  assume "in_rng 0 b x" "b < 2 ^ 63"
  with Fin have r: "0 \<le> r" "r \<le> b" by (auto simp: in_rng_def)
  then have "\<lfloor>r\<rfloor> \<le> \<lfloor>b\<rfloor>" "0 \<le> \<lfloor>r\<rfloor>" by (auto intro: floor_mono)
  moreover have "\<lfloor>b\<rfloor> < 2 ^ 63" using \<open>b < 2 ^ 63\<close> by (simp add: floor_less_iff)
  ultimately show ?thesis using Fin r by (simp add: trunc_rat_def)
qed (auto simp: in_rng_def)

lemma energyPerPanel_rng:
  assumes "in32 0 q dt" "rv Binary32 (5 * q) = u" "rv Binary32 (u * 100) = v" "u \<le> 1000" "v \<le> 1000000"
  shows "0 \<le> energyPerPanel dt \<and> energyPerPanel dt \<le> \<lfloor>v\<rfloor>"
proof -
  have c: "in32 0 5 (c32 5)" "in32 0 100 (c32 100)" by code_simp+
  have "in32 0 u (c32 5 * dt)"
    using fmul_in_rng_nonneg [OF c(1) assms(1), of Binary32] assms(2,4) by (simp add: raw32_ops(4))
  then have "in32 0 v (c32 5 * dt * c32 100)"
    using fmul_in_rng_nonneg [OF _ c(2), of u "raw32 (c32 5 * dt)" Binary32] assms(3,5)
    by (simp add: raw32_ops(4))
  then show ?thesis unfolding energyPerPanel_def int_of_f32_def using assms(5) by (intro f_to_int_rng) auto
qed

lemma energyPerPanel_unit: "in32 0 1 dt \<Longrightarrow> 0 \<le> energyPerPanel dt \<and> energyPerPanel dt \<le> 500"
proof -
  have "rv Binary32 (5 * 1) = 5" "rv Binary32 (5 * 100) = 500" by code_simp+
  then show "in32 0 1 dt \<Longrightarrow> ?thesis" using energyPerPanel_rng [of 1 dt 5 500] by simp
qed

lemma energyPerPanel_fast:
  assumes "6 \<le> n" "n \<le> 1000"
  shows "0 \<le> energyPerPanel (tick_dt n) \<and> energyPerPanel (tick_dt n) < 100"
proof -
  have q: "rv Binary32 6 = 6" by code_simp
  let ?q = "rv Binary32 (1 / 6)" and ?v = "rv Binary32 (rv Binary32 (5 * rv Binary32 (1 / 6)) * 100)"
  have v: "?q \<le> 1" "rv Binary32 (5 * ?q) \<le> 1000" "?v < 84" by code_simp+
  have "in32 0 ?q (tick_dt n)" using tick_dt_upper [of 6 n ?q] assms q v(1) by simp
  from energyPerPanel_rng [OF this refl refl v(2)] v(3)
  have "0 \<le> energyPerPanel (tick_dt n)" "energyPerPanel (tick_dt n) \<le> \<lfloor>?v\<rfloor>" by auto
  moreover have "\<lfloor>?v\<rfloor> < 84" using v(3) by (simp add: floor_less_iff)
  ultimately show ?thesis by linarith
qed

lemma charge_from_spec:
  assumes "server_inv s" "0 \<le> epp" "epp \<le> 1000000"
  shows "server_inv (charge_from E epp p s) \<and>
    (\<forall>k. case mget (s_batteries s) k of
       None \<Rightarrow> mget (s_batteries (charge_from E epp p s)) k = None
     | Some b \<Rightarrow> mget (s_batteries (charge_from E epp p s)) k = Some b \<or>
         mget (s_batteries (charge_from E epp p s)) k = Some (charge epp b))"
proof (cases "nearestBatteryLocked E [''tickEnergy'', sol_ID p] (sol_Pos p) s")
  case None
  then show ?thesis using assms(1) by (simp add: charge_from_def split: option.split)
next
  case (Some kb)
  obtain k b where kb: "kb = (k, b)" by fastforce
  have m: "mget (s_batteries s) k = Some b" using nearestBattery_Some [OF Some [unfolded kb]] by simp
  then have b: "battery_ok b" "bat_ID b = k" using batteries_inv_get [OF assms(1)] by blast+
  have "server_inv (charge_from E epp p s)" using charge_ok [OF b(1) assms(2,3)] b(2) assms(1) Some kb
    by (auto simp: charge_from_def intro!: inv_intros batteries_inv_put intro: server_inv_stores)
  then show ?thesis using m Some kb by (auto simp: charge_from_def lookup_update split: option.split)
qed

definition charged :: "Battery store \<Rightarrow> Battery store \<Rightarrow> bool" where
  "charged m m' \<longleftrightarrow> (\<forall>k. case mget m k of
     None \<Rightarrow> mget m' k = None
   | Some b \<Rightarrow> \<exists>e. mget m' k = Some (b\<lparr>bat_Energy := e\<rparr>) \<and> bat_Energy b \<le> e \<and> e \<le> bat_MaxEnergy b)"

lemma charged_step:
  assumes "server_inv s" "charged m (s_batteries s)" "0 \<le> epp" "epp \<le> 1000000"
  shows "charged m (s_batteries (charge_from E epp p s))"
  unfolding charged_def
proof
  fix k
  let ?m' = "s_batteries (charge_from E epp p s)"
  note st = conjunct2 [OF charge_from_spec [OF assms(1,3,4), of E p], rule_format, of k]
  note ch = assms(2) [unfolded charged_def, rule_format, of k]
  show "case mget m k of None \<Rightarrow> mget ?m' k = None
      | Some b \<Rightarrow> \<exists>e. mget ?m' k = Some (b\<lparr>bat_Energy := e\<rparr>) \<and> bat_Energy b \<le> e \<and> e \<le> bat_MaxEnergy b"
  proof (cases "mget m k")
    case None
    then show ?thesis using st ch by simp
  next
    case (Some b)
    then obtain e where e: "mget (s_batteries s) k = Some (b\<lparr>bat_Energy := e\<rparr>)" "bat_Energy b \<le> e"
      "e \<le> bat_MaxEnergy b" using ch by auto
    let ?b = "b\<lparr>bat_Energy := e\<rparr>"
    have ok: "battery_ok ?b" using batteries_inv_get [OF assms(1) e(1)] by simp
    have "bat_Energy (charge epp ?b) = min (bat_MaxEnergy b) (e + epp div 100)" "0 \<le> epp div 100"
      using charge_ok [OF ok assms(3,4)] assms(3) by (simp_all add: pos_imp_zdiv_nonneg_iff)
    moreover have "charge epp ?b = b\<lparr>bat_Energy := bat_Energy (charge epp ?b)\<rparr>" by (simp add: charge_def)
    ultimately show ?thesis using st e Some by (auto intro: exI [of _ "bat_Energy (charge epp ?b)"])
  qed
qed

lemma tickEnergy_fold:
  assumes "server_inv s" "0 \<le> epp" "epp \<le> 1000000"
  shows "server_inv (fold (charge_from E epp) ps s) \<and> charged (s_batteries s) (s_batteries (fold (charge_from E epp) ps s))"
proof (rule fold_invariant_on [where P = "\<lambda>s'. server_inv s' \<and> charged (s_batteries s) (s_batteries s')"])
  have "bat_Energy b \<le> bat_MaxEnergy b" if "mget (s_batteries s) k = Some b" for k b
    using batteries_inv_get [OF assms(1) that] by (simp add: battery_ok_def)
  then have "charged (s_batteries s) (s_batteries s)"
    by (auto simp: charged_def split: option.split intro!: exI [of _ "bat_Energy b" for b])
  then show "server_inv s \<and> charged (s_batteries s) (s_batteries s)" using assms(1) by simp
qed (use assms charge_from_spec charged_step in blast)

lemma server_inv_tickEnergy [inv_intros]: "server_inv s \<Longrightarrow> in32 0 1 dt \<Longrightarrow> server_inv (tickEnergy E dt s)"
  unfolding tickEnergy_def using tickEnergy_fold [of s "energyPerPanel dt"] energyPerPanel_unit [of dt] by simp

section \<open>Correctness\<close>

lemma mget_int_use_item:
  "snd kn \<le> mget_int m (fst kn) \<Longrightarrow> 0 \<le> snd kn \<Longrightarrow> mall in_i64 m \<Longrightarrow>
   mget_int (use_item kn m) k = mget_int m k - (if k = fst kn then snd kn else 0)"
  using mget_int_i64 [of m "fst kn"]
  by (auto simp: use_item_def mget_int_put mget_int_del i64_small in_i64_def)

lemma mget_int_use:
  assumes "distinct (map fst need)" "mall in_i64 m" "list_all (\<lambda>kn. 0 \<le> snd kn \<and> snd kn \<le> mget_int m (fst kn)) need"
  shows "mget_int (fold use_item need m) k = mget_int m k - amount need k"
  using assms
proof (induction need arbitrary: m)
  case (Cons p need)
  obtain a n where p: "p = (a, n)" by fastforce
  have u: "mget_int (use_item (a, n) m) k = mget_int m k - (if k = a then n else 0)" for k
    using mget_int_use_item [of p m k] Cons.prems p by simp
  have "list_all (\<lambda>kn. 0 \<le> snd kn \<and> snd kn \<le> mget_int (use_item (a, n) m) (fst kn)) need"
    using Cons.prems p by (auto simp: list_all_iff u image_iff)
  from Cons.IH [OF _ use_item_i64 this] Cons.prems p
  show ?case by (auto simp: u amount_Cons amount_notin)
qed simp

lemma factoryRecipes_ok:
  "map_of factoryRecipes i = Some r \<Longrightarrow> distinct (map fst (fr_need r)) \<and> list_all (\<lambda>(k, n). 0 \<le> n) (fr_need r)"
  by (auto simp: factoryRecipes_def split: if_splits)

lemma has_craft_with:
  assumes "client_ok c" "map_of factoryRecipes i = Some r" "enough (fr_need r) (c_inventory c)"
  shows "has k (craft_with r c) =
    (if k = fr_out r then i64 (has k c - amount (fr_need r) k + fr_outQty r) else has k c - amount (fr_need r) k)"
proof -
  have "list_all (\<lambda>kn. 0 \<le> snd kn \<and> snd kn \<le> mget_int (c_inventory c) (fst kn)) (fr_need r)"
    using assms(3) factoryRecipes_ok [OF assms(2)] by (auto simp: enough_def list_all_iff)
  then have "mget_int (fold use_item (fr_need r) (c_inventory c)) k = has k c - amount (fr_need r) k" for k
    using mget_int_use factoryRecipes_ok [OF assms(2)] client_okD_inv [OF assms(1)] by (simp add: has_def)
  then show ?thesis by (simp add: has_def craft_with_def mget_int_add)
qed

text \<open>
  C11. Factory crafting is all or nothing across the two locks. Either nothing changes at all, or
  the factory and the recipe exist, every material was there and has been taken, one unit of the
  product was added, and the recipe's energy was taken from one battery, which lies within ten
  units of the factory, had enough, and is a nearest one; no other battery and no other player
  changed. Energy is never spent without a product.
\<close>

theorem handleCraftFactory_correct:
  assumes "server_inv s" and "mget (s_clients s) cid = Some c"
  shows "handleCraftFactory E cid f i s = s \<or>
    (\<exists>fa r k b c'. mget (s_factories s) f = Some fa \<and> map_of factoryRecipes i = Some r \<and>
       list_all (\<lambda>(x, n). n \<le> has x c) (fr_need r) \<and>
       mget (s_batteries s) k = Some b \<and> d2_32 (bat_Pos b) (fac_Pos fa) < energyLinkRadiusD2 \<and>
       (\<forall>k'. case mget (s_batteries s) k' of None \<Rightarrow> True
          | Some b' \<Rightarrow> \<not> d2_32 (bat_Pos b') (fac_Pos fa) < d2_32 (bat_Pos b) (fac_Pos fa)) \<and>
       0 \<le> bat_Energy b - fr_energy r \<and>
       handleCraftFactory E cid f i s = put_client cid (sendInventory c')
         (s\<lparr>s_batteries := mput k (b\<lparr>bat_Energy := bat_Energy b - fr_energy r\<rparr>) (s_batteries s)\<rparr>) \<and>
       c' = c\<lparr>c_inventory := c_inventory c'\<rparr> \<and>
       (\<forall>x. has x c' = (if x = fr_out r then i64 (has x c - amount (fr_need r) x + fr_outQty r)
                        else has x c - amount (fr_need r) x)))"
proof (cases "handleCraftFactory E cid f i s = s")
  case False
  have ok: "client_ok c" using clients_invD [OF server_invD(1) [OF assms(1)] assms(2)] by simp
  obtain fa r k b where f: "mget (s_factories s) f = Some fa" and r: "map_of factoryRecipes i = Some r"
    and n: "enough (fr_need r) (c_inventory c)"
    and kb: "nearestBatteryLocked E [''tryCraftFactory''] (fac_Pos fa) s = Some (k, b)"
    and e: "fr_energy r \<le> bat_Energy b"
    using False assms(2)
    by (auto simp: handleCraftFactory_def lookupFactoryAndRecipe_def tryCraftFactory_def
        split: option.splits if_splits)
  note nb = nearestBattery_Some [OF kb]
  have "battery_ok b" using batteries_inv_get [OF assms(1)] nb by blast
  then have d: "drain (fr_energy r) b = b\<lparr>bat_Energy := bat_Energy b - fr_energy r\<rparr>"
    using drain_ok [of b "fr_energy r"] recipe_energy [OF r] e by (simp add: drain_def)
  have h: "handleCraftFactory E cid f i s = put_client cid (sendInventory (craft_with r c))
      (s\<lparr>s_batteries := mput k (b\<lparr>bat_Energy := bat_Energy b - fr_energy r\<rparr>) (s_batteries s)\<rparr>)"
    using assms(2) f r n kb e d
    by (simp add: handleCraftFactory_def lookupFactoryAndRecipe_def tryCraftFactory_def)
  have "craft_with r c = c\<lparr>c_inventory := c_inventory (craft_with r c)\<rparr>" by (simp add: craft_with_def)
  with f r n e h nb has_craft_with [OF ok r n] show ?thesis
    by (intro disjI2 exI [of _ fa] exI [of _ r] exI [of _ k] exI [of _ b] exI [of _ "craft_with r c"])
       (simp add: enough_def has_def split: option.split)
qed simp

definition workshop :: "int \<Rightarrow> Server" where
  "workshop e = (lone_server (player_with [(''ore'', 6)]))\<lparr>
     s_factories := mput ''f'' \<lparr>fac_ID = ''f'', fac_Pos = zero_vec, fac_Yaw = 0, fac_Crafting = '''', fac_Progress = 0\<rparr> mempty,
     s_solar := mput ''p'' \<lparr>sol_ID = ''p'', sol_Pos = zero_vec, sol_Yaw = 0\<rparr> mempty,
     s_batteries := mput ''b'' \<lparr>bat_ID = ''b'', bat_Pos = zero_vec, bat_Yaw = 0, bat_Energy = e, bat_MaxEnergy = 1000\<rparr> mempty\<rparr>"

lemma server_inv_workshop: "0 \<le> e \<Longrightarrow> e \<le> 1000 \<Longrightarrow> server_inv (workshop e)"
  unfolding workshop_def
  by (intro inv_intros server_inv_lone client_ok_player_with factories_inv_put batteries_inv_put)
     (simp_all add: factory_ok_def battery_ok_def batteryMaxEnergy_def in_i64_def)

lemma workshop_client: "mget (s_clients (workshop e)) ''a'' = Some (player_with [(''ore'', 6)])"
  by (simp add: workshop_def)

theorem handleCraftFactory_correct_witness:
  "\<exists>k b c'. mget (s_batteries (workshop 15)) k = Some b \<and>
     handleCraftFactory flat_env ''a'' ''f'' ''steel'' (workshop 15) = put_client ''a'' (sendInventory c')
       ((workshop 15)\<lparr>s_batteries := mput k (b\<lparr>bat_Energy := bat_Energy b - 10\<rparr>) (s_batteries (workshop 15))\<rparr>) \<and>
     has ''steel'' c' = 1 \<and> has ''ore'' c' = 1"
proof -
  let ?s = "workshop 15"
  have "\<not> (case mget (s_clients (handleCraftFactory flat_env ''a'' ''f'' ''steel'' ?s)) ''a'' of
      None \<Rightarrow> True | Some c \<Rightarrow> has ''steel'' c = 0)" by code_simp
  moreover have "has ''steel'' (player_with [(''ore'', 6)]) = 0" "has ''ore'' (player_with [(''ore'', 6)]) = 6"
    by (simp_all add: has_def stock_def mget_int_put)
  ultimately have "handleCraftFactory flat_env ''a'' ''f'' ''steel'' ?s \<noteq> ?s"
    by (auto simp: workshop_client)
  with handleCraftFactory_correct [OF server_inv_workshop [of 15] workshop_client, of flat_env "''f''" "''steel''"]
  obtain r k b c' where r: "map_of factoryRecipes ''steel'' = Some r" and k: "mget (s_batteries ?s) k = Some b"
    and h: "handleCraftFactory flat_env ''a'' ''f'' ''steel'' ?s = put_client ''a'' (sendInventory c')
         (?s\<lparr>s_batteries := mput k (b\<lparr>bat_Energy := bat_Energy b - fr_energy r\<rparr>) (s_batteries ?s)\<rparr>)"
    and x: "\<And>x. has x c' = (if x = fr_out r
        then i64 (has x (player_with [(''ore'', 6)]) - amount (fr_need r) x + fr_outQty r)
        else has x (player_with [(''ore'', 6)]) - amount (fr_need r) x)"
    by auto
  have re: "r = \<lparr>fr_need = [(''ore'', 5)], fr_energy = 10, fr_out = ''steel'', fr_outQty = 1\<rparr>"
    using r by (simp add: factoryRecipes_def)
  have "has ''steel'' c' = 1" "has ''ore'' c' = 1"
    using \<open>has ''steel'' _ = 0\<close> \<open>has ''ore'' _ = 6\<close> by (simp_all add: x re amount_def i64_small)
  with k h re show ?thesis by auto
qed

text \<open>
  Charging, with any step between 0 and 1 second and in any order of panels and batteries,
  changes only the energy of batteries, never lowers it and never fills one over its maximum.
\<close>

theorem tickEnergy_correct:
  assumes "server_inv s" and "in32 0 1 dt"
  shows "server_inv (tickEnergy E dt s) \<and> charged (s_batteries s) (s_batteries (tickEnergy E dt s))"
  using tickEnergy_fold [of s "energyPerPanel dt"] energyPerPanel_unit [OF assms(2)] assms(1)
  by (simp add: tickEnergy_def)

theorem tickEnergy_correct_witness:
  "charged (s_batteries (workshop 15)) (s_batteries (tickEnergy flat_env (c32 (1 / 2)) (workshop 15)))"
proof -
  have "in32 0 1 (c32 (1 / 2))" by code_simp
  with tickEnergy_correct [OF server_inv_workshop [of 15]] show ?thesis by simp
qed

text \<open>
  At every tick rate from 6 on, the default 20 among them, the solar panels charge nothing: the
  gain of a tick in hundredths is below 100 and the division that follows makes it 0, so no
  battery ever leaves the level it has.
\<close>

theorem tickEnergy_stalls:
  assumes "server_inv s" and "6 \<le> s_tickRate s"
  shows "mget (s_batteries (tickEnergy E (tick_dt (s_tickRate s)) s)) k = mget (s_batteries s) k"
proof -
  let ?e = "energyPerPanel (tick_dt (s_tickRate s))"
  have e: "0 \<le> ?e" "?e < 100" using energyPerPanel_fast [OF assms(2)] server_invD(4) [OF assms(1)] by auto
  have c: "charge ?e b = b" if "battery_ok b" for b
  proof -
    have "?e div 100 = 0" using e by simp
    then have "bat_Energy (charge ?e b) = bat_Energy b"
      using charge_ok [OF that e(1)] e(2) that by (simp add: battery_ok_def min_def)
    then show ?thesis by (auto simp: charge_def)
  qed
  have "server_inv s' \<and> mget (s_batteries s') k = mget (s_batteries s) k"
    if "s' = tickEnergy E (tick_dt (s_tickRate s)) s" for s'
    unfolding that tickEnergy_def
  proof (rule fold_invariant_on [where P = "\<lambda>s'. server_inv s' \<and> mget (s_batteries s') k = mget (s_batteries s) k"])
    fix p s' assume "server_inv s' \<and> mget (s_batteries s') k = mget (s_batteries s) k"
    then show "server_inv (charge_from E ?e p s') \<and> mget (s_batteries (charge_from E ?e p s')) k = mget (s_batteries s) k"
      using charge_from_spec [of s' ?e E p] e c batteries_inv_get [of s' k]
      by (auto dest!: spec [of _ k] split: option.splits)
  qed (use assms(1) in simp)
  then show ?thesis by simp
qed

theorem tickEnergy_stalls_witness:
  "mget (s_batteries (tickEnergy flat_env (tick_dt 20) (workshop 15))) ''b'' =
   Some \<lparr>bat_ID = ''b'', bat_Pos = zero_vec, bat_Yaw = 0, bat_Energy = 15, bat_MaxEnergy = 1000\<rparr>"
  using tickEnergy_stalls [OF server_inv_workshop [of 15], of flat_env "''b''"]
  by (simp add: workshop_def lone_server_def lookup_update)

end
