(* ===== verification/Snapshot.thy ===== *)
theory Snapshot
  imports Rockets Energy
begin

text \<open>
  \<open>internal/server/net/snapshot.go\<close>, \<open>snapshot_collect.go\<close> and \<open>broadcast\<close> of \<open>server_util.go\<close>:
  what a snapshot shows of the world, and its way into the queues of the players. Every
  \<open>collectX\<close> lists the values of one store in the order of the run-time system and shows some
  fields of each. The contract of such a view is the locale \<open>view\<close>.
\<close>

lemma length_range_vals: "length (range_vals ord site m) = mlen m"
proof -
  have "length (range_vals ord site m) = length (range_keys ord site m)"
    by (simp add: range_vals_def flip: map_fst_range_entries [of ord site])
  also have "\<dots> = mlen m"
    using distinct_card [OF distinct_range_keys [of ord site m]] by (simp add: mlen_card)
  finally show ?thesis .
qed

section \<open>Views\<close>

definition collect :: "env \<Rightarrow> string \<Rightarrow> ('v \<Rightarrow> 'w) \<Rightarrow> 'v gomap \<Rightarrow> 'w list" where
  "collect E site f m = map f (range_vals (e_ord E) [site] m)"

lemma in_collect: "w \<in> set (collect E site f m) \<longleftrightarrow> (\<exists>k v. mget m k = Some v \<and> w = f v)"
proof
  assume "\<exists>k v. mget m k = Some v \<and> w = f v"
  then obtain k v where "mget m k = Some v" "w = f v" by blast
  then have "v \<in> set (range_vals (e_ord E) [site] m)" unfolding in_range_vals by blast
  then show "w \<in> set (collect E site f m)" by (simp add: collect_def \<open>w = f v\<close>)
next
  assume "w \<in> set (collect E site f m)"
  then obtain v where "v \<in> set (range_vals (e_ord E) [site] m)" "w = f v" by (auto simp: collect_def)
  then show "\<exists>k v. mget m k = Some v \<and> w = f v" unfolding in_range_vals by blast
qed

locale view =
  fixes key :: "'v \<Rightarrow> string" and ident :: "'w \<Rightarrow> string" and show_entity :: "'v \<Rightarrow> 'w"
  assumes ident_show: "ident (show_entity v) = key v"
begin

text \<open>Every entity is shown exactly once, under its identifier, and nothing else is shown.\<close>

lemma collect_ids: "keyed key m \<Longrightarrow> map ident (collect E site show_entity m) = range_keys (e_ord E) [site] m"
proof -
  assume k: "keyed key m"
  have "ident (show_entity v) = a" if "(a, v) \<in> set (range_entries (e_ord E) [site] m)" for a v
    using that by (simp add: ident_show keyedD [OF k])
  then have "map (\<lambda>e. ident (show_entity (snd e))) (range_entries (e_ord E) [site] m) =
      map fst (range_entries (e_ord E) [site] m)"
    by (intro map_cong refl) (metis prod.collapse)
  then show ?thesis
    by (simp add: collect_def range_vals_def comp_def map_fst_range_entries)
qed

lemma collect_distinct: "keyed key m \<Longrightarrow> distinct (map ident (collect E site show_entity m))"
  by (simp add: collect_ids)

lemma collect_iff:
  assumes "keyed key m"
  shows "w \<in> set (collect E site show_entity m) \<longleftrightarrow> (\<exists>v. mget m (ident w) = Some v \<and> w = show_entity v)"
  unfolding in_collect using keyedD [OF assms] by (auto simp: ident_show)

end

section \<open>\<open>snapshot_collect.go\<close>\<close>

definition show_player :: "Client \<Rightarrow> PlayerState" where
  "show_player c = (State c)\<lparr>ps_Hunger := Hunger c\<rparr>"

definition collectPlayers :: "env \<Rightarrow> Server \<Rightarrow> PlayerState list" where
  "collectPlayers E s = collect E ''collectPlayers'' show_player (s_clients s)"

definition collectResources :: "env \<Rightarrow> Server \<Rightarrow> Resource list" where
  "collectResources E s = collect E ''collectResources'' (\<lambda>r. r) (s_resources s)"

definition collectWells :: "env \<Rightarrow> Server \<Rightarrow> Well list" where
  "collectWells E s = collect E ''collectWells'' (\<lambda>w. w) (s_wells s)"

definition show_projectile :: "Projectile \<Rightarrow> MobProjectile" where
  "show_projectile p = \<lparr>pproj_ID = proj_ID p,
     pproj_X = v_X (proj_Pos p), pproj_Y = v_Y (proj_Pos p), pproj_Z = v_Z (proj_Pos p),
     pproj_DX = v_X (proj_Dir p), pproj_DY = v_Y (proj_Dir p), pproj_DZ = v_Z (proj_Dir p)\<rparr>"

definition collectProjectiles :: "env \<Rightarrow> Server \<Rightarrow> MobProjectile list" where
  "collectProjectiles E s = collect E ''collectProjectiles'' show_projectile (s_projectiles s)"

definition show_mob :: "Mob \<Rightarrow> PMob" where
  "show_mob m = \<lparr>pmob_ID = mob_ID m,
     pmob_X = v_X (mob_Pos m), pmob_Y = v_Y (mob_Pos m), pmob_Z = v_Z (mob_Pos m),
     pmob_HP = mob_HP m, pmob_Kind = mob_Kind m, pmob_Contract = mob_Contract m, pmob_OwnerID = mob_OwnerID m\<rparr>"

definition collectMobs :: "env \<Rightarrow> Server \<Rightarrow> PMob list" where
  "collectMobs E s = collect E ''collectMobs'' show_mob (s_mobs s)"

definition show_boat :: "Boat \<Rightarrow> PBoat" where
  "show_boat b = \<lparr>pboat_ID = b_ID b, pboat_X = v_X (b_Pos b), pboat_Y = v_Y (b_Pos b), pboat_Z = v_Z (b_Pos b),
     pboat_Yaw = b_Yaw b, pboat_RiderID = b_RiderID b\<rparr>"

definition collectBoats :: "env \<Rightarrow> Server \<Rightarrow> PBoat list" where
  "collectBoats E s = collect E ''collectBoats'' show_boat (s_boats s)"

definition show_house :: "House \<Rightarrow> PHouse" where
  "show_house h = \<lparr>phouse_ID = h_ID h, phouse_X = v_X (h_Pos h), phouse_Y = v_Y (h_Pos h), phouse_Z = v_Z (h_Pos h),
     phouse_Yaw = h_Yaw h, phouse_DoorOpen = h_DoorOpen h\<rparr>"

definition collectHouses :: "env \<Rightarrow> Server \<Rightarrow> PHouse list" where
  "collectHouses E s = collect E ''collectHouses'' show_house (s_houses s)"

definition show_solar :: "Solar \<Rightarrow> PSolar" where
  "show_solar p = \<lparr>psolar_ID = sol_ID p, psolar_X = v_X (sol_Pos p), psolar_Y = v_Y (sol_Pos p),
     psolar_Z = v_Z (sol_Pos p), psolar_Yaw = sol_Yaw p\<rparr>"

definition collectSolar :: "env \<Rightarrow> Server \<Rightarrow> PSolar list" where
  "collectSolar E s = collect E ''collectSolar'' show_solar (s_solar s)"

definition show_battery :: "Battery \<Rightarrow> PBattery" where
  "show_battery b = \<lparr>pbat_ID = bat_ID b, pbat_X = v_X (bat_Pos b), pbat_Y = v_Y (bat_Pos b), pbat_Z = v_Z (bat_Pos b),
     pbat_Yaw = bat_Yaw b, pbat_Energy = bat_Energy b, pbat_MaxEnergy = bat_MaxEnergy b\<rparr>"

definition collectBatteries :: "env \<Rightarrow> Server \<Rightarrow> PBattery list" where
  "collectBatteries E s = collect E ''collectBatteries'' show_battery (s_batteries s)"

definition show_factory :: "Factory \<Rightarrow> PFactory" where
  "show_factory f = \<lparr>pfac_ID = fac_ID f, pfac_X = v_X (fac_Pos f), pfac_Y = v_Y (fac_Pos f), pfac_Z = v_Z (fac_Pos f),
     pfac_Yaw = fac_Yaw f, pfac_Crafting = fac_Crafting f, pfac_Progress = fac_Progress f\<rparr>"

definition collectFactories :: "env \<Rightarrow> Server \<Rightarrow> PFactory list" where
  "collectFactories E s = collect E ''collectFactories'' show_factory (s_factories s)"

definition show_rocket :: "Rocket \<Rightarrow> PRocket" where
  "show_rocket r = \<lparr>prock_ID = rk_ID r, prock_X = v_X (rk_Pos r), prock_Y = v_Y (rk_Pos r), prock_Z = v_Z (rk_Pos r),
     prock_DX = v_X (rk_Up r), prock_DY = v_Y (rk_Up r), prock_DZ = v_Z (rk_Up r),
     prock_Fuel = rk_Fuel r, prock_MaxFuel = rk_MaxFuel r, prock_Piloted = rk_Piloted r, prock_OwnerID = rk_OwnerID r,
     prock_InOrbit = rk_InOrbit r, prock_Apoapsis = rk_Apoapsis r, prock_Periapsis = rk_Periapsis r,
     prock_Speed = rk_Speed r, prock_Altitude = rk_Altitude r, prock_TargetVelocity = rk_TargetVelocity r,
     prock_VX = v_X (rk_Vel r), prock_VY = v_Y (rk_Vel r), prock_VZ = v_Z (rk_Vel r),
     prock_PrimaryBody = rk_PrimaryBody r, prock_DistSun = rk_DistSun r, prock_SOIRadius = rk_SOIRadius r\<rparr>"

definition collectRockets :: "env \<Rightarrow> Server \<Rightarrow> PRocket list" where
  "collectRockets E s = collect E ''collectRockets'' show_rocket (s_rockets s)"

definition show_mammoth :: "Mammoth \<Rightarrow> PMammoth" where
  "show_mammoth m = \<lparr>pmam_ID = mam_ID m, pmam_X = v_X (mam_Pos m), pmam_Y = v_Y (mam_Pos m), pmam_Z = v_Z (mam_Pos m),
     pmam_HP = mam_HP m, pmam_Tamed = mam_Tamed m, pmam_Sex = mam_Sex m, pmam_FedCount = mam_FedCount m,
     pmam_Baby = mam_Baby m, pmam_LeashedTo = mam_LeashedTo m, pmam_Saddle = mam_Saddle m, pmam_RiderID = mam_RiderID m\<rparr>"

definition collectMammoths :: "env \<Rightarrow> Server \<Rightarrow> PMammoth list" where
  "collectMammoths E s = collect E ''collectMammoths'' show_mammoth (s_mammoths s)"

interpretation rocket: view rk_ID prock_ID show_rocket by unfold_locales (simp add: show_rocket_def)
interpretation mammoth: view mam_ID pmam_ID show_mammoth by unfold_locales (simp add: show_mammoth_def)
interpretation mob: view mob_ID pmob_ID show_mob by unfold_locales (simp add: show_mob_def)
interpretation boat: view b_ID pboat_ID show_boat by unfold_locales (simp add: show_boat_def)
interpretation house_v: view h_ID phouse_ID show_house by unfold_locales (simp add: show_house_def)
interpretation solar_v: view sol_ID psolar_ID show_solar by unfold_locales (simp add: show_solar_def)
interpretation battery_v: view bat_ID pbat_ID show_battery by unfold_locales (simp add: show_battery_def)
interpretation factory_v: view fac_ID pfac_ID show_factory by unfold_locales (simp add: show_factory_def)
interpretation projectile: view proj_ID pproj_ID show_projectile by unfold_locales (simp add: show_projectile_def)
interpretation resource: view res_ID res_ID "\<lambda>r. r" by unfold_locales simp
interpretation well: view well_ID well_ID "\<lambda>w. w" by unfold_locales simp

section \<open>\<open>snapshot.go\<close>\<close>

definition collectSnapshot :: "env \<Rightarrow> Server \<Rightarrow> Snapshot" where
  "collectSnapshot E s = \<lparr>
     snap_Tick = s_tick s, snap_Players = collectPlayers E s, snap_Resources = collectResources E s,
     snap_Mammoths = collectMammoths E s, snap_Wells = collectWells E s, snap_Houses = collectHouses E s,
     snap_Boats = collectBoats E s, snap_Mobs = collectMobs E s, snap_Projectiles = collectProjectiles E s,
     snap_Solar = collectSolar E s, snap_Batteries = collectBatteries E s, snap_Factories = collectFactories E s,
     snap_Rockets = collectRockets E s, snap_EarthPos = w_EarthPos (s_world s), snap_EarthVel = w_EarthVel (s_world s),
     snap_Planet2Pos = w_Planet2Pos (s_world s), snap_Planet2Vel = w_Planet2Vel (s_world s)\<rparr>"

text \<open>
  \<open>broadcast\<close>: nothing is sent when the message cannot be marshalled; else it is enqueued for
  every client. A player's queue is its own, so the order of the clients does not matter.
\<close>

definition broadcast :: "srv_msg \<Rightarrow> Server \<Rightarrow> Server" where
  "broadcast m s = (if marshal_ok m then s\<lparr>s_clients := mmap (enqueue m) (s_clients s)\<rparr> else s)"

definition broadcastSnapshot :: "env \<Rightarrow> Server \<Rightarrow> Server" where
  "broadcastSnapshot E s = broadcast (MsgSnapshot (collectSnapshot E s)) s"

section \<open>Facts\<close>

lemma c_ID_enqueue [simp]: "c_ID (enqueue m c) = c_ID c"
  by (simp add: enqueue_def)

lemma server_inv_broadcast [inv_intros]: "server_inv s \<Longrightarrow> server_inv (broadcast m s)"
  unfolding broadcast_def server_inv_def clients_inv_def
  by (auto intro!: keyed_mmap mall_mmap [where P = client_ok] client_ok_enqueue)

lemma server_inv_broadcastSnapshot [inv_intros]: "server_inv s \<Longrightarrow> server_inv (broadcastSnapshot E s)"
  unfolding broadcastSnapshot_def by (intro inv_intros)

text \<open>
  C9. A snapshot shows the world as it is: under each identifier it shows a rocket, mammoth, mob,
  boat, house, panel, battery, factory, projectile, resource or well exactly when the store
  has one, with the fields of that entity, and no identifier twice; it shows one state for
  each connected player, with the server's health, colour and hunger.
\<close>

theorem collectSnapshot_correct:
  assumes "server_inv s"
  shows "let sn = collectSnapshot E s in
    (\<forall>w. w \<in> set (snap_Rockets sn) \<longleftrightarrow> (\<exists>v. mget (s_rockets s) (prock_ID w) = Some v \<and> w = show_rocket v)) \<and>
    (\<forall>w. w \<in> set (snap_Mammoths sn) \<longleftrightarrow> (\<exists>v. mget (s_mammoths s) (pmam_ID w) = Some v \<and> w = show_mammoth v)) \<and>
    (\<forall>w. w \<in> set (snap_Mobs sn) \<longleftrightarrow> (\<exists>v. mget (s_mobs s) (pmob_ID w) = Some v \<and> w = show_mob v)) \<and>
    (\<forall>w. w \<in> set (snap_Boats sn) \<longleftrightarrow> (\<exists>v. mget (s_boats s) (pboat_ID w) = Some v \<and> w = show_boat v)) \<and>
    (\<forall>w. w \<in> set (snap_Houses sn) \<longleftrightarrow> (\<exists>v. mget (s_houses s) (phouse_ID w) = Some v \<and> w = show_house v)) \<and>
    (\<forall>w. w \<in> set (snap_Solar sn) \<longleftrightarrow> (\<exists>v. mget (s_solar s) (psolar_ID w) = Some v \<and> w = show_solar v)) \<and>
    (\<forall>w. w \<in> set (snap_Batteries sn) \<longleftrightarrow> (\<exists>v. mget (s_batteries s) (pbat_ID w) = Some v \<and> w = show_battery v)) \<and>
    (\<forall>w. w \<in> set (snap_Factories sn) \<longleftrightarrow> (\<exists>v. mget (s_factories s) (pfac_ID w) = Some v \<and> w = show_factory v)) \<and>
    (\<forall>w. w \<in> set (snap_Projectiles sn) \<longleftrightarrow> (\<exists>v. mget (s_projectiles s) (pproj_ID w) = Some v \<and> w = show_projectile v)) \<and>
    (\<forall>w. w \<in> set (snap_Resources sn) \<longleftrightarrow> mget (s_resources s) (res_ID w) = Some w) \<and>
    (\<forall>w. w \<in> set (snap_Wells sn) \<longleftrightarrow> mget (s_wells s) (well_ID w) = Some w) \<and>
    distinct (map prock_ID (snap_Rockets sn)) \<and> distinct (map pmam_ID (snap_Mammoths sn)) \<and>
    distinct (map pmob_ID (snap_Mobs sn)) \<and> distinct (map pboat_ID (snap_Boats sn)) \<and>
    distinct (map phouse_ID (snap_Houses sn)) \<and> distinct (map psolar_ID (snap_Solar sn)) \<and>
    distinct (map pbat_ID (snap_Batteries sn)) \<and> distinct (map pfac_ID (snap_Factories sn)) \<and>
    distinct (map pproj_ID (snap_Projectiles sn)) \<and> distinct (map res_ID (snap_Resources sn)) \<and>
    distinct (map well_ID (snap_Wells sn)) \<and>
    length (snap_Players sn) = mlen (s_clients s) \<and>
    set (snap_Players sn) = {(c_state c)\<lparr>ps_HP := c_hp c, ps_ColorHex := c_colorHex c, ps_Hunger := c_hunger c\<rparr> | c.
      \<exists>k. mget (s_clients s) k = Some c}"
proof -
  note k = server_inv_stores [OF assms]
  have keys: "keyed rk_ID (s_rockets s)" "keyed mam_ID (s_mammoths s)" "keyed mob_ID (s_mobs s)"
    "keyed b_ID (s_boats s)" "keyed bat_ID (s_batteries s)" "keyed fac_ID (s_factories s)"
    "keyed proj_ID (s_projectiles s)"
    using k by (simp_all add: rockets_inv_def mammoths_inv_def mobs_inv_def boats_inv_def batteries_inv_def
        factories_inv_def projectiles_inv_def)
  note iffs = rocket.collect_iff [OF keys(1)] mammoth.collect_iff [OF keys(2)] mob.collect_iff [OF keys(3)]
    boat.collect_iff [OF keys(4)] house_v.collect_iff [OF k(4)] solar_v.collect_iff [OF k(5)]
    battery_v.collect_iff [OF keys(5)] factory_v.collect_iff [OF keys(6)] projectile.collect_iff [OF keys(7)]
    resource.collect_iff [OF k(1)] well.collect_iff [OF k(3)]
  note ids = rocket.collect_distinct [OF keys(1)] mammoth.collect_distinct [OF keys(2)]
    mob.collect_distinct [OF keys(3)] boat.collect_distinct [OF keys(4)] house_v.collect_distinct [OF k(4)]
    solar_v.collect_distinct [OF k(5)] battery_v.collect_distinct [OF keys(5)]
    factory_v.collect_distinct [OF keys(6)] projectile.collect_distinct [OF keys(7)]
    resource.collect_distinct [OF k(1)] well.collect_distinct [OF k(3)]
  have len: "length (collectPlayers E s) = mlen (s_clients s)"
    by (simp add: collectPlayers_def collect_def length_range_vals)
  have pl: "set (collectPlayers E s) = {(c_state c)\<lparr>ps_HP := c_hp c, ps_ColorHex := c_colorHex c, ps_Hunger := c_hunger c\<rparr> | c.
      \<exists>k. mget (s_clients s) k = Some c}"
    by (rule set_eqI) (auto simp: collectPlayers_def in_collect show_player_def State_def Hunger_def)
  show ?thesis
    unfolding Let_def collectSnapshot_def Snapshot.simps
      collectRockets_def collectMammoths_def collectMobs_def collectBoats_def collectHouses_def collectSolar_def
      collectBatteries_def collectFactories_def collectProjectiles_def collectResources_def collectWells_def
    by (intro conjI allI ids len pl) (simp_all add: iffs)
qed

theorem collectSnapshot_correct_witness:
  "snap_Houses (collectSnapshot flat_env (lone_server (new_client ''a''))) = [] \<and>
   length (snap_Players (collectSnapshot flat_env (lone_server (new_client ''a'')))) = 1"
proof -
  have "server_inv (lone_server (new_client ''a''))" by (intro server_inv_lone client_ok_new) simp
  from collectSnapshot_correct [OF this, of flat_env]
  have h: "\<forall>w. w \<notin> set (snap_Houses (collectSnapshot flat_env (lone_server (new_client ''a''))))"
    and "length (snap_Players (collectSnapshot flat_env (lone_server (new_client ''a'')))) =
        mlen (s_clients (lone_server (new_client ''a'')))"
    by (simp_all add: Let_def lone_server_def newStore_def)
  moreover have "mlen (s_clients (lone_server (new_client ''a''))) = 1" by code_simp
  ultimately show ?thesis by (auto simp: last_in_set)
qed

text \<open>
  A snapshot is sent to all or to none. If every number in it is finite, each player whose
  queue has room gets exactly this snapshot at the end of the queue and a player with a full
  queue misses it; one infinite or undefined number anywhere (one rocket, one mammoth) makes
  the marshalling fail and no player gets anything. Nothing else of the server changes.
\<close>

theorem broadcastSnapshot_correct:
  "(if finite_snapshot (collectSnapshot E s)
    then \<forall>k. mget (s_clients (broadcastSnapshot E s)) k =
      (case mget (s_clients s) k of None \<Rightarrow> None
       | Some c \<Rightarrow> Some (if length (c_send c) < 256
                        then c\<lparr>c_send := c_send c @ [MsgSnapshot (collectSnapshot E s)]\<rparr> else c))
    else s_clients (broadcastSnapshot E s) = s_clients s) \<and>
   broadcastSnapshot E s = s\<lparr>s_clients := s_clients (broadcastSnapshot E s)\<rparr>"
  by (simp add: broadcastSnapshot_def broadcast_def enqueue_def sendBufSize_def split: option.split)

section \<open>Undefined numbers\<close>

abbreviation nan32 :: "f32 \<Rightarrow> bool" where "nan32 a \<equiv> raw32 a = NaN"

lemma nan32_ops [simp]:
  "nan32 a \<Longrightarrow> nan32 (a + b)" "nan32 b \<Longrightarrow> nan32 (a + b)" "nan32 a \<Longrightarrow> nan32 (a - b)" "nan32 b \<Longrightarrow> nan32 (a - b)"
  "nan32 a \<Longrightarrow> nan32 (a * b)" "nan32 b \<Longrightarrow> nan32 (a * b)" "nan32 a \<Longrightarrow> nan32 (a / b)"
  by (simp_all add: raw32_ops fadd_def fmul_def fdiv_def)

lemma nan_velocity:
  assumes "nan32 (v_X (rk_Vel r))"
  shows "nan32 (v_X (rk_Vel (applyAtmosphericDrag E ev d dt r)))" "nan32 (v_X (rk_Vel (applySpeedLimit ev b r)))"
  using assms
  by (simp_all add: applyAtmosphericDrag_def drag_in_def drag_at_def drag_to_def applySpeedLimit_def limit_speed_def
      limit_by_def vadd_def vsub_def vscale_def)

lemma nan_position:
  assumes "nan32 (v_X (rk_Pos r))"
  shows "nan32 (v_X (rk_Pos (collideWithEarth E ep ev r)))" "nan32 (v_X (rk_Pos (collideWithSun r)))"
    "nan32 (v_X (rk_Pos (updateRocketFrame ep b d r)))" "nan32 (v_X (rk_Pos (updateOrbitalParams ep b r)))"
    "nan32 (v_X (rk_Pos (logRocketTick E r)))"
  using assms
  by (simp_all add: collideWithEarth_def land_on_earth_def collideWithSun_def sun_contact_def land_on_sun_def
      updateRocketFrame_def updateOrbitalParams_def set_orbit_def logRocketTick_def vadd_def vsub_def vscale_def)

lemma nan_flight: "nan32 (v_X (rk_Vel r)) \<Longrightarrow> nan32 (v_X (rk_Pos (after_thrust E ep ev de ds dt b r)))"
  unfolding after_thrust_def Let_def
  by (intro nan_position) (simp add: nan_velocity nan_position drift_def vadd_def vscale_def)

lemma nan_snapshot: "mget (s_rockets s) k = Some r \<Longrightarrow> nan32 (v_X (rk_Pos r)) \<Longrightarrow> \<not> finite_snapshot (collectSnapshot E s)"
proof -
  assume "mget (s_rockets s) k = Some r" "nan32 (v_X (rk_Pos r))"
  then have "show_rocket r \<in> set (collectRockets E s)" "\<not> finite_rocket (show_rocket r)"
    by (auto simp: collectRockets_def in_collect finite_rocket_def show_rocket_def)
  then show ?thesis by (auto simp: finite_snapshot_def collectSnapshot_def list_all_iff)
qed

text \<open>
  The thrust of \<open>RocketInput\<close> is not limited to the documented range, and a finite one is
  enough to stop the snapshots of all players: when \<open>50 * Thrust\<close> is beyond the largest
  \<open>float32\<close> and the rocket has fuel and points straight up, its position is undefined after
  the next tick, whatever the rest of the world is, and the broadcast sends nothing to anyone.
\<close>

theorem thrust_silences:
  assumes "mget (s_rockets s) k = Some r" and "rk_Piloted r" and "0 < rk_Fuel r"
    and "rk_AutoPilot r = ''''" and "is_zero_vec (rk_TargetUp r)"
    and "v_X (rk_Up r) = 0" and "raw32 (c32 50 * rk_Thrust r) = PInf"
  shows "broadcastSnapshot E (tickRockets E dt s) = tickRockets E dt s"
proof -
  let ?ep = "w_EarthPos (s_world s)" and ?ev = "w_EarthVel (s_world s)"
  have z: "\<not> eq32 (rk_Thrust r) (c32 0)"
  proof
    assume "eq32 (rk_Thrust r) (c32 0)"
    then have "is_fin (raw32 (rk_Thrust r))" "fval (raw32 (rk_Thrust r)) = 0"
      by (cases "raw32 (rk_Thrust r)"; simp add: eq32_def c32_hunger feq_def)+
    then have "is_fin (raw32 (c32 50 * rk_Thrust r))"
      by (cases "raw32 (rk_Thrust r)") (auto simp: raw32_ops fmul_def c32_exact mk_def mk_sel_def)
    with assms(7) show False by simp
  qed
  have "nan32 (v_X (fst (consumeThrust dt r)))"
    using z assms(3,6,7) by (simp add: consumeThrust_def vscale_def raw32_ops fmul_def)
  then have "nan32 (v_X (rk_Pos (tickPilotedRocket E ?ep ?ev dt r)))"
    using assms(4,5)
    unfolding tickPilotedRocket_def piloted_dist_def piloted_at_def Let_def
    by (intro nan_flight) (simp add: applyAutopilot_def steerUpTowardTarget_def accelerate_def vadd_def vscale_def)
  moreover have "mget (s_rockets (tickRockets E dt s)) k = Some (tickPilotedRocket E ?ep ?ev dt r)"
    using assms(1,2) by (simp add: tickRockets_def tick_rocket_def)
  ultimately have "\<not> finite_snapshot (collectSnapshot E (tickRockets E dt s))" by (rule nan_snapshot [rotated])
  then show ?thesis by (simp add: broadcastSnapshot_def broadcast_def)
qed

definition pilot_server :: Server where
  "pilot_server = (lone_server (new_client ''a''))\<lparr>s_rockets := mput ''r''
     ((new_rocket ''r'' (vec 0 (c32 60) 0) zero_vec (vec 0 (c32 1) 0) (vec 0 (c32 60) 0))
        \<lparr>rk_Piloted := True, rk_OwnerID := ''a'', rk_Thrust := c32 (10 ^ 38)\<rparr>) mempty\<rparr>"

theorem thrust_silences_witness:
  "broadcastSnapshot flat_env (tickRockets flat_env (tick_dt 20) pilot_server) =
   tickRockets flat_env (tick_dt 20) pilot_server"
proof -
  have "raw32 (c32 50 * c32 (10 ^ 38)) = PInf" "is_zero_vec zero_vec" by code_simp+
  then show ?thesis
    using thrust_silences [of pilot_server "''r''" _ flat_env "tick_dt 20"]
    by (simp add: pilot_server_def lookup_update new_rocket_def rocketMaxFuel_def)
qed

end
