(* ===== verification/Chat.thy ===== *)
theory Chat
  imports Snapshot
begin

text \<open>
  \<open>internal/server/net/handlers_chat.go\<close>: chat messages and the commands that start with a
  slash. Strings are lists of bytes; \<open>parseGetArg\<close> only takes ASCII digits apart, for which a
  range over runes is a range over bytes.
\<close>

section \<open>\<open>parseGetArg\<close>\<close>

definition is_digit :: "char \<Rightarrow> bool" where
  "is_digit ch \<longleftrightarrow> (48 :: nat) \<le> of_char ch \<and> of_char ch \<le> (57 :: nat)"

definition digit_val :: "char \<Rightarrow> int" where
  "digit_val ch = int (of_char ch) - 48"

text \<open>The loop that moves \<open>i\<close> to the left over the digits at the end.\<close>

primrec digits_start :: "string \<Rightarrow> nat \<Rightarrow> nat" where
  "digits_start rest 0 = 0"
| "digits_start rest (Suc i) = (if is_digit (rest ! i) then digits_start rest i else Suc i)"

definition qty_of :: "string \<Rightarrow> int" where
  "qty_of qtyStr = foldl (\<lambda>q ch. i64 (i64 (q * 10) + digit_val ch)) 0 qtyStr"

definition clamp_qty :: "int \<Rightarrow> int" where
  "clamp_qty q = (if 100000 < q then 100000 else q)"

definition get_arg_at :: "string \<Rightarrow> nat \<Rightarrow> (string \<times> int) option" where
  "get_arg_at rest i =
     (if take i rest = '''' \<or> drop i rest = '''' then None
      else Some (take i rest, clamp_qty (qty_of (drop i rest))))"

definition parseGetArg :: "string \<Rightarrow> (string \<times> int) option" where
  "parseGetArg rest = get_arg_at rest (digits_start rest (length rest))"

section \<open>Commands\<close>

definition allItems :: "string list" where
  "allItems = [''stone'', ''wood'', ''ore'', ''fruit'', ''meat'', ''spear'', ''torch'', ''water'', ''liana'', ''leash'',
     ''house'', ''saddle'', ''boat'', ''solar'', ''battery'', ''factory'', ''steel'', ''gear'', ''circuit'', ''drone'', ''rocket'']"

definition cheatAllInv :: "Client \<Rightarrow> Client" where
  "cheatAllInv c = sendInventory (c\<lparr>c_inventory := fold (\<lambda>it. mput it 100) allItems (c_inventory c)\<rparr>)"

definition cheatInfiniteFuel :: "env \<Rightarrow> Client \<Rightarrow> Client" where
  "cheatInfiniteFuel E c =
     sendEnvelope (server_chat E (if \<not> c_infiniteFuel c then ''infinite fuel: ON'' else ''infinite fuel: OFF''))
       (c\<lparr>c_infiniteFuel := \<not> c_infiniteFuel c\<rparr>)"

definition cheatClearInv :: "Client \<Rightarrow> Client" where
  "cheatClearInv c = sendEnvelope (MsgInventory mempty) (c\<lparr>c_inventory := mempty\<rparr>)"

definition cheatGet :: "env \<Rightarrow> string \<Rightarrow> Client \<Rightarrow> Client" where
  "cheatGet E rest c =
     (case parseGetArg rest of
        None \<Rightarrow> sendEnvelope (server_chat E ''usage: /get<item><qty>'') c
      | Some (name, qty) \<Rightarrow> sendInventory (c\<lparr>c_inventory := inv_add name qty (c_inventory c)\<rparr>))"

definition teleport_to :: "Vector3 \<Rightarrow> Client \<Rightarrow> Client" where
  "teleport_to p c =
     sendEnvelope (MsgTeleport \<lparr>tp_X = v_X p, tp_Y = v_Y p, tp_Z = v_Z p\<rparr>)
       (setState ((zero_state (c_ID c) (c_Nick c))\<lparr>ps_X := v_X p, ps_Y := v_Y p, ps_Z := v_Z p\<rparr>) c)"

definition cheatTeleport :: "Vector3 \<Rightarrow> f32 \<Rightarrow> f32 \<Rightarrow> Client \<Rightarrow> Client" where
  "cheatTeleport bodyPos bodyRadius offset c =
     teleport_to (vec (v_X bodyPos)
       (if offset < c32 100 then v_Y bodyPos + bodyRadius + offset + PlayerHeight else v_Y bodyPos + bodyRadius + offset)
       (v_Z bodyPos)) c"

text \<open>The \<open>switch\<close>: \<open>None\<close> when the text is no command (the function returns \<open>false\<close>).\<close>

definition cheat_client :: "env \<Rightarrow> WorldState \<Rightarrow> string \<Rightarrow> Client \<Rightarrow> Client option" where
  "cheat_client E w txt c =
     (if txt = ''/allinv'' then Some (cheatAllInv c)
      else if txt = ''/infuel'' then Some (cheatInfiniteFuel E c)
      else if txt = ''/clearinv'' then Some (cheatClearInv c)
      else if txt = ''/tp sun'' then Some (cheatTeleport SunPos SunRadius (c32 200) c)
      else if txt = ''/tp earth'' then Some (cheatTeleport (w_EarthPos w) PlanetRadius (c32 5) c)
      else if txt = ''/tp star2'' then Some (cheatTeleport Star2Pos Star2Radius (c32 200) c)
      else if txt = ''/tp planet2'' then Some (cheatTeleport (w_Planet2Pos w) Planet2Radius (c32 5) c)
      else if take 4 txt \<noteq> ''/get'' then None
      else Some (cheatGet E (drop 4 txt) c))"

definition handleCheatCommand :: "env \<Rightarrow> string \<Rightarrow> string \<Rightarrow> Server \<Rightarrow> bool \<times> Server" where
  "handleCheatCommand E cid txt s =
     (case mget (s_clients s) cid of
        None \<Rightarrow> (False, s)
      | Some c \<Rightarrow> (case cheat_client E (s_world s) txt c of
            None \<Rightarrow> (False, s)
          | Some c' \<Rightarrow> (True, put_client cid c' s)))"

definition say :: "env \<Rightarrow> Client \<Rightarrow> ChatMessage \<Rightarrow> Server \<Rightarrow> Server" where
  "say E c cm s =
     (let s' = broadcast (MsgChat (cm\<lparr>chat_From := c_Nick c, chat_TS := unix_milli (e_now E)\<rparr>)) s
      in s'\<lparr>s_ChatMessages := s_ChatMessages s' + 1\<rparr>)"

definition handleChatMsg :: "env \<Rightarrow> string \<Rightarrow> ChatMessage \<Rightarrow> Server \<Rightarrow> Server" where
  "handleChatMsg E cid cm s = with_client cid s (\<lambda>c.
     if take 1 (chat_Text cm) = ''/'' \<and> fst (handleCheatCommand E cid (chat_Text cm) s)
     then snd (handleCheatCommand E cid (chat_Text cm) s)
     else say E c cm s)"

section \<open>The invariant\<close>

lemma allItems_i64: "mall in_i64 m \<Longrightarrow> mall in_i64 (fold (\<lambda>it. mput it 100) items m)"
  by (rule fold_invariant_on [where P = "mall in_i64"]) (simp_all add: mall_put in_i64_def)

lemma client_ok_infuel: "client_ok c \<Longrightarrow> client_ok (c\<lparr>c_infiniteFuel := b\<rparr>)"
  by (simp add: client_ok_def)

lemma cheat_client_ok:
  assumes "client_ok c" "cheat_client E w txt c = Some c'"
  shows "client_ok c' \<and> c_ID c' = c_ID c"
proof -
  have t: "client_ok (cheatTeleport b r f c) \<and> c_ID (cheatTeleport b r f c) = c_ID c" for b r f
    unfolding cheatTeleport_def teleport_to_def
    by (intro conjI client_ok_sendEnvelope client_ok_setState assms(1)) (simp add: setState_def)
  have g: "client_ok (cheatGet E rest c) \<and> c_ID (cheatGet E rest c) = c_ID c" for rest
    unfolding cheatGet_def
    by (auto split: option.split prod.split intro!: client_ok_sendEnvelope client_ok_sendInventory client_ok_inventory
        inv_add_i64 client_okD_inv assms(1))
  have a: "client_ok (cheatAllInv c) \<and> c_ID (cheatAllInv c) = c_ID c"
    "client_ok (cheatInfiniteFuel E c) \<and> c_ID (cheatInfiniteFuel E c) = c_ID c"
    "client_ok (cheatClearInv c) \<and> c_ID (cheatClearInv c) = c_ID c"
    unfolding cheatAllInv_def cheatInfiniteFuel_def cheatClearInv_def
    by (auto intro!: client_ok_sendEnvelope client_ok_sendInventory client_ok_inventory client_ok_infuel
        allItems_i64 client_okD_inv assms(1))
  show ?thesis using assms(2) a t g
    by (auto simp: cheat_client_def split: if_splits)
qed

lemma server_inv_cheat [inv_intros]: "server_inv s \<Longrightarrow> server_inv (snd (handleCheatCommand E cid txt s))"
  using clients_invD [OF server_invD(1), of s cid] cheat_client_ok
  by (auto simp: handleCheatCommand_def split: option.split intro!: server_inv_put)

lemma server_inv_handleChatMsg [inv_intros]: "server_inv s \<Longrightarrow> server_inv (handleChatMsg E cid cm s)"
  unfolding handleChatMsg_def say_def
  by (rule server_inv_with) (auto intro!: server_inv_cheat server_inv_broadcast simp: Let_def)

section \<open>Correctness\<close>

definition dec_val :: "string \<Rightarrow> int" where
  "dec_val ds = foldl (\<lambda>q ch. q * 10 + digit_val ch) 0 ds"

lemma digits_start_spec:
  "j \<le> length rest \<Longrightarrow> digits_start rest j \<le> j \<and> list_all is_digit (drop (digits_start rest j) (take j rest)) \<and>
     (digits_start rest j = 0 \<or> \<not> is_digit (rest ! (digits_start rest j - 1)))"
  by (induction j) (auto simp: take_Suc_conv_app_nth drop_append)

lemma digit_val_nonneg: "is_digit ch \<Longrightarrow> 0 \<le> digit_val ch \<and> digit_val ch \<le> 9"
  unfolding is_digit_def digit_val_def by linarith

lemma dec_val_snoc: "dec_val (ds @ [ch]) = dec_val ds * 10 + digit_val ch"
  by (simp add: dec_val_def)

lemma dec_val_nonneg: "list_all is_digit ds \<Longrightarrow> 0 \<le> dec_val ds"
  by (induction ds rule: rev_induct) (auto simp: dec_val_snoc dest!: digit_val_nonneg, simp add: dec_val_def)

lemma qty_of_exact: "list_all is_digit ds \<Longrightarrow> dec_val ds < 2 ^ 63 \<Longrightarrow> qty_of ds = dec_val ds"
proof (induction ds rule: rev_induct)
  case (snoc ch ds)
  then have d: "0 \<le> dec_val ds" "0 \<le> digit_val ch" using dec_val_nonneg digit_val_nonneg by auto
  with snoc have "dec_val ds < 2 ^ 63" by (simp add: dec_val_snoc)
  with snoc have "qty_of ds = dec_val ds" by simp
  then have "qty_of (ds @ [ch]) = i64 (i64 (dec_val ds * 10) + digit_val ch)" by (simp add: qty_of_def)
  also have "\<dots> = dec_val ds * 10 + digit_val ch"
    using d snoc.prems(2) by (simp add: i64_add_mod dec_val_snoc i64_id in_i64_def)
  finally show ?case by (simp add: dec_val_snoc)
qed (simp add: qty_of_def dec_val_def)

lemma digits_start_unique:
  assumes "ds \<noteq> ''''" "list_all is_digit ds" "name = '''' \<or> \<not> is_digit (last name)"
  shows "digits_start (name @ ds) (length (name @ ds)) = length name"
proof -
  have "digits_start (name @ ds) (length name + k) = length name" if "k \<le> length ds" for k
    using that
  proof (induction k)
    case 0
    show ?case
    proof (cases name rule: rev_cases)
      case (snoc ys y)
      then show ?thesis using assms(3) by (simp add: nth_append)
    qed simp
  next
    case (Suc k)
    then show ?case using assms(2) by (simp add: nth_append list_all_length)
  qed
  from this [of "length ds"] show ?thesis by simp
qed

text \<open>
  The argument of \<open>/get\<close> is taken apart as documented: a non-empty name that does not end in a
  digit, followed by the decimal digits of a number below \<open>2 ^ 63\<close>, gives that name and that
  number, limited to 100000; an argument is refused exactly when it does not end in a digit
  or has only digits.
\<close>

theorem parseGetArg_correct:
  assumes "name \<noteq> ''''" and "\<not> is_digit (last name)" and "ds \<noteq> ''''" and "list_all is_digit ds"
    and "dec_val ds < 2 ^ 63"
  shows "parseGetArg (name @ ds) = Some (name, min (dec_val ds) 100000) \<and>
    (\<forall>rest. parseGetArg rest = None \<longleftrightarrow> rest = '''' \<or> \<not> is_digit (last rest) \<or> list_all is_digit rest)"
proof -
  have "parseGetArg (name @ ds) = Some (name, min (dec_val ds) 100000)"
    using assms digits_start_unique [OF assms(3,4), of name] qty_of_exact [OF assms(4,5)]
    by (simp add: parseGetArg_def get_arg_at_def clamp_qty_def)
  moreover have "parseGetArg rest = None \<longleftrightarrow> rest = '''' \<or> \<not> is_digit (last rest) \<or> list_all is_digit rest" for rest
  proof -
    let ?i = "digits_start rest (length rest)"
    have s: "?i \<le> length rest" "list_all is_digit (drop ?i rest)" "?i = 0 \<or> \<not> is_digit (rest ! (?i - 1))"
      using digits_start_spec [of "length rest" rest] by auto
    have "parseGetArg rest = None \<longleftrightarrow> ?i = 0 \<or> ?i = length rest"
      using s(1) by (auto simp: parseGetArg_def get_arg_at_def)
    moreover have "?i = 0 \<longleftrightarrow> list_all is_digit rest"
    proof
      assume a: "list_all is_digit rest"
      show "?i = 0"
      proof (rule ccontr)
        assume "?i \<noteq> 0"
        with s(1) have "?i - 1 < length rest" by simp
        with a s(3) \<open>?i \<noteq> 0\<close> show False by (simp add: list_all_length)
      qed
    qed (use s(2) in simp)
    moreover have "?i = length rest \<longleftrightarrow> rest = '''' \<or> \<not> is_digit (last rest)"
    proof (cases rest rule: rev_cases)
      case (snoc ys y)
      with s show ?thesis by (cases "?i = length rest") (auto simp: nth_append)
    qed simp
    ultimately show ?thesis by argo
  qed
  ultimately show ?thesis by blast
qed

theorem parseGetArg_correct_witness:
  "parseGetArg ''x9999999'' = Some (''x'', 100000) \<and> parseGetArg ''stone'' = None"
proof -
  have h: "\<not> is_digit (last ''x'')" "list_all is_digit ''9999999''" "dec_val ''9999999'' = 9999999"
    "\<not> is_digit (last ''stone'')" by code_simp+
  with parseGetArg_correct [of "''x''" "''9999999''"] show ?thesis by simp
qed

text \<open>
  Beyond \<open>2 ^ 63\<close> the number wraps around before it is limited: the command
  \<open>/getx9999999999999999999\<close> takes eight quintillion items away, and \<open>parseGetArg\<close> does not
  refuse it.
\<close>

theorem parseGetArg_overflow:
  "parseGetArg ''x9999999999999999999'' = Some (''x'', - 8446744073709551617)"
  by code_simp

text \<open>
  C21. What a player says reaches every player with room in the queue, signed with the server's
  name for the player and the server's clock whatever the message claims; a command that is
  carried out is not broadcast, is not counted and changes no other player.
\<close>

theorem handleChatMsg_correct:
  assumes "mget (s_clients s) cid = Some c"
  shows "if take 1 (chat_Text cm) = ''/'' \<and> cheat_client E (s_world s) (chat_Text cm) c \<noteq> None
    then handleChatMsg E cid cm s =
           s\<lparr>s_clients := mput cid (the (cheat_client E (s_world s) (chat_Text cm) c)) (s_clients s)\<rparr>
    else s_ChatMessages (handleChatMsg E cid cm s) = s_ChatMessages s + 1 \<and>
      (\<forall>k. mget (s_clients (handleChatMsg E cid cm s)) k = map_option (\<lambda>c'.
         if length (c_send c') < 256
         then c'\<lparr>c_send := c_send c' @ [MsgChat \<lparr>chat_From = c_Nick c, chat_Text = chat_Text cm,
                chat_TS = unix_milli (e_now E)\<rparr>]\<rparr>
         else c') (mget (s_clients s) k))"
proof -
  have e: "cm\<lparr>chat_From := f, chat_TS := t\<rparr> = \<lparr>chat_From = f, chat_Text = chat_Text cm, chat_TS = t\<rparr>" for f t
    by (cases cm) simp
  show ?thesis using assms
    by (auto simp: handleChatMsg_def handleCheatCommand_def put_client_def say_def broadcast_def e enqueue_def
        sendBufSize_def Let_def split: option.splits intro!: option.map_cong)
qed

theorem handleChatMsg_correct_witness:
  "s_ChatMessages (handleChatMsg flat_env ''a'' \<lparr>chat_From = ''b'', chat_Text = ''hi'', chat_TS = 0\<rparr>
     (lone_server (new_client ''a''))) = 1"
  using handleChatMsg_correct [of "lone_server (new_client ''a'')" "''a''" "new_client ''a''"
      "\<lparr>chat_From = ''b'', chat_Text = ''hi'', chat_TS = 0\<rparr>" flat_env]
  by (simp add: new_client_def lone_server_def)

end
