(* ===== verification/Rocket_Facts.thy ===== *)
theory Rocket_Facts
  imports Rockets
begin

text \<open>
  Facts about \<open>Rockets\<close>: what each stage of the flight pipeline leaves alone, the invariant
  under handlers and ticks, the fuel loop, boarding, and the tick of one rocket.
\<close>

section \<open>What the stages leave alone\<close>

text \<open>The part of a rocket that only handlers and the fuel loop change.\<close>

definition cockpit :: "Rocket \<Rightarrow> string \<times> bool \<times> string \<times> int \<times> bool" where
  "cockpit r = (rk_ID r, rk_Piloted r, rk_OwnerID r, rk_MaxFuel r, rk_InfiniteFuel r)"

definition tank :: "Rocket \<Rightarrow> int \<times> f32" where
  "tank r = (rk_Fuel r, rk_fuelAccum r)"

lemma cockpit_stages [simp]:
  "cockpit (tickFreeRocket E ep ev r) = cockpit r" "cockpit (applyAutopilot rp rvl d r) = cockpit r"
  "cockpit (steerUpTowardTarget E dt r) = cockpit r" "cockpit (snd (consumeThrust dt r)) = cockpit r"
  "cockpit (accelerate g dt (t, r)) = cockpit r" "cockpit (applyAtmosphericDrag E ev d dt r) = cockpit r"
  "cockpit (applySpeedLimit ev b r) = cockpit r" "cockpit (drift dt r) = cockpit r"
  "cockpit (collideWithEarth E ep ev r) = cockpit r" "cockpit (updateRocketFrame ep b ds r) = cockpit r"
  "cockpit (collideWithSun r) = cockpit r" "cockpit (updateOrbitalParams ep b r) = cockpit r"
  "cockpit (logRocketTick E r) = cockpit r"
  by (simp_all add: cockpit_def tickFreeRocket_def ride_along_def sun_rest_def sun_rest_scaled_def sun_rest_at_def
      earth_rest_clamped_def earth_rest_def applyAutopilot_def aim_at_def steerUpTowardTarget_def steer_len_def
      steer_to_def consumeThrust_def burn_fuel_def accelerate_def applyAtmosphericDrag_def drag_in_def drag_at_def
      drag_to_def applySpeedLimit_def limit_speed_def limit_by_def drift_def collideWithEarth_def land_on_earth_def
      updateRocketFrame_def collideWithSun_def sun_contact_def land_on_sun_def updateOrbitalParams_def set_orbit_def
      logRocketTick_def split: prod.split)

lemma tank_stages [simp]:
  "tank (tickFreeRocket E ep ev r) = tank r" "tank (applyAutopilot rp rvl d r) = tank r"
  "tank (steerUpTowardTarget E dt r) = tank r"
  "tank (accelerate g dt (t, r)) = tank r" "tank (applyAtmosphericDrag E ev d dt r) = tank r"
  "tank (applySpeedLimit ev b r) = tank r" "tank (drift dt r) = tank r"
  "tank (collideWithEarth E ep ev r) = tank r" "tank (updateRocketFrame ep b ds r) = tank r"
  "tank (collideWithSun r) = tank r" "tank (updateOrbitalParams ep b r) = tank r"
  "tank (logRocketTick E r) = tank r"
  by (simp_all add: tank_def tickFreeRocket_def ride_along_def sun_rest_def sun_rest_scaled_def sun_rest_at_def
      earth_rest_clamped_def earth_rest_def applyAutopilot_def aim_at_def steerUpTowardTarget_def steer_len_def
      steer_to_def accelerate_def applyAtmosphericDrag_def drag_in_def drag_at_def
      drag_to_def applySpeedLimit_def limit_speed_def limit_by_def drift_def collideWithEarth_def land_on_earth_def
      updateRocketFrame_def collideWithSun_def sun_contact_def land_on_sun_def updateOrbitalParams_def set_orbit_def
      logRocketTick_def)

lemma accelerate_stages [simp]:
  "cockpit (accelerate g dt tr) = cockpit (snd tr)" "tank (accelerate g dt tr) = tank (snd tr)"
  by (cases tr, simp)+

lemma after_thrust_stages [simp]:
  "cockpit (after_thrust E ep ev de ds dt b r) = cockpit r" "tank (after_thrust E ep ev de ds dt b r) = tank r"
  by (simp_all add: after_thrust_def Let_def)

section \<open>The fuel loop\<close>

text \<open>The loop takes away one unit per whole unit in the accumulator, as long as there is fuel.\<close>

definition drained :: "nat \<Rightarrow> f32 \<Rightarrow> f32" where
  "drained n acc = ((\<lambda>a. a - c32 1) ^^ n) acc"

lemma drained_simps [simp]: "drained 0 acc = acc" "drained (Suc n) acc = drained n (acc - c32 1)"
  by (simp_all add: drained_def funpow_Suc_right del: funpow.simps)

lemma burn_reference:
  "0 \<le> fuel \<Longrightarrow> \<exists>n. burn fuel acc = (fuel - int n, drained n acc) \<and> int n \<le> fuel \<and>
     (\<forall>i<n. c32 1 \<le> drained i acc) \<and> (int n = fuel \<or> \<not> c32 1 \<le> drained n acc)"
proof (induction fuel acc rule: burn.induct)
  case (1 fuel acc)
  show ?case
  proof (cases "c32 1 \<le> acc \<and> 0 < fuel")
    case True
    with 1 obtain n where n: "burn (fuel - 1) (acc - c32 1) = (fuel - 1 - int n, drained n (acc - c32 1))"
      "int n \<le> fuel - 1" "\<forall>i<n. c32 1 \<le> drained i (acc - c32 1)"
      "int n = fuel - 1 \<or> \<not> c32 1 \<le> drained n (acc - c32 1)" by auto
    have "\<forall>i<Suc n. c32 1 \<le> drained i acc"
      using n(3) True by (auto simp: less_Suc_eq_0_disj)
    moreover have "int (Suc n) = fuel \<or> \<not> c32 1 \<le> drained (Suc n) acc" using n(4) by auto
    ultimately show ?thesis using n(1,2) True by (intro exI [of _ "Suc n"]) (auto simp: burn.simps [of fuel acc])
  next
    case False
    with 1(2) show ?thesis by (intro exI [of _ 0]) (auto simp: burn.simps [of fuel])
  qed
qed

lemma burn_bounds: "0 \<le> fuel \<Longrightarrow> 0 \<le> fst (burn fuel acc) \<and> fst (burn fuel acc) \<le> fuel"
  using burn_reference [of fuel acc] by auto

lemma tank_consumeThrust:
  "0 \<le> rk_Fuel r \<Longrightarrow> 0 \<le> rk_Fuel (snd (consumeThrust dt r)) \<and> rk_Fuel (snd (consumeThrust dt r)) \<le> rk_Fuel r"
  using burn_bounds [of "rk_Fuel r"]
  by (auto simp: consumeThrust_def burn_fuel_def split: prod.split) (metis fst_conv)+

lemma fuel_piloted:
  assumes "0 \<le> rk_Fuel r"
  shows "0 \<le> rk_Fuel (tickPilotedRocket E ep ev dt r) \<and> rk_Fuel (tickPilotedRocket E ep ev dt r) \<le> rk_Fuel r"
proof -
  have t: "fst (tank r') = rk_Fuel r'" for r' by (simp add: tank_def)
  let ?r = "steerUpTowardTarget E dt (applyAutopilot (vsub (rk_Pos r) ep) (vsub (rk_Vel r) ev) (vlen (vsub (rk_Pos r) ep)) r)"
  have "rk_Fuel ?r = rk_Fuel r" by (simp flip: t)
  moreover have "rk_Fuel (tickPilotedRocket E ep ev dt r) = rk_Fuel (snd (consumeThrust dt ?r))"
    by (simp add: tickPilotedRocket_def piloted_dist_def piloted_at_def Let_def flip: t)
  ultimately show ?thesis using tank_consumeThrust [of ?r dt] assms by simp
qed

section \<open>The invariant\<close>

lemma cockpitD: "cockpit r' = cockpit r \<Longrightarrow> rk_ID r' = rk_ID r \<and> rk_Piloted r' = rk_Piloted r \<and>
    rk_OwnerID r' = rk_OwnerID r \<and> rk_MaxFuel r' = rk_MaxFuel r \<and> rk_InfiniteFuel r' = rk_InfiniteFuel r"
  by (simp add: cockpit_def)

lemma cockpit_tick [simp]: "cockpit (tick_rocket E ep ev dt r) = cockpit r"
  by (simp add: tick_rocket_def tickPilotedRocket_def piloted_dist_def piloted_at_def Let_def)

lemma fuel_tick:
  assumes "0 \<le> rk_Fuel r"
  shows "0 \<le> rk_Fuel (tick_rocket E ep ev dt r) \<and> rk_Fuel (tick_rocket E ep ev dt r) \<le> rk_Fuel r"
proof (cases "rk_Piloted r")
  case True
  then show ?thesis using fuel_piloted [OF assms] by (simp add: tick_rocket_def)
next
  case False
  have "rk_Fuel (tickFreeRocket E ep ev r) = rk_Fuel r"
    using tank_stages(1) [of E ep ev r] by (simp add: tank_def)
  with False assms show ?thesis by (simp add: tick_rocket_def)
qed

lemma rocket_ok_tick: "rocket_ok r \<Longrightarrow> rocket_ok (tick_rocket E ep ev dt r)"
  using cockpitD [OF cockpit_tick [of E ep ev dt r]] fuel_tick [of r E ep ev dt]
  by (simp add: rocket_ok_def)

lemma server_inv_get_rocket: "server_inv s \<Longrightarrow> mget (s_rockets s) k = Some r \<Longrightarrow> rocket_ok r \<and> rk_ID r = k"
  using server_inv_stores(8) [of s] by (auto simp: rockets_inv_def mall_def keyed_def)

lemma server_inv_put_rocket [inv_intros]:
  "server_inv s \<Longrightarrow> rocket_ok r \<Longrightarrow> rk_ID r = k \<Longrightarrow> server_inv (put_rocket k r s)"
  unfolding put_rocket_def
  by (intro inv_intros) (use server_inv_stores(8) [of s] in \<open>simp_all add: rockets_inv_def keyed_put mall_put\<close>)

lemma server_inv_tickRockets [inv_intros]: "server_inv s \<Longrightarrow> server_inv (tickRockets E dt s)"
  unfolding tickRockets_def
  by (intro inv_intros)
     (use server_inv_stores(8) [of s] in \<open>auto simp: rockets_inv_def cockpitD [OF cockpit_tick]
        intro!: keyed_mmap mall_mmap [where P = rocket_ok] rocket_ok_tick\<close>)

lemma new_rocket_ok: "rocket_ok (new_rocket i p v u l)" "rk_ID (new_rocket i p v u l) = i"
  by (simp_all add: new_rocket_def rocket_ok_def rocketMaxFuel_def)

lemma server_inv_handlePlaceRocket [inv_intros]: "server_inv s \<Longrightarrow> server_inv (handlePlaceRocket E cid p s)"
  unfolding handlePlaceRocket_def place_rocket_at_def case_prod_beta
  by (rule server_inv_with)
     (use server_inv_stores(8) [of s] in \<open>auto intro!: server_inv_updates server_inv_put client_ok_sendInventory
        client_ok_consumeItem keyed_put mall_put simp: rockets_inv_def new_rocket_ok\<close>)

lemma server_inv_handleBoardRocket [inv_intros]: "server_inv s \<Longrightarrow> server_inv (handleBoardRocket cid i s)"
  unfolding handleBoardRocket_def
proof (rule server_inv_with)
  fix c assume s: "server_inv s" and c: "client_ok c" "c_ID c = cid"
  show "server_inv (case mget (s_rockets s) i of None \<Rightarrow> s
      | Some r \<Rightarrow> if rk_Piloted r \<and> rk_OwnerID r \<noteq> c_ID c then s
         else if c32 64 < d2_32 (vsub (rk_Pos r) (w_EarthPos (s_world s))) (ps_pos (State c)) then s
         else put_rocket i (r\<lparr>rk_Piloted := True, rk_OwnerID := c_ID c\<rparr>) s)"
    using s c server_inv_get_rocket [OF s, of i]
    by (auto split: option.split intro!: server_inv_put_rocket simp: rocket_ok_def client_ok_def)
qed

lemma own_rocketD: "own_rocket E site c s = Some (k, r) \<Longrightarrow>
    mget (s_rockets s) k = Some r \<and> rk_OwnerID r = c_ID c \<and> rk_Piloted r"
  unfolding own_rocket_def by (drule find_SomeD) simp

lemma own_rocket_None: "own_rocket E site c s = None \<Longrightarrow> mget (s_rockets s) k = Some r \<Longrightarrow>
    \<not> (rk_OwnerID r = c_ID c \<and> rk_Piloted r)"
  by (auto simp: own_rocket_def find_None_iff dest!: bspec [of _ _ "(k, r)"])

lemma rocket_own_ok:
  assumes "server_inv s" "mget (s_rockets s) k = Some r"
  shows "rocket_ok (r\<lparr>rk_Piloted := False, rk_OwnerID := ''''\<rparr>)" "rocket_ok (steer_input c p r)"
    "rk_ID r = k" "rk_ID (steer_input c p r) = k"
  using server_inv_get_rocket [OF assms] by (auto simp: rocket_ok_def steer_input_def rocketMaxFuel_def)

lemma server_inv_handleExitRocket [inv_intros]: "server_inv s \<Longrightarrow> server_inv (handleExitRocket E cid s)"
  unfolding handleExitRocket_def
  by (rule server_inv_with, assumption)
     (auto split: option.split dest!: own_rocketD intro!: server_inv_put_rocket
        simp: rocket_own_ok)

lemma server_inv_handleRocketInput [inv_intros]: "server_inv s \<Longrightarrow> server_inv (handleRocketInput E cid p s)"
  unfolding handleRocketInput_def
  by (rule server_inv_with, assumption)
     (auto split: option.split dest!: own_rocketD intro!: server_inv_put_rocket
        simp: rocket_own_ok)

section \<open>Correctness\<close>

text \<open>
  C13. The fuel loop of a burn ends and does what its reference says: without thrust or fuel
  nothing happens; with infinite fuel the rocket accelerates along \<open>Up\<close> and keeps its tank;
  otherwise it loses one unit of fuel for each whole unit that the accumulator holds after the
  tick's share is added, never more than it has, and stops because less than one unit is left
  in the accumulator or because the tank is empty.
\<close>

theorem consumeThrust_correct:
  assumes "0 \<le> rk_Fuel r"
  shows "if eq32 (rk_Thrust r) (c32 0) \<or> rk_Fuel r = 0 then consumeThrust dt r = (zero_vec, r)
    else fst (consumeThrust dt r) = vscale (rk_Up r) (c32 50 * rk_Thrust r) \<and>
      (if rk_InfiniteFuel r then snd (consumeThrust dt r) = r
       else \<exists>n. let acc = rk_fuelAccum r + c32 5 * dt * abs_thrust (rk_Thrust r) in
          snd (consumeThrust dt r) = r\<lparr>rk_Fuel := rk_Fuel r - int n, rk_fuelAccum := drained n acc\<rparr> \<and>
          int n \<le> rk_Fuel r \<and> (\<forall>i<n. c32 1 \<le> drained i acc) \<and>
          (int n = rk_Fuel r \<or> \<not> c32 1 \<le> drained n acc))"
proof -
  obtain n where n: "burn (rk_Fuel r) acc = (rk_Fuel r - int n, drained n acc) \<and> int n \<le> rk_Fuel r \<and>
     (\<forall>i<n. c32 1 \<le> drained i acc) \<and> (int n = rk_Fuel r \<or> \<not> c32 1 \<le> drained n acc)"
    if "acc = rk_fuelAccum r + c32 5 * dt * abs_thrust (rk_Thrust r)" for acc
    using burn_reference [OF assms] by metis
  show ?thesis using assms n
    by (cases "rk_InfiniteFuel r") (auto simp: consumeThrust_def burn_fuel_def Let_def intro!: exI [of _ n])
qed

definition pad :: Rocket where
  "pad = new_rocket ''r'' zero_vec zero_vec (vec 0 (c32 1) 0) zero_vec"

theorem consumeThrust_correct_witness:
  "rk_Fuel (snd (consumeThrust (c32 1) (pad\<lparr>rk_Thrust := c32 1, rk_Fuel := 3\<rparr>))) = 0"
proof -
  let ?r = "pad\<lparr>rk_Thrust := c32 1, rk_Fuel := 3\<rparr>"
  have d: "c32 1 \<le> drained n (0 + c32 5 * c32 1 * abs_thrust (c32 1))" if "n < 4" for n
  proof -
    have "n = 0 \<or> n = 1 \<or> n = 2 \<or> n = 3" using that by auto
    then show ?thesis by (elim disjE) (simp_all, code_simp+)
  qed
  have z: "\<not> eq32 (c32 1) (c32 0)" by code_simp
  have "rk_fuelAccum ?r = 0" "\<not> rk_InfiniteFuel ?r" by (simp_all add: pad_def new_rocket_def)
  with consumeThrust_correct [of ?r "c32 1"] z obtain n where
    n: "snd (consumeThrust (c32 1) ?r) = ?r\<lparr>rk_Fuel := 3 - int n,
        rk_fuelAccum := drained n (0 + c32 5 * c32 1 * abs_thrust (c32 1))\<rparr>" "int n \<le> 3"
      "int n = 3 \<or> \<not> c32 1 \<le> drained n (0 + c32 5 * c32 1 * abs_thrust (c32 1))"
    by (auto simp: Let_def)
  then show ?thesis using d [of n] by auto
qed

text \<open>
  Boarding is exclusive: a rocket gets the player as pilot exactly when it exists, no other
  player pilots it and the player is within eight units of it, measured from the earth's
  position of the moment; in every other case the request changes nothing, and it never
  changes another rocket, a player or any other store.
\<close>

theorem handleBoardRocket_correct:
  assumes "server_inv s" and "mget (s_clients s) cid = Some c"
  shows "handleBoardRocket cid i s =
    (case mget (s_rockets s) i of
       None \<Rightarrow> s
     | Some r \<Rightarrow>
         if rk_OwnerID r \<in> {'''', cid} \<and>
            \<not> c32 64 < d2_32 (vsub (rk_Pos r) (w_EarthPos (s_world s))) (ps_pos (c_state c))
         then s\<lparr>s_rockets := mput i (r\<lparr>rk_Piloted := True, rk_OwnerID := cid\<rparr>) (s_rockets s)\<rparr>
         else s)"
proof -
  have "c_ID c = cid" using clients_invD [OF server_invD(1) [OF assms(1)] assms(2)] by simp
  then show ?thesis using assms(2) server_inv_get_rocket [OF assms(1), of i]
    by (auto simp: handleBoardRocket_def put_rocket_def State_def ps_pos_def rocket_ok_def split: option.split)
qed

theorem handleBoardRocket_correct_witness:
  "handleBoardRocket ''a'' ''r'' ((lone_server (new_client ''a''))
     \<lparr>s_rockets := mput ''r'' (pad\<lparr>rk_Piloted := True, rk_OwnerID := ''b''\<rparr>) mempty\<rparr>) =
   (lone_server (new_client ''a''))\<lparr>s_rockets := mput ''r'' (pad\<lparr>rk_Piloted := True, rk_OwnerID := ''b''\<rparr>) mempty\<rparr>"
proof -
  let ?r = "pad\<lparr>rk_Piloted := True, rk_OwnerID := ''b''\<rparr>"
  let ?s = "(lone_server (new_client ''a''))\<lparr>s_rockets := mput ''r'' ?r mempty\<rparr>"
  have "rockets_inv (mput ''r'' ?r mempty)"
    by (auto simp: rockets_inv_def pad_def new_rocket_def rocket_ok_def rocketMaxFuel_def intro!: keyed_put mall_put)
  then have "server_inv ?s" by (intro inv_intros server_inv_lone client_ok_new) simp_all
  from handleBoardRocket_correct [OF this, of "''a''" "new_client ''a''" "''r''"] show ?thesis
    by (simp add: lookup_update new_client_def)
qed

lemma set_orbit_flag:
  "rk_InOrbit (updateOrbitalParams ep b r) \<longleftrightarrow>
     (if b then c32 50 < rk_Periapsis (updateOrbitalParams ep b r) \<and> c32 50 < rk_Altitude (updateOrbitalParams ep b r)
      else c32 0 < rk_Periapsis (updateOrbitalParams ep b r))"
  by (simp add: updateOrbitalParams_def set_orbit_def)

lemma log_frame [simp]:
  "rk_InOrbit (logRocketTick E r) = rk_InOrbit r" "rk_Periapsis (logRocketTick E r) = rk_Periapsis r"
  "rk_Altitude (logRocketTick E r) = rk_Altitude r" "rk_DistSun (logRocketTick E r) = rk_DistSun r"
  by (simp_all add: logRocketTick_def)

lemma distSun_frame [simp]:
  "rk_DistSun (updateOrbitalParams ep b r) = rk_DistSun r" "rk_DistSun (collideWithSun r) = rk_DistSun r"
  "rk_DistSun (updateRocketFrame ep b d r) = d"
  by (simp_all add: updateOrbitalParams_def set_orbit_def collideWithSun_def sun_contact_def land_on_sun_def
      updateRocketFrame_def)

lemma piloted_orbit:
  fixes E ep ev dt r
  defines "r' \<equiv> tickPilotedRocket E ep ev dt r"
  shows "rk_DistSun r' = vlen (vsub (rk_Pos r) SunPos) \<and>
    (rk_InOrbit r' \<longleftrightarrow> (if vlen (vsub (rk_Pos r) ep) < SOIEarth
       then c32 50 < rk_Periapsis r' \<and> c32 50 < rk_Altitude r' else c32 0 < rk_Periapsis r'))"
  unfolding r'_def tickPilotedRocket_def piloted_dist_def piloted_at_def Let_def after_thrust_def
  by (simp only: log_frame distSun_frame set_orbit_flag)

lemma free_rest:
  "\<exists>lp. rk_LocalPos (tickFreeRocket E ep ev r) = lp \<and> rk_Thrust (tickFreeRocket E ep ev r) = 0 \<and>
     (if rk_PrimaryBody r = ''sun''
      then rk_Pos (tickFreeRocket E ep ev r) = vadd SunPos lp \<and> rk_Vel (tickFreeRocket E ep ev r) = zero_vec
      else rk_Pos (tickFreeRocket E ep ev r) = vadd ep lp \<and> rk_Vel (tickFreeRocket E ep ev r) = ev \<and>
        lp = ClampToSurface E (rk_LocalPos r))"
  by (simp add: tickFreeRocket_def ride_along_def earth_rest_clamped_def earth_rest_def)

text \<open>
  C14. A tick changes every rocket on its own and none of what handlers decide: identity, pilot,
  owner and tank size stay, fuel never grows and never falls below zero. A rocket without a
  pilot rests at its local position on its body, with the body's velocity and no thrust (for a body that is
  the sun nothing is said of that position here). A
  piloted rocket records the distances of the start of the tick; its orbit flag says exactly
  that the recorded periapsis (and, near the earth, the altitude) is above the limit.
\<close>

theorem tickRockets_correct:
  assumes "server_inv s" and "mget (s_rockets s) k = Some r"
  shows "\<exists>r'. mget (s_rockets (tickRockets E dt s)) k = Some r' \<and>
    rk_ID r' = k \<and> rk_Piloted r' = rk_Piloted r \<and> rk_OwnerID r' = rk_OwnerID r \<and> rk_MaxFuel r' = rk_MaxFuel r \<and>
    0 \<le> rk_Fuel r' \<and> rk_Fuel r' \<le> rk_Fuel r \<and>
    (if rk_Piloted r
     then rk_DistSun r' = vlen (vsub (rk_Pos r) SunPos) \<and>
       (rk_InOrbit r' \<longleftrightarrow> (if vlen (vsub (rk_Pos r) (w_EarthPos (s_world s))) < SOIEarth
          then c32 50 < rk_Periapsis r' \<and> c32 50 < rk_Altitude r' else c32 0 < rk_Periapsis r'))
     else rk_Fuel r' = rk_Fuel r \<and> rk_Thrust r' = 0 \<and>
       (if rk_PrimaryBody r = ''sun'' then rk_Pos r' = vadd SunPos (rk_LocalPos r') \<and> rk_Vel r' = zero_vec
        else rk_Pos r' = vadd (w_EarthPos (s_world s)) (rk_LocalPos r') \<and> rk_Vel r' = w_EarthVel (s_world s) \<and>
          rk_LocalPos r' = ClampToSurface E (rk_LocalPos r)))"
proof -
  let ?ep = "w_EarthPos (s_world s)" and ?ev = "w_EarthVel (s_world s)"
  let ?r = "tick_rocket E ?ep ?ev dt r"
  have g: "mget (s_rockets (tickRockets E dt s)) k = Some ?r" using assms(2) by (simp add: tickRockets_def)
  have o: "rocket_ok r" "rk_ID r = k" using server_inv_get_rocket [OF assms] by simp_all
  have f: "0 \<le> rk_Fuel r" using o(1) by (simp add: rocket_ok_def)
  have "rk_Fuel (tickFreeRocket E ?ep ?ev r) = rk_Fuel r"
    using tank_stages(1) [of E ?ep ?ev r] by (simp add: tank_def)
  then have "if rk_Piloted r
     then rk_DistSun ?r = vlen (vsub (rk_Pos r) SunPos) \<and>
       (rk_InOrbit ?r \<longleftrightarrow> (if vlen (vsub (rk_Pos r) ?ep) < SOIEarth
          then c32 50 < rk_Periapsis ?r \<and> c32 50 < rk_Altitude ?r else c32 0 < rk_Periapsis ?r))
     else rk_Fuel ?r = rk_Fuel r \<and> rk_Thrust ?r = 0 \<and>
       (if rk_PrimaryBody r = ''sun'' then rk_Pos ?r = vadd SunPos (rk_LocalPos ?r) \<and> rk_Vel ?r = zero_vec
        else rk_Pos ?r = vadd ?ep (rk_LocalPos ?r) \<and> rk_Vel ?r = ?ev \<and>
          rk_LocalPos ?r = ClampToSurface E (rk_LocalPos r))"
    using free_rest [of E ?ep ?ev r] piloted_orbit [of E ?ep ?ev dt r] unfolding tick_rocket_def
    by (cases "rk_Piloted r") (simp_all split: if_split)
  then show ?thesis
    using g o(2) cockpitD [OF cockpit_tick [of E ?ep ?ev dt r]] fuel_tick [OF f, of E ?ep ?ev dt] by auto
qed

theorem tickRockets_correct_witness:
  "\<exists>r'. mget (s_rockets (tickRockets flat_env 0 ((lone_server (new_client ''a''))
     \<lparr>s_rockets := mput ''r'' pad mempty\<rparr>))) ''r'' = Some r' \<and> rk_Fuel r' = 100 \<and> rk_Thrust r' = 0"
proof -
  let ?s = "(lone_server (new_client ''a''))\<lparr>s_rockets := mput ''r'' pad mempty\<rparr>"
  have "rockets_inv (mput ''r'' pad mempty)"
    by (auto simp: rockets_inv_def pad_def new_rocket_ok intro!: keyed_put mall_put)
  then have "server_inv ?s" by (intro inv_intros server_inv_lone client_ok_new) simp_all
  from tickRockets_correct [OF this, of "''r''" pad flat_env 0] show ?thesis
    by (auto simp: lookup_update pad_def new_rocket_def rocketMaxFuel_def)
qed

text \<open>
  A rocket left on the sun exactly at its centre is not put on the sun's surface: the code
  replaces the local position by one on the surface but scales it by the old length, so that
  the rocket is more than six million units away, and its \<open>Up\<close> is not a direction.
\<close>

theorem sun_rest_flung:
  "c32 6000000 < v_X (rk_LocalPos (tickFreeRocket flat_env zero_vec zero_vec (pad\<lparr>rk_PrimaryBody := ''sun''\<rparr>))) \<and>
   c32 600000000 < v_X (rk_Up (tickFreeRocket flat_env zero_vec zero_vec (pad\<lparr>rk_PrimaryBody := ''sun''\<rparr>)))"
  by code_simp

end
