(* ===== verification/Frame.thy ===== *)
theory Frame
  imports Prelude
begin

text \<open>
  The framing of \<open>internal/shared/protocol/frame.go\<close>: a four-byte big-endian length and the
  payload, at most 64 KiB. A reader is the list of bytes still to come; \<open>io.ReadFull\<close> fails
  with \<open>EOF\<close> on an empty reader and with \<open>ErrUnexpectedEOF\<close> when it ends early. A writer takes
  bytes until its capacity is used up, which stands for a connection that breaks.
\<close>

type_synonym bytes = "8 word list"

datatype io_error = EOF | ErrUnexpectedEOF | ErrFrameTooLarge | ErrWrite

definition MaxFrameSize :: nat where
  "MaxFrameSize = 64 * 1024"

text \<open>\<open>binary.BigEndian.PutUint32\<close> and \<open>Uint32\<close>.\<close>

definition be32_put :: "32 word \<Rightarrow> bytes" where
  "be32_put n = [ucast (drop_bit 24 n), ucast (drop_bit 16 n), ucast (drop_bit 8 n), ucast n]"

fun be32_get :: "bytes \<Rightarrow> 32 word" where
  "be32_get [a, b, c, d] =
     or (push_bit 24 (ucast a)) (or (push_bit 16 (ucast b)) (or (push_bit 8 (ucast c)) (ucast d)))"
| "be32_get _ = 0"

text \<open>\<open>io.ReadFull\<close> into a buffer of \<open>n\<close> bytes.\<close>

definition read_full :: "nat \<Rightarrow> bytes \<Rightarrow> io_error + bytes \<times> bytes" where
  "read_full n r =
    (if n \<le> length r then Inr (take n r, drop n r)
     else if r = [] then Inl EOF else Inl ErrUnexpectedEOF)"

record writer =
  w_out :: bytes
  w_room :: nat

text \<open>\<open>w.Write\<close>: everything, or what fits and an error.\<close>

definition w_write :: "bytes \<Rightarrow> writer \<Rightarrow> bool \<times> writer" where
  "w_write bs w = (length bs \<le> w_room w,
     w\<lparr>w_out := w_out w @ take (w_room w) bs, w_room := w_room w - length bs\<rparr>)"

definition WriteFrame :: "writer \<Rightarrow> bytes \<Rightarrow> io_error option \<times> writer" where
  "WriteFrame w payload =
    (if MaxFrameSize < length payload then (Some ErrFrameTooLarge, w)
     else (case w_write (be32_put (of_nat (length payload))) w of
         (False, w1) \<Rightarrow> (Some ErrWrite, w1)
       | (True, w1) \<Rightarrow> (case w_write payload w1 of
             (False, w2) \<Rightarrow> (Some ErrWrite, w2)
           | (True, w2) \<Rightarrow> (None, w2))))"

definition ReadFrame :: "bytes \<Rightarrow> io_error + bytes \<times> bytes" where
  "ReadFrame r =
    (case read_full 4 r of
       Inl e \<Rightarrow> Inl e
     | Inr (hdr, r1) \<Rightarrow>
        (let n = be32_get hdr in
         if of_nat MaxFrameSize < n then Inl ErrFrameTooLarge
         else read_full (unat n) r1))"

text \<open>All frames of a stream, as the read loops take them, with the error that ends it.\<close>

function read_frames :: "bytes \<Rightarrow> bytes list \<times> io_error" where
  "read_frames r =
    (case ReadFrame r of
       Inl e \<Rightarrow> ([], e)
     | Inr (p, r') \<Rightarrow> (case read_frames r' of (ps, e) \<Rightarrow> (p # ps, e)))"
  by pat_completeness auto

lemma read_full_length: "read_full n r = Inr (p, r') \<Longrightarrow> length p = n \<and> length r = n + length r'"
  by (auto simp: read_full_def split: if_splits)

lemma ReadFrame_shorter: "ReadFrame r = Inr (p, r') \<Longrightarrow> length r' < length r"
  by (auto simp: ReadFrame_def Let_def split: sum.splits if_splits dest!: read_full_length)

termination read_frames
  by (relation "measure length") (auto dest: ReadFrame_shorter)

declare read_frames.simps [simp del]

lemma length_be32_put [simp]: "length (be32_put n) = 4"
  by (simp add: be32_put_def)

lemma be32_roundtrip: "be32_get (be32_put n) = n"
proof (rule bit_word_eqI)
  fix i :: nat
  assume "i < LENGTH(32)"
  then consider "i < 8" | "8 \<le> i" "i < 16" | "16 \<le> i" "i < 24" | "24 \<le> i" "i < 32"
    by fastforce
  then show "bit (be32_get (be32_put n)) i = bit n i"
    by cases (auto simp: be32_put_def bit_simps less_diff_conv2)
qed

section \<open>The contract of a framing\<close>

text \<open>
  What the connection loops of the server, the client and the WebSocket proxy rely on: what
  was encoded is what the decoder takes off the front of the stream, whatever follows.
\<close>

locale framing =
  fixes enc :: "'p \<Rightarrow> 'b list"
    and dec :: "'b list \<Rightarrow> 'e + 'p \<times> 'b list"
    and ok :: "'p \<Rightarrow> bool"
    and eof :: 'e
  assumes dec_enc: "ok p \<Longrightarrow> dec (enc p @ rest) = Inr (p, rest)"
    and dec_empty: "dec [] = Inl eof"
begin

fun decode_all :: "nat \<Rightarrow> 'b list \<Rightarrow> 'p list \<times> 'e option" where
  "decode_all 0 r = ([], None)"
| "decode_all (Suc n) r =
    (case dec r of Inl e \<Rightarrow> ([], Some e)
     | Inr (p, r') \<Rightarrow> (case decode_all n r' of (ps, e) \<Rightarrow> (p # ps, e)))"

lemma enc_inj: "ok p \<Longrightarrow> ok q \<Longrightarrow> enc p @ r = enc q @ r' \<Longrightarrow> p = q \<and> r = r'"
  by (metis dec_enc Pair_inject sum.inject(2))

lemma stream_inj:
  "list_all ok ps \<Longrightarrow> list_all ok qs \<Longrightarrow> length ps = length qs \<Longrightarrow>
   concat (map enc ps) = concat (map enc qs) \<Longrightarrow> ps = qs"
proof (induction ps arbitrary: qs)
  case (Cons p ps)
  then obtain q qs' where qs: "qs = q # qs'" by (cases qs) auto
  with Cons.prems have "p = q \<and> concat (map enc ps) = concat (map enc qs')"
    by (intro enc_inj) auto
  with Cons qs show ?case by auto
qed simp

lemma decode_all_stream:
  "list_all ok ps \<Longrightarrow> decode_all (Suc (length ps)) (concat (map enc ps)) = (ps, Some eof)"
  by (induction ps) (simp_all add: dec_enc dec_empty)

end

definition encode_frame :: "bytes \<Rightarrow> bytes" where
  "encode_frame p = be32_put (of_nat (length p)) @ p"

lemma ReadFrame_encode:
  assumes "length p \<le> MaxFrameSize"
  shows "ReadFrame (encode_frame p @ rest) = Inr (p, rest)"
proof -
  have len: "length p < 2 ^ 32" using assms by (simp add: MaxFrameSize_def)
  then have u: "unat (of_nat (length p) :: 32 word) = length p"
    by (simp add: unsigned_of_nat take_bit_nat_eq_self)
  have le: "\<not> (of_nat MaxFrameSize :: 32 word) < of_nat (length p)"
    using assms u by (simp add: word_less_nat_alt MaxFrameSize_def)
  show ?thesis using le u
    by (simp add: ReadFrame_def read_full_def encode_frame_def be32_roundtrip)
qed

interpretation frames: framing encode_frame ReadFrame "\<lambda>p. length p \<le> MaxFrameSize" EOF
  by unfold_locales (simp_all add: ReadFrame_encode, simp add: ReadFrame_def read_full_def)

lemma WriteFrame_out:
  assumes "length p \<le> MaxFrameSize" "length p + 4 \<le> w_room w"
  shows "WriteFrame w p = (None, w\<lparr>w_out := w_out w @ encode_frame p, w_room := w_room w - (length p + 4)\<rparr>)"
proof -
  have "length p \<le> w_room w - 4" using assms(2) by simp
  with assms show ?thesis by (simp add: WriteFrame_def w_write_def encode_frame_def)
qed

lemma read_frames_decode_all:
  "length ps < n \<Longrightarrow> frames.decode_all n r = (ps, Some e) \<Longrightarrow> read_frames r = (ps, e)"
proof (induction n arbitrary: r ps)
  case (Suc n)
  show ?case
  proof (cases "ReadFrame r")
    case (Inl a)
    with Suc.prems show ?thesis by (simp add: read_frames.simps [of r])
  next
    case (Inr a)
    obtain p r' where a: "a = (p, r')" by force
    with Suc.prems Inr obtain ps' where ps: "ps = p # ps'" "frames.decode_all n r' = (ps', Some e)"
      by (auto split: prod.splits)
    with Suc have "read_frames r' = (ps', e)" by auto
    with ps Inr a show ?thesis by (simp add: read_frames.simps [of r])
  qed
qed simp

text \<open>
  C7. What a sequence of successful \<open>WriteFrame\<close> calls puts on the wire is read back by the
  read loops as the same payloads in the same order, and the loop then ends with \<open>EOF\<close>.
\<close>

theorem frames_roundtrip:
  assumes "list_all (\<lambda>p. length p \<le> MaxFrameSize) ps"
    and "sum_list (map (\<lambda>p. length p + 4) ps) \<le> w_room w" and "w_out w = []"
  shows "read_frames (w_out (fold (\<lambda>p w. snd (WriteFrame w p)) ps w)) = (ps, EOF)"
proof -
  have "w_out (fold (\<lambda>p w. snd (WriteFrame w p)) ps w) = w_out w @ concat (map encode_frame ps)"
    using assms(1,2)
  proof (induction ps arbitrary: w)
    case (Cons p ps)
    then show ?case by (simp add: WriteFrame_out)
  qed simp
  then show ?thesis
    using frames.decode_all_stream [OF assms(1)] assms(3)
    by (auto intro!: read_frames_decode_all)
qed

theorem frames_roundtrip_witness:
  "read_frames (w_out (fold (\<lambda>p w. snd (WriteFrame w p)) [[1, 2], [], [7]]
     \<lparr>w_out = [], w_room = 100\<rparr>)) = ([[1, 2], [], [7]], EOF)"
  by (rule frames_roundtrip) (simp_all add: MaxFrameSize_def)

lemma be32_put_get: "be32_put (be32_get [a, b, c, d]) = [a, b, c, d]"
proof -
  have "ucast (drop_bit 24 (be32_get [a, b, c, d])) = a"
    by (rule bit_word_eqI) (auto simp: bit_simps dest: bit_imp_le_length)
  moreover have "ucast (drop_bit 16 (be32_get [a, b, c, d])) = b"
    by (rule bit_word_eqI) (auto simp: bit_simps dest: bit_imp_le_length)
  moreover have "ucast (drop_bit 8 (be32_get [a, b, c, d])) = c"
    by (rule bit_word_eqI) (auto simp: bit_simps dest: bit_imp_le_length)
  moreover have "ucast (be32_get [a, b, c, d]) = d"
    by (rule bit_word_eqI) (auto simp: bit_simps dest: bit_imp_le_length)
  ultimately show ?thesis by (simp add: be32_put_def)
qed

text \<open>
  \<open>ReadFrame\<close> accepts exactly the streams that begin with the encoding of a payload of
  at most 64 KiB, and gives that payload and the rest: it never returns more than
  \<open>MaxFrameSize\<close> bytes, whatever the header announces.
\<close>

theorem ReadFrame_iff:
  "ReadFrame r = Inr (p, rest) \<longleftrightarrow> length p \<le> MaxFrameSize \<and> r = encode_frame p @ rest"
proof
  assume *: "ReadFrame r = Inr (p, rest)"
  then obtain hdr r1 where h: "read_full 4 r = Inr (hdr, r1)"
    and le: "\<not> of_nat MaxFrameSize < be32_get hdr" and b: "read_full (unat (be32_get hdr)) r1 = Inr (p, rest)"
    by (auto simp: ReadFrame_def Let_def split: sum.splits if_splits)
  from h have hdr: "length hdr = 4" "r = hdr @ r1" by (auto simp: read_full_def split: if_splits)
  then obtain b1 b2 b3 b4 where h4: "hdr = [b1, b2, b3, b4]"
    by (auto simp: length_Suc_conv numeral_eq_Suc)
  from b have p: "length p = unat (be32_get hdr)" "r1 = p @ rest"
    by (auto simp: read_full_def split: if_splits)
  then have "(of_nat (length p) :: 32 word) = be32_get hdr" by simp
  moreover have "length p \<le> MaxFrameSize"
    using le p(1) by (simp add: word_less_nat_alt MaxFrameSize_def)
  ultimately show "length p \<le> MaxFrameSize \<and> r = encode_frame p @ rest"
    using hdr(2) p(2) h4 be32_put_get by (simp add: encode_frame_def)
qed (auto simp: ReadFrame_encode)

text \<open>
  A connection that breaks inside a frame never delivers a payload: every proper prefix
  of a frame is an error, \<open>EOF\<close> where no byte of the header or of the payload has arrived and
  \<open>ErrUnexpectedEOF\<close> elsewhere.
\<close>

theorem ReadFrame_truncated:
  assumes "length p \<le> MaxFrameSize" and "n < length (encode_frame p)"
  shows "ReadFrame (take n (encode_frame p)) = Inl (if n = 0 \<or> n = 4 then EOF else ErrUnexpectedEOF)"
proof (cases "n < 4")
  case True
  with assms(2) have "take n (encode_frame p) = [] \<longleftrightarrow> n = 0" by auto
  with True show ?thesis by (auto simp: ReadFrame_def read_full_def)
next
  case False
  have len: "length p < 2 ^ 32" using assms(1) by (simp add: MaxFrameSize_def)
  then have u: "unat (of_nat (length p) :: 32 word) = length p"
    by (simp add: unsigned_of_nat take_bit_nat_eq_self)
  have le: "\<not> (of_nat MaxFrameSize :: 32 word) < of_nat (length p)"
    using assms u by (simp add: word_less_nat_alt MaxFrameSize_def)
  have t: "take n (encode_frame p) = be32_put (of_nat (length p)) @ take (n - 4) p"
    using False by (simp add: encode_frame_def)
  have "n - 4 < length p" using assms(2) False by (simp add: encode_frame_def)
  then show ?thesis using le u False
    by (auto simp: t ReadFrame_def read_full_def be32_roundtrip)
qed

theorem ReadFrame_truncated_witness:
  "ReadFrame (take 5 (encode_frame [1, 2, 3])) = Inl ErrUnexpectedEOF"
proof -
  have "length [1, 2, 3 :: 8 word] \<le> MaxFrameSize" "5 < length (encode_frame [1, 2, 3])"
    by (simp_all add: MaxFrameSize_def encode_frame_def)
  from ReadFrame_truncated [OF this] show ?thesis by simp
qed

text \<open>
  An oversized payload is refused before anything is written: the writer is unchanged
  and the caller gets \<open>ErrFrameTooLarge\<close>; conversely a frame that is written completely was
  small enough.
\<close>

theorem WriteFrame_too_large:
  "(WriteFrame w p = (Some ErrFrameTooLarge, w') \<longleftrightarrow> MaxFrameSize < length p \<and> w' = w) \<and>
   (fst (WriteFrame w p) = None \<longleftrightarrow> length p \<le> MaxFrameSize \<and> length p + 4 \<le> w_room w)"
  by (auto simp: WriteFrame_def w_write_def split: bool.splits)

end
