(* ===== verification/Conn.thy ===== *)
theory Conn
  imports Chat Rocket_Facts Frame
begin

text \<open>
  \<open>internal/server/net/server_conn.go\<close>, \<open>readEnvelope\<close> of \<open>server_util.go\<close> and \<open>Envelope\<close> of
  \<open>protocol/messages.go\<close>: the life of a connection. A connection's input is the list of bytes
  that will arrive before it breaks or times out. The JSON decoder of the standard library is
  a parameter, the record \<open>codec\<close>: one function per struct that the server decodes, from the
  bytes of the JSON text; \<open>None\<close> is a decoding error.
\<close>

section \<open>Envelopes\<close>

record Envelope =
  env_Type :: string
  env_Data :: bytes

text \<open>
  \<open>u_Ping\<close> returns the struct as the decoder leaves it, also after an error: the ping handler
  does not look at the error.
\<close>

record codec =
  u_Envelope :: "bytes \<Rightarrow> Envelope option"
  u_Hello :: "bytes \<Rightarrow> Hello option"
  u_PlayerState :: "bytes \<Rightarrow> PlayerState option"
  u_ChatMessage :: "bytes \<Rightarrow> ChatMessage option"
  u_Ping :: "bytes \<Rightarrow> Ping"
  u_SelectItem :: "bytes \<Rightarrow> SelectItem option"
  u_PickupItem :: "bytes \<Rightarrow> PickupItem option"
  u_ThrowSpear :: "bytes \<Rightarrow> ThrowSpear option"
  u_CraftItem :: "bytes \<Rightarrow> CraftItem option"
  u_HitMammoth :: "bytes \<Rightarrow> HitMammoth option"
  u_PlantSeed :: "bytes \<Rightarrow> PlantSeed option"
  u_WaterPlant :: "bytes \<Rightarrow> WaterPlant option"
  u_TakeWater :: "bytes \<Rightarrow> TakeWater option"
  u_TameMammoth :: "bytes \<Rightarrow> TameMammoth option"
  u_LeashMammoth :: "bytes \<Rightarrow> LeashMammoth option"
  u_PlaceHouse :: "bytes \<Rightarrow> PlaceHouse option"
  u_ToggleDoor :: "bytes \<Rightarrow> ToggleDoor option"
  u_SaddleMammoth :: "bytes \<Rightarrow> SaddleMammoth option"
  u_RideMammoth :: "bytes \<Rightarrow> RideMammoth option"
  u_PlaceBoat :: "bytes \<Rightarrow> PlaceBoat option"
  u_EnterBoat :: "bytes \<Rightarrow> EnterBoat option"
  u_HitMob :: "bytes \<Rightarrow> HitMob option"
  u_AcceptContract :: "bytes \<Rightarrow> AcceptContract option"
  u_PlaceSolar :: "bytes \<Rightarrow> PlaceSolar option"
  u_PlaceBattery :: "bytes \<Rightarrow> PlaceBattery option"
  u_PlaceFactory :: "bytes \<Rightarrow> PlaceFactory option"
  u_OpenFactory :: "bytes \<Rightarrow> OpenFactory option"
  u_CraftFactory :: "bytes \<Rightarrow> CraftFactory option"
  u_PlaceRocket :: "bytes \<Rightarrow> PlaceRocket option"
  u_BoardRocket :: "bytes \<Rightarrow> BoardRocket option"
  u_RocketInput :: "bytes \<Rightarrow> RocketInput option"

text \<open>\<open>Decode\<close> into a fresh struct: absent data leaves it at its zero value \<open>z\<close>.\<close>

definition Decode :: "(bytes \<Rightarrow> 'p option) \<Rightarrow> 'p \<Rightarrow> Envelope \<Rightarrow> 'p option" where
  "Decode u z e = (if env_Data e = [] then Some z else u (env_Data e))"

definition readEnvelope :: "codec \<Rightarrow> bytes \<Rightarrow> (Envelope \<times> bytes) option" where
  "readEnvelope K r =
     (case ReadFrame r of
        Inl _ \<Rightarrow> None
      | Inr (payload, r') \<Rightarrow> map_option (\<lambda>e. (e, r')) (u_Envelope K payload))"

lemma readEnvelope_shorter: "readEnvelope K r = Some (e, r') \<Longrightarrow> length r' < length r"
  by (auto simp: readEnvelope_def split: sum.splits dest: ReadFrame_shorter)

section \<open>Handshake\<close>

definition is_hex :: "char \<Rightarrow> bool" where
  "is_hex c \<longleftrightarrow> (let n = of_char c :: nat in (48 \<le> n \<and> n \<le> 57) \<or> (97 \<le> n \<and> n \<le> 102) \<or> (65 \<le> n \<and> n \<le> 70))"

text \<open>\<open>strings.ToLower\<close> on ASCII letters, which is all that gets there.\<close>

definition lower :: "char \<Rightarrow> char" where
  "lower c = (let n = of_char c :: nat in if 65 \<le> n \<and> n \<le> 90 then char_of (n + 32) else c)"

definition sanitizeColorHex :: "string \<Rightarrow> string" where
  "sanitizeColorHex s =
     (if length s \<noteq> 7 \<or> s ! 0 \<noteq> CHR ''#'' then ''''
      else if \<not> list_all (\<lambda>i. is_hex (s ! i)) [1..<7] then ''''
      else map lower s)"

definition zero_hello :: Hello where
  "zero_hello = \<lparr>hello_Nick = '''', hello_Version = '''', hello_ColorHex = ''''\<rparr>"

definition nick_for :: "string \<Rightarrow> Hello \<Rightarrow> string" where
  "nick_for i h = (if hello_Nick h = '''' then ''anon-'' @ take 6 i else hello_Nick h)"

definition greet :: "Hello \<Rightarrow> Client \<Rightarrow> Client" where
  "greet h c = SetColorHex (sanitizeColorHex (hello_ColorHex h))
     (setState (zero_state (c_ID c) (nick_for (c_ID c) h)) (c\<lparr>c_Nick := nick_for (c_ID c) h\<rparr>))"

definition performHelloHandshake :: "codec \<Rightarrow> bytes \<Rightarrow> Client \<Rightarrow> (Client \<times> bytes) option" where
  "performHelloHandshake K r c =
     (case readEnvelope K r of
        None \<Rightarrow> None
      | Some (e, r') \<Rightarrow>
          if env_Type e \<noteq> tag TypeHello then None
          else map_option (\<lambda>h. (greet h c, r')) (Decode (u_Hello K) zero_hello e))"

section \<open>Registration\<close>

definition registerClient :: "Client \<Rightarrow> Server \<Rightarrow> Server" where
  "registerClient c s =
     (let c' = sendEnvelope (MsgInventory mempty)
          (sendEnvelope (MsgWelcome \<lparr>welcome_PlayerID = c_ID c, welcome_WorldName = ''lodeen-flat'',
             welcome_TickRate = s_tickRate s, welcome_ServerVersion = ''dev''\<rparr>) c)
      in (put_client (c_ID c) c' s)\<lparr>s_PlayersConnected := s_PlayersConnected s + 1\<rparr>)"

definition free_rocket :: "string \<Rightarrow> Rocket \<Rightarrow> Rocket" where
  "free_rocket cid r = (if rk_OwnerID r = cid then r\<lparr>rk_Piloted := False, rk_OwnerID := '''', rk_Thrust := 0\<rparr> else r)"

definition unregisterClient :: "string \<Rightarrow> Server \<Rightarrow> Server" where
  "unregisterClient cid s =
     s\<lparr>s_clients := mdel cid (s_clients s), s_PlayersConnected := s_PlayersConnected s - 1,
       s_rockets := mmap (free_rocket cid) (s_rockets s)\<rparr>"

section \<open>The write loop\<close>

text \<open>
  \<open>writeLoop\<close> until the queue is empty or a write fails: every message is marshalled by \<open>m\<close>,
  framed and written; the first error ends the loop for good.
\<close>

fun writeLoop :: "(srv_msg \<Rightarrow> bytes) \<Rightarrow> srv_msg list \<Rightarrow> writer \<Rightarrow> bool \<times> writer" where
  "writeLoop m [] w = (True, w)"
| "writeLoop m (p # ps) w =
     (case WriteFrame w (m p) of
        (None, w') \<Rightarrow> writeLoop m ps w'
      | (Some _, w') \<Rightarrow> (False, w'))"

section \<open>The invariant\<close>

lemma client_ok_greet: "client_ok c \<Longrightarrow> client_ok (greet h c) \<and> c_ID (greet h c) = c_ID c"
  by (simp add: greet_def Let_def SetColorHex_def setState_def client_ok_def)

lemma server_inv_registerClient [inv_intros]: "server_inv s \<Longrightarrow> client_ok c \<Longrightarrow> server_inv (registerClient c s)"
  unfolding registerClient_def Let_def by (simp, intro inv_intros) simp_all

lemma clients_inv_del: "clients_inv s \<Longrightarrow> clients_inv (s\<lparr>s_clients := mdel cid (s_clients s)\<rparr>)"
  by (auto simp: clients_inv_def intro: keyed_del mall_del)

lemma server_inv_unregisterClient [inv_intros]: "server_inv s \<Longrightarrow> server_inv (unregisterClient cid s)"
proof -
  assume s: "server_inv s"
  let ?s = "s\<lparr>s_clients := mdel cid (s_clients s)\<rparr>"
  have i: "server_inv ?s" using s clients_inv_del by (simp add: server_inv_def)
  have "rockets_inv (mmap (free_rocket cid) (s_rockets s))"
    using server_inv_stores(8) [OF s]
    by (auto simp: rockets_inv_def free_rocket_def rocket_ok_def intro!: keyed_mmap mall_mmap [where P = rocket_ok])
  then have "server_inv (?s\<lparr>s_rockets := mmap (free_rocket cid) (s_rockets s)\<rparr>)" using i by (intro inv_intros)
  then show ?thesis unfolding unregisterClient_def
    by (simp add: server_inv_def clients_inv_def world_inv_def)
qed

section \<open>Correctness\<close>

lemma lower_hex: "is_hex c \<Longrightarrow> is_hex (lower c) \<and> lower (lower c) = lower c"
proof -
  let ?n = "of_char c :: nat"
  assume h: "is_hex c"
  then have n: "?n \<le> 102" by (auto simp: is_hex_def Let_def)
  show ?thesis
  proof (cases "65 \<le> ?n \<and> ?n \<le> 90")
    case True
    then have "of_char (char_of (?n + 32)) = ?n + 32" by (simp add: of_char_of)
    with True h show ?thesis by (auto simp: lower_def is_hex_def Let_def)
  next
    case False
    with h show ?thesis by (auto simp: lower_def Let_def)
  qed
qed

definition color_ok :: "string \<Rightarrow> bool" where
  "color_ok s \<longleftrightarrow> length s = 7 \<and> s ! 0 = CHR ''#'' \<and> (\<forall>i\<in>{1..<7}. is_hex (s ! i))"

lemma lower_hash: "lower (CHR ''#'') = CHR ''#''"
  by (simp add: lower_def)

lemma sanitize_eq: "sanitizeColorHex s = (if color_ok s then map lower s else '''')"
  by (auto simp: sanitizeColorHex_def color_ok_def list_all_iff)

text \<open>
  The colour that a player gets is empty or a hash and six hexadecimal digits in lower case;
  it is empty exactly when the given colour is no such string in upper or lower case, and
  cleaning twice is cleaning once.
\<close>

theorem sanitizeColorHex_correct:
  "(sanitizeColorHex s = '''' \<longleftrightarrow> \<not> color_ok s) \<and>
   (sanitizeColorHex s \<noteq> '''' \<longrightarrow> color_ok (sanitizeColorHex s) \<and> map lower (sanitizeColorHex s) = sanitizeColorHex s) \<and>
   sanitizeColorHex (sanitizeColorHex s) = sanitizeColorHex s"
proof -
  have "color_ok (map lower s) \<and> map lower (map lower s) = map lower s" if c: "color_ok s"
  proof -
    have e: "s ! i = CHR ''#'' \<or> is_hex (s ! i)" if "i < length s" for i
      using that c by (cases "i = 0") (auto simp: color_ok_def)
    have "lower (lower (s ! i)) = lower (s ! i)" if "i < length s" for i
      using e [OF that] lower_hex lower_hash by metis
    then have "map lower (map lower s) = map lower s" by (intro nth_equalityI) simp_all
    with c show ?thesis by (auto simp: color_ok_def lower_hash lower_hex)
  qed
  moreover have "color_ok s \<Longrightarrow> s \<noteq> ''''" "\<not> color_ok ''''" by (auto simp: color_ok_def)
  ultimately show ?thesis by (auto simp: sanitize_eq)
qed

theorem sanitizeColorHex_correct_witness:
  "sanitizeColorHex ''#Ff00aA'' = ''#ff00aa'' \<and> color_ok (sanitizeColorHex ''#Ff00aA'')"
proof -
  have "sanitizeColorHex ''#Ff00aA'' = ''#ff00aa''" by code_simp
  with sanitizeColorHex_correct [of "''#Ff00aA''"] show ?thesis by simp
qed

text \<open>
  A connection is accepted exactly when its first frame is an envelope with the tag
  \<open>hello\<close> whose payload can be decoded. The player then has the identifier that the server
  drew, the given name or \<open>anon-\<close> with six digits of it, a cleaned colour, and the
  bytes after that frame are left for the read loop.
\<close>

theorem performHelloHandshake_correct:
  "performHelloHandshake K r (new_client i) = Some (c, r') \<longleftrightarrow>
     (\<exists>p e h. ReadFrame r = Inr (p, r') \<and> u_Envelope K p = Some e \<and> env_Type e = ''hello'' \<and>
        (if env_Data e = [] then Some zero_hello else u_Hello K (env_Data e)) = Some h \<and>
        c = (new_client i)\<lparr>c_Nick := nick_for i h, c_state := zero_state i (nick_for i h),
              c_colorHex := sanitizeColorHex (hello_ColorHex h)\<rparr>)"
proof -
  have g: "greet h (new_client i) = (new_client i)\<lparr>c_Nick := nick_for i h, c_state := zero_state i (nick_for i h),
      c_colorHex := sanitizeColorHex (hello_ColorHex h)\<rparr>" for h
    by (simp add: greet_def new_client_def SetColorHex_def setState_def zero_state_def)
  show ?thesis
  proof (cases "ReadFrame r")
    case (Inr a)
    then show ?thesis
      by (cases a; cases "u_Envelope K (fst a)")
         (auto simp: performHelloHandshake_def readEnvelope_def Decode_def g)
  qed (simp add: performHelloHandshake_def readEnvelope_def)
qed

lemma mmap_id_on: "(\<And>k v. mget m k = Some v \<Longrightarrow> f v = v) \<Longrightarrow> mmap f m = m"
  by transfer (auto intro!: map_idI simp: map_of_eq_Some_iff)

lemma mdel_mput: "mget m k = None \<Longrightarrow> mdel k (mput k v m) = m"
proof transfer
  fix m :: "(string \<times> 'a) list" and k v
  assume "map_of m k = None"
  then have k: "k \<notin> fst ` set m" by (simp add: map_of_eq_None_iff)
  then have "AList.update k v m = m @ [(k, v)]" by (induction m) auto
  moreover have "filter (\<lambda>kv. k \<noteq> fst kv) m = m" using k by (intro filter_True) auto
  ultimately show "AList.delete k (AList.update k v m) = m" by (simp add: AList.delete_eq case_prod_unfold)
qed

text \<open>
  Joining and leaving again without doing anything leaves the server exactly as it was, the
  gauge of connected players included, when the identifier is fresh.
\<close>

theorem connection_roundtrip:
  assumes "mget (s_clients s) (c_ID c) = None"
    and "\<forall>k. case mget (s_rockets s) k of None \<Rightarrow> True | Some r \<Rightarrow> rk_OwnerID r \<noteq> c_ID c"
  shows "unregisterClient (c_ID c) (registerClient c s) = s"
proof -
  have "free_rocket (c_ID c) r = r" if "mget (s_rockets s) k = Some r" for k r
    using assms(2) that by (auto simp: free_rocket_def dest!: spec [of _ k])
  then show ?thesis using assms(1)
    by (simp add: unregisterClient_def registerClient_def put_client_def Let_def mmap_id_on mdel_mput)
qed

theorem connection_roundtrip_witness:
  "unregisterClient ''b'' (registerClient (new_client ''b'') (lone_server (new_client ''a''))) = lone_server (new_client ''a'')"
  using connection_roundtrip [of "lone_server (new_client ''a'')" "new_client ''b''"]
  by (simp add: new_client_def) (simp add: lone_server_def newStore_def)

text \<open>
  C15. Whoever leaves is no longer a player, and no rocket has them as owner or keeps their
  thrust; rockets of others, other players and all other stores stay as they are.
\<close>

theorem unregisterClient_correct:
  assumes "server_inv s" and "cid \<noteq> ''''"
  shows "mget (s_clients (unregisterClient cid s)) cid = None \<and>
    (\<forall>k. k \<noteq> cid \<longrightarrow> mget (s_clients (unregisterClient cid s)) k = mget (s_clients s) k) \<and>
    (\<forall>k. case mget (s_rockets s) k of
       None \<Rightarrow> mget (s_rockets (unregisterClient cid s)) k = None
     | Some r \<Rightarrow> \<exists>r'. mget (s_rockets (unregisterClient cid s)) k = Some r' \<and> rk_OwnerID r' \<noteq> cid \<and>
         (rk_OwnerID r = cid \<longrightarrow> \<not> rk_Piloted r' \<and> rk_Thrust r' = 0 \<and> rk_Fuel r' = rk_Fuel r) \<and>
         (rk_OwnerID r \<noteq> cid \<longrightarrow> r' = r)) \<and>
    unregisterClient cid s = s\<lparr>s_clients := s_clients (unregisterClient cid s),
      s_rockets := s_rockets (unregisterClient cid s), s_PlayersConnected := s_PlayersConnected s - 1\<rparr>"
  using assms(2) by (auto simp: unregisterClient_def free_rocket_def split: option.split)

theorem unregisterClient_correct_witness:
  "mget (s_clients (unregisterClient ''a'' (lone_server (new_client ''a'')))) ''a'' = None"
proof -
  have "server_inv (lone_server (new_client ''a''))" by (intro server_inv_lone client_ok_new) simp
  from unregisterClient_correct [OF this, of "''a''"] show ?thesis by simp
qed

lemma writeLoop_frames:
  assumes "list_all (\<lambda>p. length (m p) \<le> MaxFrameSize) ps" "sum_list (map (\<lambda>p. length (m p) + 4) ps) \<le> w_room w"
  shows "\<exists>w'. (\<forall>qs. writeLoop m (ps @ qs) w = writeLoop m qs w') \<and>
    w_out w' = w_out w @ concat (map encode_frame (map m ps))"
  using assms
proof (induction ps arbitrary: w)
  case (Cons p ps)
  let ?w = "w\<lparr>w_out := w_out w @ encode_frame (m p), w_room := w_room w - (length (m p) + 4)\<rparr>"
  have "WriteFrame w (m p) = (None, ?w)" using Cons.prems by (intro WriteFrame_out) auto
  moreover have "sum_list (map (\<lambda>p. length (m p) + 4) ps) \<le> w_room ?w" using Cons.prems(2) by simp
  with Cons.IH [of ?w] Cons.prems(1) obtain w' where
    "\<And>qs. writeLoop m (ps @ qs) ?w = writeLoop m qs w'"
    "w_out w' = w_out ?w @ concat (map encode_frame (map m ps))" by auto
  ultimately show ?case by (intro exI [of _ w']) simp
qed auto

lemma read_frames_encoded:
  "list_all (\<lambda>p. length p \<le> MaxFrameSize) ps \<Longrightarrow> read_frames (concat (map encode_frame ps)) = (ps, EOF)"
  using frames.decode_all_stream [of ps] by (auto intro!: read_frames_decode_all)

text \<open>
  C8. The write loop delivers the queue in order: when the connection takes everything and no
  message is larger than a frame may be, the other side reads exactly the marshalled messages;
  the first message that is too large ends the loop and all later ones are lost.
\<close>

theorem writeLoop_correct:
  assumes "list_all (\<lambda>p. length (m p) \<le> MaxFrameSize) ps"
    and "sum_list (map (\<lambda>p. length (m p) + 4) ps) \<le> w_room w" and "w_out w = []"
  shows "read_frames (w_out (snd (writeLoop m ps w))) = (map m ps, EOF) \<and> fst (writeLoop m ps w) \<and>
    (\<forall>big qs. MaxFrameSize < length (m big) \<longrightarrow>
       \<not> fst (writeLoop m (ps @ big # qs) w) \<and>
       read_frames (w_out (snd (writeLoop m (ps @ big # qs) w))) = (map m ps, EOF))"
proof -
  obtain w' where w: "\<And>qs. writeLoop m (ps @ qs) w = writeLoop m qs w'"
    "w_out w' = concat (map encode_frame (map m ps))"
    using writeLoop_frames [OF assms(1,2)] assms(3) by auto
  have r: "read_frames (w_out w') = (map m ps, EOF)"
    unfolding w(2) using assms(1) by (intro read_frames_encoded) (simp add: list.pred_map comp_def)
  have "writeLoop m (ps @ big # qs) w = (False, w')" if "MaxFrameSize < length (m big)" for big qs
    using that by (simp add: w(1) WriteFrame_def)
  then show ?thesis using r w(1) [of "[]"] by simp
qed

theorem writeLoop_correct_witness:
  "read_frames (w_out (snd (writeLoop (\<lambda>_. [1, 2]) [MsgInventory mempty, MsgInventory mempty]
     \<lparr>w_out = [], w_room = 100\<rparr>))) = ([[1, 2], [1, 2]], EOF)"
  using writeLoop_correct [of "\<lambda>_. [1, 2]" "[MsgInventory mempty, MsgInventory mempty]" "\<lparr>w_out = [], w_room = 100\<rparr>"]
  by (simp add: MaxFrameSize_def)

end
