(* ===== verification/Hunger.thy ===== *)
theory Hunger
  imports Invariants
begin

text \<open>
  \<open>tickHunger\<close> of \<open>server_tick.go\<close>: every tick makes every player a little hungrier and lets a
  player below 50 eat fruit, then meat, from the inventory. The eating loop ends because every
  round takes an item; it is modelled as a recursion on the number of food items left.
\<close>

definition autoEatThreshold :: f32 where "autoEatThreshold = c32 50"

definition hunger_dec :: "f64 \<Rightarrow> f32" where
  "hunger_dec dt = f32_of (c64 (333 / 1000) * dt)"

definition food :: "Client \<Rightarrow> nat" where
  "food c = nat (has ''fruit'' c) + nat (has ''meat'' c)"

definition eat :: "string \<Rightarrow> f32 \<Rightarrow> Client \<Rightarrow> Client" where
  "eat item h c = sendInventory (addHunger h (snd (consumeItem item c)))"

lemma food_eat:
  assumes "0 < has item c" "item = ''fruit'' \<or> item = ''meat''"
  shows "food (eat item h c) < food c"
proof -
  have "has k (eat item h c) = (if k = item then i64 (has item c - 1) else has k c)" for k
    using assms(1) by (simp add: eat_def has_def consumeItem_def mget_int_take addHunger_def)
  then show ?thesis using assms(2) i64_pred_le [OF assms(1)] assms(1) by (auto simp: food_def)
qed

function auto_eat :: "Client \<Rightarrow> Client" where
  "auto_eat c =
     (if \<not> Hunger c < autoEatThreshold then c
      else if 0 < has ''fruit'' c then auto_eat (eat ''fruit'' (c32 20) c)
      else if 0 < has ''meat'' c then auto_eat (eat ''meat'' (c32 30) c)
      else c)"
  by pat_completeness auto
termination by (relation "measure food") (auto intro: food_eat)

declare auto_eat.simps [simp del]

definition hunger_client :: "f32 \<Rightarrow> Client \<Rightarrow> Client" where
  "hunger_client d c = auto_eat (addHunger (- d) c)"

definition tickHunger :: "f64 \<Rightarrow> Server \<Rightarrow> Server" where
  "tickHunger dt s = s\<lparr>s_clients := mmap (hunger_client (hunger_dec dt)) (s_clients s)\<rparr>"

section \<open>Correctness\<close>

lemma food_consts: "c32 20 = F32 (Fin 20)" "c32 30 = F32 (Fin 30)" "c32 50 = F32 (Fin 50)"
  by code_simp+

lemma client_ok_eat: "client_ok c \<Longrightarrow> raw32 h \<noteq> NaN \<Longrightarrow> client_ok (eat item h c)"
  unfolding eat_def by (intro inv_intros)

lemma c_ID_eat [simp]: "c_ID (eat item h c) = c_ID c"
  by (simp add: eat_def)

lemma auto_eat_inv:
  assumes "\<And>c. P c \<Longrightarrow> 0 < has ''fruit'' c \<Longrightarrow> P (eat ''fruit'' (c32 20) c)"
    "\<And>c. P c \<Longrightarrow> 0 < has ''meat'' c \<Longrightarrow> P (eat ''meat'' (c32 30) c)"
  shows "P c \<Longrightarrow> P (auto_eat c)"
proof (induction c rule: auto_eat.induct)
  case (1 c)
  then show ?case using assms by (subst auto_eat.simps) simp
qed

lemma client_ok_auto_eat: "client_ok c \<Longrightarrow> client_ok (auto_eat c)"
  by (rule auto_eat_inv) (simp_all add: client_ok_eat food_consts)

lemma c_ID_auto_eat [simp]: "c_ID (auto_eat c) = c_ID c"
  by (rule auto_eat_inv [where P = "\<lambda>c'. c_ID c' = c_ID c"]) simp_all

lemma auto_eat_done: "\<not> Hunger (auto_eat c) < autoEatThreshold \<or>
    \<not> 0 < has ''fruit'' (auto_eat c) \<and> \<not> 0 < has ''meat'' (auto_eat c)"
proof (induction c rule: auto_eat.induct)
  case (1 c)
  show ?case
  proof (cases "\<not> Hunger c < autoEatThreshold \<or> \<not> 0 < has ''fruit'' c \<and> \<not> 0 < has ''meat'' c")
    case True
    then have "auto_eat c = c" by (subst auto_eat.simps) auto
    with True show ?thesis by simp
  next
    case False
    then show ?thesis using 1 by (subst (1 2 3) auto_eat.simps) auto
  qed
qed

lemma recip_not_nan: "is_fin x \<Longrightarrow> fdiv f (Fin 1) x \<noteq> NaN"
  by (cases x) (auto simp: fdiv_def Let_def mk_def mk_sel_def)

lemma hunger_dec_not_nan:
  "raw64 dt \<noteq> NaN \<Longrightarrow> raw32 (- hunger_dec dt) \<noteq> NaN"
proof -
  assume dt: "raw64 dt \<noteq> NaN"
  have "case raw64 (c64 (333 / 1000)) of Fin r \<Rightarrow> 0 < r | _ \<Rightarrow> False" by code_simp
  then obtain r where r: "raw64 (c64 (333 / 1000)) = Fin r" "0 < r"
    by (auto split: gofloat.splits)
  have "raw64 (c64 (333 / 1000) * dt) \<noteq> NaN"
    using dt r(2) unfolding raw64_ops(4) r(1)
    by (cases "raw64 dt") (auto simp: fmul_def Let_def mk_def mk_sel_def)
  then have "raw32 (hunger_dec dt) \<noteq> NaN"
    by (cases "raw64 (c64 (333 / 1000) * dt)") (auto simp: hunger_dec_def raw32_ops mk_def mk_sel_def)
  then show "raw32 (- hunger_dec dt) \<noteq> NaN"
    by (cases "raw32 (hunger_dec dt)") (auto simp: raw32_ops)
qed

lemma hunger_client_ok:
  "client_ok c \<Longrightarrow> raw64 dt \<noteq> NaN \<Longrightarrow> client_ok (hunger_client (hunger_dec dt) c)"
  unfolding hunger_client_def by (intro client_ok_auto_eat client_ok_addHunger hunger_dec_not_nan)

lemma clients_inv_tickHunger [inv_intros]:
  "clients_inv s \<Longrightarrow> raw64 dt \<noteq> NaN \<Longrightarrow> clients_inv (tickHunger dt s)"
  unfolding clients_inv_def tickHunger_def
  by (auto intro!: keyed_mmap mall_mmap [where P = client_ok] hunger_client_ok simp: hunger_client_def addHunger_def)

lemma server_inv_tickHunger [inv_intros]:
  "server_inv s \<Longrightarrow> raw64 dt \<noteq> NaN \<Longrightarrow> server_inv (tickHunger dt s)"
  by (auto simp: server_inv_def tickHunger_def dest: clients_inv_tickHunger)

text \<open>
  C12. One tick of hunger, with any step that is a number: the eating loop ends; every player
  stays within bounds (hunger between 0 and 100) and afterwards either is at 50 or more or has
  no fruit and no meat left; nobody joins or leaves.
\<close>

theorem tickHunger_correct:
  assumes "clients_inv s" and "raw64 dt \<noteq> NaN"
  shows "clients_inv (tickHunger dt s) \<and>
    (\<forall>cid. case mget (s_clients (tickHunger dt s)) cid of
       None \<Rightarrow> mget (s_clients s) cid = None
     | Some c' \<Rightarrow> mget (s_clients s) cid \<noteq> None \<and> in32 0 100 (Hunger c') \<and>
         (\<not> Hunger c' < autoEatThreshold \<or> has ''fruit'' c' \<le> 0 \<and> has ''meat'' c' \<le> 0))"
proof -
  have "clients_inv (tickHunger dt s)" using assms by (rule clients_inv_tickHunger)
  moreover have "in32 0 100 (Hunger c')" if "mget (s_clients (tickHunger dt s)) cid = Some c'" for cid c'
    using clients_invD [OF calculation that] by (simp add: client_ok_def hunger_ok_def Hunger_def)
  moreover have "mget (s_clients s) cid \<noteq> None \<and>
      (\<not> Hunger c' < autoEatThreshold \<or> has ''fruit'' c' \<le> 0 \<and> has ''meat'' c' \<le> 0)"
    if "mget (s_clients (tickHunger dt s)) cid = Some c'" for cid c'
    using that auto_eat_done by (auto simp: tickHunger_def hunger_client_def not_less)
  moreover have "mget (s_clients s) cid = None" if "mget (s_clients (tickHunger dt s)) cid = None" for cid
    using that by (simp add: tickHunger_def)
  ultimately show ?thesis by (auto split: option.split)
qed

theorem tickHunger_correct_witness:
  "\<exists>c'. mget (s_clients (tickHunger (c64 0) (lone_server ((player_with [(''meat'', 3)])\<lparr>c_hunger := c32 10\<rparr>)))) ''a'' = Some c' \<and>
     in32 0 100 (Hunger c')"
proof -
  let ?s = "lone_server ((player_with [(''meat'', 3)])\<lparr>c_hunger := c32 10\<rparr>)"
  have "hunger_ok (c32 10)" by code_simp
  then have "client_ok ((player_with [(''meat'', 3)])\<lparr>c_hunger := c32 10\<rparr>)"
    using client_ok_player_with [of "[(''meat'', 3)]"] by (simp add: client_ok_def in_i64_def)
  then have "clients_inv ?s" by (rule clients_inv_lone)
  moreover have "raw64 (c64 0) \<noteq> NaN" by (simp add: raw64_ops mk_def mk_sel_def)
  ultimately show ?thesis
    using tickHunger_correct [of ?s "c64 0"] by (auto simp: tickHunger_def split: option.splits dest!: spec [of _ "''a''"])
qed

end
