(* ===== verification/Mobs.thy ===== *)
theory Mobs
  imports Mammoths
begin

text \<open>
  \<open>internal/server/net/mobs.go\<close>, \<open>mobs_collector.go\<close>, \<open>mobs_pink.go\<close>, \<open>mobs_handlers.go\<close>,
  \<open>mobs_projectiles.go\<close> and \<open>projectiles.go\<close>: hostile mobs that throw spears, collectors, pink
  mobs and their contracts, the flight of projectiles, and the players' spears. A mob is
  changed through its pointer: \<open>with_mob\<close> reads the entry of its key and \<open>put_mob\<close> writes it.
\<close>

definition with_mob :: "string \<Rightarrow> Server \<Rightarrow> (Mob \<Rightarrow> Server) \<Rightarrow> Server" where
  "with_mob k s f = (case mget (s_mobs s) k of None \<Rightarrow> s | Some m \<Rightarrow> f m)"

definition put_mob :: "string \<Rightarrow> Mob \<Rightarrow> Server \<Rightarrow> Server" where
  "put_mob k m s = s\<lparr>s_mobs := mput k m (s_mobs s)\<rparr>"

section \<open>Spawning\<close>

definition mob_kind_hp :: "nat \<Rightarrow> string \<times> int" where
  "mob_kind_hp i = (if i mod 3 = 1 then (''collector'', 10) else if i mod 3 = 2 then (''pink'', 10)
     else (''hostile'', 1))"

definition mk_mob :: "string \<Rightarrow> Vector3 \<Rightarrow> string \<times> int \<Rightarrow> Mob" where
  "mk_mob k pos kh = \<lparr>mob_ID = k, mob_Pos = pos, mob_HP = snd kh, mob_MaxHP = snd kh, mob_Kind = fst kh,
     mob_LastAttackAt = zero_time, mob_Angered = False, mob_Inventory = mempty, mob_Contract = '''',
     mob_OwnerID = '''', mob_DeliveredAt = zero_time\<rparr>"

definition spawn_mob :: "env \<Rightarrow> nat \<Rightarrow> Server \<Rightarrow> Server" where
  "spawn_mob E i s = (case surface_point E s of (pos, s') \<Rightarrow> case new_id s' of (k, s'') \<Rightarrow>
     put_mob k (mk_mob k pos (mob_kind_hp i)) s'')"

definition spawnMobs :: "env \<Rightarrow> nat \<Rightarrow> Server \<Rightarrow> Server" where
  "spawnMobs E n s = fold (spawn_mob E) [0..<n] s"

section \<open>Movement\<close>

definition moveByDir :: "env \<Rightarrow> Vector3 \<Rightarrow> f32 \<Rightarrow> Mob \<Rightarrow> Mob" where
  "moveByDir E u d m = m\<lparr>mob_Pos := ClampToSurface E (vadd (mob_Pos m) (vscale u d))\<rparr>"

definition move_dist :: "env \<Rightarrow> Vector3 \<Rightarrow> f32 \<Rightarrow> f32 \<Rightarrow> Mob \<Rightarrow> Mob" where
  "move_dist E dir d step m = (if d < c32 (1 / 100) then m else moveByDir E (vdiv dir d) step m)"

definition moveTowards :: "env \<Rightarrow> Vector3 \<Rightarrow> f32 \<Rightarrow> Mob \<Rightarrow> Mob" where
  "moveTowards E target step m =
     move_dist E (vsub target (mob_Pos m)) (vlen (vsub target (mob_Pos m))) step m"

section \<open>Projectiles of mobs\<close>

definition mk_projectile :: "string \<Rightarrow> Mob \<Rightarrow> Vector3 \<Rightarrow> string \<Rightarrow> gotime \<Rightarrow> Projectile" where
  "mk_projectile pid m dir target now = \<lparr>proj_ID = pid, proj_Pos = mob_Pos m, proj_Dir = dir, proj_Speed = c32 12,
     proj_OwnerMobID = mob_ID m, proj_TargetID = target, proj_SpawnAt = now\<rparr>"

definition throw_projectile :: "Mob \<Rightarrow> Vector3 \<Rightarrow> string \<Rightarrow> gotime \<Rightarrow> Server \<Rightarrow> Server" where
  "throw_projectile m dir target now s = (case new_id s of (pid, s') \<Rightarrow>
     s'\<lparr>s_projectiles := mput pid (mk_projectile pid m dir target now) (s_projectiles s')\<rparr>)"

section \<open>Hostile mobs\<close>

definition mobAttackCooldown :: duration where "mobAttackCooldown = 1500 * millisecond"
definition mobAttackDamage :: int where "mobAttackDamage = 2"

record mobPlayerInfo =
  mpi_id :: string
  mpi_state :: PlayerState

definition snapshotMobPlayers :: "env \<Rightarrow> Server \<Rightarrow> mobPlayerInfo list" where
  "snapshotMobPlayers E s = map (\<lambda>c. \<lparr>mpi_id = c_ID c, mpi_state = State c\<rparr>)
     (range_vals (e_ord E) [''snapshotMobPlayers''] (s_clients s))"

definition findNearestPlayer :: "mobPlayerInfo list \<Rightarrow> Vector3 \<Rightarrow> mobPlayerInfo option \<times> f32" where
  "findNearestPlayer players pos = nearest (\<lambda>p. d2_32 (ps_pos (mpi_state p)) pos) (c32 625) players"

definition mobThrowSpear :: "Mob \<Rightarrow> mobPlayerInfo \<Rightarrow> Vector3 \<Rightarrow> gotime \<Rightarrow> Server \<Rightarrow> Server" where
  "mobThrowSpear m target u now s = throw_projectile m u (mpi_id target) now s"

definition hostile_act :: "env \<Rightarrow> string \<Rightarrow> Mob \<Rightarrow> mobPlayerInfo \<Rightarrow> f32 \<Rightarrow> Vector3 \<Rightarrow> f32 \<Rightarrow> Server \<Rightarrow> Server" where
  "hostile_act E k m p minD2 u dt s =
     (if minD2 < c32 36 then put_mob k (moveByDir E (vneg u) (c32 5 * dt) m) s
      else if c32 144 < minD2 then put_mob k (moveByDir E u (c32 5 * dt) m) s
      else if mobAttackCooldown \<le> time_sub (e_now E) (mob_LastAttackAt m)
      then mobThrowSpear (m\<lparr>mob_LastAttackAt := e_now E\<rparr>) p u (e_now E)
             (put_mob k (m\<lparr>mob_LastAttackAt := e_now E\<rparr>) s)
      else s)"

definition hostile_at :: "env \<Rightarrow> string \<Rightarrow> Mob \<Rightarrow> mobPlayerInfo \<Rightarrow> f32 \<Rightarrow> Vector3 \<Rightarrow> f32 \<Rightarrow> f32 \<Rightarrow> Server \<Rightarrow> Server" where
  "hostile_at E k m p minD2 dir d dt s =
     (if d < c32 (1 / 100) then s else hostile_act E k m p minD2 (vdiv dir d) dt s)"

definition tickHostileMob :: "env \<Rightarrow> string \<Rightarrow> mobPlayerInfo list \<Rightarrow> f32 \<Rightarrow> Server \<Rightarrow> Server" where
  "tickHostileMob E k players dt s = with_mob k s (\<lambda>m.
     case findNearestPlayer players (mob_Pos m) of
       (None, _) \<Rightarrow> s
     | (Some p, minD2) \<Rightarrow>
         hostile_at E k m p minD2 (vsub (ps_pos (mpi_state p)) (mob_Pos m))
           (vlen (vsub (ps_pos (mpi_state p)) (mob_Pos m))) dt s)"

section \<open>Collectors\<close>

definition nearest_resource :: "env \<Rightarrow> string list \<Rightarrow> Vector3 \<Rightarrow> Server \<Rightarrow> Resource option \<times> f32" where
  "nearest_resource E site pos s = nearest (\<lambda>r. d2_32 (res_pos r) pos) (c32 1600)
     (range_vals (e_ord E) site (s_resources s))"

definition walk_mob :: "env \<Rightarrow> Vector3 \<Rightarrow> f32 \<Rightarrow> f32 \<Rightarrow> f32 \<Rightarrow> Mob \<Rightarrow> Mob" where
  "walk_mob E dir d speed dt m =
     (if d < c32 (1 / 100) then m else m\<lparr>mob_Pos := walk E (mob_Pos m) dir d speed dt\<rparr>)"

definition stow :: "string \<Rightarrow> Mob \<Rightarrow> Mob" where
  "stow item m = m\<lparr>mob_Inventory := inv_add item 1 (mob_Inventory m)\<rparr>"

definition tickCollector :: "env \<Rightarrow> string \<Rightarrow> f32 \<Rightarrow> Server \<Rightarrow> Server" where
  "tickCollector E k dt s = with_mob k s (\<lambda>m.
     case nearest_resource E [''tickCollector'', k] (mob_Pos m) s of
       (None, _) \<Rightarrow> s
     | (Some r, bestD2) \<Rightarrow>
         if bestD2 < c32 (25 / 4) then
           (case mget (s_resources s) (res_ID r) of
              None \<Rightarrow> s
            | Some _ \<Rightarrow> put_mob k (stow (res_Type r) m) (s\<lparr>s_resources := mdel (res_ID r) (s_resources s)\<rparr>))
         else put_mob k (walk_mob E (vsub (res_pos r) (mob_Pos m)) (vlen (vsub (res_pos r) (mob_Pos m))) (c32 4) dt m) s)"

section \<open>Pink mobs\<close>

definition findClient :: "Server \<Rightarrow> string \<Rightarrow> Client option" where
  "findClient s i = mget (s_clients s) i"

definition findPlayerState :: "Server \<Rightarrow> string \<Rightarrow> PlayerState option" where
  "findPlayerState s i = map_option State (findClient s i)"

text \<open>The nearest other mob with a property, as the three searches of \<open>mobs_pink.go\<close> find it.\<close>

definition nearest_mob :: "env \<Rightarrow> string list \<Rightarrow> (Mob \<Rightarrow> bool) \<Rightarrow> f32 \<Rightarrow> Vector3 \<Rightarrow> Server \<Rightarrow> Mob option \<times> f32" where
  "nearest_mob E site P r pos s = nearest (\<lambda>ot. d2_32 (mob_Pos ot) pos) r
     (filter P (range_vals (e_ord E) site (s_mobs s)))"

definition is_threat :: "Mob \<Rightarrow> Mob \<Rightarrow> bool" where
  "is_threat m ot \<longleftrightarrow> mob_ID ot \<noteq> mob_ID m \<and>
     (mob_Kind ot = ''hostile'' \<or> mob_Kind ot = ''collector'' \<and> mob_Angered ot)"

definition shoot_at :: "env \<Rightarrow> string \<Rightarrow> Mob \<Rightarrow> Mob \<Rightarrow> f32 \<Rightarrow> Server \<Rightarrow> Server" where
  "shoot_at E k m threat d s =
     (if d < c32 (1 / 100) then s
      else throw_projectile m (vdiv (vsub (mob_Pos threat) (mob_Pos m)) d) (mob_ID threat) (e_now E)
             (put_mob k (m\<lparr>mob_LastAttackAt := e_now E\<rparr>) s))"

definition pinkAutoShoot :: "env \<Rightarrow> string \<Rightarrow> Server \<Rightarrow> Server" where
  "pinkAutoShoot E k s = with_mob k s (\<lambda>m.
     case nearest_mob E [''pinkAutoShoot'', k] (is_threat m) (c32 225) (mob_Pos m) s of
       (None, _) \<Rightarrow> s
     | (Some threat, bestD2) \<Rightarrow>
         if time_sub (e_now E) (mob_LastAttackAt m) < 1500 * millisecond then s
         else shoot_at E k m threat (sqrt32 bestD2) s)"

definition flee_speed :: "f32 \<Rightarrow> f32" where
  "flee_speed bestD2 = (if bestD2 < c32 64 then c32 6 * c32 (3 / 2) else c32 6)"

definition scares :: "Mob \<Rightarrow> Mob \<Rightarrow> bool" where
  "scares m ot \<longleftrightarrow> mob_ID ot \<noteq> mob_ID m \<and> (mob_Kind ot = ''hostile'' \<or> mob_Kind ot = ''collector'')"

definition tickPinkFlee :: "env \<Rightarrow> string \<Rightarrow> f32 \<Rightarrow> Server \<Rightarrow> Server" where
  "tickPinkFlee E k dt s = with_mob k s (\<lambda>m.
     case nearest_mob E [''tickPinkFlee'', k] (scares m) (c32 225) (mob_Pos m) s of
       (None, _) \<Rightarrow> s
     | (Some threat, bestD2) \<Rightarrow>
         put_mob k (walk_mob E (vsub (mob_Pos m) (mob_Pos threat)) (vlen (vsub (mob_Pos m) (mob_Pos threat)))
           (flee_speed bestD2) dt m) s)"

definition pinkGatherTarget :: int where "pinkGatherTarget = 4"

definition pinkInventoryCount :: "env \<Rightarrow> Mob \<Rightarrow> int" where
  "pinkInventoryCount E m = fold (\<lambda>q t. i64 (t + q)) (range_vals (e_ord E) [''pinkInventoryCount''] (mob_Inventory m)) 0"

definition hand_over :: "(string \<times> int) list \<Rightarrow> int gomap \<Rightarrow> int gomap" where
  "hand_over goods m = fold (\<lambda>kn. inv_add (fst kn) (snd kn)) goods m"

definition pinkDeliver :: "env \<Rightarrow> string \<Rightarrow> Mob \<Rightarrow> Server \<Rightarrow> bool \<times> Server" where
  "pinkDeliver E k m s =
     (case findClient s (mob_OwnerID m) of
        None \<Rightarrow> (False, s)
      | Some ow \<Rightarrow>
          if c32 16 < d2_32 (ps_pos (State ow)) (mob_Pos m) then (False, s)
          else (True, put_mob k (m\<lparr>mob_Inventory := mempty, mob_Contract := '''', mob_OwnerID := ''''\<rparr>)
            (put_client (mob_OwnerID m) (sendInventory (ow\<lparr>c_inventory :=
               hand_over (range_entries (e_ord E) [''pinkDeliver''] (mob_Inventory m)) (c_inventory ow)\<rparr>)) s)))"

definition pinkGatherDeliver :: "env \<Rightarrow> string \<Rightarrow> f32 \<Rightarrow> Server \<Rightarrow> Server" where
  "pinkGatherDeliver E k dt s = with_mob k s (\<lambda>m.
     if fst (pinkDeliver E k m s) then snd (pinkDeliver E k m s)
     else case findPlayerState s (mob_OwnerID m) of
       None \<Rightarrow> s
     | Some ps \<Rightarrow> put_mob k (moveTowards E (ps_pos ps) (c32 6 * dt) m) s)"

definition pinkFindNearestResource :: "env \<Rightarrow> string \<Rightarrow> Vector3 \<Rightarrow> Server \<Rightarrow> Resource option \<times> f32" where
  "pinkFindNearestResource E k pos s = nearest_resource E [''pinkFindNearestResource'', k] pos s"

definition pinkPickUpResource :: "string \<Rightarrow> string \<Rightarrow> Server \<Rightarrow> Server" where
  "pinkPickUpResource k resourceID s = with_mob k s (\<lambda>m.
     case mget (s_resources s) resourceID of
       None \<Rightarrow> s
     | Some r \<Rightarrow> put_mob k (stow (res_Type r) m) (s\<lparr>s_resources := mdel resourceID (s_resources s)\<rparr>))"

definition pinkGatherPick :: "env \<Rightarrow> string \<Rightarrow> f32 \<Rightarrow> Server \<Rightarrow> Server" where
  "pinkGatherPick E k dt s = with_mob k s (\<lambda>m.
     case pinkFindNearestResource E k (mob_Pos m) s of
       (None, _) \<Rightarrow> s
     | (Some r, bestD2) \<Rightarrow>
         if bestD2 < c32 (25 / 4) then pinkPickUpResource k (res_ID r) s
         else put_mob k (moveTowards E (res_pos r) (c32 6 * dt) m) s)"

definition tickPinkGather :: "env \<Rightarrow> string \<Rightarrow> f32 \<Rightarrow> Server \<Rightarrow> Server" where
  "tickPinkGather E k dt s = with_mob k s (\<lambda>m.
     if pinkGatherTarget \<le> pinkInventoryCount E m then pinkGatherDeliver E k dt s
     else pinkGatherPick E k dt s)"

definition guard_follow :: "env \<Rightarrow> Vector3 \<Rightarrow> f32 \<Rightarrow> f32 \<Rightarrow> Mob \<Rightarrow> Mob" where
  "guard_follow E dir d2 dt m =
     (if d2 < c32 25 then m else walk_mob E dir (sqrt32 d2) (c32 6) dt m)"

definition tickPinkGuard :: "env \<Rightarrow> string \<Rightarrow> f32 \<Rightarrow> Server \<Rightarrow> Server" where
  "tickPinkGuard E k dt s = with_mob k s (\<lambda>m.
     case findPlayerState s (mob_OwnerID m) of
       None \<Rightarrow> put_mob k (m\<lparr>mob_Contract := '''', mob_OwnerID := ''''\<rparr>) s
     | Some ow \<Rightarrow>
         (case nearest_mob E [''tickPinkGuard'', k] (\<lambda>ot. mob_Kind ot = ''hostile'') (c32 144) (mob_Pos m) s of
            (Some _, _) \<Rightarrow> s
          | (None, _) \<Rightarrow> put_mob k (guard_follow E (vsub (ps_pos ow) (mob_Pos m)) (d2_32 (ps_pos ow) (mob_Pos m)) dt m) s))"

definition pink_errand :: "env \<Rightarrow> string \<Rightarrow> f32 \<Rightarrow> Server \<Rightarrow> Server" where
  "pink_errand E k dt s = with_mob k s (\<lambda>m.
     if mob_Contract m = ''gather4'' then tickPinkGather E k dt s
     else if mob_Contract m = ''guard'' then tickPinkGuard E k dt s
     else tickPinkFlee E k dt s)"

definition tickPink :: "env \<Rightarrow> string \<Rightarrow> f32 \<Rightarrow> Server \<Rightarrow> Server" where
  "tickPink E k dt s = pink_errand E k dt (pinkAutoShoot E k s)"

section \<open>The tick of the mobs\<close>

definition tickMob :: "env \<Rightarrow> mobPlayerInfo list \<Rightarrow> f32 \<Rightarrow> string \<Rightarrow> Server \<Rightarrow> Server" where
  "tickMob E players dt k s = with_mob k s (\<lambda>m.
     if mob_Kind m = ''pink'' then tickPink E k dt s
     else if mob_Kind m = ''collector'' \<and> \<not> mob_Angered m then tickCollector E k dt s
     else if mob_Kind m = ''hostile'' \<or> mob_Angered m then tickHostileMob E k players dt s
     else s)"

definition tickMobs :: "env \<Rightarrow> f32 \<Rightarrow> Server \<Rightarrow> Server" where
  "tickMobs E dt s =
     fold (tickMob E (snapshotMobPlayers E s) dt) (range_keys (e_ord E) [''tickMobs''] (s_mobs s)) s"

section \<open>Drops\<close>

record killDrop =
  kd_pos :: Vector3
  kd_kind :: string
  kd_mobInv :: "int gomap"

definition scatter :: "env \<Rightarrow> Vector3 \<Rightarrow> f32 \<Rightarrow> f32 \<Rightarrow> Vector3" where
  "scatter E base theta rr = ClampToSurface E
     (vec (v_X base + f32_of (m_cos E (f64_of theta)) * rr) (v_Y base)
          (v_Z base + f32_of (m_sin E (f64_of theta)) * rr))"

definition scatteredAround :: "env \<Rightarrow> Vector3 \<Rightarrow> f32 \<Rightarrow> rng \<Rightarrow> Vector3 \<times> rng" where
  "scatteredAround E base r g = (case mrand_float32 g of (a, g1) \<Rightarrow> case mrand_float32 g1 of (b, g2) \<Rightarrow>
     (scatter E base (a * c32 2 * c32 pi_rat) (b * r), g2))"

definition drop_one :: "env \<Rightarrow> string \<Rightarrow> Vector3 \<Rightarrow> f32 \<Rightarrow> Server \<Rightarrow> Server" where
  "drop_one E t pos r s = (case new_id s of (rid, s1) \<Rightarrow> case scatteredAround E pos r (s_rng s1) of (pp, g) \<Rightarrow>
     s1\<lparr>s_rng := g, s_resources := mput rid (mk_resource rid t pp) (s_resources s1)\<rparr>)"

definition spawnHostileDrop :: "env \<Rightarrow> Vector3 \<Rightarrow> Server \<Rightarrow> Server" where
  "spawnHostileDrop E pos s = fold (\<lambda>_. drop_one E ''spear'' pos (c32 2)) [0..<10] s"

definition spawnCollectorDrop :: "env \<Rightarrow> Vector3 \<Rightarrow> int gomap \<Rightarrow> Server \<Rightarrow> Server" where
  "spawnCollectorDrop E pos mobInv s =
     fold (\<lambda>tq. fold (\<lambda>_. drop_one E (fst tq) pos (c32 (5 / 2))) [0..<nat (snd tq)])
       (range_entries (e_ord E) [''spawnCollectorDrop''] mobInv) s"

definition spawn_drop :: "env \<Rightarrow> killDrop \<Rightarrow> Server \<Rightarrow> Server" where
  "spawn_drop E k s =
     (if kd_kind k = ''hostile'' then spawnHostileDrop E (kd_pos k) s
      else if kd_kind k = ''collector'' then spawnCollectorDrop E (kd_pos k) (kd_mobInv k) s
      else s)"

definition spawnDrops :: "env \<Rightarrow> killDrop list \<Rightarrow> Server \<Rightarrow> Server" where
  "spawnDrops E kills s = fold (spawn_drop E) kills s"

section \<open>Flight and hits\<close>

definition projTTL :: duration where "projTTL = 3 * second"
definition projHitD2 :: f32 where "projHitD2 = c32 (9 / 4)"

definition fly :: "f32 \<Rightarrow> Projectile \<Rightarrow> Projectile" where
  "fly dt p = p\<lparr>proj_Pos := vec (v_X (proj_Pos p) + v_X (proj_Dir p) * proj_Speed p * dt)
     (v_Y (proj_Pos p) + v_Y (proj_Dir p) * proj_Speed p * dt)
     (v_Z (proj_Pos p) + v_Z (proj_Dir p) * proj_Speed p * dt)\<rparr>"

definition tryProjectileHitClient :: "env \<Rightarrow> Projectile \<Rightarrow> Server \<Rightarrow> bool \<times> Server" where
  "tryProjectileHitClient E p s =
     (case findClient s (proj_TargetID p) of
        None \<Rightarrow> (False, s)
      | Some target \<Rightarrow>
          if projHitD2 \<le> d2_32 (ps_pos (State target)) (proj_Pos p) then (False, s)
          else (True, put_client (proj_TargetID p) (damage E mobAttackDamage target) s))"

definition tryProjectileHitMob :: "Projectile \<Rightarrow> Vector3 gomap \<Rightarrow> bool" where
  "tryProjectileHitMob p mobPos =
     (case mget mobPos (proj_TargetID p) of
        None \<Rightarrow> False
      | Some mp \<Rightarrow> d2_32 mp (proj_Pos p) < projHitD2)"

definition del_projectile :: "string \<Rightarrow> Server \<Rightarrow> Server" where
  "del_projectile i s = s\<lparr>s_projectiles := mdel i (s_projectiles s)\<rparr>"

definition hit_or_fly :: "env \<Rightarrow> Vector3 gomap \<Rightarrow> string \<Rightarrow> Projectile \<Rightarrow> string list \<times> Server \<Rightarrow> string list \<times> Server" where
  "hit_or_fly E mobPos i p hs =
     (if fst (tryProjectileHitClient E p (snd hs))
      then (fst hs, del_projectile i (snd (tryProjectileHitClient E p (snd hs))))
      else if tryProjectileHitMob p mobPos then (fst hs @ [proj_TargetID p], del_projectile i (snd hs))
      else (fst hs, (snd hs)\<lparr>s_projectiles := mput i p (s_projectiles (snd hs))\<rparr>))"

definition advance_one :: "env \<Rightarrow> f32 \<Rightarrow> Vector3 gomap \<Rightarrow> string \<Rightarrow> string list \<times> Server \<Rightarrow> string list \<times> Server" where
  "advance_one E dt mobPos i hs =
     (case mget (s_projectiles (snd hs)) i of
        None \<Rightarrow> hs
      | Some p \<Rightarrow>
          if projTTL < time_sub (e_now E) (proj_SpawnAt p) then (fst hs, del_projectile i (snd hs))
          else hit_or_fly E mobPos i (fly dt p) hs)"

definition advanceProjectiles :: "env \<Rightarrow> f32 \<Rightarrow> Vector3 gomap \<Rightarrow> Server \<Rightarrow> string list \<times> Server" where
  "advanceProjectiles E dt mobPos s =
     fold (advance_one E dt mobPos) (range_keys (e_ord E) [''advanceProjectiles''] (s_projectiles s)) ([], s)"

definition snapshotMobPositions :: "Server \<Rightarrow> Vector3 gomap" where
  "snapshotMobPositions s = mmap mob_Pos (s_mobs s)"

definition mob_drop :: "Mob \<Rightarrow> killDrop" where
  "mob_drop m = \<lparr>kd_pos = mob_Pos m, kd_kind = mob_Kind m, kd_mobInv = mob_Inventory m\<rparr>"

definition apply_hit :: "string \<Rightarrow> killDrop list \<times> Server \<Rightarrow> killDrop list \<times> Server" where
  "apply_hit h ks =
     (case mget (s_mobs (snd ks)) h of
        None \<Rightarrow> ks
      | Some m \<Rightarrow>
          if i64 (mob_HP m - mobAttackDamage) \<le> 0
          then (fst ks @ [mob_drop m], (snd ks)\<lparr>s_mobs := mdel h (s_mobs (snd ks))\<rparr>)
          else (fst ks, put_mob h (m\<lparr>mob_HP := i64 (mob_HP m - mobAttackDamage)\<rparr>) (snd ks)))"

definition applyMobHits :: "string list \<Rightarrow> Server \<Rightarrow> killDrop list \<times> Server" where
  "applyMobHits hits s = fold apply_hit hits ([], s)"

definition tickProjectiles :: "env \<Rightarrow> f32 \<Rightarrow> Server \<Rightarrow> Server" where
  "tickProjectiles E dt s =
     (case advanceProjectiles E dt (snapshotMobPositions s) s of (hits, s1) \<Rightarrow>
        if hits = [] then s1
        else case applyMobHits hits s1 of (kills, s2) \<Rightarrow>
          if kills = [] then s2 else spawnDrops E kills s2)"

section \<open>Handlers\<close>

record hitMobResult =
  hmr_killed :: bool
  hmr_hpAfter :: int
  hmr_kind :: string
  hmr_drop :: killDrop

definition struck :: "Mob \<Rightarrow> Mob" where
  "struck m = m\<lparr>mob_HP := i64 (mob_HP m - 1), mob_Angered := (mob_Kind m = ''collector'' \<or> mob_Angered m)\<rparr>"

definition hit_mob_result :: "Mob \<Rightarrow> hitMobResult" where
  "hit_mob_result m = \<lparr>hmr_killed = (mob_HP m \<le> 0), hmr_hpAfter = mob_HP m, hmr_kind = mob_Kind m, hmr_drop = mob_drop m\<rparr>"

definition applyHitMob :: "string \<Rightarrow> Client \<Rightarrow> string \<Rightarrow> Server \<Rightarrow> (hitMobResult \<times> Server) option" where
  "applyHitMob cid c mobID s =
     (case mget (s_mobs s) mobID of
        None \<Rightarrow> None
      | Some m \<Rightarrow>
          if c64 10000 < d2_64 (mob_Pos m) (ps_pos (State c)) then None
          else if \<not> fst (consumeItem ''spear'' c) then None
          else Some (hit_mob_result (struck m), put_client cid (snd (consumeItem ''spear'' c))
            (if mob_HP (struck m) \<le> 0 then s\<lparr>s_mobs := mdel mobID (s_mobs s)\<rparr> else put_mob mobID (struck m) s)))"

definition send_inventory_to :: "string \<Rightarrow> Server \<Rightarrow> Server" where
  "send_inventory_to cid s = with_client cid s (\<lambda>c. put_client cid (sendInventory c) s)"

definition handleHitMob :: "env \<Rightarrow> string \<Rightarrow> string \<Rightarrow> Server \<Rightarrow> Server" where
  "handleHitMob E cid mobID s = with_client cid s (\<lambda>c.
     case applyHitMob cid c mobID s of
       None \<Rightarrow> s
     | Some (res, s1) \<Rightarrow>
         send_inventory_to cid (if hmr_killed res then spawnDrops E [hmr_drop res] s1 else s1))"

definition payContractPrice :: "Client \<Rightarrow> string \<Rightarrow> bool \<times> Client" where
  "payContractPrice c contractID =
     (if contractID = ''gather4'' then consumeItem ''fruit'' c
      else if contractID = ''guard'' then
        (if mget_int (c_inventory c) ''spear'' < 10 then (False, c)
         else (True, c\<lparr>c_inventory := mput ''spear'' (i64 (mget_int (c_inventory c) ''spear'' - 10)) (c_inventory c)\<rparr>))
      else (True, c))"

definition applyContract :: "string \<Rightarrow> string \<Rightarrow> Mob \<Rightarrow> Mob" where
  "applyContract ownerID contractID m =
     m\<lparr>mob_Contract := contractID, mob_OwnerID := ownerID,
       mob_Inventory := (if contractID = ''gather4'' then mempty else mob_Inventory m)\<rparr>"

definition tryAcceptContract :: "string \<Rightarrow> Client \<Rightarrow> string \<Rightarrow> string \<Rightarrow> Server \<Rightarrow> Server option" where
  "tryAcceptContract cid c mobID contractID s =
     (case mget (s_mobs s) mobID of
        None \<Rightarrow> None
      | Some m \<Rightarrow>
          if mob_Kind m \<noteq> ''pink'' then None
          else if mob_Contract m \<noteq> '''' then None
          else if contractID \<noteq> ''gather4'' \<and> contractID \<noteq> ''guard'' then None
          else if \<not> fst (payContractPrice c contractID) then None
          else Some (put_mob mobID (applyContract (c_ID c) contractID m)
                 (put_client cid (snd (payContractPrice c contractID)) s)))"

definition handleAcceptContract :: "string \<Rightarrow> string \<Rightarrow> string \<Rightarrow> Server \<Rightarrow> Server" where
  "handleAcceptContract cid mobID contractID s = with_client cid s (\<lambda>c.
     case tryAcceptContract cid c mobID contractID s of
       None \<Rightarrow> s
     | Some s1 \<Rightarrow> send_inventory_to cid s1)"

text \<open>\<open>handleThrowSpear\<close> of \<open>projectiles.go\<close>: the spear is given back within the cool-down.\<close>

definition handleThrowSpear :: "env \<Rightarrow> string \<Rightarrow> Vector3 \<Rightarrow> Server \<Rightarrow> Server" where
  "handleThrowSpear E cid dir s = with_client cid s (\<lambda>c.
     if \<not> fst (consumeItem ''spear'' c) then s
     else if time_sub (e_now E) (c_lastThrowAt c) < 800 * millisecond
     then put_client cid (sendInventory ((snd (consumeItem ''spear'' c))\<lparr>c_inventory :=
            inv_add ''spear'' 1 (c_inventory (snd (consumeItem ''spear'' c)))\<rparr>)) s
     else put_client cid (sendInventory ((snd (consumeItem ''spear'' c))\<lparr>c_lastThrowAt := e_now E\<rparr>)) s)"

end
