(* ===== verification/Mob_Facts.thy ===== *)
theory Mob_Facts
  imports Mobs
begin

text \<open>
  Facts about \<open>Mobs\<close>: the invariant under ticks and handlers, contracts, blows, projectiles and
  the spears of players.
\<close>

section \<open>The invariant\<close>

lemma server_inv_get_mob: "server_inv s \<Longrightarrow> mget (s_mobs s) k = Some m \<Longrightarrow> mob_ok m \<and> mob_ID m = k"
  using server_inv_stores(10) [of s] by (auto simp: mobs_inv_def mall_def keyed_def)

lemma server_inv_with_mob:
  assumes "server_inv s" "\<And>m. mget (s_mobs s) k = Some m \<Longrightarrow> mob_ok m \<Longrightarrow> mob_ID m = k \<Longrightarrow> server_inv (f m)"
  shows "server_inv (with_mob k s f)"
  using assms server_inv_get_mob [OF assms(1)] by (simp add: with_mob_def split: option.split)

lemma server_inv_put_mob [inv_intros]:
  "server_inv s \<Longrightarrow> mob_ok m \<Longrightarrow> mob_ID m = k \<Longrightarrow> server_inv (put_mob k m s)"
  unfolding put_mob_def
  by (intro inv_intros) (use server_inv_stores(10) [of s] in \<open>simp_all add: mobs_inv_def keyed_put mall_put\<close>)

lemma server_inv_del_mob: "server_inv s \<Longrightarrow> server_inv (s\<lparr>s_mobs := mdel k (s_mobs s)\<rparr>)"
  using server_inv_stores(10) [of s] by (auto intro!: inv_intros simp: mobs_inv_def intro: mall_del)

lemma mob_frame [simp]:
  "mob_ok (m\<lparr>mob_Pos := p\<rparr>) = mob_ok m" "mob_ok (m\<lparr>mob_LastAttackAt := t\<rparr>) = mob_ok m"
  by (simp_all add: mob_ok_def)

lemma mob_moves [simp]:
  "mob_ID (moveByDir E u d m) = mob_ID m" "mob_ok (moveByDir E u d m) = mob_ok m"
  "mob_ID (move_dist E u d st m) = mob_ID m" "mob_ok (move_dist E u d st m) = mob_ok m"
  "mob_ID (moveTowards E t st m) = mob_ID m" "mob_ok (moveTowards E t st m) = mob_ok m"
  "mob_ID (walk_mob E u d sp dt m) = mob_ID m" "mob_ok (walk_mob E u d sp dt m) = mob_ok m"
  "mob_ID (guard_follow E u d dt m) = mob_ID m" "mob_ok (guard_follow E u d dt m) = mob_ok m"
  by (simp_all add: moveByDir_def move_dist_def moveTowards_def walk_mob_def guard_follow_def)

lemma stow_ok [simp]: "mob_ID (stow t m) = mob_ID m" "mob_ok m \<Longrightarrow> mob_ok (stow t m)"
  by (simp_all add: stow_def mob_ok_def inv_add_i64)

lemma mk_mob_ok: "mob_ok (mk_mob k pos (mob_kind_hp i))" "mob_ID (mk_mob k pos kh) = k"
  by (simp_all add: mk_mob_def mob_kind_hp_def mob_ok_def mob_kinds_def)

lemma server_inv_spawnMobs [inv_intros]: "server_inv s \<Longrightarrow> server_inv (spawnMobs E n s)"
  unfolding spawnMobs_def
proof (rule fold_invariant_on [where P = server_inv])
  fix i s assume "server_inv s"
  then show "server_inv (spawn_mob E i s)" unfolding spawn_mob_def case_prod_beta
    by (intro inv_intros) (simp_all add: mk_mob_ok server_inv_surface_point)
qed

lemma server_inv_throw [inv_intros]: "server_inv s \<Longrightarrow> server_inv (throw_projectile m d t now s)"
  unfolding throw_projectile_def case_prod_beta
  by (intro inv_intros)
     (use server_inv_stores(11) [of s] in
       \<open>simp_all add: projectiles_inv_def keyed_put mall_put mk_projectile_def projectile_ok_def\<close>)

lemma server_inv_tickHostile [inv_intros]: "server_inv s \<Longrightarrow> server_inv (tickHostileMob E k ps dt s)"
  unfolding tickHostileMob_def hostile_at_def hostile_act_def mobThrowSpear_def
  by (rule server_inv_with_mob) (auto split: prod.split option.split intro!: inv_intros)

lemma server_inv_del_resource: "server_inv s \<Longrightarrow> server_inv (s\<lparr>s_resources := mdel k (s_resources s)\<rparr>)"
  by (auto intro!: inv_intros intro: server_inv_stores)

lemma server_inv_tickCollector [inv_intros]: "server_inv s \<Longrightarrow> server_inv (tickCollector E k dt s)"
  unfolding tickCollector_def
  by (rule server_inv_with_mob)
     (auto split: prod.split option.split intro!: server_inv_put_mob server_inv_del_resource)

lemma server_inv_pinkAutoShoot [inv_intros]: "server_inv s \<Longrightarrow> server_inv (pinkAutoShoot E k s)"
  unfolding pinkAutoShoot_def shoot_at_def
  by (rule server_inv_with_mob) (auto split: prod.split option.split intro!: inv_intros)

lemma server_inv_tickPinkFlee [inv_intros]: "server_inv s \<Longrightarrow> server_inv (tickPinkFlee E k dt s)"
  unfolding tickPinkFlee_def
  by (rule server_inv_with_mob) (auto split: prod.split option.split intro!: inv_intros)

lemma mob_ok_free: "mob_ok m \<Longrightarrow> mob_ok (m\<lparr>mob_Contract := '''', mob_OwnerID := ''''\<rparr>)"
    "mob_ok m \<Longrightarrow> mob_ok (m\<lparr>mob_Inventory := mempty, mob_Contract := '''', mob_OwnerID := ''''\<rparr>)"
  by (simp_all add: mob_ok_def)

lemma hand_over_i64: "mall in_i64 m \<Longrightarrow> mall in_i64 (hand_over goods m)"
  unfolding hand_over_def by (rule fold_invariant_on [where P = "mall in_i64"]) (simp_all add: inv_add_i64)

lemma server_inv_pinkDeliver:
  "server_inv s \<Longrightarrow> mob_ok m \<Longrightarrow> mob_ID m = k \<Longrightarrow> server_inv (snd (pinkDeliver E k m s))"
  using clients_invD [OF server_invD(1), of s "mob_OwnerID m"]
  by (auto simp: pinkDeliver_def findClient_def split: option.split
      intro!: server_inv_put_mob mob_ok_free server_inv_put client_ok_sendInventory client_ok_inventory hand_over_i64
        client_okD_inv)

lemma server_inv_pinkGatherDeliver [inv_intros]: "server_inv s \<Longrightarrow> server_inv (pinkGatherDeliver E k dt s)"
  unfolding pinkGatherDeliver_def
  by (rule server_inv_with_mob) (auto split: option.split intro!: server_inv_put_mob server_inv_pinkDeliver)

lemma server_inv_pinkPickUp [inv_intros]: "server_inv s \<Longrightarrow> server_inv (pinkPickUpResource k r s)"
  unfolding pinkPickUpResource_def
  by (rule server_inv_with_mob) (auto split: option.split intro!: server_inv_put_mob server_inv_del_resource)

lemma server_inv_pinkGatherPick [inv_intros]: "server_inv s \<Longrightarrow> server_inv (pinkGatherPick E k dt s)"
  unfolding pinkGatherPick_def
  by (rule server_inv_with_mob) (auto split: prod.split option.split intro!: inv_intros)

lemma server_inv_tickPinkGuard [inv_intros]: "server_inv s \<Longrightarrow> server_inv (tickPinkGuard E k dt s)"
  unfolding tickPinkGuard_def
  by (rule server_inv_with_mob)
     (auto split: prod.split option.split intro!: server_inv_put_mob mob_ok_free)

lemma server_inv_tickPink [inv_intros]: "server_inv s \<Longrightarrow> server_inv (tickPink E k dt s)"
proof -
  assume "server_inv s"
  then have "server_inv (pinkAutoShoot E k s)" by (intro inv_intros)
  then show ?thesis unfolding tickPink_def pink_errand_def tickPinkGather_def
    by (intro server_inv_with_mob) (auto intro!: server_inv_with_mob inv_intros)
qed

lemma server_inv_tickMobs [inv_intros]: "server_inv s \<Longrightarrow> server_inv (tickMobs E dt s)"
  unfolding tickMobs_def
  by (rule fold_invariant_on [where P = server_inv])
     (auto simp: tickMob_def intro!: server_inv_with_mob inv_intros)

lemma server_inv_drop_one [inv_intros]: "server_inv s \<Longrightarrow> server_inv (drop_one E t pos r s)"
  unfolding drop_one_def case_prod_beta
  by (intro inv_intros) (auto simp: mk_resource_def intro: server_inv_stores)

lemma server_inv_spawnDrops [inv_intros]: "server_inv s \<Longrightarrow> server_inv (spawnDrops E ks s)"
  unfolding spawnDrops_def
  by (rule fold_invariant_on [where P = server_inv])
     (auto simp: spawn_drop_def spawnHostileDrop_def spawnCollectorDrop_def
       intro!: fold_invariant_on [where P = server_inv] inv_intros)

lemma fly_ok [simp]: "proj_ID (fly dt p) = proj_ID p" "projectile_ok (fly dt p) = projectile_ok p"
  by (simp_all add: fly_def projectile_ok_def)

lemma server_inv_hitClient: "server_inv s \<Longrightarrow> server_inv (snd (tryProjectileHitClient E p s))"
  using clients_invD [OF server_invD(1), of s "proj_TargetID p"]
  by (auto simp: tryProjectileHitClient_def findClient_def mobAttackDamage_def split: option.split
      intro!: server_inv_put client_ok_damage)

lemma hitClient_projectiles [simp]: "s_projectiles (snd (tryProjectileHitClient E p s)) = s_projectiles s"
  by (simp add: tryProjectileHitClient_def split: option.split)

lemma server_inv_del_projectile: "server_inv s \<Longrightarrow> server_inv (del_projectile i s)"
  unfolding del_projectile_def using server_inv_stores(11) [of s]
  by (auto intro!: inv_intros simp: projectiles_inv_def intro: mall_del)

lemma server_inv_put_projectile:
  "server_inv s \<Longrightarrow> projectile_ok p \<Longrightarrow> proj_ID p = i \<Longrightarrow> server_inv (s\<lparr>s_projectiles := mput i p (s_projectiles s)\<rparr>)"
  using server_inv_stores(11) [of s] by (auto intro!: inv_intros simp: projectiles_inv_def mall_put)

lemma server_inv_advance:
  assumes "server_inv (snd hs)"
  shows "server_inv (snd (advance_one E dt mp i hs))"
proof (cases "mget (s_projectiles (snd hs)) i")
  case (Some p)
  then have "projectile_ok p" "proj_ID p = i"
    using server_inv_stores(11) [OF assms] by (auto simp: projectiles_inv_def mall_def keyed_def)
  then show ?thesis using Some assms
    by (auto simp: advance_one_def hit_or_fly_def
        intro!: server_inv_del_projectile server_inv_hitClient server_inv_put_projectile)
qed (use assms in \<open>simp add: advance_one_def\<close>)

lemma server_inv_advanceProjectiles: "server_inv s \<Longrightarrow> server_inv (snd (advanceProjectiles E dt mp s))"
  unfolding advanceProjectiles_def
  by (rule fold_invariant_on [where P = "\<lambda>hs. server_inv (snd hs)"]) (auto intro: server_inv_advance)

lemma mob_ok_hurt: "mob_ok m \<Longrightarrow> 0 \<le> n \<Longrightarrow> n < mob_HP m \<Longrightarrow> mob_ok (m\<lparr>mob_HP := mob_HP m - n\<rparr>)"
  by (simp add: mob_ok_def)

lemma mob_hp_i64: "mob_ok m \<Longrightarrow> 0 \<le> n \<Longrightarrow> n \<le> 10 \<Longrightarrow> i64 (mob_HP m - n) = mob_HP m - n"
  by (rule i64_small) (simp_all add: mob_ok_def)

lemma server_inv_apply_hit:
  assumes "server_inv (snd ks)"
  shows "server_inv (snd (apply_hit h ks))"
proof (cases "mget (s_mobs (snd ks)) h")
  case (Some m)
  then have "mob_ok m" "mob_ID m = h" using server_inv_get_mob [OF assms] by auto
  then show ?thesis using Some assms
    by (auto simp: apply_hit_def mobAttackDamage_def mob_hp_i64
        intro!: server_inv_del_mob server_inv_put_mob mob_ok_hurt)
qed (use assms in \<open>simp add: apply_hit_def\<close>)

lemma server_inv_tickProjectiles [inv_intros]: "server_inv s \<Longrightarrow> server_inv (tickProjectiles E dt s)"
proof -
  assume "server_inv s"
  then have 1: "server_inv (snd (advanceProjectiles E dt (snapshotMobPositions s) s))"
    by (rule server_inv_advanceProjectiles)
  have "server_inv (snd (applyMobHits hits (snd (advanceProjectiles E dt (snapshotMobPositions s) s))))" for hits
    unfolding applyMobHits_def
    by (rule fold_invariant_on [where P = "\<lambda>ks. server_inv (snd ks)"]) (auto intro: server_inv_apply_hit 1)
  with 1 show ?thesis unfolding tickProjectiles_def by (auto simp: case_prod_beta intro: inv_intros)
qed

lemma server_inv_send_to [inv_intros]: "server_inv s \<Longrightarrow> server_inv (send_inventory_to cid s)"
  unfolding send_inventory_to_def by (rule server_inv_with) (auto intro!: inv_intros)

lemma struck_ok: "mob_ok m \<Longrightarrow> 0 < mob_HP (struck m) \<Longrightarrow> mob_ok (struck m)" "mob_ID (struck m) = mob_ID m"
  using mob_hp_i64 [of m 1] by (auto simp: struck_def mob_ok_def)

lemma server_inv_applyHitMob:
  assumes "server_inv s" "client_ok c" "c_ID c = cid" "applyHitMob cid c i s = Some (res, s1)"
  shows "server_inv s1"
proof -
  obtain m where m: "mget (s_mobs s) i = Some m" using assms(4) by (auto simp: applyHitMob_def split: option.splits)
  then have ok: "mob_ok m" "mob_ID m = i" using server_inv_get_mob [OF assms(1)] by auto
  have s1: "s1 = put_client cid (snd (consumeItem ''spear'' c))
      (if mob_HP (struck m) \<le> 0 then s\<lparr>s_mobs := mdel i (s_mobs s)\<rparr> else put_mob i (struck m) s)"
    using assms(4) m by (auto simp: applyHitMob_def split: if_splits)
  show ?thesis unfolding s1 using assms(1-3) ok
    by (auto intro!: server_inv_put server_inv_del_mob server_inv_put_mob client_ok_consumeItem struck_ok
        simp: struck_ok(2))
qed

lemma server_inv_handleHitMob [inv_intros]: "server_inv s \<Longrightarrow> server_inv (handleHitMob E cid i s)"
  unfolding handleHitMob_def
proof (rule server_inv_with)
  fix c assume "server_inv s" "client_ok c" "c_ID c = cid"
  then show "server_inv (case applyHitMob cid c i s of None \<Rightarrow> s
      | Some (res, s1) \<Rightarrow> send_inventory_to cid (if hmr_killed res then spawnDrops E [hmr_drop res] s1 else s1))"
    using server_inv_applyHitMob [of s c cid i] by (auto split: option.split intro!: inv_intros)
qed simp

lemma payContract_ok: "client_ok c \<Longrightarrow> client_ok (snd (payContractPrice c i)) \<and> c_ID (snd (payContractPrice c i)) = c_ID c"
  by (auto simp: payContractPrice_def intro!: client_ok_consumeItem client_ok_inventory mall_put client_okD_inv)

lemma applyContract_ok:
  "mob_ok m \<Longrightarrow> mob_Kind m = ''pink'' \<Longrightarrow> i \<in> {''gather4'', ''guard''} \<Longrightarrow> ow \<noteq> '''' \<Longrightarrow> mob_ok (applyContract ow i m)"
  "mob_ID (applyContract ow i m) = mob_ID m"
  by (auto simp: applyContract_def mob_ok_def contracts_def)

lemma tryAcceptContract_Some:
  assumes "tryAcceptContract cid c k i s = Some s1"
  shows "\<exists>m. mget (s_mobs s) k = Some m \<and> mob_Kind m = ''pink'' \<and> i \<in> {''gather4'', ''guard''} \<and>
    s1 = put_mob k (applyContract (c_ID c) i m) (put_client cid (snd (payContractPrice c i)) s)"
proof (cases "mget (s_mobs s) k")
  case (Some m)
  then have "mob_Kind m = ''pink''" "i \<in> {''gather4'', ''guard''}"
      "s1 = put_mob k (applyContract (c_ID c) i m) (put_client cid (snd (payContractPrice c i)) s)"
    using assms by (auto simp: tryAcceptContract_def split: if_splits)
  then show ?thesis using Some by blast
qed (use assms in \<open>simp add: tryAcceptContract_def\<close>)

lemma server_inv_handleAcceptContract [inv_intros]: "server_inv s \<Longrightarrow> server_inv (handleAcceptContract cid k i s)"
  unfolding handleAcceptContract_def
proof (rule server_inv_with)
  fix c assume s: "server_inv s" and c: "client_ok c" "c_ID c = cid"
  have "server_inv s1" if acc: "tryAcceptContract cid c k i s = Some s1" for s1
  proof -
    obtain m where m: "mget (s_mobs s) k = Some m" "mob_Kind m = ''pink''" "i \<in> {''gather4'', ''guard''}"
      and s1: "s1 = put_mob k (applyContract (c_ID c) i m) (put_client cid (snd (payContractPrice c i)) s)"
      using tryAcceptContract_Some [OF acc] by blast
    have "c_ID c \<noteq> ''''" using c(1) by (simp add: client_ok_def)
    then show ?thesis unfolding s1
      using s c payContract_ok [OF c(1)] server_inv_get_mob [OF s m(1)] m(2,3)
      by (intro server_inv_put_mob server_inv_put) (simp_all add: applyContract_ok)
  qed
  then show "server_inv (case tryAcceptContract cid c k i s of None \<Rightarrow> s | Some s1 \<Rightarrow> send_inventory_to cid s1)"
    using s by (auto split: option.split intro: inv_intros)
qed simp

lemma server_inv_handleThrowSpear [inv_intros]: "server_inv s \<Longrightarrow> server_inv (handleThrowSpear E cid d s)"
  unfolding handleThrowSpear_def
  by (rule server_inv_with)
     (auto intro!: server_inv_put client_ok_sendInventory client_ok_inventory client_ok_consumeItem client_ok_times
        inv_add_i64 intro: client_okD_inv [OF client_ok_consumeItem])

section \<open>Correctness\<close>

definition price :: "string \<Rightarrow> string \<Rightarrow> int" where
  "price i k = (if i = ''gather4'' \<and> k = ''fruit'' then 1 else if i = ''guard'' \<and> k = ''spear'' then 10 else 0)"

lemma payContract_spec:
  assumes "client_ok c" "i \<in> {''gather4'', ''guard''}"
  shows "fst (payContractPrice c i) \<longleftrightarrow> price i ''fruit'' \<le> max 0 (has ''fruit'' c) \<and> price i ''spear'' \<le> max 0 (has ''spear'' c)"
    and "fst (payContractPrice c i) \<Longrightarrow> has k (snd (payContractPrice c i)) = has k c - price i k"
    and "snd (payContractPrice c i) = c\<lparr>c_inventory := c_inventory (snd (payContractPrice c i))\<rparr>"
proof -
  show "fst (payContractPrice c i) \<longleftrightarrow> price i ''fruit'' \<le> max 0 (has ''fruit'' c) \<and> price i ''spear'' \<le> max 0 (has ''spear'' c)"
    using assms(2) by (auto simp: payContractPrice_def price_def consumeItem_def has_def max_def)
  have s: "in_i64 (mget_int (c_inventory c) ''spear'')" using assms(1) by (simp add: client_okD_inv mget_int_i64)
  then have "i64 (mget_int (c_inventory c) ''spear'' - 10) = mget_int (c_inventory c) ''spear'' - 10"
    if "\<not> mget_int (c_inventory c) ''spear'' < 10" using that by (intro i64_id) (simp add: in_i64_def)
  then show "fst (payContractPrice c i) \<Longrightarrow> has k (snd (payContractPrice c i)) = has k c - price i k"
    using assms has_consumeItem [OF assms(1), of "''fruit''" k]
    by (auto simp: payContractPrice_def price_def has_def mget_int_put split: if_splits)
  show "snd (payContractPrice c i) = c\<lparr>c_inventory := c_inventory (snd (payContractPrice c i))\<rparr>"
    using assms(2) by (auto simp: payContractPrice_def consumeItem_def)
qed

text \<open>
  A contract is made exactly if the mob exists, is pink and unemployed, the contract is one of
  the two known ones and the player can pay (one fruit, or ten spears); then exactly the price
  is taken, the mob works for that player, a gatherer starts with empty hands, and nothing else
  in the server changes. Otherwise nothing changes.
\<close>

theorem handleAcceptContract_correct:
  assumes "server_inv s" and "mget (s_clients s) cid = Some c" and "mget (s_mobs s) k = Some m"
  shows "if mob_Kind m = ''pink'' \<and> mob_Contract m = '''' \<and> i \<in> {''gather4'', ''guard''} \<and>
      price i ''fruit'' \<le> max 0 (has ''fruit'' c) \<and> price i ''spear'' \<le> max 0 (has ''spear'' c)
    then (\<exists>c'. handleAcceptContract cid k i s = put_mob k (applyContract cid i m) (put_client cid (sendInventory c') s) \<and>
      c' = c\<lparr>c_inventory := c_inventory c'\<rparr> \<and> (\<forall>x. has x c' = has x c - price i x))
    else handleAcceptContract cid k i s = s"
proof -
  have ok: "client_ok c" "c_ID c = cid" using clients_invD [OF server_invD(1) [OF assms(1)] assms(2)] by auto
  show ?thesis
  proof (cases "i \<in> {''gather4'', ''guard''}")
    case False
    then show ?thesis using assms(2,3) by (auto simp: handleAcceptContract_def tryAcceptContract_def)
  next
    case i: True
    let ?c' = "snd (payContractPrice c i)"
    have "put_client cid a (put_mob k x (put_client cid b s)) = put_mob k x (put_client cid a s)" for a b x
      by (simp add: put_mob_def put_client_def)
    then show ?thesis using assms(2,3) ok i payContract_spec [OF ok(1) i]
      by (auto simp: handleAcceptContract_def tryAcceptContract_def send_inventory_to_def put_mob_def
          intro!: exI [of _ ?c'])
  qed
qed

definition with_pink :: "(string \<times> int) list \<Rightarrow> Mob \<Rightarrow> Server" where
  "with_pink goods m = (lone_server (player_with goods))\<lparr>s_mobs := mput ''p'' m mempty\<rparr>"

lemma server_inv_with_pink:
  "list_all (\<lambda>kn. in_i64 (snd kn)) goods \<Longrightarrow> mob_ok m \<Longrightarrow> mob_ID m = ''p'' \<Longrightarrow> server_inv (with_pink goods m)"
  unfolding with_pink_def
  by (intro inv_intros server_inv_lone client_ok_player_with) (simp_all add: mobs_inv_def keyed_put mall_put)

theorem handleAcceptContract_correct_witness:
  "\<exists>c'. handleAcceptContract ''a'' ''p'' ''guard'' (with_pink [(''spear'', 12)] (mk_mob ''p'' zero_vec (''pink'', 10))) =
     put_mob ''p'' (applyContract ''a'' ''guard'' (mk_mob ''p'' zero_vec (''pink'', 10)))
       (put_client ''a'' (sendInventory c') (with_pink [(''spear'', 12)] (mk_mob ''p'' zero_vec (''pink'', 10)))) \<and>
     has ''spear'' c' = 2"
proof -
  let ?m = "mk_mob ''p'' zero_vec (''pink'', 10)" and ?c = "player_with [(''spear'', 12)]"
  let ?s = "with_pink [(''spear'', 12)] ?m"
  have "server_inv ?s"
    by (rule server_inv_with_pink) (simp_all add: mk_mob_def mob_ok_def mob_kinds_def in_i64_def)
  moreover have "mget (s_clients ?s) ''a'' = Some ?c" "mget (s_mobs ?s) ''p'' = Some ?m" by (simp_all add: with_pink_def)
  moreover have "has ''spear'' ?c = 12" by (simp add: has_def stock_def mget_int_put)
  ultimately show ?thesis using handleAcceptContract_correct [of ?s "''a''" ?c "''p''" ?m "''guard''"]
    by (auto simp: mk_mob_def price_def)
qed

text \<open>
  Unlike every other payment, the one for a guard does not remove an item that runs out: after
  paying with exactly ten spears the inventory sent to the client lists zero spears, where
  \<open>consumeItem\<close> would have deleted the entry.
\<close>

theorem guard_leaves_zero:
  "mget (c_inventory (snd (payContractPrice (player_with [(''spear'', 10)]) ''guard''))) ''spear'' = Some 0 \<and>
   mget (c_inventory (snd (consumeItem ''spear'' (player_with [(''spear'', 1)])))) ''spear'' = None"
  by (simp add: payContractPrice_def consumeItem_def stock_def mget_int_put inv_take_def i64_small)

text \<open>
  A throw uses up exactly one spear and starts the cool-down; within 0.8 seconds of the last
  throw the spear comes back and the clock is not restarted; without a spear nothing happens.
\<close>

theorem handleThrowSpear_correct:
  assumes "server_inv s" and "mget (s_clients s) cid = Some c"
  shows "if has ''spear'' c \<le> 0 then handleThrowSpear E cid d s = s
    else \<exists>c'. handleThrowSpear E cid d s = put_client cid c' s \<and>
      (if e_now E - c_lastThrowAt c < 800 * millisecond
       then c_lastThrowAt c' = c_lastThrowAt c \<and> (\<forall>k. has k c' = has k c)
       else c_lastThrowAt c' = e_now E \<and> (\<forall>k. has k c' = has k c - (if k = ''spear'' then 1 else 0)))"
proof -
  have ok: "client_ok c" using clients_invD [OF server_invD(1) [OF assms(1)] assms(2)] by simp
  have t: "time_sub a b < 800 * millisecond \<longleftrightarrow> a - b < 800 * millisecond" for a b
    by (rule time_sub_less) (simp_all add: millisecond_def)
  show ?thesis
  proof (cases "0 < has ''spear'' c")
    case True
    let ?c1 = "snd (consumeItem ''spear'' c)"
    have h: "has k ?c1 = has k c - (if k = ''spear'' then 1 else 0)" for k
      using has_consumeItem [OF ok] True by (simp add: consumeItem_iff)
    have "in_i64 (has ''spear'' c)" using ok by (simp add: has_def client_okD_inv mget_int_i64)
    then have "mget_int (inv_add ''spear'' 1 (c_inventory ?c1)) k = has k c" for k
      using h [of k] h [of "''spear''"] by (auto simp: mget_int_add has_def i64_id)
    moreover have "c_lastThrowAt ?c1 = c_lastThrowAt c" by (simp add: consumeItem_def)
    ultimately show ?thesis using True assms(2) h
      by (auto simp: handleThrowSpear_def consumeItem_iff t has_def)
  next
    case False
    then show ?thesis using assms(2) by (simp add: handleThrowSpear_def consumeItem_iff)
  qed
qed

theorem handleThrowSpear_correct_witness:
  "\<exists>c'. handleThrowSpear (flat_env\<lparr>e_now := second\<rparr>) ''a'' zero_vec (lone_server (player_with [(''spear'', 3)])) =
     put_client ''a'' c' (lone_server (player_with [(''spear'', 3)])) \<and> has ''spear'' c' = 2"
proof -
  let ?c = "player_with [(''spear'', 3)]"
  have "server_inv (lone_server ?c)" by (intro server_inv_lone client_ok_player_with) (simp add: in_i64_def)
  moreover have "has ''spear'' ?c = 3" "c_lastThrowAt ?c = 0"
    by (simp_all add: has_def stock_def mget_int_put player_with_def new_client_def zero_time_def)
  ultimately show ?thesis
    using handleThrowSpear_correct [of "lone_server ?c" "''a''" ?c "flat_env\<lparr>e_now := second\<rparr>" zero_vec]
    by (auto simp: millisecond_def second_def)
qed

lemma mget_int_hand_over:
  assumes "distinct (map fst goods)" "mall in_i64 m"
  shows "mget_int (hand_over goods m) k = i64 (mget_int m k + (case map_of goods k of None \<Rightarrow> 0 | Some n \<Rightarrow> n))"
  using assms
proof (induction goods arbitrary: m)
  case Nil
  then show ?case by (simp add: hand_over_def i64_id mget_int_i64)
next
  case (Cons p goods)
  obtain a n where p: "p = (a, n)" by fastforce
  have "mall in_i64 (inv_add a n m)" using Cons.prems by (simp add: inv_add_i64)
  with Cons p have "mget_int (hand_over (p # goods) m) k =
      i64 (mget_int (inv_add a n m) k + (case map_of goods k of None \<Rightarrow> 0 | Some n \<Rightarrow> n))"
    by (simp add: hand_over_def)
  moreover have "map_of goods a = None" using Cons.prems(1) p by (simp add: map_of_eq_None_iff)
  ultimately show ?case using p by (auto simp: mget_int_add)
qed

lemma map_of_range_entries: "map_of (range_entries ord site m) k = mget m k"
proof (cases "mget m k")
  case (Some v)
  then have "(k, v) \<in> set (range_entries ord site m)" by simp
  with Some show ?thesis by (simp del: in_range_entries)
next
  case None
  then have "k \<notin> set (map fst (range_entries ord site m))" by (simp add: map_fst_range_entries domIff)
  then show ?thesis using None by (simp add: map_of_eq_None_iff)
qed

text \<open>
  Delivery is exact: near its owner a gatherer adds every item it carries to the owner's
  inventory, loses them all and is free; far from the owner, or when the owner is gone, nothing
  moves. No item is lost or doubled.
\<close>

theorem pinkDeliver_correct:
  assumes "server_inv s" and "mget (s_mobs s) k = Some m"
  shows "case mget (s_clients s) (mob_OwnerID m) of
      None \<Rightarrow> pinkDeliver E k m s = (False, s)
    | Some ow \<Rightarrow>
        if c32 16 < d2_32 (ps_pos (State ow)) (mob_Pos m) then pinkDeliver E k m s = (False, s)
        else \<exists>ow'. pinkDeliver E k m s =
            (True, put_mob k (m\<lparr>mob_Inventory := mempty, mob_Contract := '''', mob_OwnerID := ''''\<rparr>)
                     (put_client (mob_OwnerID m) (sendInventory ow') s)) \<and>
          ow' = ow\<lparr>c_inventory := c_inventory ow'\<rparr> \<and>
          (\<forall>x. has x ow' = i64 (has x ow + mget_int (mob_Inventory m) x))"
proof (cases "mget (s_clients s) (mob_OwnerID m)")
  case None
  then show ?thesis by (simp add: pinkDeliver_def findClient_def)
next
  case (Some ow)
  have ok: "client_ok ow" using clients_invD [OF server_invD(1) [OF assms(1)] Some] by simp
  let ?es = "range_entries (e_ord E) [''pinkDeliver''] (mob_Inventory m)"
  let ?ow = "ow\<lparr>c_inventory := hand_over ?es (c_inventory ow)\<rparr>"
  have "has x ?ow = i64 (has x ow + mget_int (mob_Inventory m) x)" for x
    using mget_int_hand_over [of ?es "c_inventory ow" x] client_okD_inv [OF ok]
    by (simp add: has_def map_of_range_entries) (simp add: mget_int_def)
  then show ?thesis using Some
    by (auto simp: pinkDeliver_def findClient_def intro!: exI [of _ ?ow])
qed

definition loaded :: Mob where
  "loaded = (mk_mob ''p'' zero_vec (''pink'', 10))\<lparr>mob_Contract := ''gather4'', mob_OwnerID := ''a'',
     mob_Inventory := stock [(''wood'', 3), (''ore'', 1)]\<rparr>"

theorem pinkDeliver_correct_witness:
  "\<exists>ow'. pinkDeliver flat_env ''p'' loaded (with_pink [(''wood'', 5)] loaded) =
     (True, put_mob ''p'' (loaded\<lparr>mob_Inventory := mempty, mob_Contract := '''', mob_OwnerID := ''''\<rparr>)
        (put_client ''a'' (sendInventory ow') (with_pink [(''wood'', 5)] loaded))) \<and>
     has ''wood'' ow' = 8 \<and> has ''ore'' ow' = 1"
proof -
  let ?s = "with_pink [(''wood'', 5)] loaded" and ?c = "player_with [(''wood'', 5)]"
  have "mall in_i64 (stock [(''wood'', 3), (''ore'', 1)])" by (rule stock_i64) (simp add: in_i64_def)
  then have "server_inv ?s"
    by (intro server_inv_with_pink) (simp_all add: loaded_def mk_mob_def mob_ok_def mob_kinds_def contracts_def in_i64_def)
  moreover have "mget (s_mobs ?s) ''p'' = Some loaded" "mget (s_clients ?s) (mob_OwnerID loaded) = Some ?c"
    by (simp_all add: with_pink_def loaded_def)
  moreover have "\<not> c32 16 < d2_32 (ps_pos (State ?c)) (mob_Pos loaded)" by code_simp
  moreover have "mget_int (mob_Inventory loaded) ''wood'' = 3" "mget_int (mob_Inventory loaded) ''ore'' = 1"
    "has ''wood'' ?c = 5" "has ''ore'' ?c = 0" "mob_OwnerID loaded = ''a''"
    by (simp_all add: loaded_def stock_def mget_int_put has_def)
  ultimately show ?thesis using pinkDeliver_correct [of ?s "''p''" loaded flat_env] by (auto simp: i64_small)
qed

definition flown :: "env \<Rightarrow> f32 \<Rightarrow> Projectile store \<Rightarrow> Projectile store \<Rightarrow> string set \<Rightarrow> bool" where
  "flown E dt m m' done \<longleftrightarrow> (\<forall>k. case mget m k of
     None \<Rightarrow> mget m' k = None
   | Some p \<Rightarrow> if k \<in> done then mget m' k = None \<or>
        mget m' k = Some (fly dt p) \<and> e_now E - proj_SpawnAt p \<le> projTTL
      else mget m' k = Some p)"

lemma advance_one_projectiles:
  "s_projectiles (snd (advance_one E dt mp i hs)) =
    (case mget (s_projectiles (snd hs)) i of None \<Rightarrow> s_projectiles (snd hs)
     | Some p \<Rightarrow> if e_now E - proj_SpawnAt p \<le> projTTL \<and> \<not> fst (tryProjectileHitClient E (fly dt p) (snd hs)) \<and>
           \<not> tryProjectileHitMob (fly dt p) mp
         then mput i (fly dt p) (s_projectiles (snd hs)) else mdel i (s_projectiles (snd hs)))"
proof -
  have "projTTL < time_sub a b \<longleftrightarrow> \<not> a - b \<le> projTTL" for a b
    by (simp add: time_sub_gt projTTL_def second_def not_le)
  then show ?thesis by (simp add: advance_one_def hit_or_fly_def del_projectile_def split: option.split)
qed

lemma flown_step:
  assumes "flown E dt m (s_projectiles (snd hs)) d" "i \<notin> d"
  shows "flown E dt m (s_projectiles (snd (advance_one E dt mp i hs))) (insert i d)"
  using assms unfolding flown_def advance_one_projectiles
  by (auto simp: lookup_update split: option.splits if_splits)
     (metis option.distinct(1) option.inject)+

lemma flown_fold:
  assumes "flown E dt m (s_projectiles (snd hs)) d" "distinct ks" "set ks \<inter> d = {}"
  shows "flown E dt m (s_projectiles (snd (fold (advance_one E dt mp) ks hs))) (d \<union> set ks)"
  using assms
proof (induction ks arbitrary: hs d)
  case (Cons k ks)
  have "flown E dt m (s_projectiles (snd (advance_one E dt mp k hs))) (insert k d)"
    using Cons.prems by (intro flown_step) auto
  from Cons.IH [OF this] Cons.prems show ?case by (simp add: insert_commute)
qed simp

lemma hits_targets:
  assumes "\<forall>t\<in>set (fst hs). \<exists>k p. mget m k = Some p \<and> proj_TargetID p = t"
    "flown E dt m (s_projectiles (snd hs)) d" "i \<notin> d"
  shows "\<forall>t\<in>set (fst (advance_one E dt mp i hs)). \<exists>k p. mget m k = Some p \<and> proj_TargetID p = t"
proof (cases "mget (s_projectiles (snd hs)) i")
  case (Some p)
  then have "mget m i = Some p" using assms(2) [unfolded flown_def, rule_format, of i] assms(3)
    by (auto split: option.splits)
  then show ?thesis using assms(1) Some by (auto simp: advance_one_def hit_or_fly_def fly_def)
qed (use assms(1) in \<open>simp add: advance_one_def\<close>)

lemma hits_fold:
  assumes "\<forall>t\<in>set (fst hs). \<exists>k p. mget m k = Some p \<and> proj_TargetID p = t"
    "flown E dt m (s_projectiles (snd hs)) d" "distinct ks" "set ks \<inter> d = {}"
  shows "\<forall>t\<in>set (fst (fold (advance_one E dt mp) ks hs)). \<exists>k p. mget m k = Some p \<and> proj_TargetID p = t"
  using assms
proof (induction ks arbitrary: hs d)
  case (Cons k ks)
  have "flown E dt m (s_projectiles (snd (advance_one E dt mp k hs))) (insert k d)"
    using Cons.prems by (intro flown_step) auto
  moreover have "\<forall>t\<in>set (fst (advance_one E dt mp k hs)). \<exists>k p. mget m k = Some p \<and> proj_TargetID p = t"
    using Cons.prems by (intro hits_targets) auto
  ultimately show ?case using Cons.IH [of "advance_one E dt mp k hs" "insert k d"] Cons.prems by simp
qed simp

text \<open>
  One flight tick: a projectile older than three seconds disappears, none is created, and every
  one that stays is its old self moved along its direction; the identifiers of mobs reported as
  hit are targets of projectiles that disappeared.
\<close>

theorem advanceProjectiles_correct:
  "(\<forall>k. case mget (s_projectiles s) k of
      None \<Rightarrow> mget (s_projectiles (snd (advanceProjectiles E dt mp s))) k = None
    | Some p \<Rightarrow> mget (s_projectiles (snd (advanceProjectiles E dt mp s))) k = None \<or>
        mget (s_projectiles (snd (advanceProjectiles E dt mp s))) k = Some (fly dt p) \<and> e_now E - proj_SpawnAt p \<le> projTTL) \<and>
   set (fst (advanceProjectiles E dt mp s)) \<subseteq> {proj_TargetID p |k p. mget (s_projectiles s) k = Some p}"
proof -
  let ?ks = "range_keys (e_ord E) [''advanceProjectiles''] (s_projectiles s)"
  have f: "flown E dt (s_projectiles s) (s_projectiles (snd ([], s))) {}"
    by (simp add: flown_def split: option.split)
  have "flown E dt (s_projectiles s) (s_projectiles (snd (advanceProjectiles E dt mp s))) (dom (mget (s_projectiles s)))"
    using flown_fold [OF f, of ?ks mp] by (simp add: advanceProjectiles_def)
  then have g: "case mget (s_projectiles s) k of
      None \<Rightarrow> mget (s_projectiles (snd (advanceProjectiles E dt mp s))) k = None
    | Some p \<Rightarrow> mget (s_projectiles (snd (advanceProjectiles E dt mp s))) k = None \<or>
        mget (s_projectiles (snd (advanceProjectiles E dt mp s))) k = Some (fly dt p) \<and> e_now E - proj_SpawnAt p \<le> projTTL" for k
    unfolding flown_def by (auto simp: dom_def dest!: spec [of _ k] split: option.splits)
  have "\<forall>t\<in>set (fst (advanceProjectiles E dt mp s)). \<exists>k p. mget (s_projectiles s) k = Some p \<and> proj_TargetID p = t"
    using hits_fold [OF _ f, of ?ks mp] by (simp add: advanceProjectiles_def)
  then have "set (fst (advanceProjectiles E dt mp s)) \<subseteq> {proj_TargetID p |k p. mget (s_projectiles s) k = Some p}"
    by (intro subsetI) (simp, metis)
  with g show ?thesis by simp
qed

end
