(* ===== verification/Dispatch.thy ===== *)
theory Dispatch
  imports Conn Hunger Mob_Facts
begin

text \<open>
  \<open>internal/server/net/dispatch.go\<close> and the two loops of a connection: the table from message
  tags to handlers, \<open>handleMessage\<close>, \<open>readLoop\<close> and \<open>handleConn\<close>. A handler runs as a whole;
  which handlers have more than one critical section is told where they are modelled.
\<close>

section \<open>Zero values\<close>

text \<open>What \<open>var p T\<close> holds before decoding.\<close>

definition zero_ping :: Ping where "zero_ping = \<lparr>ping_Sent = 0\<rparr>"
definition zero_chat :: ChatMessage where "zero_chat = \<lparr>chat_From = '''', chat_Text = '''', chat_TS = 0\<rparr>"
definition zero_input :: RocketInput where
  "zero_input = \<lparr>ri_Thrust = 0, ri_TargetUpX = 0, ri_TargetUpY = 0, ri_TargetUpZ = 0, ri_AutoPilot = ''''\<rparr>"

section \<open>The table\<close>

definition dispatch :: "(bytes \<Rightarrow> 'p option) \<Rightarrow> 'p \<Rightarrow> ('p \<Rightarrow> Server \<Rightarrow> Server) \<Rightarrow> Envelope \<Rightarrow> Server \<Rightarrow> Server" where
  "dispatch u z h e s = (case Decode u z e of None \<Rightarrow> s | Some p \<Rightarrow> h p s)"

definition ping_of :: "codec \<Rightarrow> Envelope \<Rightarrow> Ping" where
  "ping_of K e = (if env_Data e = [] then zero_ping else u_Ping K (env_Data e))"

text \<open>The tags without an entry are the messages that only the server sends, and \<open>hello\<close>.\<close>

fun messageHandlers :: "codec \<Rightarrow> env \<Rightarrow> string \<Rightarrow> msg_type \<Rightarrow> (Envelope \<Rightarrow> Server \<Rightarrow> Server) option" where
  "messageHandlers K E c TypeState = Some (dispatch (u_PlayerState K) (zero_state '''' '''') (handleStateMsg E c))"
| "messageHandlers K E c TypeChat = Some (dispatch (u_ChatMessage K) zero_chat (handleChatMsg E c))"
| "messageHandlers K E c TypePing = Some (\<lambda>e. handlePingMsg E c (ping_of K e))"
| "messageHandlers K E c TypeEatFruit = Some (\<lambda>e. handleEatFruitMsg c)"
| "messageHandlers K E c TypeSelectItem = Some (dispatch (u_SelectItem K) \<lparr>sel_Item = ''''\<rparr> (handleSelectItemMsg c))"
| "messageHandlers K E c TypeExitRocket = Some (\<lambda>e. handleExitRocket E c)"
| "messageHandlers K E c TypePickupItem =
     Some (dispatch (u_PickupItem K) \<lparr>pick_ResourceID = ''''\<rparr> (\<lambda>p. handlePickup c (pick_ResourceID p)))"
| "messageHandlers K E c TypeThrowSpear =
     Some (dispatch (u_ThrowSpear K) \<lparr>ts_Dir = zero_vec\<rparr> (\<lambda>p. handleThrowSpear E c (ts_Dir p)))"
| "messageHandlers K E c TypeCraftItem =
     Some (dispatch (u_CraftItem K) \<lparr>ci_Recipe = ''''\<rparr> (\<lambda>p. handleCraft c (ci_Recipe p)))"
| "messageHandlers K E c TypeHitMammoth =
     Some (dispatch (u_HitMammoth K) \<lparr>hm_MammothID = ''''\<rparr> (\<lambda>p. handleHitMammoth E c (hm_MammothID p)))"
| "messageHandlers K E c TypePlantSeed =
     Some (dispatch (u_PlantSeed K) \<lparr>plant_X = 0, plant_Y = 0, plant_Z = 0\<rparr> (handlePlantSeed E c))"
| "messageHandlers K E c TypeWaterPlant =
     Some (dispatch (u_WaterPlant K) \<lparr>wp_ResourceID = ''''\<rparr> (\<lambda>p. handleWaterPlant E c (wp_ResourceID p)))"
| "messageHandlers K E c TypeTakeWater =
     Some (dispatch (u_TakeWater K) \<lparr>tw_WellID = ''''\<rparr> (\<lambda>p. handleTakeWater c (tw_WellID p)))"
| "messageHandlers K E c TypeTameMammoth =
     Some (dispatch (u_TameMammoth K) \<lparr>tame_MammothID = ''''\<rparr> (\<lambda>p. handleTameMammoth c (tame_MammothID p)))"
| "messageHandlers K E c TypeLeashMammoth =
     Some (dispatch (u_LeashMammoth K) \<lparr>leash_MammothID = ''''\<rparr> (\<lambda>p. handleLeashMammoth c (leash_MammothID p)))"
| "messageHandlers K E c TypePlaceHouse =
     Some (dispatch (u_PlaceHouse K) \<lparr>plh_X = 0, plh_Y = 0, plh_Z = 0, plh_Yaw = 0\<rparr> (handlePlaceHouse c))"
| "messageHandlers K E c TypeToggleDoor =
     Some (dispatch (u_ToggleDoor K) \<lparr>td_HouseID = ''''\<rparr> (\<lambda>p. handleToggleDoor c (td_HouseID p)))"
| "messageHandlers K E c TypeSaddleMammoth =
     Some (dispatch (u_SaddleMammoth K) \<lparr>sad_MammothID = ''''\<rparr> (\<lambda>p. handleSaddleMammoth c (sad_MammothID p)))"
| "messageHandlers K E c TypeRideMammoth =
     Some (dispatch (u_RideMammoth K) \<lparr>ride_MammothID = ''''\<rparr> (\<lambda>p. handleRideMammoth E c (ride_MammothID p)))"
| "messageHandlers K E c TypePlaceBoat =
     Some (dispatch (u_PlaceBoat K) \<lparr>plb_X = 0, plb_Y = 0, plb_Z = 0, plb_Yaw = 0\<rparr> (handlePlaceBoat E c))"
| "messageHandlers K E c TypeEnterBoat =
     Some (dispatch (u_EnterBoat K) \<lparr>eb_BoatID = ''''\<rparr> (\<lambda>p. handleEnterBoat c (eb_BoatID p)))"
| "messageHandlers K E c TypeHitMob =
     Some (dispatch (u_HitMob K) \<lparr>hmob_MobID = ''''\<rparr> (\<lambda>p. handleHitMob E c (hmob_MobID p)))"
| "messageHandlers K E c TypeAcceptContract =
     Some (dispatch (u_AcceptContract K) \<lparr>acc_MobID = '''', acc_ContractID = ''''\<rparr>
       (\<lambda>p. handleAcceptContract c (acc_MobID p) (acc_ContractID p)))"
| "messageHandlers K E c TypePlaceSolar =
     Some (dispatch (u_PlaceSolar K) \<lparr>pls_X = 0, pls_Y = 0, pls_Z = 0, pls_Yaw = 0\<rparr> (handlePlaceSolar c))"
| "messageHandlers K E c TypePlaceBattery =
     Some (dispatch (u_PlaceBattery K) \<lparr>plbat_X = 0, plbat_Y = 0, plbat_Z = 0, plbat_Yaw = 0\<rparr> (handlePlaceBattery c))"
| "messageHandlers K E c TypePlaceFactory =
     Some (dispatch (u_PlaceFactory K) \<lparr>plf_X = 0, plf_Y = 0, plf_Z = 0, plf_Yaw = 0\<rparr> (handlePlaceFactory c))"
| "messageHandlers K E c TypeOpenFactory =
     Some (dispatch (u_OpenFactory K) \<lparr>of_FactoryID = ''''\<rparr> (\<lambda>p. handleOpenFactory c (of_FactoryID p)))"
| "messageHandlers K E c TypeCraftFactory =
     Some (dispatch (u_CraftFactory K) \<lparr>cf_FactoryID = '''', cf_Recipe = ''''\<rparr>
       (\<lambda>p. handleCraftFactory E c (cf_FactoryID p) (cf_Recipe p)))"
| "messageHandlers K E c TypePlaceRocket =
     Some (dispatch (u_PlaceRocket K) \<lparr>plr_X = 0, plr_Y = 0, plr_Z = 0\<rparr> (handlePlaceRocket E c))"
| "messageHandlers K E c TypeBoardRocket =
     Some (dispatch (u_BoardRocket K) \<lparr>br_RocketID = ''''\<rparr> (\<lambda>p. handleBoardRocket c (br_RocketID p)))"
| "messageHandlers K E c TypeRocketInput = Some (dispatch (u_RocketInput K) zero_input (handleRocketInput E c))"
| "messageHandlers K E c TypeHello = None"
| "messageHandlers K E c TypeWelcome = None"
| "messageHandlers K E c TypeSnapshot = None"
| "messageHandlers K E c TypePong = None"
| "messageHandlers K E c TypeInventoryUpdate = None"
| "messageHandlers K E c TypeTeleport = None"

definition handleMessage :: "codec \<Rightarrow> env \<Rightarrow> string \<Rightarrow> Envelope \<Rightarrow> Server \<Rightarrow> Server" where
  "handleMessage K E cid e s =
     (case type_of_tag (env_Type e) of
        None \<Rightarrow> s
      | Some ty \<Rightarrow> (case messageHandlers K E cid ty of None \<Rightarrow> s | Some h \<Rightarrow> h e s))"

section \<open>The loops\<close>

text \<open>
  \<open>readLoop\<close> of a connection on its own: \<open>Es n\<close> is the environment in which the \<open>n\<close>-th message
  is handled. It ends at the first frame that cannot be read or decoded.
\<close>

function readLoop :: "codec \<Rightarrow> (nat \<Rightarrow> env) \<Rightarrow> nat \<Rightarrow> string \<Rightarrow> bytes \<Rightarrow> Server \<Rightarrow> Server" where
  "readLoop K Es n cid r s =
     (case readEnvelope K r of
        None \<Rightarrow> s
      | Some (e, r') \<Rightarrow> readLoop K Es (Suc n) cid r' (handleMessage K (Es n) cid e s))"
  by pat_completeness auto
termination
  by (relation "measure (\<lambda>(_, _, _, _, r, _). length r)") (auto dest: readEnvelope_shorter)

declare readLoop.simps [simp del]

definition handleConn :: "codec \<Rightarrow> (nat \<Rightarrow> env) \<Rightarrow> bytes \<Rightarrow> Server \<Rightarrow> Server" where
  "handleConn K Es r s =
     (case new_id s of (i, s1) \<Rightarrow>
      case performHelloHandshake K r (new_client i) of
        None \<Rightarrow> s1
      | Some (c, r') \<Rightarrow> unregisterClient (c_ID c) (readLoop K Es 0 (c_ID c) r' (registerClient c s1)))"

section \<open>The invariant\<close>

lemma server_inv_dispatch: "server_inv s \<Longrightarrow> (\<And>p. server_inv (h p s)) \<Longrightarrow> server_inv (dispatch u z h e s)"
  by (simp add: dispatch_def split: option.split)

lemma server_inv_messageHandlers: "server_inv s \<Longrightarrow> messageHandlers K E cid ty = Some h \<Longrightarrow> server_inv (h e s)"
  by (cases ty) (auto intro!: server_inv_dispatch inv_intros)

lemma server_inv_handleMessage [inv_intros]: "server_inv s \<Longrightarrow> server_inv (handleMessage K E cid e s)"
  by (auto simp: handleMessage_def split: option.split intro: server_inv_messageHandlers)

lemma server_inv_readLoop [inv_intros]: "server_inv s \<Longrightarrow> server_inv (readLoop K Es n cid r s)"
proof (induction K Es n cid r s rule: readLoop.induct)
  case (1 K Es n cid r s)
  show ?case
  proof (cases "readEnvelope K r")
    case (Some a)
    obtain e r' where a: "a = (e, r')" by force
    have "server_inv (readLoop K Es (Suc n) cid r' (handleMessage K (Es n) cid e s))"
      by (rule "1.IH" [OF Some a [symmetric]]) (intro inv_intros 1)
    with Some a show ?thesis by (simp add: readLoop.simps [of K Es n])
  qed (simp add: readLoop.simps [of K Es n] 1)
qed

lemma new_id_nonempty: "fst (new_id s) \<noteq> ''''"
  using newID_nonempty [of "s_rng s"] by (simp add: new_id_def case_prod_beta)

lemma handshake_client_ok:
  "performHelloHandshake K r (new_client i) = Some (c, r') \<Longrightarrow> i \<noteq> '''' \<Longrightarrow> client_ok c \<and> c_ID c = i"
  using client_ok_greet [OF client_ok_new [of i]]
  by (auto simp: performHelloHandshake_def new_client_def split: option.splits if_splits)

lemma server_inv_handleConn [inv_intros]: "server_inv s \<Longrightarrow> server_inv (handleConn K Es r s)"
  unfolding handleConn_def case_prod_beta
  using handshake_client_ok [of K r "fst (new_id s)"] new_id_nonempty [of s]
  by (auto split: option.split intro!: inv_intros)

section \<open>Correctness\<close>

lemma messageHandlers_gone:
  assumes "mget (s_clients s) cid = None" "messageHandlers K E cid ty = Some h"
  shows "h e s = s"
  using assms
  by (cases ty) (auto simp: dispatch_def with_client_None handleStateMsg_def handleChatMsg_def handlePingMsg_def
      handleEatFruitMsg_def handleSelectItemMsg_def handleExitRocket_def handlePickup_def handleThrowSpear_def
      handleCraft_def handleHitMammoth_def handlePlantSeed_def handleWaterPlant_def handleTakeWater_def
      handleTameMammoth_def handleLeashMammoth_def handlePlaceHouse_def handleToggleDoor_def handleSaddleMammoth_def
      handleRideMammoth_def handlePlaceBoat_def place_boat_at_def handleEnterBoat_def handleHitMob_def handleAcceptContract_def
      handlePlaceSolar_def handlePlaceBattery_def handlePlaceFactory_def handleOpenFactory_def handleCraftFactory_def
      handlePlaceRocket_def place_rocket_at_def handleBoardRocket_def handleRocketInput_def split: option.split)

text \<open>
  Messages that mean nothing to the server change nothing: those with an unknown tag, those
  with a tag that only the server sends, a second \<open>hello\<close>, and every message of a connection
  that is not registered (any more).
\<close>

theorem handleMessage_ignores:
  assumes "mget (s_clients s) cid = None \<or> env_Type e \<notin> tag ` {ty. messageHandlers K E cid ty \<noteq> None}"
  shows "handleMessage K E cid e s = s \<and>
    {ty. messageHandlers K E cid ty = None} =
      {TypeHello, TypeWelcome, TypeSnapshot, TypePong, TypeInventoryUpdate, TypeTeleport}"
proof -
  have "ty \<in> {TypeHello, TypeWelcome, TypeSnapshot, TypePong, TypeInventoryUpdate, TypeTeleport}"
    if "messageHandlers K E cid ty = None" for ty using that by (cases ty) simp_all
  moreover have "handleMessage K E cid e s = s"
    using assms messageHandlers_gone [of s cid K E _ _ e]
    by (fastforce simp: handleMessage_def type_of_tag_Some split: option.split)
  ultimately show ?thesis by auto
qed

lemma readEnvelope_encoded:
  "u_Envelope K (m e) = Some e \<Longrightarrow> length (m e) \<le> MaxFrameSize \<Longrightarrow>
     readEnvelope K (encode_frame (m e) @ rest) = Some (e, rest)"
  by (simp add: readEnvelope_def ReadFrame_encode)

text \<open>
  C6. The read loop handles exactly the envelopes that were framed onto the connection, each once
  and in order, and stops at the first rest that is no frame or no envelope. The hypothesis on
  the decoder is that it undoes the sender's encoding \<open>m\<close>.
\<close>

theorem readLoop_correct:
  assumes "\<forall>e\<in>set es. u_Envelope K (m e) = Some e \<and> length (m e) \<le> MaxFrameSize"
    and "readEnvelope K rest = None"
  shows "readLoop K Es n cid (concat (map (\<lambda>e. encode_frame (m e)) es) @ rest) s =
    fold (\<lambda>(i, e). handleMessage K (Es i) cid e) (enumerate n es) s"
  using assms(1)
proof (induction es arbitrary: n s)
  case Nil
  then show ?case using assms(2) by (simp add: readLoop.simps [of K Es n])
next
  case (Cons e es)
  then have "readEnvelope K (encode_frame (m e) @ concat (map (\<lambda>e. encode_frame (m e)) es) @ rest) =
      Some (e, concat (map (\<lambda>e. encode_frame (m e)) es) @ rest)"
    by (intro readEnvelope_encoded) auto
  with Cons show ?case by (simp add: readLoop.simps [of K Es n])
qed

text \<open>A decoder that knows one envelope, for examples: the byte 1 is a request to eat fruit.\<close>

definition toy_codec :: codec where
  "toy_codec = \<lparr>u_Envelope = (\<lambda>b. if b = [1] then Some \<lparr>env_Type = ''eat_fruit'', env_Data = []\<rparr> else None),
     u_Hello = (\<lambda>_. None), u_PlayerState = (\<lambda>_. None), u_ChatMessage = (\<lambda>_. None), u_Ping = (\<lambda>_. zero_ping),
     u_SelectItem = (\<lambda>_. None), u_PickupItem = (\<lambda>_. None), u_ThrowSpear = (\<lambda>_. None), u_CraftItem = (\<lambda>_. None),
     u_HitMammoth = (\<lambda>_. None), u_PlantSeed = (\<lambda>_. None), u_WaterPlant = (\<lambda>_. None), u_TakeWater = (\<lambda>_. None),
     u_TameMammoth = (\<lambda>_. None), u_LeashMammoth = (\<lambda>_. None), u_PlaceHouse = (\<lambda>_. None), u_ToggleDoor = (\<lambda>_. None),
     u_SaddleMammoth = (\<lambda>_. None), u_RideMammoth = (\<lambda>_. None), u_PlaceBoat = (\<lambda>_. None), u_EnterBoat = (\<lambda>_. None),
     u_HitMob = (\<lambda>_. None), u_AcceptContract = (\<lambda>_. None), u_PlaceSolar = (\<lambda>_. None), u_PlaceBattery = (\<lambda>_. None),
     u_PlaceFactory = (\<lambda>_. None), u_OpenFactory = (\<lambda>_. None), u_CraftFactory = (\<lambda>_. None), u_PlaceRocket = (\<lambda>_. None),
     u_BoardRocket = (\<lambda>_. None), u_RocketInput = (\<lambda>_. None)\<rparr>"

definition eat_envelope :: Envelope where "eat_envelope = \<lparr>env_Type = ''eat_fruit'', env_Data = []\<rparr>"

theorem readLoop_correct_witness:
  "readLoop toy_codec (\<lambda>_. flat_env) 0 ''a'' (encode_frame [1] @ encode_frame [1] @ [0])
     (lone_server (player_with [(''fruit'', 5)])) =
   handleMessage toy_codec flat_env ''a'' eat_envelope (handleMessage toy_codec flat_env ''a'' eat_envelope
     (lone_server (player_with [(''fruit'', 5)])))"
proof -
  have "readEnvelope toy_codec [0] = None" by (simp add: readEnvelope_def ReadFrame_def read_full_def)
  moreover have "u_Envelope toy_codec [1] = Some eat_envelope" "length [1 :: 8 word] \<le> MaxFrameSize"
    by (simp_all add: toy_codec_def eat_envelope_def MaxFrameSize_def)
  ultimately show ?thesis
    using readLoop_correct [of "[eat_envelope, eat_envelope]" toy_codec "\<lambda>_. [1]" "[0]" "\<lambda>_. flat_env" 0 "''a''"]
    by simp
qed

theorem handleMessage_ignores_witness:
  "handleMessage toy_codec flat_env ''gone'' eat_envelope (lone_server (new_client ''a'')) = lone_server (new_client ''a'')"
  using handleMessage_ignores [of "lone_server (new_client ''a'')" "''gone''" eat_envelope toy_codec flat_env]
  by (simp add: new_client_def)

end
