(* ===== verification/Game.thy ===== *)
theory Game
  imports Dispatch
begin

text \<open>
  The server as a whole: \<open>New\<close> of \<open>server.go\<close>, the tick loop of \<open>server_tick.go\<close>, and the
  server as a state machine whose steps are the atomic actions of its goroutines: a handled
  message, a handshake, a departure, one phase of a tick, one message taken off a player's
  queue. Phases and messages interleave in any order. The two handlers that give up the lock of a
  store half-way take several steps, between which the other goroutines may do anything.
\<close>

section \<open>Start\<close>

definition empty_server :: "int \<Rightarrow> rng \<Rightarrow> Server" where
  "empty_server tickRate r = \<lparr>s_tickRate = tickRate, s_clients = mempty, s_resources = newStore,
     s_mammoths = newStore, s_wells = newStore, s_houses = newStore, s_solar = newStore,
     s_batteries = newStore, s_factories = newStore, s_rockets = newStore, s_boats = newStore,
     s_mobs = newStore, s_projectiles = newStore, s_tick = 0, s_world = bare_world, s_rng = r,
     s_PlayersConnected = 0, s_TicksTotal = 0, s_ChatMessages = 0\<rparr>"

definition New :: "env \<Rightarrow> int \<Rightarrow> rng \<Rightarrow> Server" where
  "New E tickRate r =
     (spawnMobs E 5 (spawnWells E 6 (spawnMammoths E 5 (spawnResources E 40 (empty_server tickRate r)))))
       \<lparr>s_world := NewWorldState\<rparr>"

section \<open>One tick\<close>

text \<open>The phases in the order of \<open>tickLoop\<close>; each reads the clock and ranges over maps by itself.\<close>

definition tick_phases :: "(env \<Rightarrow> f32 \<Rightarrow> Server \<Rightarrow> Server) list" where
  "tick_phases =
     [\<lambda>E dt. tickHunger (f64_of dt), tickMammoths, \<lambda>E dt. tickBoats E, tickMobs, tickProjectiles,
      \<lambda>E dt. tickBreeding E, \<lambda>E dt. tickResources E, tickEnergy,
      \<lambda>E dt s. s\<lparr>s_world := World_Tick dt (s_world s)\<rparr>, tickRockets, \<lambda>E dt. broadcastSnapshot E]"

definition count_tick :: "Server \<Rightarrow> Server" where
  "count_tick s = s\<lparr>s_tick := s_tick s + 1, s_TicksTotal := s_TicksTotal s + 1\<rparr>"

definition run_phase :: "env \<Rightarrow> (env \<Rightarrow> f32 \<Rightarrow> Server \<Rightarrow> Server) \<Rightarrow> Server \<Rightarrow> Server" where
  "run_phase E ph s = ph E (tick_dt (s_tickRate s)) s"

definition run_tick :: "(nat \<Rightarrow> env) \<Rightarrow> Server \<Rightarrow> Server" where
  "run_tick Es s = fold (\<lambda>(i, ph). run_phase (Es i) ph) (enumerate 0 tick_phases) (count_tick s)"

section \<open>The tick loop\<close>

definition tickDur :: "int \<Rightarrow> duration" where
  "tickDur tickRate = f_to_int (raw64 (f64_of_int second / f64_of_int tickRate))"

text \<open>
  One pass of the loop at time \<open>now\<close>: sleep until \<open>next\<close>, or run a tick. The clock is read again
  after the tick (\<open>t1\<close>), and once more (\<open>t2\<close>) when the loop is more than 200 ms late and gives up
  the missed ticks.
\<close>

datatype pass_result = Sleep duration | Ticked gotime Server

definition loop_pass :: "duration \<Rightarrow> (nat \<Rightarrow> env) \<Rightarrow> gotime \<Rightarrow> gotime \<Rightarrow> gotime \<Rightarrow> gotime \<Rightarrow> Server \<Rightarrow> pass_result" where
  "loop_pass d Es now t1 t2 next_at s =
     (if now < next_at then Sleep (time_sub next_at now)
      else (let n = time_add next_at d in
            Ticked (if 200 * millisecond < time_sub t1 n then time_add t2 d else n) (run_tick Es s)))"

text \<open>
  The loop for a list of passes; every pass has its clock readings and the surroundings of its phases. The duration \<open>d\<close>
  of a tick is computed once before the loop. The results count the ticks and the deadlines that were given up.
\<close>

record pass =
  ps_now :: gotime
  ps_after :: gotime
  ps_again :: gotime
  ps_envs :: "nat \<Rightarrow> env"

fun tick_loop :: "duration \<Rightarrow> pass list \<Rightarrow> gotime \<Rightarrow> Server \<Rightarrow> gotime \<times> nat \<times> nat \<times> Server" where
  "tick_loop d [] n s = (n, 0, 0, s)"
| "tick_loop d (x # xs) n s =
     (case loop_pass d (ps_envs x) (ps_now x) (ps_after x) (ps_again x) n s of
        Sleep _ \<Rightarrow> tick_loop d xs n s
      | Ticked n' s' \<Rightarrow> (case tick_loop d xs n' s' of (n2, k, g, s2) \<Rightarrow> (n2, Suc k, if n' = n + d then g else Suc g, s2)))"

section \<open>Handlers with gaps\<close>

text \<open>What is left to do of a handler that has given up its lock: to pay, to take back, to commit, to send the inventory.\<close>

datatype half = Taming string | Untaming string | Watering string | Watered string | Telling

definition opens :: "codec \<Rightarrow> string \<Rightarrow> Envelope \<Rightarrow> Server \<Rightarrow> (half \<times> Server) option" where
  "opens K cid e s =
     (if type_of_tag (env_Type e) = Some TypeTameMammoth then
        (case Decode (u_TameMammoth K) \<lparr>tame_MammothID = ''''\<rparr> e of
           None \<Rightarrow> None
         | Some p \<Rightarrow> if tame_opens cid (tame_MammothID p) s
                    then Some (Taming (tame_MammothID p), tame_begin (tame_MammothID p) s) else None)
      else if type_of_tag (env_Type e) = Some TypeWaterPlant then
        (case Decode (u_WaterPlant K) \<lparr>wp_ResourceID = ''''\<rparr> e of
           None \<Rightarrow> None
         | Some p \<Rightarrow> if water_opens cid (wp_ResourceID p) s then Some (Watering (wp_ResourceID p), s) else None)
      else None)"

definition pays :: "string \<Rightarrow> string \<Rightarrow> half option \<Rightarrow> half option \<Rightarrow> Server \<Rightarrow> half option \<times> Server" where
  "pays cid item paid unpaid s =
     (case mget (s_clients s) cid of
        None \<Rightarrow> (None, s)
      | Some c \<Rightarrow> if fst (consumeItem item c) then (paid, put_client cid (snd (consumeItem item c)) s) else (unpaid, s))"

fun goes_on :: "env \<Rightarrow> string \<Rightarrow> half \<Rightarrow> Server \<Rightarrow> half option \<times> Server" where
  "goes_on E cid (Taming i) s = pays cid ''fruit'' (Some Telling) (Some (Untaming i)) s"
| "goes_on E cid (Untaming i) s = (None, set_tamed i False s)"
| "goes_on E cid (Watering r) s = pays cid ''water'' (Some (Watered r)) None s"
| "goes_on E cid (Watered r) s = (Some Telling, water_commit E r s)"
| "goes_on E cid Telling s = (None, send_inventory_to cid s)"

text \<open>Undisturbed, the steps are the handler.\<close>

definition carry_on :: "env \<Rightarrow> string \<Rightarrow> half option \<times> Server \<Rightarrow> half option \<times> Server" where
  "carry_on E cid hs = (case hs of (None, s) \<Rightarrow> hs | (Some h, s) \<Rightarrow> goes_on E cid h s)"

section \<open>The state machine\<close>

text \<open>The state of the server, and for each player's goroutine what is left of a handler.\<close>

type_synonym machine = "Server \<times> (string \<Rightarrow> half option)"

inductive srv_step :: "codec \<Rightarrow> machine \<Rightarrow> machine \<Rightarrow> bool" for K where
  message: "p cid = None \<Longrightarrow> opens K cid e s = None \<Longrightarrow> srv_step K (s, p) (handleMessage K E cid e s, p)"
| begins: "p cid = None \<Longrightarrow> opens K cid e s = Some (h, s') \<Longrightarrow> srv_step K (s, p) (s', p(cid := Some h))"
| going: "p cid = Some h \<Longrightarrow> goes_on E cid h s = (h', s') \<Longrightarrow> srv_step K (s, p) (s', p(cid := h'))"
| join: "new_id s = (i, s1) \<Longrightarrow> performHelloHandshake K r (new_client i) = Some (c, r') \<Longrightarrow>
    srv_step K (s, p) (registerClient c s1, p)"
| refuse: "new_id s = (i, s1) \<Longrightarrow> performHelloHandshake K r (new_client i) = None \<Longrightarrow> srv_step K (s, p) (s1, p)"
| leave: "p cid = None \<Longrightarrow> srv_step K (s, p) (unregisterClient cid s, p)"
| count: "srv_step K (s, p) (count_tick s, p)"
| phase: "ph \<in> set tick_phases \<Longrightarrow> srv_step K (s, p) (run_phase E ph s, p)"
| sent: "mget (s_clients s) cid = Some c \<Longrightarrow> c_send c = m # ms \<Longrightarrow>
    srv_step K (s, p) (put_client cid (c\<lparr>c_send := ms\<rparr>) s, p)"

inductive_cases srv_stepE: "srv_step K sp sp'"

inductive reachable :: "codec \<Rightarrow> machine \<Rightarrow> bool" for K where
  start: "1 \<le> tickRate \<Longrightarrow> tickRate \<le> 1000 \<Longrightarrow> reachable K (New E tickRate r, \<lambda>_. None)"
| step: "reachable K sp \<Longrightarrow> srv_step K sp sp' \<Longrightarrow> reachable K sp'"

section \<open>The invariant holds in every reachable state\<close>

locale invariant_machine =
  fixes step :: "'s \<Rightarrow> 's \<Rightarrow> bool" and inv_of :: "'s \<Rightarrow> bool"
  assumes step_inv: "step s s' \<Longrightarrow> inv_of s \<Longrightarrow> inv_of s'"
begin

lemma steps_inv: "step\<^sup>*\<^sup>* s s' \<Longrightarrow> inv_of s \<Longrightarrow> inv_of s'"
  by (induction rule: rtranclp_induct) (auto intro: step_inv)

end

lemma server_inv_empty: "1 \<le> n \<Longrightarrow> n \<le> 1000 \<Longrightarrow> server_inv (empty_server n r)"
  by (simp add: server_inv_def clients_inv_def world_inv_def empty_server_def newStore_def)

lemma server_inv_New: "1 \<le> n \<Longrightarrow> n \<le> 1000 \<Longrightarrow> server_inv (New E n r)"
  unfolding New_def by (simp, intro inv_intros server_inv_empty)

lemma f64_of_not_nan: "in32 0 1 dt \<Longrightarrow> raw64 (f64_of dt) \<noteq> NaN"
  using cvt_in_rng [of 0 1 "raw32 dt" Binary64]
  by (auto simp: raw64_ops rv32_values in_rng_def fmax_def)

lemma server_inv_phase: "server_inv s \<Longrightarrow> ph \<in> set tick_phases \<Longrightarrow> server_inv (run_phase E ph s)"
proof -
  assume s: "server_inv s" and ph: "ph \<in> set tick_phases"
  have d: "in32 0 1 (tick_dt (s_tickRate s))" using server_invD(3,4) [OF s] by (rule tick_dt_unit)
  then have "raw64 (f64_of (tick_dt (s_tickRate s))) \<noteq> NaN" by (rule f64_of_not_nan)
  with s d ph show ?thesis by (auto simp: tick_phases_def run_phase_def intro!: inv_intros)
qed

lemma server_inv_count [inv_intros]: "server_inv s \<Longrightarrow> server_inv (count_tick s)"
  by (simp add: count_tick_def)

lemma server_inv_pays: "server_inv s \<Longrightarrow> server_inv (snd (pays cid item x y s))"
proof -
  assume s: "server_inv s"
  have "server_inv (put_client cid (snd (consumeItem item c)) s)" if "mget (s_clients s) cid = Some c" for c
    using clients_invD [OF server_invD(1) [OF s] that] s by (auto intro!: inv_intros)
  with s show ?thesis by (simp add: pays_def split: option.split)
qed

lemma server_inv_goes_on: "server_inv s \<Longrightarrow> server_inv (snd (goes_on E cid h s))"
  by (cases h) (auto intro!: inv_intros server_inv_pays)

lemma server_inv_opens: "opens K cid e s = Some (h, s') \<Longrightarrow> server_inv s \<Longrightarrow> server_inv s'"
  by (auto simp: opens_def tame_begin_def split: if_splits option.splits intro: inv_intros)

lemma server_inv_step: "srv_step K sp sp' \<Longrightarrow> server_inv (fst sp) \<Longrightarrow> server_inv (fst sp')"
proof (induction rule: srv_step.induct)
  case (going p cid h E s h' s')
  then show ?case using server_inv_goes_on [of s E cid h] by simp
next
  case (join s i s1 r c r')
  then have "server_inv s1" "i \<noteq> ''''" using server_inv_frame(7) [of s] new_id_nonempty [of s] by simp_all
  with handshake_client_ok [OF join(2)] show ?case by (auto intro!: inv_intros)
next
  case (refuse s i s1 r)
  then show ?case using server_inv_frame(7) [of s] by simp
next
  case (sent s cid c m ms)
  with clients_invD [OF server_invD(1) sent(1)] show ?case
    by (auto intro!: server_inv_put simp: client_ok_def)
qed (auto intro: server_inv_phase server_inv_opens inv_intros)

interpretation server: invariant_machine "srv_step K" "\<lambda>sp. server_inv (fst sp)" for K
  by unfold_locales (rule server_inv_step)

lemma reachable_server_inv: "reachable K sp \<Longrightarrow> server_inv (fst sp)"
  by (induction rule: reachable.induct) (auto intro: server_inv_New server_inv_step)

lemma carry_on_simps [simp]: "carry_on E cid (None, s) = (None, s)" "carry_on E cid (Some h, s) = goes_on E cid h s"
  by (simp_all add: carry_on_def)

theorem halves_compose:
  assumes "opens K cid e s = Some (h, s')"
  shows "carry_on E cid (carry_on E cid (carry_on E cid (Some h, s'))) = (None, handleMessage K E cid e s)"
proof -
  consider (tame) p where "type_of_tag (env_Type e) = Some TypeTameMammoth" "Decode (u_TameMammoth K) \<lparr>tame_MammothID = ''''\<rparr> e = Some p"
      "tame_opens cid (tame_MammothID p) s" "h = Taming (tame_MammothID p)" "s' = tame_begin (tame_MammothID p) s"
    | (water) p where "type_of_tag (env_Type e) = Some TypeWaterPlant" "Decode (u_WaterPlant K) \<lparr>wp_ResourceID = ''''\<rparr> e = Some p"
      "water_opens cid (wp_ResourceID p) s" "h = Watering (wp_ResourceID p)" "s' = s"
    using assms by (auto simp: opens_def split: if_splits option.splits)
  then show ?thesis
  proof cases
    case tame
    then show ?thesis
      by (auto simp: tame_opens_def handleMessage_def dispatch_def handleTameMammoth_def with_client_def tame_end_def tame_begin_def
          pays_def send_inventory_to_def lookup_update put_client_def split: option.splits)
  next
    case water
    have "s_clients (water_commit E r s1) = s_clients s1" for r s1 by (auto simp: water_commit_def split: option.split)
    moreover have "water_commit E r s1\<lparr>s_clients := cs\<rparr> = water_commit E r (s1\<lparr>s_clients := cs\<rparr>)" for r cs s1
      by (auto simp: water_commit_def split: option.split)
    ultimately show ?thesis using water
      by (auto simp: water_opens_def handleMessage_def dispatch_def handleWaterPlant_def with_client_def
          pays_def send_inventory_to_def lookup_update put_client_def split: option.splits)
  qed
qed

text \<open>
  C1. In every state that the server can reach, whatever the players send and however messages,
  departures and the phases of ticks interleave, also in the gaps of the handlers that give up a lock: every player has
  between 0 and 100 health and hunger and at most 256 queued messages; every battery holds between 0 and 1000, every rocket
  between 0 and 100 fuel, and a rocket is piloted exactly when it has an owner; no player rides
  two mammoths or two boats; only saddled mammoths carry a rider and only grown ones a saddle; every living mob and
  mammoth has health left; only pink mobs work, and a mob has an owner exactly when it has a
  contract; every entity is stored under its own identifier.
\<close>

theorem reachable_correct:
  assumes "reachable K (s, p)"
  shows "(\<forall>k c. mget (s_clients s) k = Some c \<longrightarrow> c_ID c = k \<and> 0 \<le> c_hp c \<and> c_hp c \<le> 100 \<and>
       in32 0 100 (c_hunger c) \<and> length (c_send c) \<le> 256) \<and>
    (\<forall>k b. mget (s_batteries s) k = Some b \<longrightarrow> bat_ID b = k \<and> 0 \<le> bat_Energy b \<and> bat_Energy b \<le> 1000) \<and>
    (\<forall>k r. mget (s_rockets s) k = Some r \<longrightarrow> rk_ID r = k \<and> 0 \<le> rk_Fuel r \<and> rk_Fuel r \<le> 100 \<and>
       (rk_Piloted r \<longleftrightarrow> rk_OwnerID r \<noteq> '''')) \<and>
    (\<forall>k m. mget (s_mammoths s) k = Some m \<longrightarrow> mam_ID m = k \<and> 0 < mam_HP m \<and>
       (mam_RiderID m \<noteq> '''' \<longrightarrow> mam_Saddle m) \<and> (mam_Saddle m \<longrightarrow> \<not> mam_Baby m)) \<and>
    (\<forall>k k' m m'. mget (s_mammoths s) k = Some m \<longrightarrow> mget (s_mammoths s) k' = Some m' \<longrightarrow>
       mam_RiderID m = mam_RiderID m' \<longrightarrow> mam_RiderID m \<noteq> '''' \<longrightarrow> k = k') \<and>
    (\<forall>k k' b b'. mget (s_boats s) k = Some b \<longrightarrow> mget (s_boats s) k' = Some b' \<longrightarrow>
       b_RiderID b = b_RiderID b' \<longrightarrow> b_RiderID b \<noteq> '''' \<longrightarrow> k = k') \<and>
    (\<forall>k m. mget (s_mobs s) k = Some m \<longrightarrow> mob_ID m = k \<and> 0 < mob_HP m \<and>
       (mob_Contract m = '''' \<longleftrightarrow> mob_OwnerID m = '''') \<and> (mob_Contract m \<noteq> '''' \<longrightarrow> mob_Kind m = ''pink''))"
proof -
  have s: "server_inv s" using reachable_server_inv [OF assms] by simp
  note st = server_inv_stores [OF s]
  have c: "c_ID c = k \<and> 0 \<le> c_hp c \<and> c_hp c \<le> 100 \<and> in32 0 100 (c_hunger c) \<and> length (c_send c) \<le> 256"
    if "mget (s_clients s) k = Some c" for k c
    using clients_invD [OF server_invD(1) [OF s] that] by (auto simp: client_ok_def hunger_ok_def sendBufSize_def)
  have b: "bat_ID b = k \<and> 0 \<le> bat_Energy b \<and> bat_Energy b \<le> 1000" if "mget (s_batteries s) k = Some b" for k b
    using st(6) that keyedD [of bat_ID] mallD [of battery_ok]
    by (fastforce simp: batteries_inv_def battery_ok_def batteryMaxEnergy_def)
  have r: "rk_ID r = k \<and> 0 \<le> rk_Fuel r \<and> rk_Fuel r \<le> 100 \<and> (rk_Piloted r \<longleftrightarrow> rk_OwnerID r \<noteq> '''')"
    if "mget (s_rockets s) k = Some r" for k r
    using server_inv_get_rocket [OF s that] by (auto simp: rocket_ok_def rocketMaxFuel_def)
  have m: "mam_ID m = k \<and> 0 < mam_HP m \<and> (mam_RiderID m \<noteq> '''' \<longrightarrow> mam_Saddle m) \<and> (mam_Saddle m \<longrightarrow> \<not> mam_Baby m)"
    if "mget (s_mammoths s) k = Some m" for k m
    using server_inv_get_mammoth [OF s that] st(2) that keyedD [of mam_ID]
    by (auto simp: mammoth_ok_def mammoths_inv_def)
  have o: "one_rider mam_RiderID (s_mammoths s)" "one_rider b_RiderID (s_boats s)"
    using st(2,9) by (simp_all add: mammoths_inv_def boats_inv_def)
  have p: "mob_ID m = k \<and> 0 < mob_HP m \<and> (mob_Contract m = '''' \<longleftrightarrow> mob_OwnerID m = '''') \<and>
      (mob_Contract m \<noteq> '''' \<longrightarrow> mob_Kind m = ''pink'')" if "mget (s_mobs s) k = Some m" for k m
    using server_inv_get_mob [OF s that] by (auto simp: mob_ok_def)
  show ?thesis using c b r m p one_riderD [OF o(1)] one_riderD [OF o(2)] by blast
qed

theorem reachable_correct_witness:
  "\<forall>k. case mget (s_mobs (unregisterClient ''a'' (New flat_env 20 bare_rng))) k of
     None \<Rightarrow> True | Some m \<Rightarrow> mob_ID m = k \<and> 0 < mob_HP m"
proof -
  have "reachable toy_codec (New flat_env 20 bare_rng, \<lambda>_. None)" by (rule reachable.start) simp_all
  then have "reachable toy_codec (unregisterClient ''a'' (New flat_env 20 bare_rng), \<lambda>_. None)"
    by (rule reachable.step) (rule srv_step.leave, rule refl)
  from reachable_correct [OF this] show ?thesis by (auto split: option.split)
qed

text \<open>
  What the gap costs. While player \<open>a\<close>, who has no fruit, tames a mammoth, player \<open>b\<close> puts a saddle on it; the
  roll-back then leaves a wild mammoth with a saddle.
\<close>

definition race_codec :: codec where
  "race_codec = toy_codec\<lparr>u_TameMammoth := \<lambda>_. Some \<lparr>tame_MammothID = ''m1''\<rparr>, u_SaddleMammoth := \<lambda>_. Some \<lparr>sad_MammothID = ''m1''\<rparr>\<rparr>"

definition race_server :: Server where
  "race_server = (put_client ''b'' ((new_client ''b'')\<lparr>c_inventory := mput ''saddle'' 1 mempty\<rparr>) (lone_server (new_client ''a'')))\<lparr>
     s_mammoths := mput ''m1'' (mk_mammoth ''m1'' zero_vec ''m'') mempty\<rparr>"

theorem saddle_race:
  "server_inv race_server \<and> (\<exists>s m. (srv_step race_codec)\<^sup>*\<^sup>* (race_server, \<lambda>_. None) (s, \<lambda>_. None) \<and>
     mget (s_mammoths s) ''m1'' = Some m \<and> mam_Saddle m \<and> \<not> mam_Tamed m)"
proof
  have "client_ok ((new_client ''b'')\<lparr>c_inventory := mput ''saddle'' 1 mempty\<rparr>)"
    using client_ok_new [of "''b''"] by (simp add: client_ok_def in_i64_def mall_put)
  then show "server_inv race_server" unfolding race_server_def
    by (intro inv_intros server_inv_lone client_ok_new mammoths_inv_put_free)
       (simp_all add: mk_mammoth_ok, simp_all add: new_client_def)
  let ?b = "(new_client ''b'')\<lparr>c_inventory := mput ''saddle'' 1 mempty\<rparr>"
  let ?step = "srv_step race_codec" and ?e = "\<lambda>t. \<lparr>env_Type = t, env_Data = [0]\<rparr>"
  let ?s1 = "tame_begin ''m1'' race_server"
  let ?s2 = "handleMessage race_codec flat_env ''b'' (?e ''saddle_mammoth'') ?s1"
  have t: "type_of_tag ''tame_mammoth'' = Some TypeTameMammoth" "type_of_tag ''saddle_mammoth'' = Some TypeSaddleMammoth"
    using type_of_tag_tag [of TypeTameMammoth] type_of_tag_tag [of TypeSaddleMammoth] by simp_all
  have fresh: "\<not> mam_Tamed (mk_mammoth ''m1'' zero_vec ''m'')" "\<not> mam_Baby (mk_mammoth ''m1'' zero_vec ''m'')"
    "\<not> mam_Saddle (mk_mammoth ''m1'' zero_vec ''m'')" by (simp_all add: mk_mammoth_def)
  have near: "near5 (mk_mammoth ''m1'' zero_vec ''m'') (new_client ''a'')"
    "near5 ((mk_mammoth ''m1'' zero_vec ''m'')\<lparr>mam_Tamed := True\<rparr>) ((new_client ''b'')\<lparr>c_inventory := mput ''saddle'' 1 mempty\<rparr>)"
    by code_simp+
  have a: "mget (s_clients race_server) ''a'' = Some (new_client ''a'')"
    by (simp add: race_server_def lookup_update lone_server_def put_client_def new_client_def)
  have "?step (race_server, \<lambda>_. None) (?s1, (\<lambda>_. None)(''a'' := Some (Taming ''m1'')))"
    by (rule srv_step.begins [where e = "?e ''tame_mammoth''"])
       (simp_all add: opens_def tame_opens_def a t race_codec_def near Decode_def, simp_all add: race_server_def near fresh)
  moreover have "?step (?s1, (\<lambda>_. None)(''a'' := Some (Taming ''m1''))) (?s2, (\<lambda>_. None)(''a'' := Some (Taming ''m1'')))"
    by (rule srv_step.message) (simp_all add: opens_def t)
  moreover have s2: "?s2 = put_client ''b'' (sendInventory (snd (consumeItem ''saddle'' ?b)))
      (put_mammoth ''m1'' ((mk_mammoth ''m1'' zero_vec ''m'')\<lparr>mam_Tamed := True, mam_Saddle := True\<rparr>) ?s1)"
    by (simp add: handleMessage_def dispatch_def Decode_def t race_codec_def handleSaddleMammoth_def with_client_def
        race_server_def tame_begin_def set_tamed_def put_mammoth_def lookup_update near fresh consumeItem_def mget_int_put)
  then have "goes_on flat_env ''a'' (Taming ''m1'') ?s2 = (Some (Untaming ''m1''), ?s2)"
    using a by (simp add: pays_def tame_begin_def lookup_update consumeItem_def new_client_def)
  then have "?step (?s2, (\<lambda>_. None)(''a'' := Some (Taming ''m1''))) (?s2, (\<lambda>_. None)(''a'' := Some (Untaming ''m1'')))"
    using srv_step.going [of "(\<lambda>_. None)(''a'' := Some (Taming ''m1''))" "''a''"] by simp
  moreover have "?step (?s2, (\<lambda>_. None)(''a'' := Some (Untaming ''m1''))) (set_tamed ''m1'' False ?s2, \<lambda>_. None)"
    using srv_step.going [of "(\<lambda>_. None)(''a'' := Some (Untaming ''m1''))" "''a''" "Untaming ''m1''" flat_env ?s2 None
        "set_tamed ''m1'' False ?s2" race_codec] by (simp add: fun_upd_idem)
  ultimately have "?step\<^sup>*\<^sup>* (race_server, \<lambda>_. None) (set_tamed ''m1'' False ?s2, \<lambda>_. None)"
    by (meson converse_rtranclp_into_rtranclp rtranclp.rtrancl_refl)
  moreover have "\<exists>m. mget (s_mammoths (set_tamed ''m1'' False ?s2)) ''m1'' = Some m \<and> mam_Saddle m \<and> \<not> mam_Tamed m"
    unfolding s2 by (simp add: set_tamed_def put_mammoth_def lookup_update)
  ultimately show "\<exists>s m. ?step\<^sup>*\<^sup>* (race_server, \<lambda>_. None) (s, \<lambda>_. None) \<and>
     mget (s_mammoths s) ''m1'' = Some m \<and> mam_Saddle m \<and> \<not> mam_Tamed m" by blast
qed

lemma tickDur_bounds:
  assumes "1 \<le> n" "n \<le> 1000"
  shows "1000000 \<le> tickDur n \<and> tickDur n \<le> 1000000000"
proof -
  let ?y = "raw64 (f64_of_int n)"
  have c: "rv Binary64 1 = 1" "rv Binary64 1000 = 1000" "rv Binary64 1000000 = 1000000"
    "rv Binary64 1000000000 = 1000000000" by code_simp+
  have x: "raw64 (f64_of_int second) = Fin 1000000000" by code_simp
  have y: "in_rng 1 1000 ?y"
    using mk_in_rng [of 1 "of_int n" 1000 Binary64 False] assms c by (simp add: f64_of_int_def c64_def fmax_def)
  then have f: "is_fin ?y" "1 \<le> fval ?y" "fval ?y \<le> 1000" by (auto simp: in_rng_def)
  have nz: "\<not> is_zero ?y" using f(2) by auto
  have eq: "raw64 (f64_of_int second / f64_of_int n) =
      mk Binary64 (sign_bit (Fin 1000000000) \<noteq> sign_bit ?y) (1000000000 / fval ?y)"
    using f(1) nz by (auto simp: raw64_ops x fdiv_def Let_def dest!: is_fin_not_special)
  have "1000000000 / fval ?y \<le> 1000000000" "1000000 \<le> 1000000000 / fval ?y"
    using f by (simp_all add: divide_le_eq le_divide_eq)
  then have q: "in_rng 1000000 1000000000 (raw64 (f64_of_int second / f64_of_int n))"
    unfolding eq using mk_in_rng [of 1000000 "1000000000 / fval ?y" 1000000000 Binary64] c by (simp add: fmax_def)
  then show ?thesis unfolding tickDur_def
    by (cases "raw64 (f64_of_int second / f64_of_int n)")
       (auto simp: in_rng_def trunc_rat_def le_floor_iff floor_le_iff i64_id)
qed

lemma late_iff: "200 * millisecond < time_sub a b \<longleftrightarrow> 200000000 < a - b"
  by (auto simp: time_sub_def millisecond_def)

lemma loop_pass_cases:
  "loop_pass d Es now t1 t2 n s =
     (if now < n then Sleep (time_sub n now)
      else Ticked (if 200000000 < t1 - (n + d) then t2 + d else n + d) (run_tick Es s))"
  by (simp add: loop_pass_def time_add_def late_iff Let_def)

definition clocks_ok :: "gotime \<Rightarrow> pass \<Rightarrow> bool" where
  "clocks_ok T x \<longleftrightarrow> ps_now x \<le> ps_after x \<and> ps_after x \<le> ps_again x \<and> ps_again x \<le> T"

lemma tick_loop_pace:
  assumes "0 < d" "list_all (clocks_ok T) xs" "tick_loop d xs n s = (n2, k, g, s2)"
  shows "n + int k * d \<le> n2 \<and> (g = 0 \<longrightarrow> n2 = n + int k * d) \<and> (n2 = n \<or> n2 \<le> T + d)"
  using assms(2,3)
proof (induction xs arbitrary: n s k g)
  case (Cons x xs)
  show ?case
  proof (cases "ps_now x < n")
    case True
    then show ?thesis using Cons by (simp add: loop_pass_cases)
  next
    case False
    define n' where "n' = (if 200000000 < ps_after x - (n + d) then ps_again x + d else n + d)"
    obtain k1 g1 where r: "tick_loop d xs n' (run_tick (ps_envs x) s) = (n2, k1, g1, s2)" "k = Suc k1"
        "g = (if n' = n + d then g1 else Suc g1)"
      using Cons.prems(2) False by (auto simp: loop_pass_cases n'_def [symmetric] split: prod.splits)
    have c: "n + d \<le> n'" "n' \<le> T + d"
      using Cons.prems(1) False assms(1) by (auto simp: n'_def clocks_ok_def)
    show ?thesis using Cons.IH [OF _ r(1)] Cons.prems(1) c r(2,3) by (auto simp: algebra_simps split: if_splits)
  qed
qed simp

text \<open>
  C38. The tick loop keeps its pace. With a tick rate from 1 to 1000 a tick lasts between 1 ms and
  1 s. Before the deadline a pass sleeps exactly until it; at or after the deadline it runs one tick and moves the
  deadline by exactly one duration, unless it is then more than 200 ms behind the clock: then, and only then, the
  missed ticks are given up and the next deadline is one duration after the clock. So over any number of passes the
  deadline moves by at least one duration for each tick, by exactly that when no deadline was given up (the loop does
  not drift), and the loop never runs more ticks than its rate allows, plus one.
\<close>

theorem loop_pass_correct:
  assumes "1 \<le> r" "r \<le> 1000" "d = tickDur r"
    and "list_all (clocks_ok T) xs" "tick_loop d xs n s = (n2, k, g, s2)"
  shows "1000000 \<le> d \<and> d \<le> 1000000000 \<and>
    (\<forall>Es now t1 t2 m. loop_pass d Es now t1 t2 m s =
      (if now < m then Sleep (time_sub m now)
       else Ticked (if 200000000 < t1 - (m + d) then t2 + d else m + d) (run_tick Es s))) \<and>
    n + int k * d \<le> n2 \<and> (g = 0 \<longrightarrow> n2 = n + int k * d) \<and> (0 < k \<longrightarrow> int k * d \<le> T - n + d)"
proof -
  have d: "1000000 \<le> d" "d \<le> 1000000000" using tickDur_bounds [OF assms(1,2)] assms(3) by auto
  then have p: "n + int k * d \<le> n2" "g = 0 \<longrightarrow> n2 = n + int k * d" "n2 = n \<or> n2 \<le> T + d"
    using tick_loop_pace [OF _ assms(4,5)] by auto
  have "int k * d \<le> T - n + d" if "0 < k"
  proof -
    have "0 < int k * d" using that d by simp
    with p(1,3) show ?thesis by linarith
  qed
  with d p loop_pass_cases show ?thesis by blast
qed

text \<open>Three passes: one that sleeps, one on time, one that gives up.\<close>

definition three_passes :: "pass list" where
  "three_passes = map (\<lambda>(a, b, c). \<lparr>ps_now = a, ps_after = b, ps_again = c, ps_envs = \<lambda>_. flat_env\<rparr>)
     [(4, 4, 4), (5, 6, 7), (60000000, 400000000, 400000001)]"

theorem loop_pass_correct_witness:
  "case tick_loop (tickDur 20) three_passes 5 (New flat_env 20 bare_rng) of (n2, k, g, s2) \<Rightarrow>
     k = 2 \<and> g = 1 \<and> n2 = 450000001 \<and> int k * tickDur 20 \<le> 400000001 - 5 + tickDur 20"
proof -
  have d: "tickDur 20 = 50000000" by code_simp
  obtain s2 where r: "tick_loop (tickDur 20) three_passes 5 (New flat_env 20 bare_rng) = (450000001, 2, 1, s2)"
    by (simp add: three_passes_def loop_pass_cases d)
  have "list_all (clocks_ok 400000001) three_passes" by (simp add: three_passes_def clocks_ok_def)
  from loop_pass_correct [OF _ _ refl this r] show ?thesis by (simp add: r)
qed

end
