(* ===== verification/Ticks.thy ===== *)
theory Ticks
  imports Game
begin

text \<open>
  A whole tick of \<open>server_tick.go\<close>: what its phases leave alone, and what becomes of a player, the world, the
  rockets and the batteries over all of them. The order of the phases shows in the result: the rockets fly in the world
  of this tick, and the snapshot shows what all other phases have done.
\<close>

section \<open>What the phases up to the energy leave alone\<close>

text \<open>Of a player only health, inventory and queue.\<close>

definition kept :: "Client \<Rightarrow> Client \<Rightarrow> bool" where
  "kept c c' \<longleftrightarrow> c_ID c' = c_ID c \<and> c_Nick c' = c_Nick c \<and> c_state c' = c_state c \<and> c_hunger c' = c_hunger c \<and>
     c_lastThrowAt c' = c_lastThrowAt c \<and> c_lastHitAt c' = c_lastHitAt c \<and> c_heldItem c' = c_heldItem c \<and>
     c_colorHex c' = c_colorHex c \<and> c_infiniteFuel c' = c_infiniteFuel c"

definition kept_all :: "Client gomap \<Rightarrow> Client gomap \<Rightarrow> bool" where
  "kept_all cs cs' \<longleftrightarrow> (\<forall>k. case mget cs k of
     None \<Rightarrow> mget cs' k = None
   | Some c \<Rightarrow> (case mget cs' k of None \<Rightarrow> False | Some c' \<Rightarrow> kept c c'))"

definition calm :: "Server \<Rightarrow> Server \<Rightarrow> bool" where
  "calm s s' \<longleftrightarrow> s_tickRate s' = s_tickRate s \<and> s_tick s' = s_tick s \<and> s_TicksTotal s' = s_TicksTotal s \<and>
     s_world s' = s_world s \<and> s_rockets s' = s_rockets s \<and> s_batteries s' = s_batteries s \<and> s_solar s' = s_solar s \<and>
     s_houses s' = s_houses s \<and> s_factories s' = s_factories s \<and> s_wells s' = s_wells s \<and>
     kept_all (s_clients s) (s_clients s')"

lemma kept_refl [simp]: "kept c c"
  by (simp add: kept_def)

lemma kept_trans: "kept a b \<Longrightarrow> kept b c \<Longrightarrow> kept a c"
  by (simp add: kept_def)

lemma kept_send: "kept c (enqueue m c')" "kept c (sendEnvelope m c')" "kept c (sendInventory c')"
  if "kept c c'"
  using that by (simp_all add: kept_def enqueue_def sendEnvelope_def sendInventory_def)

lemma kept_damage: "kept c (damage E n c)"
proof -
  have "kept c (c\<lparr>c_hp := h\<rparr>)" for h by (simp add: kept_def)
  then show ?thesis by (simp add: damage_def kept_send)
qed

lemma kept_all_refl [simp]: "kept_all cs cs"
  by (simp add: kept_all_def split: option.split)

lemma kept_all_put: "kept_all cs cs' \<Longrightarrow> mget cs' k = Some c \<Longrightarrow> kept c c' \<Longrightarrow> kept_all cs (mput k c' cs')"
  unfolding kept_all_def
proof
  fix k' assume "\<forall>k. case mget cs k of None \<Rightarrow> mget cs' k = None
      | Some c \<Rightarrow> (case mget cs' k of None \<Rightarrow> False | Some c' \<Rightarrow> kept c c')" "mget cs' k = Some c" "kept c c'"
  then show "case mget cs k' of None \<Rightarrow> mget (mput k c' cs') k' = None
      | Some c \<Rightarrow> (case mget (mput k c' cs') k' of None \<Rightarrow> False | Some c' \<Rightarrow> kept c c')"
    by (cases "k' = k") (auto simp: lookup_update dest!: spec [of _ k'] split: option.splits intro: kept_trans)
qed

lemma calm_refl: "calm s s"
  by (simp add: calm_def)

lemma calm_updates [simp]:
  "calm s (s'\<lparr>s_mobs := a1\<rparr>) = calm s s'" "calm s (s'\<lparr>s_mammoths := a2\<rparr>) = calm s s'"
  "calm s (s'\<lparr>s_boats := a3\<rparr>) = calm s s'" "calm s (s'\<lparr>s_resources := a4\<rparr>) = calm s s'"
  "calm s (s'\<lparr>s_projectiles := a5\<rparr>) = calm s s'" "calm s (s'\<lparr>s_rng := a6\<rparr>) = calm s s'"
  "calm s (snd (new_id s')) = calm s s'"
  by (simp_all add: calm_def new_id_def case_prod_beta)

lemma calm_put:
  "calm s s' \<Longrightarrow> mget (s_clients s') cid = Some c \<Longrightarrow> kept c c' \<Longrightarrow> calm s (put_client cid c' s')"
  by (simp add: calm_def put_client_def kept_all_put)

lemma calm_with_mob: "calm s s' \<Longrightarrow> (\<And>m. calm s (f m)) \<Longrightarrow> calm s (with_mob k s' f)"
  by (simp add: with_mob_def split: option.split)

lemma calm_put_mob [simp]: "calm s (put_mob k m s') = calm s s'"
  by (simp add: put_mob_def)

lemma calm_throw [simp]: "calm s (throw_projectile m d t now s') = calm s s'"
  by (simp add: throw_projectile_def case_prod_beta)

lemma calm_tickHostile: "calm s s' \<Longrightarrow> calm s (tickHostileMob E k ps dt s')"
  unfolding tickHostileMob_def hostile_at_def hostile_act_def mobThrowSpear_def
  by (rule calm_with_mob) (auto split: prod.split option.split)

lemma calm_tickCollector: "calm s s' \<Longrightarrow> calm s (tickCollector E k dt s')"
  unfolding tickCollector_def by (rule calm_with_mob) (auto split: prod.split option.split)

lemma calm_pinkAutoShoot: "calm s s' \<Longrightarrow> calm s (pinkAutoShoot E k s')"
  unfolding pinkAutoShoot_def shoot_at_def by (rule calm_with_mob) (auto split: prod.split option.split)

lemma calm_tickPinkFlee: "calm s s' \<Longrightarrow> calm s (tickPinkFlee E k dt s')"
  unfolding tickPinkFlee_def by (rule calm_with_mob) (auto split: prod.split option.split)

lemma calm_pinkDeliver: "calm s s' \<Longrightarrow> calm s (snd (pinkDeliver E k m s'))"
proof -
  assume "calm s s'"
  moreover have "kept c (sendInventory (c\<lparr>c_inventory := v\<rparr>))" for c v by (rule kept_send) (simp add: kept_def)
  ultimately show ?thesis by (auto simp: pinkDeliver_def findClient_def split: option.split intro: calm_put)
qed

lemma calm_tickPinkGather: "calm s s' \<Longrightarrow> calm s (tickPinkGather E k dt s')"
  unfolding tickPinkGather_def pinkGatherDeliver_def pinkGatherPick_def pinkPickUpResource_def
  by (intro calm_with_mob) (auto split: prod.split option.split intro!: calm_with_mob calm_pinkDeliver)

lemma calm_tickPinkGuard: "calm s s' \<Longrightarrow> calm s (tickPinkGuard E k dt s')"
  unfolding tickPinkGuard_def by (rule calm_with_mob) (auto split: prod.split option.split)

lemma calm_tickMobs: "calm s s' \<Longrightarrow> calm s (tickMobs E dt s')"
  unfolding tickMobs_def
proof (rule fold_invariant_on [where P = "calm s"])
  fix k s' assume "calm s s'"
  then show "calm s (tickMob E (snapshotMobPlayers E s'') dt k s')" for s''
    unfolding tickMob_def tickPink_def pink_errand_def
    by (intro calm_with_mob)
       (auto intro!: calm_with_mob calm_tickHostile calm_tickCollector calm_tickPinkGather calm_tickPinkGuard calm_tickPinkFlee
          calm_pinkAutoShoot)
qed

lemma calm_drop_one [simp]: "calm s (drop_one E t pos r s') = calm s s'"
  by (simp add: drop_one_def case_prod_beta)

lemma calm_spawnDrops: "calm s s' \<Longrightarrow> calm s (spawnDrops E kills s')"
  unfolding spawnDrops_def spawn_drop_def spawnHostileDrop_def spawnCollectorDrop_def
  by (rule fold_invariant_on [where P = "calm s"])
     (auto intro!: fold_invariant_on [where P = "calm s"] simp: spawn_drop_def)

lemma calm_advance: "calm s (snd hs) \<Longrightarrow> calm s (snd (advance_one E dt mp i hs))"
  by (auto simp: advance_one_def hit_or_fly_def del_projectile_def tryProjectileHitClient_def findClient_def
      split: option.split intro!: calm_put kept_damage)

lemma calm_apply_hit: "calm s (snd ks) \<Longrightarrow> calm s (snd (apply_hit h ks))"
  by (simp add: apply_hit_def split: option.split)

lemma calm_tickProjectiles: "calm s s' \<Longrightarrow> calm s (tickProjectiles E dt s')"
proof -
  assume s: "calm s s'"
  have 1: "calm s (snd (advanceProjectiles E dt mp s'))" for mp unfolding advanceProjectiles_def
    by (rule fold_invariant_on [where P = "\<lambda>hs. calm s (snd hs)"]) (auto intro: calm_advance s)
  have 2: "calm s (snd (applyMobHits hits s1))" if "calm s s1" for hits s1 unfolding applyMobHits_def
    by (rule fold_invariant_on [where P = "\<lambda>ks. calm s (snd ks)"]) (auto intro: calm_apply_hit that)
  show ?thesis unfolding tickProjectiles_def case_prod_beta using 1 2 calm_spawnDrops by simp
qed

lemma calm_add_resource [simp]: "calm s (add_resource t p s') = calm s s'"
  by (simp add: add_resource_def case_prod_beta)

lemma calm_tickResources: "calm s s' \<Longrightarrow> calm s (tickResources E s')"
  unfolding tickResources_def grow_seed_def harvest_def
  by (rule fold_invariant_on [where P = "calm s"]) (auto split: option.split intro!: fold_invariant_on [where P = "calm s"])

lemma calm_tickBreeding: "calm s s' \<Longrightarrow> calm s (tickBreeding E s')"
  by (auto simp: tickBreeding_def growUpMammoths_def birthMammoth_def Let_def case_prod_beta split: option.split)

section \<open>A whole tick\<close>

lemma charge_from_batteries:
  "s_batteries s = s_batteries s' \<Longrightarrow> s_batteries (charge_from E e p s) = s_batteries (charge_from E e p s')"
  "charge_from E e p s = s\<lparr>s_batteries := s_batteries (charge_from E e p s)\<rparr>"
  by (simp_all add: charge_from_def nearestBatteryLocked_def split: option.split)

lemma tickEnergy_batteries:
  assumes "s_batteries s = s_batteries s'" "s_solar s = s_solar s'"
  shows "s_batteries (tickEnergy E dt s) = s_batteries (tickEnergy E dt s')"
    and "tickEnergy E dt s = s\<lparr>s_batteries := s_batteries (tickEnergy E dt s)\<rparr>"
proof -
  let ?f = "charge_from E (energyPerPanel dt)"
  have f: "s_batteries t = s_batteries t' \<Longrightarrow> s_batteries (fold ?f ps t) = s_batteries (fold ?f ps t')" for ps t t'
  proof (induction ps arbitrary: t t')
    case (Cons p ps)
    have "s_batteries (?f p t) = s_batteries (?f p t')" using Cons.prems by (rule charge_from_batteries(1))
    from Cons.IH [OF this] show ?case by simp
  qed simp
  show "s_batteries (tickEnergy E dt s) = s_batteries (tickEnergy E dt s')"
    unfolding tickEnergy_def assms(2) by (rule f [OF assms(1)])
  have "\<exists>B. fold ?f ps t = t\<lparr>s_batteries := B\<rparr>" for ps t
  proof (induction ps arbitrary: t)
    case Nil
    show ?case by (rule exI [of _ "s_batteries t"]) simp
  next
    case (Cons p ps)
    obtain B where B: "fold ?f ps (?f p t) = (?f p t)\<lparr>s_batteries := B\<rparr>" using Cons by blast
    have "(?f p t)\<lparr>s_batteries := B\<rparr> = t\<lparr>s_batteries := B\<rparr>"
      by (subst charge_from_batteries(2)) simp
    with B show ?case by (intro exI [of _ B]) simp
  qed
  then obtain B where "tickEnergy E dt s = s\<lparr>s_batteries := B\<rparr>" unfolding tickEnergy_def by blast
  then show "tickEnergy E dt s = s\<lparr>s_batteries := s_batteries (tickEnergy E dt s)\<rparr>" by simp
qed

lemma mkeys_mmap [simp]: "mkeys (mmap f m) = mkeys m"
  unfolding mkeys_def by transfer (simp add: comp_def case_prod_beta)

lemma range_vals_mmap: "range_vals ord site (mmap f m) = map f (range_vals ord site m)"
proof -
  have "range_entries ord site (mmap f m) = map (\<lambda>(k, v). (k, f v)) (range_entries ord site m)"
    by (auto simp: range_entries_def range_keys_def List.map_filter_def comp_def case_prod_beta)
  then show ?thesis by (simp add: range_vals_def comp_def case_prod_beta)
qed

lemma collectSnapshot_queues:
  "collectSnapshot E (s\<lparr>s_clients := mmap (enqueue m) (s_clients s)\<rparr>) = collectSnapshot E s"
proof -
  have "show_player (enqueue m c) = show_player c" for c by (simp add: show_player_def State_def Hunger_def enqueue_def)
  then show ?thesis
    by (simp add: collectSnapshot_def collectPlayers_def collect_def range_vals_mmap comp_def collectResources_def collectWells_def
        collectProjectiles_def collectMobs_def collectBoats_def collectHouses_def collectSolar_def collectBatteries_def
        collectFactories_def collectRockets_def collectMammoths_def)
qed

lemma hunger_client_kept:
  "kept (c\<lparr>c_hunger := c_hunger (hunger_client d c)\<rparr>) (hunger_client d c)"
proof -
  have eat: "kept (c\<lparr>c_hunger := c_hunger (eat item h c')\<rparr>) (eat item h c')"
    if "kept (c\<lparr>c_hunger := c_hunger c'\<rparr>) c'" for item h c'
    using that by (auto simp: kept_def eat_def sendInventory_def sendEnvelope_def enqueue_def addHunger_def consumeItem_def)
  have start: "kept (c\<lparr>c_hunger := c_hunger (addHunger (- d) c)\<rparr>) (addHunger (- d) c)"
    by (simp add: kept_def addHunger_def)
  show ?thesis unfolding hunger_client_def
    by (rule auto_eat_inv [where P = "\<lambda>c'. kept (c\<lparr>c_hunger := c_hunger c'\<rparr>) c'"]) (simp_all add: eat start)
qed

text \<open>What a player is after a tick that ends in the snapshot \<open>sn\<close>.\<close>

definition ticked :: "f32 \<Rightarrow> Snapshot \<Rightarrow> Client \<Rightarrow> Client \<Rightarrow> bool" where
  "ticked dt sn c c' \<longleftrightarrow> kept (c\<lparr>c_hunger := c_hunger (hunger_client (hunger_dec (f64_of dt)) c)\<rparr>) c' \<and>
     (finite_snapshot sn \<and> length (c_send c') < 256 \<longrightarrow> (\<exists>ms. c_send c' = ms @ [MsgSnapshot sn]))"

lemma phase_rate [simp]:
  "s_tickRate (count_tick s) = s_tickRate s" "s_tickRate (tickHunger d s) = s_tickRate s"
  "s_tickRate (tickMammoths E dt s) = s_tickRate s" "s_tickRate (tickBoats E s) = s_tickRate s"
  "s_tickRate (tickMobs E dt s) = s_tickRate s" "s_tickRate (tickProjectiles E dt s) = s_tickRate s"
  "s_tickRate (tickBreeding E s) = s_tickRate s" "s_tickRate (tickResources E s) = s_tickRate s"
  "s_tickRate (tickEnergy E dt s) = s_tickRate s" "s_tickRate (tickRockets E dt s) = s_tickRate s"
proof -
  show "s_tickRate (tickEnergy E dt s) = s_tickRate s" by (subst tickEnergy_batteries(2) [OF refl refl]) simp
qed (use calm_tickMobs [OF calm_refl, of s E dt] calm_tickProjectiles [OF calm_refl, of s E dt]
    calm_tickBreeding [OF calm_refl, of s E] calm_tickResources [OF calm_refl, of s E] in
  \<open>simp_all add: calm_def count_tick_def tickHunger_def tickMammoths_def tickBoats_def tickRockets_def\<close>)

lemma run_tick_phases:
  "run_tick Es s = (let dt = tick_dt (s_tickRate s) in
     broadcastSnapshot (Es 10) (tickRockets (Es 9) dt ((\<lambda>s. s\<lparr>s_world := World_Tick dt (s_world s)\<rparr>) (tickEnergy (Es 7) dt
       (tickResources (Es 6) (tickBreeding (Es 5) (tickProjectiles (Es 4) dt (tickMobs (Es 3) dt (tickBoats (Es 2)
         (tickMammoths (Es 1) dt (tickHunger (f64_of dt) (count_tick s))))))))))))"
  by (simp add: run_tick_def tick_phases_def run_phase_def Let_def numeral_eq_Suc)

text \<open>
  C2. A whole tick with no handler between its phases. The tick is counted; the world moves by exactly
  one step; the rockets fly in the world of this tick, not of the last one; the batteries are charged once. Panels,
  factories, houses and wells stay. Nobody joins or leaves, and a player is neither moved nor renamed: of a player change
  health, inventory and queue, and hunger as the hunger phase says. When the numbers are finite, the last message of every
  player whose queue has room is a snapshot of exactly the state that the tick leaves behind, with the new tick number.
\<close>

theorem run_tick_correct:
  "let s' = run_tick Es s; dt = tick_dt (s_tickRate s); w = World_Tick dt (s_world s); sn = collectSnapshot (Es 10) s' in
     s_tick s' = s_tick s + 1 \<and> s_TicksTotal s' = s_TicksTotal s + 1 \<and> snap_Tick sn = s_tick s + 1 \<and> s_world s' = w \<and>
     s_rockets s' = mmap (tick_rocket (Es 9) (w_EarthPos w) (w_EarthVel w) dt) (s_rockets s) \<and>
     s_batteries s' = s_batteries (tickEnergy (Es 7) dt s) \<and> s_solar s' = s_solar s \<and> s_factories s' = s_factories s \<and>
     s_houses s' = s_houses s \<and> s_wells s' = s_wells s \<and>
     (\<forall>k. case mget (s_clients s) k of
        None \<Rightarrow> mget (s_clients s') k = None
      | Some c \<Rightarrow> (case mget (s_clients s') k of None \<Rightarrow> False | Some c' \<Rightarrow> ticked dt sn c c'))"
proof -
  define dt where "dt = tick_dt (s_tickRate s)"
  define s1 where "s1 = tickHunger (f64_of dt) (count_tick s)"
  define s7 where "s7 = tickResources (Es 6) (tickBreeding (Es 5) (tickProjectiles (Es 4) dt (tickMobs (Es 3) dt (tickBoats (Es 2)
    (tickMammoths (Es 1) dt s1)))))"
  define B where "B = s_batteries (tickEnergy (Es 7) dt s)"
  define w where "w = World_Tick dt (s_world s)"
  define s10 where "s10 = tickRockets (Es 9) dt (s7\<lparr>s_batteries := B, s_world := w\<rparr>)"
  have "calm s1 (tickBoats (Es 2) (tickMammoths (Es 1) dt s1))" by (simp add: tickBoats_def tickMammoths_def calm_refl)
  then have calm: "calm s1 s7" unfolding s7_def
    by (intro calm_tickResources calm_tickBreeding calm_tickProjectiles calm_tickMobs)
  then have f: "s_tickRate s7 = s_tickRate s" "s_tick s7 = s_tick s + 1" "s_TicksTotal s7 = s_TicksTotal s + 1"
    "s_world s7 = s_world s" "s_rockets s7 = s_rockets s" "s_batteries s7 = s_batteries s" "s_solar s7 = s_solar s"
    "s_houses s7 = s_houses s" "s_factories s7 = s_factories s" "s_wells s7 = s_wells s"
    and cl: "kept_all (mmap (hunger_client (hunger_dec (f64_of dt))) (s_clients s)) (s_clients s7)"
    by (simp_all add: calm_def s1_def tickHunger_def count_tick_def)
  have "tickEnergy (Es 7) dt s7 = s7\<lparr>s_batteries := B\<rparr>"
    unfolding B_def using tickEnergy_batteries [OF f(6,7), of "Es 7" dt] by metis
  then have run: "run_tick Es s = broadcastSnapshot (Es 10) s10"
    by (simp add: run_tick_phases Let_def dt_def [symmetric] s1_def [symmetric] s7_def [symmetric] s10_def w_def f(4) del: One_nat_def)
  define m where "m = MsgSnapshot (collectSnapshot (Es 10) s10)"
  have sn: "collectSnapshot (Es 10) (run_tick Es s) = collectSnapshot (Es 10) s10"
    unfolding run broadcastSnapshot_def broadcast_def by (simp add: collectSnapshot_queues)
  have b: "run_tick Es s = s10\<lparr>s_clients := s_clients (run_tick Es s)\<rparr>"
    unfolding run using broadcastSnapshot_correct by blast
  have cl10: "s_clients s10 = s_clients s7" by (simp add: s10_def tickRockets_def)
  have t: "case mget (s_clients s) k of None \<Rightarrow> mget (s_clients (run_tick Es s)) k = None
      | Some c \<Rightarrow> (case mget (s_clients (run_tick Es s)) k of None \<Rightarrow> False
          | Some c' \<Rightarrow> ticked dt (collectSnapshot (Es 10) s10) c c')" for k
  proof (cases "mget (s_clients s) k")
    case None
    then have "mget (s_clients s7) k = None" using cl by (auto simp: kept_all_def dest!: spec [of _ k])
    with None show ?thesis unfolding run using broadcastSnapshot_correct [of "Es 10" s10] cl10 by (auto split: if_splits)
  next
    case (Some c)
    then obtain c7 where c7: "mget (s_clients s7) k = Some c7" "kept (hunger_client (hunger_dec (f64_of dt)) c) c7"
      using cl by (auto simp: kept_all_def dest!: spec [of _ k] split: option.splits)
    have "kept (c\<lparr>c_hunger := c_hunger (hunger_client (hunger_dec (f64_of dt)) c)\<rparr>) c7"
      by (rule kept_trans [OF hunger_client_kept c7(2)])
    moreover from this have "kept (c\<lparr>c_hunger := c_hunger (hunger_client (hunger_dec (f64_of dt)) c)\<rparr>) (c7\<lparr>c_send := q\<rparr>)" for q
      by (simp add: kept_def)
    ultimately show ?thesis unfolding run using broadcastSnapshot_correct [of "Es 10" s10] Some c7(1)
      by (auto simp: cl10 ticked_def split: if_splits)
  qed
  have "s_tick s10 = s_tick s + 1 \<and> s_TicksTotal s10 = s_TicksTotal s + 1 \<and> s_world s10 = w \<and>
      s_rockets s10 = mmap (tick_rocket (Es 9) (w_EarthPos w) (w_EarthVel w) dt) (s_rockets s) \<and>
      s_batteries s10 = B \<and> s_solar s10 = s_solar s \<and> s_factories s10 = s_factories s \<and>
      s_houses s10 = s_houses s \<and> s_wells s10 = s_wells s"
    by (simp add: s10_def tickRockets_def f)
  moreover have "snap_Tick (collectSnapshot (Es 10) s10) = s_tick s10" by (simp add: collectSnapshot_def)
  moreover have "s_tick (run_tick Es s) = s_tick s10 \<and> s_TicksTotal (run_tick Es s) = s_TicksTotal s10 \<and>
      s_world (run_tick Es s) = s_world s10 \<and>
      s_rockets (run_tick Es s) = s_rockets s10 \<and> s_batteries (run_tick Es s) = s_batteries s10 \<and>
      s_solar (run_tick Es s) = s_solar s10 \<and>
      s_factories (run_tick Es s) = s_factories s10 \<and> s_houses (run_tick Es s) = s_houses s10 \<and> s_wells (run_tick Es s) = s_wells s10"
    by (subst (1 2 3 4 5 6 7 8 9) b) simp
  ultimately show ?thesis using t unfolding Let_def sn dt_def [symmetric] w_def [symmetric] B_def [symmetric] by presburger
qed

text \<open>A server with one player whose planets rest within the guard distance of their stars, so that the world's step is the identity.\<close>

definition still_world :: WorldState where
  "still_world = \<lparr>w_EarthPos = vec (c32 3535) 0 (c32 3535), w_EarthVel = zero_vec,
     w_Planet2Pos = vec (c32 (- 21213)) 0 (c32 (- 21213)), w_Planet2Vel = zero_vec\<rparr>"

lemma still_world_tick: "World_Tick dt still_world = still_world"
proof -
  have "vlen (vsub SunPos (w_EarthPos still_world)) < c32 1" by code_simp
  moreover have "vlen (vsub Star2Pos (w_Planet2Pos still_world)) < c32 1" by code_simp
  ultimately show ?thesis by (simp add: World_Tick_def tickBody_def tick_body_at_def still_world_def)
qed

definition still_server :: Server where
  "still_server = (lone_server (new_client ''a''))\<lparr>s_world := still_world\<rparr>"

definition hungry_server :: Server where
  "hungry_server = tickHunger (f64_of (tick_dt 20)) (count_tick still_server)"

lemma mmap_mempty [simp]: "mmap f mempty = mempty"
  by transfer simp

lemma mkeys_mempty [simp]: "mkeys mempty = []"
  unfolding mkeys_def by transfer simp

lemma range_none [simp]: "range_keys ord site mempty = []"
  by (simp add: range_keys_def order_of_def)

lemma hungry_stores: "s_mammoths hungry_server = mempty" "s_boats hungry_server = mempty" "s_mobs hungry_server = mempty"
    "s_projectiles hungry_server = mempty" "s_resources hungry_server = mempty" "s_wells hungry_server = mempty"
    "s_houses hungry_server = mempty" "s_solar hungry_server = mempty" "s_batteries hungry_server = mempty"
    "s_factories hungry_server = mempty" "s_rockets hungry_server = mempty" "s_world hungry_server = still_world"
    "s_tickRate still_server = 20"
  by (simp_all add: hungry_server_def still_server_def lone_server_def newStore_def tickHunger_def count_tick_def)

lemma still_server_tick: "run_tick (\<lambda>_. flat_env) still_server = broadcastSnapshot flat_env hungry_server"
proof -
  let ?s = hungry_server
  note h = hungry_stores
  have "tickMammoths flat_env dt ?s = ?s" for dt by (simp add: tickMammoths_def h)
  moreover have "tickBoats flat_env ?s = ?s" by (simp add: tickBoats_def h)
  moreover have "tickMobs flat_env dt ?s = ?s" for dt by (simp add: tickMobs_def h)
  moreover have "tickProjectiles flat_env dt ?s = ?s" for dt by (simp add: tickProjectiles_def advanceProjectiles_def h)
  moreover have "tickBreeding flat_env ?s = ?s"
    by (simp add: tickBreeding_def growUpMammoths_def collectBreedingCandidates_def range_vals_def range_entries_def h breeding_pair_def)
  moreover have "tickResources flat_env ?s = ?s" by (simp add: tickResources_def h)
  moreover have "tickEnergy flat_env dt ?s = ?s" for dt by (simp add: tickEnergy_def h range_vals_def range_entries_def)
  moreover have "?s\<lparr>s_world := World_Tick dt (s_world ?s)\<rparr> = ?s" for dt by (simp add: still_world_tick h)
  moreover have "tickRockets flat_env dt ?s = ?s" for dt by (simp add: tickRockets_def h)
  ultimately show ?thesis
    by (simp add: run_tick_phases h hungry_server_def [symmetric])
qed

lemma hungry_clients:
  "mget (s_clients hungry_server) k =
     (if k = ''a'' then Some (hunger_client (hunger_dec (f64_of (tick_dt 20))) (new_client ''a'')) else None)"
  by (simp add: hungry_server_def still_server_def lone_server_def tickHunger_def count_tick_def new_client_def lookup_update)

lemma hungry_finite: "finite_snapshot (collectSnapshot flat_env hungry_server)"
proof -
  have p: "finite_player (show_player (hunger_client (hunger_dec (f64_of (tick_dt 20))) (new_client ''a'')))" by code_simp
  then have "list_all finite_player (collectPlayers flat_env hungry_server)"
    by (auto simp: collectPlayers_def collect_def list_all_iff set_range_vals ran_def hungry_clients split: if_splits)
  moreover have w: "fin_vec (w_EarthPos still_world)" "fin_vec (w_EarthVel still_world)" "fin_vec (w_Planet2Pos still_world)"
    "fin_vec (w_Planet2Vel still_world)" by code_simp+
  ultimately show ?thesis
    by (simp add: hungry_stores finite_snapshot_def collectSnapshot_def collect_def collectResources_def collectWells_def
        collectProjectiles_def collectMobs_def collectBoats_def collectHouses_def collectSolar_def collectBatteries_def
        collectFactories_def collectRockets_def collectMammoths_def range_vals_def range_entries_def)
qed
lemma hungry_queue: "length (c_send (hunger_client (hunger_dec (f64_of (tick_dt 20))) (new_client ''a''))) = 0"
 by code_simp
theorem run_tick_correct_witness:
  "case mget (s_clients (run_tick (\<lambda>_. flat_env) still_server)) ''a'' of
     None \<Rightarrow> False
   | Some c \<Rightarrow> \<exists>ms. c_send c = ms @ [MsgSnapshot (collectSnapshot flat_env (run_tick (\<lambda>_. flat_env) still_server))]"
proof -
  have "\<exists>c. mget (s_clients (run_tick (\<lambda>_. flat_env) still_server)) ''a'' = Some c \<and> length (c_send c) < 256"
    using hungry_finite hungry_queue unfolding still_server_tick
    by (simp add: broadcastSnapshot_def broadcast_def enqueue_def sendBufSize_def hungry_clients)
  then obtain c where c: "mget (s_clients (run_tick (\<lambda>_. flat_env) still_server)) ''a'' = Some c" "length (c_send c) < 256" by blast
  have "mget (s_clients still_server) ''a'' = Some (new_client ''a'')"
    by (simp add: still_server_def lone_server_def new_client_def lookup_update)
  moreover have "finite_snapshot (collectSnapshot flat_env (run_tick (\<lambda>_. flat_env) still_server))"
    using hungry_finite by (simp add: still_server_tick broadcastSnapshot_def broadcast_def collectSnapshot_queues)
  ultimately show ?thesis using run_tick_correct [of "\<lambda>_. flat_env" still_server] c
    by (auto simp: Let_def ticked_def dest!: spec [of _ "''a''"])
qed

end
