(* ===== verification/Config.thy ===== *)
theory Config
  imports Game
begin

text \<open>
  \<open>internal/shared/config/config.go\<close>: the configuration from environment variables. The
  environment is a function from names to values; \<open>strconv.Atoi\<close> is modelled, the parser of
  durations (\<open>time.ParseDuration\<close>) is a parameter, \<open>None\<close> being its error.
\<close>

section \<open>Data\<close>

record RepositoryConfig =
  rc_HTTPAddr :: string
  rc_ShutdownTimeout :: duration

record ServerConfig =
  sc_TCPAddr :: string
  sc_AdminAddr :: string
  sc_TickRate :: int

record RedisConfig =
  red_Addr :: string
  red_Password :: string
  red_DB :: int

record ClientConfig =
  cc_PlanetModel :: string
  cc_StartAddr :: string
  cc_Nick :: string

record Config =
  cfg_Env :: string
  cfg_LogLevel :: string
  cfg_Repository :: RepositoryConfig
  cfg_Server :: ServerConfig
  cfg_PostgresDSN :: string
  cfg_Redis :: RedisConfig
  cfg_Client :: ClientConfig

datatype config_error = ErrTickRate int | ErrHTTPAddr | ErrTCPAddr

type_synonym environ = "string \<Rightarrow> string option"

section \<open>Variables\<close>

text \<open>\<open>strconv.Atoi\<close>: an optional sign and at least one decimal digit, within 64 bits.\<close>

definition atoi_digits :: "string \<Rightarrow> int option" where
  "atoi_digits ds = (if ds = '''' \<or> \<not> list_all is_digit ds then None else Some (dec_val ds))"

definition in_range :: "int \<Rightarrow> int option" where
  "in_range n = (if in_i64 n then Some n else None)"

definition Atoi :: "string \<Rightarrow> int option" where
  "Atoi s =
     (case s of
        [] \<Rightarrow> None
      | c # ds \<Rightarrow>
          if c = CHR ''-'' then Option.bind (atoi_digits ds) (\<lambda>n. in_range (- n))
          else if c = CHR ''+'' then Option.bind (atoi_digits ds) in_range
          else Option.bind (atoi_digits s) in_range)"

definition lookup_set :: "environ \<Rightarrow> string \<Rightarrow> string option" where
  "lookup_set env k = (case env k of None \<Rightarrow> None | Some v \<Rightarrow> if v = '''' then None else Some v)"

definition getEnv :: "environ \<Rightarrow> string \<Rightarrow> string \<Rightarrow> string" where
  "getEnv env k fallback = (case lookup_set env k of None \<Rightarrow> fallback | Some v \<Rightarrow> v)"

definition getEnvInt :: "environ \<Rightarrow> string \<Rightarrow> int \<Rightarrow> int" where
  "getEnvInt env k fallback =
     (case lookup_set env k of None \<Rightarrow> fallback
      | Some v \<Rightarrow> (case Atoi v of None \<Rightarrow> fallback | Some n \<Rightarrow> n))"

definition getEnvDuration :: "(string \<Rightarrow> duration option) \<Rightarrow> environ \<Rightarrow> string \<Rightarrow> duration \<Rightarrow> duration" where
  "getEnvDuration pd env k fallback =
     (case lookup_set env k of None \<Rightarrow> fallback
      | Some v \<Rightarrow> (case pd v of None \<Rightarrow> fallback | Some d \<Rightarrow> d))"

section \<open>Loading\<close>

definition validate :: "Config \<Rightarrow> config_error option" where
  "validate c =
     (if sc_TickRate (cfg_Server c) \<le> 0 \<or> 1000 < sc_TickRate (cfg_Server c)
      then Some (ErrTickRate (sc_TickRate (cfg_Server c)))
      else if rc_HTTPAddr (cfg_Repository c) = '''' then Some ErrHTTPAddr
      else if sc_TCPAddr (cfg_Server c) = '''' then Some ErrTCPAddr
      else None)"

definition read_config :: "(string \<Rightarrow> duration option) \<Rightarrow> environ \<Rightarrow> Config" where
  "read_config pd env = \<lparr>
     cfg_Env = getEnv env ''LODEEN_ENV'' ''dev'',
     cfg_LogLevel = getEnv env ''LODEEN_LOG_LEVEL'' ''info'',
     cfg_Repository = \<lparr>rc_HTTPAddr = getEnv env ''LODEEN_REPOSITORY_HTTP_ADDR'' '':8080'',
       rc_ShutdownTimeout = getEnvDuration pd env ''LODEEN_REPOSITORY_SHUTDOWN_TIMEOUT'' (10 * second)\<rparr>,
     cfg_Server = \<lparr>sc_TCPAddr = getEnv env ''LODEEN_SERVER_TCP_ADDR'' '':7777'',
       sc_AdminAddr = getEnv env ''LODEEN_SERVER_ADMIN_ADDR'' '':9091'',
       sc_TickRate = getEnvInt env ''LODEEN_SERVER_TICK_RATE'' 20\<rparr>,
     cfg_PostgresDSN = getEnv env ''LODEEN_POSTGRES_DSN'' '''',
     cfg_Redis = \<lparr>red_Addr = getEnv env ''LODEEN_REDIS_ADDR'' ''localhost:6379'',
       red_Password = getEnv env ''LODEEN_REDIS_PASSWORD'' '''',
       red_DB = getEnvInt env ''LODEEN_REDIS_DB'' 0\<rparr>,
     cfg_Client = \<lparr>cc_PlanetModel = getEnv env ''LODEEN_CLIENT_PLANET_MODEL'' ''assets/models/planet.glb'',
       cc_StartAddr = getEnv env ''LODEEN_CLIENT_START_ADDR'' ''127.0.0.1:7777'',
       cc_Nick = getEnv env ''LODEEN_CLIENT_NICK'' ''pilot''\<rparr>\<rparr>"

definition Load :: "(string \<Rightarrow> duration option) \<Rightarrow> environ \<Rightarrow> config_error + Config" where
  "Load pd env = (case validate (read_config pd env) of None \<Rightarrow> Inr (read_config pd env) | Some e \<Rightarrow> Inl e)"

section \<open>Correctness\<close>

lemma getEnv_nonempty: "fallback \<noteq> '''' \<Longrightarrow> getEnv env k fallback \<noteq> ''''"
  by (auto simp: getEnv_def lookup_set_def split: option.splits if_splits)

text \<open>
  Loading fails exactly when the tick rate variable holds a decimal integer outside 1 to
  1000, and then with that number; a variable that is unset, empty or no integer means the
  default 20, and the address checks never fail, since empty values fall back to the defaults.
  What is loaded can be run: a server with that tick rate starts in a reachable state.
\<close>

theorem Load_correct:
  "(case lookup_set env ''LODEEN_SERVER_TICK_RATE'' of
      None \<Rightarrow> Load pd env = Inr (read_config pd env) \<and> sc_TickRate (cfg_Server (read_config pd env)) = 20
    | Some v \<Rightarrow> (case Atoi v of
        None \<Rightarrow> Load pd env = Inr (read_config pd env) \<and> sc_TickRate (cfg_Server (read_config pd env)) = 20
      | Some n \<Rightarrow> if 1 \<le> n \<and> n \<le> 1000
                 then Load pd env = Inr (read_config pd env) \<and> sc_TickRate (cfg_Server (read_config pd env)) = n
                 else Load pd env = Inl (ErrTickRate n))) \<and>
   (case Load pd env of Inl _ \<Rightarrow> True | Inr c \<Rightarrow> reachable K (New E (sc_TickRate (cfg_Server c)) r, \<lambda>_. None))"
proof -
  let ?n = "sc_TickRate (cfg_Server (read_config pd env))"
  have h: "rc_HTTPAddr (cfg_Repository (read_config pd env)) \<noteq> ''''"
    "sc_TCPAddr (cfg_Server (read_config pd env)) \<noteq> ''''"
    by (simp_all add: read_config_def getEnv_nonempty)
  have l: "Load pd env = (if 1 \<le> ?n \<and> ?n \<le> 1000 then Inr (read_config pd env) else Inl (ErrTickRate ?n))"
    using h by (auto simp: Load_def validate_def)
  have n: "?n = getEnvInt env ''LODEEN_SERVER_TICK_RATE'' 20" by (simp add: read_config_def)
  show ?thesis unfolding l n
    by (auto simp: getEnvInt_def n intro: reachable.start split: option.split)
qed

end
