(* ===== verification/Client_Net.thy ===== *)
theory Client_Net
  imports Game "HOL-Library.Signed_Division"
begin

text \<open>
  \<open>internal/client/net/client.go\<close> and \<open>handlers.go\<close>: the client's mirror of the world, which the
  messages of the server update, the histories from which other players are interpolated, and
  the life of the client's connection. Each lock of the source protects one group of fields; the
  model changes them in the order of the code. The JSON decoder is the parameter
  \<open>client_codec\<close>: the handlers ignore decoding errors, so its functions return the struct as the
  decoder leaves it.
\<close>

section \<open>State\<close>

datatype Status = StatusDisconnected | StatusConnecting | StatusConnected

definition interpolationDelay :: duration where "interpolationDelay = 75 * millisecond"
definition maxHistoryStates :: nat where "maxHistoryStates = 20"

record timedState =
  tst_state :: PlayerState
  tst_at :: gotime

text \<open>
  \<open>Client\<close> of the client. \<open>g_conn\<close> is the sending side of the connection (\<open>None\<close> is \<open>nil\<close>), the
  channels are the messages buffered in them, \<open>g_inventory\<close> is \<open>None\<close> for a \<open>nil\<close> map and \<open>g_done\<close>
  tells whether the channel is closed, once there is one.
\<close>

record GameClient =
  g_conn :: "writer option"
  g_status :: Status
  g_nick :: string
  g_playerID :: string
  g_rtt :: duration
  g_players :: "timedState list gomap"
  g_ownHunger :: f32
  g_ownHP :: int
  g_chatCh :: "ChatMessage list"
  g_teleportCh :: "Teleport list"
  g_earthPos :: Vector3
  g_earthVel :: Vector3
  g_planet2Pos :: Vector3
  g_planet2Vel :: Vector3
  g_lastTick :: "64 word"
  g_resources :: "Resource list"
  g_mammoths :: "PMammoth list"
  g_wells :: "Well list"
  g_houses :: "PHouse list"
  g_boats :: "PBoat list"
  g_mobs :: "PMob list"
  g_projectiles :: "MobProjectile list"
  g_inventory :: "int gomap option"
  g_lastState :: PlayerState
  g_done :: "bool option"
  g_solar :: "PSolar list"
  g_batteries :: "PBattery list"
  g_factories :: "PFactory list"
  g_rockets :: "PRocket list"

definition chatCap :: nat where "chatCap = 128"
definition teleportCap :: nat where "teleportCap = 4"

definition client_New :: GameClient where
  "client_New = \<lparr>g_conn = None, g_status = StatusDisconnected, g_nick = '''', g_playerID = '''', g_rtt = 0,
     g_players = mempty, g_ownHunger = 0, g_ownHP = 0, g_chatCh = [], g_teleportCh = [],
     g_earthPos = zero_vec, g_earthVel = zero_vec, g_planet2Pos = zero_vec, g_planet2Vel = zero_vec, g_lastTick = 0,
     g_resources = [], g_mammoths = [], g_wells = [], g_houses = [], g_boats = [], g_mobs = [], g_projectiles = [],
     g_inventory = Some mempty, g_lastState = zero_state '''' '''', g_done = None,
     g_solar = [], g_batteries = [], g_factories = [], g_rockets = []\<rparr>"

section \<open>Players\<close>

definition trim :: "timedState list \<Rightarrow> timedState list" where
  "trim h = (if maxHistoryStates < length h then drop (length h - maxHistoryStates) h else h)"

definition hist_of :: "timedState list gomap \<Rightarrow> string \<Rightarrow> timedState list" where
  "hist_of m k = (case mget m k of None \<Rightarrow> [] | Some h \<Rightarrow> h)"

definition note_player :: "gotime \<Rightarrow> string \<Rightarrow> PlayerState \<Rightarrow> GameClient \<Rightarrow> GameClient" where
  "note_player now self p c =
     (let c' = c\<lparr>g_players := mput (ps_ID p)
            (trim (hist_of (g_players c) (ps_ID p) @ [\<lparr>tst_state = p, tst_at = now\<rparr>])) (g_players c)\<rparr>
      in if ps_ID p = self then c'\<lparr>g_ownHunger := ps_Hunger p, g_ownHP := ps_HP p\<rparr> else c')"

definition forget :: "string set \<Rightarrow> timedState list gomap \<Rightarrow> timedState list gomap" where
  "forget seen m = fold mdel (filter (\<lambda>k. k \<notin> seen) (mkeys m)) m"

definition updatePlayers :: "env \<Rightarrow> PlayerState list \<Rightarrow> GameClient \<Rightarrow> GameClient" where
  "updatePlayers E ps c =
     (let c' = fold (note_player (e_now E) (g_playerID c)) ps c
      in c'\<lparr>g_players := forget (set (map ps_ID ps)) (g_players c')\<rparr>)"

section \<open>The other parts of a snapshot\<close>

definition updateResources :: "Resource list \<Rightarrow> GameClient \<Rightarrow> GameClient" where
  "updateResources xs c = c\<lparr>g_resources := xs\<rparr>"
definition updateMammoths :: "PMammoth list \<Rightarrow> GameClient \<Rightarrow> GameClient" where
  "updateMammoths xs c = c\<lparr>g_mammoths := xs\<rparr>"
definition updateWells :: "Well list \<Rightarrow> GameClient \<Rightarrow> GameClient" where
  "updateWells xs c = c\<lparr>g_wells := xs\<rparr>"
definition updateHouses :: "PHouse list \<Rightarrow> GameClient \<Rightarrow> GameClient" where
  "updateHouses xs c = c\<lparr>g_houses := xs\<rparr>"
definition updateBoats :: "PBoat list \<Rightarrow> GameClient \<Rightarrow> GameClient" where
  "updateBoats xs c = c\<lparr>g_boats := xs\<rparr>"
definition updateMobs :: "PMob list \<Rightarrow> GameClient \<Rightarrow> GameClient" where
  "updateMobs xs c = c\<lparr>g_mobs := xs\<rparr>"
definition updateProjectiles :: "MobProjectile list \<Rightarrow> GameClient \<Rightarrow> GameClient" where
  "updateProjectiles xs c = c\<lparr>g_projectiles := xs\<rparr>"
definition updateSolar :: "PSolar list \<Rightarrow> GameClient \<Rightarrow> GameClient" where
  "updateSolar xs c = c\<lparr>g_solar := xs\<rparr>"
definition updateBatteries :: "PBattery list \<Rightarrow> GameClient \<Rightarrow> GameClient" where
  "updateBatteries xs c = c\<lparr>g_batteries := xs\<rparr>"
definition updateFactories :: "PFactory list \<Rightarrow> GameClient \<Rightarrow> GameClient" where
  "updateFactories xs c = c\<lparr>g_factories := xs\<rparr>"
definition updateEarthAndPlanets :: "Snapshot \<Rightarrow> GameClient \<Rightarrow> GameClient" where
  "updateEarthAndPlanets s c = c\<lparr>g_earthPos := snap_EarthPos s, g_earthVel := snap_EarthVel s,
     g_planet2Pos := snap_Planet2Pos s, g_planet2Vel := snap_Planet2Vel s, g_lastTick := snap_Tick s\<rparr>"
definition updateRockets :: "PRocket list \<Rightarrow> GameClient \<Rightarrow> GameClient" where
  "updateRockets xs c = c\<lparr>g_rockets := xs\<rparr>"

definition apply_snapshot :: "env \<Rightarrow> Snapshot \<Rightarrow> GameClient \<Rightarrow> GameClient" where
  "apply_snapshot E s c = updateRockets (snap_Rockets s) (updateEarthAndPlanets s
     (updateFactories (snap_Factories s) (updateBatteries (snap_Batteries s) (updateSolar (snap_Solar s)
     (updateProjectiles (snap_Projectiles s) (updateMobs (snap_Mobs s) (updateBoats (snap_Boats s)
     (updateHouses (snap_Houses s) (updateWells (snap_Wells s) (updateMammoths (snap_Mammoths s)
     (updateResources (snap_Resources s) (updatePlayers E (snap_Players s) c))))))))))))"

section \<open>Messages\<close>

record client_codec =
  d_Envelope :: "bytes \<Rightarrow> Envelope option"
  d_Welcome :: "bytes \<Rightarrow> Welcome option"
  d_Snapshot :: "bytes \<Rightarrow> Snapshot"
  d_ChatMessage :: "bytes \<Rightarrow> ChatMessage"
  d_Items :: "bytes \<Rightarrow> int gomap option"
  d_Teleport :: "bytes \<Rightarrow> Teleport"
  d_Pong :: "bytes \<Rightarrow> Pong"

definition zero_snapshot :: Snapshot where
  "zero_snapshot = \<lparr>snap_Tick = 0, snap_Players = [], snap_Resources = [], snap_Mammoths = [], snap_Wells = [],
     snap_Houses = [], snap_Boats = [], snap_Mobs = [], snap_Projectiles = [], snap_Solar = [], snap_Batteries = [],
     snap_Factories = [], snap_Rockets = [], snap_EarthPos = zero_vec, snap_EarthVel = zero_vec,
     snap_Planet2Pos = zero_vec, snap_Planet2Vel = zero_vec\<rparr>"

text \<open>\<open>_ = env.Decode(&v)\<close> on a fresh \<open>v\<close> with the zero value \<open>z\<close>.\<close>

definition decode_into :: "(bytes \<Rightarrow> 'p) \<Rightarrow> 'p \<Rightarrow> Envelope \<Rightarrow> 'p" where
  "decode_into u z e = (if env_Data e = [] then z else u (env_Data e))"

definition handleSnapshot :: "client_codec \<Rightarrow> env \<Rightarrow> Envelope \<Rightarrow> GameClient \<Rightarrow> GameClient" where
  "handleSnapshot K E e = apply_snapshot E (decode_into (d_Snapshot K) zero_snapshot e)"

text \<open>A full channel drops the message.\<close>

definition handleChat :: "client_codec \<Rightarrow> Envelope \<Rightarrow> GameClient \<Rightarrow> GameClient" where
  "handleChat K e c = (if length (g_chatCh c) < chatCap
     then c\<lparr>g_chatCh := g_chatCh c @ [decode_into (d_ChatMessage K) zero_chat e]\<rparr> else c)"

definition handleInventoryUpdate :: "client_codec \<Rightarrow> Envelope \<Rightarrow> GameClient \<Rightarrow> GameClient" where
  "handleInventoryUpdate K e c = c\<lparr>g_inventory := decode_into (d_Items K) None e\<rparr>"

definition zero_teleport :: Teleport where "zero_teleport = \<lparr>tp_X = 0, tp_Y = 0, tp_Z = 0\<rparr>"
definition zero_pong :: Pong where "zero_pong = \<lparr>pong_Sent = 0, pong_ServerTS = 0\<rparr>"

definition handleTeleport :: "client_codec \<Rightarrow> Envelope \<Rightarrow> GameClient \<Rightarrow> GameClient" where
  "handleTeleport K e c = (if length (g_teleportCh c) < teleportCap
     then c\<lparr>g_teleportCh := g_teleportCh c @ [decode_into (d_Teleport K) zero_teleport e]\<rparr> else c)"

definition handlePong :: "client_codec \<Rightarrow> env \<Rightarrow> Envelope \<Rightarrow> GameClient \<Rightarrow> GameClient" where
  "handlePong K E e c = c\<lparr>g_rtt :=
     i64 (i64 (unix_milli (e_now E) - pong_Sent (decode_into (d_Pong K) zero_pong e)) * millisecond)\<rparr>"

definition handle :: "client_codec \<Rightarrow> env \<Rightarrow> Envelope \<Rightarrow> GameClient \<Rightarrow> GameClient" where
  "handle K E e c =
     (case type_of_tag (env_Type e) of
        Some TypeSnapshot \<Rightarrow> handleSnapshot K E e c
      | Some TypeChat \<Rightarrow> handleChat K e c
      | Some TypeInventoryUpdate \<Rightarrow> handleInventoryUpdate K e c
      | Some TypeTeleport \<Rightarrow> handleTeleport K e c
      | Some TypePong \<Rightarrow> handlePong K E e c
      | _ \<Rightarrow> c)"

text \<open>
  The read loop on the bytes that arrive before the connection breaks. An envelope that cannot
  be decoded is skipped; the loop ends with the first frame that cannot be read, and the client
  is then disconnected.
\<close>

function client_readLoop :: "client_codec \<Rightarrow> (nat \<Rightarrow> env) \<Rightarrow> nat \<Rightarrow> bytes \<Rightarrow> GameClient \<Rightarrow> GameClient" where
  "client_readLoop K Es n r c =
     (case ReadFrame r of
        Inl _ \<Rightarrow> c\<lparr>g_status := StatusDisconnected, g_done := map_option (\<lambda>_. True) (g_done c)\<rparr>
      | Inr (p, r') \<Rightarrow> client_readLoop K Es (Suc n) r'
          (case d_Envelope K p of None \<Rightarrow> c | Some e \<Rightarrow> handle K (Es n) e c))"
  by pat_completeness auto
termination
  by (relation "measure (\<lambda>(_, _, _, r, _). length r)") (auto dest: ReadFrame_shorter)

declare client_readLoop.simps [simp del]

section \<open>Interpolation\<close>

text \<open>\<open>Duration.Seconds\<close>: whole seconds and the rest, added in \<open>float64\<close>.\<close>

definition dur_seconds :: "duration \<Rightarrow> f64" where
  "dur_seconds d = f64_of_int (d sdiv second) + f64_of_int (d smod second) / c64 1000000000"

definition clamp01 :: "f64 \<Rightarrow> f64" where
  "clamp01 t = (if t < 0 then 0 else if 1 < t then 1 else t)"

text \<open>The newest state that is not after the time of rendering, by a search from the end.\<close>

fun last_before :: "gotime \<Rightarrow> timedState list \<Rightarrow> nat \<Rightarrow> nat option" where
  "last_before t h 0 = None"
| "last_before t h (Suc i) = (if tst_at (h ! i) \<le> t then Some i else last_before t h i)"

definition lerp :: "f64 \<Rightarrow> f32 \<Rightarrow> f32 \<Rightarrow> f32" where
  "lerp t a b = a + (b - a) * f32_of t"

definition interp_at :: "f64 \<Rightarrow> PlayerState \<Rightarrow> PlayerState \<Rightarrow> PlayerState" where
  "interp_at t a b = a\<lparr>ps_X := lerp t (ps_X a) (ps_X b), ps_Y := lerp t (ps_Y a) (ps_Y b),
     ps_Z := lerp t (ps_Z a) (ps_Z b)\<rparr>"

definition interp_pair :: "gotime \<Rightarrow> timedState \<Rightarrow> timedState \<Rightarrow> PlayerState" where
  "interp_pair t a b =
     (let span = dur_seconds (time_sub (tst_at b) (tst_at a))
      in if span \<le> 0 then tst_state a
         else interp_at (clamp01 (dur_seconds (time_sub t (tst_at a)) / span)) (tst_state a) (tst_state b))"

definition interp_hist :: "gotime \<Rightarrow> timedState list \<Rightarrow> PlayerState option" where
  "interp_hist t h =
     (if h = [] then None
      else if length h = 1 then Some (tst_state (h ! 0))
      else case last_before t h (length h) of
             None \<Rightarrow> Some (tst_state (h ! 0))
           | Some i \<Rightarrow> Some (if i + 1 < length h then interp_pair t (h ! i) (h ! (i + 1)) else tst_state (h ! i)))"

definition InterpolatedSnapshot :: "env \<Rightarrow> GameClient \<Rightarrow> PlayerState list" where
  "InterpolatedSnapshot E c =
     List.map_filter (interp_hist (time_add (e_now E) (- interpolationDelay)))
       (range_vals (e_ord E) [''InterpolatedSnapshot''] (g_players c))"

section \<open>What the rest of the client sees\<close>

text \<open>The getters of \<open>getters.go\<close> return copies under the lock; a \<open>nil\<close> inventory is seen as an empty one.\<close>

definition get_EarthPos :: "GameClient \<Rightarrow> Vector3" where "get_EarthPos c = g_earthPos c"
definition get_LastSnapshotTick :: "GameClient \<Rightarrow> 64 word" where "get_LastSnapshotTick c = g_lastTick c"
definition get_Planet2Pos :: "GameClient \<Rightarrow> Vector3" where "get_Planet2Pos c = g_planet2Pos c"
definition get_Planet2Vel :: "GameClient \<Rightarrow> Vector3" where "get_Planet2Vel c = g_planet2Vel c"
definition get_EarthVel :: "GameClient \<Rightarrow> Vector3" where "get_EarthVel c = g_earthVel c"
definition get_Status :: "GameClient \<Rightarrow> Status" where "get_Status c = g_status c"
definition get_PlayerID :: "GameClient \<Rightarrow> string" where "get_PlayerID c = g_playerID c"
definition get_RTT :: "GameClient \<Rightarrow> duration" where "get_RTT c = g_rtt c"
definition get_Hunger :: "GameClient \<Rightarrow> f32" where "get_Hunger c = g_ownHunger c"
definition get_OwnHP :: "GameClient \<Rightarrow> int" where "get_OwnHP c = g_ownHP c"
definition get_Houses :: "GameClient \<Rightarrow> PHouse list" where "get_Houses c = g_houses c"
definition get_Wells :: "GameClient \<Rightarrow> Well list" where "get_Wells c = g_wells c"
definition get_Mammoths :: "GameClient \<Rightarrow> PMammoth list" where "get_Mammoths c = g_mammoths c"
definition get_Resources :: "GameClient \<Rightarrow> Resource list" where "get_Resources c = g_resources c"
definition get_Solar :: "GameClient \<Rightarrow> PSolar list" where "get_Solar c = g_solar c"
definition get_Batteries :: "GameClient \<Rightarrow> PBattery list" where "get_Batteries c = g_batteries c"
definition get_Rockets :: "GameClient \<Rightarrow> PRocket list" where "get_Rockets c = g_rockets c"
definition get_Factories :: "GameClient \<Rightarrow> PFactory list" where "get_Factories c = g_factories c"
definition get_Projectiles :: "GameClient \<Rightarrow> MobProjectile list" where "get_Projectiles c = g_projectiles c"
definition get_Mobs :: "GameClient \<Rightarrow> PMob list" where "get_Mobs c = g_mobs c"
definition get_Boats :: "GameClient \<Rightarrow> PBoat list" where "get_Boats c = g_boats c"
definition get_Inventory :: "GameClient \<Rightarrow> int gomap" where
  "get_Inventory c = (case g_inventory c of None \<Rightarrow> mempty | Some xs \<Rightarrow> xs)"
definition HasInventory :: "GameClient \<Rightarrow> bool" where "HasInventory c \<longleftrightarrow> g_inventory c \<noteq> None"

lemmas getter_defs = get_EarthPos_def get_LastSnapshotTick_def get_Planet2Pos_def get_Planet2Vel_def get_EarthVel_def get_Status_def get_PlayerID_def get_RTT_def get_Hunger_def get_OwnHP_def
  get_Houses_def get_Wells_def get_Mammoths_def get_Resources_def get_Solar_def get_Batteries_def
  get_Rockets_def get_Factories_def get_Projectiles_def get_Mobs_def get_Boats_def

end
