(* ===== verification/Client_Facts.thy ===== *)
theory Client_Facts
  imports Client_Net
begin

text \<open>
  Facts about \<open>Client_Net\<close>: the bounds of the mirror, what a snapshot does to the histories, the
  interpolation of players, and the delivery of the server's messages to the mirror.
\<close>

section \<open>Histories\<close>

lemma length_trim: "length (trim h) = min (length h) maxHistoryStates"
  by (simp add: trim_def)

lemma trim_snoc: "trim (h @ [x]) \<noteq> [] \<and> last (trim (h @ [x])) = x \<and> set (trim (h @ [x])) \<subseteq> insert x (set h)"
  by (auto simp: trim_def maxHistoryStates_def dest: in_set_dropD)

lemma sorted_trim: "sorted (map tst_at h) \<Longrightarrow> sorted (map tst_at (trim h))"
  by (simp add: trim_def sorted_wrt_drop flip: drop_map)

lemma lookup_fold_mdel: "mget (fold mdel ks m) k = (if k \<in> set ks then None else mget m k)"
  by (induction ks arbitrary: m) auto

lemma lookup_forget: "mget (forget S m) k = (if k \<in> S then mget m k else None)"
  by (auto simp: forget_def lookup_fold_mdel set_mkeys domIff)

lemma note_player_self [simp]: "g_playerID (note_player t i p c) = g_playerID c"
  by (simp add: note_player_def Let_def)

lemma note_player_hist:
  "mget (g_players (note_player t i p c)) k =
    (if k = ps_ID p then Some (trim (hist_of (g_players c) k @ [\<lparr>tst_state = p, tst_at = t\<rparr>]))
     else mget (g_players c) k)"
  by (auto simp: note_player_def Let_def lookup_update)

lemma note_player_own:
  "(g_ownHunger (note_player t i p c), g_ownHP (note_player t i p c)) =
    (if ps_ID p = i then (ps_Hunger p, ps_HP p) else (g_ownHunger c, g_ownHP c))"
  by (simp add: note_player_def Let_def)

lemma note_players_dom: "dom (mget (g_players (fold (note_player t i) ps c))) = ps_ID ` set ps \<union> dom (mget (g_players c))"
proof (induction ps arbitrary: c)
  case (Cons p ps)
  have "dom (mget (g_players (note_player t i p c))) = insert (ps_ID p) (dom (mget (g_players c)))"
    by (auto simp: note_player_hist split: if_splits)
  with Cons show ?case by simp
qed simp

lemma note_players_other: "k \<notin> ps_ID ` set ps \<Longrightarrow>
    mget (g_players (fold (note_player t i) ps c)) k = mget (g_players c) k"
  by (induction ps arbitrary: c) (simp_all add: note_player_hist)

lemma note_players_hist:
  "distinct (map ps_ID ps) \<Longrightarrow> p \<in> set ps \<Longrightarrow>
   mget (g_players (fold (note_player t i) ps c)) (ps_ID p) =
     Some (trim (hist_of (g_players c) (ps_ID p) @ [\<lparr>tst_state = p, tst_at = t\<rparr>]))"
proof (induction ps arbitrary: c)
  case (Cons q ps)
  show ?case
  proof (cases "p = q")
    case True
    with Cons.prems show ?thesis by (simp add: note_players_other note_player_hist)
  next
    case False
    with Cons.prems have "p \<in> set ps" "ps_ID p \<noteq> ps_ID q" by (auto simp: image_iff)
    with Cons show ?thesis by (simp add: note_player_hist hist_of_def)
  qed
qed simp

lemma note_players_own:
  "distinct (map ps_ID ps) \<Longrightarrow> p \<in> set ps \<Longrightarrow> ps_ID p = i \<Longrightarrow>
   g_ownHunger (fold (note_player t i) ps c) = ps_Hunger p \<and> g_ownHP (fold (note_player t i) ps c) = ps_HP p"
proof (induction ps arbitrary: c)
  case (Cons q ps)
  have keep: "i \<notin> ps_ID ` set qs \<Longrightarrow> g_ownHunger (fold (note_player t i) qs c) = g_ownHunger c \<and>
      g_ownHP (fold (note_player t i) qs c) = g_ownHP c" for qs c
  proof (induction qs arbitrary: c)
    case (Cons r qs)
    then show ?case using note_player_own [of t i r c] by auto
  qed simp
  show ?case
  proof (cases "p = q")
    case True
    with Cons.prems keep [of ps "note_player t i q c"] note_player_own [of t i q c] show ?thesis by auto
  qed (use Cons in auto)
qed simp

text \<open>
  After a snapshot the client knows exactly the players of that snapshot: each history ends
  with the state just received and keeps the last twenty, whoever is not in the snapshot is
  forgotten, and the client's own hunger and health are those of its own entry.
\<close>

theorem updatePlayers_correct:
  assumes "distinct (map ps_ID ps)"
  shows "dom (mget (g_players (updatePlayers E ps c))) = ps_ID ` set ps \<and>
    (\<forall>p\<in>set ps. \<exists>old. length old \<le> 19 \<and> (\<exists>lost. hist_of (g_players c) (ps_ID p) = lost @ old \<and> (lost \<noteq> [] \<longrightarrow> length old = 19)) \<and>
       mget (g_players (updatePlayers E ps c)) (ps_ID p) = Some (old @ [\<lparr>tst_state = p, tst_at = e_now E\<rparr>])) \<and>
    (\<forall>p\<in>set ps. ps_ID p = g_playerID c \<longrightarrow>
       g_ownHunger (updatePlayers E ps c) = ps_Hunger p \<and> g_ownHP (updatePlayers E ps c) = ps_HP p)"
proof (intro conjI ballI impI)
  show "dom (mget (g_players (updatePlayers E ps c))) = ps_ID ` set ps"
    using note_players_dom [of "e_now E" "g_playerID c" ps c]
    by (force simp: updatePlayers_def Let_def lookup_forget split: if_splits)
next
  fix p assume p: "p \<in> set ps"
  let ?h = "hist_of (g_players c) (ps_ID p)" and ?x = "\<lparr>tst_state = p, tst_at = e_now E\<rparr>"
  let ?n = "length ?h - 19"
  have "trim (?h @ [?x]) = drop ?n ?h @ [?x]"
    by (cases "length ?h \<le> 19") (auto simp: trim_def maxHistoryStates_def Suc_diff_le)
  moreover have "mget (g_players (updatePlayers E ps c)) (ps_ID p) = Some (trim (?h @ [?x]))"
    using note_players_hist [OF assms p] p by (simp add: updatePlayers_def Let_def lookup_forget)
  moreover have "?h = take ?n ?h @ drop ?n ?h" by simp
  ultimately show "\<exists>old. length old \<le> 19 \<and> (\<exists>lost. ?h = lost @ old \<and> (lost \<noteq> [] \<longrightarrow> length old = 19)) \<and>
     mget (g_players (updatePlayers E ps c)) (ps_ID p) = Some (old @ [?x])"
    by (intro exI [of _ "drop ?n ?h"] conjI exI [of _ "take ?n ?h"]) auto
next
  fix p assume "p \<in> set ps" "ps_ID p = g_playerID c"
  from note_players_own [OF assms this, of "e_now E" c]
  show "g_ownHunger (updatePlayers E ps c) = ps_Hunger p" "g_ownHP (updatePlayers E ps c) = ps_HP p"
    by (simp_all add: updatePlayers_def Let_def)
qed

theorem updatePlayers_correct_witness:
  "g_ownHP (updatePlayers flat_env [(zero_state ''a'' ''n'')\<lparr>ps_HP := 7\<rparr>] (client_New\<lparr>g_playerID := ''a''\<rparr>)) = 7"
  using updatePlayers_correct [of "[(zero_state ''a'' ''n'')\<lparr>ps_HP := 7\<rparr>]" flat_env "client_New\<lparr>g_playerID := ''a''\<rparr>"]
  by (simp add: zero_state_def)

section \<open>Interpolation\<close>

lemma rv64_values: "rv Binary64 1 = 1" "rv Binary64 17179869184 = 17179869184" "rv Binary64 1000000000 = 1000000000"
    "rv Binary64 17179869185 = 17179869185"
  by code_simp+

lemma billion64: "raw64 (c64 1000000000) = Fin 1000000000"
  by (simp add: raw64_ops mk_exact rv64_values)

lemma of_int64_in_rng: "0 \<le> k \<Longrightarrow> of_int k \<le> hi \<Longrightarrow> rv Binary64 hi = hi \<Longrightarrow> hi \<le> fmax Binary64 \<Longrightarrow>
    in_rng 0 hi (raw64 (f64_of_int k))"
  using mk_in_rng [of 0 "of_int k" hi Binary64 False] fmax_pos [of Binary64]
  by (simp add: f64_of_int_def raw64_ops)

lemma sdiv_smod_second:
  assumes "0 \<le> d" "d \<le> 2 ^ 63 - 1"
  shows "0 \<le> d sdiv second" "d sdiv second \<le> 17179869184" "0 \<le> d smod second" "d smod second < 1000000000"
    "d = (d sdiv second) * 1000000000 + d smod second"
  using assms by (auto simp: second_def signed_divide_int_def signed_modulo_int_def sgn_if minus_mult_div_eq_mod)

lemma fdiv_pos: "is_fin x \<Longrightarrow> is_fin y \<Longrightarrow> 0 < fval y \<Longrightarrow> fdiv f x y = mk f (sign_bit x \<noteq> sign_bit y) (fval x / fval y)"
proof -
  assume a: "is_fin x" "is_fin y" "0 < fval y"
  have "\<not> is_zero y" using a(3) by auto
  with a(1,2) show ?thesis by (auto simp: fdiv_def Let_def dest!: is_fin_not_special)
qed

lemma dur_seconds_finite:
  assumes "0 \<le> d" "d \<le> 2 ^ 63 - 1"
  shows "in_rng (- 1) 17179869185 (raw64 (dur_seconds d))"
proof -
  note b = sdiv_smod_second [OF assms]
  have s: "in_rng 0 17179869184 (raw64 (f64_of_int (d sdiv second)))"
    using b by (intro of_int64_in_rng) (simp_all add: rv64_values)
  have n: "in_rng 0 1000000000 (raw64 (f64_of_int (d smod second)))"
    using b by (intro of_int64_in_rng) (simp_all add: rv64_values)
  have "in_rng (- rv Binary64 1) (rv Binary64 1) (fdiv Binary64 (raw64 (f64_of_int (d smod second))) (Fin 1000000000))"
    using n by (intro fdiv_in_rng) (simp_all add: in_rng_def rv64_values)
  then have "in_rng (- 1) 1 (raw64 (f64_of_int (d smod second) / c64 1000000000))"
    unfolding raw64_ops(5) billion64 by (simp add: rv64_values)
  with s show ?thesis
    using fadd_in_rng [of 0 17179869184 _ "- 1" 1 _ Binary64]
    by (simp add: dur_seconds_def raw64_ops rv64_values rv_minus)
qed

lemma dur_seconds_pos:
  assumes "0 < d" "d \<le> 2 ^ 63 - 1"
  shows "is_fin (raw64 (dur_seconds d)) \<and> 0 < fval (raw64 (dur_seconds d))"
proof -
  have b: "0 \<le> d sdiv second" "d sdiv second \<le> 17179869184" "0 \<le> d smod second" "d smod second < 1000000000"
    "d = (d sdiv second) * 1000000000 + d smod second"
    using sdiv_smod_second [of d] assms by simp_all
  let ?s = "raw64 (f64_of_int (d sdiv second))" and ?n = "raw64 (f64_of_int (d smod second))"
  let ?q = "fdiv Binary64 ?n (Fin 1000000000)"
  have fin: "is_fin (raw64 (dur_seconds d))" using dur_seconds_finite [of d] assms by (simp add: in_rng_def)
  have nf: "is_fin ?n" "0 \<le> fval ?n"
    using b of_int64_in_rng [of "d smod second" 1000000000] by (simp_all add: in_rng_def rv64_values)
  have s0: "at_least 0 ?s" using b mk_at_least [of 0 "of_int (d sdiv second)" Binary64 False]
    by (simp add: f64_of_int_def raw64_ops)
  have sum: "raw64 (dur_seconds d) = fadd Binary64 ?s ?q"
    by (simp add: dur_seconds_def raw64_ops billion64 [unfolded raw64_ops])
  have "\<exists>c>0. at_least c (raw64 (dur_seconds d))"
  proof (cases "d sdiv second = 0")
    case False
    with b have "at_least (rv Binary64 1) ?s" unfolding f64_of_int_def raw64_ops by (intro mk_at_least) auto
    moreover have "at_least 0 ?q" using nf mk_at_least [of 0 "fval ?n / 1000000000" Binary64] by (simp add: fdiv_pos)
    ultimately have "at_least (rv Binary64 1) (raw64 (dur_seconds d))"
      unfolding sum using fadd_at_least [of 1 ?s ?q Binary64] by (simp add: rv64_values)
    then show ?thesis by (intro exI [of _ 1]) (simp add: rv64_values)
  next
    case True
    let ?e = "1 / 1000000000 :: rat"
    have "1 \<le> d smod second" using True b assms by simp
    then have "at_least (rv Binary64 1) ?n" unfolding f64_of_int_def raw64_ops by (intro mk_at_least) auto
    with nf have "1 \<le> fval ?n" by (auto simp: at_least_def rv64_values)
    then have q: "at_least (rv Binary64 ?e) ?q" using nf by (simp add: fdiv_pos mk_at_least divide_right_mono)
    have tiny: "(2 :: rat) powi emin Binary64 \<le> ?e / 2"
      using powi_mono [of "emin Binary64" "- 32"] by (simp add: power_int_minus)
    have e2: "?e / 2 \<le> rv Binary64 ?e" using tiny by (intro rv_ge_half) simp
    have "at_least (rv Binary64 (?e / 2)) (raw64 (dur_seconds d))"
      unfolding sum using s0 at_least_weaken [OF q e2] by (intro fadd_at_least_right) simp_all
    moreover have "?e / 4 \<le> rv Binary64 (?e / 2)" using rv_ge_half [OF tiny] by simp
    ultimately show ?thesis by (intro exI [of _ "?e / 4"]) (auto intro: at_least_weaken)
  qed
  then show ?thesis using fin by (auto simp: at_least_def)
qed

lemma clamp01_unit: "raw64 x \<noteq> NaN \<Longrightarrow> in_rng 0 1 (raw64 (clamp01 x))"
proof (cases "raw64 x")
  case (Fin r)
  then show ?thesis by (auto simp: clamp01_def less_f64_def raw64_ops in_rng_def flt_def)
qed (auto simp: clamp01_def less_f64_def raw64_ops in_rng_def flt_def)

lemma last_before_Some: "last_before t h n = Some i \<Longrightarrow> i < n \<and> tst_at (h ! i) \<le> t \<and> (\<forall>j. i < j \<and> j < n \<longrightarrow> t < tst_at (h ! j))"
  by (induction n) (auto split: if_splits simp: less_Suc_eq)

lemma last_before_None: "last_before t h n = None \<longleftrightarrow> (\<forall>j<n. t < tst_at (h ! j))"
  by (induction n) (auto simp: less_Suc_eq)

lemma time_sub_pos: "a < b \<Longrightarrow> 0 < time_sub b a \<and> time_sub b a \<le> 2 ^ 63 - 1"
  by (auto simp: time_sub_def)

lemma interp_pair_unit:
  assumes "tst_at a \<le> t" "t < tst_at b"
  shows "\<exists>u. in_rng 0 1 (raw64 u) \<and> interp_pair t a b = interp_at u (tst_state a) (tst_state b)"
proof -
  let ?span = "dur_seconds (time_sub (tst_at b) (tst_at a))" and ?d = "dur_seconds (time_sub t (tst_at a))"
  have sp: "is_fin (raw64 ?span)" "0 < fval (raw64 ?span)"
    using dur_seconds_pos time_sub_pos [of "tst_at a" "tst_at b"] assms by auto
  have "0 \<le> time_sub t (tst_at a)" "time_sub t (tst_at a) \<le> 2 ^ 63 - 1" using assms by (auto simp: time_sub_def)
  from dur_seconds_finite [OF this] have "is_fin (raw64 ?d)" by (simp add: in_rng_def)
  with sp have "raw64 (?d / ?span) \<noteq> NaN" by (auto simp: raw64_ops fdiv_pos mk_def mk_sel_def)
  from clamp01_unit [OF this] show ?thesis
    using sp by (auto simp: interp_pair_def Let_def less_eq_f64_def raw64_ops)
qed

lemma interp_hist_due: "h \<noteq> [] \<Longrightarrow> tst_at (last h) \<le> t \<Longrightarrow> interp_hist t h = Some (tst_state (last h))"
  by (cases "length h") (auto simp: interp_hist_def last_conv_nth)

lemma interp_hist_Some: "h \<noteq> [] \<Longrightarrow> \<exists>p. interp_hist t h = Some p"
  by (auto simp: interp_hist_def split: option.split)

lemma sorted_states: "sorted (map tst_at h) \<Longrightarrow> i \<le> j \<Longrightarrow> j < length h \<Longrightarrow> tst_at (h ! i) \<le> tst_at (h ! j)"
  by (simp add: sorted_iff_nth_mono)

lemma interp_hist_early:
  assumes "h \<noteq> []" "sorted (map tst_at h)" "t < tst_at (hd h)"
  shows "interp_hist t h = Some (tst_state (hd h))"
proof -
  have "t < tst_at (h ! j)" if "j < length h" for j
    using sorted_states [OF assms(2), of 0 j] that assms(1,3) by (simp add: hd_conv_nth)
  then have "last_before t h (length h) = None" by (simp add: last_before_None)
  then show ?thesis using assms(1) by (simp add: interp_hist_def hd_conv_nth)
qed

lemma last_before_at: "i < n \<Longrightarrow> tst_at (h ! i) \<le> t \<Longrightarrow> \<forall>j. i < j \<and> j < n \<longrightarrow> t < tst_at (h ! j) \<Longrightarrow> last_before t h n = Some i"
proof (induction n)
  case (Suc n)
  then show ?case by (cases "i = n") (auto simp: not_le)
qed simp

lemma interp_hist_between:
  assumes "sorted (map tst_at h)" "Suc i < length h" "tst_at (h ! i) \<le> t" "t < tst_at (h ! Suc i)"
  shows "interp_hist t h = Some (interp_pair t (h ! i) (h ! Suc i))"
proof -
  have "t < tst_at (h ! j)" if "i < j \<and> j < length h" for j
    using sorted_states [OF assms(1), of "Suc i" j] that assms(4) by linarith
  then have "last_before t h (length h) = Some i" using assms(2,3) by (intro last_before_at) auto
  then show ?thesis using assms(2) by (auto simp: interp_hist_def)
qed

text \<open>
  The interpolation of one player, whose history is in order of time: the newest state when
  it is already due, the oldest when none is due yet, and otherwise the state before the time of
  rendering with its position moved towards the state after it by a factor between 0 and 1.
\<close>

theorem interp_hist_correct:
  assumes "h \<noteq> []" "sorted (map tst_at h)"
  shows "\<exists>p. interp_hist t h = Some p \<and>
    (tst_at (last h) \<le> t \<longrightarrow> p = tst_state (last h)) \<and>
    (t < tst_at (hd h) \<longrightarrow> p = tst_state (hd h)) \<and>
    (\<forall>i. Suc i < length h \<longrightarrow> tst_at (h ! i) \<le> t \<longrightarrow> t < tst_at (h ! Suc i) \<longrightarrow>
       (\<exists>u. in_rng 0 1 (raw64 u) \<and> p = interp_at u (tst_state (h ! i)) (tst_state (h ! Suc i))))"
proof -
  obtain p where p: "interp_hist t h = Some p" using interp_hist_Some [OF assms(1)] by blast
  have "p = tst_state (last h)" if "tst_at (last h) \<le> t" using interp_hist_due [OF assms(1) that] p by simp
  moreover have "p = tst_state (hd h)" if "t < tst_at (hd h)" using interp_hist_early [OF assms that] p by simp
  moreover have "\<exists>u. in_rng 0 1 (raw64 u) \<and> p = interp_at u (tst_state (h ! i)) (tst_state (h ! Suc i))"
    if "Suc i < length h" "tst_at (h ! i) \<le> t" "t < tst_at (h ! Suc i)" for i
    using interp_hist_between [OF assms(2) that] interp_pair_unit [OF that(2,3)] p by simp
  ultimately show ?thesis using p by blast
qed

text \<open>Two states 100 ms apart, rendered in between.\<close>

definition two_states :: "timedState list" where
  "two_states = [\<lparr>tst_state = zero_state ''a'' ''n'', tst_at = 0\<rparr>,
     \<lparr>tst_state = (zero_state ''a'' ''n'')\<lparr>ps_HP := 5\<rparr>, tst_at = 100 * millisecond\<rparr>]"

theorem interp_hist_correct_witness:
  "interp_hist (100 * millisecond) two_states = Some ((zero_state ''a'' ''n'')\<lparr>ps_HP := 5\<rparr>) \<and>
   map_option ps_HP (interp_hist (40 * millisecond) two_states) = Some 0"
proof -
  have "\<exists>p. interp_hist (40 * millisecond) two_states = Some p \<and> (\<exists>u. p = interp_at u (zero_state ''a'' ''n'')
      ((zero_state ''a'' ''n'')\<lparr>ps_HP := 5\<rparr>))"
    using interp_hist_correct [of two_states "40 * millisecond"]
    by (fastforce simp: two_states_def millisecond_def)
  then show ?thesis
    using interp_hist_correct [of two_states "100 * millisecond"]
    by (auto simp: two_states_def millisecond_def interp_at_def zero_state_def)
qed

text \<open>Moving towards the next position: the factor 0 gives the old one, and more factor is further on.\<close>

lemma fadd_fin: "is_fin x \<Longrightarrow> is_fin y \<Longrightarrow> fadd f x y = mk f (x = NZero \<and> y = NZero) (fval x + fval y)"
  by (auto simp: fadd_def dest!: is_fin_not_special)

lemma fmul_fin: "is_fin x \<Longrightarrow> is_fin y \<Longrightarrow> fmul f x y = mk f (sign_bit x \<noteq> sign_bit y) (fval x * fval y)"
  by (auto simp: fmul_def Let_def dest!: is_fin_not_special)

lemma rv32_bounds: "rv Binary32 2535301200456458802993406410752 = 2535301200456458802993406410752"
    "rv Binary32 5070602400912917605986812821504 = 5070602400912917605986812821504" "rv Binary32 1 = 1"
  by code_simp+

lemma rv_abs_le: "rv f m = m \<Longrightarrow> \<bar>x\<bar> \<le> m \<Longrightarrow> \<bar>rv f x\<bar> \<le> m"
  using rv_mono [of x m f] rv_mono [of "- m" x f] by (simp add: rv_minus abs_le_iff)

lemma val32_mk: "\<bar>x\<bar> \<le> 2 ^ 102 \<Longrightarrow> is_fin (mk Binary32 n x) \<and> fval (mk Binary32 n x) = rv Binary32 x"
  using rv_abs_le [of Binary32 "2 ^ 102" x] by (intro mk_fin) (simp add: rv32_bounds)

lemma lerp_val:
  assumes "fin32 a" "fin32 b" "\<bar>val32 a\<bar> \<le> 2 ^ 100" "\<bar>val32 b\<bar> \<le> 2 ^ 100" "in_rng 0 1 (raw64 u)"
  shows "fin32 (lerp u a b) \<and> val32 (lerp u a b) =
    rv Binary32 (val32 a + rv Binary32 (rv Binary32 (val32 b - val32 a) * val32 (f32_of u)))"
proof -
  let ?d = "rv Binary32 (val32 b - val32 a)" and ?u = "val32 (f32_of u)"
  have u: "in_rng 0 1 (raw32 (f32_of u))"
    using cvt_in_rng [of 0 1 "raw64 u" Binary32] assms(5) by (simp add: raw32_ops rv32_bounds)
  have "\<bar>val32 b - val32 a\<bar> \<le> 2 ^ 101" using assms(3,4) by simp
  then have d: "\<bar>?d\<bar> \<le> 2 ^ 101" and sub: "fin32 (b - a)" "val32 (b - a) = ?d"
    using rv_abs_le [of Binary32 "2 ^ 101" "val32 b - val32 a"] val32_mk [of "val32 b - val32 a"] assms(1,2)
    by (simp_all add: raw32_ops fadd_fin rv32_bounds)
  have "\<bar>?d * ?u\<bar> \<le> 2 ^ 101 * 1" unfolding abs_mult using d u by (intro mult_mono) (auto simp: in_rng_def)
  then have e: "\<bar>rv Binary32 (?d * ?u)\<bar> \<le> 2 ^ 101" and mul: "fin32 ((b - a) * f32_of u)" "val32 ((b - a) * f32_of u) = rv Binary32 (?d * ?u)"
    using rv_abs_le [of Binary32 "2 ^ 101" "?d * ?u"] val32_mk [of "?d * ?u"] sub u
    by (simp_all add: raw32_ops(4) fmul_fin rv32_bounds in_rng_def)
  have "\<bar>val32 a + rv Binary32 (?d * ?u)\<bar> \<le> 2 ^ 102" using assms(3) e by simp
  then show ?thesis unfolding lerp_def raw32_ops(1) using mul assms(1) val32_mk by (simp add: fadd_fin)
qed

text \<open>
  Interpolated coordinates never lie behind the older position and never beyond the place that
  the factor 1 reaches; a player who stands still is shown standing still.
\<close>

theorem lerp_between:
  assumes "fin32 a" "fin32 b" "\<bar>val32 a\<bar> \<le> 2 ^ 100" "\<bar>val32 b\<bar> \<le> 2 ^ 100" "rep Binary32 (val32 a)"
    and "in_rng 0 1 (raw64 u)"
  shows "fin32 (lerp u a b) \<and>
    (val32 a \<le> val32 b \<longrightarrow> val32 a \<le> val32 (lerp u a b) \<and> val32 (lerp u a b) \<le> val32 (lerp 1 a b)) \<and>
    (val32 b \<le> val32 a \<longrightarrow> val32 (lerp 1 a b) \<le> val32 (lerp u a b) \<and> val32 (lerp u a b) \<le> val32 a)"
proof -
  let ?d = "rv Binary32 (val32 b - val32 a)" and ?u = "val32 (f32_of u)"
  have one: "in_rng 0 1 (raw64 1)" "val32 (f32_of 1) = 1"
    by (simp_all add: in_rng_def raw64_ops raw32_ops mk_exact rv32_bounds)
  have u: "0 \<le> ?u" "?u \<le> 1"
    using cvt_in_rng [of 0 1 "raw64 u" Binary32] assms(6) by (simp_all add: in_rng_def raw32_ops rv32_bounds)
  have ra: "rv Binary32 (val32 a) = val32 a" using assms(5) by (simp add: rep_def)
  have rd: "rv Binary32 ?d = ?d" using rep_rv by (simp add: rep_def)
  note lu = lerp_val [OF assms(1-4,6)] and l1 = lerp_val [OF assms(1-4) one(1)]
  have up: "val32 a \<le> val32 (lerp u a b) \<and> val32 (lerp u a b) \<le> val32 (lerp 1 a b)" if "val32 a \<le> val32 b"
  proof -
    have d: "0 \<le> ?d" using that by (intro rv_nonneg) simp
    have "0 \<le> rv Binary32 (?d * ?u)" using d u by (intro rv_nonneg) simp
    moreover have "rv Binary32 (?d * ?u) \<le> ?d"
      using rv_mono [of "?d * ?u" ?d Binary32] mult_left_mono [OF u(2) d] by (simp add: rd)
    ultimately show ?thesis
      using lu l1 one rv_mono [of "val32 a" "val32 a + rv Binary32 (?d * ?u)" Binary32]
        rv_mono [of "val32 a + rv Binary32 (?d * ?u)" "val32 a + ?d" Binary32]
      by (simp add: ra rd)
  qed
  have down: "val32 (lerp 1 a b) \<le> val32 (lerp u a b) \<and> val32 (lerp u a b) \<le> val32 a" if "val32 b \<le> val32 a"
  proof -
    have d: "?d \<le> 0" using that rv_mono [of "val32 b - val32 a" 0 Binary32] by simp
    have "rv Binary32 (?d * ?u) \<le> 0" using d u rv_mono [of "?d * ?u" 0 Binary32] by (simp add: mult_nonpos_nonneg)
    moreover have "?d \<le> rv Binary32 (?d * ?u)"
      using rv_mono [of ?d "?d * ?u" Binary32] mult_left_mono_neg [OF u(2) d] by (simp add: rd)
    ultimately show ?thesis
      using lu l1 one rv_mono [of "val32 a + rv Binary32 (?d * ?u)" "val32 a" Binary32]
        rv_mono [of "val32 a + ?d" "val32 a + rv Binary32 (?d * ?u)" Binary32]
      by (simp add: ra rd)
  qed
  from up down lu show ?thesis by blast
qed

theorem lerp_between_witness: "val32 (lerp 1 (c32 2) (c32 2)) = 2"
proof -
  have two: "raw32 (c32 2) = Fin 2" by code_simp
  moreover have "rep Binary32 2" unfolding rep_def by code_simp
  ultimately show ?thesis
    using lerp_between [of "c32 2" "c32 2" 1] by (simp add: in_rng_def raw64_ops)
qed

section \<open>The bounds of the mirror\<close>

definition hist_ok :: "gotime \<Rightarrow> string \<Rightarrow> timedState list \<Rightarrow> bool" where
  "hist_ok t k h \<longleftrightarrow> h \<noteq> [] \<and> length h \<le> maxHistoryStates \<and> sorted (map tst_at h) \<and>
     list_all (\<lambda>x. tst_at x \<le> t \<and> ps_ID (tst_state x) = k) h"

definition mirror_inv :: "gotime \<Rightarrow> GameClient \<Rightarrow> bool" where
  "mirror_inv t c \<longleftrightarrow> (\<forall>k h. mget (g_players c) k = Some h \<longrightarrow> hist_ok t k h) \<and>
     length (g_chatCh c) \<le> chatCap \<and> length (g_teleportCh c) \<le> teleportCap"

lemma mirror_inv_later: "mirror_inv t c \<Longrightarrow> t \<le> t' \<Longrightarrow> mirror_inv t' c"
  by (force simp: mirror_inv_def hist_ok_def list_all_iff)

lemma hist_ok_note:
  assumes "\<And>h. mget m k = Some h \<Longrightarrow> hist_ok t k h" "ps_ID p = k"
  shows "hist_ok t k (trim (hist_of m k @ [\<lparr>tst_state = p, tst_at = t\<rparr>]))"
proof -
  let ?x = "\<lparr>tst_state = p, tst_at = t\<rparr>" and ?h = "hist_of m k"
  have old: "sorted (map tst_at ?h)" "\<forall>x\<in>set ?h. tst_at x \<le> t \<and> ps_ID (tst_state x) = k"
    using assms(1) by (cases "mget m k"; simp add: hist_of_def hist_ok_def list_all_iff)+
  then have "sorted (map tst_at (?h @ [?x]))" by (auto simp: sorted_append)
  with old(2) assms(2) trim_snoc [of ?h ?x] show ?thesis
    by (auto simp: hist_ok_def list_all_iff length_trim sorted_trim)
qed

lemma mirror_inv_note: "mirror_inv t c \<Longrightarrow> mirror_inv t (note_player t i p c)"
proof -
  assume "mirror_inv t c"
  moreover have "g_chatCh (note_player t i p c) = g_chatCh c" "g_teleportCh (note_player t i p c) = g_teleportCh c"
    by (simp_all add: note_player_def Let_def)
  ultimately show ?thesis
    using hist_ok_note [of "g_players c" "ps_ID p" t p] by (auto simp: mirror_inv_def note_player_hist)
qed

lemma mirror_inv_updatePlayers:
  assumes "mirror_inv t c" "t \<le> e_now E"
  shows "mirror_inv (e_now E) (updatePlayers E ps c)"
proof -
  have "mirror_inv (e_now E) (fold (note_player (e_now E) i) qs c)" for i qs
    using mirror_inv_later [OF assms] by (induction qs arbitrary: c) (auto intro: mirror_inv_note)
  then show ?thesis
    by (auto simp: updatePlayers_def Let_def mirror_inv_def lookup_forget)
qed

lemmas update_defs = updateRockets_def updateEarthAndPlanets_def updateFactories_def updateBatteries_def
  updateSolar_def updateProjectiles_def updateMobs_def updateBoats_def updateHouses_def updateWells_def
  updateMammoths_def updateResources_def

lemma mirror_inv_apply_snapshot:
  "mirror_inv t c \<Longrightarrow> t \<le> e_now E \<Longrightarrow> mirror_inv (e_now E) (apply_snapshot E s c)"
  using mirror_inv_updatePlayers [of t c E "snap_Players s"]
  by (simp add: apply_snapshot_def mirror_inv_def update_defs)

lemma mirror_inv_handle:
  assumes "mirror_inv t c" "t \<le> e_now E"
  shows "mirror_inv (e_now E) (handle K E e c)"
proof -
  note c = mirror_inv_later [OF assms]
  have "mirror_inv (e_now E) (handleChat K e c)" "mirror_inv (e_now E) (handleInventoryUpdate K e c)"
    "mirror_inv (e_now E) (handleTeleport K e c)" "mirror_inv (e_now E) (handlePong K E e c)"
    using c by (simp_all add: mirror_inv_def handleChat_def handleInventoryUpdate_def handleTeleport_def handlePong_def)
  then show ?thesis
    using c mirror_inv_apply_snapshot [OF assms]
    by (simp add: handle_def handleSnapshot_def split: option.split msg_type.split)
qed

lemma handle_done: "g_done (handle K E e c) = g_done c"
proof -
  have "g_done (fold (note_player t i) ps c) = g_done c" for t i ps
    by (rule fold_preserves) (simp add: note_player_def Let_def)
  then show ?thesis
    by (auto simp: handle_def handleSnapshot_def handleChat_def handleInventoryUpdate_def handleTeleport_def
        handlePong_def apply_snapshot_def updatePlayers_def Let_def update_defs split: option.split msg_type.split)
qed

text \<open>
  C16. Whatever the server sends, and whatever of it can be decoded, the mirror stays within
  bounds while the clock does not run backwards: at most twenty states per player, in order of
  time and all of that player, and at most 128 chat messages and four teleports waiting. The
  loop ends, with the client disconnected and its \<open>done\<close> channel closed.
\<close>

theorem client_readLoop_inv:
  assumes "mirror_inv t c" "\<forall>i. t \<le> e_now (Es i)" "\<forall>i j. i \<le> j \<longrightarrow> e_now (Es i) \<le> e_now (Es j)"
  shows "(\<exists>t'. mirror_inv t' (client_readLoop K Es n r c)) \<and>
    g_status (client_readLoop K Es n r c) = StatusDisconnected \<and>
    (g_done c \<noteq> None \<longrightarrow> g_done (client_readLoop K Es n r c) = Some True)"
proof -
  have "mirror_inv t c \<Longrightarrow> t \<le> e_now (Es n) \<Longrightarrow> \<forall>i j. i \<le> j \<longrightarrow> e_now (Es i) \<le> e_now (Es j) \<Longrightarrow> (\<exists>t'. mirror_inv t' (client_readLoop K Es n r c)) \<and>
    g_status (client_readLoop K Es n r c) = StatusDisconnected \<and>
    (g_done c \<noteq> None \<longrightarrow> g_done (client_readLoop K Es n r c) = Some True)" for t
  proof (induction K Es n r c arbitrary: t rule: client_readLoop.induct)
    case (1 K Es n r c)
    show ?case
    proof (cases "ReadFrame r")
      case (Inl a)
      with 1 show ?thesis by (auto simp: client_readLoop.simps [of K Es n] mirror_inv_def)
    next
      case (Inr a)
      obtain p r' where a: "a = (p, r')" by force
      let ?c = "case d_Envelope K p of None \<Rightarrow> c | Some e \<Rightarrow> handle K (Es n) e c"
      have "mirror_inv (e_now (Es n)) ?c"
        using "1.prems" by (auto intro: mirror_inv_later mirror_inv_handle split: option.split)
      moreover have "e_now (Es n) \<le> e_now (Es (Suc n))" using "1.prems"(3) by simp
      moreover have "g_done ?c = g_done c" by (simp add: handle_done split: option.split)
      ultimately show ?thesis
        using "1.IH" [OF Inr a [symmetric], of "e_now (Es n)"] "1.prems"(3) Inr a
        by (simp add: client_readLoop.simps [of K Es n])
    qed
  qed
  then show ?thesis using assms by blast
qed

theorem client_readLoop_inv_witness:
  "(\<exists>t. mirror_inv t (client_readLoop \<lparr>d_Envelope = (\<lambda>_. None), d_Welcome = (\<lambda>_. None), d_Snapshot = (\<lambda>_. zero_snapshot),
       d_ChatMessage = (\<lambda>_. zero_chat), d_Items = (\<lambda>_. None), d_Teleport = (\<lambda>_. zero_teleport), d_Pong = (\<lambda>_. zero_pong)\<rparr>
     (\<lambda>_. flat_env) 0 [0, 0, 0, 1, 7] client_New)) \<and> mirror_inv 0 client_New"
proof -
  have new: "mirror_inv t client_New" for t by (simp add: mirror_inv_def client_New_def)
  from client_readLoop_inv [OF new, of "e_now flat_env" "\<lambda>_. flat_env"] new show ?thesis by simp
qed

section \<open>The players on the screen\<close>

lemma interp_hist_id:
  assumes "hist_ok t k h"
  shows "\<exists>p. interp_hist t' h = Some p \<and> ps_ID p = k"
proof -
  have h: "h \<noteq> []" "\<And>i. i < length h \<Longrightarrow> ps_ID (tst_state (h ! i)) = k"
    using assms by (auto simp: hist_ok_def list_all_iff)
  have "ps_ID (interp_pair t' a b) = ps_ID (tst_state a)" for a b
    by (simp add: interp_pair_def interp_at_def Let_def)
  with h last_before_Some [of t' h "length h"] show ?thesis
    by (auto simp: interp_hist_def split: option.split)
qed

lemma interp_entries_ids:
  assumes "\<forall>(k, h)\<in>set es. hist_ok t k h"
  shows "map ps_ID (List.map_filter (interp_hist t') (map snd es)) = map fst es"
  using assms
proof (induction es)
  case (Cons e es)
  obtain k h where e: "e = (k, h)" by force
  with Cons.prems interp_hist_id [of t k h t'] have "\<exists>p. interp_hist t' h = Some p \<and> ps_ID p = k" by simp
  with Cons e show ?case by (auto simp: List.map_filter_simps)
qed (simp add: List.map_filter_simps)

text \<open>
  C17. The screen shows every known player exactly once and nobody else; a player whose newest state is
  older than the delay of 75 ms is shown as that state says.
\<close>

theorem InterpolatedSnapshot_correct:
  assumes "mirror_inv t c"
  shows "distinct (map ps_ID (InterpolatedSnapshot E c)) \<and>
    ps_ID ` set (InterpolatedSnapshot E c) = dom (mget (g_players c)) \<and>
    (\<forall>k h. mget (g_players c) k = Some h \<longrightarrow> tst_at (last h) \<le> e_now E - 75000000 \<longrightarrow>
       tst_state (last h) \<in> set (InterpolatedSnapshot E c))"
proof -
  let ?t = "time_add (e_now E) (- interpolationDelay)"
  let ?es = "range_entries (e_ord E) [''InterpolatedSnapshot''] (g_players c)"
  have "\<forall>(k, h)\<in>set ?es. hist_ok t k h" using assms by (auto simp: mirror_inv_def)
  from interp_entries_ids [OF this, of ?t] have ids: "map ps_ID (InterpolatedSnapshot E c) = map fst ?es"
    by (simp add: InterpolatedSnapshot_def range_vals_def)
  then have "set (map ps_ID (InterpolatedSnapshot E c)) = dom (mget (g_players c))"
    by (simp only: map_fst_range_entries set_range_keys)
  then have "ps_ID ` set (InterpolatedSnapshot E c) = dom (mget (g_players c))" by simp
  moreover have "tst_state (last h) \<in> set (InterpolatedSnapshot E c)"
    if k: "mget (g_players c) k = Some h" and due: "tst_at (last h) \<le> e_now E - 75000000" for k h
  proof -
    have "hist_ok t k h" using assms k by (simp add: mirror_inv_def)
    then have "interp_hist ?t h = Some (tst_state (last h))"
      using interp_hist_due [of h ?t] due
      by (simp add: hist_ok_def time_add_def interpolationDelay_def millisecond_def)
    then show ?thesis using k by (force simp: InterpolatedSnapshot_def List.map_filter_def in_range_vals image_iff)
  qed
  ultimately show ?thesis using ids by simp
qed

theorem InterpolatedSnapshot_correct_witness:
  "ps_ID ` set (InterpolatedSnapshot flat_env (client_New\<lparr>g_players := mput ''a'' [two_states ! 0] mempty\<rparr>)) = {''a''}"
proof -
  have "mirror_inv 0 (client_New\<lparr>g_players := mput ''a'' [two_states ! 0] mempty\<rparr>)"
    by (simp add: mirror_inv_def client_New_def hist_ok_def two_states_def maxHistoryStates_def zero_state_def lookup_update)
  from InterpolatedSnapshot_correct [OF this, of flat_env] show ?thesis by (auto simp: lookup_update split: if_splits)
qed

end
