(* ===== verification/Client_Actions.thy ===== *)
theory Client_Actions
  imports Client_Facts
begin

text \<open>
  The sending side of \<open>internal/client/net\<close>: \<open>send\<close>, \<open>Connect\<close>, \<open>Disconnect\<close> and the loops of
  \<open>client.go\<close>, and the actions of \<open>actions.go\<close>. A message to the server is a value of \<open>cli_msg\<close>;
  the bytes of its JSON text are the parameter \<open>m\<close>, and marshalling fails, as on the server,
  exactly on a \<open>float32\<close> that is not finite.
\<close>

section \<open>Messages to the server\<close>

datatype cli_msg =
    CHello Hello
  | CState PlayerState
  | CChat ChatMessage
  | CPing Ping
  | CEatFruit
  | CSelectItem SelectItem
  | CExitRocket
  | CPickupItem PickupItem
  | CThrowSpear ThrowSpear
  | CCraftItem CraftItem
  | CHitMammoth HitMammoth
  | CPlantSeed PlantSeed
  | CWaterPlant WaterPlant
  | CTakeWater TakeWater
  | CTameMammoth TameMammoth
  | CLeashMammoth LeashMammoth
  | CPlaceHouse PlaceHouse
  | CToggleDoor ToggleDoor
  | CSaddleMammoth SaddleMammoth
  | CRideMammoth RideMammoth
  | CPlaceBoat PlaceBoat
  | CEnterBoat EnterBoat
  | CHitMob HitMob
  | CAcceptContract AcceptContract
  | CPlaceSolar PlaceSolar
  | CPlaceBattery PlaceBattery
  | CPlaceFactory PlaceFactory
  | COpenFactory OpenFactory
  | CCraftFactory CraftFactory
  | CPlaceRocket PlaceRocket
  | CBoardRocket BoardRocket
  | CRocketInput RocketInput

fun cli_tag :: "cli_msg \<Rightarrow> msg_type" where
  "cli_tag (CHello _) = TypeHello"
| "cli_tag (CState _) = TypeState"
| "cli_tag (CChat _) = TypeChat"
| "cli_tag (CPing _) = TypePing"
| "cli_tag CEatFruit = TypeEatFruit"
| "cli_tag (CSelectItem _) = TypeSelectItem"
| "cli_tag CExitRocket = TypeExitRocket"
| "cli_tag (CPickupItem _) = TypePickupItem"
| "cli_tag (CThrowSpear _) = TypeThrowSpear"
| "cli_tag (CCraftItem _) = TypeCraftItem"
| "cli_tag (CHitMammoth _) = TypeHitMammoth"
| "cli_tag (CPlantSeed _) = TypePlantSeed"
| "cli_tag (CWaterPlant _) = TypeWaterPlant"
| "cli_tag (CTakeWater _) = TypeTakeWater"
| "cli_tag (CTameMammoth _) = TypeTameMammoth"
| "cli_tag (CLeashMammoth _) = TypeLeashMammoth"
| "cli_tag (CPlaceHouse _) = TypePlaceHouse"
| "cli_tag (CToggleDoor _) = TypeToggleDoor"
| "cli_tag (CSaddleMammoth _) = TypeSaddleMammoth"
| "cli_tag (CRideMammoth _) = TypeRideMammoth"
| "cli_tag (CPlaceBoat _) = TypePlaceBoat"
| "cli_tag (CEnterBoat _) = TypeEnterBoat"
| "cli_tag (CHitMob _) = TypeHitMob"
| "cli_tag (CAcceptContract _) = TypeAcceptContract"
| "cli_tag (CPlaceSolar _) = TypePlaceSolar"
| "cli_tag (CPlaceBattery _) = TypePlaceBattery"
| "cli_tag (CPlaceFactory _) = TypePlaceFactory"
| "cli_tag (COpenFactory _) = TypeOpenFactory"
| "cli_tag (CCraftFactory _) = TypeCraftFactory"
| "cli_tag (CPlaceRocket _) = TypePlaceRocket"
| "cli_tag (CBoardRocket _) = TypeBoardRocket"
| "cli_tag (CRocketInput _) = TypeRocketInput"

fun cli_finite :: "cli_msg \<Rightarrow> bool" where
  "cli_finite (CState p) = list_all fin32 [ps_X p, ps_Y p, ps_Z p, ps_Yaw p, ps_Pitch p, ps_Hunger p]"
| "cli_finite (CThrowSpear p) = fin_vec (ts_Dir p)"
| "cli_finite (CPlantSeed p) = list_all fin32 [plant_X p, plant_Y p, plant_Z p]"
| "cli_finite (CPlaceHouse p) = list_all fin32 [plh_X p, plh_Y p, plh_Z p, plh_Yaw p]"
| "cli_finite (CPlaceBoat p) = list_all fin32 [plb_X p, plb_Y p, plb_Z p, plb_Yaw p]"
| "cli_finite (CPlaceSolar p) = list_all fin32 [pls_X p, pls_Y p, pls_Z p, pls_Yaw p]"
| "cli_finite (CPlaceBattery p) = list_all fin32 [plbat_X p, plbat_Y p, plbat_Z p, plbat_Yaw p]"
| "cli_finite (CPlaceFactory p) = list_all fin32 [plf_X p, plf_Y p, plf_Z p, plf_Yaw p]"
| "cli_finite (CPlaceRocket p) = list_all fin32 [plr_X p, plr_Y p, plr_Z p]"
| "cli_finite (CRocketInput p) = list_all fin32 [ri_Thrust p, ri_TargetUpX p, ri_TargetUpY p, ri_TargetUpZ p]"
| "cli_finite _ = True"

section \<open>Sending\<close>

datatype send_error = ErrNotConnected | ErrMarshal | ErrFrame io_error

definition client_send :: "(cli_msg \<Rightarrow> bytes) \<Rightarrow> cli_msg \<Rightarrow> GameClient \<Rightarrow> send_error option \<times> GameClient" where
  "client_send m msg c =
     (case g_conn c of
        None \<Rightarrow> (Some ErrNotConnected, c)
      | Some w \<Rightarrow>
          if \<not> cli_finite msg then (Some ErrMarshal, c)
          else (case WriteFrame w (m msg) of (e, w') \<Rightarrow> (map_option ErrFrame e, c\<lparr>g_conn := Some w'\<rparr>)))"

section \<open>Actions\<close>

text \<open>Each action of \<open>actions.go\<close> sends one message; these are the messages.\<close>

definition act_ThrowSpear :: "Vector3 \<Rightarrow> cli_msg" where
  "act_ThrowSpear dir = CThrowSpear \<lparr>ts_Dir = dir\<rparr>"
definition act_HitMammoth :: "string \<Rightarrow> cli_msg" where
  "act_HitMammoth i = CHitMammoth \<lparr>hm_MammothID = i\<rparr>"
definition act_CraftItem :: "string \<Rightarrow> cli_msg" where
  "act_CraftItem recipe = CCraftItem \<lparr>ci_Recipe = recipe\<rparr>"
definition act_EatFruit :: "cli_msg" where
  "act_EatFruit = CEatFruit"
definition act_PickupItem :: "string \<Rightarrow> cli_msg" where
  "act_PickupItem i = CPickupItem \<lparr>pick_ResourceID = i\<rparr>"
definition act_PlantSeed :: "f32 \<Rightarrow> f32 \<Rightarrow> f32 \<Rightarrow> cli_msg" where
  "act_PlantSeed x y z = CPlantSeed \<lparr>plant_X = x, plant_Y = y, plant_Z = z\<rparr>"
definition act_WaterPlant :: "string \<Rightarrow> cli_msg" where
  "act_WaterPlant i = CWaterPlant \<lparr>wp_ResourceID = i\<rparr>"
definition act_TakeWater :: "string \<Rightarrow> cli_msg" where
  "act_TakeWater i = CTakeWater \<lparr>tw_WellID = i\<rparr>"
definition act_HitMob :: "string \<Rightarrow> cli_msg" where
  "act_HitMob i = CHitMob \<lparr>hmob_MobID = i\<rparr>"
definition act_AcceptContract :: "string \<Rightarrow> string \<Rightarrow> cli_msg" where
  "act_AcceptContract i k = CAcceptContract \<lparr>acc_MobID = i, acc_ContractID = k\<rparr>"
definition act_TameMammoth :: "string \<Rightarrow> cli_msg" where
  "act_TameMammoth i = CTameMammoth \<lparr>tame_MammothID = i\<rparr>"
definition act_SelectItem :: "string \<Rightarrow> cli_msg" where
  "act_SelectItem item = CSelectItem \<lparr>sel_Item = item\<rparr>"
definition act_LeashMammoth :: "string \<Rightarrow> cli_msg" where
  "act_LeashMammoth i = CLeashMammoth \<lparr>leash_MammothID = i\<rparr>"
definition act_PlaceHouse :: "f32 \<Rightarrow> f32 \<Rightarrow> f32 \<Rightarrow> f32 \<Rightarrow> cli_msg" where
  "act_PlaceHouse x y z yaw = CPlaceHouse \<lparr>plh_X = x, plh_Y = y, plh_Z = z, plh_Yaw = yaw\<rparr>"
definition act_ToggleDoor :: "string \<Rightarrow> cli_msg" where
  "act_ToggleDoor i = CToggleDoor \<lparr>td_HouseID = i\<rparr>"
definition act_SaddleMammoth :: "string \<Rightarrow> cli_msg" where
  "act_SaddleMammoth i = CSaddleMammoth \<lparr>sad_MammothID = i\<rparr>"
definition act_PlaceBoat :: "f32 \<Rightarrow> f32 \<Rightarrow> f32 \<Rightarrow> f32 \<Rightarrow> cli_msg" where
  "act_PlaceBoat x y z yaw = CPlaceBoat \<lparr>plb_X = x, plb_Y = y, plb_Z = z, plb_Yaw = yaw\<rparr>"
definition act_EnterBoat :: "string \<Rightarrow> cli_msg" where
  "act_EnterBoat i = CEnterBoat \<lparr>eb_BoatID = i\<rparr>"
definition act_PlaceRocket :: "f32 \<Rightarrow> f32 \<Rightarrow> f32 \<Rightarrow> cli_msg" where
  "act_PlaceRocket x y z = CPlaceRocket \<lparr>plr_X = x, plr_Y = y, plr_Z = z\<rparr>"
definition act_BoardRocket :: "string \<Rightarrow> cli_msg" where
  "act_BoardRocket i = CBoardRocket \<lparr>br_RocketID = i\<rparr>"
definition act_ExitRocket :: "cli_msg" where
  "act_ExitRocket = CExitRocket"
definition act_RocketInput :: "f32 \<Rightarrow> f32 \<Rightarrow> f32 \<Rightarrow> f32 \<Rightarrow> string \<Rightarrow> cli_msg" where
  "act_RocketInput thrust x y z ap = CRocketInput \<lparr>ri_Thrust = thrust, ri_TargetUpX = x, ri_TargetUpY = y, ri_TargetUpZ = z,
     ri_AutoPilot = ap\<rparr>"
definition act_PlaceSolar :: "f32 \<Rightarrow> f32 \<Rightarrow> f32 \<Rightarrow> f32 \<Rightarrow> cli_msg" where
  "act_PlaceSolar x y z yaw = CPlaceSolar \<lparr>pls_X = x, pls_Y = y, pls_Z = z, pls_Yaw = yaw\<rparr>"
definition act_PlaceBattery :: "f32 \<Rightarrow> f32 \<Rightarrow> f32 \<Rightarrow> f32 \<Rightarrow> cli_msg" where
  "act_PlaceBattery x y z yaw = CPlaceBattery \<lparr>plbat_X = x, plbat_Y = y, plbat_Z = z, plbat_Yaw = yaw\<rparr>"
definition act_PlaceFactory :: "f32 \<Rightarrow> f32 \<Rightarrow> f32 \<Rightarrow> f32 \<Rightarrow> cli_msg" where
  "act_PlaceFactory x y z yaw = CPlaceFactory \<lparr>plf_X = x, plf_Y = y, plf_Z = z, plf_Yaw = yaw\<rparr>"
definition act_OpenFactory :: "string \<Rightarrow> cli_msg" where
  "act_OpenFactory i = COpenFactory \<lparr>of_FactoryID = i\<rparr>"
definition act_CraftFactory :: "string \<Rightarrow> string \<Rightarrow> cli_msg" where
  "act_CraftFactory i r = CCraftFactory \<lparr>cf_FactoryID = i, cf_Recipe = r\<rparr>"
definition act_RideMammoth :: "string \<Rightarrow> cli_msg" where
  "act_RideMammoth i = CRideMammoth \<lparr>ride_MammothID = i\<rparr>"
definition act_SendChat :: "string \<Rightarrow> cli_msg" where
  "act_SendChat t = CChat \<lparr>chat_From = '''', chat_Text = t, chat_TS = 0\<rparr>"

definition SetState :: "PlayerState \<Rightarrow> GameClient \<Rightarrow> GameClient" where
  "SetState st c = c\<lparr>g_lastState := st\<rparr>"

text \<open>\<open>int32(d.Milliseconds())\<close>: truncation towards zero and wrap-around.\<close>

definition rtt_ms :: "duration \<Rightarrow> int" where
  "rtt_ms d = sint (of_int (d sdiv millisecond) :: 32 word)"

text \<open>One round of \<open>StartStateLoop\<close> and one of \<open>pingLoop\<close>; their errors are ignored.\<close>

definition state_round :: "(cli_msg \<Rightarrow> bytes) \<Rightarrow> GameClient \<Rightarrow> GameClient" where
  "state_round m c = snd (client_send m (CState ((g_lastState c)\<lparr>ps_RTTms := rtt_ms (g_rtt c)\<rparr>)) c)"

definition ping_round :: "(cli_msg \<Rightarrow> bytes) \<Rightarrow> env \<Rightarrow> GameClient \<Rightarrow> GameClient" where
  "ping_round m E c = snd (client_send m (CPing \<lparr>ping_Sent = unix_milli (e_now E)\<rparr>) c)"

section \<open>Connecting\<close>

datatype connect_error = ErrAlreadyConnected | ErrDial | ErrHello io_error | ErrNoAnswer io_error | ErrBadEnvelope
  | ErrExpectedWelcome string | ErrBadWelcome

definition zero_welcome :: Welcome where
  "zero_welcome = \<lparr>welcome_PlayerID = '''', welcome_WorldName = '''', welcome_TickRate = 0, welcome_ServerVersion = ''''\<rparr>"

definition hello_of :: "string \<Rightarrow> string \<Rightarrow> Hello" where
  "hello_of nick colorHex = \<lparr>hello_Nick = nick, hello_Version = ''dev'', hello_ColorHex = colorHex\<rparr>"

text \<open>The exchange on an open connection: what arrives is \<open>r\<close>, what is sent goes to \<open>w\<close>.\<close>

definition exchange_hello ::
    "client_codec \<Rightarrow> (cli_msg \<Rightarrow> bytes) \<Rightarrow> Hello \<Rightarrow> bytes \<Rightarrow> writer \<Rightarrow> connect_error + Welcome \<times> writer \<times> bytes" where
  "exchange_hello K m h r w =
     (case WriteFrame w (m (CHello h)) of
        (Some e, _) \<Rightarrow> Inl (ErrHello e)
      | (None, w') \<Rightarrow>
         (case ReadFrame r of
            Inl e \<Rightarrow> Inl (ErrNoAnswer e)
          | Inr (payload, r') \<Rightarrow>
             (case d_Envelope K payload of
                None \<Rightarrow> Inl ErrBadEnvelope
              | Some e \<Rightarrow>
                  if env_Type e \<noteq> tag TypeWelcome then Inl (ErrExpectedWelcome (env_Type e))
                  else (case Decode (d_Welcome K) zero_welcome e of
                          None \<Rightarrow> Inl ErrBadWelcome
                        | Some wel \<Rightarrow> Inr (wel, w', r')))))"

text \<open>
  \<open>Connect\<close>. \<open>dial\<close> is the outcome of \<open>net.DialTimeout\<close>: no connection, or the bytes that will
  arrive and the sending side. The third result is what the read loop will find.
\<close>

definition Connect ::
    "client_codec \<Rightarrow> (cli_msg \<Rightarrow> bytes) \<Rightarrow> (bytes \<times> writer) option \<Rightarrow> string \<Rightarrow> string \<Rightarrow> GameClient \<Rightarrow>
     (connect_error + Welcome) \<times> GameClient \<times> bytes" where
  "Connect K m dial nick colorHex c =
     (if g_status c = StatusConnected \<or> g_status c = StatusConnecting then (Inl ErrAlreadyConnected, c, [])
      else let c1 = c\<lparr>g_status := StatusConnecting, g_nick := nick\<rparr>
        in case dial of
             None \<Rightarrow> (Inl ErrDial, c1\<lparr>g_status := StatusDisconnected\<rparr>, [])
           | Some (r, w) \<Rightarrow>
               (case exchange_hello K m (hello_of nick colorHex) r w of
                  Inl e \<Rightarrow> (Inl e, c1, [])
                | Inr (wel, w', r') \<Rightarrow> (Inr wel, c1\<lparr>g_conn := Some w', g_status := StatusConnected,
                    g_playerID := welcome_PlayerID wel, g_done := Some False\<rparr>, r')))"

definition Disconnect :: "GameClient \<Rightarrow> GameClient" where
  "Disconnect c = c\<lparr>g_status := StatusDisconnected, g_conn := None, g_done := map_option (\<lambda>_. True) (g_done c),
     g_players := mempty\<rparr>"

end
