(* ===== verification/Client_Link.thy ===== *)
theory Client_Link
  imports Client_Actions
begin

text \<open>
  Client and server together: what the client sends is what the server does, what the server
  queues is what the client's mirror shows, and the two sides of the handshake agree. The
  hypotheses about JSON say that the text of a message at hand is decoded to that message.
\<close>

section \<open>From the client to the server\<close>

text \<open>What the server is meant to do on a message, and that its decoder recovers the message.\<close>

fun server_effect :: "env \<Rightarrow> string \<Rightarrow> cli_msg \<Rightarrow> Server \<Rightarrow> Server" where
  "server_effect E c (CHello _) s = s"
| "server_effect E c (CState p) s = handleStateMsg E c p s"
| "server_effect E c (CChat p) s = handleChatMsg E c p s"
| "server_effect E c (CPing p) s = handlePingMsg E c p s"
| "server_effect E c CEatFruit s = handleEatFruitMsg c s"
| "server_effect E c (CSelectItem p) s = handleSelectItemMsg c p s"
| "server_effect E c CExitRocket s = handleExitRocket E c s"
| "server_effect E c (CPickupItem p) s = handlePickup c (pick_ResourceID p) s"
| "server_effect E c (CThrowSpear p) s = handleThrowSpear E c (ts_Dir p) s"
| "server_effect E c (CCraftItem p) s = handleCraft c (ci_Recipe p) s"
| "server_effect E c (CHitMammoth p) s = handleHitMammoth E c (hm_MammothID p) s"
| "server_effect E c (CPlantSeed p) s = handlePlantSeed E c p s"
| "server_effect E c (CWaterPlant p) s = handleWaterPlant E c (wp_ResourceID p) s"
| "server_effect E c (CTakeWater p) s = handleTakeWater c (tw_WellID p) s"
| "server_effect E c (CTameMammoth p) s = handleTameMammoth c (tame_MammothID p) s"
| "server_effect E c (CLeashMammoth p) s = handleLeashMammoth c (leash_MammothID p) s"
| "server_effect E c (CPlaceHouse p) s = handlePlaceHouse c p s"
| "server_effect E c (CToggleDoor p) s = handleToggleDoor c (td_HouseID p) s"
| "server_effect E c (CSaddleMammoth p) s = handleSaddleMammoth c (sad_MammothID p) s"
| "server_effect E c (CRideMammoth p) s = handleRideMammoth E c (ride_MammothID p) s"
| "server_effect E c (CPlaceBoat p) s = handlePlaceBoat E c p s"
| "server_effect E c (CEnterBoat p) s = handleEnterBoat c (eb_BoatID p) s"
| "server_effect E c (CHitMob p) s = handleHitMob E c (hmob_MobID p) s"
| "server_effect E c (CAcceptContract p) s = handleAcceptContract c (acc_MobID p) (acc_ContractID p) s"
| "server_effect E c (CPlaceSolar p) s = handlePlaceSolar c p s"
| "server_effect E c (CPlaceBattery p) s = handlePlaceBattery c p s"
| "server_effect E c (CPlaceFactory p) s = handlePlaceFactory c p s"
| "server_effect E c (COpenFactory p) s = handleOpenFactory c (of_FactoryID p) s"
| "server_effect E c (CCraftFactory p) s = handleCraftFactory E c (cf_FactoryID p) (cf_Recipe p) s"
| "server_effect E c (CPlaceRocket p) s = handlePlaceRocket E c p s"
| "server_effect E c (CBoardRocket p) s = handleBoardRocket c (br_RocketID p) s"
| "server_effect E c (CRocketInput p) s = handleRocketInput E c p s"

fun decodes :: "codec \<Rightarrow> cli_msg \<Rightarrow> bytes \<Rightarrow> bool" where
  "decodes K (CHello p) d = (u_Hello K d = Some p)"
| "decodes K (CState p) d = (u_PlayerState K d = Some p)"
| "decodes K (CChat p) d = (u_ChatMessage K d = Some p)"
| "decodes K (CSelectItem p) d = (u_SelectItem K d = Some p)"
| "decodes K (CPickupItem p) d = (u_PickupItem K d = Some p)"
| "decodes K (CThrowSpear p) d = (u_ThrowSpear K d = Some p)"
| "decodes K (CCraftItem p) d = (u_CraftItem K d = Some p)"
| "decodes K (CHitMammoth p) d = (u_HitMammoth K d = Some p)"
| "decodes K (CPlantSeed p) d = (u_PlantSeed K d = Some p)"
| "decodes K (CWaterPlant p) d = (u_WaterPlant K d = Some p)"
| "decodes K (CTakeWater p) d = (u_TakeWater K d = Some p)"
| "decodes K (CTameMammoth p) d = (u_TameMammoth K d = Some p)"
| "decodes K (CLeashMammoth p) d = (u_LeashMammoth K d = Some p)"
| "decodes K (CPlaceHouse p) d = (u_PlaceHouse K d = Some p)"
| "decodes K (CToggleDoor p) d = (u_ToggleDoor K d = Some p)"
| "decodes K (CSaddleMammoth p) d = (u_SaddleMammoth K d = Some p)"
| "decodes K (CRideMammoth p) d = (u_RideMammoth K d = Some p)"
| "decodes K (CPlaceBoat p) d = (u_PlaceBoat K d = Some p)"
| "decodes K (CEnterBoat p) d = (u_EnterBoat K d = Some p)"
| "decodes K (CHitMob p) d = (u_HitMob K d = Some p)"
| "decodes K (CAcceptContract p) d = (u_AcceptContract K d = Some p)"
| "decodes K (CPlaceSolar p) d = (u_PlaceSolar K d = Some p)"
| "decodes K (CPlaceBattery p) d = (u_PlaceBattery K d = Some p)"
| "decodes K (CPlaceFactory p) d = (u_PlaceFactory K d = Some p)"
| "decodes K (COpenFactory p) d = (u_OpenFactory K d = Some p)"
| "decodes K (CCraftFactory p) d = (u_CraftFactory K d = Some p)"
| "decodes K (CPlaceRocket p) d = (u_PlaceRocket K d = Some p)"
| "decodes K (CBoardRocket p) d = (u_BoardRocket K d = Some p)"
| "decodes K (CRocketInput p) d = (u_RocketInput K d = Some p)"
| "decodes K (CPing p) d = (u_Ping K d = p)"
| "decodes K CEatFruit d = True"
| "decodes K CExitRocket d = True"

definition arrives :: "codec \<Rightarrow> (cli_msg \<Rightarrow> bytes) \<Rightarrow> cli_msg \<Rightarrow> bool" where
  "arrives K m msg \<longleftrightarrow> length (m msg) \<le> MaxFrameSize \<and>
     (case u_Envelope K (m msg) of None \<Rightarrow> False
      | Some e \<Rightarrow> env_Type e = tag (cli_tag msg) \<and> env_Data e \<noteq> [] \<and> decodes K msg (env_Data e))"

lemma handleMessage_effect:
  assumes "env_Type e = tag (cli_tag msg)" "env_Data e \<noteq> []" "decodes K msg (env_Data e)"
  shows "handleMessage K E cid e s = server_effect E cid msg s"
proof -
  have "handleMessage K E cid e s =
      (case messageHandlers K E cid (cli_tag msg) of None \<Rightarrow> s | Some h \<Rightarrow> h e s)"
    using assms(1) by (simp only: handleMessage_def type_of_tag_tag option.case)
  also have "\<dots> = server_effect E cid msg s"
    using assms(2,3) by (cases msg) (simp_all add: dispatch_def Decode_def ping_of_def)
  finally show ?thesis .
qed

fun send_all :: "(cli_msg \<Rightarrow> bytes) \<Rightarrow> cli_msg list \<Rightarrow> GameClient \<Rightarrow> GameClient" where
  "send_all m [] c = c"
| "send_all m (x # xs) c = send_all m xs (snd (client_send m x c))"

lemma send_all_frames:
  assumes "g_conn c = Some w" "list_all (\<lambda>x. cli_finite x \<and> length (m x) \<le> MaxFrameSize) xs"
    and "sum_list (map (\<lambda>x. length (m x) + 4) xs) \<le> w_room w"
  shows "\<exists>w'. g_conn (send_all m xs c) = Some w' \<and> w_out w' = w_out w @ concat (map (\<lambda>x. encode_frame (m x)) xs)"
  using assms
proof (induction xs arbitrary: c w)
  case (Cons x xs)
  let ?w = "w\<lparr>w_out := w_out w @ encode_frame (m x), w_room := w_room w - (length (m x) + 4)\<rparr>"
  have "WriteFrame w (m x) = (None, ?w)" using Cons.prems by (intro WriteFrame_out) auto
  then have "snd (client_send m x c) = c\<lparr>g_conn := Some ?w\<rparr>" using Cons.prems by (simp add: client_send_def)
  moreover have "\<exists>w'. g_conn (send_all m xs (c\<lparr>g_conn := Some ?w\<rparr>)) = Some w' \<and>
      w_out w' = w_out ?w @ concat (map (\<lambda>x. encode_frame (m x)) xs)"
    using Cons.prems by (intro Cons.IH) auto
  ultimately show ?case by simp
qed simp

lemma readLoop_messages:
  assumes "list_all (arrives K m) xs"
  shows "readLoop K Es n cid (concat (map (\<lambda>x. encode_frame (m x)) xs)) s =
    fold (\<lambda>(i, x). server_effect (Es i) cid x) (enumerate n xs) s"
  using assms
proof (induction xs arbitrary: n s)
  case Nil
  have "readEnvelope K [] = None" by (simp add: readEnvelope_def ReadFrame_def read_full_def)
  then show ?case by (simp add: readLoop.simps [of K Es n])
next
  case (Cons x xs)
  then obtain e where e: "u_Envelope K (m x) = Some e" "env_Type e = tag (cli_tag x)" "env_Data e \<noteq> []"
    "decodes K x (env_Data e)" "length (m x) \<le> MaxFrameSize" by (auto simp: arrives_def split: option.splits)
  then have "readEnvelope K (encode_frame (m x) @ concat (map (\<lambda>x. encode_frame (m x)) xs)) =
      Some (e, concat (map (\<lambda>x. encode_frame (m x)) xs))"
    by (simp add: readEnvelope_def ReadFrame_encode)
  then show ?case
    using Cons handleMessage_effect [OF e(2-4)] by (simp add: readLoop.simps [of K Es n])
qed

text \<open>
  C4. What the client sends is what the server does. The messages that a connected client sends
  one after the other, read by the server's loop on the other end, run exactly the handlers of
  these messages, each once, in order and with the client's arguments.
\<close>

theorem actions_reach_server:
  assumes "g_conn c = Some w" "w_out w = []" "sum_list (map (\<lambda>x. length (m x) + 4) xs) \<le> w_room w"
    and "list_all (\<lambda>x. cli_finite x \<and> arrives K m x) xs"
  shows "case g_conn (send_all m xs c) of None \<Rightarrow> False
    | Some w' \<Rightarrow> readLoop K Es n cid (w_out w') s = fold (\<lambda>(i, x). server_effect (Es i) cid x) (enumerate n xs) s"
proof -
  have "list_all (\<lambda>x. cli_finite x \<and> length (m x) \<le> MaxFrameSize) xs"
    using assms(4) by (auto simp: list_all_iff arrives_def)
  then obtain w' where w': "g_conn (send_all m xs c) = Some w'" "w_out w' = concat (map (\<lambda>x. encode_frame (m x)) xs)"
    using send_all_frames [OF assms(1) _ assms(3)] assms(2) by auto
  with readLoop_messages [of K m xs] assms(4) show ?thesis by (auto simp: list_all_iff)
qed

theorem actions_reach_server_witness:
  "case g_conn (send_all (\<lambda>_. [1]) [act_EatFruit, act_EatFruit] (client_New\<lparr>g_conn := Some \<lparr>w_out = [], w_room = 99\<rparr>\<rparr>)) of
     None \<Rightarrow> False
   | Some w \<Rightarrow> readLoop (toy_codec\<lparr>u_Envelope := \<lambda>_. Some \<lparr>env_Type = ''eat_fruit'', env_Data = [2]\<rparr>\<rparr>) (\<lambda>_. flat_env) 0 ''a''
       (w_out w) (lone_server (player_with [(''fruit'', 5)])) =
     handleEatFruitMsg ''a'' (handleEatFruitMsg ''a'' (lone_server (player_with [(''fruit'', 5)])))"
  using actions_reach_server [of "client_New\<lparr>g_conn := Some \<lparr>w_out = [], w_room = 99\<rparr>\<rparr>" "\<lparr>w_out = [], w_room = 99\<rparr>"
      "\<lambda>_. [1]" "[act_EatFruit, act_EatFruit]" "toy_codec\<lparr>u_Envelope := \<lambda>_. Some \<lparr>env_Type = ''eat_fruit'', env_Data = [2]\<rparr>\<rparr>"
      "\<lambda>_. flat_env" 0 "''a''" "lone_server (player_with [(''fruit'', 5)])"]
  by (simp add: act_EatFruit_def arrives_def MaxFrameSize_def enumerate_eq_zip split: option.splits)

section \<open>From the server to the client\<close>

fun client_effect :: "env \<Rightarrow> srv_msg \<Rightarrow> GameClient \<Rightarrow> GameClient" where
  "client_effect E (MsgWelcome _) c = c"
| "client_effect E (MsgInventory xs) c = c\<lparr>g_inventory := Some xs\<rparr>"
| "client_effect E (MsgChat t) c = (if length (g_chatCh c) < 128 then c\<lparr>g_chatCh := g_chatCh c @ [t]\<rparr> else c)"
| "client_effect E (MsgPong p) c = c\<lparr>g_rtt := i64 (i64 (unix_milli (e_now E) - pong_Sent p) * millisecond)\<rparr>"
| "client_effect E (MsgTeleport t) c = (if length (g_teleportCh c) < 4 then c\<lparr>g_teleportCh := g_teleportCh c @ [t]\<rparr> else c)"
| "client_effect E (MsgSnapshot sn) c = apply_snapshot E sn c"

fun client_decodes :: "client_codec \<Rightarrow> srv_msg \<Rightarrow> bytes \<Rightarrow> bool" where
  "client_decodes K (MsgWelcome x) d = (d_Welcome K d = Some x)"
| "client_decodes K (MsgInventory x) d = (d_Items K d = Some x)"
| "client_decodes K (MsgChat x) d = (d_ChatMessage K d = x)"
| "client_decodes K (MsgPong x) d = (d_Pong K d = x)"
| "client_decodes K (MsgTeleport x) d = (d_Teleport K d = x)"
| "client_decodes K (MsgSnapshot x) d = (d_Snapshot K d = x)"

definition client_gets :: "client_codec \<Rightarrow> (srv_msg \<Rightarrow> bytes) \<Rightarrow> srv_msg \<Rightarrow> bool" where
  "client_gets K m msg \<longleftrightarrow> length (m msg) \<le> MaxFrameSize \<and>
     (case d_Envelope K (m msg) of None \<Rightarrow> False
      | Some e \<Rightarrow> env_Type e = tag (msg_tag msg) \<and> env_Data e \<noteq> [] \<and> client_decodes K msg (env_Data e))"

lemma handle_effect:
  assumes "env_Type e = tag (msg_tag msg)" "env_Data e \<noteq> []" "client_decodes K msg (env_Data e)"
  shows "handle K E e c = client_effect E msg c"
proof -
  have t: "type_of_tag (env_Type e) = Some (msg_tag msg)" using assms(1) by (simp only: type_of_tag_tag)
  show ?thesis
    unfolding handle_def t using assms(2,3)
    by (cases msg) (simp_all add: handleSnapshot_def handleChat_def handleInventoryUpdate_def handleTeleport_def
        handlePong_def decode_into_def chatCap_def teleportCap_def)
qed

lemma client_readLoop_frames:
  assumes "list_all (client_gets K m) ms"
  shows "client_readLoop K Es n (concat (map encode_frame (map m ms)) @ rest) c =
    client_readLoop K Es (n + length ms) rest (fold (\<lambda>(i, x). client_effect (Es i) x) (enumerate n ms) c)"
  using assms
proof (induction ms arbitrary: n c)
  case (Cons x ms)
  then obtain e where e: "d_Envelope K (m x) = Some e" "env_Type e = tag (msg_tag x)" "env_Data e \<noteq> []"
    "client_decodes K x (env_Data e)" "length (m x) \<le> MaxFrameSize" by (auto simp: client_gets_def split: option.splits)
  then have "ReadFrame (encode_frame (m x) @ concat (map encode_frame (map m ms)) @ rest) =
      Inr (m x, concat (map encode_frame (map m ms)) @ rest)" by (simp add: ReadFrame_encode)
  with Cons e(1) handle_effect [OF e(2-4)] show ?case
    by (simp add: client_readLoop.simps [of K Es n "encode_frame (m x) @ _"])
qed simp

lemma client_readLoop_eof:
  "client_readLoop K Es k [] d = d\<lparr>g_status := StatusDisconnected, g_done := map_option (\<lambda>_. True) (g_done d)\<rparr>"
  by (simp add: client_readLoop.simps ReadFrame_def read_full_def)

lemma queue_frames:
  assumes "list_all (client_gets K m) ms" "sum_list (map (\<lambda>x. length (m x) + 4) ms) \<le> w_room w" "w_out w = []"
  shows "\<exists>w'. writeLoop m ms w = (True, w') \<and> w_out w' = concat (map encode_frame (map m ms))"
proof -
  have "list_all (\<lambda>p. length (m p) \<le> MaxFrameSize) ms" using assms(1) by (auto simp: list_all_iff client_gets_def)
  from writeLoop_frames [OF this assms(2)] show ?thesis
    using assms(3) by (metis append_Nil append_Nil2 writeLoop.simps(1))
qed

text \<open>
  What the server has queued for a player is what the client does: the write loop empties the
  queue onto the connection and the client's read loop applies exactly these messages, each once
  and in order, to its mirror; when the connection then ends, the client is disconnected.
\<close>

theorem delivery_correct:
  assumes "list_all (client_gets K m) ms" "sum_list (map (\<lambda>x. length (m x) + 4) ms) \<le> w_room w" "w_out w = []"
  shows "client_readLoop K Es n (w_out (snd (writeLoop m ms w))) c =
    (fold (\<lambda>(i, x). client_effect (Es i) x) (enumerate n ms) c)\<lparr>g_status := StatusDisconnected,
       g_done := map_option (\<lambda>_. True) (g_done (fold (\<lambda>(i, x). client_effect (Es i) x) (enumerate n ms) c))\<rparr>"
proof -
  obtain w' where "writeLoop m ms w = (True, w')" "w_out w' = concat (map encode_frame (map m ms))"
    using queue_frames [OF assms] by blast
  then show ?thesis using client_readLoop_frames [OF assms(1), of Es n "[]" c] by (simp add: client_readLoop_eof)
qed

text \<open>A codec that knows one snapshot, for examples.\<close>

definition snap_codec :: "Snapshot \<Rightarrow> client_codec" where
  "snap_codec sn = \<lparr>d_Envelope = (\<lambda>_. Some \<lparr>env_Type = ''snapshot'', env_Data = [2]\<rparr>), d_Welcome = (\<lambda>_. None),
     d_Snapshot = (\<lambda>_. sn), d_ChatMessage = (\<lambda>_. zero_chat), d_Items = (\<lambda>_. None), d_Teleport = (\<lambda>_. zero_teleport),
     d_Pong = (\<lambda>_. zero_pong)\<rparr>"

lemma snap_codec_gets: "client_gets (snap_codec sn) (\<lambda>_. [1]) (MsgSnapshot sn)"
  by (simp add: client_gets_def snap_codec_def MaxFrameSize_def)

theorem delivery_correct_witness:
  "client_readLoop (snap_codec zero_snapshot) (\<lambda>_. flat_env) 0
     (w_out (snd (writeLoop (\<lambda>_. [1]) [MsgSnapshot zero_snapshot] \<lparr>w_out = [], w_room = 99\<rparr>))) client_New =
   (apply_snapshot flat_env zero_snapshot client_New)\<lparr>g_status := StatusDisconnected,
     g_done := map_option (\<lambda>_. True) (g_done (apply_snapshot flat_env zero_snapshot client_New))\<rparr>"
  using delivery_correct [of "snap_codec zero_snapshot" "\<lambda>_. [1]" "[MsgSnapshot zero_snapshot]" "\<lparr>w_out = [], w_room = 99\<rparr>"
      "\<lambda>_. flat_env" 0 client_New]
  by (simp add: snap_codec_gets enumerate_eq_zip)

section \<open>The mirror shows the world\<close>

text \<open>What the client sees of the world is what the server would show of it.\<close>

definition shows_world :: "env \<Rightarrow> Server \<Rightarrow> GameClient \<Rightarrow> bool" where
  "shows_world E s c \<longleftrightarrow> get_Rockets c = collectRockets E s \<and> get_Mammoths c = collectMammoths E s \<and>
     get_Mobs c = collectMobs E s \<and> get_Boats c = collectBoats E s \<and> get_Houses c = collectHouses E s \<and>
     get_Solar c = collectSolar E s \<and> get_Batteries c = collectBatteries E s \<and> get_Factories c = collectFactories E s \<and>
     get_Projectiles c = collectProjectiles E s \<and> get_Resources c = collectResources E s \<and> get_Wells c = collectWells E s \<and>
     get_EarthPos c = w_EarthPos (s_world s) \<and> get_EarthVel c = w_EarthVel (s_world s) \<and>
     get_Planet2Pos c = w_Planet2Pos (s_world s) \<and> get_Planet2Vel c = w_Planet2Vel (s_world s) \<and>
     get_LastSnapshotTick c = s_tick s \<and> dom (mget (g_players c)) = ps_ID ` set (collectPlayers E s)"

lemma updatePlayers_dom: "dom (mget (g_players (updatePlayers E ps c))) = ps_ID ` set ps"
  using note_players_dom [of "e_now E" "g_playerID c" ps c]
  by (force simp: updatePlayers_def Let_def lookup_forget split: if_splits)

lemma apply_snapshot_world: "shows_world E s (apply_snapshot E' (collectSnapshot E s) c)"
  by (simp add: shows_world_def apply_snapshot_def collectSnapshot_def update_defs updatePlayers_dom getter_defs)

text \<open>
  C3. After a broadcast the client shows the world: when the snapshot is finite and there is room
  in the player's queue, then once the connection has delivered the queue the client's mirror
  holds exactly the rockets, animals, mobs, buildings, resources and bodies that the server had,
  the server's tick, and histories for exactly the connected players.
\<close>

theorem mirror_correct:
  assumes "mget (s_clients s) k = Some cl" "length (c_send cl) < 256" "finite_snapshot (collectSnapshot E s)"
    and "list_all (client_gets K m) (c_send cl @ [MsgSnapshot (collectSnapshot E s)])"
    and "sum_list (map (\<lambda>x. length (m x) + 4) (c_send cl @ [MsgSnapshot (collectSnapshot E s)])) \<le> w_room w"
    and "w_out w = []"
  shows "case mget (s_clients (broadcastSnapshot E s)) k of None \<Rightarrow> False
    | Some cl' \<Rightarrow> shows_world E s (client_readLoop K Es n (w_out (snd (writeLoop m (c_send cl') w))) c)"
proof -
  let ?sn = "MsgSnapshot (collectSnapshot E s)"
  let ?d = "fold (\<lambda>(i, x). client_effect (Es i) x) (enumerate n (c_send cl)) c"
  have q: "mget (s_clients (broadcastSnapshot E s)) k = Some (cl\<lparr>c_send := c_send cl @ [?sn]\<rparr>)"
    using assms(1-3) by (simp add: broadcastSnapshot_def broadcast_def enqueue_def sendBufSize_def)
  obtain w' where w': "writeLoop m (c_send cl @ [?sn]) w = (True, w')"
    "w_out w' = concat (map encode_frame (map m (c_send cl @ [?sn])))"
    using queue_frames [OF assms(4-6)] by blast
  have "client_readLoop K Es n (w_out w') c =
      (apply_snapshot (Es (n + length (c_send cl))) (collectSnapshot E s) ?d)\<lparr>g_status := StatusDisconnected,
        g_done := map_option (\<lambda>_. True) (g_done (apply_snapshot (Es (n + length (c_send cl))) (collectSnapshot E s) ?d))\<rparr>"
    unfolding w'(2) using client_readLoop_frames [OF assms(4), of Es n "[]" c] by (simp add: enumerate_append_eq client_readLoop_eof)
  then show ?thesis
    using q w'(1) apply_snapshot_world [of E s "Es (n + length (c_send cl))" ?d] by (simp add: shows_world_def getter_defs)
qed

theorem mirror_correct_witness:
  "case mget (s_clients (broadcastSnapshot flat_env (lone_server (new_client ''a'')))) ''a'' of None \<Rightarrow> False
   | Some cl \<Rightarrow> shows_world flat_env (lone_server (new_client ''a''))
      (client_readLoop (snap_codec (collectSnapshot flat_env (lone_server (new_client ''a'')))) (\<lambda>_. flat_env) 0
         (w_out (snd (writeLoop (\<lambda>_. [1]) (c_send cl) \<lparr>w_out = [], w_room = 99\<rparr>))) client_New)"
proof (rule mirror_correct)
  show "mget (s_clients (lone_server (new_client ''a''))) ''a'' = Some (new_client ''a'')"
    by (simp add: lone_server_def new_client_def)
  show "finite_snapshot (collectSnapshot flat_env (lone_server (new_client ''a'')))" by code_simp
qed (simp_all add: snap_codec_gets, simp_all add: new_client_def snap_codec_gets)

section \<open>The handshake\<close>

lemma hello_accepted:
  assumes "arrives Ks m (CHello h)"
  shows "performHelloHandshake Ks (encode_frame (m (CHello h)) @ r) (new_client i) = Some (greet h (new_client i), r)"
proof -
  obtain e where e: "u_Envelope Ks (m (CHello h)) = Some e" "env_Type e = tag TypeHello" "env_Data e \<noteq> []"
    "u_Hello Ks (env_Data e) = Some h" "length (m (CHello h)) \<le> MaxFrameSize"
    using assms by (auto simp: arrives_def split: option.splits)
  have "readEnvelope Ks (encode_frame (m (CHello h)) @ r) = Some (e, r)"
    using e by (simp only: readEnvelope_def ReadFrame_encode sum.case prod.case option.map)
  then show ?thesis using e by (simp add: performHelloHandshake_def Decode_def)
qed

lemma welcome_accepted:
  assumes "client_gets K ms (MsgWelcome wel)" "WriteFrame w (m (CHello h)) = (None, w')"
  shows "exchange_hello K m h (encode_frame (ms (MsgWelcome wel)) @ r) w = Inr (wel, w', r)"
proof -
  obtain e where e: "d_Envelope K (ms (MsgWelcome wel)) = Some e" "env_Type e = tag TypeWelcome" "env_Data e \<noteq> []"
    "d_Welcome K (env_Data e) = Some wel" "length (ms (MsgWelcome wel)) \<le> MaxFrameSize"
    using assms(1) by (auto simp: client_gets_def split: option.splits)
  then show ?thesis using assms(2) by (simp add: exchange_hello_def ReadFrame_encode Decode_def)
qed

text \<open>
  C5. The two sides of the handshake fit together. The hello that \<open>Connect\<close> writes is accepted by
  the server; what the registered player's queue then puts on the wire makes \<open>Connect\<close> succeed;
  both sides know the client by the same identifier, the server by the chosen name, and the
  client starts with an empty inventory.
\<close>

theorem handshake_agrees:
  assumes "g_status c = StatusDisconnected" "arrives Ks m (CHello (hello_of nick col))"
    and "length (m (CHello (hello_of nick col))) + 4 \<le> w_room w" "w_out w = []"
    and "wel = \<lparr>welcome_PlayerID = i, welcome_WorldName = ''lodeen-flat'', welcome_TickRate = s_tickRate s,
      welcome_ServerVersion = ''dev''\<rparr>"
    and "list_all (client_gets Kc ms) [MsgWelcome wel, MsgInventory mempty]"
    and "sum_list (map (\<lambda>x. length (ms x) + 4) [MsgWelcome wel, MsgInventory mempty]) \<le> w_room w0" "w_out w0 = []"
  shows "\<exists>cl cl' w' c' r. performHelloHandshake Ks (w_out w') (new_client i) = Some (cl, []) \<and>
    mget (s_clients (registerClient cl s)) i = Some cl' \<and> c_ID cl' = i \<and> (nick \<noteq> '''' \<longrightarrow> c_Nick cl' = nick) \<and>
    Connect Kc m (Some (w_out (snd (writeLoop ms (c_send cl') w0)), w)) nick col c = (Inr wel, c', r) \<and>
    g_conn c' = Some w' \<and> g_status c' = StatusConnected \<and> g_playerID c' = i \<and>
    g_inventory (client_readLoop Kc Es n r c') = Some mempty"
proof -
  let ?h = "hello_of nick col"
  define w' where "w' = w\<lparr>w_out := w_out w @ encode_frame (m (CHello ?h)), w_room := w_room w - (length (m (CHello ?h)) + 4)\<rparr>"
  define cl where "cl = greet ?h (new_client i)"
  define c' where "c' = c\<lparr>g_status := StatusConnecting, g_nick := nick, g_conn := Some w', g_status := StatusConnected,
      g_playerID := i, g_done := Some False\<rparr>"
  have wf: "WriteFrame w (m (CHello ?h)) = (None, w')"
    unfolding w'_def using assms(2,3) by (intro WriteFrame_out) (auto simp: arrives_def)
  have hs: "performHelloHandshake Ks (w_out w') (new_client i) = Some (cl, [])"
    using hello_accepted [OF assms(2), of "[]"] assms(4) by (simp add: w'_def cl_def)
  have cl: "c_ID cl = i" "c_send cl = []" "nick \<noteq> '''' \<Longrightarrow> c_Nick cl = nick"
    by (simp_all add: cl_def greet_def SetColorHex_def setState_def new_client_def nick_for_def hello_of_def)
  have reg: "mget (s_clients (registerClient cl s)) i = Some (cl\<lparr>c_send := [MsgWelcome wel, MsgInventory mempty]\<rparr>)"
    using cl assms(5) by (simp add: registerClient_def put_client_def sendEnvelope_def enqueue_def sendBufSize_def lookup_update)
  obtain w1 where w1: "writeLoop ms [MsgWelcome wel, MsgInventory mempty] w0 = (True, w1)"
    "w_out w1 = encode_frame (ms (MsgWelcome wel)) @ encode_frame (ms (MsgInventory mempty))"
    using queue_frames [OF assms(6-8)] by auto
  have con: "Connect Kc m (Some (w_out w1, w)) nick col c = (Inr wel, c', encode_frame (ms (MsgInventory mempty)))"
    using assms(1,5,6) wf welcome_accepted [of Kc ms wel w m ?h w' "encode_frame (ms (MsgInventory mempty))"]
    by (simp add: Connect_def w1(2) c'_def)
  have "g_inventory (client_readLoop Kc Es n (encode_frame (ms (MsgInventory mempty))) c') = Some mempty"
    using client_readLoop_frames [of Kc ms "[MsgInventory mempty]" Es n "[]" c'] assms(6)
    by (simp add: client_readLoop_eof enumerate_eq_zip)
  then show ?thesis
    using hs reg con w1(1) cl
    by (intro exI [of _ cl] exI [of _ "cl\<lparr>c_send := [MsgWelcome wel, MsgInventory mempty]\<rparr>"] exI [of _ w'] exI [of _ c']
        exI [of _ "encode_frame (ms (MsgInventory mempty))"]) (simp add: c'_def)
qed

theorem handshake_agrees_witness:
  "\<exists>cl w' c' r. performHelloHandshake
      (toy_codec\<lparr>u_Envelope := \<lambda>_. Some \<lparr>env_Type = ''hello'', env_Data = [2]\<rparr>, u_Hello := \<lambda>_. Some (hello_of ''n'' '''')\<rparr>)
      (w_out w') (new_client ''a'') = Some (cl, []) \<and>
    g_conn c' = Some w' \<and> g_status c' = StatusConnected \<and> g_playerID c' = ''a'' \<and>
    g_inventory (client_readLoop \<lparr>d_Envelope = (\<lambda>b. Some \<lparr>env_Type = if b = [1] then ''welcome'' else ''inventory_update'', env_Data = [2]\<rparr>),
        d_Welcome = (\<lambda>_. Some \<lparr>welcome_PlayerID = ''a'', welcome_WorldName = ''lodeen-flat'', welcome_TickRate = 20,
          welcome_ServerVersion = ''dev''\<rparr>),
        d_Snapshot = (\<lambda>_. zero_snapshot), d_ChatMessage = (\<lambda>_. zero_chat), d_Items = (\<lambda>_. Some mempty),
        d_Teleport = (\<lambda>_. zero_teleport), d_Pong = (\<lambda>_. zero_pong)\<rparr> (\<lambda>_. flat_env) 0 r c') = Some mempty"
proof -
  let ?Ks = "toy_codec\<lparr>u_Envelope := \<lambda>_. Some \<lparr>env_Type = ''hello'', env_Data = [2]\<rparr>, u_Hello := \<lambda>_. Some (hello_of ''n'' '''')\<rparr>"
  let ?wel = "\<lparr>welcome_PlayerID = ''a'', welcome_WorldName = ''lodeen-flat'', welcome_TickRate = 20, welcome_ServerVersion = ''dev''\<rparr>"
  let ?Kc = "\<lparr>d_Envelope = (\<lambda>b. Some \<lparr>env_Type = if b = [1] then ''welcome'' else ''inventory_update'', env_Data = [2]\<rparr>),
      d_Welcome = (\<lambda>_. Some ?wel), d_Snapshot = (\<lambda>_. zero_snapshot), d_ChatMessage = (\<lambda>_. zero_chat),
      d_Items = (\<lambda>_. Some mempty), d_Teleport = (\<lambda>_. zero_teleport), d_Pong = (\<lambda>_. zero_pong)\<rparr>"
  let ?ms = "\<lambda>x. case x of MsgWelcome _ \<Rightarrow> [1] | _ \<Rightarrow> [2 :: 8 word]"
  let ?w = "\<lparr>w_out = [], w_room = 99\<rparr>" and ?s = "(lone_server (new_client ''b''))\<lparr>s_tickRate := 20\<rparr>"
  have "arrives ?Ks (\<lambda>_. [1]) (CHello (hello_of ''n'' ''''))" by (simp add: arrives_def MaxFrameSize_def)
  moreover have "list_all (client_gets ?Kc ?ms) [MsgWelcome ?wel, MsgInventory mempty]"
    by (simp add: client_gets_def MaxFrameSize_def)
  ultimately show ?thesis
    using handshake_agrees [of client_New ?Ks "\<lambda>_. [1]" "''n''" "''''" ?w ?wel "''a''" ?s ?Kc ?ms ?w "\<lambda>_. flat_env" 0]
    by (simp add: client_New_def) blast
qed

text \<open>
  C19. A handshake that fails after the connection was made leaves the client in the state
  \<open>Connecting\<close>: every later \<open>Connect\<close> is refused as if the client were connected, until
  \<open>Disconnect\<close> is called. (When the dialling itself fails the status is reset.)
\<close>

theorem Connect_stuck:
  assumes "g_status c = StatusDisconnected" "Connect K m (Some conn) nick col c = (Inl e, c', r)"
  shows "g_status c' = StatusConnecting \<and> g_conn c' = g_conn c \<and>
    (\<forall>K m dial nick col. Connect K m dial nick col c' = (Inl ErrAlreadyConnected, c', [])) \<and>
    g_status (Disconnect c') = StatusDisconnected \<and>
    g_status (fst (snd (Connect K m None nick col c))) = StatusDisconnected"
proof -
  obtain r0 w where conn: "conn = (r0, w)" by force
  have "c' = c\<lparr>g_status := StatusConnecting, g_nick := nick\<rparr>"
    using assms by (auto simp: Connect_def conn Let_def split: sum.splits prod.splits)
  then show ?thesis using assms(1) by (simp add: Connect_def Disconnect_def)
qed

theorem Connect_stuck_witness:
  "Connect (snap_codec zero_snapshot) (\<lambda>_. [1]) None ''n'' '''' (client_New\<lparr>g_status := StatusConnecting, g_nick := ''n''\<rparr>) =
   (Inl ErrAlreadyConnected, client_New\<lparr>g_status := StatusConnecting, g_nick := ''n''\<rparr>, [])"
proof -
  have "Connect (snap_codec zero_snapshot) (\<lambda>_. [1]) (Some ([], \<lparr>w_out = [], w_room = 99\<rparr>)) ''n'' '''' client_New =
      (Inl (ErrNoAnswer EOF), client_New\<lparr>g_status := StatusConnecting, g_nick := ''n''\<rparr>, [])"
    by (simp add: Connect_def exchange_hello_def client_New_def WriteFrame_out MaxFrameSize_def ReadFrame_def read_full_def)
  from Connect_stuck [OF _ this] show ?thesis by (simp add: client_New_def)
qed

end
