(* ===== verification/Proxy.thy ===== *)
theory Proxy
  imports Client_Link
begin

text \<open>
  \<open>internal/server/ws/proxy.go\<close>: the relay between a browser's WebSocket and the game server. The
  WebSocket library is a parameter: \<open>ws_write\<close> is \<open>WriteMessage\<close>, which succeeds or not and changes
  the state of the socket, and the messages that \<open>ReadMessage\<close> returns before its first error are
  a list. \<open>stop i\<close> tells whether the other relay has ended when the loop looks for the \<open>i\<close>-th time.
\<close>

section \<open>The two relays\<close>

function relay_down :: "(bytes \<Rightarrow> 'w \<Rightarrow> bool \<times> 'w) \<Rightarrow> bytes \<Rightarrow> 'w \<Rightarrow> 'w" where
  "relay_down ws_write r w =
     (case ReadFrame r of
        Inl _ \<Rightarrow> w
      | Inr (payload, r') \<Rightarrow>
          (case ws_write payload w of (True, w') \<Rightarrow> relay_down ws_write r' w' | (False, w') \<Rightarrow> w'))"
  by pat_completeness auto
termination
  by (relation "measure (\<lambda>(_, r, _). length r)") (auto dest: ReadFrame_shorter)

declare relay_down.simps [simp del]

fun relay_up :: "(nat \<Rightarrow> bool) \<Rightarrow> nat \<Rightarrow> bytes list \<Rightarrow> writer \<Rightarrow> writer" where
  "relay_up stop i [] w = w"
| "relay_up stop i (p # ps) w =
     (if stop i then w
      else case WriteFrame w p of (None, w') \<Rightarrow> relay_up stop (Suc i) ps w' | (Some _, w') \<Rightarrow> w')"

text \<open>
  The handler of a request: \<open>upgraded\<close> tells whether the upgrade to a WebSocket succeeded, \<open>dial\<close> is the
  connection to the server with the bytes that it yields until it is closed from either side, \<open>refuse\<close> writes the close
  message. Both relays run at the same time; they share nothing but \<open>stop\<close> and the closing of
  both connections at the end.
\<close>

definition proxy_Handler :: "bool \<Rightarrow> (bytes \<times> writer) option \<Rightarrow> (bytes \<Rightarrow> 'w \<Rightarrow> bool \<times> 'w) \<Rightarrow> ('w \<Rightarrow> 'w) \<Rightarrow> (nat \<Rightarrow> bool) \<Rightarrow>
    bytes list \<Rightarrow> 'w \<Rightarrow> 'w \<times> writer option" where
  "proxy_Handler upgraded dial ws_write refuse stop msgs ws =
     (if \<not> upgraded then (ws, None)
      else case dial of
             None \<Rightarrow> (refuse ws, None)
           | Some (r, w) \<Rightarrow> (relay_down ws_write r ws, Some (relay_up stop 0 msgs w)))"

section \<open>Correctness\<close>

lemma relay_down_frames:
  assumes "list_all (\<lambda>p. length p \<le> MaxFrameSize) ps" "\<forall>p w. fst (ws_write p w)"
  shows "relay_down ws_write (concat (map encode_frame ps)) w = fold (\<lambda>p w. snd (ws_write p w)) ps w"
  using assms(1)
proof (induction ps arbitrary: w)
  case Nil
  show ?case by (simp add: relay_down.simps ReadFrame_def read_full_def)
next
  case (Cons p ps)
  obtain w' where "ws_write p w = (True, w')" using assms(2) by (metis (full_types) prod.collapse)
  with Cons show ?case by (simp add: relay_down.simps [of ws_write "encode_frame p @ _"] ReadFrame_encode)
qed

lemma relay_up_frames:
  assumes "list_all (\<lambda>p. length p \<le> MaxFrameSize) ps" "sum_list (map (\<lambda>p. length p + 4) ps) \<le> w_room w"
    and "\<forall>i. \<not> stop i"
  shows "w_out (relay_up stop i ps w) = w_out w @ concat (map encode_frame ps) \<and>
    (\<forall>big qs. MaxFrameSize < length big \<longrightarrow> relay_up stop i (ps @ big # qs) w = relay_up stop i ps w)"
  using assms(1,2)
proof (induction ps arbitrary: i w)
  case Nil
  show ?case using assms(3) by (simp add: WriteFrame_def)
next
  case (Cons p ps)
  let ?w = "w\<lparr>w_out := w_out w @ encode_frame p, w_room := w_room w - (length p + 4)\<rparr>"
  have "WriteFrame w p = (None, ?w)" using Cons.prems by (intro WriteFrame_out) auto
  moreover have "sum_list (map (\<lambda>p. length p + 4) ps) \<le> w_room ?w" using Cons.prems(2) by simp
  ultimately show ?case using Cons.IH [of ?w "Suc i"] Cons.prems(1) assms(3) by simp
qed

text \<open>
  C20. The proxy is transparent. A browser gets exactly the payloads of the player's queue, as one
  message each and in order; and the server reads exactly the messages of the browser, one frame
  each and in order. A message that is larger than a frame
  may be ends the upward relay: nothing after it is passed on.
\<close>

theorem proxy_transparent:
  assumes "list_all (\<lambda>x. length (m x) \<le> MaxFrameSize) ms" "sum_list (map (\<lambda>x. length (m x) + 4) ms) \<le> w_room w"
    and "w_out w = []" "\<forall>p v. ws_write p v = (True, v @ [p])" "\<forall>i. \<not> stop i"
    and "list_all (\<lambda>p. length p \<le> MaxFrameSize) ps" "sum_list (map (\<lambda>p. length p + 4) ps) \<le> w_room u" "w_out u = []"
  shows "relay_down ws_write (w_out (snd (writeLoop m ms w))) [] = map m ms \<and>
    read_frames (w_out (relay_up stop 0 ps u)) = (ps, EOF) \<and>
    (\<forall>big qs. MaxFrameSize < length big \<longrightarrow> read_frames (w_out (relay_up stop 0 (ps @ big # qs) u)) = (ps, EOF))"
proof -
  obtain w' where w': "writeLoop m ms w = writeLoop m [] w'" "w_out w' = concat (map encode_frame (map m ms))"
    using writeLoop_frames [OF assms(1,2)] assms(3) by (metis append_Nil append_Nil2)
  have fold: "fold (\<lambda>p v. v @ [p]) qs v = v @ qs" for qs v :: "bytes list"
    by (induction qs arbitrary: v) auto
  have "list_all (\<lambda>p. length p \<le> MaxFrameSize) (map m ms)" using assms(1) by (simp add: list.pred_map comp_def)
  then have "relay_down ws_write (concat (map encode_frame (map m ms))) [] = map m ms"
    using assms(4) by (subst relay_down_frames) (simp_all add: fold)
  moreover have "w_out (snd (writeLoop m ms w)) = concat (map encode_frame (map m ms))" using w' by simp
  moreover note relay_up_frames [OF assms(6,7,5), of 0]
  ultimately show ?thesis using assms(6,8) by (simp add: read_frames_encoded)
qed

theorem proxy_transparent_witness:
  "relay_down (\<lambda>p v. (True, v @ [p])) (w_out (snd (writeLoop (\<lambda>_. [1]) [MsgInventory mempty, MsgInventory mempty]
      \<lparr>w_out = [], w_room = 99\<rparr>))) [] = [[1], [1]] \<and>
   read_frames (w_out (relay_up (\<lambda>_. False) 0 [[7], []] \<lparr>w_out = [], w_room = 99\<rparr>)) = ([[7], []], EOF)"
  using proxy_transparent [of "\<lambda>_. [1]" "[MsgInventory mempty, MsgInventory mempty]" "\<lparr>w_out = [], w_room = 99\<rparr>"
      "\<lambda>p v. (True, v @ [p])" "\<lambda>_. False" "[[7], []]" "\<lparr>w_out = [], w_room = 99\<rparr>"]
  by (simp add: MaxFrameSize_def)

end
