(* ===== verification/Server_Life.thy ===== *)
theory Server_Life
  imports Client_Link
begin

text \<open>
  The goroutines of the server (\<open>Start\<close>, \<open>Stop\<close> of \<open>server.go\<close>, \<open>acceptLoop\<close> and \<open>handleConn\<close> of \<open>server_conn.go\<close>,
  the outer loop of \<open>tickLoop\<close>) in steps at the grain of their accesses to \<open>s.done\<close>, the listener, the registry
  of clients and the connections. What a handler or a tick does is not seen here; it is in \<open>Game\<close>.
\<close>

section \<open>One connection\<close>

text \<open>Where \<open>handleConn\<close> is. A player is in the registry in \<open>CRead\<close> and \<open>CUnregister\<close>.\<close>

datatype conn_pc = CHello | CRegister | CRead | CUnregister | CJoin | CEnd

record conn_life =
  cn_pc :: conn_pc
  cn_open :: bool
  cn_writer :: bool

text \<open>
  What can happen: the handshake succeeds or fails (10 s deadline included), a message is handled, a read fails
  (closed by either side, or 60 s of silence), the write loop ends (\<open>done\<close> of the player or of the server,
  or a failed write), and the join with it.
\<close>

datatype conn_event = HelloOk | HelloBad | Registers | Message | ReadFails | Unregisters | WriterEnds | Joins

fun conn_step :: "conn_event \<Rightarrow> conn_life \<Rightarrow> conn_life option" where
  "conn_step HelloOk c = (if cn_pc c = CHello \<and> cn_open c then Some (c\<lparr>cn_pc := CRegister\<rparr>) else None)"
| "conn_step HelloBad c = (if cn_pc c = CHello then Some (c\<lparr>cn_pc := CEnd, cn_open := False\<rparr>) else None)"
| "conn_step Registers c = (if cn_pc c = CRegister then Some (c\<lparr>cn_pc := CRead, cn_writer := True\<rparr>) else None)"
| "conn_step Message c = (if cn_pc c = CRead \<and> cn_open c then Some c else None)"
| "conn_step ReadFails c = (if cn_pc c = CRead then Some (c\<lparr>cn_pc := CUnregister\<rparr>) else None)"
| "conn_step Unregisters c = (if cn_pc c = CUnregister then Some (c\<lparr>cn_pc := CJoin, cn_open := False\<rparr>) else None)"
| "conn_step WriterEnds c = (if cn_writer c then Some (c\<lparr>cn_writer := False\<rparr>) else None)"
| "conn_step Joins c = (if cn_pc c = CJoin \<and> \<not> cn_writer c then Some (c\<lparr>cn_pc := CEnd\<rparr>) else None)"

definition registered :: "conn_life \<Rightarrow> bool" where "registered c \<longleftrightarrow> cn_pc c = CRead \<or> cn_pc c = CUnregister"

definition new_conn :: conn_life where "new_conn = \<lparr>cn_pc = CHello, cn_open = True, cn_writer = False\<rparr>"

section \<open>The server\<close>

datatype accept_pc = AAccept | ASelect | AEnd
datatype tick_pc = TSelect | TWork | TEnd

text \<open>Where \<open>Stop\<close> is; \<open>SDone True\<close>: it returned \<open>nil\<close>, \<open>SDone False\<close>: the error of its context.\<close>

datatype stop_pc = SUp | SListener | SConns | SWait | SDone bool

record life =
  lf_done :: bool
  lf_ln :: bool
  lf_accept :: accept_pc
  lf_tick :: tick_pc
  lf_stop :: stop_pc
  lf_conns :: "conn_life list"

text \<open>\<open>Start\<close>: when listening fails nothing runs; otherwise both loops do.\<close>

definition Start :: "bool \<Rightarrow> life option" where
  "Start listens = (if \<not> listens then None
     else Some \<lparr>lf_done = False, lf_ln = True, lf_accept = AAccept, lf_tick = TSelect, lf_stop = SUp, lf_conns = []\<rparr>)"

text \<open>\<open>conn\<close>: \<open>Accept\<close> returns a connection, which an open listener alone can do.\<close>

definition accept_step :: "bool \<Rightarrow> life \<Rightarrow> life option" where
  "accept_step conn s =
     (case lf_accept s of
        AAccept \<Rightarrow> (if conn then (if lf_ln s then Some (s\<lparr>lf_conns := lf_conns s @ [new_conn]\<rparr>) else None)
                   else Some (s\<lparr>lf_accept := ASelect\<rparr>))
      | ASelect \<Rightarrow> Some (s\<lparr>lf_accept := (if lf_done s then AEnd else AAccept)\<rparr>)
      | AEnd \<Rightarrow> None)"

definition tick_step :: "life \<Rightarrow> life option" where
  "tick_step s =
     (case lf_tick s of
        TSelect \<Rightarrow> Some (s\<lparr>lf_tick := (if lf_done s then TEnd else TWork)\<rparr>)
      | TWork \<Rightarrow> Some (s\<lparr>lf_tick := TSelect\<rparr>)
      | TEnd \<Rightarrow> None)"

text \<open>The wait group is empty: both loops and every \<open>handleConn\<close> have ended.\<close>

definition all_ended :: "life \<Rightarrow> bool" where
  "all_ended s \<longleftrightarrow> lf_accept s = AEnd \<and> lf_tick s = TEnd \<and> list_all (\<lambda>c. cn_pc c = CEnd) (lf_conns s)"

definition hang_up :: "conn_life \<Rightarrow> conn_life" where
  "hang_up c = (if registered c then c\<lparr>cn_open := False\<rparr> else c)"

text \<open>
  \<open>Stop\<close>: close \<open>done\<close>, the listener, and the connections of the registry (under its lock); then wait for the group or,
  \<open>expired\<close>, for the context.
\<close>

definition stop_step :: "bool \<Rightarrow> life \<Rightarrow> life option" where
  "stop_step expired s =
     (case lf_stop s of
        SUp \<Rightarrow> Some (s\<lparr>lf_done := True, lf_stop := SListener\<rparr>)
      | SListener \<Rightarrow> Some (s\<lparr>lf_ln := False, lf_stop := SConns\<rparr>)
      | SConns \<Rightarrow> Some (s\<lparr>lf_conns := map hang_up (lf_conns s), lf_stop := SWait\<rparr>)
      | SWait \<Rightarrow> (if expired then Some (s\<lparr>lf_stop := SDone False\<rparr>)
                 else if all_ended s then Some (s\<lparr>lf_stop := SDone True\<rparr>) else None)
      | SDone _ \<Rightarrow> None)"

inductive lf_step :: "life \<Rightarrow> life \<Rightarrow> bool" where
  accept: "accept_step b s = Some s' \<Longrightarrow> lf_step s s'"
| tick: "tick_step s = Some s' \<Longrightarrow> lf_step s s'"
| conn: "k < length (lf_conns s) \<Longrightarrow> conn_step e (lf_conns s ! k) = Some c \<Longrightarrow> lf_step s (s\<lparr>lf_conns := (lf_conns s)[k := c]\<rparr>)"
| stop: "stop_step b s = Some s' \<Longrightarrow> lf_step s s'"

definition lf_reachable :: "life \<Rightarrow> bool" where
  "lf_reachable s \<longleftrightarrow> (\<exists>s0. Start True = Some s0 \<and> lf_step\<^sup>*\<^sup>* s0 s)"

section \<open>The invariant\<close>

definition conn_ok :: "conn_life \<Rightarrow> bool" where
  "conn_ok c \<longleftrightarrow> (case cn_pc c of CHello \<Rightarrow> cn_open c \<and> \<not> cn_writer c | CRegister \<Rightarrow> cn_open c \<and> \<not> cn_writer c
     | CJoin \<Rightarrow> \<not> cn_open c | CEnd \<Rightarrow> \<not> cn_open c \<and> \<not> cn_writer c | _ \<Rightarrow> True)"

definition lf_inv :: "life \<Rightarrow> bool" where
  "lf_inv s \<longleftrightarrow> (lf_done s \<longleftrightarrow> lf_stop s \<noteq> SUp) \<and> (lf_ln s \<longleftrightarrow> lf_stop s \<in> {SUp, SListener}) \<and>
     (lf_accept s = AEnd \<or> lf_tick s = TEnd \<longrightarrow> lf_done s) \<and> (lf_stop s = SDone True \<longrightarrow> all_ended s) \<and>
     list_all conn_ok (lf_conns s)"

lemma conn_step_ok: "conn_step e c = Some c' \<Longrightarrow> conn_ok c \<Longrightarrow> conn_ok c'"
  by (cases e; cases "cn_pc c") (auto simp: conn_ok_def split: if_splits)

lemma conn_step_end: "conn_step e c = Some c' \<Longrightarrow> cn_pc c = CEnd \<Longrightarrow> conn_ok c \<Longrightarrow> False"
  by (cases e) (auto simp: conn_ok_def split: if_splits)

lemma hang_up_ok: "conn_ok c \<Longrightarrow> conn_ok (hang_up c)" "cn_pc (hang_up c) = cn_pc c"
  by (auto simp: conn_ok_def hang_up_def registered_def split: conn_pc.splits)

lemma lf_inv_step: "lf_step s s' \<Longrightarrow> lf_inv s \<Longrightarrow> lf_inv s'"
proof (induction rule: lf_step.induct)
  case (accept b s s')
  then show ?case by (cases "lf_accept s")
      (auto simp: accept_step_def lf_inv_def all_ended_def new_conn_def conn_ok_def split: if_splits)
next
  case (tick s s')
  then show ?case by (cases "lf_tick s") (auto simp: tick_step_def lf_inv_def all_ended_def split: if_splits)
next
  case (conn k s e c)
  then have ok: "list_all conn_ok ((lf_conns s)[k := c])"
    using conn_step_ok [OF conn(2)] by (auto simp: lf_inv_def list_all_length nth_list_update)
  have "\<not> all_ended s"
    using conn conn_step_end [OF conn(2)] by (auto simp: lf_inv_def all_ended_def list_all_length)
  with conn(3) ok show ?case by (auto simp: lf_inv_def all_ended_def)
next
  case (stop b s s')
  then show ?case by (cases "lf_stop s")
      (auto simp: stop_step_def lf_inv_def all_ended_def list_all_iff hang_up_ok split: if_splits)
qed

interpretation lifetime: invariant_machine lf_step lf_inv
  by unfold_locales (rule lf_inv_step)

lemma reachable_inv: "lf_reachable s \<Longrightarrow> lf_inv s"
  using lifetime.steps_inv by (auto simp: lf_reachable_def Start_def) (force simp: lf_inv_def all_ended_def)

section \<open>Stopping\<close>

text \<open>How many steps are left at most until everything has ended.\<close>

definition conn_work :: "conn_life \<Rightarrow> nat" where
  "conn_work c = (case cn_pc c of CHello \<Rightarrow> 1 | CRegister \<Rightarrow> 6 | CRead \<Rightarrow> 3 | CUnregister \<Rightarrow> 2 | CJoin \<Rightarrow> 1 | CEnd \<Rightarrow> 0)
     + (if cn_writer c then 1 else 0)"

definition work_left :: "life \<Rightarrow> nat" where
  "work_left s = (case lf_accept s of AAccept \<Rightarrow> 2 | ASelect \<Rightarrow> 1 | AEnd \<Rightarrow> 0) +
     (case lf_tick s of TWork \<Rightarrow> 2 | TSelect \<Rightarrow> 1 | TEnd \<Rightarrow> 0) + sum_list (map conn_work (lf_conns s))"

lemma conn_progress:
  assumes "conn_ok c" "cn_pc c \<noteq> CEnd"
  shows "\<exists>e c'. conn_step e c = Some c' \<and> conn_work c' < conn_work c"
proof -
  have "cn_pc c = CHello \<Longrightarrow> \<exists>c'. conn_step HelloBad c = Some c' \<and> conn_work c' < conn_work c"
    "cn_pc c = CRegister \<Longrightarrow> \<exists>c'. conn_step Registers c = Some c' \<and> conn_work c' < conn_work c"
    "cn_pc c = CRead \<Longrightarrow> \<exists>c'. conn_step ReadFails c = Some c' \<and> conn_work c' < conn_work c"
    "cn_pc c = CUnregister \<Longrightarrow> \<exists>c'. conn_step Unregisters c = Some c' \<and> conn_work c' < conn_work c"
    "cn_writer c \<Longrightarrow> \<exists>c'. conn_step WriterEnds c = Some c' \<and> conn_work c' < conn_work c"
    "cn_pc c = CJoin \<Longrightarrow> \<not> cn_writer c \<Longrightarrow> \<exists>c'. conn_step Joins c = Some c' \<and> conn_work c' < conn_work c"
    using assms(1) by (auto simp: conn_work_def conn_ok_def)
  then show ?thesis using assms(2) by (cases "cn_pc c") blast+
qed

lemma sum_update_less: "k < length xs \<Longrightarrow> f y < f (xs ! k) \<Longrightarrow> sum_list (map f (xs[k := y])) < (sum_list (map f xs) :: nat)"
  by (induction xs arbitrary: k) (auto simp: nth_Cons split: nat.splits)

lemma progress:
  assumes "lf_inv s" "lf_stop s = SWait" "\<not> all_ended s"
  shows "\<exists>s'. lf_step s s' \<and> lf_stop s' = SWait \<and> work_left s' < work_left s"
proof -
  have d: "lf_done s" using assms(1,2) by (simp add: lf_inv_def)
  consider "lf_accept s \<noteq> AEnd" | "lf_tick s \<noteq> TEnd" | k where "k < length (lf_conns s)" "cn_pc (lf_conns s ! k) \<noteq> CEnd"
    using assms(3) by (auto simp: all_ended_def list_all_length)
  then show ?thesis
  proof cases
    case 1
    then obtain s' where "accept_step False s = Some s'" "lf_stop s' = SWait" "work_left s' < work_left s"
      using assms(2) d by (cases "lf_accept s") (auto simp: accept_step_def work_left_def)
    then show ?thesis by (blast intro: lf_step.accept)
  next
    case 2
    then obtain s' where "tick_step s = Some s'" "lf_stop s' = SWait" "work_left s' < work_left s"
      using assms(2) d by (cases "lf_tick s") (auto simp: tick_step_def work_left_def)
    then show ?thesis by (blast intro: lf_step.tick)
  next
    case 3
    then have "conn_ok (lf_conns s ! k)" using assms(1) by (simp add: lf_inv_def list_all_length)
    from conn_progress [OF this 3(2)] obtain e c' where c: "conn_step e (lf_conns s ! k) = Some c'"
      "conn_work c' < conn_work (lf_conns s ! k)" by blast
    then have "work_left (s\<lparr>lf_conns := (lf_conns s)[k := c']\<rparr>) < work_left s"
      using sum_update_less [of k "lf_conns s" conn_work c'] 3(1) by (simp add: work_left_def)
    then show ?thesis using lf_step.conn [OF 3(1) c(1)] assms(2) by (intro exI conjI) auto
  qed
qed

lemma can_finish: "lf_inv s \<Longrightarrow> lf_stop s = SWait \<Longrightarrow> \<exists>s'. lf_step\<^sup>*\<^sup>* s s' \<and> lf_stop s' = SDone True"
proof (induction "work_left s" arbitrary: s rule: less_induct)
  case less
  show ?case
  proof (cases "all_ended s")
    case True
    then have "stop_step False s = Some (s\<lparr>lf_stop := SDone True\<rparr>)" using less.prems(2) by (simp add: stop_step_def)
    then have "lf_step s (s\<lparr>lf_stop := SDone True\<rparr>)" by (rule lf_step.stop)
    then show ?thesis by (intro exI [of _ "s\<lparr>lf_stop := SDone True\<rparr>"]) auto
  next
    case False
    from progress [OF less.prems False] obtain t where t: "lf_step s t" "lf_stop t = SWait" "work_left t < work_left s" by blast
    from less.hyps [OF t(3) lf_inv_step [OF t(1) less.prems(1)] t(2)] t(1) show ?thesis
      by (blast intro: converse_rtranclp_into_rtranclp)
  qed
qed

text \<open>A player who came into the registry after \<open>Stop\<close> had looked through it.\<close>

definition straggler :: "life \<Rightarrow> nat \<Rightarrow> bool" where
  "straggler s k \<longleftrightarrow> lf_stop s = SWait \<and> lf_accept s = AEnd \<and> lf_tick s = TEnd \<and> k < length (lf_conns s) \<and>
     cn_pc (lf_conns s ! k) = CRead \<and> cn_open (lf_conns s ! k) \<and> \<not> cn_writer (lf_conns s ! k)"

text \<open>
  C39. \<open>Stop\<close> of the server. When it returns without error both loops have ended, every connection is closed
  and its goroutines have ended, and no player is left in the registry. While it waits, the server can always end
  in this way. The step that hangs up leaves no registered connection open. But a player whose handshake ends after \<open>Stop\<close> has hung up on the registered players is
  not hung up on: with both loops and the player's write loop already ended, the server goes on handling the player's messages,
  each of which leads back to the same state, and unless the player leaves \<open>Stop\<close> returns only when its context
  expires.
\<close>
theorem stop_correct:
  assumes "lf_reachable s"
  shows "(lf_stop s = SDone True \<longrightarrow> lf_accept s = AEnd \<and> lf_tick s = TEnd \<and>
      list_all (\<lambda>c. cn_pc c = CEnd \<and> \<not> cn_open c \<and> \<not> cn_writer c \<and> \<not> registered c) (lf_conns s)) \<and>
    (lf_stop s = SWait \<longrightarrow> (\<exists>s'. lf_step\<^sup>*\<^sup>* s s' \<and> lf_stop s' = SDone True)) \<and>
    (lf_stop s = SConns \<longrightarrow> (\<exists>s'. stop_step b s = Some s' \<and> lf_stop s' = SWait \<and>
       list_all (\<lambda>c. registered c \<longrightarrow> \<not> cn_open c) (lf_conns s'))) \<and>
    (straggler s k \<longrightarrow> conn_step Message (lf_conns s ! k) = Some (lf_conns s ! k) \<and> lf_step s s \<and> stop_step False s = None)"
proof (intro conjI impI)
  have inv: "lf_inv s" by (rule reachable_inv [OF assms])
  { assume "lf_stop s = SDone True"
    with inv show "lf_accept s = AEnd" "lf_tick s = TEnd"
      "list_all (\<lambda>c. cn_pc c = CEnd \<and> \<not> cn_open c \<and> \<not> cn_writer c \<and> \<not> registered c) (lf_conns s)"
      by (auto simp: lf_inv_def all_ended_def list_all_iff conn_ok_def registered_def) }
  show "\<exists>s'. lf_step\<^sup>*\<^sup>* s s' \<and> lf_stop s' = SDone True" if "lf_stop s = SWait" using can_finish [OF inv that] .
  show "\<exists>s'. stop_step b s = Some s' \<and> lf_stop s' = SWait \<and> list_all (\<lambda>c. registered c \<longrightarrow> \<not> cn_open c) (lf_conns s')"
    if "lf_stop s = SConns" using that by (auto simp: stop_step_def list_all_iff hang_up_def registered_def)
  assume st: "straggler s k"
  then show m: "conn_step Message (lf_conns s ! k) = Some (lf_conns s ! k)" by (simp add: straggler_def)
  show "lf_step s s" using lf_step.conn [OF _ m] st by (simp add: straggler_def)
  show "stop_step False s = None" using st by (auto simp: stop_step_def straggler_def all_ended_def list_all_length)
qed

text \<open>A schedule of steps; \<open>None\<close> when one of them is not possible.\<close>

datatype life_event = Acc bool | Tck | Cn nat conn_event | Stp bool

fun life_step :: "life_event \<Rightarrow> life \<Rightarrow> life option" where
  "life_step (Acc b) s = accept_step b s"
| "life_step Tck s = tick_step s"
| "life_step (Cn k e) s = (if k < length (lf_conns s)
     then map_option (\<lambda>c. s\<lparr>lf_conns := (lf_conns s)[k := c]\<rparr>) (conn_step e (lf_conns s ! k)) else None)"
| "life_step (Stp b) s = stop_step b s"

fun run_life :: "life_event list \<Rightarrow> life \<Rightarrow> life option" where
  "run_life [] s = Some s"
| "run_life (e # es) s = (case life_step e s of None \<Rightarrow> None | Some s' \<Rightarrow> run_life es s')"

lemma life_step_lf: "life_step e s = Some s' \<Longrightarrow> lf_step s s'"
  by (cases e) (auto split: if_splits intro: lf_step.intros)

lemma run_life_reachable: "Start True = Some s0 \<Longrightarrow> run_life es s0 = Some s \<Longrightarrow> lf_reachable s"
proof -
  have "run_life es t = Some s \<Longrightarrow> lf_step\<^sup>*\<^sup>* t s" for t
    by (induction es arbitrary: t) (auto split: option.splits dest: life_step_lf intro: converse_rtranclp_into_rtranclp)
  then show "Start True = Some s0 \<Longrightarrow> run_life es s0 = Some s \<Longrightarrow> lf_reachable s" by (auto simp: lf_reachable_def)
qed

theorem stop_correct_witness:
  "\<exists>s. lf_reachable s \<and> straggler s 0 \<and> lf_step s s \<and> stop_step False s = None \<and>
     (\<exists>s'. lf_step\<^sup>*\<^sup>* s s' \<and> lf_stop s' = SDone True)"
proof -
  define s where "s = \<lparr>lf_done = True, lf_ln = False, lf_accept = AEnd, lf_tick = TEnd, lf_stop = SWait,
    lf_conns = [\<lparr>cn_pc = CRead, cn_open = True, cn_writer = False\<rparr>]\<rparr>"
  obtain s0 where s0: "Start True = Some s0" by (simp add: Start_def)
  then have "run_life [Acc True, Cn 0 HelloOk, Stp False, Stp False, Stp False, Cn 0 Registers, Cn 0 WriterEnds,
      Acc False, Acc False, Tck] s0 = Some s"
    by (auto simp: Start_def accept_step_def tick_step_def stop_step_def new_conn_def hang_up_def registered_def s_def)
  then have "lf_reachable s" by (rule run_life_reachable [OF s0])
  moreover have "straggler s 0" "lf_stop s = SWait" by (simp_all add: straggler_def s_def)
  ultimately show ?thesis using stop_correct [where s = s and k = 0] by blast
qed

end
