(* ===== verification/Palette.thy ===== *)
theory Palette
  imports Client_Link
begin

text \<open>
  \<open>internal/client/render/palette.go\<close>, the identifier hashing of \<open>scene.go\<close> and the colour picker
  and number formatting of \<open>internal/client/app/menu.go\<close>: colours as text and as bytes, the
  conversion from HSV, the colour and the spawn direction of a player. Bytes and the hash are
  words; \<open>strconv.ParseUint\<close> and \<open>math.Mod\<close> are modelled from their documentation in the
  standard library. A conversion of a float to \<open>uint8\<close> keeps the low eight bits of the truncated
  value, as the compiler for amd64 does.
\<close>

unbundle bit_operations_syntax

section \<open>Colours\<close>

record Color =
  col_R :: "8 word"
  col_G :: "8 word"
  col_B :: "8 word"
  col_A :: "8 word"

definition NewColor :: "8 word \<Rightarrow> 8 word \<Rightarrow> 8 word \<Rightarrow> 8 word \<Rightarrow> Color" where
  "NewColor r g b a = \<lparr>col_R = r, col_G = g, col_B = b, col_A = a\<rparr>"

definition palette_list :: "string list" where
  "palette_list =
    [''#e62937'', ''#ff851b'', ''#ffcb00'', ''#00e430'',
     ''#00b8a9'', ''#0079f1'', ''#8250dc'', ''#ff6dc2'',
     ''#8b0000'', ''#006400'', ''#00008b'', ''#5a3a1a'',
     ''#f0f0f0'', ''#a0a0a0'', ''#505050'', ''#0a0a0a'']"

definition DefaultColor :: string where "DefaultColor = ''#e62937''"

subsection \<open>Text to colour\<close>

definition hex_value :: "char \<Rightarrow> nat option" where
  "hex_value c = (let n = of_char c :: nat in
     if 48 \<le> n \<and> n \<le> 57 then Some (n - 48)
     else if 97 \<le> n \<and> n \<le> 102 then Some (n - 97 + 10)
     else if 65 \<le> n \<and> n \<le> 70 then Some (n - 65 + 10)
     else None)"

text \<open>\<open>strconv.ParseUint(s, 16, 32)\<close>: no sign, no prefix, an error on anything but digits or on overflow.\<close>

fun parse_digits :: "nat \<Rightarrow> string \<Rightarrow> nat option" where
  "parse_digits n [] = Some n"
| "parse_digits n (c # cs) =
     (case hex_value c of
        None \<Rightarrow> None
      | Some d \<Rightarrow> if 2 ^ 32 \<le> n * 16 + d then None else parse_digits (n * 16 + d) cs)"

definition ParseUint16 :: "string \<Rightarrow> 64 word option" where
  "ParseUint16 s = (if s = '''' then None else map_option of_nat (parse_digits 0 s))"

definition HexColor :: "string \<Rightarrow> Color option" where
  "HexColor s =
     (if length s \<noteq> 7 \<or> s ! 0 \<noteq> CHR ''#'' then None
      else case ParseUint16 (drop 1 s) of
             None \<Rightarrow> None
           | Some v \<Rightarrow> Some (NewColor (ucast (drop_bit 16 v)) (ucast (drop_bit 8 v)) (ucast v) 255))"

subsection \<open>The colour of an identifier\<close>

definition hash_step :: "char \<Rightarrow> 32 word \<Rightarrow> 32 word" where
  "hash_step c h = (h XOR of_nat (of_char c)) * 16777619"

definition hashID :: "string \<Rightarrow> 32 word" where
  "hashID i = fold hash_step i 2166136261"

definition colorForID :: "string \<Rightarrow> Color" where
  "colorForID i =
     (let h = fold hash_step i 2166136261;
          r = ucast (96 + (drop_bit 0 h AND 0x7F));
          g = ucast (96 + (drop_bit 8 h AND 0x7F));
          b = ucast (96 + (drop_bit 16 h AND 0x7F))
      in NewColor r g b 255)"

definition playerColor :: "PlayerState \<Rightarrow> Color" where
  "playerColor p = (case HexColor (ps_ColorHex p) of Some c \<Rightarrow> c | None \<Rightarrow> colorForID (ps_ID p))"

definition SpawnFromID :: "string \<Rightarrow> Vector3" where
  "SpawnFromID i = vec (PlanetRadius + PlayerHeight) 0 0"

definition SpawnYawFromID :: "string \<Rightarrow> f32" where
  "SpawnYawFromID i =
     (let h = hashID i;
          angle = f64_of_int (uint (h mod 360)) * c64 3.141592653589793 / c64 180
      in f32_of angle)"

subsection \<open>HSV\<close>

text \<open>\<open>math.Mod\<close>: the remainder of truncated division, with the sign of the first argument.\<close>

fun fmod_raw :: "gofloat \<Rightarrow> gofloat \<Rightarrow> gofloat" where
  "fmod_raw NaN y = NaN"
| "fmod_raw PInf y = NaN"
| "fmod_raw NInf y = NaN"
| "fmod_raw x NaN = NaN"
| "fmod_raw x PInf = x"
| "fmod_raw x NInf = x"
| "fmod_raw x NZero = NaN"
| "fmod_raw x (Fin b) =
     (if b = 0 then NaN
      else mk Binary64 (sign_bit x) (fval x - of_int (trunc_rat (fval x / b)) * b))"

definition math_Mod :: "f64 \<Rightarrow> f64 \<Rightarrow> f64" where
  "math_Mod x y = F64 (fmod_raw (raw64 x) (raw64 y))"

definition u8_of_f32 :: "f32 \<Rightarrow> 8 word" where
  "u8_of_f32 a = word_of_int (int_of_f32 a)"

definition unit_clamp :: "f32 \<Rightarrow> f32" where
  "unit_clamp a = (let a' = (if a < 0 then 0 else a) in if 1 < a' then 1 else a')"

definition wrap_hue :: "f32 \<Rightarrow> f32" where
  "wrap_hue h = (let h' = f32_of (math_Mod (f64_of h) (c64 360)) in if h' < 0 then h' + c32 360 else h')"

text \<open>The switch on the sextant; a value outside 0 to 5 leaves the components at zero.\<close>

definition sextant :: "int \<Rightarrow> f32 \<Rightarrow> f32 \<Rightarrow> f32 \<Rightarrow> f32 \<Rightarrow> f32 \<times> f32 \<times> f32" where
  "sextant i v pv q t =
     (if i = 0 then (v, t, pv) else if i = 1 then (q, v, pv) else if i = 2 then (pv, v, t)
      else if i = 3 then (pv, q, v) else if i = 4 then (t, pv, v) else if i = 5 then (v, pv, q)
      else (0, 0, 0))"

definition rgb_of :: "f32 \<Rightarrow> f32 \<Rightarrow> f32 \<Rightarrow> f32 \<times> f32 \<times> f32" where
  "rgb_of hh s v =
     (let i = int_of_f32 hh;
          f = hh - f32_of_int i;
          pv = v * (1 - s);
          q = v * (1 - s * f);
          t = v * (1 - s * (1 - f))
      in sextant i v pv q t)"

definition HSVToColor :: "f32 \<Rightarrow> f32 \<Rightarrow> f32 \<Rightarrow> Color" where
  "HSVToColor h s v =
     (let s = unit_clamp s; v = unit_clamp v; h = wrap_hue h
      in if eq32 s 0 then let c = u8_of_f32 (v * c32 255) in NewColor c c c 255
         else case rgb_of (h / c32 60) s v of
                (r, g, b) \<Rightarrow> NewColor (u8_of_f32 (r * c32 255)) (u8_of_f32 (g * c32 255)) (u8_of_f32 (b * c32 255)) 255)"

definition hex2 :: "8 word \<Rightarrow> string" where
  "hex2 v = [''0123456789abcdef'' ! unat (drop_bit 4 v), ''0123456789abcdef'' ! unat (v AND 0xF)]"

definition HexFromHSV :: "f32 \<Rightarrow> f32 \<Rightarrow> f32 \<Rightarrow> string" where
  "HexFromHSV h s v = (let c = HSVToColor h s v in ''#'' @ hex2 (col_R c) @ hex2 (col_G c) @ hex2 (col_B c))"

section \<open>The colour picker of the menu\<close>

text \<open>
  The grid of 4 by 4 cells of 40 pixels with gaps of 6, in screen coordinates (32-bit integers,
  far from overflow at the size of a screen, so they are plain integers here). A click inside a
  cell chooses its colour; the marker is on the last cell of the chosen colour.
\<close>

record picker =
  pk_color :: string
  pk_selected :: int

definition cell_x :: "int \<Rightarrow> nat \<Rightarrow> int" where
  "cell_x gridX i = gridX + int (i mod 4) * (40 + 6)"
definition cell_y :: "int \<Rightarrow> nat \<Rightarrow> int" where
  "cell_y gridY i = gridY + int (i div 4) * (40 + 6)"

definition in_cell :: "int \<Rightarrow> int \<Rightarrow> f32 \<Rightarrow> f32 \<Rightarrow> nat \<Rightarrow> bool" where
  "in_cell gridX gridY mx my i \<longleftrightarrow>
     f32_of_int (cell_x gridX i) \<le> mx \<and> mx < f32_of_int (cell_x gridX i + 40) \<and>
     f32_of_int (cell_y gridY i) \<le> my \<and> my < f32_of_int (cell_y gridY i + 40)"

definition pick_cell :: "int \<Rightarrow> int \<Rightarrow> f32 \<Rightarrow> f32 \<Rightarrow> bool \<Rightarrow> nat \<times> string \<Rightarrow> picker \<Rightarrow> picker" where
  "pick_cell gridX gridY mx my clicked ih st =
     (case ih of (i, hex) \<Rightarrow>
        if HexColor hex = None then st
        else let st' = (if in_cell gridX gridY mx my i \<and> clicked then st\<lparr>pk_color := hex\<rparr> else st)
             in if pk_color st' = hex then st'\<lparr>pk_selected := int i\<rparr> else st')"

definition drawColorPicker :: "int \<Rightarrow> int \<Rightarrow> f32 \<Rightarrow> f32 \<Rightarrow> bool \<Rightarrow> string \<Rightarrow> picker" where
  "drawColorPicker labelX labelY mx my clicked color =
     fold (pick_cell labelX (labelY + 26) mx my clicked) (enumerate 0 palette_list)
       \<lparr>pk_color = color, pk_selected = - 1\<rparr>"

section \<open>Numbers as text\<close>

text \<open>
  \<open>fmtItoa\<close> fills a buffer of twelve bytes from the end; a write below its start panics (\<open>None\<close>).
  \<open>-v\<close> wraps around for the least integer.
\<close>

fun put_digits :: "nat \<Rightarrow> nat \<Rightarrow> string \<Rightarrow> string option" where
  "put_digits 0 v buf = (if 0 < v then None else Some buf)"
| "put_digits (Suc i) v buf =
     (if 0 < v then put_digits i (v div 10) (char_of (48 + v mod 10) # buf) else Some buf)"

definition put_sign :: "nat \<Rightarrow> bool \<Rightarrow> string \<Rightarrow> string option" where
  "put_sign w neg buf = (if neg then if length buf < w then Some (CHR ''-'' # buf) else None else Some buf)"

definition itoa_buf :: "nat \<Rightarrow> int \<Rightarrow> string option" where
  "itoa_buf w v =
     (if v = 0 then Some ''0''
      else let neg = v < 0; v' = (if neg then i64 (- v) else v)
           in Option.bind (put_digits w (nat v') []) (put_sign w neg))"

definition fmtItoa :: "int \<Rightarrow> string option" where
  "fmtItoa v = itoa_buf 12 v"

definition fmtHue :: "f32 \<Rightarrow> string option" where
  "fmtHue h = map_option (\<lambda>s. s @ [char_of (194 :: nat), char_of (176 :: nat)]) (fmtItoa (int_of_f32 h))"

definition fmtPct :: "f32 \<Rightarrow> string option" where
  "fmtPct v = map_option (\<lambda>s. s @ ''%'') (fmtItoa (int_of_f32 (v * c32 100)))"

definition itoa :: "int \<Rightarrow> string option" where
  "itoa v = itoa_buf 20 v"


section \<open>Colours survive the way through the server\<close>

lemma hex2_digits: "hex2 v = [hex_digit (unat v div 16), hex_digit (unat v mod 16)]"
proof -
  have "unat (drop_bit 4 v) = unat v div 16" by (simp only: unat_drop_bit_eq) (simp add: drop_bit_eq_div)
  moreover have "unat (v AND 0xF) = unat v mod 16"
    using take_bit_eq_mask [of 4 v] unsigned_take_bit_eq [of 4 v, where ?'a = nat]
    by (simp add: mask_eq_decr_exp take_bit_eq_mod)
  ultimately show ?thesis by (simp add: hex2_def hex_digit_def)
qed

lemma hex_digit_facts:
  assumes "n < 16"
  shows "hex_value (hex_digit n) = Some n" "is_hex (hex_digit n)" "lower (hex_digit n) = hex_digit n"
proof -
  have "list_all (\<lambda>n. hex_value (hex_digit n) = Some n \<and> is_hex (hex_digit n) \<and>
      lower (hex_digit n) = hex_digit n) [0..<16]"
    by code_simp
  then show "hex_value (hex_digit n) = Some n" "is_hex (hex_digit n)" "lower (hex_digit n) = hex_digit n"
    using assms by (auto simp: list_all_iff)
qed

lemma unat8: "unat (v :: 8 word) < 256"
  using unsigned_less [of v, where ?'a = nat] by simp

lemma nibbles: "unat (v :: 8 word) div 16 < 16" "unat (v :: 8 word) mod 16 < 16"
  using unat8 [of v] by simp_all

lemma of_nat8: "n mod 256 = unat v \<Longrightarrow> (of_nat n :: 8 word) = v"
  by (rule word_unat_eq_iff [THEN iffD2]) (simp add: unat_of_nat)

lemma parse_hex2:
  assumes "n < 2 ^ 16"
  shows "parse_digits n (hex2 v @ cs) = parse_digits (n * 256 + unat v) cs"
proof -
  have "(n * 16 + unat v div 16) * 16 + unat v mod 16 = n * 256 + unat v" by simp
  then show ?thesis using assms nibbles [of v] unat8 [of v]
    by (simp add: hex2_digits hex_digit_facts add.commute mult.commute)
qed

lemma ucast_drop:
  assumes "n < 2 ^ 32"
  shows "ucast (drop_bit k (of_nat n :: 64 word)) = (of_nat (n div 2 ^ k) :: 8 word)"
proof -
  have "unat (drop_bit k (of_nat n :: 64 word)) = n div 2 ^ k"
    unfolding unat_drop_bit_eq using assms by (simp add: drop_bit_eq_div unat_of_nat)
  then have "unat (ucast (drop_bit k (of_nat n :: 64 word)) :: 8 word) = n div 2 ^ k mod 256"
    by (simp add: unsigned_ucast_eq take_bit_eq_mod del: unat_drop_bit_eq)
  then show ?thesis by (intro of_nat8 [symmetric]) simp
qed

lemma HexColor_hex:
  "HexColor (''#'' @ hex2 r @ hex2 g @ hex2 b) = Some (NewColor r g b 255)"
proof -
  define n where "n = (unat r * 256 + unat g) * 256 + unat b"
  have n: "n < 2 ^ 32" using unat8 [of r] unat8 [of g] unat8 [of b] by (simp add: n_def)
  have "parse_digits 0 (hex2 r @ hex2 g @ hex2 b) = Some n"
    using unat8 [of r] unat8 [of g] parse_hex2 [of _ b "[]"] by (simp add: parse_hex2 n_def)
  then have P: "ParseUint16 (hex2 r @ hex2 g @ hex2 b) = Some (of_nat n)"
    by (simp add: ParseUint16_def hex2_digits)
  have nb: "n mod 256 = unat b"
    unfolding n_def mod_mult_self3 using unat8 [of b] by simp
  have "n div 2 ^ 16 = unat r" "n div 2 ^ 8 = unat r * 256 + unat g"
    using unat8 [of g] unat8 [of b] by (auto simp: n_def)
  then have "(of_nat (n div 2 ^ 16) :: 8 word) = r" "(of_nat (n div 2 ^ 8) :: 8 word) = g"
      "(of_nat n :: 8 word) = b"
    using unat8 [of g] unat8 [of b] nb by (auto intro!: of_nat8 simp del: of_nat_add of_nat_mult)
  then have "ucast (drop_bit 16 (of_nat n :: 64 word)) = r" "ucast (drop_bit 8 (of_nat n :: 64 word)) = g"
     "ucast (of_nat n :: 64 word) = b"
    using ucast_drop [OF n, of 16] ucast_drop [OF n, of 8] ucast_drop [OF n, of 0] by simp_all
  then show ?thesis by (simp add: HexColor_def P) (simp add: hex2_digits)
qed


lemma sanitize_hex:
  "sanitizeColorHex (''#'' @ hex2 r @ hex2 g @ hex2 b) = ''#'' @ hex2 r @ hex2 g @ hex2 b"
proof -
  have "lower CHR ''#'' = CHR ''#''" by (simp add: lower_def)
  moreover have "[1..<7] = [1, 2, 3, 4, 5, 6 :: nat]" by (simp add: upt_rec)
  ultimately show ?thesis
    by (simp add: sanitizeColorHex_def hex2_digits hex_digit_facts nibbles)
qed

text \<open>
  C36. A colour made from hue, saturation and value is written as a text that
  the server accepts unchanged and that is parsed back to the very same colour, whatever the
  three numbers are (infinities and NaN included).
\<close>
theorem hsv_text_roundtrip:
  "HexColor (HexFromHSV h s v) = Some (HSVToColor h s v) \<and>
   sanitizeColorHex (HexFromHSV h s v) = HexFromHSV h s v"
proof -
  have "NewColor (col_R c) (col_G c) (col_B c) 255 = c" if "col_A c = 255" for c
    using that by (cases c) (simp add: NewColor_def)
  moreover have "col_A (HSVToColor h s v) = 255"
    by (simp add: HSVToColor_def Let_def NewColor_def split: prod.splits)
  ultimately show ?thesis
    using HexColor_hex sanitize_hex by (simp add: HexFromHSV_def Let_def)
qed


section \<open>The chosen colour\<close>

lemma palette_bytes:
  "palette_list = map (\<lambda>(r, g, b). ''#'' @ hex2 r @ hex2 g @ hex2 b)
    [(0xe6, 0x29, 0x37), (0xff, 0x85, 0x1b), (0xff, 0xcb, 0), (0, 0xe4, 0x30),
     (0, 0xb8, 0xa9), (0, 0x79, 0xf1), (0x82, 0x50, 0xdc), (0xff, 0x6d, 0xc2),
     (0x8b, 0, 0), (0, 0x64, 0), (0, 0, 0x8b), (0x5a, 0x3a, 0x1a),
     (0xf0, 0xf0, 0xf0), (0xa0, 0xa0, 0xa0), (0x50, 0x50, 0x50), (0x0a, 0x0a, 0x0a)]"
  by (simp add: palette_list_def hex2_digits hex_digit_def)

lemma palette_ok: "hex \<in> set palette_list \<Longrightarrow> sanitizeColorHex hex = hex \<and> (\<exists>c. HexColor hex = Some c)"
proof -
  assume "hex \<in> set palette_list"
  then obtain r g b where "hex = ''#'' @ hex2 r @ hex2 g @ hex2 b" unfolding palette_bytes by auto
  then show ?thesis using HexColor_hex sanitize_hex by simp
qed

lemma palette_distinct: "distinct palette_list" and palette_length: "length palette_list = 16"
  by (simp_all add: palette_list_def)

lemma palette_nth_eq: "i < 16 \<Longrightarrow> j < 16 \<Longrightarrow> palette_list ! i = palette_list ! j \<longleftrightarrow> i = j"
  using palette_distinct palette_length by (simp add: nth_eq_iff_index_eq)

text \<open>The state of the picker after the first \<open>k\<close> cells.\<close>

definition drawn :: "int \<Rightarrow> int \<Rightarrow> f32 \<Rightarrow> f32 \<Rightarrow> bool \<Rightarrow> string \<Rightarrow> nat \<Rightarrow> picker" where
  "drawn gx gy mx my cl color k =
     fold (pick_cell gx gy mx my cl) (take k (enumerate 0 palette_list)) \<lparr>pk_color = color, pk_selected = - 1\<rparr>"

lemma drawn_Suc:
  assumes "k < 16"
  shows "drawn gx gy mx my cl color (Suc k) =
    (let st = drawn gx gy mx my cl color k;
         st' = (if in_cell gx gy mx my k \<and> cl then st\<lparr>pk_color := palette_list ! k\<rparr> else st)
     in if pk_color st' = palette_list ! k then st'\<lparr>pk_selected := int k\<rparr> else st')"
proof -
  have k: "k < length palette_list" using assms palette_length by simp
  then have "take (Suc k) (enumerate 0 palette_list) = take k (enumerate 0 palette_list) @ [(k, palette_list ! k)]"
    by (simp add: take_Suc_conv_app_nth nth_enumerate_eq)
  moreover obtain c where "HexColor (palette_list ! k) = Some c" using palette_ok k nth_mem by blast
  ultimately show ?thesis by (simp add: drawn_def pick_cell_def Let_def)
qed

lemma drawn_all: "drawColorPicker lx ly mx my cl color = drawn lx (ly + 26) mx my cl color 16"
  using palette_length by (simp add: drawColorPicker_def drawn_def)

lemma drawn_marker:
  assumes "k \<le> 16" "color \<in> set palette_list"
  shows "pk_color (drawn gx gy mx my cl color k) \<in> set palette_list \<and>
     (\<forall>j<k. palette_list ! j = pk_color (drawn gx gy mx my cl color k) \<longrightarrow>
        pk_selected (drawn gx gy mx my cl color k) = int j)"
  using assms(1)
proof (induction k)
  case (Suc k)
  have "palette_list ! k \<in> set palette_list" using Suc.prems palette_length by simp
  then show ?case
    using Suc by (auto simp: drawn_Suc Let_def palette_nth_eq less_Suc_eq)
qed (simp add: drawn_def assms(2))

lemma drawn_color:
  assumes "k \<le> 16" "\<And>j. j < 16 \<Longrightarrow> in_cell gx gy mx my j \<Longrightarrow> j = i"
  shows "pk_color (drawn gx gy mx my cl color k) =
     (if cl \<and> i < k \<and> in_cell gx gy mx my i then palette_list ! i else color)"
  using assms(1)
proof (induction k)
  case (Suc k)
  then show ?case using assms(2) [of k] by (auto simp: drawn_Suc Let_def less_Suc_eq)
qed (simp add: drawn_def)

lemma mouse_cell:
  assumes "\<bar>a\<bar> \<le> 2 ^ 24"
  shows "raw32 (f32_of_int a) = Fin (of_int a)"
proof -
  have "rep Binary32 (of_int a)"
    using assms by (intro rep_form [of _ a 0]) auto
  moreover have "\<bar>of_int a\<bar> \<le> (2 ^ 24 :: rat)"
    using assms by (metis of_int_abs of_int_le_iff of_int_numeral of_int_power)
  ultimately show ?thesis
    unfolding f32_of_int_def raw32_ops rep_def by (intro mk_exact) auto
qed

lemma cells_disjoint:
  assumes "0 \<le> gx" "gx \<le> 10000" "0 \<le> gy" "gy \<le> 10000" "i < 16" "j < 16"
    "in_cell gx gy mx my i" "in_cell gx gy mx my j"
  shows "i = j"
proof -
  have d: "k mod 4 \<le> 3" "k div 4 \<le> 3" if "k < 16" for k :: nat using that by auto
  have lt: "a < b" if "f32_of_int a \<le> m" "m < f32_of_int b" "0 \<le> a" "a \<le> 20000" "0 \<le> b" "b \<le> 20000" for a b m
    using that by (auto simp: less_eq_f32_def less_f32_def fle_def flt_def feq_def mouse_cell split: if_splits
        dest!: sym [of "Fin _"])
  have r: "0 \<le> cell_x gx k" "cell_x gx k + 40 \<le> 20000" "0 \<le> cell_y gy k" "cell_y gy k + 40 \<le> 20000" if "k < 16" for k
    using assms(1-4) d [OF that] by (auto simp: cell_x_def cell_y_def)
  note ri = r [OF assms(5)] and rj = r [OF assms(6)]
  have x: "cell_x gx i < cell_x gx j + 40" "cell_x gx j < cell_x gx i + 40"
    and y: "cell_y gy i < cell_y gy j + 40" "cell_y gy j < cell_y gy i + 40"
    using assms(7,8) ri rj unfolding in_cell_def
    by (auto intro: lt [of _ mx] lt [of _ my])
  from x y have "i mod 4 = j mod 4" "i div 4 = j div 4" by (auto simp: cell_x_def cell_y_def)
  then show ?thesis by (metis div_mult_mod_eq)
qed

lemma picker_marker:
  assumes "color \<in> set palette_list" "r = drawColorPicker lx ly mx my clicked color"
  shows "\<exists>j<16. pk_color r = palette_list ! j \<and> pk_selected r = int j"
proof -
  have m: "pk_color r \<in> set palette_list" "\<And>j. j < 16 \<Longrightarrow> palette_list ! j = pk_color r \<Longrightarrow> pk_selected r = int j"
    using drawn_marker [OF order_refl assms(1)] by (simp_all add: drawn_all assms(2))
  then show ?thesis unfolding in_set_conv_nth palette_length by metis
qed

lemma picker_click:
  assumes "0 \<le> lx" "lx \<le> 10000" "0 \<le> ly" "ly \<le> 9000" "clicked" "i < 16" "in_cell lx (ly + 26) mx my i"
  shows "pk_color (drawColorPicker lx ly mx my clicked color) = palette_list ! i"
proof -
  have "j = i" if "j < 16" "in_cell lx (ly + 26) mx my j" for j
    using that assms by (intro cells_disjoint [of lx "ly + 26" j i mx my]) auto
  from drawn_color [OF order_refl this] show ?thesis using assms(5-7) by (simp add: drawn_all)
qed

lemma picker_no_click:
  assumes "\<And>i. i < 16 \<Longrightarrow> \<not> (clicked \<and> in_cell lx (ly + 26) mx my i)"
  shows "pk_color (drawColorPicker lx ly mx my clicked color) = color"
proof -
  have "pk_color (drawn lx (ly + 26) mx my clicked color k) = color" if "k \<le> 16" for k
    using that
  proof (induction k)
    case (Suc k)
    then show ?case using assms [of k] by (auto simp: drawn_Suc Let_def)
  qed (simp add: drawn_def)
  then show ?thesis by (simp add: drawn_all)
qed

text \<open>
  On a menu whose grid lies on the screen, a click into a cell chooses the
  colour of exactly that cell, and no other click or movement changes the colour; the marker is
  on the chosen colour. Whatever is chosen, the server accepts it unchanged in the handshake and
  every client then draws this player in the colour of the cell.
\<close>
theorem picker_correct:
  assumes "0 \<le> lx" "lx \<le> 10000" "0 \<le> ly" "ly \<le> 9000" "color \<in> set palette_list"
  shows "let r = drawColorPicker lx ly mx my clicked color; hex = pk_color r in
      (if \<exists>i<16. clicked \<and> in_cell lx (ly + 26) mx my i
       then \<exists>i<16. in_cell lx (ly + 26) mx my i \<and> hex = palette_list ! i else hex = color) \<and>
      (\<exists>i<16. hex = palette_list ! i \<and> pk_selected r = int i) \<and>
      HexColor hex = Some (playerColor (State (greet \<lparr>hello_Nick = nick, hello_Version = ver, hello_ColorHex = hex\<rparr> c)))"
proof -
  let ?r = "drawColorPicker lx ly mx my clicked color"
  obtain j where j: "j < 16" "pk_color ?r = palette_list ! j" "pk_selected ?r = int j"
    using picker_marker [OF assms(5) refl] by blast
  then obtain c' where "HexColor (pk_color ?r) = Some c'" "sanitizeColorHex (pk_color ?r) = pk_color ?r"
    using palette_ok [of "palette_list ! j"] palette_length by auto
  then have "HexColor (pk_color ?r) = Some (playerColor (State
      (greet \<lparr>hello_Nick = nick, hello_Version = ver, hello_ColorHex = pk_color ?r\<rparr> c)))"
    by (simp add: playerColor_def State_def greet_def SetColorHex_def)
  with j picker_click [OF assms(1-4), of clicked _ mx my color] picker_no_click [of clicked lx ly mx my color]
  show ?thesis unfolding Let_def by (metis (no_types, lifting))
qed

theorem picker_correct_witness:
  "let r = drawColorPicker 440 332 (c32 500) (c32 360) True DefaultColor in
   (\<exists>i<16. in_cell 440 (332 + 26) (c32 500) (c32 360) i \<and> pk_color r = palette_list ! i)"
proof -
  have "in_cell 440 (332 + 26) (c32 500) (c32 360) 1" by code_simp
  then have "\<exists>i<16. in_cell 440 (332 + 26) (c32 500) (c32 360) i" by (intro exI [of _ 1]) simp
  moreover have "DefaultColor \<in> set palette_list" by (simp add: DefaultColor_def palette_list_def)
  ultimately show ?thesis
    using picker_correct [of 440 332 DefaultColor "c32 500" "c32 360" True "''''" "''''" undefined]
    unfolding Let_def by (auto split: if_splits)
qed

section \<open>Numbers\<close>

fun dec_digits :: "nat \<Rightarrow> string" where
  "dec_digits v = (if v = 0 then [] else dec_digits (v div 10) @ [char_of (48 + v mod 10)])"

declare dec_digits.simps [simp del]

lemma dec_digits_0 [simp]: "dec_digits 0 = ''''"
  by (simp add: dec_digits.simps [of 0])

text \<open>Reading a decimal number: an optional minus sign and at least one digit.\<close>

definition digit_of :: "char \<Rightarrow> nat option" where
  "digit_of c = (let n = of_char c :: nat in if 48 \<le> n \<and> n \<le> 57 then Some (n - 48) else None)"

fun read_digits :: "nat \<Rightarrow> string \<Rightarrow> nat option" where
  "read_digits n [] = Some n"
| "read_digits n (c # cs) = (case digit_of c of None \<Rightarrow> None | Some d \<Rightarrow> read_digits (n * 10 + d) cs)"

definition read_nat :: "string \<Rightarrow> nat option" where
  "read_nat s = (if s = '''' then None else read_digits 0 s)"

definition read_int :: "string \<Rightarrow> int option" where
  "read_int s = (if s \<noteq> '''' \<and> hd s = CHR ''-'' then map_option (\<lambda>n. - int n) (read_nat (tl s))
     else map_option int (read_nat s))"

lemma read_digits_append:
  "read_digits n (cs @ ds) = Option.bind (read_digits n cs) (\<lambda>m. read_digits m ds)"
  by (induction n cs rule: read_digits.induct) (auto split: option.splits)

lemma digit_char: "d < 10 \<Longrightarrow> digit_of (char_of (48 + d)) = Some d"
  by (simp add: digit_of_def)

lemma read_dec_digits: "read_digits 0 (dec_digits v) = Some v"
proof (induction v rule: dec_digits.induct)
  case (1 v)
  then show ?case
    by (cases "v = 0") (simp_all add: dec_digits.simps [of v] read_digits_append digit_char)
qed

lemma dec_digits_empty: "dec_digits v = '''' \<longleftrightarrow> v = 0"
  by (simp add: dec_digits.simps [of v])

lemma dec_digits_chars: "c \<in> set (dec_digits v) \<Longrightarrow> digit_of c \<noteq> None"
proof (induction v rule: dec_digits.induct)
  case (1 v)
  then show ?case by (auto simp: dec_digits.simps [of v] digit_char split: if_splits)
qed

lemma length_dec_digits: "length (dec_digits v) \<le> n \<longleftrightarrow> v < 10 ^ n"
proof (induction v arbitrary: n rule: dec_digits.induct)
  case (1 v)
  show ?case
  proof (cases "v = 0 \<or> n = 0")
    case True
    then show ?thesis by (auto simp: dec_digits.simps [of v])
  next
    case False
    then obtain m where "n = Suc m" by (cases n) auto
    then show ?thesis using 1 [of m] False
      by (simp add: dec_digits.simps [of v] div_less_iff_less_mult mult.commute)
  qed
qed

lemma put_digits_dec: "put_digits n v buf = (if v < 10 ^ n then Some (dec_digits v @ buf) else None)"
proof (induction n v buf rule: put_digits.induct)
  case (2 i v buf)
  have "v < 10 ^ Suc i \<longleftrightarrow> v div 10 < 10 ^ i"
    by (simp add: div_less_iff_less_mult mult.commute)
  with 2 show ?case by (auto simp: dec_digits.simps [of v])
qed simp

lemma itoa_buf_cases:
  assumes "in_i64 v" "v \<noteq> - (2 ^ 63)" "v \<noteq> 0"
  shows "itoa_buf w v =
    (if nat \<bar>v\<bar> < 10 ^ (if v < 0 then w - 1 else w) then Some ((if v < 0 then ''-'' else '''') @ dec_digits (nat \<bar>v\<bar>)) else None)"
proof -
  have "i64 (- v) = - v" using assms(1,2) by (intro i64_id) (auto simp: in_i64_def)
  moreover have "length (dec_digits (nat \<bar>v\<bar>)) < w \<longleftrightarrow> nat \<bar>v\<bar> < 10 ^ (w - 1)" if "nat \<bar>v\<bar> < 10 ^ w"
  proof (cases w)
    case 0
    then show ?thesis using that assms(3) by simp
  next
    case (Suc n)
    then show ?thesis using length_dec_digits [of "nat \<bar>v\<bar>" n] by (simp add: less_Suc_eq_le)
  qed
  moreover have "nat \<bar>v\<bar> < 10 ^ w" if "nat \<bar>v\<bar> < 10 ^ (w - 1)"
    using that by (meson diff_le_self one_le_numeral order_less_le_trans power_increasing)
  ultimately show ?thesis using assms(3)
    by (auto simp: itoa_buf_def put_digits_dec put_sign_def Let_def)
qed

text \<open>
  The two hand-written number printers of the menus: \<open>itoa\<close> (20 bytes) prints every
  integer but the least one as text that reads back to it, and the least one as a lone minus sign;
  \<open>fmtItoa\<close> (12 bytes) prints the same text where it fits and panics otherwise.
\<close>
theorem itoa_correct:
  assumes "in_i64 v"
  shows "Option.bind (itoa v) read_int = (if v = - (2 ^ 63) then None else Some v) \<and>
     fmtItoa v = (if v = - (2 ^ 63) \<or> - (10 ^ 11) < v \<and> v < 10 ^ 12 then itoa v else None)"
proof (cases "v = 0 \<or> v = - (2 ^ 63)")
  case True
  have "itoa_buf w 0 = Some ''0''" "itoa_buf w (- (2 ^ 63)) = (if 0 < w then Some ''-'' else None)" for w
    using less_trans [of "- 9223372036854775808" 0 "10 ^ w :: int"]
    by (simp_all add: itoa_buf_def i64_def put_digits_dec put_sign_def)
  moreover have "read_int ''0'' = Some 0" "read_int ''-'' = None"
    by (simp_all add: read_int_def read_nat_def digit_of_def)
  ultimately show ?thesis using True unfolding itoa_def fmtItoa_def by (elim disjE) simp_all
next
  case False
  let ?ds = "dec_digits (nat \<bar>v\<bar>)"
  have ds: "?ds \<noteq> ''''" "hd ?ds \<noteq> CHR ''-''" "read_nat ?ds = Some (nat \<bar>v\<bar>)"
    using False dec_digits_empty [of "nat \<bar>v\<bar>"] dec_digits_chars [of "hd ?ds" "nat \<bar>v\<bar>"]
    by (auto simp: read_nat_def read_dec_digits digit_of_def Let_def)
  have "nat \<bar>v\<bar> < 10 ^ 19" using assms False by (auto simp: in_i64_def)
  then have I: "itoa v = Some ((if v < 0 then ''-'' else '''') @ ?ds)"
    using itoa_buf_cases [OF assms, of 20] False by (auto simp: itoa_def)
  then have "Option.bind (itoa v) read_int = Some v"
    using ds by (auto simp: read_int_def)
  moreover have "fmtItoa v = (if - (10 ^ 11) < v \<and> v < 10 ^ 12 then itoa v else None)"
    using itoa_buf_cases [OF assms, of 12] False unfolding I fmtItoa_def by auto
  ultimately show ?thesis using False by simp
qed

theorem itoa_correct_witness: "Option.bind (itoa (- 1024)) read_int = Some (- 1024)"
  using itoa_correct [of "- 1024"] by (simp add: in_i64_def)


section \<open>Hue, saturation and value\<close>

lemma rv32_hue: "rv Binary32 0 = 0" "rv Binary32 1 = 1" "rv Binary32 60 = 60" "rv Binary32 255 = 255"
    "rv Binary32 (11796479 / 32768) = 11796479 / 32768"
    "rv Binary32 (11796479 / 1966080) = 12582911 / 2097152"
    "rv Binary64 (11796479 / 32768) = 11796479 / 32768" "rv Binary64 360 = 360"
  by code_simp+

lemma in32_one: "in32 1 1 1"
  by (simp add: in_rng_def raw32_ops)

lemma unit_sub: "in32 0 1 a \<Longrightarrow> in32 0 1 (1 - a)"
  using fadd_in_rng [of 1 1 "raw32 1" "- 1" 0 "fneg (raw32 a)" Binary32] in32_one
  by (simp add: raw32_ops in_rng_def rv32_hue)

lemma unit_mul: "in32 0 1 a \<Longrightarrow> in32 0 1 b \<Longrightarrow> in32 0 1 (a * b)"
  using fmul_in_rng_nonneg [of 1 "raw32 a" 1 "raw32 b" Binary32] by (simp add: raw32_ops rv32_hue)

lemma value_mul: "in32 0 1 v \<Longrightarrow> rep Binary32 (val32 v) \<Longrightarrow> in32 0 1 a \<Longrightarrow> in32 0 (val32 v) (v * a)"
  using fmul_in_rng_nonneg [of "val32 v" "raw32 v" 1 "raw32 a" Binary32]
  by (simp add: raw32_ops rep_def in_rng_def)

lemma u8_bound: "(255 :: int) < 2 ^ 8" by simp

lemma len8_dimension: "LENGTH(8) = 8" by simp

lemma u8_mono:
  assumes "in32 0 (val32 v) x" "in32 0 1 v"
  shows "u8_of_f32 (x * c32 255) \<le> u8_of_f32 (v * c32 255)"
proof -
  have c: "raw32 (c32 255) = Fin 255" unfolding raw32_ops by (rule mk_exact) (simp_all add: rv32_hue)
  have val: "int_of_f32 (y * c32 255) = \<lfloor>rv Binary32 (val32 y * 255)\<rfloor> \<and> 0 \<le> int_of_f32 (y * c32 255) \<and>
      int_of_f32 (y * c32 255) \<le> 255" if "in32 0 1 y" for y
  proof -
    have b: "0 \<le> rv Binary32 (val32 y * 255)" "rv Binary32 (val32 y * 255) \<le> 255"
      using that rv_mono [of 0 "val32 y * 255" Binary32] rv_mono [of "val32 y * 255" 255 Binary32]
      by (auto simp: in_rng_def rv32_hue)
    have "raw32 (y * c32 255) = mk Binary32 (sign_bit (raw32 y)) (val32 y * 255)"
      using that unfolding raw32_ops(4) c by (subst fmul_fin) (auto simp: in_rng_def)
    moreover have "f_to_int (mk Binary32 n (val32 y * 255)) = \<lfloor>rv Binary32 (val32 y * 255)\<rfloor>" for n
      using b by (auto simp: mk_def mk_sel_def trunc_rat_def Let_def floor_le_iff)
    moreover have "0 \<le> \<lfloor>rv Binary32 (val32 y * 255)\<rfloor>" "\<lfloor>rv Binary32 (val32 y * 255)\<rfloor> \<le> 255"
      using b by (simp_all add: floor_le_iff)
    ultimately show ?thesis by (simp add: int_of_f32_def)
  qed
  have x: "in32 0 1 x" using assms by (auto simp: in_rng_def)
  have "int_of_f32 (x * c32 255) \<le> int_of_f32 (v * c32 255)"
    using val [OF x] val [OF assms(2)] assms(1) by (auto simp: in_rng_def intro!: floor_mono rv_mono)
  then show ?thesis using val [OF x] val [OF assms(2)]
    unfolding u8_of_f32_def word_le_def uint_word_of_int
    by (metis len8_dimension mod_pos_pos_trivial of_int_0_le_iff order_le_less_trans u8_bound)
qed

lemma rep32_below_360:
  assumes "rep Binary32 x" "0 \<le> x" "x < 360"
  shows "x \<le> 11796479 / 32768"
proof (rule ccontr)
  assume "\<not> x \<le> 11796479 / 32768"
  then have b: "11796479 / 32768 < x" by simp
  then have "expo x = 8" using assms by (intro expo_unique) (auto simp: power_int_def)
  then have q: "quantum Binary32 x = - 15" by (simp add: quantum_def)
  have "x = of_int (rne (x * 32768)) / 32768"
    using assms(1) b unfolding rep_def rv_def scale_rne_def by (simp add: q power_int_def field_simps)
  then obtain k where k: "x = of_int k / 32768" by blast
  then have "11796479 < k" "k < 11796480" using b assms(3) by (simp_all add: field_simps)
  then show False by simp
qed

lemma wrap_hue_range:
  assumes "in32 0 360 h" "rep Binary32 (val32 h)" "val32 h < 360"
  shows "in32 0 (11796479 / 32768) (wrap_hue h)"
proof -
  let ?M = "11796479 / 32768 :: rat"
  have h: "in_rng 0 ?M (raw32 h)"
    using rep32_below_360 [OF assms(2)] assms by (auto simp: in_rng_def)
  have "in_rng 0 ?M (raw64 (f64_of h))"
    using cvt_in_rng [OF h, of Binary64] by (simp add: raw64_ops rv32_hue)
  moreover have c: "raw64 (c64 360) = Fin 360" unfolding raw64_ops by (rule mk_exact) (simp_all add: rv32_hue)
  moreover have "trunc_rat (r / 360) = 0" if "0 \<le> r" "r \<le> ?M" for r
    using that by (simp add: trunc_rat_def floor_eq_iff)
  ultimately have "in_rng 0 ?M (raw64 (math_Mod (f64_of h) (c64 360)))"
    using mk_in_rng [of 0 _ ?M Binary64] unfolding math_Mod_def c
    by (cases "raw64 (f64_of h)") (auto simp: in_rng_def rv32_hue trunc_rat_def)
  then have "in32 0 ?M (f32_of (math_Mod (f64_of h) (c64 360)))"
    using cvt_in_rng [of 0 ?M _ Binary32] by (simp add: raw32_ops rv32_hue)
  then show ?thesis by (auto simp: wrap_hue_def less_f32_def raw32_ops in_rng_def Let_def)
qed


lemma sextant_range:
  assumes "in32 0 (11796479 / 32768) h"
  shows "0 \<le> int_of_f32 (h / c32 60) \<and> int_of_f32 (h / c32 60) \<le> 5 \<and>
     in32 0 1 (h / c32 60 - f32_of_int (int_of_f32 (h / c32 60)))"
proof -
  let ?x = "rv Binary32 (val32 h / 60)"
  have c: "raw32 (c32 60) = Fin 60" unfolding raw32_ops by (rule mk_exact) (simp_all add: rv32_hue)
  have b: "0 \<le> ?x" "?x \<le> 12582911 / 2097152"
    using assms rv_mono [of 0 "val32 h / 60" Binary32] rv_mono [of "val32 h / 60" "11796479 / 1966080" Binary32]
    by (auto simp: in_rng_def rv32_hue)
  have eq: "raw32 (h / c32 60) = mk Binary32 (sign_bit (raw32 h)) (val32 h / 60)"
    using assms unfolding raw32_ops(5) c by (subst fdiv_pos) (auto simp: in_rng_def)
  have fin: "fin32 (h / c32 60)" "val32 (h / c32 60) = ?x"
    using mk_fin [of Binary32 "val32 h / 60" "sign_bit (raw32 h)"] b by (simp_all add: eq)
  have i: "int_of_f32 (h / c32 60) = \<lfloor>?x\<rfloor>"
    using b by (auto simp: int_of_f32_def eq mk_def mk_sel_def trunc_rat_def Let_def floor_le_iff)
  have r: "0 \<le> \<lfloor>?x\<rfloor>" "\<lfloor>?x\<rfloor> \<le> 5" using b by (simp_all add: floor_le_iff)
  then have "raw32 (f32_of_int \<lfloor>?x\<rfloor>) = Fin (of_int \<lfloor>?x\<rfloor>)" by (intro mouse_cell) simp
  moreover have "0 \<le> ?x - of_int \<lfloor>?x\<rfloor>" "?x - of_int \<lfloor>?x\<rfloor> \<le> 1" by linarith+
  ultimately have "in32 0 1 (h / c32 60 - f32_of_int \<lfloor>?x\<rfloor>)"
    using fin mk_in_rng [of 0 "?x - of_int \<lfloor>?x\<rfloor>" 1 Binary32]
    unfolding raw32_ops(2) by (subst fadd_fin) (auto simp: rv32_hue)
  with r show ?thesis by (simp add: i)
qed

lemma unit_clamp_unit: "in32 0 1 a \<Longrightarrow> unit_clamp a = a"
  by (auto simp: unit_clamp_def less_f32_def raw32_ops in_rng_def Let_def)

lemma sextant_max:
  fixes u :: "f32 \<Rightarrow> 8 word"
  assumes "0 \<le> i" "i \<le> 5" "u p \<le> u v" "u q \<le> u v" "u t \<le> u v"
  shows "case sextant i v p q t of (r, g, b) \<Rightarrow> max (u r) (max (u g) (u b)) = u v"
proof -
  consider "i = 0" | "i = 1" | "i = 2" | "i = 3" | "i = 4" | "i = 5" using assms(1,2) by linarith
  then show ?thesis using assms(3-5) by cases (simp_all add: sextant_def max_def)
qed

text \<open>
  For a hue of 0 to 360 degrees and a saturation and value of 0 to 1 the colour
  is as bright as its value says: the largest of the three components is exactly the byte of the
  value, and a colour without saturation is that grey. A hue just below 0, which wraps around to 360
  in single precision, hits none of the six sextants and gives black instead of red.
\<close>
theorem hsv_brightness:
  assumes "in32 0 360 h" "rep Binary32 (val32 h)" "val32 h < 360"
    and "in32 0 1 s" "in32 0 1 v" "rep Binary32 (val32 v)"
  shows "let c = HSVToColor h s v; m = u8_of_f32 (v * c32 255) in
      max (col_R c) (max (col_G c) (col_B c)) = m \<and> (eq32 s 0 \<longrightarrow> c = NewColor m m m 255) \<and>
      HSVToColor (c32 (- (1 / 2 ^ 30))) 1 1 = NewColor 0 0 0 255"
proof -
  let ?hh = "wrap_hue h / c32 60" and ?m = "u8_of_f32 (v * c32 255)"
  let ?i = "int_of_f32 ?hh"
  have r: "0 \<le> ?i" "?i \<le> 5" "in32 0 1 (?hh - f32_of_int ?i)"
    using sextant_range [OF wrap_hue_range [OF assms(1-3)]] by simp_all
  have le: "u8_of_f32 (v * a * c32 255) \<le> ?m" if "in32 0 1 a" for a
    using u8_mono [OF value_mul [OF assms(5,6) that] assms(5)] .
  have "u8_of_f32 (v * (1 - s) * c32 255) \<le> ?m"
     "u8_of_f32 (v * (1 - s * (?hh - f32_of_int ?i)) * c32 255) \<le> ?m"
     "u8_of_f32 (v * (1 - s * (1 - (?hh - f32_of_int ?i))) * c32 255) \<le> ?m"
    using assms(4) r(3) by (intro le unit_sub unit_mul; simp)+
  then have "case rgb_of ?hh s v of (r, g, b) \<Rightarrow>
      max (u8_of_f32 (r * c32 255)) (max (u8_of_f32 (g * c32 255)) (u8_of_f32 (b * c32 255))) = ?m"
    unfolding rgb_of_def Let_def using sextant_max [OF r(1,2), of "\<lambda>x. u8_of_f32 (x * c32 255)"] by simp
  then have "max (col_R (HSVToColor h s v)) (max (col_G (HSVToColor h s v)) (col_B (HSVToColor h s v))) = ?m"
    unfolding HSVToColor_def Let_def unit_clamp_unit [OF assms(4)] unit_clamp_unit [OF assms(5)]
    by (auto simp: NewColor_def split: prod.splits)
  moreover have "HSVToColor (c32 (- (1 / 2 ^ 30))) 1 1 = NewColor 0 0 0 255" by code_simp
  ultimately show ?thesis
    by (simp add: Let_def) (simp add: HSVToColor_def Let_def unit_clamp_unit [OF assms(4)] unit_clamp_unit [OF assms(5)])
qed


theorem hsv_brightness_witness:
  "max (col_R (HSVToColor (c32 200) (c32 (1 / 2)) (c32 (3 / 4)))) (max (col_G (HSVToColor (c32 200) (c32 (1 / 2)) (c32 (3 / 4))))
     (col_B (HSVToColor (c32 200) (c32 (1 / 2)) (c32 (3 / 4))))) = u8_of_f32 (c32 (3 / 4) * c32 255)"
proof -
  have "in32 0 360 (c32 200)" "rep Binary32 (val32 (c32 200))" "val32 (c32 200) < 360"
    "in32 0 1 (c32 (1 / 2))" "in32 0 1 (c32 (3 / 4))" "rep Binary32 (val32 (c32 (3 / 4)))" by code_simp+
  then show ?thesis using hsv_brightness [of "c32 200" "c32 (1 / 2)" "c32 (3 / 4)"] unfolding Let_def by blast
qed

end
