(* ===== verification/Chat_Box.thy ===== *)
theory Chat_Box
  imports Client_Link "HOL-Library.Sublist"
begin

text \<open>
  \<open>internal/client/chat/chat.go\<close> and \<open>EditField\<close> of \<open>internal/client/ui/ui.go\<close>: the chat box of the
  client and the editing of an input line. What the raylib library reports about the keyboard in
  one frame is the parameter \<open>keys\<close>: the characters that \<open>GetCharPressed\<close> returns before its first
  0, and which keys were pressed. Drawing is in \<open>Panels\<close>.
\<close>

section \<open>Editing a line\<close>

record keys =
  k_chars :: "int list"
  k_backspace :: bool
  k_enter :: bool
  k_kpenter :: bool
  k_escape :: bool

text \<open>The printable ASCII characters, of which alone the code makes a string.\<close>

definition printable :: "int \<Rightarrow> bool" where "printable ch \<longleftrightarrow> 32 \<le> ch \<and> ch < 127"

definition type_char :: "nat \<Rightarrow> int \<Rightarrow> string \<Rightarrow> string" where
  "type_char cap ch v = (if printable ch \<and> length v < cap then v @ [char_of (nat ch)] else v)"

definition edit_line :: "nat \<Rightarrow> keys \<Rightarrow> string \<Rightarrow> string" where
  "edit_line cap k v =
     (let v' = fold (type_char cap) (k_chars k) v in if k_backspace k \<and> v' \<noteq> [] then butlast v' else v')"

definition EditField :: "keys \<Rightarrow> string \<Rightarrow> bool \<Rightarrow> nat \<Rightarrow> string" where
  "EditField k v focused maxLen = (if focused then edit_line maxLen k v else v)"

section \<open>The chat box\<close>

definition maxLines :: nat where "maxLines = 8"
definition maxInput :: nat where "maxInput = 200"

record ChatBox =
  cb_Lines :: "ChatMessage list"
  cb_Input :: string
  cb_Open :: bool

definition chat_New :: ChatBox where "chat_New = \<lparr>cb_Lines = [], cb_Input = '''', cb_Open = False\<rparr>"

definition Push :: "ChatMessage \<Rightarrow> ChatBox \<Rightarrow> ChatBox" where
  "Push msg c = (let ls = cb_Lines c @ [msg]
     in c\<lparr>cb_Lines := (if maxLines < length ls then drop (length ls - maxLines) ls else ls)\<rparr>)"

definition Begin :: "ChatBox \<Rightarrow> ChatBox" where "Begin c = c\<lparr>cb_Open := True, cb_Input := ''''\<rparr>"
definition BeginWith :: "string \<Rightarrow> ChatBox \<Rightarrow> ChatBox" where "BeginWith p c = c\<lparr>cb_Open := True, cb_Input := p\<rparr>"
definition Cancel :: "ChatBox \<Rightarrow> ChatBox" where "Cancel c = c\<lparr>cb_Open := False, cb_Input := ''''\<rparr>"

definition chat_Update :: "keys \<Rightarrow> ChatBox \<Rightarrow> string option \<times> ChatBox" where
  "chat_Update k c =
     (if \<not> cb_Open c then (None, c)
      else let c' = c\<lparr>cb_Input := edit_line maxInput k (cb_Input c)\<rparr>
        in if k_enter k \<or> k_kpenter k then (Some (cb_Input c'), Cancel c')
           else if k_escape k then (None, Cancel c')
           else (None, c'))"

section \<open>Correctness\<close>

definition line_ok :: "nat \<Rightarrow> string \<Rightarrow> bool" where
  "line_ok cap v \<longleftrightarrow> length v \<le> cap \<and> list_all (\<lambda>x. printable (int (of_char x))) v"

lemma line_ok_type: "line_ok cap v \<Longrightarrow> line_ok cap (type_char cap ch v)"
  by (auto simp: line_ok_def type_char_def printable_def)

lemma line_ok_edit: "line_ok cap v \<Longrightarrow> line_ok cap (edit_line cap k v)"
proof -
  assume "line_ok cap v"
  then have "line_ok cap (fold (type_char cap) cs v)" for cs
    by (induction cs arbitrary: v) (auto intro: line_ok_type)
  then show ?thesis
    by (auto simp: edit_line_def Let_def line_ok_def list_all_iff dest: in_set_butlastD le_trans [OF diff_le_self])
qed

lemma type_chars:
  assumes "list_all printable cs" "length v + length cs \<le> cap"
  shows "fold (type_char cap) cs v = v @ map (\<lambda>ch. char_of (nat ch)) cs"
  using assms by (induction cs arbitrary: v) (auto simp: type_char_def)

definition box_inv :: "ChatBox \<Rightarrow> bool" where
  "box_inv c \<longleftrightarrow> length (cb_Lines c) \<le> maxLines \<and> line_ok maxInput (cb_Input c)"

text \<open>
  The chat box keeps at most the eight newest lines and an input of at most 200 printable ASCII
  characters, whatever is typed. Printable characters are appended as typed while there is room,
  and a text is submitted exactly when the box is open and Enter is pressed: the edited input as
  it stands, after which the box is closed and empty. \<open>BeginWith\<close> is used with a prefix that is
  such an input.
\<close>

theorem chat_box_correct:
  assumes "box_inv c" "line_ok 200 p"
  shows "box_inv (Push x c) \<and> (\<exists>old. cb_Lines (Push x c) = old @ [x] \<and> suffix old (cb_Lines c)) \<and>
    box_inv (Begin c) \<and> box_inv (BeginWith p c) \<and> box_inv (Cancel c) \<and> box_inv (snd (chat_Update k c)) \<and>
    (case fst (chat_Update k c) of
       None \<Rightarrow> \<not> (cb_Open c \<and> (k_enter k \<or> k_kpenter k))
     | Some t \<Rightarrow> cb_Open c \<and> (k_enter k \<or> k_kpenter k) \<and> line_ok 200 t \<and> snd (chat_Update k c) = Cancel c) \<and>
    (cb_Open c \<longrightarrow> list_all printable (k_chars k) \<longrightarrow> length (cb_Input c) + length (k_chars k) \<le> 200 \<longrightarrow> \<not> k_backspace k \<longrightarrow>
     k_enter k \<longrightarrow> fst (chat_Update k c) = Some (cb_Input c @ map (\<lambda>ch. char_of (nat ch)) (k_chars k)))"
proof -
  have ed: "line_ok 200 (edit_line maxInput k (cb_Input c))"
    using line_ok_edit [of maxInput "cb_Input c" k] assms(1) by (simp add: box_inv_def maxInput_def)
  have nil: "line_ok n ''''" for n by (simp add: line_ok_def)
  have push: "box_inv (Push x c)" "\<exists>old. cb_Lines (Push x c) = old @ [x] \<and> suffix old (cb_Lines c)"
  proof -
    show "box_inv (Push x c)" using assms(1) by (auto simp: box_inv_def Push_def Let_def)
    have "cb_Lines (Push x c) = drop (length (cb_Lines c) - 7) (cb_Lines c) @ [x]"
      by (cases "length (cb_Lines c) \<le> 7") (auto simp: Push_def Let_def maxLines_def Suc_diff_le)
    then show "\<exists>old. cb_Lines (Push x c) = old @ [x] \<and> suffix old (cb_Lines c)"
      using suffix_drop by blast
  qed
  have upd: "box_inv (snd (chat_Update k c))"
    using assms(1) ed nil by (auto simp: chat_Update_def Let_def box_inv_def Cancel_def maxInput_def)
  have sub: "case fst (chat_Update k c) of None \<Rightarrow> \<not> (cb_Open c \<and> (k_enter k \<or> k_kpenter k))
     | Some t \<Rightarrow> cb_Open c \<and> (k_enter k \<or> k_kpenter k) \<and> line_ok 200 t \<and> snd (chat_Update k c) = Cancel c"
    using ed by (auto simp: chat_Update_def Let_def Cancel_def)
  have typed: "fst (chat_Update k c) = Some (cb_Input c @ map (\<lambda>ch. char_of (nat ch)) (k_chars k))"
    if "cb_Open c" "list_all printable (k_chars k)" "length (cb_Input c) + length (k_chars k) \<le> 200" "\<not> k_backspace k" "k_enter k"
    using that type_chars [of "k_chars k" "cb_Input c" 200] by (simp add: chat_Update_def edit_line_def maxInput_def Let_def)
  have "box_inv (Begin c)" "box_inv (BeginWith p c)" "box_inv (Cancel c)"
    using assms nil by (simp_all add: box_inv_def Begin_def BeginWith_def Cancel_def maxInput_def)
  with push upd sub typed show ?thesis by blast
qed

theorem chat_box_correct_witness:
  "fst (chat_Update \<lparr>k_chars = [104, 105], k_backspace = False, k_enter = True, k_kpenter = False, k_escape = False\<rparr>
     (Begin chat_New)) = Some ''hi''"
proof -
  let ?k = "\<lparr>k_chars = [104, 105], k_backspace = False, k_enter = True, k_kpenter = False, k_escape = False\<rparr>"
  have "box_inv (Begin chat_New)" "line_ok 200 ''''" by (simp_all add: box_inv_def line_ok_def Begin_def chat_New_def)
  from chat_box_correct [OF this, of zero_chat ?k]
  have "fst (chat_Update ?k (Begin chat_New)) = Some (cb_Input (Begin chat_New) @ map (\<lambda>ch. char_of (nat ch)) [104, 105])"
    by (auto simp: Begin_def chat_New_def printable_def)
  moreover have "char_of (104 :: nat) = CHR ''h''" "char_of (105 :: nat) = CHR ''i''" by code_simp+
  ultimately show ?thesis by (simp add: Begin_def)
qed

end
