(* ===== verification/Raylib.thy ===== *)
theory Raylib
  imports Palette Chat_Box
begin

text \<open>
  What the graphical client takes from outside the repository: the vector and quaternion
  functions of raylib's raymath, the functions of package \<open>math\<close> that only the client uses, the
  collision test of a point and a rectangle, and what raylib reports about keyboard, mouse and
  window in one frame. They are parameters; \<open>raymath_ok\<close> is what raymath documents about its three
  simplest functions.
\<close>

record Quaternion =
  q_X :: f32
  q_Y :: f32
  q_Z :: f32
  q_W :: f32

record Rectangle =
  r_X :: f32
  r_Y :: f32
  r_W :: f32
  r_H :: f32

record raymath =
  rm_Add :: "Vector3 \<Rightarrow> Vector3 \<Rightarrow> Vector3"
  rm_Sub :: "Vector3 \<Rightarrow> Vector3 \<Rightarrow> Vector3"
  rm_Scale :: "Vector3 \<Rightarrow> f32 \<Rightarrow> Vector3"
  rm_Dot :: "Vector3 \<Rightarrow> Vector3 \<Rightarrow> f32"
  rm_Length :: "Vector3 \<Rightarrow> f32"
  rm_Distance :: "Vector3 \<Rightarrow> Vector3 \<Rightarrow> f32"
  rm_Normalize :: "Vector3 \<Rightarrow> Vector3"
  rm_Cross :: "Vector3 \<Rightarrow> Vector3 \<Rightarrow> Vector3"
  rm_Rotate :: "Vector3 \<Rightarrow> Quaternion \<Rightarrow> Vector3"
  rm_AxisAngle :: "Vector3 \<Rightarrow> f32 \<Rightarrow> Quaternion"
  rm_FromTo :: "Vector3 \<Rightarrow> Vector3 \<Rightarrow> Quaternion"
  rm_QMul :: "Quaternion \<Rightarrow> Quaternion \<Rightarrow> Quaternion"
  rm_QNorm :: "Quaternion \<Rightarrow> Quaternion"
  rm_asin :: "f64 \<Rightarrow> f64"
  rm_atan2 :: "f64 \<Rightarrow> f64 \<Rightarrow> f64"
  rm_PointRec :: "f32 \<times> f32 \<Rightarrow> Rectangle \<Rightarrow> bool"

text \<open>Addition, subtraction and scaling of vectors work on each component in \<open>float32\<close>.\<close>

definition raymath_ok :: "raymath \<Rightarrow> bool" where
  "raymath_ok R \<longleftrightarrow>
     (\<forall>a b. rm_Add R a b = vec (v_X a + v_X b) (v_Y a + v_Y b) (v_Z a + v_Z b)) \<and>
     (\<forall>a b. rm_Sub R a b = vec (v_X a - v_X b) (v_Y a - v_Y b) (v_Z a - v_Z b)) \<and>
     (\<forall>a k. rm_Scale R a k = vec (v_X a * k) (v_Y a * k) (v_Z a * k))"

lemma raymath_okD:
  assumes "raymath_ok R"
  shows "rm_Add R a b = vec (v_X a + v_X b) (v_Y a + v_Y b) (v_Z a + v_Z b)"
    "rm_Sub R a b = vec (v_X a - v_X b) (v_Y a - v_Y b) (v_Z a - v_Z b)"
    "rm_Scale R a k = vec (v_X a * k) (v_Y a * k) (v_Z a * k)"
  using assms by (simp_all add: raymath_ok_def)

section \<open>Keyboard, mouse and window\<close>

datatype key = KeyA | KeyB | KeyC | KeyD | KeyE | KeyF | KeyG | KeyH | KeyI | KeyJ | KeyK | KeyM | KeyN
  | KeyQ | KeyR | KeyS | KeyT | KeyW | KeyX | KeySpace | KeySlash | KeyTab | KeyEnter | KeyEscape
  | KeyLeftShift | KeyRightShift | KeyLeftControl | KeyRightControl | KeyF1 | KeyF3 | KeyF8

text \<open>
  One frame: \<open>IsKeyDown\<close>, \<open>IsKeyPressed\<close>, the left button (pressed in this frame, held, released in
  this frame), the other two buttons, the wheel, the position and movement of the mouse, the focus of the window, the size
  of the screen, the text keys of the input fields, and \<open>GetFrameTime\<close>.
\<close>

record frame_in =
  i_down :: "key \<Rightarrow> bool"
  i_pressed :: "key \<Rightarrow> bool"
  i_lmbPressed :: bool
  i_lmbDown :: bool
  i_lmbReleased :: bool
  i_rmbDown :: bool
  i_mmbDown :: bool
  i_wheel :: f32
  i_delta :: "f32 \<times> f32"
  i_mouse :: "f32 \<times> f32"
  i_mouseXY :: "int \<times> int"
  i_focused :: bool
  i_screen :: "int \<times> int"
  i_text :: keys
  i_dt :: f32

definition no_keys :: keys where
  "no_keys = \<lparr>k_chars = [], k_backspace = False, k_enter = False, k_kpenter = False, k_escape = False\<rparr>"

definition idle_frame :: frame_in where
  "idle_frame = \<lparr>i_down = (\<lambda>_. False), i_pressed = (\<lambda>_. False), i_lmbPressed = False, i_lmbDown = False,
     i_lmbReleased = False, i_rmbDown = False, i_mmbDown = False, i_wheel = 0, i_delta = (0, 0), i_mouse = (0, 0), i_mouseXY = (0, 0), i_focused = True,
     i_screen = (1280, 720), i_text = no_keys, i_dt = c32 (1 / 64)\<rparr>"

text \<open>A concrete raymath with the documented sums, as an instance of the parameter.\<close>

definition plain_raymath :: raymath where
  "plain_raymath = \<lparr>rm_Add = (\<lambda>a b. vec (v_X a + v_X b) (v_Y a + v_Y b) (v_Z a + v_Z b)),
     rm_Sub = (\<lambda>a b. vec (v_X a - v_X b) (v_Y a - v_Y b) (v_Z a - v_Z b)),
     rm_Scale = (\<lambda>a k. vec (v_X a * k) (v_Y a * k) (v_Z a * k)),
     rm_Dot = (\<lambda>a b. v_X a * v_X b + v_Y a * v_Y b + v_Z a * v_Z b),
     rm_Length = vlen,
     rm_Distance = (\<lambda>a b. vlen (vec (v_X a - v_X b) (v_Y a - v_Y b) (v_Z a - v_Z b))),
     rm_Normalize = (\<lambda>a. if 0 < vlen a then vec (v_X a / vlen a) (v_Y a / vlen a) (v_Z a / vlen a) else a),
     rm_Cross = (\<lambda>a b. vec (v_Y a * v_Z b - v_Z a * v_Y b) (v_Z a * v_X b - v_X a * v_Z b) (v_X a * v_Y b - v_Y a * v_X b)),
     rm_Rotate = (\<lambda>v q. v), rm_AxisAngle = (\<lambda>v t. \<lparr>q_X = 0, q_Y = 0, q_Z = 0, q_W = 1\<rparr>),
     rm_FromTo = (\<lambda>a b. \<lparr>q_X = 0, q_Y = 0, q_Z = 0, q_W = 1\<rparr>), rm_QMul = (\<lambda>p q. p), rm_QNorm = (\<lambda>q. q),
     rm_asin = (\<lambda>_. 0), rm_atan2 = (\<lambda>_ _. 0),
     rm_PointRec = (\<lambda>(x, y) r. r_X r \<le> x \<and> x < r_X r + r_W r \<and> r_Y r \<le> y \<and> y < r_Y r + r_H r)\<rparr>"

lemma plain_raymath_ok: "raymath_ok plain_raymath"
  by (simp add: raymath_ok_def plain_raymath_def)

end
