(* ===== verification/Flight.thy ===== *)
theory Flight
  imports Raylib
begin

text \<open>
  \<open>internal/client/input\<close>: the flight controller of the local player, in its two modes. In survival
  mode the state is kept relative to the Earth and the heliocentric position is derived from it; in
  creative mode the heliocentric position is the state. \<open>R\<close> is raymath, \<open>i\<close> the input of the frame.
\<close>

datatype flight_mode = ModeCreative | ModeSurvival

record FlightController =
  fc_Pos :: Vector3
  fc_Vel :: Vector3
  fc_Quat :: Quaternion
  fc_TangentForward :: Vector3
  fc_Pitch :: f32
  fc_Speed :: f32
  fc_Sensitivity :: f32
  fc_RollSpeed :: f32
  fc_Riding :: bool
  fc_InBoat :: bool
  fc_Mode :: flight_mode
  fc_EarthPos :: Vector3
  fc_SunPos :: Vector3
  fc_EarthVel :: Vector3
  fc_HelioInit :: bool
  fc_RelPos :: Vector3
  fc_RelVel :: Vector3
  fc_RelInit :: bool
  fc_AttachedBody :: string

text \<open>The component of \<open>v\<close> that is orthogonal to \<open>up\<close>, as the code writes it everywhere.\<close>

definition off_axis :: "raymath \<Rightarrow> Vector3 \<Rightarrow> Vector3 \<Rightarrow> Vector3" where
  "off_axis R v up = rm_Sub R v (rm_Scale R up (rm_Dot R v up))"

definition flight_New :: "raymath \<Rightarrow> Vector3 \<Rightarrow> FlightController" where
  "flight_New R pos =
     (let up = rm_Normalize R pos;
          fw = off_axis R (vec 0 0 1) up;
          fw' = (if rm_Length R fw < c32 (1 / 1000) then off_axis R (vec 0 1 0) up else fw)
      in \<lparr>fc_Pos = pos, fc_Vel = zero_vec, fc_Quat = \<lparr>q_X = 0, q_Y = 0, q_Z = 0, q_W = 1\<rparr>,
          fc_TangentForward = rm_Normalize R fw', fc_Pitch = 0, fc_Speed = c32 40,
          fc_Sensitivity = c32 (25 / 10000), fc_RollSpeed = 1, fc_Riding = False, fc_InBoat = False,
          fc_Mode = ModeSurvival, fc_EarthPos = zero_vec, fc_SunPos = zero_vec, fc_EarthVel = zero_vec,
          fc_HelioInit = False, fc_RelPos = zero_vec, fc_RelVel = zero_vec, fc_RelInit = False,
          fc_AttachedBody = ''''\<rparr>)"

section \<open>Directions\<close>

definition unit_up :: "raymath \<Rightarrow> Vector3 \<Rightarrow> Vector3" where
  "unit_up R rel =
     (let d = rm_Length R rel; d' = (if d < c32 (1 / 100) then c32 (1 / 100) else d) in rm_Scale R rel (1 / d'))"

definition survivalUp :: "raymath \<Rightarrow> FlightController \<Rightarrow> Vector3" where
  "survivalUp R f = unit_up R (rm_Sub R (fc_Pos f) (fc_EarthPos f))"

definition projectToTangent :: "raymath \<Rightarrow> FlightController \<Rightarrow> Vector3 \<Rightarrow> Vector3" where
  "projectToTangent R f v =
     (let up = survivalUp R f;
          out1 = off_axis R v up; l1 = rm_Length R out1;
          out2 = off_axis R (vec 0 0 1) up; l2 = rm_Length R out2
      in if c32 (1 / 1000) < l1 then rm_Scale R out1 (1 / l1)
         else if c32 (1 / 1000) < l2 then rm_Scale R out2 (1 / l2)
         else rm_Normalize R (off_axis R (vec 0 1 0) up))"

definition parallelTransport :: "raymath \<Rightarrow> Vector3 \<Rightarrow> Vector3 \<Rightarrow> FlightController \<Rightarrow> FlightController" where
  "parallelTransport R oldPos newPos f =
     (let oldUp = rm_Normalize R (rm_Sub R oldPos (fc_EarthPos f));
          newUp = rm_Normalize R (rm_Sub R newPos (fc_EarthPos f))
      in if rm_Distance R oldUp newUp < c32 (1 / 10000) then f
         else f\<lparr>fc_TangentForward := rm_Rotate R (fc_TangentForward f) (rm_FromTo R oldUp newUp)\<rparr>)"

definition flight_cameraForward :: "raymath \<Rightarrow> env \<Rightarrow> FlightController \<Rightarrow> Vector3" where
  "flight_cameraForward R E f =
     (let up = survivalUp R f;
          cp = f32_of (m_cos E (f64_of (fc_Pitch f)));
          sp = f32_of (m_sin E (f64_of (fc_Pitch f)))
      in rm_Normalize R (rm_Add R (rm_Scale R (fc_TangentForward f) cp) (rm_Scale R up sp)))"

definition creativeForward :: "raymath \<Rightarrow> FlightController \<Rightarrow> Vector3" where
  "creativeForward R f = rm_Rotate R (vec 0 0 (- 1)) (fc_Quat f)"
definition creativeRight :: "raymath \<Rightarrow> FlightController \<Rightarrow> Vector3" where
  "creativeRight R f = rm_Rotate R (vec 1 0 0) (fc_Quat f)"
definition creativeUp :: "raymath \<Rightarrow> FlightController \<Rightarrow> Vector3" where
  "creativeUp R f = rm_Rotate R (vec 0 1 0) (fc_Quat f)"

definition Forward :: "raymath \<Rightarrow> env \<Rightarrow> FlightController \<Rightarrow> Vector3" where
  "Forward R E f = (if fc_Mode f = ModeCreative then creativeForward R f else flight_cameraForward R E f)"

definition Right :: "raymath \<Rightarrow> env \<Rightarrow> FlightController \<Rightarrow> Vector3" where
  "Right R E f = (if fc_Mode f = ModeCreative then creativeRight R f
     else rm_Normalize R (rm_Cross R (flight_cameraForward R E f) (survivalUp R f)))"

definition Up :: "raymath \<Rightarrow> FlightController \<Rightarrow> Vector3" where
  "Up R f = (if fc_Mode f = ModeCreative then creativeUp R f else survivalUp R f)"

definition CameraUp :: "raymath \<Rightarrow> FlightController \<Rightarrow> Vector3" where
  "CameraUp R f = Up R f"

section \<open>Looking around\<close>

definition maxPitch :: f32 where
  "maxPitch = c32 (89 * (314159265358979323846264338327950288419716939937510582097494459 / 10 ^ 62) / 180)"

definition clamp_pitch :: "f32 \<Rightarrow> f32" where
  "clamp_pitch p = (let p' = (if maxPitch < p then maxPitch else p) in if p' < - maxPitch then - maxPitch else p')"

definition updateSurvivalLook :: "raymath \<Rightarrow> f32 \<times> f32 \<Rightarrow> FlightController \<Rightarrow> FlightController" where
  "updateSurvivalLook R md f =
     (let up = survivalUp R f;
          f' = (if eq32 (fst md) 0 then f
                else f\<lparr>fc_TangentForward := projectToTangent R f
                   (rm_Rotate R (fc_TangentForward f) (rm_AxisAngle R up (- fst md * fc_Sensitivity f)))\<rparr>)
      in f'\<lparr>fc_Pitch := clamp_pitch (fc_Pitch f' - snd md * fc_Sensitivity f')\<rparr>)"

definition turn :: "raymath \<Rightarrow> Vector3 \<Rightarrow> f32 \<Rightarrow> FlightController \<Rightarrow> FlightController" where
  "turn R axis angle f = f\<lparr>fc_Quat := rm_QNorm R (rm_QMul R (fc_Quat f) (rm_AxisAngle R axis angle))\<rparr>"

definition updateCreativeLook :: "raymath \<Rightarrow> frame_in \<Rightarrow> f32 \<times> f32 \<Rightarrow> f32 \<Rightarrow> FlightController \<Rightarrow> FlightController" where
  "updateCreativeLook R i md dt f =
     (let f1 = (if eq32 (fst md) 0 then f else turn R (vec 0 1 0) (- fst md * fc_Sensitivity f) f);
          f2 = (if eq32 (snd md) 0 then f1 else turn R (vec 1 0 0) (- snd md * fc_Sensitivity f1) f1);
          f3 = (if i_down i KeyQ then turn R (vec 0 0 (- 1)) (- fc_RollSpeed f2 * dt) f2 else f2)
      in if i_down i KeyE then turn R (vec 0 0 (- 1)) (fc_RollSpeed f3 * dt) f3 else f3)"

definition UpdateLookOnly :: "raymath \<Rightarrow> frame_in \<Rightarrow> f32 \<Rightarrow> f32 \<times> f32 \<Rightarrow> FlightController \<Rightarrow> FlightController" where
  "UpdateLookOnly R i dt md f =
     (if fc_Mode f = ModeSurvival then updateSurvivalLook R md f else updateCreativeLook R i md dt f)"

section \<open>Creative movement\<close>

definition wish_dir :: "raymath \<Rightarrow> frame_in \<Rightarrow> (key \<times> bool \<times> Vector3) list \<Rightarrow> Vector3" where
  "wish_dir R i steps =
     fold (\<lambda>(k, plus, v) w. if i_down i k then (if plus then rm_Add R w v else rm_Sub R w v) else w) steps zero_vec"

definition updateCreative :: "raymath \<Rightarrow> frame_in \<Rightarrow> f32 \<Rightarrow> FlightController \<Rightarrow> FlightController" where
  "updateCreative R i dt f =
     (let fw = creativeForward R f; rt = creativeRight R f; up = creativeUp R f;
          move = wish_dir R i [(KeyW, True, fw), (KeyS, False, fw), (KeyD, True, rt), (KeyA, False, rt),
                               (KeySpace, True, up), (KeyLeftShift, False, up)];
          l = rm_Length R move;
          f' = (if 0 < l then f\<lparr>fc_Pos := rm_Add R (fc_Pos f)
                   (rm_Scale R (rm_Scale R move (1 / l)) (fc_Speed f * dt))\<rparr> else f)
      in f'\<lparr>fc_Vel := zero_vec\<rparr>)"

section \<open>Survival movement\<close>

record survivalGeom =
  sg_dir :: Vector3
  sg_dist :: f32
  sg_minR :: f32
  sg_onGround :: bool
  sg_walkSpeed :: f32

definition initRelIfNeeded :: "raymath \<Rightarrow> FlightController \<Rightarrow> FlightController" where
  "initRelIfNeeded R f =
     (if fc_RelInit f then f
      else f\<lparr>fc_RelPos := rm_Sub R (fc_Pos f) (fc_EarthPos f), fc_RelVel := rm_Sub R (fc_Vel f) (fc_EarthVel f),
             fc_RelInit := True\<rparr>)"

definition walk_factor :: "bool \<Rightarrow> bool \<Rightarrow> bool \<Rightarrow> rat option" where
  "walk_factor mounted inBoat overWater =
     (if mounted then Some (5 / 2)
      else if inBoat \<and> overWater then Some 2
      else if inBoat \<and> \<not> overWater then Some (15 / 100)
      else if overWater \<and> \<not> inBoat then Some (35 / 100)
      else None)"

definition computeSurvivalGeom :: "raymath \<Rightarrow> env \<Rightarrow> FlightController \<Rightarrow> Vector3 \<Rightarrow> f32 \<Rightarrow> f32 \<Rightarrow> survivalGeom" where
  "computeSurvivalGeom R E f rel groundEps baseWalkSpeed =
     (let d = rm_Length R rel; dis = (if d < c32 (1 / 100) then c32 (1 / 100) else d);
          dir = rm_Scale R rel (1 / dis);
          th = TerrainHeight E (v_X dir) (v_Y dir) (v_Z dir);
          overWater = th < SeaLevel;
          ws = (case walk_factor (fc_Riding f) (fc_InBoat f) overWater of
                  None \<Rightarrow> baseWalkSpeed | Some k \<Rightarrow> baseWalkSpeed * c32 k);
          minR = SurfaceRadius E dir + PlayerHeight
      in \<lparr>sg_dir = dir, sg_dist = dis, sg_minR = minR, sg_onGround = (dis \<le> minR + groundEps), sg_walkSpeed = ws\<rparr>)"

definition applyWalkInput ::
    "raymath \<Rightarrow> frame_in \<Rightarrow> FlightController \<Rightarrow> Vector3 \<Rightarrow> Vector3 \<Rightarrow> survivalGeom \<Rightarrow> Vector3" where
  "applyWalkInput R i f relVel up g =
     (let fwTan = fc_TangentForward f;
          rt = rm_Normalize R (rm_Cross R fwTan up);
          wish = wish_dir R i [(KeyW, True, fwTan), (KeyS, False, fwTan), (KeyD, True, rt), (KeyA, False, rt)];
          l = rm_Length R wish;
          wish' = (if 0 < l then rm_Scale R wish (sg_walkSpeed g / l) else wish);
          velTan = off_axis R relVel up;
          velTan' = (if sg_onGround g
             then rm_Scale R (rm_Add R velTan (rm_Scale R (rm_Sub R wish' velTan) (c32 (1 / 4)))) (c32 (3 / 4))
             else rm_Add R velTan (rm_Scale R (rm_Sub R wish' velTan) (c32 (1 / 20))))
      in rm_Add R (rm_Scale R up (rm_Dot R relVel up)) velTan')"

text \<open>Back to the distance \<open>minR\<close>, and no velocity towards the centre.\<close>

definition push_out :: "raymath \<Rightarrow> Vector3 \<Rightarrow> Vector3 \<Rightarrow> f32 \<Rightarrow> Vector3 \<times> Vector3" where
  "push_out R rel relVel minR =
     (let rel' = rm_Scale R rel (minR / rm_Length R rel);
          nr = rm_Normalize R rel';
          vr = rm_Dot R relVel nr
      in (rel', if vr < 0 then rm_Sub R relVel (rm_Scale R nr vr) else relVel))"

definition collideWithSurface :: "raymath \<Rightarrow> Vector3 \<Rightarrow> Vector3 \<Rightarrow> f32 \<Rightarrow> Vector3 \<times> Vector3" where
  "collideWithSurface R rel relVel minR =
     (if minR \<le> rm_Length R rel then (rel, relVel) else push_out R rel relVel minR)"

text \<open>The main state is written back, the heliocentric one derived from it.\<close>

definition commit_rel :: "raymath \<Rightarrow> Vector3 \<Rightarrow> Vector3 \<Rightarrow> FlightController \<Rightarrow> FlightController" where
  "commit_rel R rel relVel f = f\<lparr>fc_RelPos := rel, fc_RelVel := relVel,
     fc_Pos := rm_Add R (fc_EarthPos f) rel, fc_Vel := rm_Add R (fc_EarthVel f) relVel\<rparr>"

definition transport_to_tangent :: "raymath \<Rightarrow> Vector3 \<Rightarrow> FlightController \<Rightarrow> FlightController" where
  "transport_to_tangent R oldPos f =
     (let f' = parallelTransport R oldPos (fc_Pos f) f
      in f'\<lparr>fc_TangentForward := projectToTangent R f' (fc_TangentForward f')\<rparr>)"

definition updateSurvival :: "raymath \<Rightarrow> env \<Rightarrow> frame_in \<Rightarrow> f32 \<Rightarrow> FlightController \<Rightarrow> FlightController" where
  "updateSurvival R E i dt f =
     (let oldPos = fc_Pos f;
          f1 = initRelIfNeeded R f;
          g = computeSurvivalGeom R E f1 (fc_RelPos f1) (c32 (1 / 2)) (c32 14);
          up = sg_dir g;
          v1 = rm_Sub R (fc_RelVel f1) (rm_Scale R up (c32 30 * dt));
          v2 = applyWalkInput R i f1 v1 up g;
          v3 = (if sg_onGround g \<and> i_down i KeySpace then rm_Add R v2 (rm_Scale R up (c32 16)) else v2);
          (rel, relVel) = collideWithSurface R (rm_Add R (fc_RelPos f1) (rm_Scale R v3 dt)) v3 (sg_minR g)
      in transport_to_tangent R oldPos (commit_rel R rel relVel f1))"

definition SyncToEarthFrame :: "raymath \<Rightarrow> f32 \<Rightarrow> FlightController \<Rightarrow> FlightController" where
  "SyncToEarthFrame R dt f =
     (case fc_Mode f of
        ModeSurvival \<Rightarrow> if fc_RelInit f then f\<lparr>fc_Pos := rm_Add R (fc_EarthPos f) (fc_RelPos f),
            fc_Vel := rm_Add R (fc_EarthVel f) (fc_RelVel f)\<rparr> else f
      | ModeCreative \<Rightarrow> if fc_AttachedBody f = ''earth''
          then f\<lparr>fc_Pos := rm_Add R (fc_Pos f) (rm_Scale R (fc_EarthVel f) dt)\<rparr> else f)"

definition TickPhysicsOnly :: "raymath \<Rightarrow> env \<Rightarrow> f32 \<Rightarrow> FlightController \<Rightarrow> FlightController" where
  "TickPhysicsOnly R E dt f =
     (if fc_Mode f \<noteq> ModeSurvival \<or> \<not> fc_RelInit f then f
      else let oldPos = fc_Pos f; rel = fc_RelPos f; relVel = fc_RelVel f;
               d = rm_Length R rel; dis = (if d < c32 (1 / 100) then c32 (1 / 100) else d);
               up = rm_Scale R rel (1 / dis);
               minR = SurfaceRadius E up + PlayerHeight;
               onGround = (dis \<le> minR + c32 (1 / 2));
               v1 = (if onGround then relVel else rm_Sub R relVel (rm_Scale R up (c32 30 * dt)));
               velTan = rm_Scale R (off_axis R v1 up) (c32 (9 / 10));
               v2 = rm_Add R (rm_Scale R up (rm_Dot R v1 up)) velTan;
               rel1 = rm_Add R rel (rm_Scale R v2 dt);
               (rel', relVel') = (if rm_Length R rel1 < minR then push_out R rel1 v2 minR else (rel1, v2))
           in transport_to_tangent R oldPos (commit_rel R rel' relVel' f))"

section \<open>One frame\<close>

definition next_body :: "string \<Rightarrow> string" where
  "next_body b = (if b = '''' then ''earth'' else if b = ''earth'' then ''sun'' else '''')"

definition wheel_speed :: "f32 \<Rightarrow> f32 \<Rightarrow> f32" where
  "wheel_speed wheel s =
     (if eq32 wheel 0 then s
      else let s1 = s * (1 + wheel * c32 (3 / 10));
               s2 = (if s1 < c32 10 then c32 10 else s1)
           in if c32 5000 < s2 then c32 5000 else s2)"

definition flight_Update :: "raymath \<Rightarrow> env \<Rightarrow> frame_in \<Rightarrow> f32 \<Rightarrow> f32 \<times> f32 \<Rightarrow> FlightController \<Rightarrow> FlightController" where
  "flight_Update R E i dt md f =
     (let f1 = (if fc_Mode f = ModeCreative \<and> i_pressed i KeyR then f\<lparr>fc_AttachedBody := next_body (fc_AttachedBody f)\<rparr> else f);
          f2 = (if fc_Mode f1 = ModeSurvival then updateSurvival R E i dt (updateSurvivalLook R md f1)
                else updateCreative R i dt (updateCreativeLook R i md dt f1))
      in if fc_Mode f2 = ModeCreative then f2\<lparr>fc_Speed := wheel_speed (i_wheel i) (fc_Speed f2)\<rparr> else f2)"

section \<open>Changing the mode\<close>

definition lookRotation :: "raymath \<Rightarrow> Vector3 \<Rightarrow> Vector3 \<Rightarrow> Quaternion" where
  "lookRotation R forward up =
     (let forward = rm_Normalize R forward; up = rm_Normalize R up;
          q1 = rm_FromTo R (vec 0 0 (- 1)) forward;
          upAfter = rm_Rotate R (vec 0 1 0) q1;
          q2 = rm_FromTo R upAfter up
      in rm_QNorm R (rm_QMul R q2 q1))"

definition clamp_sin :: "f32 \<Rightarrow> f32" where
  "clamp_sin s = (if 1 < s then 1 else if s < - 1 then - 1 else s)"

definition to_survival :: "raymath \<Rightarrow> FlightController \<Rightarrow> FlightController" where
  "to_survival R f =
     (let f1 = f\<lparr>fc_RelPos := rm_Sub R (fc_Pos f) (fc_EarthPos f), fc_RelVel := rm_Sub R (fc_Vel f) (fc_EarthVel f),
                 fc_RelInit := True\<rparr>;
          fw = rm_Rotate R (vec 0 0 (- 1)) (fc_Quat f1);
          up = unit_up R (fc_RelPos f1);
          tf = off_axis R fw up; l = rm_Length R tf;
          f2 = (if c32 (1 / 1000) < l then f1\<lparr>fc_TangentForward := rm_Scale R tf (1 / l)\<rparr> else f1)
      in f2\<lparr>fc_Pitch := f32_of (rm_asin R (f64_of (clamp_sin (rm_Dot R fw up))))\<rparr>)"

definition to_creative :: "raymath \<Rightarrow> env \<Rightarrow> FlightController \<Rightarrow> FlightController" where
  "to_creative R E f =
     (let f1 = (if fc_RelInit f then f\<lparr>fc_Pos := rm_Add R (fc_EarthPos f) (fc_RelPos f),
                    fc_Vel := rm_Add R (fc_EarthVel f) (fc_RelVel f)\<rparr> else f);
          fw = flight_cameraForward R E f1;
          f2 = f1\<lparr>fc_Quat := lookRotation R fw (unit_up R (fc_RelPos f1))\<rparr>
      in if fc_AttachedBody f2 = '''' then f2\<lparr>fc_AttachedBody := ''earth''\<rparr> else f2)"

definition SwitchMode :: "raymath \<Rightarrow> env \<Rightarrow> flight_mode \<Rightarrow> FlightController \<Rightarrow> FlightController" where
  "SwitchMode R E newMode f =
     (if fc_Mode f = newMode then f
      else (case newMode of ModeSurvival \<Rightarrow> to_survival R f | ModeCreative \<Rightarrow> to_creative R E f)\<lparr>fc_Mode := newMode\<rparr>)"

end
