(* ===== verification/Flight_Facts.thy ===== *)
theory Flight_Facts
  imports Flight
begin

text \<open>
  What the flight controller keeps: bounds of speed, pitch and the attached body under every
  sequence of its operations, the derivation of the heliocentric position from the relative one, the
  geometry of walking and the change of mode.
\<close>

section \<open>Bounds under every sequence of operations\<close>

text \<open>The calls that the rest of the client makes, with their arguments.\<close>

datatype flight_op =
    OpUpdate env frame_in f32 "f32 \<times> f32"
  | OpLook frame_in f32 "f32 \<times> f32"
  | OpSync f32
  | OpTick env f32
  | OpSwitch env flight_mode
  | OpBodies Vector3 Vector3 Vector3
  | OpPlace Vector3 Vector3 bool
  | OpMount bool bool

fun flight_step :: "raymath \<Rightarrow> flight_op \<Rightarrow> FlightController \<Rightarrow> FlightController" where
  "flight_step R (OpUpdate E i dt md) f = flight_Update R E i dt md f"
| "flight_step R (OpLook i dt md) f = UpdateLookOnly R i dt md f"
| "flight_step R (OpSync dt) f = SyncToEarthFrame R dt f"
| "flight_step R (OpTick E dt) f = TickPhysicsOnly R E dt f"
| "flight_step R (OpSwitch E m) f = SwitchMode R E m f"
| "flight_step R (OpBodies ep ev sp) f = f\<lparr>fc_EarthPos := ep, fc_EarthVel := ev, fc_SunPos := sp\<rparr>"
| "flight_step R (OpPlace p v h) f = f\<lparr>fc_Pos := p, fc_Vel := v, fc_HelioInit := h\<rparr>"
| "flight_step R (OpMount ride boat) f = f\<lparr>fc_Riding := ride, fc_InBoat := boat\<rparr>"

fun op_ok :: "flight_op \<Rightarrow> bool" where
  "op_ok (OpUpdate E i dt md) = (raw32 (i_wheel i) \<noteq> NaN)"
| "op_ok _ = True"

text \<open>What \<open>math.Asin\<close> documents: a result is within a quarter turn, or NaN.\<close>

definition asin_ok :: "raymath \<Rightarrow> bool" where
  "asin_ok R \<longleftrightarrow> (\<forall>x. \<not> c64 (13 / 8) < rm_asin R x \<and> \<not> rm_asin R x < c64 (- (13 / 8)))"

definition not_beyond :: "f32 \<Rightarrow> f32 \<Rightarrow> f32 \<Rightarrow> bool" where
  "not_beyond lo hi p \<longleftrightarrow> \<not> hi < p \<and> \<not> p < lo"

definition flight_inv :: "FlightController \<Rightarrow> bool" where
  "flight_inv f \<longleftrightarrow> in32 10 5000 (fc_Speed f) \<and> fc_AttachedBody f \<in> {'''', ''earth'', ''sun''} \<and>
     not_beyond (c32 (- (13 / 8))) (c32 (13 / 8)) (fc_Pitch f) \<and>
     fc_Sensitivity f = c32 (25 / 10000) \<and> fc_RollSpeed f = 1"

lemma const32:
  "raw32 (c32 10) = Fin 10" "raw32 (c32 5000) = Fin 5000" "raw32 (c32 (13 / 8)) = Fin (13 / 8)"
  "raw32 (c32 (- (13 / 8))) = Fin (- (13 / 8))"
  "raw64 (c64 (13 / 8)) = Fin (13 / 8)" "raw64 (c64 (- (13 / 8))) = Fin (- (13 / 8))"
  by code_simp+

lemma clamp32:
  assumes "raw32 x \<noteq> NaN" "raw32 a = Fin lo" "raw32 b = Fin hi" "lo \<le> hi"
  shows "in32 lo hi (let y = if x < a then a else x in if b < y then b else y)"
  using assms by (cases "raw32 x") (auto simp: less_f32_def flt_def in_rng_def Let_def)

lemma mk_not_NaN: "mk f n x \<noteq> NaN"
  by (simp add: mk_def mk_sel_def)

lemma fadd_not_NaN: "is_fin x \<Longrightarrow> y \<noteq> NaN \<Longrightarrow> fadd f x y \<noteq> NaN"
  by (auto simp: fadd_def mk_not_NaN)

lemma fmul_not_NaN: "x \<noteq> NaN \<Longrightarrow> is_fin y \<Longrightarrow> fval y \<noteq> 0 \<Longrightarrow> fmul f x y \<noteq> NaN \<and> fmul f y x \<noteq> NaN"
  by (cases y) (auto simp: fmul_def mk_not_NaN Let_def)

lemma wheel_speed_range:
  assumes "in32 10 5000 s" "raw32 w \<noteq> NaN"
  shows "in32 10 5000 (wheel_speed w s)"
proof -
  have k: "is_fin (raw32 (c32 (3 / 10)))" "fval (raw32 (c32 (3 / 10))) \<noteq> 0" by code_simp+
  have "raw32 (w * c32 (3 / 10)) \<noteq> NaN" using fmul_not_NaN [OF assms(2) k] by (simp add: raw32_ops(4))
  then have "raw32 (1 + w * c32 (3 / 10)) \<noteq> NaN"
    unfolding raw32_ops(1) by (intro fadd_not_NaN) (simp_all add: raw32_ops)
  then have "raw32 (s * (1 + w * c32 (3 / 10))) \<noteq> NaN"
    using fmul_not_NaN [of "raw32 (1 + w * c32 (3 / 10))" "raw32 s"] assms(1) by (auto simp: raw32_ops(4) in_rng_def)
  from clamp32 [OF this const32(1,2)] assms(1) show ?thesis by (simp add: wheel_speed_def Let_def)
qed

lemma maxPitch_raw: "raw32 maxPitch = Fin (6515193 / 4194304)"
  by code_simp

lemma clamp_pitch_le: "not_beyond (- maxPitch) maxPitch (clamp_pitch p)"
  by (cases "raw32 p") (auto simp: not_beyond_def clamp_pitch_def Let_def less_f32_def flt_def raw32_ops(3) maxPitch_raw)

lemma max_pitch_less: "not_beyond (- maxPitch) maxPitch p \<Longrightarrow> not_beyond (c32 (- (13 / 8))) (c32 (13 / 8)) p"
  by (cases "raw32 p") (auto simp: not_beyond_def less_f32_def flt_def const32 raw32_ops(3) maxPitch_raw)

lemma asin_pitch:
  assumes "asin_ok R"
  shows "not_beyond (c32 (- (13 / 8))) (c32 (13 / 8)) (f32_of (rm_asin R x))"
proof -
  let ?y = "raw64 (rm_asin R x)"
  have b: "\<not> flt (Fin (13 / 8)) ?y" "\<not> flt ?y (Fin (- (13 / 8)))"
    using assms by (auto simp: asin_ok_def less_f64_def const32)
  show ?thesis
  proof (cases ?y)
    case (Fin r)
    then have "in_rng (- (13 / 8)) (13 / 8) ?y" using b by (auto simp: in_rng_def)
    moreover have e: "rv Binary32 (13 / 8) = 13 / 8" by code_simp
    ultimately have "in32 (- (13 / 8)) (13 / 8) (f32_of (rm_asin R x))"
      using cvt_in_rng [of "- (13 / 8)" "13 / 8" ?y Binary32, unfolded rv_minus e] by (simp add: raw32_ops)
    then show ?thesis by (auto simp: not_beyond_def less_f32_def const32 in_rng_def)
  qed (use b in \<open>auto simp: not_beyond_def less_f32_def flt_def const32 raw32_ops(9)\<close>)
qed

text \<open>The fields that the bounds are about, through the parts of a frame.\<close>

definition controls :: "FlightController \<Rightarrow> f32 \<times> string \<times> f32 \<times> f32 \<times> flight_mode" where
  "controls f = (fc_Speed f, fc_AttachedBody f, fc_Sensitivity f, fc_RollSpeed f, fc_Mode f)"

lemma controls_parts:
  "controls (turn R a t f) = controls f" "fc_Pitch (turn R a t f) = fc_Pitch f"
  "controls (updateCreative R i dt f) = controls f" "fc_Pitch (updateCreative R i dt f) = fc_Pitch f"
  "controls (initRelIfNeeded R f) = controls f" "fc_Pitch (initRelIfNeeded R f) = fc_Pitch f"
  "controls (commit_rel R p v f) = controls f" "fc_Pitch (commit_rel R p v f) = fc_Pitch f"
  "controls (parallelTransport R p q f) = controls f" "fc_Pitch (parallelTransport R p q f) = fc_Pitch f"
  "controls (SyncToEarthFrame R dt f) = controls f" "fc_Pitch (SyncToEarthFrame R dt f) = fc_Pitch f"
  "controls (updateSurvivalLook R md f) = controls f"
  by (auto simp: controls_def turn_def updateCreative_def initRelIfNeeded_def commit_rel_def parallelTransport_def
      SyncToEarthFrame_def updateSurvivalLook_def Let_def split: flight_mode.splits)

lemma controls_transport: "controls (transport_to_tangent R p f) = controls f"
    "fc_Pitch (transport_to_tangent R p f) = fc_Pitch f"
  using controls_parts(9,10) [of R p "fc_Pos f" f]
  by (auto simp: transport_to_tangent_def controls_def Let_def)

lemma controls_updateSurvival:
  "controls (updateSurvival R E i dt f) = controls f" "fc_Pitch (updateSurvival R E i dt f) = fc_Pitch f"
  by (simp_all add: updateSurvival_def Let_def controls_transport controls_parts split: prod.split)

lemma controls_tick:
  "controls (TickPhysicsOnly R E dt f) = controls f" "fc_Pitch (TickPhysicsOnly R E dt f) = fc_Pitch f"
  by (simp_all add: TickPhysicsOnly_def Let_def controls_transport controls_parts split: prod.split)

lemma controls_creativeLook:
  "controls (updateCreativeLook R i md dt f) = controls f" "fc_Pitch (updateCreativeLook R i md dt f) = fc_Pitch f"
  by (simp_all add: updateCreativeLook_def Let_def controls_parts)

lemma flight_inv_controls:
  "flight_inv f \<longleftrightarrow> (case controls f of (s, b, se, ro, m) \<Rightarrow> in32 10 5000 s \<and> b \<in> {'''', ''earth'', ''sun''} \<and>
     se = c32 (25 / 10000) \<and> ro = 1) \<and> not_beyond (c32 (- (13 / 8))) (c32 (13 / 8)) (fc_Pitch f)"
  by (auto simp: flight_inv_def controls_def)

lemma flight_inv_cong: "controls f' = controls f \<Longrightarrow> fc_Pitch f' = fc_Pitch f \<Longrightarrow> flight_inv f' = flight_inv f"
  by (simp add: flight_inv_controls)

lemma look_pitch: "not_beyond (- maxPitch) maxPitch (fc_Pitch (updateSurvivalLook R md f))"
  by (simp add: updateSurvivalLook_def Let_def clamp_pitch_le)

lemma look_inv: "flight_inv f \<Longrightarrow> flight_inv (updateSurvivalLook R md f)"
  using max_pitch_less [OF look_pitch] by (simp add: flight_inv_controls controls_parts)


lemma controls_wheel: "flight_inv f \<Longrightarrow> raw32 w \<noteq> NaN \<Longrightarrow> flight_inv (f\<lparr>fc_Speed := wheel_speed w (fc_Speed f)\<rparr>)"
  by (simp add: flight_inv_def wheel_speed_range)

lemma next_body_known: "next_body b \<in> {'''', ''earth'', ''sun''}"
  by (simp add: next_body_def)

lemma flight_Update_inv:
  assumes "flight_inv f" "raw32 (i_wheel i) \<noteq> NaN"
  shows "flight_inv (flight_Update R E i dt md f)"
proof -
  define f1 where "f1 = (if fc_Mode f = ModeCreative \<and> i_pressed i KeyR then f\<lparr>fc_AttachedBody := next_body (fc_AttachedBody f)\<rparr> else f)"
  define f2 where "f2 = (if fc_Mode f1 = ModeSurvival then updateSurvival R E i dt (updateSurvivalLook R md f1)
                else updateCreative R i dt (updateCreativeLook R i md dt f1))"
  have "flight_inv f1"
    using assms(1) next_body_known [of "fc_AttachedBody f"] by (simp add: f1_def flight_inv_def)
  then have "flight_inv f2"
    using look_inv [of f1 R md]
    by (simp add: f2_def flight_inv_controls controls_updateSurvival controls_parts controls_creativeLook)
  then have "flight_inv (if fc_Mode f2 = ModeCreative then f2\<lparr>fc_Speed := wheel_speed (i_wheel i) (fc_Speed f2)\<rparr> else f2)"
    using controls_wheel [OF _ assms(2)] by simp
  then show ?thesis unfolding flight_Update_def Let_def f2_def f1_def .
qed

lemma SwitchMode_inv: "flight_inv f \<Longrightarrow> asin_ok R \<Longrightarrow> flight_inv (SwitchMode R E m f)"
  using asin_pitch [of R]
  by (cases m) (auto simp: SwitchMode_def to_survival_def to_creative_def flight_inv_def Let_def)

lemma flight_step_inv:
  assumes "asin_ok R" "flight_inv f" "op_ok p"
  shows "flight_inv (flight_step R p f)"
proof (cases p)
  case (OpLook i dt md)
  then show ?thesis
    using assms look_inv [of f R md] by (simp add: UpdateLookOnly_def flight_inv_controls controls_creativeLook)
next
  case (OpSync dt)
  then show ?thesis using assms flight_inv_cong [OF controls_parts(11,12)] by simp
next
  case (OpTick E dt)
  then show ?thesis using assms flight_inv_cong [OF controls_tick] by simp
qed (use assms in \<open>simp_all add: flight_Update_inv SwitchMode_inv, simp_all add: flight_inv_def\<close>)

text \<open>
  C26. From a new controller, under every sequence of the calls that the client makes
  (any keys, mouse movements, frame times, positions of the Earth, teleports), the flying speed stays
  between 10 and 5000, the attached body is one of the three known ones and the pitch within a quarter
  turn; after looking around in survival mode it is within 89 degrees.
\<close>
theorem flight_run_inv:
  assumes "asin_ok R" "list_all op_ok ops" "f = fold (flight_step R) ops (flight_New R pos)"
  shows "in32 10 5000 (fc_Speed f) \<and> fc_AttachedBody f \<in> {'''', ''earth'', ''sun''} \<and>
     not_beyond (c32 (- (13 / 8))) (c32 (13 / 8)) (fc_Pitch f) \<and>
     (fc_Mode f = ModeSurvival \<longrightarrow> not_beyond (- maxPitch) maxPitch (fc_Pitch (UpdateLookOnly R i dt md f)))"
proof -
  have "in32 10 5000 (c32 40)" "not_beyond (c32 (- (13 / 8))) (c32 (13 / 8)) 0" by code_simp+
  then have "flight_inv (flight_New R pos)" by (simp add: flight_New_def flight_inv_def Let_def)
  then have "flight_inv f" unfolding assms(3)
    by (rule fold_invariant_on [rotated]) (use assms(1,2) in \<open>auto simp: list_all_iff intro: flight_step_inv\<close>)
  then show ?thesis using look_pitch [of R md f] by (auto simp: flight_inv_def UpdateLookOnly_def)
qed

theorem flight_run_inv_witness:
  "in32 10 5000 (fc_Speed (fold (flight_step plain_raymath)
     [OpSwitch flat_env ModeCreative, OpUpdate flat_env idle_frame 0 (0, 0), OpTick flat_env 1] (flight_New plain_raymath zero_vec)))"
proof -
  have "asin_ok plain_raymath"
    by (simp add: asin_ok_def plain_raymath_def less_f64_def const32 raw64_ops(6))
  moreover have "raw32 (i_wheel idle_frame) \<noteq> NaN" by (simp add: idle_frame_def raw32_ops)
  ultimately show ?thesis
    using flight_run_inv [of plain_raymath "[OpSwitch flat_env ModeCreative, OpUpdate flat_env idle_frame 0 (0, 0), OpTick flat_env 1]"]
    by simp
qed


section \<open>The frame of the Earth\<close>

definition in_frame :: "raymath \<Rightarrow> FlightController \<Rightarrow> bool" where
  "in_frame R f \<longleftrightarrow> fc_RelInit f \<and> fc_Pos f = rm_Add R (fc_EarthPos f) (fc_RelPos f) \<and>
     fc_Vel f = rm_Add R (fc_EarthVel f) (fc_RelVel f)"

lemma transport_frame: "in_frame R (transport_to_tangent R p f) = in_frame R f"
    "fc_EarthPos (transport_to_tangent R p f) = fc_EarthPos f" "fc_EarthVel (transport_to_tangent R p f) = fc_EarthVel f"
    "fc_Mode (transport_to_tangent R p f) = fc_Mode f" "fc_Riding (transport_to_tangent R p f) = fc_Riding f"
    "fc_InBoat (transport_to_tangent R p f) = fc_InBoat f" "fc_HelioInit (transport_to_tangent R p f) = fc_HelioInit f"
  by (auto simp: transport_to_tangent_def parallelTransport_def in_frame_def Let_def)

lemma commit_frame: "in_frame R (commit_rel R p v f) = fc_RelInit f"
  by (auto simp: in_frame_def commit_rel_def)

lemma updateSurvival_frame:
  "in_frame R (updateSurvival R E i dt f)" "fc_EarthPos (updateSurvival R E i dt f) = fc_EarthPos f"
  "fc_EarthVel (updateSurvival R E i dt f) = fc_EarthVel f" "fc_Mode (updateSurvival R E i dt f) = fc_Mode f"
  "fc_HelioInit (updateSurvival R E i dt f) = fc_HelioInit f"
  by (simp_all add: updateSurvival_def Let_def transport_frame commit_frame split: prod.split)
     (simp_all add: initRelIfNeeded_def commit_rel_def)

lemma survivalLook_frame: "fc_EarthPos (updateSurvivalLook R md f) = fc_EarthPos f"
  "fc_EarthVel (updateSurvivalLook R md f) = fc_EarthVel f" "fc_Mode (updateSurvivalLook R md f) = fc_Mode f"
  "fc_HelioInit (updateSurvivalLook R md f) = fc_HelioInit f"
  by (simp_all add: updateSurvivalLook_def Let_def)

text \<open>One frame of the client while it shows a dialog: new positions of the Earth, then the synchronisation.\<close>

definition carry :: "raymath \<Rightarrow> Vector3 \<times> Vector3 \<times> f32 \<Rightarrow> FlightController \<Rightarrow> FlightController" where
  "carry R h f = (case h of (ep, ev, dt) \<Rightarrow> SyncToEarthFrame R dt (f\<lparr>fc_EarthPos := ep, fc_EarthVel := ev\<rparr>))"

lemma carry_survival:
  assumes "fc_Mode f = ModeSurvival" "fc_RelInit f"
  shows "fc_Mode (carry R h f) = ModeSurvival \<and> fc_RelPos (carry R h f) = fc_RelPos f \<and>
     fc_RelVel (carry R h f) = fc_RelVel f \<and> in_frame R (carry R h f) \<and>
     fc_EarthPos (carry R h f) = fst h \<and> fc_EarthVel (carry R h f) = fst (snd h)"
  using assms by (cases h) (simp add: carry_def SyncToEarthFrame_def in_frame_def)

lemma carries_survival:
  assumes "fc_Mode f = ModeSurvival" "fc_RelInit f" "hs \<noteq> []"
  shows "fc_RelPos (fold (carry R) hs f) = fc_RelPos f \<and> fc_RelVel (fold (carry R) hs f) = fc_RelVel f \<and>
     in_frame R (fold (carry R) hs f) \<and> fc_EarthPos (fold (carry R) hs f) = fst (last hs) \<and>
     fc_EarthVel (fold (carry R) hs f) = fst (snd (last hs))"
  using assms
proof (induction hs arbitrary: f)
  case (Cons h hs)
  then show ?case
    using carry_survival [OF Cons.prems(1,2), of R h] by (cases "hs = []") (auto simp: in_frame_def)
qed simp

text \<open>
  In survival mode every update leaves the player at the position of the Earth plus
  the relative position, whatever the input. From then on, however the Earth moves while a dialog
  keeps the physics from running, the player stays exactly where he stood on it: position and velocity
  depend on the last position of the Earth only, no error adds up. In creative mode, by contrast, the
  player attached to the Earth is moved by its velocity frame by frame, and otherwise stays.
\<close>
theorem follows_earth:
  assumes "fc_Mode f = ModeSurvival" "hs \<noteq> []"
  shows "let g = flight_Update R E i dt md f; h = fold (carry R) hs g in
      fc_Pos g = rm_Add R (fc_EarthPos f) (fc_RelPos g) \<and> fc_Vel g = rm_Add R (fc_EarthVel f) (fc_RelVel g) \<and>
      fc_Pos h = rm_Add R (fst (last hs)) (fc_RelPos g) \<and> fc_Vel h = rm_Add R (fst (snd (last hs))) (fc_RelVel g) \<and>
      fc_RelPos h = fc_RelPos g \<and>
      fc_Pos (carry R (ep, ev, t) (c\<lparr>fc_Mode := ModeCreative\<rparr>)) =
        (if fc_AttachedBody c = ''earth'' then rm_Add R (fc_Pos c) (rm_Scale R ev t) else fc_Pos c)"
proof -
  define g where "g = flight_Update R E i dt md f"
  have g: "in_frame R g" "fc_Mode g = ModeSurvival" "fc_EarthPos g = fc_EarthPos f" "fc_EarthVel g = fc_EarthVel f"
    using assms(1) by (simp_all add: g_def flight_Update_def Let_def updateSurvival_frame survivalLook_frame)
  moreover have "fc_RelInit g" using g(1) by (simp add: in_frame_def)
  ultimately show ?thesis
    using carries_survival [OF g(2) _ assms(2), of R] unfolding g_def [symmetric] Let_def
    by (simp add: in_frame_def carry_def SyncToEarthFrame_def)
qed

theorem follows_earth_witness:
  "fc_Pos (fold (carry plain_raymath) [(vec 1 0 0, zero_vec, 1), (vec (c32 12000) 0 0, zero_vec, 1)]
     (flight_Update plain_raymath flat_env idle_frame 0 (0, 0) (flight_New plain_raymath zero_vec))) =
   rm_Add plain_raymath (vec (c32 12000) 0 0) (fc_RelPos (flight_Update plain_raymath flat_env idle_frame 0 (0, 0) (flight_New plain_raymath zero_vec)))"
  using follows_earth [of "flight_New plain_raymath zero_vec"
      "[(vec 1 0 0, zero_vec, 1), (vec (c32 12000) 0 0, zero_vec, 1)]" plain_raymath flat_env idle_frame 0 "(0, 0)"]
  by (simp add: flight_New_def Let_def)

section \<open>Walking\<close>

lemma SurfaceRadius_any:
  assumes "math_ok E" "fin_vec d"
  shows "in32 50 62 (SurfaceRadius E d)"
proof (cases "vlen d < c32 (1 / 100)")
  case True
  have "in32 50 62 PlanetRadius" by code_simp
  then show ?thesis using True by (simp add: SurfaceRadius_def SurfaceRadius_l_def)
next
  case False
  then show ?thesis using sea_clamp_rng [OF height_at_rng [OF assms]] False
    by (auto simp: SurfaceRadius_def SurfaceRadius_l_def elim: in_rng_weaken)
qed

lemma walk_speeds: "c32 14 * c32 (5 / 2) = c32 35" "c32 14 * c32 2 = c32 28"
  by code_simp+

text \<open>
  For every direction in which the player can stand, the radius below
  which he cannot sink is between 51.5 and 63.5, and he walks at 14 units a second: two and a half times
  as fast on a mammoth, twice as fast in a boat on water, and slower swimming or in a boat on land. He is
  on the ground exactly when he is at most half a unit above that radius.
\<close>
theorem computeSurvivalGeom_correct:
  assumes "math_ok E" "g = computeSurvivalGeom R E f rel (c32 (1 / 2)) (c32 14)" "fin_vec (sg_dir g)"
  shows "in32 (103 / 2) (127 / 2) (sg_minR g) \<and>
     (let water = TerrainHeight E (v_X (sg_dir g)) (v_Y (sg_dir g)) (v_Z (sg_dir g)) < SeaLevel in
      sg_walkSpeed g =
        (if fc_Riding f then c32 35
         else if fc_InBoat f then (if water then c32 28 else c32 14 * c32 (3 / 20))
         else if water then c32 14 * c32 (7 / 20) else c32 14)) \<and>
     (sg_onGround g \<longleftrightarrow> sg_dist g \<le> sg_minR g + c32 (1 / 2)) \<and> \<not> sg_dist g < c32 (1 / 100)"
proof -
  have m: "sg_minR g = SurfaceRadius E (sg_dir g) + PlayerHeight" by (simp add: assms(2) computeSurvivalGeom_def Let_def)
  have h: "raw32 PlayerHeight = Fin (3 / 2)" "rv Binary32 (103 / 2) = 103 / 2" "rv Binary32 (127 / 2) = 127 / 2"
    by code_simp+
  have "in32 (103 / 2) (127 / 2) (sg_minR g)"
    using fadd_in_rng [of 50 62 "raw32 (SurfaceRadius E (sg_dir g))" "3 / 2" "3 / 2" "raw32 PlayerHeight" Binary32]
      SurfaceRadius_any [OF assms(1,3)] h
    by (simp add: m raw32_ops(1) in_rng_def)
  moreover have "\<not> c32 (1 / 100) < c32 (1 / 100)" by (simp add: less_f32_def flt_def)
  ultimately show ?thesis
    by (auto simp: assms(2) computeSurvivalGeom_def Let_def walk_factor_def walk_speeds)
qed


theorem computeSurvivalGeom_correct_witness:
  "in32 (103 / 2) (127 / 2) (sg_minR (computeSurvivalGeom (plain_raymath\<lparr>rm_Length := \<lambda>_. c32 64\<rparr>) flat_env
      (flight_New plain_raymath zero_vec) (vec 0 (c32 64) 0) (c32 (1 / 2)) (c32 14)))"
proof -
  have "raw32 (c32 64) = Fin 64" "raw32 (c32 (1 / 100)) = Fin (10737418 / 1073741824)"
    "fin_vec (vec (0 * (1 / c32 64)) (c32 64 * (1 / c32 64)) (0 * (1 / c32 64)))" by code_simp+
  then have "fin_vec (sg_dir (computeSurvivalGeom (plain_raymath\<lparr>rm_Length := \<lambda>_. c32 64\<rparr>) flat_env
      (flight_New plain_raymath zero_vec) (vec 0 (c32 64) 0) (c32 (1 / 2)) (c32 14)))"
    by (simp add: computeSurvivalGeom_def plain_raymath_def Let_def less_f32_def)
  then show ?thesis using computeSurvivalGeom_correct [OF flat_env_ok refl] by blast
qed

section \<open>Changing the mode\<close>

text \<open>The coordinates for which the change of frames is exact.\<close>

definition exact_diff :: "f32 \<Rightarrow> f32 \<Rightarrow> bool" where
  "exact_diff a b \<longleftrightarrow> fin32 a \<and> fin32 b \<and> rep Binary32 (val32 a) \<and> rep Binary32 (val32 a - val32 b) \<and>
     \<bar>val32 a\<bar> \<le> 2 ^ 100 \<and> \<bar>val32 b\<bar> \<le> 2 ^ 100"

definition exact_vec :: "Vector3 \<Rightarrow> Vector3 \<Rightarrow> bool" where
  "exact_vec p q \<longleftrightarrow> exact_diff (v_X p) (v_X q) \<and> exact_diff (v_Y p) (v_Y q) \<and> exact_diff (v_Z p) (v_Z q)"

definition same_point :: "Vector3 \<Rightarrow> Vector3 \<Rightarrow> bool" where
  "same_point p q \<longleftrightarrow> val32 (v_X p) = val32 (v_X q) \<and> val32 (v_Y p) = val32 (v_Y q) \<and> val32 (v_Z p) = val32 (v_Z q)"

lemma exact_there_and_back:
  assumes "exact_diff a b"
  shows "val32 (b + (a - b)) = val32 a"
proof -
  let ?d = "val32 a - val32 b"
  have e: "rv Binary32 ?d = ?d" "rv Binary32 (val32 a) = val32 a" using assms by (simp_all add: exact_diff_def rep_def)
  have "\<bar>?d\<bar> \<le> 2 ^ 102" using assms by (auto simp: exact_diff_def)
  then have "is_fin (mk Binary32 n ?d) \<and> fval (mk Binary32 n ?d) = ?d" for n
    using val32_mk [of ?d n] e by simp
  moreover have "raw32 (a - b) = mk Binary32 (raw32 a = NZero \<and> fneg (raw32 b) = NZero) ?d"
    using assms by (simp add: raw32_ops(2) exact_diff_def fadd_fin)
  ultimately have d: "fin32 (a - b)" "val32 (a - b) = ?d" by simp_all
  have "\<bar>val32 a\<bar> \<le> 2 ^ 102" using assms by (auto simp: exact_diff_def)
  then have "fval (mk Binary32 n (val32 b + ?d)) = val32 a" for n
    using val32_mk [of "val32 a" n] e by simp
  then show ?thesis using assms d by (simp add: raw32_ops(1) exact_diff_def fadd_fin)
qed

text \<open>
  Changing to the mode one is in does nothing. From creative to survival and
  back the player is where he was and as fast as he was, wherever subtracting the position of the Earth
  is exact in single precision; he is attached to a body afterwards, and the change to survival gives a
  relative state that the next frames keep.
\<close>
theorem SwitchMode_roundtrip:
  assumes "raymath_ok R" "fc_Mode f = ModeCreative"
    and "exact_vec (fc_Pos f) (fc_EarthPos f)" "exact_vec (fc_Vel f) (fc_EarthVel f)"
  shows "let s = SwitchMode R E ModeSurvival f; c = SwitchMode R E' ModeCreative s in
      SwitchMode R E ModeCreative f = f \<and> fc_Mode s = ModeSurvival \<and> fc_Mode c = ModeCreative \<and>
      fc_RelInit s \<and> fc_Pos s = fc_Pos f \<and> fc_RelPos s = rm_Sub R (fc_Pos f) (fc_EarthPos f) \<and>
      same_point (fc_Pos c) (fc_Pos f) \<and> same_point (fc_Vel c) (fc_Vel f) \<and>
      same_point (fc_Pos (SyncToEarthFrame R dt s)) (fc_Pos f) \<and> fc_AttachedBody c \<noteq> ''''"
proof -
  have ret: "same_point (rm_Add R q (rm_Sub R p q)) p" if "exact_vec p q" for p q
    using that by (simp add: same_point_def exact_vec_def raymath_okD [OF assms(1)] exact_there_and_back)
  let ?s = "SwitchMode R E ModeSurvival f"
  have s: "fc_Mode ?s = ModeSurvival" "fc_RelInit ?s" "fc_Pos ?s = fc_Pos f" "fc_EarthPos ?s = fc_EarthPos f"
     "fc_EarthVel ?s = fc_EarthVel f" "fc_RelPos ?s = rm_Sub R (fc_Pos f) (fc_EarthPos f)"
     "fc_RelVel ?s = rm_Sub R (fc_Vel f) (fc_EarthVel f)"
    using assms(2) by (simp_all add: SwitchMode_def to_survival_def Let_def)
  define t where "t = ?s"
  note s = s [folded t_def]
  have "fc_Pos (SwitchMode R E' ModeCreative t) = rm_Add R (fc_EarthPos t) (fc_RelPos t)"
    "fc_Vel (SwitchMode R E' ModeCreative t) = rm_Add R (fc_EarthVel t) (fc_RelVel t)"
    "fc_Mode (SwitchMode R E' ModeCreative t) = ModeCreative"
    "fc_AttachedBody (SwitchMode R E' ModeCreative t) \<noteq> []"
    "fc_Pos (SyncToEarthFrame R dt t) = rm_Add R (fc_EarthPos t) (fc_RelPos t)"
    using s(1,2) by (simp_all add: SwitchMode_def to_creative_def Let_def SyncToEarthFrame_def)
  then show ?thesis
    using s ret [OF assms(3)] ret [OF assms(4)] assms(2) unfolding Let_def t_def [symmetric]
    by (simp add: SwitchMode_def [of R E ModeCreative])
qed

theorem SwitchMode_roundtrip_witness:
  "let f = (flight_New plain_raymath (vec (c32 12001) 0 0))\<lparr>fc_Mode := ModeCreative, fc_EarthPos := vec (c32 12000) 0 0\<rparr> in
   same_point (fc_Pos (SwitchMode plain_raymath flat_env ModeCreative (SwitchMode plain_raymath flat_env ModeSurvival f))) (fc_Pos f)"
proof -
  let ?f = "(flight_New plain_raymath (vec (c32 12001) 0 0))\<lparr>fc_Mode := ModeCreative, fc_EarthPos := vec (c32 12000) 0 0\<rparr>"
  have n: "raw32 (c32 12001) = Fin 12001" "raw32 (c32 12000) = Fin 12000" "rv Binary32 12001 = 12001" by code_simp+
  have "rv Binary32 1 = 1" by code_simp
  then have "exact_vec (fc_Pos ?f) (fc_EarthPos ?f)" "exact_vec (fc_Vel ?f) (fc_EarthVel ?f)"
    using n by (simp_all add: exact_vec_def exact_diff_def flight_New_def Let_def rep_def zero_vec_def raw32_ops(6))
  then show ?thesis
    using SwitchMode_roundtrip [OF plain_raymath_ok _ _ , of ?f flat_env flat_env 0] by (simp add: Let_def)
qed

end
