(* ===== verification/App_State.thy ===== *)
theory App_State
  imports Flight_Facts
begin

text \<open>
  The state of the graphical client: the struct \<open>App\<close> of \<open>internal/client/app/app.go\<close> with the groups
  of \<open>state_*.go\<close>, and the modes of \<open>internal/client/state\<close>. Fields that only the log or the drawing
  uses are left out; \<open>a_cursor\<close> is raylib's own state of the cursor (\<open>True\<close> while it is shown),
  which \<open>EnableCursor\<close> and \<open>DisableCursor\<close> change.
\<close>

datatype Mode = ModeMenu | ModePlaying | ModePaused | ModeDead

record Camera3D =
  cam_Position :: Vector3
  cam_Target :: Vector3
  cam_Up :: Vector3

record CameraState =
  cs_camera :: Camera3D
  cs_smoothPos :: Vector3
  cs_smoothTarget :: Vector3
  cs_smoothInit :: bool
  cs_renderTick :: f64
  cs_renderTickInit :: bool
  cs_tickRate :: f64

record UIState =
  ui_cursorCaptured :: bool
  ui_menuNick :: string
  ui_menuAddr :: string
  ui_menuColor :: string
  ui_menuErr :: string
  ui_menuFocus :: int
  ui_showInventory :: bool
  ui_showCraft :: bool
  ui_selectedSlot :: int
  ui_invSlots :: "string list"
  ui_dragging :: bool
  ui_dragFrom :: nat
  ui_showContract :: bool
  ui_contractMobID :: string
  ui_contractPos :: Vector3
  ui_contractOpenedAt :: gotime
  ui_showFactory :: bool
  ui_factoryID :: string
  ui_factoryOpenedAt :: gotime

record earthSnap =
  es_tick :: "64 word"
  es_pos :: Vector3
  es_vel :: Vector3
  es_at :: gotime

record WorldState =
  w_earthPos :: Vector3
  w_earthVel :: Vector3
  w_planet2Pos :: Vector3
  w_planet2Vel :: Vector3
  w_earthPosInit :: bool
  w_earthHistory :: "earthSnap list"

record app_projectile =
  pj_pos :: Vector3
  pj_dir :: Vector3
  pj_spawn :: gotime

record LocalPlayer =
  pl_hp :: int
  pl_hpReceived :: bool
  pl_ridingID :: string
  pl_boatID :: string
  pl_rocketID :: string
  pl_rocketBoardedAt :: gotime
  pl_lastSentHeld :: string
  pl_projectiles :: "app_projectile list"
  pl_flightLocked :: bool
  pl_lockedRelPos :: Vector3
  pl_lockedRelVel :: Vector3

record OrbitState =
  or_showOrbitMap :: bool
  or_azimuth :: f32
  or_elevation :: f32
  or_distance :: f32
  or_init :: bool
  or_focus :: string
  or_dragged :: bool
  or_mouseStartX :: f32
  or_mouseStartY :: f32
  or_earthScrX :: f32
  or_earthScrY :: f32
  or_earthScrR :: f32
  or_sunScrX :: f32
  or_sunScrY :: f32
  or_star2ScrX :: f32
  or_star2ScrY :: f32
  or_planet2ScrX :: f32
  or_planet2ScrY :: f32
  or_rocketScrX :: f32
  or_rocketScrY :: f32

record RocketState =
  rs_hudRocket :: PRocket
  rs_autoPilot :: string
  rs_noseX :: f32
  rs_noseY :: f32
  rs_noseZ :: f32
  rs_noseInit :: bool

record PauseState =
  pa_relPos :: Vector3
  pa_relVel :: Vector3
  pa_unfocusFreeze :: bool
  pa_unfocusRelPos :: Vector3
  pa_unfocusRelVel :: Vector3

record DiagState =
  dg_debugFrame :: int
  dg_diagFrames :: int
  dg_showDebug :: bool
  dg_lastKeys :: string
  dg_lastMouse :: string
  dg_lastLogAt :: gotime
  dg_lastPos :: Vector3

record App =
  a_mode :: Mode
  a_nc :: GameClient
  a_flight :: "FlightController option"
  a_chat :: ChatBox
  a_quit :: bool
  a_diag :: DiagState
  a_ui :: UIState
  a_world :: WorldState
  a_camera :: CameraState
  a_player :: LocalPlayer
  a_orbit :: OrbitState
  a_rocket :: RocketState
  a_pause :: PauseState
  a_cursor :: bool
  a_fullscreen :: bool

section \<open>The start\<close>

definition zero_rocket :: PRocket where
  "zero_rocket = \<lparr>prock_ID = '''', prock_X = 0, prock_Y = 0, prock_Z = 0, prock_DX = 0, prock_DY = 0, prock_DZ = 0,
     prock_Fuel = 0, prock_MaxFuel = 0, prock_Piloted = False, prock_OwnerID = '''', prock_InOrbit = False,
     prock_Apoapsis = 0, prock_Periapsis = 0, prock_Speed = 0, prock_Altitude = 0, prock_TargetVelocity = 0,
     prock_VX = 0, prock_VY = 0, prock_VZ = 0, prock_PrimaryBody = '''', prock_DistSun = 0, prock_SOIRadius = 0\<rparr>"

definition zero_orbit :: OrbitState where
  "zero_orbit = \<lparr>or_showOrbitMap = False, or_azimuth = 0, or_elevation = 0, or_distance = 0, or_init = False,
     or_focus = '''', or_dragged = False, or_mouseStartX = 0, or_mouseStartY = 0, or_earthScrX = 0, or_earthScrY = 0,
     or_earthScrR = 0, or_sunScrX = 0, or_sunScrY = 0, or_star2ScrX = 0, or_star2ScrY = 0, or_planet2ScrX = 0,
     or_planet2ScrY = 0, or_rocketScrX = 0, or_rocketScrY = 0\<rparr>"

text \<open>\<open>New\<close> and the part of \<open>Run\<close> before its loop: the network client, the chat and the camera.\<close>

definition app_New :: "string \<Rightarrow> string \<Rightarrow> App" where
  "app_New nick addr = \<lparr>a_mode = ModeMenu, a_nc = client_New, a_flight = None, a_chat = chat_New, a_quit = False,
     a_diag = \<lparr>dg_debugFrame = 0, dg_diagFrames = 0, dg_showDebug = False, dg_lastKeys = '''', dg_lastMouse = '''',
        dg_lastLogAt = zero_time, dg_lastPos = zero_vec\<rparr>,
     a_ui = \<lparr>ui_cursorCaptured = False, ui_menuNick = nick, ui_menuAddr = addr, ui_menuColor = DefaultColor,
        ui_menuErr = '''', ui_menuFocus = 0, ui_showInventory = False, ui_showCraft = False, ui_selectedSlot = 0,
        ui_invSlots = replicate 256 '''', ui_dragging = False, ui_dragFrom = 0, ui_showContract = False,
        ui_contractMobID = '''', ui_contractPos = zero_vec, ui_contractOpenedAt = zero_time, ui_showFactory = False,
        ui_factoryID = '''', ui_factoryOpenedAt = zero_time\<rparr>,
     a_world = \<lparr>w_earthPos = zero_vec, w_earthVel = zero_vec, w_planet2Pos = zero_vec, w_planet2Vel = zero_vec,
        w_earthPosInit = False, w_earthHistory = []\<rparr>,
     a_camera = \<lparr>cs_camera = \<lparr>cam_Position = vec 0 (c32 5) (c32 40), cam_Target = zero_vec, cam_Up = vec 0 1 0\<rparr>,
        cs_smoothPos = zero_vec, cs_smoothTarget = zero_vec, cs_smoothInit = False, cs_renderTick = 0,
        cs_renderTickInit = False, cs_tickRate = 0\<rparr>,
     a_player = \<lparr>pl_hp = 100, pl_hpReceived = False, pl_ridingID = '''', pl_boatID = '''', pl_rocketID = '''',
        pl_rocketBoardedAt = zero_time, pl_lastSentHeld = '''', pl_projectiles = [], pl_flightLocked = False,
        pl_lockedRelPos = zero_vec, pl_lockedRelVel = zero_vec\<rparr>,
     a_orbit = zero_orbit,
     a_rocket = \<lparr>rs_hudRocket = zero_rocket, rs_autoPilot = '''', rs_noseX = 0, rs_noseY = 0, rs_noseZ = 0, rs_noseInit = False\<rparr>,
     a_pause = \<lparr>pa_relPos = zero_vec, pa_relVel = zero_vec, pa_unfocusFreeze = False, pa_unfocusRelPos = zero_vec,
        pa_unfocusRelVel = zero_vec\<rparr>,
     a_cursor = True, a_fullscreen = False\<rparr>"

section \<open>Small steps that many functions share\<close>

text \<open>A message to the server, whose error is at most logged; \<open>m\<close> gives the bytes of a message.\<close>

definition say :: "(cli_msg \<Rightarrow> bytes) \<Rightarrow> cli_msg \<Rightarrow> App \<Rightarrow> App" where
  "say m msg a = a\<lparr>a_nc := snd (client_send m msg (a_nc a))\<rparr>"

definition EnableCursor :: "App \<Rightarrow> App" where "EnableCursor a = a\<lparr>a_cursor := True\<rparr>"
definition DisableCursor :: "App \<Rightarrow> App" where "DisableCursor a = a\<lparr>a_cursor := False\<rparr>"

definition setCursorCaptured :: "bool \<Rightarrow> App \<Rightarrow> App" where
  "setCursorCaptured c a =
     (if ui_cursorCaptured (a_ui a) = c then a
      else let a' = a\<lparr>a_ui := (a_ui a)\<lparr>ui_cursorCaptured := c\<rparr>\<rparr>
           in if c then DisableCursor a' else EnableCursor a')"

definition cam_pos :: "App \<Rightarrow> Vector3" where
  "cam_pos a = cam_Position (cs_camera (a_camera a))"

text \<open>\<open>protocolVector3Sub\<close>, and the sums that the code writes out per coordinate.\<close>

definition protocolVector3Sub :: "Vector3 \<Rightarrow> Vector3 \<Rightarrow> Vector3" where
  "protocolVector3Sub p q = vec (v_X p - v_X q) (v_Y p - v_Y q) (v_Z p - v_Z q)"

definition vsum :: "Vector3 \<Rightarrow> Vector3 \<Rightarrow> Vector3" where
  "vsum p q = vec (v_X p + v_X q) (v_Y p + v_Y q) (v_Z p + v_Z q)"

text \<open>The camera at the player, looking ahead.\<close>

definition look_camera :: "raymath \<Rightarrow> env \<Rightarrow> FlightController \<Rightarrow> Camera3D" where
  "look_camera R E f = \<lparr>cam_Position = fc_Pos f,
     cam_Target = rm_Add R (fc_Pos f) (rm_Scale R (Forward R E f) (c32 100)), cam_Up = CameraUp R f\<rparr>"

lemma say_parts [simp]: "a_mode (say m x a) = a_mode a" "a_flight (say m x a) = a_flight a" "a_ui (say m x a) = a_ui a"
    "a_player (say m x a) = a_player a" "a_orbit (say m x a) = a_orbit a" "a_world (say m x a) = a_world a"
    "a_camera (say m x a) = a_camera a" "a_cursor (say m x a) = a_cursor a" "a_chat (say m x a) = a_chat a"
    "a_rocket (say m x a) = a_rocket a" "a_pause (say m x a) = a_pause a" "a_quit (say m x a) = a_quit a"
    "a_diag (say m x a) = a_diag a"
  by (simp_all add: say_def)

lemma cursor_parts [simp]:
  "a_mode (setCursorCaptured c a) = a_mode a" "a_flight (setCursorCaptured c a) = a_flight a"
  "a_player (setCursorCaptured c a) = a_player a" "a_orbit (setCursorCaptured c a) = a_orbit a"
  "a_nc (setCursorCaptured c a) = a_nc a" "a_world (setCursorCaptured c a) = a_world a"
  "a_camera (setCursorCaptured c a) = a_camera a" "a_pause (setCursorCaptured c a) = a_pause a"
  "a_rocket (setCursorCaptured c a) = a_rocket a" "a_chat (setCursorCaptured c a) = a_chat a"
  "a_quit (setCursorCaptured c a) = a_quit a" "a_diag (setCursorCaptured c a) = a_diag a"
  by (simp_all add: setCursorCaptured_def EnableCursor_def DisableCursor_def Let_def)

end
