(* ===== verification/Sight.thy ===== *)
theory Sight
  imports App_State
begin

text \<open>
  What the player can reach: \<open>internal/client/app/input.go\<close> (the searches for the nearest well,
  rocket, factory, mob, house, boat, mammoth and seed) and \<open>pickup.go\<close>. The searches share one loop
  over the entities that the network layer knows, with the best squared distance so far; they differ
  in range, in the angle to the direction of view, and in the position that they take for the player.
\<close>

section \<open>The loop\<close>

definition dist2 :: "Vector3 \<Rightarrow> Vector3 \<Rightarrow> f32" where
  "dist2 p cam = sq3 (v_X p - v_X cam) (v_Y p - v_Y cam) (v_Z p - v_Z cam)"

text \<open>The angle is not looked at when the entity is where the camera is.\<close>

definition in_cone :: "f32 \<Rightarrow> Vector3 \<Rightarrow> Vector3 \<Rightarrow> Vector3 \<Rightarrow> bool" where
  "in_cone minDot fw cam p =
     (let dx = v_X p - v_X cam; dy = v_Y p - v_Y cam; dz = v_Z p - v_Z cam; d = sqrt32 (dist2 p cam)
      in if c32 (1 / 100) < d then \<not> (dx * v_X fw + dy * v_Y fw + dz * v_Z fw) / d < minDot else True)"

type_synonym found = "string \<times> Vector3 \<times> f32"

definition sight_step :: "f32 \<Rightarrow> f32 \<Rightarrow> Vector3 \<Rightarrow> Vector3 \<Rightarrow> string \<times> Vector3 \<Rightarrow> found \<Rightarrow> found" where
  "sight_step range2 minDot fw cam e best =
     (case e of (i, p) \<Rightarrow>
        let d2 = dist2 p cam
        in if range2 < d2 then best
           else if \<not> in_cone minDot fw cam p then best
           else if d2 < snd (snd best) then (i, p, d2) else best)"

definition in_sight :: "f32 \<Rightarrow> f32 \<Rightarrow> Vector3 \<Rightarrow> Vector3 \<Rightarrow> (string \<times> Vector3) list \<Rightarrow> found" where
  "in_sight range2 minDot fw cam es = fold (sight_step range2 minDot fw cam) es ('''', zero_vec, range2)"

definition near_step :: "Vector3 \<Rightarrow> string \<times> Vector3 \<Rightarrow> found \<Rightarrow> found" where
  "near_step cam e best = (case e of (i, p) \<Rightarrow> let d2 = dist2 p cam in if d2 < snd (snd best) then (i, p, d2) else best)"

definition nearby :: "f32 \<Rightarrow> Vector3 \<Rightarrow> (string \<times> Vector3) list \<Rightarrow> found" where
  "nearby range2 cam es = fold (near_step cam) es ('''', zero_vec, range2)"

section \<open>The searches\<close>

text \<open>The camera relative to the Earth; \<open>EarthPos\<close> is the newest one the server sent.\<close>

definition geo_cam :: "App \<Rightarrow> Vector3" where
  "geo_cam a = protocolVector3Sub (cam_pos a) (get_EarthPos (a_nc a))"

definition wellInSight :: "Vector3 \<Rightarrow> App \<Rightarrow> string" where
  "wellInSight fw a = fst (in_sight (c32 36) (c32 (1 / 2)) fw (geo_cam a)
     (map (\<lambda>w. (well_ID w, vec (well_X w) (well_Y w) (well_Z w))) (get_Wells (a_nc a))))"

definition rocketInSight :: "Vector3 \<Rightarrow> App \<Rightarrow> string" where
  "rocketInSight fw a = fst (in_sight (c32 64) (c32 (3 / 10)) fw (cam_pos a)
     (map (\<lambda>r. (prock_ID r, vec (prock_X r) (prock_Y r) (prock_Z r))) (get_Rockets (a_nc a))))"

definition factoryInSight :: "Vector3 \<Rightarrow> App \<Rightarrow> string" where
  "factoryInSight fw a = fst (in_sight (c32 36) (c32 (4 / 10)) fw (cam_pos a)
     (map (\<lambda>f. (pfac_ID f, vec (pfac_X f) (pfac_Y f) (pfac_Z f))) (get_Factories (a_nc a))))"

definition pinkMobInSight :: "Vector3 \<Rightarrow> App \<Rightarrow> string \<times> Vector3" where
  "pinkMobInSight fw a = (case in_sight (c32 36) (c32 (4 / 10)) fw (geo_cam a)
       (map (\<lambda>m. (pmob_ID m, vec (pmob_X m) (pmob_Y m) (pmob_Z m)))
         (filter (\<lambda>m. pmob_Kind m = ''pink'') (get_Mobs (a_nc a)))) of
     (i, p, _) \<Rightarrow> (i, p))"

definition houseInSight :: "App \<Rightarrow> string" where
  "houseInSight a = fst (nearby (c32 36) (cam_pos a)
     (map (\<lambda>h. (phouse_ID h, vec (phouse_X h) (phouse_Y h) (phouse_Z h))) (get_Houses (a_nc a))))"

definition free_for :: "string \<Rightarrow> string \<Rightarrow> bool" where
  "free_for me rider \<longleftrightarrow> \<not> (rider \<noteq> '''' \<and> rider \<noteq> me)"

definition boatNearby :: "App \<Rightarrow> string" where
  "boatNearby a = fst (nearby (c32 64) (cam_pos a)
     (map (\<lambda>b. (pboat_ID b, vec (pboat_X b) (pboat_Y b) (pboat_Z b)))
       (filter (\<lambda>b. free_for (get_PlayerID (a_nc a)) (pboat_RiderID b)) (get_Boats (a_nc a)))))"

definition saddledMammothNearby :: "App \<Rightarrow> string" where
  "saddledMammothNearby a = fst (nearby (c32 36) (cam_pos a)
     (map (\<lambda>m. (pmam_ID m, vec (pmam_X m) (pmam_Y m) (pmam_Z m)))
       (filter (\<lambda>m. pmam_Saddle m \<and> free_for (get_PlayerID (a_nc a)) (pmam_RiderID m)) (get_Mammoths (a_nc a)))))"

definition mammothInReach :: "Vector3 \<Rightarrow> App \<Rightarrow> string" where
  "mammothInReach fw a = fst (in_sight (c32 25) (c32 (4 / 10)) fw (cam_pos a)
     (map (\<lambda>m. (pmam_ID m, vec (pmam_X m) (pmam_Y m) (pmam_Z m))) (get_Mammoths (a_nc a))))"

definition seedInSight :: "Vector3 \<Rightarrow> App \<Rightarrow> string" where
  "seedInSight fw a = fst (in_sight (c32 25) (c32 (6 / 10)) fw (geo_cam a)
     (map (\<lambda>r. (res_ID r, vec (res_X r) (res_Y r) (res_Z r)))
       (filter (\<lambda>r. res_Type r = ''seed'') (get_Resources (a_nc a)))))"

definition placeForward :: "raymath \<Rightarrow> Vector3 \<Rightarrow> f32 \<Rightarrow> App \<Rightarrow> Vector3 \<times> f32" where
  "placeForward R fw d a = (rm_Add R (cam_pos a) (rm_Scale R fw d), f32_of (rm_atan2 R (f64_of (v_X fw)) (f64_of (v_Z fw))))"

section \<open>Picking up\<close>

text \<open>The loop of \<open>tryPickup\<close> keeps a distance, not its square.\<close>

definition pickup_step :: "Vector3 \<Rightarrow> Resource \<Rightarrow> Resource option \<times> f32 \<Rightarrow> Resource option \<times> f32" where
  "pickup_step pos r best =
     (let d = dist2 (vec (res_X r) (res_Y r) (res_Z r)) pos
      in if d < snd best * snd best then (Some r, sqrt32 d) else best)"

definition closest_resource :: "Vector3 \<Rightarrow> Resource list \<Rightarrow> Resource option" where
  "closest_resource pos rs = fst (fold (pickup_step pos) rs (None, c32 5))"

definition tryPickup :: "(cli_msg \<Rightarrow> bytes) \<Rightarrow> App \<Rightarrow> App" where
  "tryPickup m a =
     (case a_flight a of
        None \<Rightarrow> a
      | Some f \<Rightarrow>
          (case closest_resource (protocolVector3Sub (fc_Pos f) (get_EarthPos (a_nc a))) (get_Resources (a_nc a)) of
             None \<Rightarrow> a
           | Some r \<Rightarrow> say m (act_PickupItem (res_ID r)) a))"

section \<open>Choosing the least entry of a list\<close>

text \<open>
  The laws by which such a loop finds a least eligible entry: the comparison of the keys is
  irreflexive and transitive. Floating-point numbers satisfy them although NaN makes their order
  partial, because NaN is never below anything.
\<close>

locale selection =
  fixes less :: "'k \<Rightarrow> 'k \<Rightarrow> bool"
  assumes irrefl: "\<not> less x x"
    and transitive: "less x y \<Longrightarrow> less y z \<Longrightarrow> less x z"
begin

definition least_step :: "('e \<Rightarrow> bool) \<Rightarrow> ('e \<Rightarrow> 'k) \<Rightarrow> 'e \<Rightarrow> 'e option \<times> 'k \<Rightarrow> 'e option \<times> 'k" where
  "least_step P key e best = (if P e \<and> less (key e) (snd best) then (Some e, key e) else best)"

definition least :: "('e \<Rightarrow> bool) \<Rightarrow> ('e \<Rightarrow> 'k) \<Rightarrow> 'k \<Rightarrow> 'e list \<Rightarrow> 'e option \<times> 'k" where
  "least P key bound es = fold (least_step P key) es (None, bound)"

lemma least_snoc: "least P key b (es @ [e]) = least_step P key e (least P key b es)"
  by (simp add: least_def)

lemma least_none: "fst (least P key b es) = None \<Longrightarrow> snd (least P key b es) = b"
  by (induction es rule: rev_induct) (auto simp: least_snoc least_step_def least_def split: if_splits)

lemma least_some:
  "fst (least P key b es) = Some e \<Longrightarrow>
     e \<in> set es \<and> P e \<and> less (key e) b \<and> snd (least P key b es) = key e"
proof (induction es arbitrary: e rule: rev_induct)
  case (snoc x es)
  show ?case
  proof (cases "P x \<and> less (key x) (snd (least P key b es))")
    case True
    have "less (key x) b"
    proof (cases "fst (least P key b es)")
      case None
      then show ?thesis using True by (simp add: least_none)
    next
      case (Some y)
      then show ?thesis using snoc.IH True transitive by metis
    qed
    then show ?thesis using snoc.prems True by (simp add: least_snoc least_step_def)
  next
    case False
    then have "least P key b (es @ [x]) = least P key b es" unfolding least_snoc least_step_def by (rule if_not_P)
    with snoc show ?thesis by auto
  qed
qed (simp add: least_def)

lemma least_bound: "\<not> less b (snd (least P key b es))"
proof (cases "fst (least P key b es)")
  case None
  then show ?thesis using least_none irrefl by metis
next
  case (Some e)
  then show ?thesis using least_some irrefl transitive by metis
qed

lemma least_minimal:
  "x \<in> set es \<Longrightarrow> P x \<Longrightarrow> less (key x) b \<Longrightarrow> \<not> less (key x) (snd (least P key b es)) \<and> fst (least P key b es) \<noteq> None"
proof (induction es rule: rev_induct)
  case (snoc y es)
  show ?case
  proof (cases "P y \<and> less (key y) (snd (least P key b es))")
    case True
    have "\<not> less (key x) (key y)"
    proof (cases "x = y")
      case True then show ?thesis by (simp add: irrefl)
    next
      case False
      then have "\<not> less (key x) (snd (least P key b es))" using snoc by simp
      then show ?thesis using True transitive by blast
    qed
    then show ?thesis using True by (simp add: least_snoc least_step_def)
  next
    case False
    then have eq: "least P key b (es @ [y]) = least P key b es" unfolding least_snoc least_step_def by (rule if_not_P)
    show ?thesis
    proof (cases "x = y")
      case True
      then have n: "\<not> less (key x) (snd (least P key b es))" using False snoc.prems by simp
      moreover have "fst (least P key b es) \<noteq> None"
        using least_none [of P key b es] n snoc.prems(3) by metis
      ultimately show ?thesis by (simp add: eq)
    next
      case False
      then show ?thesis using snoc by (simp add: eq)
    qed
  qed
qed simp

end


lemma flt_irrefl: "\<not> flt x x"
  by (auto simp: flt_def)

lemma flt_trans: "flt x y \<Longrightarrow> flt y z \<Longrightarrow> flt x z"
  by (auto simp: flt_def split: if_splits)

interpretation f32_order: selection "(<) :: f32 \<Rightarrow> f32 \<Rightarrow> bool"
  by unfold_locales (auto simp: less_f32_def flt_irrefl intro: flt_trans)

text \<open>The loops of the code choose a least entry.\<close>

definition found_of :: "(string \<times> Vector3) option \<times> f32 \<Rightarrow> found" where
  "found_of x = (case fst x of None \<Rightarrow> ('''', zero_vec, snd x) | Some (i, p) \<Rightarrow> (i, p, snd x))"

definition eligible :: "f32 \<Rightarrow> f32 \<Rightarrow> Vector3 \<Rightarrow> Vector3 \<Rightarrow> string \<times> Vector3 \<Rightarrow> bool" where
  "eligible range2 minDot fw cam e \<longleftrightarrow> dist2 (snd e) cam < range2 \<and> in_cone minDot fw cam (snd e)"

lemma sight_is_least:
  "in_sight range2 minDot fw cam es =
     found_of (f32_order.least (\<lambda>e. \<not> range2 < dist2 (snd e) cam \<and> in_cone minDot fw cam (snd e))
       (\<lambda>e. dist2 (snd e) cam) range2 es)"
proof (induction es rule: rev_induct)
  case Nil
  then show ?case by (simp add: in_sight_def f32_order.least_def found_of_def)
next
  case (snoc e es)
  have sn: "snd (snd (found_of x)) = snd x" for x by (simp add: found_of_def split: option.splits prod.splits)
  have "in_sight range2 minDot fw cam (es @ [e]) = sight_step range2 minDot fw cam e (in_sight range2 minDot fw cam es)"
    by (simp add: in_sight_def)
  then show ?case unfolding snoc f32_order.least_snoc
    by (auto simp: sight_step_def f32_order.least_step_def sn Let_def found_of_def [of "(Some _, _)"] split: prod.splits)
qed

lemma nearby_is_least:
  "nearby range2 cam es = found_of (f32_order.least (\<lambda>e. True) (\<lambda>e. dist2 (snd e) cam) range2 es)"
proof (induction es rule: rev_induct)
  case Nil
  then show ?case by (simp add: nearby_def f32_order.least_def found_of_def)
next
  case (snoc e es)
  have sn: "snd (snd (found_of x)) = snd x" for x by (simp add: found_of_def split: option.splits prod.splits)
  have "nearby range2 cam (es @ [e]) = near_step cam e (nearby range2 cam es)" by (simp add: nearby_def)
  then show ?case unfolding snoc f32_order.least_snoc
    by (auto simp: near_step_def f32_order.least_step_def sn Let_def found_of_def [of "(Some _, _)"] split: prod.splits)
qed

lemma in_sight_cases:
  assumes "\<And>e. e \<in> set es \<Longrightarrow> fst e \<noteq> ''''"
  shows "(fst (in_sight range2 minDot fw cam es) = '''' \<longleftrightarrow> (\<forall>e\<in>set es. \<not> eligible range2 minDot fw cam e)) \<and>
    (fst (in_sight range2 minDot fw cam es) \<noteq> '''' \<longrightarrow>
      (\<exists>e\<in>set es. eligible range2 minDot fw cam e \<and> in_sight range2 minDot fw cam es = (fst e, snd e, dist2 (snd e) cam) \<and>
        (\<forall>e'\<in>set es. eligible range2 minDot fw cam e' \<longrightarrow> \<not> dist2 (snd e') cam < dist2 (snd e) cam)))"
proof -
  let ?P = "\<lambda>e. \<not> range2 < dist2 (snd e) cam \<and> in_cone minDot fw cam (snd e)" and ?k = "\<lambda>e. dist2 (snd e) cam"
  let ?l = "f32_order.least ?P ?k range2 es"
  have el: "?P e \<and> ?k e < range2 \<longleftrightarrow> eligible range2 minDot fw cam e" for e :: "string \<times> Vector3"
    using f32_order.irrefl f32_order.transitive unfolding eligible_def by blast
  show ?thesis
  proof (cases "fst ?l")
    case None
    then have "\<forall>e\<in>set es. \<not> eligible range2 minDot fw cam e" using f32_order.least_minimal [of _ es ?P ?k range2] el by metis
    moreover have "fst (in_sight range2 minDot fw cam es) = ''''" by (simp add: sight_is_least found_of_def None)
    ultimately show ?thesis by simp
  next
    case (Some e)
    note s = f32_order.least_some [OF Some]
    have eq: "in_sight range2 minDot fw cam es = (fst e, snd e, ?k e)"
      using s by (simp add: sight_is_least found_of_def Some split: prod.splits)
    have e: "e \<in> set es" "eligible range2 minDot fw cam e" using s el [of e] by simp_all
    have "\<not> ?k e' < ?k e" if "e' \<in> set es" "eligible range2 minDot fw cam e'" for e'
      using f32_order.least_minimal [of e' es ?P ?k range2] that el [of e'] s by simp
    with e eq assms show ?thesis by auto
  qed
qed

lemma nearby_cases:
  assumes "\<And>e. e \<in> set es \<Longrightarrow> fst e \<noteq> ''''"
  shows "(fst (nearby range2 cam es) = '''' \<longleftrightarrow> (\<forall>e\<in>set es. \<not> dist2 (snd e) cam < range2)) \<and>
    (fst (nearby range2 cam es) \<noteq> '''' \<longrightarrow>
      (\<exists>e\<in>set es. dist2 (snd e) cam < range2 \<and> nearby range2 cam es = (fst e, snd e, dist2 (snd e) cam) \<and>
        (\<forall>e'\<in>set es. \<not> dist2 (snd e') cam < dist2 (snd e) cam)))"
proof -
  let ?k = "\<lambda>e :: string \<times> Vector3. dist2 (snd e) cam"
  let ?l = "f32_order.least (\<lambda>_. True) ?k range2 es"
  show ?thesis
  proof (cases "fst ?l")
    case None
    then have "\<forall>e\<in>set es. \<not> ?k e < range2" using f32_order.least_minimal [of _ es "\<lambda>_. True" ?k range2] by metis
    then show ?thesis by (simp add: nearby_is_least found_of_def None)
  next
    case (Some e)
    note s = f32_order.least_some [OF Some]
    have eq: "nearby range2 cam es = (fst e, snd e, ?k e)"
      using s by (simp add: nearby_is_least found_of_def Some split: prod.splits)
    have "\<not> ?k e' < ?k e" if "e' \<in> set es" for e'
      using f32_order.least_minimal [of e' es "\<lambda>_. True" ?k range2] that s f32_order.transitive [of "?k e'" "?k e" range2] by auto
    with s eq assms show ?thesis by auto
  qed
qed

section \<open>What the searches find\<close>

text \<open>
  \<open>i\<close> is the answer of a search for the nearest entity that satisfies \<open>P\<close>: what \<open>ans\<close> tells of it, or
  \<open>none\<close> when there is no such entity.
\<close>

definition nearest_answer :: "'i \<Rightarrow> ('e \<Rightarrow> 'i) \<Rightarrow> ('e \<Rightarrow> Vector3) \<Rightarrow> Vector3 \<Rightarrow> ('e \<Rightarrow> bool) \<Rightarrow> 'e list \<Rightarrow> 'i \<Rightarrow> bool" where
  "nearest_answer none ans pos cam P es i \<longleftrightarrow>
     (i = none \<longleftrightarrow> (\<forall>e\<in>set es. \<not> P e)) \<and>
     (i \<noteq> none \<longrightarrow> (\<exists>e\<in>set es. P e \<and> ans e = i \<and> (\<forall>e'\<in>set es. P e' \<longrightarrow> \<not> dist2 (pos e') cam < dist2 (pos e) cam)))"

lemma sight_answer:
  assumes "\<And>e. e \<in> set es \<Longrightarrow> idf e \<noteq> ''''"
  shows "nearest_answer '''' idf pos cam (\<lambda>e. Q e \<and> eligible r d fw cam (idf e, pos e)) es
     (fst (in_sight r d fw cam (map (\<lambda>e. (idf e, pos e)) (filter Q es))))"
  using in_sight_cases [of "map (\<lambda>e. (idf e, pos e)) (filter Q es)" r d fw cam] assms
  unfolding nearest_answer_def by (auto; fastforce)

lemma sight_answer_pos:
  assumes "\<And>e. e \<in> set es \<Longrightarrow> idf e \<noteq> ''''"
    and "in_sight r d fw cam (map (\<lambda>e. (idf e, pos e)) (filter Q es)) = (i, p, x)"
  shows "nearest_answer ('''', zero_vec) (\<lambda>e. (idf e, pos e)) pos cam (\<lambda>e. Q e \<and> eligible r d fw cam (idf e, pos e)) es (i, p)"
proof -
  let ?es = "map (\<lambda>e. (idf e, pos e)) (filter Q es)"
  have none: "p = zero_vec" if "i = ''''"
  proof (cases "fst (f32_order.least (\<lambda>e. \<not> r < dist2 (snd e) cam \<and> in_cone d fw cam (snd e)) (\<lambda>e. dist2 (snd e) cam) r ?es)")
    case None
    then show ?thesis using assms(2) by (simp add: sight_is_least found_of_def)
  next
    case (Some e)
    have "fst e \<noteq> ''''" using f32_order.least_some [OF Some] assms(1) by auto
    then show ?thesis using assms(2) that Some by (auto simp: sight_is_least found_of_def split: prod.splits)
  qed
  from in_sight_cases [of ?es r d fw cam] assms
  have c: "(i = '''' \<longleftrightarrow> (\<forall>e\<in>set ?es. \<not> eligible r d fw cam e)) \<and> (i \<noteq> '''' \<longrightarrow>
      (\<exists>e\<in>set ?es. eligible r d fw cam e \<and> (i, p, x) = (fst e, snd e, dist2 (snd e) cam) \<and>
        (\<forall>e'\<in>set ?es. eligible r d fw cam e' \<longrightarrow> \<not> dist2 (snd e') cam < dist2 (snd e) cam)))" by fastforce
  with none show ?thesis unfolding nearest_answer_def by (cases "i = ''''") (auto; fastforce)+
qed

lemma nearby_answer:
  assumes "\<And>e. e \<in> set es \<Longrightarrow> idf e \<noteq> ''''"
  shows "nearest_answer '''' idf pos cam (\<lambda>e. Q e \<and> dist2 (pos e) cam < r) es
     (fst (nearby r cam (map (\<lambda>e. (idf e, pos e)) (filter Q es))))"
  using nearby_cases [of "map (\<lambda>e. (idf e, pos e)) (filter Q es)" r cam] assms
  unfolding nearest_answer_def by (auto; fastforce)

lemma nearby_answer_all:
  assumes "\<And>e. e \<in> set es \<Longrightarrow> idf e \<noteq> ''''"
  shows "nearest_answer '''' idf pos cam (\<lambda>e. dist2 (pos e) cam < r) es
     (fst (nearby r cam (map (\<lambda>e. (idf e, pos e)) es)))"
  using nearby_answer [OF assms, where Q = "\<lambda>_. True"] by simp

lemma sight_answer_all:
  assumes "\<And>e. e \<in> set es \<Longrightarrow> idf e \<noteq> ''''"
  shows "nearest_answer '''' idf pos cam (\<lambda>e. eligible r d fw cam (idf e, pos e)) es
     (fst (in_sight r d fw cam (map (\<lambda>e. (idf e, pos e)) es)))"
  using sight_answer [OF assms, where Q = "\<lambda>_. True"] by simp

definition named_entities :: "GameClient \<Rightarrow> bool" where
  "named_entities c \<longleftrightarrow> list_all (\<lambda>w. well_ID w \<noteq> '''') (g_wells c) \<and> list_all (\<lambda>m. pmob_ID m \<noteq> '''') (g_mobs c) \<and>
     list_all (\<lambda>r. res_ID r \<noteq> '''') (g_resources c) \<and> list_all (\<lambda>b. pboat_ID b \<noteq> '''') (g_boats c) \<and>
     list_all (\<lambda>m. pmam_ID m \<noteq> '''') (g_mammoths c) \<and> list_all (\<lambda>r. prock_ID r \<noteq> '''') (g_rockets c) \<and>
     list_all (\<lambda>f. pfac_ID f \<noteq> '''') (g_factories c) \<and> list_all (\<lambda>h. phouse_ID h \<noteq> '''') (g_houses c)"

text \<open>
  C35. Each of the nine searches answers with the identifier of a nearest entity among those that it
  is looking for, within its range and its angle to the direction of view, and with nothing exactly when
  there is none: wells within 6 units, seeds within 5, pink mobs within 6 (with the position of the same mob), rockets within 8,
  factories within 6, mammoths within 5; and in whatever direction houses within 6, boats
  within 8 that are free or the player's own, and saddled mammoths within 6 likewise. Wells, seeds and mobs are
  measured from the camera relative to the Earth, the others from the camera as it is.
\<close>
theorem searches_correct:
  assumes "named_entities (a_nc a)"
  shows "nearest_answer '''' (\<lambda>e. well_ID e) (\<lambda>e. vec (well_X e) (well_Y e) (well_Z e)) (geo_cam a)
      (\<lambda>e. eligible (c32 36) (c32 (1 / 2)) fw (geo_cam a) (well_ID e, vec (well_X e) (well_Y e) (well_Z e)))
      (g_wells (a_nc a)) (wellInSight fw a) \<and>
    nearest_answer '''' (\<lambda>e. res_ID e) (\<lambda>e. vec (res_X e) (res_Y e) (res_Z e)) (geo_cam a)
      (\<lambda>e. res_Type e = ''seed'' \<and> eligible (c32 25) (c32 (6 / 10)) fw (geo_cam a) (res_ID e, vec (res_X e) (res_Y e) (res_Z e)))
      (g_resources (a_nc a)) (seedInSight fw a) \<and>
    nearest_answer ('''', zero_vec) (\<lambda>e. (pmob_ID e, vec (pmob_X e) (pmob_Y e) (pmob_Z e))) (\<lambda>e. vec (pmob_X e) (pmob_Y e) (pmob_Z e)) (geo_cam a)
      (\<lambda>e. pmob_Kind e = ''pink'' \<and> eligible (c32 36) (c32 (4 / 10)) fw (geo_cam a) (pmob_ID e, vec (pmob_X e) (pmob_Y e) (pmob_Z e)))
      (g_mobs (a_nc a)) (pinkMobInSight fw a) \<and>
    nearest_answer '''' (\<lambda>e. prock_ID e) (\<lambda>e. vec (prock_X e) (prock_Y e) (prock_Z e)) (cam_pos a)
      (\<lambda>e. eligible (c32 64) (c32 (3 / 10)) fw (cam_pos a) (prock_ID e, vec (prock_X e) (prock_Y e) (prock_Z e)))
      (g_rockets (a_nc a)) (rocketInSight fw a) \<and>
    nearest_answer '''' (\<lambda>e. pfac_ID e) (\<lambda>e. vec (pfac_X e) (pfac_Y e) (pfac_Z e)) (cam_pos a)
      (\<lambda>e. eligible (c32 36) (c32 (4 / 10)) fw (cam_pos a) (pfac_ID e, vec (pfac_X e) (pfac_Y e) (pfac_Z e)))
      (g_factories (a_nc a)) (factoryInSight fw a) \<and>
    nearest_answer '''' (\<lambda>e. pmam_ID e) (\<lambda>e. vec (pmam_X e) (pmam_Y e) (pmam_Z e)) (cam_pos a)
      (\<lambda>e. eligible (c32 25) (c32 (4 / 10)) fw (cam_pos a) (pmam_ID e, vec (pmam_X e) (pmam_Y e) (pmam_Z e)))
      (g_mammoths (a_nc a)) (mammothInReach fw a) \<and>
    nearest_answer '''' (\<lambda>e. phouse_ID e) (\<lambda>e. vec (phouse_X e) (phouse_Y e) (phouse_Z e)) (cam_pos a)
      (\<lambda>e. dist2 (vec (phouse_X e) (phouse_Y e) (phouse_Z e)) (cam_pos a) < c32 36)
      (g_houses (a_nc a)) (houseInSight a) \<and>
    nearest_answer '''' (\<lambda>e. pboat_ID e) (\<lambda>e. vec (pboat_X e) (pboat_Y e) (pboat_Z e)) (cam_pos a)
      (\<lambda>e. pboat_RiderID e \<in> {'''', g_playerID (a_nc a)} \<and> dist2 (vec (pboat_X e) (pboat_Y e) (pboat_Z e)) (cam_pos a) < c32 64)
      (g_boats (a_nc a)) (boatNearby a) \<and>
    nearest_answer '''' (\<lambda>e. pmam_ID e) (\<lambda>e. vec (pmam_X e) (pmam_Y e) (pmam_Z e)) (cam_pos a)
      (\<lambda>e. (pmam_Saddle e \<and> pmam_RiderID e \<in> {'''', g_playerID (a_nc a)}) \<and> dist2 (vec (pmam_X e) (pmam_Y e) (pmam_Z e)) (cam_pos a) < c32 36)
      (g_mammoths (a_nc a)) (saddledMammothNearby a)"
proof -
  have n: "\<And>w. w \<in> set (g_wells (a_nc a)) \<Longrightarrow> well_ID w \<noteq> ''''" "\<And>w. w \<in> set (g_mobs (a_nc a)) \<Longrightarrow> pmob_ID w \<noteq> ''''"
    "\<And>w. w \<in> set (g_resources (a_nc a)) \<Longrightarrow> res_ID w \<noteq> ''''" "\<And>w. w \<in> set (g_boats (a_nc a)) \<Longrightarrow> pboat_ID w \<noteq> ''''"
    "\<And>w. w \<in> set (g_mammoths (a_nc a)) \<Longrightarrow> pmam_ID w \<noteq> ''''" "\<And>w. w \<in> set (g_rockets (a_nc a)) \<Longrightarrow> prock_ID w \<noteq> ''''"
    "\<And>w. w \<in> set (g_factories (a_nc a)) \<Longrightarrow> pfac_ID w \<noteq> ''''" "\<And>w. w \<in> set (g_houses (a_nc a)) \<Longrightarrow> phouse_ID w \<noteq> ''''"
    using assms by (simp_all add: named_entities_def list_all_iff)
  have free: "free_for me r \<longleftrightarrow> r \<in> {'''', me}" for me r by (auto simp: free_for_def)
  obtain i p x where pink: "in_sight (c32 36) (c32 (4 / 10)) fw (geo_cam a)
       (map (\<lambda>m. (pmob_ID m, vec (pmob_X m) (pmob_Y m) (pmob_Z m))) (filter (\<lambda>m. pmob_Kind m = ''pink'') (g_mobs (a_nc a)))) = (i, p, x)"
    using prod_cases3 by blast
  then have p: "pinkMobInSight fw a = (i, p)" by (simp add: pinkMobInSight_def get_Mobs_def)
  show ?thesis
    unfolding wellInSight_def seedInSight_def rocketInSight_def factoryInSight_def mammothInReach_def houseInSight_def
      boatNearby_def saddledMammothNearby_def getter_defs free p
    by (intro conjI sight_answer_all sight_answer sight_answer_pos [OF _ pink] nearby_answer_all nearby_answer n)
qed

definition well_here :: App where
  "well_here = (app_New [] [])\<lparr>a_nc := client_New\<lparr>g_wells :=
     [\<lparr>well_ID = ''w'', well_X = 0, well_Y = c32 5, well_Z = c32 40\<rparr>]\<rparr>\<rparr>"

theorem searches_correct_witness: "wellInSight zero_vec well_here = ''w''"
proof -
  have s: "a_nc well_here = client_New\<lparr>g_wells := [\<lparr>well_ID = ''w'', well_X = 0, well_Y = c32 5, well_Z = c32 40\<rparr>]\<rparr>"
    "geo_cam well_here = vec (0 - 0) (c32 5 - 0) (c32 40 - 0)"
    by (simp_all add: well_here_def app_New_def geo_cam_def cam_pos_def protocolVector3Sub_def get_EarthPos_def client_New_def zero_vec_def)
  have "named_entities (a_nc well_here)" by (simp add: s named_entities_def client_New_def)
  note sc = searches_correct [OF this, of zero_vec]
  have "eligible (c32 36) (c32 (1 / 2)) zero_vec (geo_cam well_here) (''w'', vec 0 (c32 5) (c32 40))"
    unfolding s(2) by code_simp
  then show ?thesis using conjunct1 [OF sc] by (auto simp: nearest_answer_def s(1))
qed

end
