(* ===== verification/Hands.thy ===== *)
theory Hands
  imports Sight
begin

text \<open>
  What the player does with keys and mouse in the world: \<open>update_playing_items.go\<close> and
  \<open>update_playing_input.go\<close> (held items, the empty hand, mounting, the slot wheel), and the local
  projectiles of \<open>projectiles.go\<close>.
\<close>

section \<open>Held items\<close>

definition heldItem :: "App \<Rightarrow> string" where
  "heldItem a = (let k = ui_selectedSlot (a_ui a); slots = ui_invSlots (a_ui a) in
     if k < 0 \<or> int (length slots) \<le> k then '''' else slots ! nat k)"

text \<open>\<open>(s + 1) % 16\<close> and \<open>(s + 15) % 16\<close>, with Go's truncated remainder.\<close>

definition updateSlotWheel :: "frame_in \<Rightarrow> App \<Rightarrow> App" where
  "updateSlotWheel i a =
     (case a_flight a of
        None \<Rightarrow> a
      | Some f \<Rightarrow>
          if fc_Mode f \<noteq> ModeSurvival then a
          else if 0 < i_wheel i then a\<lparr>a_ui := (a_ui a)\<lparr>ui_selectedSlot := (ui_selectedSlot (a_ui a) + 1) smod 16\<rparr>\<rparr>
          else if i_wheel i < 0 then a\<lparr>a_ui := (a_ui a)\<lparr>ui_selectedSlot := (ui_selectedSlot (a_ui a) + 15) smod 16\<rparr>\<rparr>
          else a)"

definition syncHeldItem :: "(cli_msg \<Rightarrow> bytes) \<Rightarrow> App \<Rightarrow> App" where
  "syncHeldItem m a =
     (let held = heldItem a
      in if held = pl_lastSentHeld (a_player a) then a
         else say m (act_SelectItem held) (a\<lparr>a_player := (a_player a)\<lparr>pl_lastSentHeld := held\<rparr>\<rparr>))"

definition throwSpear :: "(cli_msg \<Rightarrow> bytes) \<Rightarrow> env \<Rightarrow> Vector3 \<Rightarrow> App \<Rightarrow> App" where
  "throwSpear m E fw a =
     (let a' = say m (act_ThrowSpear fw) a
      in a'\<lparr>a_player := (a_player a')\<lparr>pl_projectiles := pl_projectiles (a_player a') @
           [\<lparr>pj_pos = geo_cam a', pj_dir = fw, pj_spawn = e_now E\<rparr>]\<rparr>\<rparr>)"

definition useFruit :: "raymath \<Rightarrow> (cli_msg \<Rightarrow> bytes) \<Rightarrow> Vector3 \<Rightarrow> App \<Rightarrow> App" where
  "useFruit R m fw a =
     (let k = mammothInReach fw a
      in if k \<noteq> '''' then say m (act_TameMammoth k) a
         else let pos = protocolVector3Sub (rm_Add R (cam_pos a) (rm_Scale R fw (c32 2))) (get_EarthPos (a_nc a))
              in say m (act_PlantSeed (v_X pos) (v_Y pos) (v_Z pos)) a)"

definition useWater :: "(cli_msg \<Rightarrow> bytes) \<Rightarrow> Vector3 \<Rightarrow> App \<Rightarrow> App" where
  "useWater m fw a = (let k = seedInSight fw a in if k \<noteq> '''' then say m (act_WaterPlant k) a else a)"

definition useLeash :: "(cli_msg \<Rightarrow> bytes) \<Rightarrow> Vector3 \<Rightarrow> App \<Rightarrow> App" where
  "useLeash m fw a = (let k = mammothInReach fw a in if k \<noteq> '''' then say m (act_LeashMammoth k) a else a)"

definition placeStructure :: "raymath \<Rightarrow> (cli_msg \<Rightarrow> bytes) \<Rightarrow> Vector3 \<Rightarrow> string \<Rightarrow> App \<Rightarrow> App" where
  "placeStructure R m fw kind a =
     (case placeForward R fw (c32 5) a of (p, yaw) \<Rightarrow>
        if kind = ''house'' then say m (act_PlaceHouse (v_X p) (v_Y p) (v_Z p) yaw) a
        else if kind = ''solar'' then say m (act_PlaceSolar (v_X p) (v_Y p) (v_Z p) yaw) a
        else if kind = ''battery'' then say m (act_PlaceBattery (v_X p) (v_Y p) (v_Z p) yaw) a
        else if kind = ''factory'' then say m (act_PlaceFactory (v_X p) (v_Y p) (v_Z p) yaw) a
        else a)"

definition handleHeldItemClick :: "raymath \<Rightarrow> (cli_msg \<Rightarrow> bytes) \<Rightarrow> env \<Rightarrow> Vector3 \<Rightarrow> string \<Rightarrow> App \<Rightarrow> App" where
  "handleHeldItemClick R m E fw held a =
     (if held = ''spear'' then throwSpear m E fw a
      else if held = ''fruit'' then useFruit R m fw a
      else if held = ''water'' then useWater m fw a
      else if held = ''leash'' then useLeash m fw a
      else if held \<in> {''house'', ''solar'', ''battery'', ''factory''} then placeStructure R m fw held a
      else if held = ''rocket'' then
        (case placeForward R fw (c32 5) a of (p, _) \<Rightarrow> say m (act_PlaceRocket (v_X p) (v_Y p) (v_Z p)) a)
      else if held = ''boat'' then
        (case placeForward R fw (c32 5) a of (p, yaw) \<Rightarrow> say m (act_PlaceBoat (v_X p) (v_Y p) (v_Z p) yaw) a)
      else if held = ''saddle'' then
        (let k = mammothInReach fw a in if k \<noteq> '''' then say m (act_SaddleMammoth k) a else a)
      else a)"

section \<open>The empty hand\<close>

definition handleEmptyHandClick :: "(cli_msg \<Rightarrow> bytes) \<Rightarrow> env \<Rightarrow> Vector3 \<Rightarrow> App \<Rightarrow> bool \<times> App" where
  "handleEmptyHandClick m E fw a =
     (let r = rocketInSight fw a; fa = factoryInSight fw a; (mob, pos) = pinkMobInSight fw a;
          h = houseInSight a; s = saddledMammothNearby a
      in if r \<noteq> '''' then
           (let a' = say m (act_BoardRocket r) a
            in (True, a'\<lparr>a_player := (a_player a')\<lparr>pl_rocketID := r, pl_rocketBoardedAt := e_now E\<rparr>\<rparr>))
         else if fa \<noteq> '''' then
           (True, EnableCursor (a\<lparr>a_ui := (a_ui a)\<lparr>ui_factoryID := fa, ui_showFactory := True, ui_factoryOpenedAt := e_now E\<rparr>\<rparr>))
         else if mob \<noteq> '''' then
           (True, EnableCursor (a\<lparr>a_ui := (a_ui a)\<lparr>ui_contractMobID := mob, ui_contractPos := pos, ui_showContract := True,
              ui_contractOpenedAt := e_now E\<rparr>\<rparr>))
         else if h \<noteq> '''' then (False, say m (act_ToggleDoor h) a)
         else if s \<noteq> '''' then (False, say m (act_SaddleMammoth s) a)
         else (False, a))"

definition handleMouseClick :: "raymath \<Rightarrow> (cli_msg \<Rightarrow> bytes) \<Rightarrow> env \<Rightarrow> frame_in \<Rightarrow> App \<Rightarrow> bool \<times> App" where
  "handleMouseClick R m E i a =
     (case a_flight a of
        None \<Rightarrow> (False, a)
      | Some f \<Rightarrow>
          if \<not> i_lmbPressed i then (False, a)
          else let fw = Forward R E f; w = wellInSight fw a; held = heldItem a
               in if w \<noteq> '''' then (False, say m (act_TakeWater w) a)
                  else if held = '''' then handleEmptyHandClick m E fw a
                  else (False, handleHeldItemClick R m E fw held a))"

section \<open>Keys\<close>

definition set_flight :: "(FlightController \<Rightarrow> FlightController) \<Rightarrow> App \<Rightarrow> App" where
  "set_flight g a = a\<lparr>a_flight := map_option g (a_flight a)\<rparr>"

definition handleMountKey :: "(cli_msg \<Rightarrow> bytes) \<Rightarrow> frame_in \<Rightarrow> App \<Rightarrow> App" where
  "handleMountKey m i a =
     (if \<not> i_pressed i KeyE \<or> a_flight a = None then a
      else if pl_ridingID (a_player a) \<noteq> '''' then
        set_flight (\<lambda>f. f\<lparr>fc_Riding := False\<rparr>)
          (let a' = say m (act_RideMammoth '''') a in a'\<lparr>a_player := (a_player a')\<lparr>pl_ridingID := ''''\<rparr>\<rparr>)
      else if pl_boatID (a_player a) \<noteq> '''' then
        set_flight (\<lambda>f. f\<lparr>fc_InBoat := False\<rparr>)
          (let a' = say m (act_EnterBoat '''') a in a'\<lparr>a_player := (a_player a')\<lparr>pl_boatID := ''''\<rparr>\<rparr>)
      else let k = saddledMammothNearby a; b = boatNearby a
           in if k \<noteq> '''' then set_flight (\<lambda>f. f\<lparr>fc_Riding := True\<rparr>)
                (let a' = say m (act_RideMammoth k) a in a'\<lparr>a_player := (a_player a')\<lparr>pl_ridingID := k\<rparr>\<rparr>)
              else if b \<noteq> '''' then set_flight (\<lambda>f. f\<lparr>fc_InBoat := True\<rparr>)
                (let a' = say m (act_EnterBoat b) a in a'\<lparr>a_player := (a_player a')\<lparr>pl_boatID := b\<rparr>\<rparr>)
              else a)"

definition handlePickupKey :: "(cli_msg \<Rightarrow> bytes) \<Rightarrow> frame_in \<Rightarrow> App \<Rightarrow> App" where
  "handlePickupKey m i a = (if i_pressed i KeyF then tryPickup m a else a)"

definition handleChatKeys :: "frame_in \<Rightarrow> App \<Rightarrow> bool \<times> App" where
  "handleChatKeys i a =
     (if i_pressed i KeyT then (True, a\<lparr>a_chat := Begin (a_chat a)\<rparr>)
      else if i_pressed i KeySlash then (True, a\<lparr>a_chat := BeginWith ''/'' (a_chat a)\<rparr>)
      else (False, a))"

section \<open>Local projectiles\<close>

definition segSphereHit :: "raymath \<Rightarrow> Vector3 \<Rightarrow> Vector3 \<Rightarrow> Vector3 \<Rightarrow> f32 \<Rightarrow> bool" where
  "segSphereHit R a b c r =
     (let ab = rm_Sub R b a; ac = rm_Sub R c a; abLen2 = rm_Dot R ab ab
      in if abLen2 < c32 (1 / 1000000) then (let d = rm_Sub R a c in rm_Dot R d d < r * r)
         else let t = rm_Dot R ac ab / abLen2;
                  t' = (if t < 0 then 0 else if 1 < t then 1 else t);
                  closest = rm_Add R a (rm_Scale R ab t');
                  d = rm_Sub R closest c
              in rm_Dot R d d < r * r)"

text \<open>What becomes of one projectile in a frame; a hit names the first entity of the list that is hit.\<close>

datatype shot = ShotGone | ShotMob string | ShotMammoth string | ShotFlies app_projectile

definition first_hit :: "raymath \<Rightarrow> Vector3 \<Rightarrow> Vector3 \<Rightarrow> f32 \<Rightarrow> (string \<times> Vector3) list \<Rightarrow> string" where
  "first_hit R p q r es = (case find (\<lambda>e. segSphereHit R p q (snd e) r) es of None \<Rightarrow> '''' | Some e \<Rightarrow> fst e)"

definition shot_step :: "raymath \<Rightarrow> env \<Rightarrow> f32 \<Rightarrow> GameClient \<Rightarrow> app_projectile \<Rightarrow> shot" where
  "shot_step R E dt c p =
     (if c64 (3 / 2) < dur_seconds (time_sub (e_now E) (pj_spawn p)) then ShotGone
      else let p' = p\<lparr>pj_pos := rm_Add R (pj_pos p) (rm_Scale R (pj_dir p) (c32 60 * dt))\<rparr>;
               mob = first_hit R (pj_pos p) (pj_pos p') (c32 3)
                 (map (\<lambda>x. (pmob_ID x, vec (pmob_X x) (pmob_Y x) (pmob_Z x))) (get_Mobs c));
               mam = first_hit R (pj_pos p) (pj_pos p') (c32 (7 / 2))
                 (map (\<lambda>x. (pmam_ID x, vec (pmam_X x) (pmam_Y x) (pmam_Z x))) (get_Mammoths c))
           in if mob \<noteq> '''' then ShotMob mob else if mam \<noteq> '''' then ShotMammoth mam else ShotFlies p')"

definition shot_loop :: "raymath \<Rightarrow> env \<Rightarrow> (cli_msg \<Rightarrow> bytes) \<Rightarrow> f32 \<Rightarrow> GameClient \<Rightarrow> app_projectile \<Rightarrow>
    app_projectile list \<times> App \<Rightarrow> app_projectile list \<times> App" where
  "shot_loop R E m dt c p acc =
     (case shot_step R E dt c p of
        ShotGone \<Rightarrow> acc
      | ShotMob k \<Rightarrow> (fst acc, say m (act_HitMob k) (snd acc))
      | ShotMammoth k \<Rightarrow> (fst acc, say m (act_HitMammoth k) (snd acc))
      | ShotFlies p' \<Rightarrow> (fst acc @ [p'], snd acc))"

definition app_updateProjectiles :: "raymath \<Rightarrow> env \<Rightarrow> (cli_msg \<Rightarrow> bytes) \<Rightarrow> frame_in \<Rightarrow> App \<Rightarrow> App" where
  "app_updateProjectiles R E m i a =
     (if pl_projectiles (a_player a) = [] then a
      else case fold (shot_loop R E m (i_dt i) (a_nc a)) (pl_projectiles (a_player a)) ([], a) of
        (alive, a') \<Rightarrow> a'\<lparr>a_player := (a_player a')\<lparr>pl_projectiles := alive\<rparr>\<rparr>)"

section \<open>Two coordinate systems\<close>

text \<open>
  Entities on the planet have coordinates relative to its centre, the camera has heliocentric ones.
  A camera that is not near the origin of the heliocentric system is far from all of them.
\<close>

definition on_planet :: "f32 \<Rightarrow> f32 \<Rightarrow> f32 \<Rightarrow> bool" where
  "on_planet x y z \<longleftrightarrow> in32 (- 100) 100 x \<and> in32 (- 100) 100 y \<and> in32 (- 100) 100 z"

definition far_camera :: "Vector3 \<Rightarrow> bool" where
  "far_camera p \<longleftrightarrow> in32 200 16000000 (v_X p) \<and> in32 (- 16000000) 16000000 (v_Y p) \<and> in32 (- 16000000) 16000000 (v_Z p)"

lemma rv32_far: "rv Binary32 16000100 = 16000100" "rv Binary32 100 = 100" "rv Binary32 10000 = 10000"
  by code_simp+

lemma fneg_in_rng: "in_rng a b x \<Longrightarrow> in_rng (- b) (- a) (fneg x)"
  by (simp add: in_rng_def)

lemma near_minus_far:
  assumes "in32 (- 100) 100 x" "in32 lo 16000000 c" "- 16000000 \<le> lo"
  shows "in32 (- 16000100) (rv Binary32 (100 - lo)) (x - c)"
proof -
  have c: "in_rng (- 16000000) (- lo) (fneg (raw32 c))" using assms(2) fneg_in_rng by blast
  have "rv Binary32 (100 + - lo) \<le> rv Binary32 16000100" using assms(3) by (intro rv_mono) simp
  then have "rv Binary32 (100 + - lo) \<le> fmax Binary32" by (simp add: rv32_far)
  then have "in_rng (rv Binary32 (- 100 + - 16000000)) (rv Binary32 (100 + - lo)) (fadd Binary32 (raw32 x) (fneg (raw32 c)))"
    by (intro fadd_in_rng [OF assms(1) c]) (simp_all add: rv_minus rv32_far)
  then show ?thesis by (simp add: raw32_ops(2) rv_minus rv32_far)
qed

lemma dist2_far:
  assumes "on_planet x y z" "far_camera cam"
  shows "at_least 10000 (raw32 (dist2 (vec x y z) cam))"
proof -
  have dx: "in32 (- 16000100) (- 100) (x - v_X cam)"
    using near_minus_far [of x 200 "v_X cam"] assms rv32_far(2) rv_minus [of Binary32 100]
    by (simp add: on_planet_def far_camera_def)
  have d: "fin32 (y - v_Y cam)" "fin32 (z - v_Z cam)"
    using near_minus_far [of y "- 16000000" "v_Y cam"] near_minus_far [of z "- 16000000" "v_Z cam"] assms
    by (simp_all add: on_planet_def far_camera_def in_rng_def)
  have sq: "at_least 0 (raw32 (w * w))" if "fin32 w" for w
    using fmul_self_at_least [OF that, of Binary32] rv_nonneg [of "val32 w * val32 w" Binary32]
    by (simp add: raw32_ops(4) at_least_weaken)
  have "100 * 100 \<le> (- val32 (x - v_X cam)) * (- val32 (x - v_X cam))"
    using dx by (intro mult_mono) (auto simp: in_rng_def)
  then have "rv Binary32 10000 \<le> rv Binary32 (val32 (x - v_X cam) * val32 (x - v_X cam))" by (intro rv_mono) simp
  then have xx: "at_least 10000 (raw32 ((x - v_X cam) * (x - v_X cam)))"
    using fmul_self_at_least [of "raw32 (x - v_X cam)" Binary32] dx
    by (auto simp: raw32_ops(4) rv32_far in_rng_def intro: at_least_weaken)
  have "at_least (rv Binary32 10000) (raw32 ((x - v_X cam) * (x - v_X cam) + (y - v_Y cam) * (y - v_Y cam)))"
    unfolding raw32_ops(1) by (intro fadd_at_least xx sq d) simp
  then have "at_least (rv Binary32 10000) (raw32 ((x - v_X cam) * (x - v_X cam) + (y - v_Y cam) * (y - v_Y cam) + (z - v_Z cam) * (z - v_Z cam)))"
    unfolding raw32_ops(1) [of "_ + _"] rv32_far(3)
    by (intro fadd_at_least [where c = 10000 and f = Binary32, unfolded rv32_far(3)] sq d) simp_all
  then show ?thesis by (simp add: dist2_def sq3_def rv32_far)
qed

lemma far_not_below:
  assumes "at_least 10000 (raw32 d)" "raw32 r = Fin q" "q \<le> 10000"
  shows "\<not> d < r"
  using assms by (auto simp: less_f32_def at_least_def flt_def)

lemma nearby_far:
  assumes "\<And>e. e \<in> set es \<Longrightarrow> \<not> dist2 (snd e) cam < r"
  shows "nearby r cam es = ('''', zero_vec, r)"
  using assms
proof (induction es)
  case (Cons e es)
  from Cons.prems [of e] have "near_step cam e ('''', zero_vec, r) = ('''', zero_vec, r)" by (cases e) (simp add: near_step_def Let_def)
  with Cons show ?case by (simp add: nearby_def)
qed (simp add: nearby_def)

lemma sight_far:
  assumes "\<And>e. e \<in> set es \<Longrightarrow> \<not> dist2 (snd e) cam < r"
  shows "in_sight r d fw cam es = ('''', zero_vec, r)"
  using assms
proof (induction es)
  case (Cons e es)
  from Cons.prems [of e] have "sight_step r d fw cam e ('''', zero_vec, r) = ('''', zero_vec, r)" by (cases e) (simp add: sight_step_def Let_def)
  with Cons show ?case by (simp add: in_sight_def)
qed (simp add: in_sight_def)

definition all_on_planet :: "GameClient \<Rightarrow> bool" where
  "all_on_planet c \<longleftrightarrow> list_all (\<lambda>m. on_planet (pmam_X m) (pmam_Y m) (pmam_Z m)) (g_mammoths c) \<and>
     list_all (\<lambda>h. on_planet (phouse_X h) (phouse_Y h) (phouse_Z h)) (g_houses c) \<and>
     list_all (\<lambda>b. on_planet (pboat_X b) (pboat_Y b) (pboat_Z b)) (g_boats c) \<and>
     list_all (\<lambda>f. on_planet (pfac_X f) (pfac_Y f) (pfac_Z f)) (g_factories c)"

lemma range_consts: "raw32 (c32 25) = Fin 25" "raw32 (c32 36) = Fin 36" "raw32 (c32 64) = Fin 64"
  by code_simp+

lemma nothing_in_reach:
  assumes "all_on_planet (a_nc a)" "far_camera (cam_pos a)"
  shows "mammothInReach fw a = ''''" "saddledMammothNearby a = ''''" "boatNearby a = ''''" "houseInSight a = ''''"
    "factoryInSight fw a = ''''"
  using assms dist2_far [OF _ assms(2)] far_not_below [OF _ range_consts(1)] far_not_below [OF _ range_consts(2)]
    far_not_below [OF _ range_consts(3)]
  unfolding mammothInReach_def saddledMammothNearby_def boatNearby_def houseInSight_def factoryInSight_def getter_defs
    all_on_planet_def list_all_iff
  by (subst sight_far nearby_far; fastforce)+

text \<open>
  The searches for mammoths, boats, houses and factories compare the heliocentric
  camera with positions relative to the planet. Wherever the Earth is away from the origin of the
  heliocentric system they find nothing, even right in front of the player: a leash, a saddle and the
  mounting key do nothing, a fruit never tames, and an empty hand opens neither doors nor factories.
  Wells, seeds and pink mobs are found, because there the camera is converted first.
\<close>
theorem frame_mismatch:
  assumes "all_on_planet (a_nc a)" "far_camera (cam_pos a)"
  shows "useLeash m fw a = a \<and> handleHeldItemClick R m E fw ''saddle'' a = a \<and>
     (\<exists>p. useFruit R m fw a = say m (CPlantSeed p) a) \<and>
     (pl_ridingID (a_player a) = '''' \<longrightarrow> pl_boatID (a_player a) = '''' \<longrightarrow> handleMountKey m i a = a) \<and>
     (rocketInSight fw a = '''' \<longrightarrow> fst (pinkMobInSight fw a) = '''' \<longrightarrow> handleEmptyHandClick m E fw a = (False, a))"
  using nothing_in_reach [OF assms]
  by (auto simp: useLeash_def handleHeldItemClick_def useFruit_def act_PlantSeed_def handleMountKey_def handleEmptyHandClick_def Let_def
      split: prod.splits)

definition mammoth_here :: PMammoth where
  "mammoth_here = \<lparr>pmam_ID = ''m'', pmam_X = c32 60, pmam_Y = 0, pmam_Z = 0, pmam_HP = 100, pmam_Tamed = False, pmam_Sex = ''m'',
     pmam_FedCount = 0, pmam_Baby = False, pmam_LeashedTo = '''', pmam_Saddle = True, pmam_RiderID = ''''\<rparr>"

definition at_mammoth :: App where
  "at_mammoth = (let a = app_New '''' '''' in a\<lparr>a_nc := client_New\<lparr>g_mammoths := [mammoth_here], g_earthPos := vec (c32 5000) 0 0\<rparr>,
     a_camera := (a_camera a)\<lparr>cs_camera := \<lparr>cam_Position = vec (c32 5060) 0 0, cam_Target = zero_vec, cam_Up = vec 0 1 0\<rparr>\<rparr>\<rparr>)"

theorem frame_mismatch_witness:
  "useLeash (\<lambda>_. []) (vec 1 0 0) at_mammoth = at_mammoth \<and>
   fst (nearby (c32 64) (geo_cam at_mammoth) [(''m'', vec (c32 60) 0 0)]) = ''m''"
proof -
  have s: "a_nc at_mammoth = client_New\<lparr>g_mammoths := [mammoth_here], g_earthPos := vec (c32 5000) 0 0\<rparr>"
      "cam_pos at_mammoth = vec (c32 5060) 0 0"
    by (simp_all add: at_mammoth_def cam_pos_def Let_def)
  have e: "c32 5060 - c32 5000 = c32 60" "(0 :: f32) - 0 = 0" "dist2 (vec (c32 60) 0 0) (vec (c32 60) 0 0) < c32 64"
    by code_simp+
  then have g: "geo_cam at_mammoth = vec (c32 60) 0 0"
    by (simp add: geo_cam_def s protocolVector3Sub_def get_EarthPos_def)
  have "on_planet (c32 60) 0 0" by code_simp
  then have "all_on_planet (a_nc at_mammoth)" by (simp add: s all_on_planet_def client_New_def mammoth_here_def)
  moreover have "far_camera (cam_pos at_mammoth)" unfolding s by code_simp
  moreover have "fst (nearby (c32 64) (geo_cam at_mammoth) [(''m'', vec (c32 60) 0 0)]) = ''m''"
    unfolding g using e(3) by (simp add: nearby_def near_step_def Let_def)
  ultimately show ?thesis using frame_mismatch by blast
qed

section \<open>The projectiles of a frame\<close>

definition shot_flies :: "shot \<Rightarrow> app_projectile list" where
  "shot_flies s = (case s of ShotFlies p \<Rightarrow> [p] | _ \<Rightarrow> [])"

definition shot_hit :: "shot \<Rightarrow> cli_msg list" where
  "shot_hit s = (case s of ShotMob k \<Rightarrow> [act_HitMob k] | ShotMammoth k \<Rightarrow> [act_HitMammoth k] | _ \<Rightarrow> [])"

lemma shot_loop_fold:
  "fold (shot_loop R E m dt c) ps (l, a) =
     (l @ concat (map (\<lambda>p. shot_flies (shot_step R E dt c p)) ps),
      fold (say m) (concat (map (\<lambda>p. shot_hit (shot_step R E dt c p)) ps)) a)"
proof (induction ps arbitrary: l a)
  case (Cons p ps)
  then show ?case by (simp add: shot_loop_def shot_flies_def shot_hit_def split: shot.split)
qed simp

lemma fold_say: "fold (say m) ms a = a\<lparr>a_nc := fold (\<lambda>x c. snd (client_send m x c)) ms (a_nc a)\<rparr>"
  by (induction ms arbitrary: a) (simp_all add: say_def)

lemma shot_flies_young: "p' \<in> set (shot_flies (shot_step R E dt c p)) \<Longrightarrow>
    pj_spawn p' = pj_spawn p \<and> \<not> c64 (3 / 2) < dur_seconds (time_sub (e_now E) (pj_spawn p'))"
  by (auto simp: shot_step_def shot_flies_def Let_def split: if_splits)

text \<open>
  In a frame each local projectile does exactly one thing: it is dropped
  when older than a second and a half, it hits the first mob in its way or else the first mammoth, with
  exactly one message for the hit, or it flies on. The messages leave in the order of the projectiles,
  those that fly on are the new list, none of them too old, and nothing else of the client changes.
\<close>
theorem updateProjectiles_correct:
  "let ss = map (shot_step R E (i_dt i) (a_nc a)) (pl_projectiles (a_player a)) in
    app_updateProjectiles R E m i a =
      a\<lparr>a_nc := fold (\<lambda>x c. snd (client_send m x c)) (concat (map shot_hit ss)) (a_nc a),
        a_player := (a_player a)\<lparr>pl_projectiles := concat (map shot_flies ss)\<rparr>\<rparr> \<and>
    length (concat (map shot_hit ss)) + length (concat (map shot_flies ss)) \<le> length (pl_projectiles (a_player a)) \<and>
    list_all (\<lambda>p. \<not> c64 (3 / 2) < dur_seconds (time_sub (e_now E) (pj_spawn p))) (concat (map shot_flies ss))"
proof -
  let ?ss = "map (shot_step R E (i_dt i) (a_nc a)) (pl_projectiles (a_player a))"
  have "app_updateProjectiles R E m i a = a\<lparr>a_nc := fold (\<lambda>x c. snd (client_send m x c)) (concat (map shot_hit ?ss)) (a_nc a),
        a_player := (a_player a)\<lparr>pl_projectiles := concat (map shot_flies ?ss)\<rparr>\<rparr>"
    by (simp add: app_updateProjectiles_def shot_loop_fold fold_say comp_def)
  moreover have "length (shot_hit s) + length (shot_flies s) \<le> 1" for s
    by (simp add: shot_hit_def shot_flies_def split: shot.split)
  then have "length (concat (map shot_hit xs)) + length (concat (map shot_flies xs)) \<le> length xs" for xs
  proof (induction xs)
    case (Cons x xs)
    from Cons.IH [OF Cons.prems] Cons.prems [of x] show ?case by simp
  qed simp
  from this [of ?ss] have "length (concat (map shot_hit ?ss)) + length (concat (map shot_flies ?ss)) \<le> length (pl_projectiles (a_player a))"
    by simp
  moreover have "list_all (\<lambda>p. \<not> c64 (3 / 2) < dur_seconds (time_sub (e_now E) (pj_spawn p))) (concat (map shot_flies ?ss))"
    unfolding list_all_iff using shot_flies_young [of _ R E "i_dt i" "a_nc a"] by fastforce
  ultimately show ?thesis unfolding Let_def by blast
qed

section \<open>Picking up\<close>

lemma pickup_fold:
  "fst (fold (pickup_step pos) rs (None, b)) = None \<longleftrightarrow>
     (\<forall>r\<in>set rs. \<not> dist2 (vec (res_X r) (res_Y r) (res_Z r)) pos < b * b)"
proof (induction rs)
  case (Cons r rs)
  have keep: "fst (fold (pickup_step pos) rs (Some y, d)) \<noteq> None" for y d
    by (induction rs arbitrary: y d) (auto simp: pickup_step_def Let_def)
  have st: "pickup_step pos r (None, b) =
      (if dist2 (vec (res_X r) (res_Y r) (res_Z r)) pos < b * b
       then (Some r, sqrt32 (dist2 (vec (res_X r) (res_Y r) (res_Z r)) pos)) else (None, b))"
    by (simp add: pickup_step_def Let_def)
  show ?case using Cons.IH keep by (simp add: st)
qed simp

lemma pickup_member: "fst (fold (pickup_step pos) rs (x, b)) = Some r \<Longrightarrow> x = Some r \<or> r \<in> set rs"
  by (induction rs arbitrary: x b) (auto simp: pickup_step_def Let_def split: if_splits)

text \<open>
  The pickup key sends one request, for a resource that the client knows, exactly
  when some resource is within five units of the player's position relative to the Earth; otherwise, and
  before there is a player, it does nothing.
\<close>
theorem tryPickup_correct:
  "case a_flight a of
     None \<Rightarrow> tryPickup m a = a
   | Some f \<Rightarrow>
      (let pos = protocolVector3Sub (fc_Pos f) (g_earthPos (a_nc a));
           close = (\<lambda>r. dist2 (vec (res_X r) (res_Y r) (res_Z r)) pos < c32 25)
       in if \<exists>r\<in>set (g_resources (a_nc a)). close r
          then \<exists>r\<in>set (g_resources (a_nc a)). tryPickup m a = say m (CPickupItem \<lparr>pick_ResourceID = res_ID r\<rparr>) a
          else tryPickup m a = a)"
proof (cases "a_flight a")
  case (Some f)
  let ?pos = "protocolVector3Sub (fc_Pos f) (g_earthPos (a_nc a))" and ?rs = "g_resources (a_nc a)"
  have sq: "c32 5 * c32 5 = c32 25" by code_simp
  show ?thesis
  proof (cases "closest_resource ?pos ?rs")
    case None
    then have "\<forall>r\<in>set ?rs. \<not> dist2 (vec (res_X r) (res_Y r) (res_Z r)) ?pos < c32 25"
      using pickup_fold [of ?pos ?rs "c32 5"] by (simp add: closest_resource_def sq)
    then show ?thesis using None Some by (simp add: tryPickup_def getter_defs Let_def)
  next
    case (Some r)
    then have "r \<in> set ?rs" "\<not> (\<forall>r\<in>set ?rs. \<not> dist2 (vec (res_X r) (res_Y r) (res_Z r)) ?pos < c32 25)"
      using pickup_member [of ?pos ?rs None "c32 5" r] pickup_fold [of ?pos ?rs "c32 5"] by (auto simp: closest_resource_def sq)
    then show ?thesis using Some \<open>a_flight a = Some f\<close> by (auto simp: tryPickup_def getter_defs Let_def act_PickupItem_def)
  qed
qed (simp add: tryPickup_def)

end
