(* ===== verification/Windows.thy ===== *)
theory Windows
  imports Hands "HOL-Library.Multiset"
begin

text \<open>
  The windows of the game: the inventory with its 256 slots (\<open>inventory.go\<close>, \<open>inventory_items.go\<close>),
  crafting (\<open>inventory_craft.go\<close>), the contract of a pink mob (\<open>contract.go\<close>) and the factory
  (\<open>factory.go\<close>), as far as they change the state: where the mouse is, what a click does. What they
  draw is in \<open>Panels\<close>. Buttons are those of \<open>ui.go\<close>; raylib decides whether the mouse is in a rectangle.
\<close>

section \<open>Buttons\<close>

definition Hovered :: "raymath \<Rightarrow> frame_in \<Rightarrow> Rectangle \<Rightarrow> bool" where
  "Hovered R i b \<longleftrightarrow> rm_PointRec R (i_mouse i) b"

definition Clicked :: "raymath \<Rightarrow> frame_in \<Rightarrow> Rectangle \<Rightarrow> bool" where
  "Clicked R i b \<longleftrightarrow> Hovered R i b \<and> i_lmbPressed i"

text \<open>\<open>rl.NewRectangle(float32(x), float32(y), w, h)\<close>.\<close>

definition rect_at :: "int \<Rightarrow> int \<Rightarrow> int \<Rightarrow> int \<Rightarrow> Rectangle" where
  "rect_at x y w h = \<lparr>r_X = f32_of_int x, r_Y = f32_of_int y, r_W = f32_of_int w, r_H = f32_of_int h\<rparr>"

section \<open>Items\<close>

definition itemColor :: "string \<Rightarrow> Color" where
  "itemColor typ = (case map_of
     [(''stone'', NewColor 140 140 150 255), (''water'', NewColor 60 120 220 255), (''liana'', NewColor 80 160 60 255),
      (''leash'', NewColor 160 120 70 255), (''house'', NewColor 140 95 55 255), (''saddle'', NewColor 90 60 40 255),
      (''boat'', NewColor 120 80 40 255), (''solar'', NewColor 40 80 140 255), (''battery'', NewColor 60 60 80 255),
      (''factory'', NewColor 110 100 90 255), (''steel'', NewColor 180 180 190 255), (''gear'', NewColor 160 160 130 255),
      (''circuit'', NewColor 80 200 120 255), (''drone'', NewColor 100 150 220 255), (''rocket'', NewColor 220 80 80 255),
      (''wood'', NewColor 120 80 40 255), (''ore'', NewColor 200 170 60 255), (''fruit'', NewColor 230 70 70 255),
      (''meat'', NewColor 200 100 100 255), (''spear'', NewColor 180 160 120 255), (''torch'', NewColor 240 180 80 255)] typ of
     Some c \<Rightarrow> c | None \<Rightarrow> NewColor 255 255 255 255)"

definition itemName :: "string \<Rightarrow> string" where
  "itemName typ = (case map_of
     [(''stone'', ''Stone''), (''wood'', ''Wood''), (''ore'', ''Ore''), (''fruit'', ''Fruit''), (''meat'', ''Meat''),
      (''spear'', ''Spear''), (''torch'', ''Torch''), (''water'', ''Water''), (''liana'', ''Liana''), (''leash'', ''Leash''),
      (''house'', ''House''), (''saddle'', ''Saddle''), (''boat'', ''Boat''), (''solar'', ''Solar Panel''),
      (''battery'', ''Battery''), (''factory'', ''Factory''), (''steel'', ''Steel''), (''gear'', ''Gear''),
      (''circuit'', ''Circuit''), (''drone'', ''Drone''), (''rocket'', ''Rocket'')] typ of
     Some n \<Rightarrow> n | None \<Rightarrow> typ)"

section \<open>The slots of the inventory\<close>

text \<open>A new type goes to the first empty slot; the types already shown are collected before the loop.\<close>

definition find_free :: "string list \<Rightarrow> nat option" where
  "find_free slots = find (\<lambda>i. slots ! i = '''') [0..<length slots]"

definition place_new :: "string \<times> int \<Rightarrow> string list \<times> string set \<Rightarrow> string list \<times> string set" where
  "place_new e acc = (case e of (t, n) \<Rightarrow> case acc of (slots, present) \<Rightarrow>
     if n \<le> 0 \<or> t \<in> present then (slots, present)
     else case find_free slots of None \<Rightarrow> (slots, present) | Some i \<Rightarrow> (slots[i := t], insert t present))"

definition clear_gone :: "int gomap \<Rightarrow> string list \<Rightarrow> string list" where
  "clear_gone items slots = map (\<lambda>t. if t \<noteq> '''' \<and> mget_int items t \<le> 0 then '''' else t) slots"

definition sync_slots :: "env \<Rightarrow> int gomap \<Rightarrow> string list \<Rightarrow> string list" where
  "sync_slots E items slots = clear_gone items
     (fst (fold place_new (range_entries (e_ord E) [''syncInvSlots''] items) (slots, set (filter (\<lambda>t. t \<noteq> '''') slots))))"

definition syncInvSlots :: "env \<Rightarrow> App \<Rightarrow> App" where
  "syncInvSlots E a = a\<lparr>a_ui := (a_ui a)\<lparr>ui_invSlots := sync_slots E (get_Inventory (a_nc a)) (ui_invSlots (a_ui a))\<rparr>\<rparr>"

text \<open>The grid of 16 by 16 slots of \<open>drawInventory\<close>, centred on the screen.\<close>

definition slot_rect :: "int \<times> int \<Rightarrow> nat \<Rightarrow> Rectangle" where
  "slot_rect scr k =
     (let px = (fst scr - (16 * 38 + 10 * 2)) sdiv 2; py = (snd scr - (16 * 38 + 10 * 2 + 30)) sdiv 2
      in rect_at (px + 10 + int (k mod 16) * 38) (py + 30 + 10 + int (k div 16) * 38) (38 - 2) (38 - 2))"

definition slot_under :: "raymath \<Rightarrow> frame_in \<Rightarrow> nat option" where
  "slot_under R i = find (\<lambda>k. rm_PointRec R (i_mouse i) (slot_rect (i_screen i) k)) [0..<256]"

definition swap_slots :: "nat \<Rightarrow> nat \<Rightarrow> string list \<Rightarrow> string list" where
  "swap_slots i j xs = xs[i := xs ! j, j := xs ! i]"

definition drag_press :: "raymath \<Rightarrow> frame_in \<Rightarrow> UIState \<Rightarrow> UIState" where
  "drag_press R i u =
     (if i_lmbPressed i then (case slot_under R i of None \<Rightarrow> u | Some k \<Rightarrow> u\<lparr>ui_dragging := True, ui_dragFrom := k\<rparr>) else u)"

definition drag_release :: "raymath \<Rightarrow> frame_in \<Rightarrow> UIState \<Rightarrow> UIState" where
  "drag_release R i u =
     (if i_lmbReleased i \<and> ui_dragging u then
        (case slot_under R i of
           None \<Rightarrow> u
         | Some k \<Rightarrow> if k \<noteq> ui_dragFrom u then u\<lparr>ui_invSlots := swap_slots (ui_dragFrom u) k (ui_invSlots u)\<rparr> else u)
        \<lparr>ui_dragging := False\<rparr>
      else u)"

definition drawInventory :: "raymath \<Rightarrow> frame_in \<Rightarrow> App \<Rightarrow> App" where
  "drawInventory R i a = a\<lparr>a_ui := drag_release R i (drag_press R i (a_ui a))\<rparr>"

section \<open>Crafting\<close>

record craftRecipe =
  cr_id :: string
  cr_name :: string
  cr_out :: string
  cr_req :: "(string \<times> int) list"

definition craftRecipes :: "craftRecipe list" where
  "craftRecipes =
    [\<lparr>cr_id = ''spear'', cr_name = ''Spear'', cr_out = ''spear'', cr_req = [(''stone'', 2), (''wood'', 1)]\<rparr>,
     \<lparr>cr_id = ''torch'', cr_name = ''Torch'', cr_out = ''torch'', cr_req = [(''stone'', 1), (''wood'', 1)]\<rparr>,
     \<lparr>cr_id = ''leash'', cr_name = ''Leash'', cr_out = ''leash'', cr_req = [(''liana'', 2)]\<rparr>,
     \<lparr>cr_id = ''house'', cr_name = ''House'', cr_out = ''house'', cr_req = [(''wood'', 50)]\<rparr>,
     \<lparr>cr_id = ''saddle'', cr_name = ''Saddle'', cr_out = ''saddle'', cr_req = [(''liana'', 4)]\<rparr>,
     \<lparr>cr_id = ''boat'', cr_name = ''Boat'', cr_out = ''boat'', cr_req = [(''wood'', 20)]\<rparr>,
     \<lparr>cr_id = ''solar'', cr_name = ''Solar Panel'', cr_out = ''solar'', cr_req = [(''ore'', 10), (''stone'', 5)]\<rparr>,
     \<lparr>cr_id = ''battery'', cr_name = ''Battery'', cr_out = ''battery'', cr_req = [(''ore'', 15), (''stone'', 10)]\<rparr>,
     \<lparr>cr_id = ''factory'', cr_name = ''Factory'', cr_out = ''factory'', cr_req = [(''ore'', 30), (''wood'', 20), (''stone'', 20)]\<rparr>]"

definition craft_items :: "string list" where
  "craft_items = [''stone'', ''wood'', ''ore'', ''fruit'', ''meat'', ''spear'', ''torch'', ''water'', ''liana'', ''leash'',
     ''house'', ''saddle'', ''boat'', ''solar'', ''battery'', ''factory'', ''steel'', ''gear'', ''circuit'', ''drone'', ''rocket'']"

definition canCraft :: "craftRecipe \<Rightarrow> int gomap \<Rightarrow> bool" where
  "canCraft rec items = list_all (\<lambda>k. case map_of (cr_req rec) k of None \<Rightarrow> True | Some need \<Rightarrow> \<not> mget_int items k < need) craft_items"

definition craft_button :: "int \<times> int \<Rightarrow> nat \<Rightarrow> Rectangle" where
  "craft_button scr k =
     (let px = (fst scr - 660) sdiv 2; py = (snd scr - (120 + 90 * int (length craftRecipes))) sdiv 2
      in rect_at (px + 660 - 150) (py + 50 + int k * 90 + 22) 130 42)"

definition craft_click :: "raymath \<Rightarrow> (cli_msg \<Rightarrow> bytes) \<Rightarrow> frame_in \<Rightarrow> int gomap \<Rightarrow> nat \<times> craftRecipe \<Rightarrow> App \<Rightarrow> App" where
  "craft_click R m i items e a =
     (if Clicked R i (craft_button (i_screen i) (fst e)) \<and> canCraft (snd e) items
      then say m (act_CraftItem (cr_id (snd e))) a else a)"

definition drawCraft :: "raymath \<Rightarrow> (cli_msg \<Rightarrow> bytes) \<Rightarrow> frame_in \<Rightarrow> App \<Rightarrow> App" where
  "drawCraft R m i a = fold (craft_click R m i (get_Inventory (a_nc a))) (enumerate 0 craftRecipes) a"

section \<open>The contract of a pink mob\<close>

text \<open>For a quarter of a second after it has opened, a dialog ignores keys and clicks.\<close>

definition just_opened :: "env \<Rightarrow> gotime \<Rightarrow> bool" where
  "just_opened E t \<longleftrightarrow> time_sub (e_now E) t < 250 * millisecond"

definition close_contract :: "App \<Rightarrow> App" where
  "close_contract a = DisableCursor (a\<lparr>a_ui := (a_ui a)\<lparr>ui_showContract := False, ui_contractMobID := ''''\<rparr>\<rparr>)"

definition updateContract :: "env \<Rightarrow> frame_in \<Rightarrow> App \<Rightarrow> App" where
  "updateContract E i a =
     (if just_opened E (ui_contractOpenedAt (a_ui a)) then a
      else if i_pressed i KeyEscape then close_contract a else a)"

definition contract_button :: "int \<times> int \<Rightarrow> int \<Rightarrow> Rectangle" where
  "contract_button scr dy =
     (let px = (fst scr - 520) sdiv 2; py = (snd scr - 300) sdiv 2 in rect_at (px + (520 - 460) sdiv 2) (py + dy) 460 60)"

definition contract_click :: "raymath \<Rightarrow> (cli_msg \<Rightarrow> bytes) \<Rightarrow> frame_in \<Rightarrow> bool \<Rightarrow> int \<times> string \<Rightarrow> App \<Rightarrow> App" where
  "contract_click R m i ignoreClicks b a =
     (if \<not> ignoreClicks \<and> Clicked R i (contract_button (i_screen i) (fst b))
      then close_contract (say m (act_AcceptContract (ui_contractMobID (a_ui a)) (snd b)) a) else a)"

definition drawContract :: "raymath \<Rightarrow> (cli_msg \<Rightarrow> bytes) \<Rightarrow> env \<Rightarrow> frame_in \<Rightarrow> App \<Rightarrow> App" where
  "drawContract R m E i a =
     (let ignoreClicks = just_opened E (ui_contractOpenedAt (a_ui a))
      in contract_click R m i ignoreClicks (170, ''guard'') (contract_click R m i ignoreClicks (100, ''gather4'') a))"

section \<open>The factory\<close>

record factoryRecipeUI =
  fu_id :: string
  fu_name :: string
  fu_need :: "(string \<times> int) list"
  fu_energy :: int

definition factoryRecipeList :: "factoryRecipeUI list" where
  "factoryRecipeList =
    [\<lparr>fu_id = ''steel'', fu_name = ''Steel'', fu_need = [(''ore'', 5)], fu_energy = 10\<rparr>,
     \<lparr>fu_id = ''gear'', fu_name = ''Gear'', fu_need = [(''stone'', 2), (''wood'', 2)], fu_energy = 20\<rparr>,
     \<lparr>fu_id = ''circuit'', fu_name = ''Circuit'', fu_need = [(''ore'', 3), (''liana'', 1)], fu_energy = 50\<rparr>,
     \<lparr>fu_id = ''drone'', fu_name = ''Drone'', fu_need = [(''gear'', 1), (''circuit'', 1)], fu_energy = 100\<rparr>,
     \<lparr>fu_id = ''rocket'', fu_name = ''Rocket'', fu_need = [(''circuit'', 3), (''steel'', 5), (''gear'', 2)], fu_energy = 500\<rparr>]"

definition updateFactory :: "env \<Rightarrow> frame_in \<Rightarrow> App \<Rightarrow> App" where
  "updateFactory E i a =
     (if just_opened E (ui_factoryOpenedAt (a_ui a)) then a
      else if i_pressed i KeyEscape
      then DisableCursor (a\<lparr>a_ui := (a_ui a)\<lparr>ui_showFactory := False, ui_factoryID := ''''\<rparr>\<rparr>) else a)"

definition factory_button :: "int \<times> int \<Rightarrow> nat \<Rightarrow> Rectangle" where
  "factory_button scr k =
     (let px = (fst scr - 560) sdiv 2; py = (snd scr - (int (length factoryRecipeList) * 80 + 100)) sdiv 2
      in rect_at (px + (560 - 520) sdiv 2) (py + 80 + int k * 80) 520 60)"

definition factory_click :: "raymath \<Rightarrow> (cli_msg \<Rightarrow> bytes) \<Rightarrow> frame_in \<Rightarrow> bool \<Rightarrow> nat \<times> factoryRecipeUI \<Rightarrow> App \<Rightarrow> App" where
  "factory_click R m i ignoreClicks e a =
     (if \<not> ignoreClicks \<and> Clicked R i (factory_button (i_screen i) (fst e))
      then say m (act_CraftFactory (ui_factoryID (a_ui a)) (fu_id (snd e))) a else a)"

definition drawFactory :: "raymath \<Rightarrow> (cli_msg \<Rightarrow> bytes) \<Rightarrow> env \<Rightarrow> frame_in \<Rightarrow> App \<Rightarrow> App" where
  "drawFactory R m E i a =
     fold (factory_click R m i (just_opened E (ui_factoryOpenedAt (a_ui a)))) (enumerate 0 factoryRecipeList) a"

section \<open>What the slots show\<close>

definition shown :: "string list \<Rightarrow> string list" where
  "shown slots = filter (\<lambda>t. t \<noteq> '''') slots"

definition slots_ok :: "string list \<Rightarrow> bool" where
  "slots_ok slots \<longleftrightarrow> length slots = 256 \<and> distinct (shown slots)"

definition owned :: "int gomap \<Rightarrow> string \<Rightarrow> bool" where
  "owned items t \<longleftrightarrow> t \<noteq> '''' \<and> 0 < mget_int items t"

lemma distinct_shown: "distinct (shown xs) \<longleftrightarrow> (\<forall>t. t \<noteq> '''' \<longrightarrow> count (mset xs) t \<le> 1)"
proof -
  have "count (mset (shown xs)) t = (if t = '''' then 0 else count (mset xs) t)" for t
    by (simp add: shown_def mset_filter)
  moreover have "distinct ys \<longleftrightarrow> (\<forall>t. count (mset ys) t \<le> 1)" for ys :: "string list"
  proof -
    have "count (mset ys) t = (if t \<in> set ys then 1 else 0) \<longleftrightarrow> count (mset ys) t \<le> 1" for t
    proof (cases "t \<in> set ys")
      case True
      then have "count (mset ys) t \<noteq> 0" by simp
      then have "count (mset ys) t = 1 \<longleftrightarrow> count (mset ys) t \<le> 1" by arith
      then show ?thesis using True by simp
    next
      case False
      then have c: "count (mset ys) t = 0" by (simp add: count_eq_zero_iff)
      show ?thesis using False unfolding c by simp
    qed
    then show ?thesis by (simp add: distinct_count_atmost_1)
  qed
  ultimately show ?thesis by simp
qed

lemma find_free_spec:
  "case find_free xs of None \<Rightarrow> '''' \<notin> set xs | Some i \<Rightarrow> i < length xs \<and> xs ! i = ''''"
  by (auto simp: find_free_def in_set_conv_nth find_None_iff find_Some_iff split: option.split)

lemma count_placed:
  "i < length xs \<Longrightarrow> xs ! i = '''' \<Longrightarrow> t \<noteq> '''' \<Longrightarrow>
     count (mset (xs[i := t])) u = (if u = t then count (mset xs) u + 1 else if u = '''' then count (mset xs) u - 1 else count (mset xs) u)"
  by (simp add: mset_update)

lemma set_placed:
  assumes "find_free slots = Some i" "t \<noteq> ''''"
  shows "set (slots[i := t]) - {''''} = insert t (set slots - {''''})"
proof -
  have i: "i < length slots" "slots ! i = ''''" using assms(1) find_free_spec [of slots] by auto
  have "u \<in> set (slots[i := t]) \<longleftrightarrow> u = t \<or> u \<in> set slots" if "u \<noteq> ''''" for u
    using count_placed [OF i assms(2), of u] that by (metis add_is_0 count_mset_0_iff one_neq_zero)
  then show ?thesis using assms(2) by auto
qed

definition extends :: "string list \<Rightarrow> string list \<Rightarrow> bool" where
  "extends old new \<longleftrightarrow> length new = length old \<and> (\<forall>k<length old. old ! k \<noteq> '''' \<longrightarrow> new ! k = old ! k)"

lemma extends_refl: "extends xs xs" and extends_trans: "extends xs ys \<Longrightarrow> extends ys zs \<Longrightarrow> extends xs zs"
  by (auto simp: extends_def)

lemma extends_mem: "extends old new \<Longrightarrow> t \<in> set old \<Longrightarrow> t \<noteq> '''' \<Longrightarrow> t \<in> set new"
  unfolding extends_def in_set_conv_nth by auto

text \<open>Without the set of types already shown, which is the set of the entries.\<close>

definition put_new :: "string \<times> int \<Rightarrow> string list \<Rightarrow> string list" where
  "put_new e slots = (if snd e \<le> 0 \<or> fst e = '''' \<or> fst e \<in> set slots then slots
     else case find_free slots of None \<Rightarrow> slots | Some i \<Rightarrow> slots[i := fst e])"

lemma place_new_put:
  assumes "present - {''''} = set slots - {''''}"
  shows "fst (place_new e (slots, present)) = put_new e slots \<and>
     snd (place_new e (slots, present)) - {''''} = set (put_new e slots) - {''''}"
proof -
  obtain t n where e: "e = (t, n)" by (cases e)
  consider "n \<le> 0 \<or> find_free slots = None" | "0 < n" "t = ''''" | "0 < n" "t \<noteq> ''''" "t \<in> set slots"
    | i where "0 < n" "t \<noteq> ''''" "t \<notin> set slots" "find_free slots = Some i"
    using not_le by blast
  then show ?thesis
  proof cases
    case 1
    then have "place_new e (slots, present) = (slots, present)" "put_new e slots = slots"
      by (auto simp: place_new_def put_new_def e)
    then show ?thesis using assms by simp
  next
    case 2
    have "slots[i := ''''] = slots" if "find_free slots = Some i" for i
      using that find_free_spec [of slots] by (simp add: list_update_same_conv)
    then show ?thesis using 2 assms by (simp add: place_new_def put_new_def e insert_Diff_if split: option.split)
  next
    case 3
    then have "t \<in> present" using assms by blast
    then show ?thesis using 3 assms by (simp add: place_new_def put_new_def e)
  next
    case 4
    then have "t \<notin> present" using assms by blast
    then show ?thesis using 4 assms set_placed [OF 4(4,2)] by (simp add: place_new_def put_new_def e insert_Diff_if)
  qed
qed

lemma place_all_put:
  "present - {''''} = set slots - {''''} \<Longrightarrow> fst (fold place_new es (slots, present)) = fold put_new es slots"
proof (induction es arbitrary: slots present)
  case (Cons e es)
  then show ?case using place_new_put [OF Cons.prems, of e] by (cases "place_new e (slots, present)") simp
qed simp

lemma put_new_spec:
  assumes "distinct (shown slots)"
  shows "extends slots (put_new (t, n) slots)" "distinct (shown (put_new (t, n) slots))"
    "u \<in> set (put_new (t, n) slots) \<Longrightarrow> u = '''' \<or> u \<in> set slots \<or> u = t \<and> 0 < n"
    "0 < n \<Longrightarrow> t \<noteq> '''' \<Longrightarrow> t \<notin> set slots \<Longrightarrow> 0 < count (mset slots) '''' \<Longrightarrow>
       t \<in> set (put_new (t, n) slots) \<and> count (mset (put_new (t, n) slots)) '''' = count (mset slots) '''' - 1"
    "n \<le> 0 \<or> t = '''' \<or> t \<in> set slots \<Longrightarrow> put_new (t, n) slots = slots"
proof -
  note found = find_free_spec [of slots]
  show "extends slots (put_new (t, n) slots)"
    using found by (auto simp: put_new_def extends_def nth_list_update split: option.split)
  show "distinct (shown (put_new (t, n) slots))"
    using assms found by (auto simp: put_new_def distinct_shown count_placed count_eq_zero_iff split: option.split)
  show "u \<in> set (put_new (t, n) slots) \<Longrightarrow> u = '''' \<or> u \<in> set slots \<or> u = t \<and> 0 < n"
    using set_update_subset_insert [of slots _ t] by (auto simp: put_new_def split: option.splits if_splits)
  show "t \<in> set (put_new (t, n) slots) \<and> count (mset (put_new (t, n) slots)) '''' = count (mset slots) '''' - 1"
    if "0 < n" "t \<noteq> ''''" "t \<notin> set slots" "0 < count (mset slots) ''''"
    using that found by (cases "find_free slots") (auto simp: put_new_def count_placed set_update_memI)
qed (auto simp: put_new_def)

lemma put_all:
  assumes "distinct (shown slots)"
  shows "extends slots (fold put_new es slots)" "distinct (shown (fold put_new es slots))"
    "u \<in> set (fold put_new es slots) \<Longrightarrow> u = '''' \<or> u \<in> set slots \<or> (\<exists>n>0. (u, n) \<in> set es)"
  using assms
proof (induction es arbitrary: slots)
  case (Cons e es)
  obtain t n where e: "e = (t, n)" by (cases e)
  note now = put_new_spec(1,2) [of _ t n, folded e] put_new_spec(3) [of _ _ t n, folded e]
  { case 1 from extends_trans [OF now(1) [OF 1] Cons.IH(1) [OF now(2) [OF 1]]] show ?case by simp }
  { case 2 from Cons.IH(2) [OF now(2) [OF 2]] show ?case by simp }
  { case 3 with Cons.IH(3) [OF _ now(2) [OF 3(2)]] now(3) [OF 3(2)] show ?case by (fastforce simp: e) }
qed (simp_all add: extends_refl)

text \<open>How many types of a list of entries are still to be placed.\<close>

definition fresh :: "string list \<Rightarrow> (string \<times> int) list \<Rightarrow> nat" where
  "fresh slots es = length (filter (\<lambda>e. 0 < snd e \<and> fst e \<noteq> '''' \<and> fst e \<notin> set slots) es)"

lemma fresh_extends: "extends slots new \<Longrightarrow> fresh new es \<le> fresh slots es"
  using extends_mem [of slots new] unfolding fresh_def by (induction es) auto

lemma put_all_room:
  assumes "distinct (shown slots)" "fresh slots es \<le> count (mset slots) ''''" "(t, n) \<in> set es" "0 < n" "t \<noteq> ''''"
  shows "t \<in> set (fold put_new es slots)"
  using assms
proof (induction es arbitrary: slots)
  case (Cons e es)
  obtain u k where e: "e = (u, k)" by (cases e)
  let ?s = "put_new e slots"
  note now = put_new_spec(1,2,4,5) [where slots = slots and t = u and n = k, folded e, OF Cons.prems(1)]
  have room: "fresh ?s es \<le> count (mset ?s) '''' \<and> (0 < k \<longrightarrow> u \<noteq> '''' \<longrightarrow> u \<in> set ?s)"
  proof (cases "0 < k \<and> u \<noteq> '''' \<and> u \<notin> set slots")
    case True
    then have "Suc (fresh slots es) \<le> count (mset slots) ''''" using Cons.prems(2) by (simp add: fresh_def e)
    moreover from this have "0 < count (mset slots) ''''" by linarith
    ultimately show ?thesis using True now(3) fresh_extends [OF now(1), of es] by (simp del: count_greater_zero_iff)
  next
    case False
    then have "?s = slots" "fresh slots es = fresh slots (e # es)" using now(4) by (auto simp: fresh_def e)
    then show ?thesis using False Cons.prems(2) by auto
  qed
  show ?case
  proof (cases "(t, n) = e")
    case True
    then have "t \<in> set ?s" using room Cons.prems(4,5) by (auto simp: e)
    then show ?thesis using extends_mem [OF put_all(1) [OF now(2)] _ Cons.prems(5)] by simp
  next
    case False
    then show ?thesis using Cons.IH [OF now(2)] room Cons.prems by auto
  qed
qed simp

lemma in_clear_gone: "t \<noteq> '''' \<Longrightarrow> t \<in> set (clear_gone items slots) \<longleftrightarrow> t \<in> set slots \<and> 0 < mget_int items t"
  by (auto simp: clear_gone_def)

lemma distinct_clear_gone: "distinct (shown slots) \<Longrightarrow> distinct (shown (clear_gone items slots))"
  by (induction slots) (auto simp: shown_def clear_gone_def)

lemma owned_entry: "owned items t \<Longrightarrow> (t, mget_int items t) \<in> set (range_entries ord site items)"
  by (auto simp: owned_def mget_int_def split: option.splits)

lemma sync_slots_put: "sync_slots E items slots =
    clear_gone items (fold put_new (range_entries (e_ord E) [''syncInvSlots''] items) slots)"
  unfolding sync_slots_def by (subst place_all_put) auto

lemma fold_put_id: "(\<And>t n. (t, n) \<in> set es \<Longrightarrow> n \<le> 0 \<or> t = '''' \<or> t \<in> set slots) \<Longrightarrow> fold put_new es slots = slots"
proof (induction es)
  case (Cons e es)
  then have "put_new e slots = slots" by (cases e) (auto simp: put_new_def)
  then show ?case using Cons by simp
qed simp

lemma clear_gone_id: "list_all (\<lambda>t. t = '''' \<or> owned items t) slots \<Longrightarrow> clear_gone items slots = slots"
  by (auto simp: clear_gone_def list_all_iff owned_def intro!: map_idI)

lemma fresh_card: "fresh slots (range_entries ord site items) = card {t. owned items t \<and> t \<notin> set slots}"
proof -
  let ?es = "filter (\<lambda>e. 0 < snd e \<and> fst e \<noteq> '''' \<and> fst e \<notin> set slots) (range_entries ord site items)"
  have "distinct (map fst ?es)" by (rule distinct_map_filter) simp
  then have "fresh slots (range_entries ord site items) = card (set (map fst ?es))"
    
    unfolding fresh_def using distinct_card [of "map fst ?es"] by simp
  also have "set (map fst ?es) = {t. owned items t \<and> t \<notin> set slots}"
  proof (rule set_eqI)
    fix t
    have "t \<in> set (map fst ?es) \<longleftrightarrow> (\<exists>n. (t, n) \<in> set (range_entries ord site items) \<and> 0 < n) \<and> t \<noteq> '''' \<and> t \<notin> set slots"
      by (auto simp: image_iff simp del: in_range_entries)
    also have "(\<exists>n. (t, n) \<in> set (range_entries ord site items) \<and> 0 < n) \<longleftrightarrow> 0 < mget_int items t"
      by (simp add: mget_int_def split: option.split)
    finally show "t \<in> set (map fst ?es) \<longleftrightarrow> t \<in> {t. owned items t \<and> t \<notin> set slots}" by (auto simp: owned_def)
  qed
  finally show ?thesis .
qed

text \<open>
  C34. In every frame the slots follow the inventory. No type is ever shown twice; what
  is still owned keeps its slot; nothing is shown that is not owned; and as long as there are as many
  empty slots as new types, whatever the order in which Go ranges over the inventory, every owned type
  is shown. Repeating the step then changes nothing.
\<close>
theorem syncInvSlots_correct:
  assumes "slots_ok (ui_invSlots (a_ui a))"
  shows "let old = ui_invSlots (a_ui a); new = ui_invSlots (a_ui (syncInvSlots E a)); items = get_Inventory (a_nc a) in
    slots_ok new \<and>
    (\<forall>k<256. owned items (old ! k) \<longrightarrow> new ! k = old ! k) \<and>
    list_all (\<lambda>t. t = '''' \<or> owned items t) new \<and>
    (card {t. owned items t \<and> t \<notin> set old} \<le> count (mset old) '''' \<longrightarrow>
       (\<forall>t. owned items t \<longrightarrow> t \<in> set new) \<and> sync_slots E' items new = new)"
proof -
  let ?items = "get_Inventory (a_nc a)" and ?old = "ui_invSlots (a_ui a)" and ?new = "ui_invSlots (a_ui (syncInvSlots E a))"
  let ?es = "range_entries (e_ord E) [''syncInvSlots''] ?items"
  let ?P = "fold put_new ?es ?old"
  have ok: "distinct (shown ?old)" "length ?old = 256" using assms by (auto simp: slots_ok_def)
  have new: "?new = clear_gone ?items ?P" by (simp add: syncInvSlots_def sync_slots_put)
  have ext: "length ?P = 256" "\<And>k. k < 256 \<Longrightarrow> ?old ! k \<noteq> '''' \<Longrightarrow> ?P ! k = ?old ! k"
    using put_all(1) [OF ok(1), of ?es] ok(2) by (auto simp: extends_def)
  have "slots_ok ?new" using ext(1) distinct_clear_gone [OF put_all(2) [OF ok(1)]] by (simp add: new slots_ok_def clear_gone_def)
  moreover have "\<forall>k<256. owned ?items (?old ! k) \<longrightarrow> ?new ! k = ?old ! k"
    using ext by (simp add: new clear_gone_def owned_def)
  moreover have mine: "list_all (\<lambda>t. t = '''' \<or> owned ?items t) ?new"
    by (auto simp: new clear_gone_def owned_def list_all_iff)
  moreover have "(\<forall>t. owned ?items t \<longrightarrow> t \<in> set ?new) \<and> sync_slots E' ?items ?new = ?new"
    if "card {t. owned ?items t \<and> t \<notin> set ?old} \<le> count (mset ?old) ''''"
  proof -
    have all: "t \<in> set ?new" if t: "owned ?items t" for t
      using put_all_room [OF ok(1) _ owned_entry [OF t]] \<open>card _ \<le> _\<close> t
      by (simp add: new in_clear_gone fresh_card owned_def)
    then have "n \<le> 0 \<or> t = '''' \<or> t \<in> set ?new" if "mget ?items t = Some n" for t n
      using that by (force simp: owned_def mget_int_def not_le)
    then show ?thesis using all clear_gone_id [OF mine] by (subst sync_slots_put, subst fold_put_id) auto
  qed
  ultimately show ?thesis by (simp only: Let_def) blast
qed

definition two_items :: App where
  "two_items = (let a = app_New '''' '''' in a\<lparr>a_nc := client_New\<lparr>g_inventory := Some (mput ''wood'' 2 (mput ''ore'' 0 mempty))\<rparr>,
     a_ui := (a_ui a)\<lparr>ui_invSlots := ''ore'' # replicate 255 ''''\<rparr>\<rparr>)"

theorem syncInvSlots_correct_witness:
  "list_all (\<lambda>t. t = '''' \<or> t = ''wood'') (ui_invSlots (a_ui (syncInvSlots flat_env two_items)))"
proof -
  have parts: "ui_invSlots (a_ui two_items) = ''ore'' # replicate 255 ''''"
      "get_Inventory (a_nc two_items) = mput ''wood'' 2 (mput ''ore'' 0 mempty)"
    by (simp_all add: two_items_def get_Inventory_def Let_def)
  have "slots_ok (ui_invSlots (a_ui two_items))" by (simp add: parts slots_ok_def shown_def)
  moreover have "owned (get_Inventory (a_nc two_items)) t \<Longrightarrow> t = ''wood''" for t
    by (simp add: parts owned_def mget_int_put split: if_splits)
  ultimately show ?thesis using syncInvSlots_correct [of two_items flat_env]
    by (auto simp: Let_def list_all_iff)
qed

section \<open>Dragging\<close>

lemma mset_swap_slots: "i < length xs \<Longrightarrow> j < length xs \<Longrightarrow> mset (swap_slots i j xs) = mset xs"
  unfolding swap_slots_def by (metis mset_swap list_update_swap length_list_update list_update_overwrite)

lemma slot_under_less: "slot_under R i = Some k \<Longrightarrow> k < 256"
  by (auto simp: slot_under_def find_Some_iff)

lemma slots_ok_mset: "mset xs = mset ys \<Longrightarrow> slots_ok xs = slots_ok ys"
  unfolding slots_ok_def distinct_shown by (metis mset_eq_length)

definition drag_ok :: "UIState \<Rightarrow> bool" where
  "drag_ok u \<longleftrightarrow> slots_ok (ui_invSlots u) \<and> ui_dragFrom u < 256"

lemma drag_press_ok: "drag_ok u \<Longrightarrow> drag_ok (drag_press R i u)"
  and drag_press_slots: "ui_invSlots (drag_press R i u) = ui_invSlots u"
  by (auto simp: drag_press_def drag_ok_def dest: slot_under_less split: option.split)

text \<open>
  Dragging never loses or doubles an item: the slots after a frame of the open
  inventory are a permutation of those before, and stay well formed. What changes is exactly this: where
  a drag that began on one slot is released over another, the two are exchanged. A release anywhere ends
  the drag.
\<close>
theorem drawInventory_correct:
  assumes "drag_ok (a_ui a)"
  shows "let u = a_ui a; u' = a_ui (drawInventory R i a); from = ui_dragFrom (drag_press R i u) in
    drag_ok u' \<and> mset (ui_invSlots u') = mset (ui_invSlots u) \<and>
    (i_lmbReleased i \<longrightarrow> \<not> ui_dragging u') \<and>
    ui_invSlots u' =
      (case slot_under R i of
         Some k \<Rightarrow> if i_lmbReleased i \<and> (ui_dragging u \<or> i_lmbPressed i) \<and> k \<noteq> from
                   then swap_slots from k (ui_invSlots u) else ui_invSlots u
       | None \<Rightarrow> ui_invSlots u)"
proof -
  let ?p = "drag_press R i (a_ui a)" and ?u' = "a_ui (drawInventory R i a)"
  have p: "drag_ok ?p" "ui_invSlots ?p = ui_invSlots (a_ui a)" using assms drag_press_ok drag_press_slots by auto
  have slots: "ui_invSlots ?u' = (case slot_under R i of
         Some k \<Rightarrow> if i_lmbReleased i \<and> (ui_dragging (a_ui a) \<or> i_lmbPressed i) \<and> k \<noteq> ui_dragFrom ?p
                   then swap_slots (ui_dragFrom ?p) k (ui_invSlots (a_ui a)) else ui_invSlots (a_ui a)
       | None \<Rightarrow> ui_invSlots (a_ui a))"
    by (auto simp: drawInventory_def drag_release_def drag_press_def split: option.split)
  moreover have m: "mset (ui_invSlots ?u') = mset (ui_invSlots (a_ui a))"
    using p slot_under_less [of R i] unfolding slots
    by (auto simp: drag_ok_def slots_ok_def mset_swap_slots split: option.split)
  moreover have "drag_ok ?u'"
    using p slots_ok_mset [OF m] by (auto simp: drag_ok_def drawInventory_def drag_release_def split: option.split)
  moreover have "i_lmbReleased i \<longrightarrow> \<not> ui_dragging ?u'" by (auto simp: drawInventory_def drag_release_def)
  ultimately show ?thesis unfolding Let_def by blast
qed

theorem drawInventory_correct_witness:
  "mset (ui_invSlots (a_ui (drawInventory plain_raymath idle_frame (app_New '''' '''')))) = replicate_mset 256 ''''"
proof -
  have parts: "ui_invSlots (a_ui (app_New '''' '''')) = replicate 256 ''''" "ui_dragFrom (a_ui (app_New '''' '''')) = 0"
    by (simp_all add: app_New_def)
  then have "drag_ok (a_ui (app_New '''' ''''))" by (simp add: drag_ok_def slots_ok_def shown_def)
  from drawInventory_correct [OF this, of plain_raymath idle_frame] show ?thesis unfolding Let_def parts mset_replicate by (elim conjE)
qed

section \<open>The recipes of client and server\<close>

lemma canCraft_enough: "list_all (\<lambda>r. canCraft r items = enough (cr_req r) items) craftRecipes"
  by (simp add: craftRecipes_def canCraft_def craft_items_def enough_def not_less) auto

lemma craft_clicks:
  "fold (craft_click R m i items) es a =
     fold (say m) (map (\<lambda>e. act_CraftItem (cr_id (snd e)))
       (filter (\<lambda>e. Clicked R i (craft_button (i_screen i) (fst e)) \<and> canCraft (snd e) items) es)) a"
  by (induction es arbitrary: a) (simp_all add: craft_click_def)

definition dead_recipes :: "string list" where
  "dead_recipes = [''torch'', ''solar'', ''battery'', ''factory'']"

text \<open>
  The crafting window lights a recipe up exactly when the inventory has what it asks
  for, and sends exactly the recipes that are clicked and lit. The recipes that the server knows are, in
  this order and with the same costs, those of the window except for torch, solar panel, battery and
  factory: for these four the server does nothing, whatever the player owns. The factory's window agrees
  with the server in all recipes, costs and energies.
\<close>
theorem craft_windows_agree:
  "list_all (\<lambda>r. canCraft r items = enough (cr_req r) items) craftRecipes \<and>
   drawCraft R m i a =
     fold (say m) (map (\<lambda>e. act_CraftItem (cr_id (snd e)))
       (filter (\<lambda>e. Clicked R i (craft_button (i_screen i) (fst e)) \<and> canCraft (snd e) (get_Inventory (a_nc a)))
         (enumerate 0 craftRecipes))) a \<and>
   map (\<lambda>r. (cr_id r, cr_req r, [(cr_out r, 1)])) (filter (\<lambda>r. cr_id r \<notin> set dead_recipes) craftRecipes) = recipes \<and>
   list_all (\<lambda>k. k \<in> cr_id ` set craftRecipes \<and> handleCraft cid k s = s) dead_recipes \<and>
   map (\<lambda>r. (fu_id r, fu_need r, fu_energy r)) factoryRecipeList = map (\<lambda>(k, r). (k, fr_need r, fr_energy r)) factoryRecipes"
proof -
  have "map (\<lambda>r. (cr_id r, cr_req r, [(cr_out r, 1)])) (filter (\<lambda>r. cr_id r \<notin> set dead_recipes) craftRecipes) = recipes"
    by code_simp
  moreover have "list_all (\<lambda>k. k \<in> cr_id ` set craftRecipes \<and> map_of recipes k = None) dead_recipes" by code_simp
  then have "list_all (\<lambda>k. k \<in> cr_id ` set craftRecipes \<and> handleCraft cid k s = s) dead_recipes"
    by (auto simp: list_all_iff handleCraft_def with_client_def split: option.split)
  moreover have "map (\<lambda>r. (fu_id r, fu_need r, fu_energy r)) factoryRecipeList =
      map (\<lambda>(k, r). (k, fr_need r, fr_energy r)) factoryRecipes" by code_simp
  ultimately show ?thesis using canCraft_enough craft_clicks by (simp add: drawCraft_def)
qed

end
