(* ===== verification/Orbit_Map.thy ===== *)
theory Orbit_Map
  imports Windows
begin

text \<open>
  The rocket in the hands of its pilot (\<open>rocket.go\<close>), the map of the orbits as far as it computes and
  keeps state (\<open>orbitmap.go\<close>, \<open>orbitmap_input.go\<close>, \<open>orbitmap_overlay.go\<close>) and the prediction of the
  trajectory (\<open>trajectory.go\<close> and the part of \<open>orbitmap_3d.go\<close> that asks for it). The projection of a
  point to the screen is raylib's \<open>GetWorldToScreen\<close>, a parameter.
\<close>

section \<open>Turning a vector\<close>

definition rotateAroundAxis :: "env \<Rightarrow> Vector3 \<Rightarrow> Vector3 \<Rightarrow> f32 \<Rightarrow> Vector3" where
  "rotateAroundAxis E v axis angle =
     (let cosA = f32_of (m_cos E (f64_of angle)); sinA = f32_of (m_sin E (f64_of angle));
          d = v_X v * v_X axis + v_Y v * v_Y axis + v_Z v * v_Z axis;
          cx = v_Y axis * v_Z v - v_Z axis * v_Y v;
          cy = v_Z axis * v_X v - v_X axis * v_Z v;
          cz = v_X axis * v_Y v - v_Y axis * v_X v
      in vec (v_X v * cosA + cx * sinA + v_X axis * d * (1 - cosA))
             (v_Y v * cosA + cy * sinA + v_Y axis * d * (1 - cosA))
             (v_Z v * cosA + cz * sinA + v_Z axis * d * (1 - cosA)))"

section \<open>The map under the mouse\<close>

definition clamp_elevation :: "f32 \<Rightarrow> f32" where
  "clamp_elevation e0 = (let e1 = (if e0 < c32 (- 7 / 5) then c32 (- 7 / 5) else e0)
     in if c32 (7 / 5) < e1 then c32 (7 / 5) else e1)"

definition clamp_distance :: "f32 \<Rightarrow> f32" where
  "clamp_distance d0 = (let d1 = (if d0 < c32 40 then c32 40 else d0) in if c32 150000 < d1 then c32 150000 else d1)"

definition near_screen :: "f32 \<Rightarrow> f32 \<Rightarrow> f32 \<Rightarrow> f32 \<Rightarrow> f32 \<Rightarrow> bool" where
  "near_screen mx my x y r2 \<longleftrightarrow> (mx - x) * (mx - x) + (my - y) * (my - y) < r2"

definition click_focus :: "f32 \<Rightarrow> f32 \<Rightarrow> OrbitState \<Rightarrow> string" where
  "click_focus mx my s =
     (let rr0 = or_earthScrR s + c32 12; rr = (if rr0 < c32 24 then c32 24 else rr0)
      in if near_screen mx my (or_rocketScrX s) (or_rocketScrY s) (c32 484) then ''rocket''
         else if near_screen mx my (or_earthScrX s) (or_earthScrY s) (rr * rr) then ''earth''
         else if near_screen mx my (or_sunScrX s) (or_sunScrY s) (c32 1600) then ''sun''
         else if near_screen mx my (or_star2ScrX s) (or_star2ScrY s) (c32 1600) then ''star2''
         else if near_screen mx my (or_planet2ScrX s) (or_planet2ScrY s) (c32 900) then ''planet2''
         else '''')"

definition handleOrbitMapClick :: "int \<Rightarrow> int \<Rightarrow> OrbitState \<Rightarrow> OrbitState" where
  "handleOrbitMapClick mx my s = s\<lparr>or_focus := click_focus (f32_of_int mx) (f32_of_int my) s\<rparr>"

definition orbit_press :: "frame_in \<Rightarrow> OrbitState \<Rightarrow> OrbitState" where
  "orbit_press i s =
     (if i_lmbPressed i
      then s\<lparr>or_dragged := False, or_mouseStartX := f32_of_int (fst (i_mouseXY i)), or_mouseStartY := f32_of_int (snd (i_mouseXY i))\<rparr>
      else s)"

definition orbit_drag :: "frame_in \<Rightarrow> OrbitState \<Rightarrow> OrbitState" where
  "orbit_drag i s =
     (if \<not> i_lmbDown i then s
      else let mx = fst (i_delta i); my = snd (i_delta i);
               s1 = (if c32 4 < mx * mx + my * my then s\<lparr>or_dragged := True\<rparr> else s)
           in if or_dragged s1
              then s1\<lparr>or_azimuth := or_azimuth s1 + mx * c32 (8 / 1000),
                      or_elevation := clamp_elevation (or_elevation s1 + my * c32 (8 / 1000))\<rparr>
              else s1)"

definition orbit_release :: "frame_in \<Rightarrow> OrbitState \<Rightarrow> OrbitState" where
  "orbit_release i s =
     (if i_lmbReleased i \<and> \<not> or_dragged s then handleOrbitMapClick (fst (i_mouseXY i)) (snd (i_mouseXY i)) s else s)"

definition orbit_zoom :: "frame_in \<Rightarrow> OrbitState \<Rightarrow> OrbitState" where
  "orbit_zoom i s =
     (if eq32 (i_wheel i) 0 then s
      else let m0 = i_wheel i * c32 (1 / 4);
               m1 = (if i_down i KeyLeftShift \<or> i_down i KeyRightShift then m0 * c32 4 else m0)
           in s\<lparr>or_distance := clamp_distance (or_distance s * (1 - m1))\<rparr>)"

definition next_focus :: "string \<Rightarrow> string" where
  "next_focus f = (if f = '''' then ''earth'' else if f = ''earth'' then ''sun'' else if f = ''sun'' then ''star2''
     else if f = ''star2'' then ''planet2'' else if f = ''planet2'' then ''rocket'' else '''')"

definition orbit_cycle :: "frame_in \<Rightarrow> OrbitState \<Rightarrow> OrbitState" where
  "orbit_cycle i s = (if i_pressed i KeyF then s\<lparr>or_focus := next_focus (or_focus s)\<rparr> else s)"

definition updateOrbitMapInput :: "frame_in \<Rightarrow> App \<Rightarrow> App" where
  "updateOrbitMapInput i a =
     a\<lparr>a_orbit := orbit_cycle i (orbit_zoom i (orbit_release i (orbit_drag i (orbit_press i (a_orbit a)))))\<rparr>"

section \<open>What the map shows\<close>

definition initOrbitCameraIfNeeded :: "PRocket \<Rightarrow> bool \<Rightarrow> OrbitState \<Rightarrow> OrbitState" where
  "initOrbitCameraIfNeeded r haveRocket s =
     (if or_init s then s
      else let d0 = (if haveRocket \<and> prock_PrimaryBody r = ''sun'' then SunDistance * c32 (3 / 2)
                     else if haveRocket then prock_Altitude r * c32 (5 / 2) else SOIEarth * c32 2);
               d1 = (if d0 < c32 200 then c32 200 else d0);
               d2 = (if c32 150000 < d1 then c32 150000 else d1)
           in s\<lparr>or_init := True, or_azimuth := c32 (6 / 10), or_elevation := c32 (1 / 2), or_distance := d2\<rparr>)"

text \<open>Sun, Earth, second star, second planet and rocket.\<close>

record helio =
  h_sun :: Vector3
  h_earth :: Vector3
  h_star2 :: Vector3
  h_planet2 :: Vector3
  h_rocket :: Vector3

definition prock_pos :: "PRocket \<Rightarrow> Vector3" where "prock_pos r = vec (prock_X r) (prock_Y r) (prock_Z r)"
definition prock_vel :: "PRocket \<Rightarrow> Vector3" where "prock_vel r = vec (prock_VX r) (prock_VY r) (prock_VZ r)"

definition computeHelioPositions :: "App \<Rightarrow> PRocket \<Rightarrow> bool \<Rightarrow> helio" where
  "computeHelioPositions a r haveRocket =
     \<lparr>h_sun = SunPos, h_earth = w_earthPos (a_world a), h_star2 = Star2Pos, h_planet2 = w_planet2Pos (a_world a),
      h_rocket = (if haveRocket then vsum (prock_pos r) (w_earthPos (a_world a)) else w_earthPos (a_world a))\<rparr>"

definition computeOrbitCenter :: "string \<Rightarrow> helio \<Rightarrow> Vector3" where
  "computeOrbitCenter focus h =
     (if focus = ''earth'' then h_earth h else if focus = ''sun'' then h_sun h else if focus = ''star2'' then h_star2 h
      else if focus = ''planet2'' then h_planet2 h else if focus = ''rocket'' then h_rocket h else h_sun h)"

definition buildOrbitCamera :: "env \<Rightarrow> Vector3 \<Rightarrow> OrbitState \<Rightarrow> f32 \<times> Camera3D" where
  "buildOrbitCamera E center s =
     (let scale = (if c32 900 < or_distance s then or_distance s / c32 900 else 1);
          distS = or_distance s / scale;
          c = vdiv center scale;
          cosEl = f32_of (m_cos E (f64_of (or_elevation s)))
      in (scale,
          \<lparr>cam_Position = vec (v_X c + distS * cosEl * f32_of (m_cos E (f64_of (or_azimuth s))))
                              (v_Y c + distS * f32_of (m_sin E (f64_of (or_elevation s))))
                              (v_Z c + distS * cosEl * f32_of (m_sin E (f64_of (or_azimuth s)))),
           cam_Target = c, cam_Up = vec 0 1 0\<rparr>))"

definition cameraForward :: "Camera3D \<Rightarrow> Vector3" where
  "cameraForward c = vsub (cam_Target c) (cam_Position c)"

text \<open>Where the bodies are on the screen, for the mouse: only what is visible is updated.\<close>

type_synonym to_screen = "Vector3 \<Rightarrow> Camera3D \<Rightarrow> f32 \<times> f32"

definition inFront :: "raymath \<Rightarrow> Camera3D \<Rightarrow> Vector3 \<Rightarrow> Vector3 \<Rightarrow> bool" where
  "inFront R cam p fwd \<longleftrightarrow> (let t = rm_Sub R p (cam_Position cam)
     in 0 < v_X fwd * v_X t + v_Y fwd * v_Y t + v_Z fwd * v_Z t)"

definition onScreen :: "f32 \<times> f32 \<Rightarrow> int \<times> int \<Rightarrow> f32 \<Rightarrow> bool" where
  "onScreen p scr margin \<longleftrightarrow> - margin < fst p \<and> fst p < f32_of_int (fst scr) + margin \<and>
     - margin < snd p \<and> snd p < f32_of_int (snd scr) + margin"

definition pixel :: "f32 \<Rightarrow> f32" where "pixel x = f32_of_int (int_of_f32 x)"

definition drawOrbitSunOverlay :: "raymath \<Rightarrow> to_screen \<Rightarrow> frame_in \<Rightarrow> Camera3D \<Rightarrow> Vector3 \<Rightarrow> f32 \<Rightarrow> OrbitState \<Rightarrow> OrbitState" where
  "drawOrbitSunOverlay R gw i cam fwd scale s =
     (let p = vdiv SunPos scale; scr = gw p cam
      in if \<not> inFront R cam p fwd then s
         else if \<not> onScreen scr (i_screen i) (c32 200) then s
         else s\<lparr>or_sunScrX := pixel (fst scr), or_sunScrY := pixel (snd scr)\<rparr>)"

definition drawOrbitStar2Overlay :: "to_screen \<Rightarrow> frame_in \<Rightarrow> Camera3D \<Rightarrow> f32 \<Rightarrow> OrbitState \<Rightarrow> OrbitState" where
  "drawOrbitStar2Overlay gw i cam scale s =
     (let scr = gw (vdiv Star2Pos scale) cam
      in if \<not> onScreen scr (i_screen i) (c32 200) then s
         else s\<lparr>or_star2ScrX := pixel (fst scr), or_star2ScrY := pixel (snd scr)\<rparr>)"

definition drawOrbitPlanet2Overlay :: "to_screen \<Rightarrow> frame_in \<Rightarrow> Camera3D \<Rightarrow> f32 \<Rightarrow> Vector3 \<Rightarrow> OrbitState \<Rightarrow> OrbitState" where
  "drawOrbitPlanet2Overlay gw i cam scale planet2 s =
     (let scr = gw (vdiv planet2 scale) cam
      in if \<not> onScreen scr (i_screen i) (c32 200) then s
         else s\<lparr>or_planet2ScrX := pixel (fst scr), or_planet2ScrY := pixel (snd scr)\<rparr>)"

definition drawOrbitEarthOverlay ::
    "raymath \<Rightarrow> to_screen \<Rightarrow> frame_in \<Rightarrow> Camera3D \<Rightarrow> Vector3 \<Rightarrow> f32 \<Rightarrow> Vector3 \<Rightarrow> OrbitState \<Rightarrow> OrbitState" where
  "drawOrbitEarthOverlay R gw i cam fwd scale earth s =
     (let p = vdiv earth scale; scr = gw p cam;
          d0 = rm_Distance R (cam_Position cam) p; d = (if d0 < 1 then 1 else d0);
          r0 = (PlanetRadius / scale) / d * (f32_of_int (snd (i_screen i)) / c32 2) / c32 (5773 / 10000);
          r1 = (if r0 < c32 5 then c32 5 else r0); r2 = (if c32 220 < r1 then c32 220 else r1)
      in if \<not> inFront R cam p fwd then s
         else if \<not> onScreen scr (i_screen i) (c32 800) then s
         else s\<lparr>or_earthScrX := pixel (fst scr), or_earthScrY := pixel (snd scr), or_earthScrR := r2\<rparr>)"

definition drawOrbitRocketOverlay ::
    "raymath \<Rightarrow> to_screen \<Rightarrow> frame_in \<Rightarrow> Camera3D \<Rightarrow> Vector3 \<Rightarrow> f32 \<Rightarrow> Vector3 \<Rightarrow> PRocket \<Rightarrow> OrbitState \<Rightarrow> OrbitState" where
  "drawOrbitRocketOverlay R gw i cam fwd scale earth r s =
     (let p = vdiv (vsum (prock_pos r) earth) scale; scr = gw p cam
      in if \<not> inFront R cam p fwd then s
         else if \<not> onScreen scr (i_screen i) (c32 200) then s
         else s\<lparr>or_rocketScrX := pixel (fst scr), or_rocketScrY := pixel (snd scr)\<rparr>)"

definition drawOrbitOverlays ::
    "raymath \<Rightarrow> to_screen \<Rightarrow> frame_in \<Rightarrow> Camera3D \<Rightarrow> Vector3 \<Rightarrow> f32 \<Rightarrow> bool \<Rightarrow> PRocket \<Rightarrow> App \<Rightarrow> App" where
  "drawOrbitOverlays R gw i cam fwd scale haveRocket r a =
     (let w = a_world a;
          s = drawOrbitEarthOverlay R gw i cam fwd scale (w_earthPos w)
                (drawOrbitPlanet2Overlay gw i cam scale (w_planet2Pos w)
                  (drawOrbitStar2Overlay gw i cam scale
                    (drawOrbitSunOverlay R gw i cam fwd scale (a_orbit a))))
      in a\<lparr>a_orbit := (if haveRocket then drawOrbitRocketOverlay R gw i cam fwd scale (w_earthPos w) r s else s)\<rparr>)"

definition drawOrbitMap :: "raymath \<Rightarrow> env \<Rightarrow> to_screen \<Rightarrow> frame_in \<Rightarrow> App \<Rightarrow> App" where
  "drawOrbitMap R E gw i a =
     (let r = rs_hudRocket (a_rocket a); haveRocket = (prock_ID r \<noteq> '''');
          a1 = a\<lparr>a_orbit := initOrbitCameraIfNeeded r haveRocket (a_orbit a)\<rparr>;
          center = computeOrbitCenter (or_focus (a_orbit a1)) (computeHelioPositions a1 r haveRocket)
      in case buildOrbitCamera E center (a_orbit a1) of
           (scale, cam) \<Rightarrow> drawOrbitOverlays R gw i cam (cameraForward cam) scale haveRocket r a1)"

section \<open>The predicted trajectory\<close>

text \<open>Rocket and Earth: position and velocity of each.\<close>

record traj =
  t_p :: Vector3
  t_v :: Vector3
  t_ep :: Vector3
  t_ev :: Vector3

definition add_accel :: "Vector3 \<Rightarrow> f32 \<Rightarrow> f32 \<Rightarrow> Vector3 \<Rightarrow> Vector3" where
  "add_accel e d g acc = vec (v_X acc + - v_X e / d * g) (v_Y acc + - v_Y e / d * g) (v_Z acc + - v_Z e / d * g)"

definition traj_earth :: "f32 \<Rightarrow> Vector3 \<Rightarrow> Vector3 \<Rightarrow> Vector3 \<times> Vector3" where
  "traj_earth dt ep ev =
     (let e = vsub ep SunPos; d = vlen e; g = MuSun / (d * d);
          ax = (if 1 < d then vec (- v_X e / d * g) (- v_Y e / d * g) (- v_Z e / d * g) else zero_vec);
          ev' = vadd ev (vscale ax dt)
      in (vadd ep (vscale ev' dt), ev'))"

definition traj_gravity :: "Vector3 \<Rightarrow> Vector3 \<Rightarrow> Vector3" where
  "traj_gravity p ep =
     (let s = vsub p SunPos; rel = vsub p ep; distSun = vlen s; distEarth = vlen rel;
          g1 = (if 1 < distSun then add_accel s distSun (MuSun / (distSun * distSun)) zero_vec else zero_vec)
      in if distEarth < SOIEarth \<and> 1 < distEarth
         then add_accel rel distEarth (MuEarth / (distEarth * distEarth)) g1 else g1)"

definition traj_step :: "f32 \<Rightarrow> traj \<Rightarrow> traj" where
  "traj_step dt t =
     (case traj_earth dt (t_ep t) (t_ev t) of (ep, ev) \<Rightarrow>
        let v = vadd (t_v t) (vscale (traj_gravity (t_p t) ep) dt)
        in \<lparr>t_p = vadd (t_p t) (vscale v dt), t_v = v, t_ep = ep, t_ev = ev\<rparr>)"

text \<open>Back at the start of a closed orbit.\<close>

definition traj_closed :: "Vector3 \<Rightarrow> Vector3 \<Rightarrow> bool" where
  "traj_closed start p \<longleftrightarrow> (let d = vsub p start in sq3 (v_X d) (v_Y d) (v_Z d) < c32 25)"

fun traj_loop :: "f32 \<Rightarrow> Vector3 \<Rightarrow> nat \<Rightarrow> nat \<Rightarrow> traj \<Rightarrow> Vector3 list" where
  "traj_loop dt start i 0 t = []"
| "traj_loop dt start i (Suc n) t =
     (let t' = traj_step dt t
      in t_p t' # (if 200 < i \<and> traj_closed start (t_p t') then [] else traj_loop dt start (Suc i) n t'))"

definition predictTrajectory :: "Vector3 \<Rightarrow> Vector3 \<Rightarrow> Vector3 \<Rightarrow> Vector3 \<Rightarrow> f32 \<Rightarrow> nat \<Rightarrow> Vector3 list" where
  "predictTrajectory helioPos helioVel earthPos0 earthVel dt steps =
     traj_loop dt helioPos 0 steps \<lparr>t_p = helioPos, t_v = helioVel, t_ep = earthPos0, t_ev = earthVel\<rparr>"

text \<open>The future and the past of a piloted rocket, as the map draws them.\<close>

definition drawOrbitTrajectory :: "App \<Rightarrow> PRocket \<Rightarrow> (Vector3 list \<times> Vector3 list) option" where
  "drawOrbitTrajectory a r =
     (if \<not> prock_Piloted r then None
      else let ep = w_earthPos (a_world a); ev = w_earthVel (a_world a);
               p = vsum (prock_pos r) ep; v = vsum (prock_vel r) ev;
               near = (vlen (vsub p ep) < SOIEarth)
           in Some (if near then predictTrajectory p v ep ev (c32 (5 / 100)) 6000 else predictTrajectory p v ep ev 1 2000,
                    if near then predictTrajectory p v ep ev (c32 (- 5 / 100)) 3000 else predictTrajectory p v ep ev (- 1) 1000))"

section \<open>At the controls of a rocket\<close>

definition findPilotedRocket :: "PRocket list \<Rightarrow> string \<Rightarrow> PRocket option" where
  "findPilotedRocket rs k = find (\<lambda>r. prock_ID r = k) rs"

definition syncPlayerToRocket :: "PRocket \<Rightarrow> FlightController \<Rightarrow> FlightController" where
  "syncPlayerToRocket r f = f\<lparr>fc_Pos := vec (prock_X r + prock_DX r * c32 (3 / 2)) (prock_Y r + prock_DY r * c32 (3 / 2))
       (prock_Z r + prock_DZ r * c32 (3 / 2)), fc_Vel := zero_vec, fc_HelioInit := True\<rparr>"

definition set_nose :: "Vector3 \<Rightarrow> RocketState \<Rightarrow> RocketState" where
  "set_nose n s = s\<lparr>rs_noseX := v_X n, rs_noseY := v_Y n, rs_noseZ := v_Z n\<rparr>"

definition nose :: "RocketState \<Rightarrow> Vector3" where "nose s = vec (rs_noseX s) (rs_noseY s) (rs_noseZ s)"

definition initRocketNoseIfNeeded :: "RocketState \<Rightarrow> RocketState" where
  "initRocketNoseIfNeeded s =
     (if rs_noseInit s then s
      else let p = prock_pos (rs_hudRocket s); l = vlen p
           in (set_nose (if c32 (1 / 100) < l then vdiv p l else vec 0 1 0) s)\<lparr>rs_noseInit := True\<rparr>)"

definition readThrustInput :: "frame_in \<Rightarrow> f32" where
  "readThrustInput i = (if i_down i KeySpace then 1 else if i_down i KeyLeftControl then - 1 else 0)"

definition handleNoseRotation :: "raymath \<Rightarrow> env \<Rightarrow> frame_in \<Rightarrow> f32 \<Rightarrow> Vector3 \<Rightarrow> Vector3 \<Rightarrow> RocketState \<Rightarrow> RocketState" where
  "handleNoseRotation R E i dt up fw s =
     (let right = rm_Normalize R (rm_Cross R fw up); upTrue = rm_Normalize R (rm_Cross R right fw);
          step = c32 (9 / 5) * dt;
          n1 = (if i_down i KeyW then rotateAroundAxis E (nose s) right (- step) else nose s);
          n2 = (if i_down i KeyS then rotateAroundAxis E n1 right step else n1);
          n3 = (if i_down i KeyA then rotateAroundAxis E n2 upTrue step else n2);
          n4 = (if i_down i KeyD then rotateAroundAxis E n3 upTrue (- step) else n3)
      in if i_down i KeyW \<or> i_down i KeyS \<or> i_down i KeyA \<or> i_down i KeyD then set_nose (rm_Normalize R n4) s else s)"

definition handleAutopilotKeys :: "frame_in \<Rightarrow> RocketState \<Rightarrow> RocketState" where
  "handleAutopilotKeys i s =
     (if i_pressed i KeyG then s\<lparr>rs_autoPilot := ''prograde''\<rparr>
      else if i_pressed i KeyH then s\<lparr>rs_autoPilot := ''retrograde''\<rparr>
      else if i_pressed i KeyJ then s\<lparr>rs_autoPilot := ''radial_out''\<rparr>
      else if i_pressed i KeyK then s\<lparr>rs_autoPilot := ''radial_in''\<rparr>
      else if i_pressed i KeyN then s\<lparr>rs_autoPilot := ''normal''\<rparr>
      else if i_pressed i KeyB then s\<lparr>rs_autoPilot := ''antinormal''\<rparr>
      else if i_pressed i KeyX then s\<lparr>rs_autoPilot := ''''\<rparr> else s)"

definition handleRocketExitKey :: "(cli_msg \<Rightarrow> bytes) \<Rightarrow> frame_in \<Rightarrow> App \<Rightarrow> bool \<times> App" where
  "handleRocketExitKey m i a =
     (if \<not> i_pressed i KeyE then (False, a)
      else let a' = say m act_ExitRocket a
           in (True, a'\<lparr>a_player := (a_player a')\<lparr>pl_rocketID := ''''\<rparr>, a_orbit := (a_orbit a')\<lparr>or_showOrbitMap := False\<rparr>,
                       a_rocket := (a_rocket a')\<lparr>rs_noseInit := False\<rparr>\<rparr>))"

definition applyLookOrMap :: "raymath \<Rightarrow> frame_in \<Rightarrow> f32 \<Rightarrow> App \<Rightarrow> App" where
  "applyLookOrMap R i dt a =
     (if or_showOrbitMap (a_orbit a) then updateOrbitMapInput i a
      else set_flight (UpdateLookOnly R i dt (i_delta i)) a)"

definition updateRocketCamera :: "raymath \<Rightarrow> env \<Rightarrow> App \<Rightarrow> App" where
  "updateRocketCamera R E a =
     (case a_flight a of None \<Rightarrow> a | Some f \<Rightarrow> a\<lparr>a_camera := (a_camera a)\<lparr>cs_camera := look_camera R E f\<rparr>\<rparr>)"

text \<open>
  One frame of a pilot; the caller has made sure that there is a player \<open>f\<close>. The first component says
  whether the pilot is still in the rocket.
\<close>

definition updatePilotedRocket ::
    "raymath \<Rightarrow> (cli_msg \<Rightarrow> bytes) \<Rightarrow> env \<Rightarrow> frame_in \<Rightarrow> f32 \<Rightarrow> FlightController \<Rightarrow> App \<Rightarrow> bool \<times> App" where
  "updatePilotedRocket R m E i dt f a =
     (case findPilotedRocket (get_Rockets (a_nc a)) (pl_rocketID (a_player a)) of
        None \<Rightarrow> (time_sub (e_now E) (pl_rocketBoardedAt (a_player a)) < 3 * second, a)
      | Some r \<Rightarrow>
          let f1 = syncPlayerToRocket r f;
              s1 = initRocketNoseIfNeeded ((a_rocket a)\<lparr>rs_hudRocket := r\<rparr>);
              s2 = handleNoseRotation R E i dt (cam_Up (cs_camera (a_camera a))) (Forward R E f1) s1;
              a1 = say m (act_RocketInput (readThrustInput i) (rs_noseX s2) (rs_noseY s2) (rs_noseZ s2) (rs_autoPilot s2))
                     (a\<lparr>a_flight := Some f1\<rparr>);
              a2 = a1\<lparr>a_rocket := handleAutopilotKeys i s2\<rparr>;
              left = handleRocketExitKey m i a2
          in if fst left then (False, snd left) else (True, updateRocketCamera R E (applyLookOrMap R i dt a2)))"

end
