(* ===== verification/Orbit_Facts.thy ===== *)
theory Orbit_Facts
  imports Orbit_Map
begin

text \<open>
  What holds of the map, of the prediction and of the pilot: the view stays within its bounds, the
  prediction follows the physics of the server, and a frame at the controls sends exactly the messages
  that it should.
\<close>

section \<open>The view of the map\<close>

definition focuses :: "string list" where
  "focuses = ['''', ''earth'', ''sun'', ''star2'', ''planet2'', ''rocket'']"

lemma next_focus_cycle: "list_all (\<lambda>f. next_focus f \<in> set focuses \<and> (next_focus ^^ 6) f = f \<and> next_focus f \<noteq> f) focuses"
  by code_simp

lemma click_focus_known: "click_focus mx my s \<in> set focuses"
  by (simp add: click_focus_def focuses_def Let_def)

lemma view_consts: "raw32 (c32 (- 7 / 5)) = Fin (- 11744051 / 8388608)" "raw32 (c32 (7 / 5)) = Fin (11744051 / 8388608)"
    "raw32 (c32 40) = Fin 40" "raw32 (c32 150000) = Fin 150000" "raw32 (c32 (1 / 125)) = Fin (8589935 / 1073741824)"
  by code_simp+

definition view_ok :: "OrbitState \<Rightarrow> bool" where
  "view_ok s \<longleftrightarrow> in32 (- 11744051 / 8388608) (11744051 / 8388608) (or_elevation s) \<and> in32 40 150000 (or_distance s) \<and>
     or_focus s \<in> set focuses"

lemma clamp_elevation_range: "raw32 x \<noteq> NaN \<Longrightarrow> in32 (- 11744051 / 8388608) (11744051 / 8388608) (clamp_elevation x)"
  using clamp32 [OF _ view_consts(1,2)] by (simp add: clamp_elevation_def)

lemma clamp_distance_range: "raw32 x \<noteq> NaN \<Longrightarrow> in32 40 150000 (clamp_distance x)"
  using clamp32 [OF _ view_consts(3,4)] by (simp add: clamp_distance_def)

lemma fin_add_not_NaN: "fin32 x \<Longrightarrow> raw32 y \<noteq> NaN \<Longrightarrow> raw32 (x + y) \<noteq> NaN"
  by (simp add: raw32_ops(1) fadd_not_NaN)

lemma mul_const_not_NaN: "raw32 x \<noteq> NaN \<Longrightarrow> fin32 y \<Longrightarrow> val32 y \<noteq> 0 \<Longrightarrow> raw32 (x * y) \<noteq> NaN"
  using fmul_not_NaN [of "raw32 x" "raw32 y"] by (simp add: raw32_ops(4))

lemma mul_const_not_NaN': "raw32 x \<noteq> NaN \<Longrightarrow> fin32 y \<Longrightarrow> val32 y \<noteq> 0 \<Longrightarrow> raw32 (y * x) \<noteq> NaN"
  using fmul_not_NaN [of "raw32 x" "raw32 y"] by (simp add: raw32_ops(4))

lemma fneg_NaN: "fneg x = NaN \<longleftrightarrow> x = NaN"
  by (cases x) auto

lemma one_minus_not_NaN: "raw32 x \<noteq> NaN \<Longrightarrow> raw32 (1 - x) \<noteq> NaN"
  by (simp add: raw32_ops(2) raw32_ops(7) fadd_not_NaN fneg_NaN)

lemma drag_view:
  assumes "view_ok s" "raw32 (snd (i_delta i)) \<noteq> NaN"
  shows "view_ok (orbit_drag i s)"
proof -
  have "raw32 (snd (i_delta i) * c32 (8 / 1000)) \<noteq> NaN"
    using mul_const_not_NaN [OF assms(2), of "c32 (1 / 125)"] by (simp add: view_consts)
  then have "raw32 (or_elevation s + snd (i_delta i) * c32 (8 / 1000)) \<noteq> NaN"
    using assms(1) by (intro fin_add_not_NaN) (auto simp: view_ok_def in_rng_def)
  from clamp_elevation_range [OF this] assms(1) show ?thesis by (simp add: orbit_drag_def view_ok_def Let_def)
qed

lemma zoom_view:
  assumes "view_ok s" "raw32 (i_wheel i) \<noteq> NaN"
  shows "view_ok (orbit_zoom i s)"
proof -
  have k: "fin32 (c32 (1 / 4))" "val32 (c32 (1 / 4)) \<noteq> 0" "fin32 (c32 4)" "val32 (c32 4) \<noteq> 0" by code_simp+
  let ?m0 = "i_wheel i * c32 (1 / 4)"
  have "raw32 ?m0 \<noteq> NaN" "raw32 (?m0 * c32 4) \<noteq> NaN"
    using mul_const_not_NaN [OF mul_const_not_NaN [OF assms(2) k(1,2)] k(3,4)] mul_const_not_NaN [OF assms(2) k(1,2)] by blast+
  moreover have "fin32 (or_distance s)" "val32 (or_distance s) \<noteq> 0" using assms(1) by (auto simp: view_ok_def in_rng_def)
  ultimately have "in32 40 150000 (clamp_distance (or_distance s * (1 - ?m0)))"
      "in32 40 150000 (clamp_distance (or_distance s * (1 - ?m0 * c32 4)))"
    using clamp_distance_range [OF mul_const_not_NaN' [OF one_minus_not_NaN]] by blast+
  then show ?thesis using assms(1) by (simp add: orbit_zoom_def view_ok_def Let_def)
qed

lemma press_view: "view_ok (orbit_press i s) = view_ok s"
  by (simp add: orbit_press_def view_ok_def)

lemma release_view: "view_ok s \<Longrightarrow> view_ok (orbit_release i s)"
  by (auto simp: orbit_release_def handleOrbitMapClick_def view_ok_def click_focus_known)

lemma cycle_view: "view_ok s \<Longrightarrow> view_ok (orbit_cycle i s)"
  using next_focus_cycle by (auto simp: orbit_cycle_def view_ok_def list_all_iff)

text \<open>
  Whatever the mouse does, the map is seen from between -1.4 and 1.4 radians and from a
  distance between 40 and 150000, and its focus is one of the six known ones. The view turns only while
  the button is held, zooms only with the wheel, and a click that was no drag focuses what is under the
  mouse. Six presses of F lead back to where they began.
\<close>
theorem orbit_view_correct:
  assumes "view_ok (a_orbit a)" "raw32 (snd (i_delta i)) \<noteq> NaN" "raw32 (i_wheel i) \<noteq> NaN"
  shows "let s = a_orbit a; s' = a_orbit (updateOrbitMapInput i a) in
    view_ok s' \<and>
    (\<not> i_lmbDown i \<longrightarrow> or_azimuth s' = or_azimuth s \<and> or_elevation s' = or_elevation s) \<and>
    (eq32 (i_wheel i) 0 \<longrightarrow> or_distance s' = or_distance s) \<and>
    (\<not> i_pressed i KeyF \<longrightarrow> or_focus s' =
       (if i_lmbReleased i \<and> \<not> or_dragged s' then click_focus (f32_of_int (fst (i_mouseXY i))) (f32_of_int (snd (i_mouseXY i))) s
        else or_focus s)) \<and>
    list_all (\<lambda>f. (next_focus ^^ 6) f = f) focuses"
proof -
  let ?s' = "a_orbit (updateOrbitMapInput i a)"
  have "view_ok ?s'"
    using assms by (auto simp: updateOrbitMapInput_def press_view intro!: cycle_view zoom_view release_view drag_view)
  moreover have "\<not> i_lmbDown i \<longrightarrow> or_azimuth ?s' = or_azimuth (a_orbit a) \<and> or_elevation ?s' = or_elevation (a_orbit a)"
    by (simp add: updateOrbitMapInput_def orbit_cycle_def orbit_zoom_def orbit_release_def handleOrbitMapClick_def
        orbit_drag_def orbit_press_def Let_def)
  moreover have "eq32 (i_wheel i) 0 \<longrightarrow> or_distance ?s' = or_distance (a_orbit a)"
    by (simp add: updateOrbitMapInput_def orbit_cycle_def orbit_zoom_def orbit_release_def handleOrbitMapClick_def
        orbit_drag_def orbit_press_def Let_def)
  moreover have "\<not> i_pressed i KeyF \<longrightarrow> or_focus ?s' =
       (if i_lmbReleased i \<and> \<not> or_dragged ?s'
        then click_focus (f32_of_int (fst (i_mouseXY i))) (f32_of_int (snd (i_mouseXY i))) (a_orbit a) else or_focus (a_orbit a))"
    by (simp add: updateOrbitMapInput_def orbit_cycle_def orbit_zoom_def orbit_release_def handleOrbitMapClick_def
        click_focus_def orbit_drag_def orbit_press_def Let_def)
  ultimately show ?thesis using next_focus_cycle by (simp add: Let_def list_all_iff)
qed

theorem orbit_view_correct_witness:
  "in32 40 150000 (or_distance (a_orbit (updateOrbitMapInput (idle_frame\<lparr>i_wheel := c32 5\<rparr>)
     ((app_New '''' '''')\<lparr>a_orbit := zero_orbit\<lparr>or_distance := c32 500\<rparr>\<rparr>))))"
proof -
  have "view_ok (zero_orbit\<lparr>or_distance := c32 500\<rparr>)" by code_simp
  moreover have "raw32 (c32 5) \<noteq> NaN" by code_simp
  ultimately show ?thesis
    using orbit_view_correct [of "(app_New '''' '''')\<lparr>a_orbit := zero_orbit\<lparr>or_distance := c32 500\<rparr>\<rparr>" "idle_frame\<lparr>i_wheel := c32 5\<rparr>"]
    by (simp add: Let_def view_ok_def idle_frame_def raw32_ops(6))
qed

section \<open>The prediction\<close>

lemma traj_loop_nth:
  "k < length (traj_loop dt start i n t) \<Longrightarrow> traj_loop dt start i n t ! k = t_p ((traj_step dt ^^ Suc k) t)"
proof (induction n arbitrary: i t k)
  case (Suc n)
  then show ?case by (cases k) (auto simp: Let_def funpow_swap1 split: if_splits)
qed simp

lemma traj_loop_end:
  "length (traj_loop dt start i n t) \<le> n \<and>
   (length (traj_loop dt start i n t) < n \<longrightarrow>
      traj_loop dt start i n t \<noteq> [] \<and> traj_closed start (last (traj_loop dt start i n t)) \<and>
      201 < i + length (traj_loop dt start i n t)) \<and>
   (\<forall>k. Suc k < length (traj_loop dt start i n t) \<longrightarrow> 200 < i + k \<longrightarrow> \<not> traj_closed start (traj_loop dt start i n t ! k))"
proof (induction n arbitrary: i t)
  case (Suc n)
  let ?t = "traj_step dt t" and ?l = "traj_loop dt start (Suc i) n (traj_step dt t)"
  show ?case
  proof (cases "200 < i \<and> traj_closed start (t_p ?t)")
    case False
    then have "traj_loop dt start i (Suc n) t = t_p ?t # ?l" by (auto simp: Let_def)
    moreover note Suc.IH [of "Suc i" ?t]
    moreover have "\<forall>k. Suc k < Suc (length ?l) \<longrightarrow> 200 < i + k \<longrightarrow> \<not> traj_closed start ((t_p ?t # ?l) ! k)"
      using False Suc.IH [of "Suc i" ?t] by (auto simp: nth_Cons split: nat.split)
    ultimately show ?thesis by auto
  qed (auto simp: Let_def)
qed simp

text \<open>
  The prediction is the orbit, point by point: the k-th point is the position after
  k + 1 steps. There are as many points as steps were asked for, or else more than 201 of them, the last
  one within five units of the start and none after the 201st before it.
\<close>
theorem predictTrajectory_correct:
  fixes p v ep ev :: Vector3
  shows "let pts = predictTrajectory p v ep ev dt n; t = \<lparr>t_p = p, t_v = v, t_ep = ep, t_ev = ev\<rparr> in
    length pts \<le> n \<and> pts = map (\<lambda>k. t_p ((traj_step dt ^^ Suc k) t)) [0..<length pts] \<and>
    (length pts = n \<or> 201 < length pts \<and> traj_closed p (last pts)) \<and>
    list_all (\<lambda>q. \<not> traj_closed p q) (drop 201 (butlast pts))"
proof -
  let ?t = "\<lparr>t_p = p, t_v = v, t_ep = ep, t_ev = ev\<rparr>"
  let ?l = "traj_loop dt p 0 n ?t"
  note e = traj_loop_end [where i = 0, of dt p n ?t]
  have "?l = map (\<lambda>k. t_p ((traj_step dt ^^ Suc k) ?t)) [0..<length ?l]"
    by (rule nth_equalityI) (simp_all add: traj_loop_nth del: funpow.simps)
  moreover have "\<not> traj_closed p q" if "q \<in> set (drop 201 (butlast ?l))" for q
  proof -
    from that obtain k where k: "k < length (drop 201 (butlast ?l))" "q = drop 201 (butlast ?l) ! k"
      by (auto simp: in_set_conv_nth)
    then have "q = ?l ! (201 + k)" "Suc (201 + k) < length ?l" by (simp_all add: nth_butlast)
    then show ?thesis using e by auto
  qed
  moreover have "length ?l = n \<or> 201 < length ?l \<and> traj_closed p (last ?l)" using e by (cases "length ?l < n") auto
  ultimately show ?thesis using e by (auto simp: predictTrajectory_def Let_def list_all_iff simp del: funpow.simps)
qed

section \<open>The physics of the prediction and of the server\<close>

definition zeroish :: "gofloat \<Rightarrow> bool" where "zeroish x \<longleftrightarrow> x = Fin 0 \<or> x = NZero"

lemma mk_sel_swap: "x \<noteq> 0 \<Longrightarrow> mk_sel f n1 (- x) = fneg (mk_sel f n2 x)"
  using fmax_pos [of f] by (auto simp: mk_sel_def)

lemma fin_sub: "is_fin a \<Longrightarrow> is_fin b \<Longrightarrow> \<exists>n. fadd f a (fneg b) = mk_sel f n (rv f (fval a - fval b))"
  using is_fin_not_special [of a] is_fin_not_special [of "fneg b"] by (simp add: fadd_def mk_def fval_fneg) blast

lemma fsub_swap: "fadd f b (fneg a) = fneg (fadd f a (fneg b)) \<or> zeroish (fadd f a (fneg b)) \<and> zeroish (fadd f b (fneg a))"
proof (cases "is_fin a \<and> is_fin b")
  case True
  obtain n1 n2 where e: "fadd f a (fneg b) = mk_sel f n1 (rv f (fval a - fval b))"
      "fadd f b (fneg a) = mk_sel f n2 (rv f (fval b - fval a))" using True fin_sub by metis
  have r: "rv f (fval b - fval a) = - rv f (fval a - fval b)" using rv_minus [of f "fval a - fval b"] by simp
  show ?thesis
  proof (cases "rv f (fval a - fval b) = 0")
    case False
    then show ?thesis unfolding e r using mk_sel_swap by blast
  next
    case True
    then show ?thesis unfolding e r zeroish_def using fmax_pos [of f] by (auto simp: mk_sel_def)
  qed
next
  case False
  then consider "a = NaN" | "b = NaN" | "a = PInf" | "a = NInf" | "b = PInf" | "b = NInf" by (cases a; cases b) auto
  then show ?thesis by cases (cases a; cases b; simp add: fadd_def)+
qed

lemma zeroish_parts: "zeroish x \<Longrightarrow> fval x = 0 \<and> is_fin x"
  by (auto simp: zeroish_def)

lemma mk_0: "mk f n 0 = (if n then NZero else Fin 0)"
  using fmax_pos [of f] by (auto simp: mk_def mk_sel_def)

lemma zeroish_mul: "zeroish x \<Longrightarrow> is_fin y \<Longrightarrow> zeroish (fmul f x y)"
  by (auto simp: fmul_def Let_def zeroish_def mk_0 elim!: is_fin_cases)

lemma zeroish_div: "zeroish x \<Longrightarrow> at_least 1 d \<Longrightarrow> zeroish (fdiv f x d)"
  by (auto simp: fdiv_def Let_def zeroish_def at_least_def mk_0 elim!: is_fin_cases)

lemma zeroish_neg: "zeroish x \<Longrightarrow> zeroish (fneg x)"
  by (auto simp: zeroish_def)

lemma zeroish_add: "v \<noteq> NZero \<Longrightarrow> zeroish x \<Longrightarrow> zeroish y \<Longrightarrow> fadd f v x = fadd f v y"
  by (auto simp: fadd_def zeroish_def)

lemma square_sign: "fmul f (fneg x) (fneg x) = fmul f x x" "zeroish x \<Longrightarrow> fmul f x x = Fin 0"
  by (cases x; simp add: fmul_def Let_def mk_0) (auto simp: fmul_def zeroish_def Let_def mk_0)

text \<open>One coordinate of a pull, with the difference taken either way.\<close>

lemma pull_either_way:
  fixes a s v d g dt :: f32
  assumes "raw32 v \<noteq> NZero" "fin32 dt" "fin32 g" "at_least 1 (raw32 d)"
  shows "v + - (a - s) / d * g * dt = v + (s - a) / d * g * dt"
proof -
  let ?e = "raw32 (a - s)" and ?b = "raw32 (s - a)"
  from fsub_swap [of Binary32 "raw32 s" "raw32 a"] consider "?b = fneg ?e" | "zeroish ?e" "zeroish ?b"
    by (auto simp: raw32_ops(2))
  then have "raw32 (v + - (a - s) / d * g * dt) = raw32 (v + (s - a) / d * g * dt)"
  proof cases
    case 1
    then show ?thesis by (simp only: raw32_ops(1,3-5))
  next
    case 2
    have "zeroish (raw32 (x / d * g * dt))" if "zeroish (raw32 x)" for x
      using that assms(2-4) by (simp only: raw32_ops(4,5) zeroish_mul zeroish_div)
    from this [of "- (a - s)"] this [of "s - a"] 2 zeroish_neg have
      "zeroish (raw32 (- (a - s) / d * g * dt))" "zeroish (raw32 ((s - a) / d * g * dt))"
      by (auto simp: raw32_ops(3))
    then show ?thesis unfolding raw32_ops(1) by (rule zeroish_add [OF assms(1)])
  qed
  then show ?thesis by (simp add: f32.expand)
qed

lemma vlen_sub_swap: "vlen (vsub p q) = vlen (vsub q p)"
proof -
  have "(a - b) * (a - b) = (b - a) * (b - a)" for a b :: f32
  proof (rule f32.expand)
    show "raw32 ((a - b) * (a - b)) = raw32 ((b - a) * (b - a))"
      using fsub_swap [of Binary32 "raw32 b" "raw32 a"] square_sign unfolding raw32_ops(2,4) by metis
  qed
  then show ?thesis by (simp add: vlen_def len3_def sq3_def vsub_def)
qed

lemma one32: "c32 1 = 1"
  by code_simp

lemma at_least_one: "1 < d \<Longrightarrow> at_least 1 (raw32 d)"
  by (cases "raw32 d") (auto simp: less_f32_def flt_def at_least_def raw32_ops(7))

lemma gravity_fin:
  assumes "at_least 1 (raw32 d)"
  shows "fin32 (MuSun / (d * d))"
proof -
  have one: "rv Binary32 1 = 1" and mu: "raw32 MuSun = Fin 2000000" and big: "rv Binary32 2000000 \<le> fmax Binary32" by code_simp+
  have sq: "at_least 1 (raw32 (d * d))"
  proof (cases "raw32 d = PInf")
    case False
    then have "is_fin (raw32 d)" "1 * 1 \<le> val32 d * val32 d"
      using assms mult_mono [of 1 "val32 d" 1 "val32 d"] by (auto simp: at_least_def)
    then have "rv Binary32 1 \<le> rv Binary32 (val32 d * val32 d)" by (intro rv_mono) simp
    then show ?thesis
      using fmul_self_at_least [OF \<open>is_fin (raw32 d)\<close>] one at_least_weaken by (auto simp: raw32_ops(4))
  qed (simp add: raw32_ops(4) fmul_def at_least_def)
  show ?thesis
  proof (cases "raw32 (d * d) = PInf")
    case True
    then show ?thesis using fdiv_inf [of "Fin 2000000" Binary32] by (simp add: raw32_ops(5) mu in_rng_def)
  next
    case False
    then have "is_fin (raw32 (d * d))" "1 \<le> val32 (d * d)" using sq by (auto simp: at_least_def)
    then show ?thesis
      using fdiv_in_rng [of "Fin 2000000" "raw32 (d * d)" 2000000 Binary32] big by (simp add: raw32_ops(5) mu in_rng_def)
  qed
qed

definition no_neg_zero :: "Vector3 \<Rightarrow> bool" where
  "no_neg_zero v \<longleftrightarrow> raw32 (v_X v) \<noteq> NZero \<and> raw32 (v_Y v) \<noteq> NZero \<and> raw32 (v_Z v) \<noteq> NZero"

lemma vsub_sel: "v_X (vsub a b) = v_X a - v_X b" "v_Y (vsub a b) = v_Y a - v_Y b" "v_Z (vsub a b) = v_Z a - v_Z b"
  by (simp_all add: vsub_def)

lemma traj_earth_server:
  assumes "1 < vlen (vsub ep SunPos)" "fin32 dt" "no_neg_zero ev"
  shows "traj_earth dt ep ev = tickBody SunPos MuSun dt ep ev"
proof -
  let ?d = "vlen (vsub ep SunPos)" and ?g = "MuSun / (vlen (vsub ep SunPos) * vlen (vsub ep SunPos))"
  have d: "at_least 1 (raw32 ?d)" "fin32 ?g" using assms(1) at_least_one gravity_fin by blast+
  have "\<not> ?d < c32 1" using assms(1) by (cases "raw32 ?d") (auto simp: one32 less_f32_def flt_def raw32_ops(7))
  moreover note pull = pull_either_way [OF _ assms(2) d(2,1)]
  ultimately show ?thesis using assms(1,3)
    by (simp add: traj_earth_def tickBody_def tick_body_at_def pull_body_def move_body_def Let_def
        vlen_sub_swap [of SunPos] no_neg_zero_def vadd_def vscale_def vsub_sel pull)
qed

text \<open>
  C27. One step of the prediction on the map is one tick of the server: the Earth moves as
  in the server's world, and the rocket is pulled by the gravity that the server computes for it, as long
  as it is not so deep that the server caps the pull of the Earth. Only thrust, drag, the speed limit and
  collisions are left out.
\<close>
theorem prediction_step:
  assumes "t_ep t = w_EarthPos w" "t_ev t = w_EarthVel w" "no_neg_zero (w_EarthVel w)" "fin32 dt"
    and "1 < vlen (vsub (w_EarthPos w) SunPos)"
    and "\<not> c32 500 < MuEarth / (vlen (vsub (t_p t) (w_EarthPos (World_Tick dt w))) * vlen (vsub (t_p t) (w_EarthPos (World_Tick dt w))))"
  shows "let w' = World_Tick dt w; t' = traj_step dt t;
      rel = vsub (t_p t) (w_EarthPos w'); s = vsub (t_p t) SunPos;
      g = gravityAccel rel (vlen rel) (vlen s) (vlen rel < SOIEarth) s
    in t_ep t' = w_EarthPos w' \<and> t_ev t' = w_EarthVel w' \<and>
       t_v t' = vadd (t_v t) (vscale g dt) \<and> t_p t' = vadd (t_p t) (vscale (t_v t') dt)"
proof -
  have "tickBody SunPos MuSun dt (w_EarthPos w) (w_EarthVel w) = (w_EarthPos (World_Tick dt w), w_EarthVel (World_Tick dt w))"
    by (simp add: World_Tick_def split: prod.split)
  then have e: "traj_earth dt (t_ep t) (t_ev t) = (w_EarthPos (World_Tick dt w), w_EarthVel (World_Tick dt w))"
    using traj_earth_server [OF assms(5,4,3)] assms(1,2) by simp
  let ?rel = "vsub (t_p t) (w_EarthPos (World_Tick dt w))" and ?s = "vsub (t_p t) SunPos"
  have "traj_gravity (t_p t) (w_EarthPos (World_Tick dt w)) =
      gravityAccel ?rel (vlen ?rel) (vlen ?s) (vlen ?rel < SOIEarth) ?s"
    using assms(6) by (simp add: traj_gravity_def gravityAccel_def Let_def one32 earth_pull_def add_accel_def add_pull_def)
  then show ?thesis by (simp add: traj_step_def e Let_def)
qed

text \<open>A world with the Earth 5000 to the right of the Sun.\<close>

definition sun_world :: Server_State.WorldState where
  "sun_world = \<lparr>w_EarthPos = vec (F32 (Fin (34961547 / 4096))) (F32 (Fin 0)) (F32 (Fin (14481547 / 4096))), w_EarthVel = vec 0 0 (c32 20),
     w_Planet2Pos = vec (c32 (- 20000)) 0 (c32 (- 21200)), w_Planet2Vel = zero_vec\<rparr>"

definition sun_world_next :: Vector3 where
  "sun_world_next = vec (F32 (Fin (8740305 / 1024))) (F32 (Fin 0)) (F32 (Fin (14563467 / 4096)))"

lemma SunPos_value: "SunPos = \<lparr>v_X = F32 (Fin (14481547 / 4096)), v_Y = F32 (Fin 0), v_Z = F32 (Fin (14481547 / 4096))\<rparr>"
  by code_simp

lemma sun_world_tick: "w_EarthPos (World_Tick 1 sun_world) = sun_world_next"
proof -
  have "vlen (vsub SunPos (w_EarthPos sun_world)) = c32 5000" unfolding SunPos_value by code_simp
  moreover have "fst (tick_body_at (vsub SunPos (w_EarthPos sun_world)) (c32 5000) MuSun 1 (w_EarthPos sun_world) (w_EarthVel sun_world)) =
      sun_world_next" unfolding SunPos_value by code_simp
  ultimately show ?thesis by (auto simp: World_Tick_def tickBody_def split: prod.split)
qed

theorem prediction_step_witness:
  "t_ep (traj_step 1 \<lparr>t_p = zero_vec, t_v = zero_vec, t_ep = w_EarthPos sun_world, t_ev = w_EarthVel sun_world\<rparr>) = sun_world_next"
proof -
  have "no_neg_zero (w_EarthVel sun_world)" "fin32 1" by code_simp+
  moreover have "1 < vlen (vsub (w_EarthPos sun_world) SunPos)" unfolding SunPos_value by code_simp
  moreover have "\<not> c32 500 < MuEarth / (vlen (vsub zero_vec sun_world_next) * vlen (vsub zero_vec sun_world_next))"
    by code_simp
  ultimately show ?thesis
    using prediction_step [of "\<lparr>t_p = zero_vec, t_v = zero_vec, t_ep = w_EarthPos sun_world, t_ev = w_EarthVel sun_world\<rparr>" sun_world 1]
    by (simp only: Let_def traj.select_convs sun_world_tick simp_thms)
qed

section \<open>The pilot\<close>

lemma thrust_values: "readThrustInput i \<in> {- 1, 0, 1}"
  by (simp add: readThrustInput_def)

definition in_seat :: "string \<Rightarrow> GameClient \<Rightarrow> bool" where
  "in_seat k c \<longleftrightarrow> k \<in> prock_ID ` set (get_Rockets c)"

lemma findPilotedRocket_cases:
  "case findPilotedRocket (get_Rockets c) k of None \<Rightarrow> \<not> in_seat k c | Some r \<Rightarrow> r \<in> set (get_Rockets c) \<and> prock_ID r = k \<and> in_seat k c"
proof (cases "findPilotedRocket (get_Rockets c) k")
  case None
  then have "\<not> in_seat k c" by (auto simp: findPilotedRocket_def in_seat_def find_None_iff)
  then show ?thesis using None by simp
next
  case (Some r)
  then have "r \<in> set (get_Rockets c)" "prock_ID r = k" unfolding findPilotedRocket_def find_Some_iff by auto
  then show ?thesis using Some by (auto simp: in_seat_def)
qed

text \<open>The nose after the keys of a frame, as the input message has it.\<close>

definition steered :: "raymath \<Rightarrow> env \<Rightarrow> frame_in \<Rightarrow> f32 \<Rightarrow> FlightController \<Rightarrow> PRocket \<Rightarrow> App \<Rightarrow> RocketState" where
  "steered R E i dt f r a = handleNoseRotation R E i dt (cam_Up (cs_camera (a_camera a)))
     (Forward R E (syncPlayerToRocket r f)) (initRocketNoseIfNeeded ((a_rocket a)\<lparr>rs_hudRocket := r\<rparr>))"

lemma steered_keeps: "rs_autoPilot (steered R E i dt f r a) = rs_autoPilot (a_rocket a)" "rs_hudRocket (steered R E i dt f r a) = r"
    "rs_noseInit (steered R E i dt f r a)"
  by (simp_all add: steered_def handleNoseRotation_def initRocketNoseIfNeeded_def set_nose_def Let_def)

lemma autopilot_keeps: "rs_hudRocket (handleAutopilotKeys i s) = rs_hudRocket s" "rs_noseInit (handleAutopilotKeys i s) = rs_noseInit s"
  by (simp_all add: handleAutopilotKeys_def)

lemma look_helio: "fc_HelioInit (UpdateLookOnly R i dt md g) = fc_HelioInit g"
  by (simp add: UpdateLookOnly_def updateSurvivalLook_def updateCreativeLook_def turn_def Let_def)

definition pilot_input :: "frame_in \<Rightarrow> RocketState \<Rightarrow> cli_msg" where
  "pilot_input i s = act_RocketInput (readThrustInput i) (rs_noseX s) (rs_noseY s) (rs_noseZ s) (rs_autoPilot s)"

text \<open>
  C28. A frame at the controls. While the snapshot does not show the rocket, nothing happens for
  three seconds after boarding, and then the pilot is out without a message. Otherwise the client sends one
  input, whose thrust is -1, 0 or 1 and whose autopilot is that from before the keys of this frame, and, if
  E is pressed, then the exit, and leaves; the player is heliocentric and the display shows the rocket.
\<close>
theorem pilot_correct:
  fixes a :: App
  shows "let k = pl_rocketID (a_player a); out = updatePilotedRocket R m E i dt f a; a' = snd out; e = i_pressed i KeyE in
    case findPilotedRocket (get_Rockets (a_nc a)) k of
      None \<Rightarrow> \<not> in_seat k (a_nc a) \<and> a' = a \<and> (fst out \<longleftrightarrow> time_sub (e_now E) (pl_rocketBoardedAt (a_player a)) < 3 * second)
    | Some r \<Rightarrow> in_seat k (a_nc a) \<and> prock_ID r = k \<and> fst out = (\<not> e) \<and>
        readThrustInput i \<in> {- 1, 0, 1} \<and> rs_autoPilot (steered R E i dt f r a) = rs_autoPilot (a_rocket a) \<and>
        a_nc a' = fold (\<lambda>x c. snd (client_send m x c))
          (pilot_input i (steered R E i dt f r a) # (if e then [act_ExitRocket] else [])) (a_nc a) \<and>
        pl_rocketID (a_player a') = (if e then '''' else k) \<and> rs_hudRocket (a_rocket a') = r \<and>
        rs_noseInit (a_rocket a') = (\<not> e) \<and>
        (case a_flight a' of None \<Rightarrow> False | Some f' \<Rightarrow> fc_HelioInit f' \<and> (if e then f' = syncPlayerToRocket r f else True))"
proof (cases "findPilotedRocket (get_Rockets (a_nc a)) (pl_rocketID (a_player a))")
  case None
  then show ?thesis using findPilotedRocket_cases [where c = "a_nc a" and k = "pl_rocketID (a_player a)"]
    by (simp add: updatePilotedRocket_def Let_def)
next
  case (Some r)
  then have r: "prock_ID r = pl_rocketID (a_player a)" "in_seat (pl_rocketID (a_player a)) (a_nc a)"
    using findPilotedRocket_cases [where c = "a_nc a" and k = "pl_rocketID (a_player a)"] by auto
  have h: "fc_HelioInit (syncPlayerToRocket r f)" by (simp add: syncPlayerToRocket_def)
  note defs = updatePilotedRocket_def Some Let_def handleRocketExitKey_def say_def pilot_input_def steered_keeps autopilot_keeps r h
  show ?thesis
  proof (cases "i_pressed i KeyE")
    case True
    then show ?thesis using thrust_values by (simp add: defs flip: steered_def)
  next
    case False
    then show ?thesis using thrust_values
      by (simp add: defs updateRocketCamera_def applyLookOrMap_def updateOrbitMapInput_def set_flight_def look_helio flip: steered_def)
  qed
qed

end
