(* ===== verification/App_Frame.thy ===== *)
theory App_Frame
  imports Orbit_Facts
begin

text \<open>
  A frame of the client: \<open>update.go\<close>, \<open>update_playing*.go\<close>, \<open>connect.go\<close>, \<open>dead.go\<close> and what the buttons
  of \<open>menu.go\<close>, \<open>dead.go\<close>, \<open>draw.go\<close> and \<open>hud.go\<close> do to the state. \<open>R\<close> is raymath, \<open>m\<close> gives the bytes of
  a message, \<open>E\<close> the clock and package \<open>math\<close>, \<open>i\<close> keyboard, mouse and window, \<open>N\<close> the network as
  \<open>Connect\<close> finds it. A step that ends the frame early returns \<open>True\<close>, as in the code.
\<close>

section \<open>Connecting, leaving, dying\<close>

record net_in =
  ni_codec :: client_codec
  ni_dial :: "(bytes \<times> writer) option"
  ni_error :: "connect_error \<Rightarrow> string"

definition menu_error :: "string \<Rightarrow> App \<Rightarrow> App" where
  "menu_error e a = a\<lparr>a_ui := (a_ui a)\<lparr>ui_menuErr := e\<rparr>\<rparr>"

definition startConnect :: "raymath \<Rightarrow> (cli_msg \<Rightarrow> bytes) \<Rightarrow> net_in \<Rightarrow> App \<Rightarrow> App" where
  "startConnect R m N a =
     (if get_Status (a_nc a) = StatusConnected then a
      else if ui_menuNick (a_ui a) = '''' then menu_error ''nick required'' a
      else if ui_menuAddr (a_ui a) = '''' then menu_error ''server address required'' a
      else let a1 = menu_error '''' a
           in case Connect (ni_codec N) m (ni_dial N) (ui_menuNick (a_ui a)) (ui_menuColor (a_ui a)) (a_nc a1) of
                (Inl e, c, _) \<Rightarrow> menu_error (''connect failed: '' @ ni_error N e) (a1\<lparr>a_nc := c\<rparr>)
              | (Inr w, c, _) \<Rightarrow> a1\<lparr>a_nc := c, a_player := (a_player a1)\<lparr>pl_hp := 100\<rparr>,
                    a_flight := Some (flight_New R (SpawnFromID (welcome_PlayerID w))), a_mode := ModePlaying\<rparr>)"

definition disconnect :: "App \<Rightarrow> App" where
  "disconnect a = (let a1 = setCursorCaptured False a
     in a1\<lparr>a_nc := Disconnect (a_nc a1), a_flight := None, a_mode := ModeMenu\<rparr>)"

definition reset_hp :: "App \<Rightarrow> App" where
  "reset_hp a = a\<lparr>a_player := (a_player a)\<lparr>pl_hp := 100, pl_hpReceived := False\<rparr>\<rparr>"

definition respawn :: "raymath \<Rightarrow> (cli_msg \<Rightarrow> bytes) \<Rightarrow> net_in \<Rightarrow> App \<Rightarrow> App" where
  "respawn R m N a = DisableCursor (startConnect R m N (reset_hp a))"

definition returnToMenu :: "App \<Rightarrow> App" where
  "returnToMenu a = EnableCursor ((reset_hp a)\<lparr>a_mode := ModeMenu\<rparr>)"

definition updateDead :: "raymath \<Rightarrow> (cli_msg \<Rightarrow> bytes) \<Rightarrow> net_in \<Rightarrow> frame_in \<Rightarrow> App \<Rightarrow> App" where
  "updateDead R m N i a =
     (let a1 = (if i_pressed i KeyR then respawn R m N a else a)
      in if i_pressed i KeyEscape then returnToMenu a1 else a1)"

section \<open>Teleports and the position of the Earth\<close>

text \<open>\<open>None\<close> is the panic of a teleport without a player.\<close>

definition app_handleTeleport :: "App \<Rightarrow> App option" where
  "app_handleTeleport a =
     (case g_teleportCh (a_nc a) of
        [] \<Rightarrow> Some a
      | tp # rest \<Rightarrow>
          (case a_flight a of
             None \<Rightarrow> None
           | Some f \<Rightarrow> Some (a\<lparr>a_nc := (a_nc a)\<lparr>g_teleportCh := rest\<rparr>,
                a_flight := Some (f\<lparr>fc_Pos := vec (tp_X tp) (tp_Y tp) (tp_Z tp), fc_Vel := zero_vec, fc_RelInit := False,
                  fc_HelioInit := False\<rparr>),
                a_camera := (a_camera a)\<lparr>cs_smoothInit := False\<rparr>,
                a_world := (a_world a)\<lparr>w_earthPosInit := False, w_earthHistory := []\<rparr>\<rparr>)))"

definition f64_of_tick :: "64 word \<Rightarrow> f64" where "f64_of_tick t = f64_of_int (uint t)"

definition pushEarthSnapshot :: "env \<Rightarrow> 64 word \<Rightarrow> Vector3 \<Rightarrow> Vector3 \<Rightarrow> earthSnap list \<Rightarrow> earthSnap list" where
  "pushEarthSnapshot E tick ep ev h =
     (if tick = 0 then h
      else if h \<noteq> [] \<and> tick = es_tick (last h) then h
      else let h' = h @ [\<lparr>es_tick = tick, es_pos = ep, es_vel = ev, es_at = e_now E\<rparr>]
           in if 30 < length h' then drop (length h' - 30) h' else h')"

definition initRenderTick :: "earthSnap list \<Rightarrow> CameraState \<Rightarrow> CameraState" where
  "initRenderTick h c =
     (if cs_renderTickInit c \<or> h = [] then c
      else c\<lparr>cs_renderTick := f64_of_tick (es_tick (last h)) - c64 3, cs_renderTickInit := True\<rparr>)"

definition advanceRenderTick :: "f32 \<Rightarrow> earthSnap list \<Rightarrow> CameraState \<Rightarrow> CameraState" where
  "advanceRenderTick dt h c =
     (if \<not> cs_renderTickInit c then c
      else let t = cs_renderTick c + f64_of dt * cs_tickRate c
           in if length h < 2 then c\<lparr>cs_renderTick := t\<rparr>
              else let oldest = f64_of_tick (es_tick (h ! 0)); newest = f64_of_tick (es_tick (last h));
                       t1 = (if t < oldest then oldest else t);
                       t2 = (if newest - 1 < t1 then newest - 1 else t1)
                   in c\<lparr>cs_renderTick := t2\<rparr>)"

definition surround_step :: "f64 \<Rightarrow> earthSnap list \<Rightarrow> nat \<Rightarrow> earthSnap option \<times> earthSnap option \<Rightarrow> earthSnap option \<times> earthSnap option" where
  "surround_step rt h k s =
     (if f64_of_tick (es_tick (h ! k)) \<le> rt
      then (Some (h ! k), if k + 1 < length h then Some (h ! (k + 1)) else snd s) else s)"

definition findEarthSurrounding :: "f64 \<Rightarrow> earthSnap list \<Rightarrow> earthSnap option \<times> earthSnap option" where
  "findEarthSurrounding rt h =
     (case fold (surround_step rt h) [0..<length h] (None, None) of
        (Some s, n) \<Rightarrow> (Some s, n)
      | (None, n) \<Rightarrow> (Some (h ! 0), if 1 < length h then Some (h ! 1) else n))"

definition lerp_vec :: "f32 \<Rightarrow> Vector3 \<Rightarrow> Vector3 \<Rightarrow> Vector3" where
  "lerp_vec t p q = vec (v_X p + (v_X q - v_X p) * t) (v_Y p + (v_Y q - v_Y p) * t) (v_Z p + (v_Z q - v_Z p) * t)"

text \<open>The factor is 0 when both snapshots have the same tick.\<close>

definition snap_factor :: "f64 \<Rightarrow> earthSnap \<Rightarrow> earthSnap \<Rightarrow> f64" where
  "snap_factor rt s1 s2 =
     (let span = f64_of_tick (es_tick s2 - es_tick s1);
          t = (if 0 < span then (rt - f64_of_tick (es_tick s1)) / span else 0)
      in if t < 0 then 0 else if 1 < t then 1 else t)"

definition interpolateEarth :: "f64 \<Rightarrow> earthSnap list \<Rightarrow> Vector3 \<Rightarrow> Vector3 \<Rightarrow> Vector3 \<times> Vector3" where
  "interpolateEarth rt h fallbackEP fallbackEV =
     (if h = [] then (fallbackEP, fallbackEV)
      else if length h = 1 then (es_pos (h ! 0), es_vel (h ! 0))
      else case findEarthSurrounding rt h of
             (None, _) \<Rightarrow> (fallbackEP, fallbackEV)
           | (Some s1, None) \<Rightarrow> (es_pos s1, es_vel s1)
           | (Some s1, Some s2) \<Rightarrow>
               (let ft = f32_of (snap_factor rt s1 s2) in (lerp_vec ft (es_pos s1) (es_pos s2), lerp_vec ft (es_vel s1) (es_vel s2))))"

definition updateEarthHistory :: "env \<Rightarrow> f32 \<Rightarrow> App \<Rightarrow> App" where
  "updateEarthHistory E dt a =
     (let ep = get_EarthPos (a_nc a); ev = get_EarthVel (a_nc a);
          c0 = (if feq (raw64 (cs_tickRate (a_camera a))) (Fin 0) then (a_camera a)\<lparr>cs_tickRate := c64 20\<rparr> else a_camera a);
          h = pushEarthSnapshot E (get_LastSnapshotTick (a_nc a)) ep ev (w_earthHistory (a_world a));
          c = advanceRenderTick dt h (initRenderTick h c0)
      in case interpolateEarth (cs_renderTick c) h ep ev of
           (p, v) \<Rightarrow> a\<lparr>a_camera := c, a_world := (a_world a)\<lparr>w_earthHistory := h, w_earthPos := p, w_earthVel := v\<rparr>\<rparr>)"

definition updatePlanet2 :: "App \<Rightarrow> App" where
  "updatePlanet2 a = a\<lparr>a_world := (a_world a)\<lparr>w_planet2Pos := get_Planet2Pos (a_nc a), w_planet2Vel := get_Planet2Vel (a_nc a)\<rparr>\<rparr>"

section \<open>Keys of every mode, chat, pause\<close>

definition handleDebugKeys :: "frame_in \<Rightarrow> App \<Rightarrow> App" where
  "handleDebugKeys i a =
     (let d1 = (if i_pressed i KeyF3 then (a_diag a)\<lparr>dg_showDebug := \<not> dg_showDebug (a_diag a)\<rparr> else a_diag a);
          d2 = (if i_pressed i KeyF8 then d1\<lparr>dg_diagFrames := 120\<rparr> else d1)
      in a\<lparr>a_diag := d2\<rparr>)"

definition drainChat :: "App \<Rightarrow> App" where
  "drainChat a = a\<lparr>a_chat := fold Push (g_chatCh (a_nc a)) (a_chat a), a_nc := (a_nc a)\<lparr>g_chatCh := []\<rparr>\<rparr>"

definition set_camera :: "Camera3D \<Rightarrow> App \<Rightarrow> App" where
  "set_camera c a = a\<lparr>a_camera := (a_camera a)\<lparr>cs_camera := c\<rparr>\<rparr>"

definition updatePausePhysics :: "raymath \<Rightarrow> env \<Rightarrow> frame_in \<Rightarrow> App \<Rightarrow> App" where
  "updatePausePhysics R E i a =
     (case a_flight a of
        None \<Rightarrow> a
      | Some f \<Rightarrow>
          if a_mode a \<noteq> ModePaused \<or> \<not> fc_HelioInit f then a
          else let f' = TickPhysicsOnly R E (i_dt i) (f\<lparr>fc_EarthPos := w_earthPos (a_world a), fc_EarthVel := w_earthVel (a_world a)\<rparr>)
               in set_camera (look_camera R E f')
                    (a\<lparr>a_flight := Some f', a_pause := (a_pause a)\<lparr>pa_relPos := fc_RelPos f', pa_relVel := fc_RelVel f'\<rparr>\<rparr>))"

definition updateMenu :: "raymath \<Rightarrow> (cli_msg \<Rightarrow> bytes) \<Rightarrow> net_in \<Rightarrow> frame_in \<Rightarrow> App \<Rightarrow> App" where
  "updateMenu R m N i a =
     (let a1 = setCursorCaptured False a; u = a_ui a1; foc = ui_menuFocus u;
          u1 = u\<lparr>ui_menuNick := EditField (i_text i) (ui_menuNick u) (foc = 0) 32,
                 ui_menuAddr := EditField (i_text i) (ui_menuAddr u) (foc = 1) 64\<rparr>;
          u2 = (if i_pressed i KeyTab then u1\<lparr>ui_menuFocus := (foc + 1) smod 2\<rparr> else u1);
          a2 = a1\<lparr>a_ui := u2\<rparr>
      in if i_pressed i KeyEnter then startConnect R m N a2 else a2)"

definition exitPause :: "App \<Rightarrow> App" where
  "exitPause a =
     (case a_flight a of
        None \<Rightarrow> a
      | Some f \<Rightarrow> if fc_HelioInit f
          then a\<lparr>a_flight := Some (f\<lparr>fc_Vel := vsum (w_earthVel (a_world a)) (pa_relVel (a_pause a))\<rparr>)\<rparr> else a)
     \<lparr>a_mode := ModePlaying\<rparr>"

definition updatePaused :: "(cli_msg \<Rightarrow> bytes) \<Rightarrow> frame_in \<Rightarrow> App \<Rightarrow> App" where
  "updatePaused m i a =
     (let a1 = setCursorCaptured False a; a2 = (if i_pressed i KeyF then tryPickup m a1 else a1)
      in if i_pressed i KeyEscape then exitPause a2 else a2)"

definition updateDiag :: "App \<Rightarrow> App" where
  "updateDiag a =
     (if dg_diagFrames (a_diag a) \<le> 0 \<or> a_flight a = None then a
      else a\<lparr>a_diag := (a_diag a)\<lparr>dg_diagFrames := dg_diagFrames (a_diag a) - 1\<rparr>\<rparr>)"

section \<open>Playing: what holds the frame\<close>

definition updateRocketMode :: "raymath \<Rightarrow> (cli_msg \<Rightarrow> bytes) \<Rightarrow> env \<Rightarrow> frame_in \<Rightarrow> f32 \<Rightarrow> App \<Rightarrow> bool \<times> App" where
  "updateRocketMode R m E i dt a =
     (case a_flight a of
        None \<Rightarrow> (False, a)
      | Some f \<Rightarrow>
          if pl_rocketID (a_player a) = '''' then (False, a)
          else case updatePilotedRocket R m E i dt f a of
                 (True, a') \<Rightarrow> (True, a')
               | (False, a') \<Rightarrow> (False, a'\<lparr>a_player := (a_player a')\<lparr>pl_rocketID := ''''\<rparr>\<rparr>))"

definition syncFlightBodies :: "raymath \<Rightarrow> f32 \<Rightarrow> App \<Rightarrow> App" where
  "syncFlightBodies R dt a = set_flight (\<lambda>f. SyncToEarthFrame R dt
     (f\<lparr>fc_EarthPos := w_earthPos (a_world a), fc_SunPos := SunPos, fc_EarthVel := w_earthVel (a_world a)\<rparr>)) a"

definition anyUI :: "App \<Rightarrow> bool" where
  "anyUI a \<longleftrightarrow> ui_showInventory (a_ui a) \<or> ui_showCraft (a_ui a) \<or> ui_showContract (a_ui a) \<or> ui_showFactory (a_ui a) \<or>
     cb_Open (a_chat a)"

definition unlocked :: "App \<Rightarrow> App" where
  "unlocked a = a\<lparr>a_player := (a_player a)\<lparr>pl_flightLocked := False\<rparr>\<rparr>"

definition applyUILock :: "raymath \<Rightarrow> env \<Rightarrow> App \<Rightarrow> App" where
  "applyUILock R E a =
     (case a_flight a of
        None \<Rightarrow> unlocked a
      | Some f \<Rightarrow>
          if \<not> anyUI a then unlocked a
          else let w = a_world a; q = a_player a;
                   q1 = (if pl_flightLocked q then q
                         else q\<lparr>pl_lockedRelPos := protocolVector3Sub (fc_Pos f) (w_earthPos w),
                                pl_lockedRelVel := protocolVector3Sub (fc_Vel f) (w_earthVel w), pl_flightLocked := True\<rparr>);
                   f1 = (if pl_flightLocked q then f else f\<lparr>fc_RelInit := True\<rparr>);
                   f2 = f1\<lparr>fc_Pos := vsum (w_earthPos w) (pl_lockedRelPos q1), fc_Vel := vsum (w_earthVel w) (pl_lockedRelVel q1),
                           fc_RelPos := pl_lockedRelPos q1, fc_RelVel := pl_lockedRelVel q1\<rparr>;
                   c = look_camera R E f2
               in a\<lparr>a_flight := Some f2, a_player := q1,
                    a_camera := (a_camera a)\<lparr>cs_smoothPos := cam_Position c, cs_smoothTarget := cam_Target c, cs_smoothInit := True,
                      cs_camera := c\<rparr>\<rparr>)"

definition updateDialogOverlays :: "env \<Rightarrow> frame_in \<Rightarrow> App \<Rightarrow> bool \<times> App" where
  "updateDialogOverlays E i a =
     (if ui_showContract (a_ui a) then (True, updateContract E i a)
      else if ui_showFactory (a_ui a) then (True, updateFactory E i a) else (False, a))"

definition syncHPFromNetwork :: "App \<Rightarrow> App" where
  "syncHPFromNetwork a =
     (let hp = get_OwnHP (a_nc a)
      in if 0 < hp \<or> pl_hpReceived (a_player a)
         then a\<lparr>a_player := (a_player a)\<lparr>pl_hp := hp, pl_hpReceived := True\<rparr>\<rparr> else a)"

definition updateChatOverlay :: "(cli_msg \<Rightarrow> bytes) \<Rightarrow> frame_in \<Rightarrow> App \<Rightarrow> bool \<times> App" where
  "updateChatOverlay m i a =
     (if \<not> cb_Open (a_chat a) then (False, a)
      else case chat_Update (i_text i) (a_chat a) of
             (t, b) \<Rightarrow> let a1 = (setCursorCaptured False a)\<lparr>a_chat := b\<rparr>
                in (True, case t of None \<Rightarrow> a1 | Some x \<Rightarrow> if x \<noteq> '''' then say m (act_SendChat x) a1 else a1))"

definition updateOrbitMapOverlay :: "frame_in \<Rightarrow> App \<Rightarrow> bool \<times> App" where
  "updateOrbitMapOverlay i a =
     (let s = a_orbit a;
          a1 = (if \<not> i_pressed i KeyM then a
                else if \<not> or_showOrbitMap s then EnableCursor (a\<lparr>a_orbit := s\<lparr>or_showOrbitMap := True, or_init := False\<rparr>\<rparr>)
                else DisableCursor (a\<lparr>a_orbit := s\<lparr>or_showOrbitMap := False\<rparr>\<rparr>))
      in if or_showOrbitMap (a_orbit a1) then (True, updateOrbitMapInput i a1) else (False, a1))"

definition handleModeSwitchKey :: "raymath \<Rightarrow> env \<Rightarrow> frame_in \<Rightarrow> App \<Rightarrow> App" where
  "handleModeSwitchKey R E i a =
     (if i_pressed i KeyF1
      then set_flight (\<lambda>f. SwitchMode R E (if fc_Mode f = ModeCreative then ModeSurvival else ModeCreative) f) a else a)"

definition show_windows :: "bool \<Rightarrow> bool \<Rightarrow> App \<Rightarrow> App" where
  "show_windows items craft a = a\<lparr>a_ui := (a_ui a)\<lparr>ui_showInventory := items, ui_showCraft := craft\<rparr>\<rparr>"

definition updateInventoryOverlay :: "frame_in \<Rightarrow> App \<Rightarrow> bool \<times> App" where
  "updateInventoryOverlay i a =
     (let a1 = (if i_pressed i KeyC then EnableCursor (show_windows False True a) else a);
          a2 = (if \<not> i_pressed i KeyI then a1
                else if \<not> ui_showInventory (a_ui a1) then EnableCursor (show_windows True False a1)
                else DisableCursor (show_windows False (ui_showCraft (a_ui a1)) a1))
      in if ui_showInventory (a_ui a2) \<or> ui_showCraft (a_ui a2)
         then (True, if i_pressed i KeyEscape then DisableCursor (show_windows False False a2) else a2)
         else (False, a2))"

text \<open>The connection is closed, the rest is left to the read loop; a closed connection takes no more bytes.\<close>

definition client_Close :: "GameClient \<Rightarrow> GameClient" where
  "client_Close c = c\<lparr>g_conn := map_option (\<lambda>w. w\<lparr>w_room := 0\<rparr>) (g_conn c)\<rparr>"

definition checkDeath :: "App \<Rightarrow> bool \<times> App" where
  "checkDeath a =
     (if \<not> pl_hpReceived (a_player a) \<or> 0 < pl_hp (a_player a) then (False, a)
      else (True, EnableCursor (a\<lparr>a_mode := ModeDead, a_nc := client_Close (a_nc a)\<rparr>)))"

definition checkPause :: "frame_in \<Rightarrow> App \<Rightarrow> bool \<times> App" where
  "checkPause i a =
     (if \<not> i_pressed i KeyEscape then (False, a)
      else let q = (case a_flight a of
             None \<Rightarrow> a_pause a
           | Some f \<Rightarrow> if fc_HelioInit f
               then (a_pause a)\<lparr>pa_relPos := protocolVector3Sub (fc_Pos f) (w_earthPos (a_world a)),
                                pa_relVel := protocolVector3Sub (fc_Vel f) (w_earthVel (a_world a))\<rparr>
               else a_pause a)
           in (True, a\<lparr>a_pause := q, a_mode := ModePaused\<rparr>))"

definition updateUnfocusFreeze :: "raymath \<Rightarrow> env \<Rightarrow> frame_in \<Rightarrow> App \<Rightarrow> bool \<times> App" where
  "updateUnfocusFreeze R E i a =
     (if i_focused i then (False, a)
      else let a1 = setCursorCaptured False a
           in case a_flight a1 of
                None \<Rightarrow> (True, a1)
              | Some f \<Rightarrow>
                  if \<not> fc_HelioInit f then (True, a1)
                  else let w = a_world a1; q = a_pause a1;
                           q1 = (if pa_unfocusFreeze q then q
                                 else q\<lparr>pa_unfocusRelPos := protocolVector3Sub (fc_Pos f) (w_earthPos w),
                                        pa_unfocusRelVel := protocolVector3Sub (fc_Vel f) (w_earthVel w), pa_unfocusFreeze := True\<rparr>);
                           f1 = f\<lparr>fc_Pos := vsum (w_earthPos w) (pa_unfocusRelPos q1), fc_Vel := vsum (w_earthVel w) (pa_unfocusRelVel q1)\<rparr>
                       in (True, set_camera (look_camera R E f1) (a1\<lparr>a_flight := Some f1, a_pause := q1\<rparr>)))"

definition restoreFocus :: "App \<Rightarrow> App" where
  "restoreFocus a = a\<lparr>a_pause := (a_pause a)\<lparr>pa_unfocusFreeze := False\<rparr>\<rparr>"

section \<open>Playing: the physics\<close>

definition key_name :: "frame_in \<Rightarrow> key \<times> string \<Rightarrow> string" where
  "key_name i e = (if i_down i (fst e) then snd e else '''')"

definition readKeysString :: "frame_in \<Rightarrow> string" where
  "readKeysString i =
     (let s = concat (map (key_name i) [(KeyW, ''W''), (KeyA, ''A''), (KeyS, ''S''), (KeyD, ''D''), (KeySpace, ''Spc''),
        (KeyLeftShift, ''LSh''), (KeyRightShift, ''RSh''), (KeyQ, ''Q''), (KeyE, ''E''), (KeyLeftControl, ''LCt''),
        (KeyRightControl, ''RCt'')])
      in if s = '''' then ''-'' else s)"

text \<open>\<open>mouse\<close> is the text of \<open>readMouseString\<close> for the three buttons; the state keeps what was logged last.\<close>

definition readMouseString :: "bool \<Rightarrow> bool \<Rightarrow> bool \<Rightarrow> string" where
  "readMouseString l r c =
     (let s = (if l then ''L'' else '''') @ (if r then ''R'' else '''') @ (if c then ''M'' else '''') in if s = '''' then ''-'' else s)"

definition logFlightDiag :: "env \<Rightarrow> frame_in \<Rightarrow> FlightController \<Rightarrow> DiagState \<Rightarrow> DiagState" where
  "logFlightDiag E i f d =
     (let d1 = d\<lparr>dg_debugFrame := i64 (dg_debugFrame d + 1)\<rparr>;
          keys = readKeysString i; mouse = readMouseString (i_lmbDown i) (i_rmbDown i) (i_mmbDown i);
          changed = (keys \<noteq> dg_lastKeys d \<or> mouse \<noteq> dg_lastMouse d \<or> \<not> eq32 (fst (i_delta i)) 0 \<or> \<not> eq32 (snd (i_delta i)) 0);
          past = time_sub (e_now E) (dg_lastLogAt d)
      in if \<not> (changed \<or> second < past) \<or> past < 30 * millisecond then d1
         else d1\<lparr>dg_lastLogAt := e_now E, dg_lastPos := fc_Pos f, dg_lastKeys := keys, dg_lastMouse := mouse\<rparr>)"

definition updateCameraSmoothing :: "raymath \<Rightarrow> env \<Rightarrow> FlightController \<Rightarrow> CameraState \<Rightarrow> CameraState" where
  "updateCameraSmoothing R E f c =
     (let target = rm_Add R (fc_Pos f) (rm_Scale R (Forward R E f) (c32 100));
          half = (\<lambda>old new. rm_Add R old (rm_Scale R (rm_Sub R new old) (c32 (1 / 2))));
          c1 = (if \<not> cs_smoothInit c
                then c\<lparr>cs_smoothPos := fc_Pos f, cs_smoothTarget := target, cs_smoothInit := True\<rparr>
                else c\<lparr>cs_smoothPos := half (cs_smoothPos c) (fc_Pos f), cs_smoothTarget := half (cs_smoothTarget c) target\<rparr>)
      in c1\<lparr>cs_camera := \<lparr>cam_Position = cs_smoothPos c1, cam_Target = cs_smoothTarget c1, cam_Up = CameraUp R f\<rparr>\<rparr>)"

definition initHelio :: "raymath \<Rightarrow> Vector3 \<Rightarrow> FlightController \<Rightarrow> FlightController" where
  "initHelio R ep f =
     (if \<not> fc_HelioInit f \<and> c32 10000 < sq3 (v_X ep) (v_Y ep) (v_Z ep)
      then f\<lparr>fc_Pos := rm_Add R (fc_Pos f) (fc_EarthPos f), fc_HelioInit := True\<rparr> else f)"

definition updateFlightPhysics :: "raymath \<Rightarrow> env \<Rightarrow> frame_in \<Rightarrow> f32 \<Rightarrow> App \<Rightarrow> App" where
  "updateFlightPhysics R E i dt a =
     (let a1 = setCursorCaptured True a
      in case a_flight a1 of
           None \<Rightarrow> a1
         | Some f \<Rightarrow> let f1 = flight_Update R E i dt (i_delta i) (initHelio R (w_earthPos (a_world a1)) f)
             in a1\<lparr>a_flight := Some f1, a_diag := logFlightDiag E i f1 (a_diag a1),
                   a_camera := updateCameraSmoothing R E f1 (a_camera a1)\<rparr>)"

definition emitPlayerState :: "raymath \<Rightarrow> env \<Rightarrow> App \<Rightarrow> App" where
  "emitPlayerState R E a =
     (case a_flight a of
        None \<Rightarrow> a
      | Some f \<Rightarrow> let fw = Forward R E f; p = protocolVector3Sub (fc_Pos f) (w_earthPos (a_world a))
          in a\<lparr>a_nc := SetState ((zero_state '''' '''')\<lparr>ps_X := v_X p, ps_Y := v_Y p, ps_Z := v_Z p,
               ps_Yaw := f32_of (rm_atan2 R (f64_of (- v_X fw)) (f64_of (- v_Z fw))),
               ps_Pitch := f32_of (rm_asin R (f64_of (v_Y fw)))\<rparr>) (a_nc a)\<rparr>)"

end
