(* ===== verification/App_Run.thy ===== *)
theory App_Run
  imports App_Frame
begin

text \<open>
  The frame put together: \<open>update\<close> and \<open>dispatchMode\<close> of \<open>update.go\<close>, \<open>updatePlaying\<close> of \<open>update_playing.go\<close>,
  the buttons of \<open>drawMenu\<close>, \<open>drawPause\<close>, \<open>drawDead\<close> and \<open>drawHUD\<close>, \<open>draw\<close> of \<open>draw.go\<close> and the loop of
  \<open>Run\<close> in \<open>app.go\<close>. What is drawn is in \<open>Draw_Frame\<close>; a click on a button is part of drawing it, as in
  the code. \<open>None\<close> is a panic.
\<close>

section \<open>Playing\<close>

text \<open>The steps of a frame in the order of the code; a step that returns \<open>True\<close> is the last one.\<close>

fun until_done :: "('s \<Rightarrow> bool \<times> 's) list \<Rightarrow> 's \<Rightarrow> 's" where
  "until_done [] s = s"
| "until_done (f # fs) s = (case f s of (held, s') \<Rightarrow> if held then s' else until_done fs s')"

definition always :: "('s \<Rightarrow> 's) \<Rightarrow> 's \<Rightarrow> bool \<times> 's" where "always f s = (False, f s)"

definition playing_steps ::
    "raymath \<Rightarrow> (cli_msg \<Rightarrow> bytes) \<Rightarrow> env \<Rightarrow> frame_in \<Rightarrow> f32 \<Rightarrow> (App \<Rightarrow> bool \<times> App) list" where
  "playing_steps R m E i dt =
     [always (syncInvSlots E), updateRocketMode R m E i dt, always (syncFlightBodies R dt), always (applyUILock R E),
      updateDialogOverlays E i, always syncHPFromNetwork, updateChatOverlay m i, updateOrbitMapOverlay i,
      always (handleModeSwitchKey R E i), updateInventoryOverlay i, always (updateSlotWheel i), always (syncHeldItem m),
      handleChatKeys i, always (handlePickupKey m i), always (handleMountKey m i), handleMouseClick R m E i,
      checkDeath, checkPause i, updateUnfocusFreeze R E i, always restoreFocus, always (updateFlightPhysics R E i dt),
      always (emitPlayerState R E)]"

definition updatePlaying :: "raymath \<Rightarrow> (cli_msg \<Rightarrow> bytes) \<Rightarrow> env \<Rightarrow> frame_in \<Rightarrow> f32 \<Rightarrow> App \<Rightarrow> App" where
  "updatePlaying R m E i dt = until_done (playing_steps R m E i dt)"

definition dispatchMode :: "raymath \<Rightarrow> (cli_msg \<Rightarrow> bytes) \<Rightarrow> env \<Rightarrow> net_in \<Rightarrow> frame_in \<Rightarrow> f32 \<Rightarrow> App \<Rightarrow> App" where
  "dispatchMode R m E N i dt a =
     (case a_mode a of
        ModeMenu \<Rightarrow> updateMenu R m N i a
      | ModePlaying \<Rightarrow> updatePlaying R m E i dt a
      | ModePaused \<Rightarrow> updatePaused m i a
      | ModeDead \<Rightarrow> updateDead R m N i a)"

definition update :: "raymath \<Rightarrow> (cli_msg \<Rightarrow> bytes) \<Rightarrow> env \<Rightarrow> net_in \<Rightarrow> frame_in \<Rightarrow> f32 \<Rightarrow> App \<Rightarrow> App option" where
  "update R m E N i dt a =
     (case app_handleTeleport a of
        None \<Rightarrow> None
      | Some a0 \<Rightarrow>
          let a1 = updatePlanet2 (updateEarthHistory E dt a0);
              a2 = drainChat (handleDebugKeys i a1);
              a3 = updatePausePhysics R E i (app_updateProjectiles R E m i a2)
          in Some (updateDiag (dispatchMode R m E N i dt a3)))"

section \<open>The buttons\<close>

definition set_ui :: "(UIState \<Rightarrow> UIState) \<Rightarrow> App \<Rightarrow> App" where
  "set_ui f a = a\<lparr>a_ui := f (a_ui a)\<rparr>"

definition on_click :: "raymath \<Rightarrow> frame_in \<Rightarrow> Rectangle \<Rightarrow> (App \<Rightarrow> App) \<Rightarrow> App \<Rightarrow> App" where
  "on_click R i b f a = (if Clicked R i b then f a else a)"

definition toggleFullscreen :: "App \<Rightarrow> App" where "toggleFullscreen a = a\<lparr>a_fullscreen := \<not> a_fullscreen a\<rparr>"
definition quit_app :: "App \<Rightarrow> App" where "quit_app a = a\<lparr>a_quit := True\<rparr>"

text \<open>\<open>TextField\<close> returns whether the field was clicked, by the test of a button.\<close>

definition menu_rect :: "int \<times> int \<Rightarrow> int \<Rightarrow> int \<Rightarrow> Rectangle" where
  "menu_rect scr y h = rect_at ((fst scr - 400) sdiv 2) y 400 h"

definition pick_color :: "frame_in \<Rightarrow> App \<Rightarrow> App" where
  "pick_color i a = set_ui (\<lambda>u. u\<lparr>ui_menuColor := pk_color (drawColorPicker ((fst (i_screen i) - 400) sdiv 2) 332
     (fst (i_mouse i)) (snd (i_mouse i)) (i_lmbPressed i) (ui_menuColor u))\<rparr>) a"

definition drawMenu :: "raymath \<Rightarrow> (cli_msg \<Rightarrow> bytes) \<Rightarrow> net_in \<Rightarrow> frame_in \<Rightarrow> App \<Rightarrow> App" where
  "drawMenu R m N i a =
     (let s = i_screen i;
          a1 = on_click R i (menu_rect s 202 34) (set_ui (\<lambda>u. u\<lparr>ui_menuFocus := 0\<rparr>)) a;
          a2 = on_click R i (menu_rect s 278 34) (set_ui (\<lambda>u. u\<lparr>ui_menuFocus := 1\<rparr>)) a1;
          a3 = on_click R i (menu_rect s 582 42) (startConnect R m N) (pick_color i a2);
          a4 = on_click R i (menu_rect s 634 42) toggleFullscreen a3
      in on_click R i (menu_rect s 686 42) quit_app a4)"

definition pause_rect :: "int \<times> int \<Rightarrow> int \<Rightarrow> Rectangle" where
  "pause_rect scr dy =
     (let px = f32_of_int (fst scr) / c32 2 - c32 200; py = f32_of_int (snd scr) / c32 2 - c32 180
      in \<lparr>r_X = px + c32 40, r_Y = py + f32_of_int dy, r_W = c32 320, r_H = c32 44\<rparr>)"

definition resume :: "App \<Rightarrow> App" where "resume a = a\<lparr>a_mode := ModePlaying\<rparr>"

definition drawPause :: "raymath \<Rightarrow> frame_in \<Rightarrow> App \<Rightarrow> App" where
  "drawPause R i a =
     (let s = i_screen i;
          a1 = on_click R i (pause_rect s 90) resume a;
          a2 = on_click R i (pause_rect s 150) toggleFullscreen a1;
          a3 = on_click R i (pause_rect s 210) disconnect a2
      in on_click R i (pause_rect s 270) quit_app a3)"

definition dead_rect :: "int \<times> int \<Rightarrow> int \<Rightarrow> Rectangle" where
  "dead_rect scr dy = rect_at ((fst scr - 300) sdiv 2) (snd scr sdiv 2 + dy) 300 54"

definition drawDead :: "raymath \<Rightarrow> (cli_msg \<Rightarrow> bytes) \<Rightarrow> net_in \<Rightarrow> frame_in \<Rightarrow> App \<Rightarrow> App" where
  "drawDead R m N i a =
     on_click R i (dead_rect (i_screen i) 130) returnToMenu (on_click R i (dead_rect (i_screen i) 60) (respawn R m N) a)"

definition drawHUD :: "raymath \<Rightarrow> (cli_msg \<Rightarrow> bytes) \<Rightarrow> frame_in \<Rightarrow> App \<Rightarrow> App" where
  "drawHUD R m i a =
     (let a1 = (if ui_showInventory (a_ui a) then drawInventory R i a else a)
      in if ui_showCraft (a_ui a1) then drawCraft R m i a1 else a1)"

text \<open>\<open>W\<close> gives the place of a point of space on the screen.\<close>

definition draw :: "raymath \<Rightarrow> (cli_msg \<Rightarrow> bytes) \<Rightarrow> env \<Rightarrow> to_screen \<Rightarrow> net_in \<Rightarrow> frame_in \<Rightarrow> App \<Rightarrow> App" where
  "draw R m E W N i a =
     (case a_mode a of
        ModeMenu \<Rightarrow> drawMenu R m N i a
      | ModeDead \<Rightarrow> drawDead R m N i (drawHUD R m i a)
      | _ \<Rightarrow>
          let a1 = drawHUD R m i (if a_mode a = ModePaused then drawPause R i a else a);
              a2 = (if ui_showContract (a_ui a1) then drawContract R m E i a1 else a1);
              a3 = (if ui_showFactory (a_ui a2) then drawFactory R m E i a2 else a2)
          in if or_showOrbitMap (a_orbit a3) then drawOrbitMap R E W i a3 else a3)"

section \<open>The loop\<close>

text \<open>
  Between two frames, and between \<open>update\<close> and \<open>draw\<close>, the goroutines of the network client may change
  \<open>a_nc\<close>; a frame therefore takes what they do in these two places. The frames end with the list of
  inputs (the window is closed) or with \<open>a_quit\<close>.
\<close>

record frame =
  fr_in :: frame_in
  fr_env :: env
  fr_screen :: to_screen
  fr_update :: net_in
  fr_draw :: net_in
  fr_before :: "GameClient \<Rightarrow> GameClient"
  fr_between :: "GameClient \<Rightarrow> GameClient"

definition goroutines :: "(GameClient \<Rightarrow> GameClient) \<Rightarrow> App \<Rightarrow> App" where
  "goroutines g a = a\<lparr>a_nc := g (a_nc a)\<rparr>"

definition run_frame :: "raymath \<Rightarrow> (cli_msg \<Rightarrow> bytes) \<Rightarrow> frame \<Rightarrow> App \<Rightarrow> App option" where
  "run_frame R m fr a =
     map_option (\<lambda>b. draw R m (fr_env fr) (fr_screen fr) (fr_draw fr) (fr_in fr) (goroutines (fr_between fr) b))
       (update R m (fr_env fr) (fr_update fr) (fr_in fr) (i_dt (fr_in fr)) (goroutines (fr_before fr) a))"

definition end_run :: "App \<Rightarrow> App" where
  "end_run a = (let a1 = setCursorCaptured False a in a1\<lparr>a_nc := Disconnect (a_nc a1)\<rparr>)"

fun app_Run :: "raymath \<Rightarrow> (cli_msg \<Rightarrow> bytes) \<Rightarrow> frame list \<Rightarrow> App \<Rightarrow> App option" where
  "app_Run R m [] a = Some (end_run a)"
| "app_Run R m (fr # frs) a =
     (if a_quit a then Some (end_run a)
      else case run_frame R m fr a of None \<Rightarrow> None | Some a' \<Rightarrow> app_Run R m frs a')"

end
