(* ===== verification/Commands.thy ===== *)
theory Commands
  imports Config Proxy Server_Life App_Run
begin

text \<open>
  The programs \<open>cmd/server/main.go\<close> and \<open>cmd/client/main.go\<close>: the order in which their parts are started and
  ended and the exit code, the routes of the server's HTTP port, the version and the level of the log. Whether the
  ports can be opened and the embedded files be found, and what ends the server, are parameters.
\<close>

section \<open>Version and log\<close>

record Info =
  vi_Version :: string
  vi_Commit :: string
  vi_Date :: string
  vi_GoVersion :: string

definition version_Get :: "string \<Rightarrow> Info" where
  "version_Get go = \<lparr>vi_Version = ''dev'', vi_Commit = ''none'', vi_Date = ''unknown'', vi_GoVersion = go\<rparr>"

definition version_String :: "Info \<Rightarrow> string" where
  "version_String v = vi_Version v @ '' ('' @ vi_Commit v @ '', '' @ vi_Date v @ '')''"

datatype level = LevelDebug | LevelInfo | LevelWarn | LevelError

text \<open>The level, and whether places in the source are logged. Every unknown name means \<open>info\<close>.\<close>

definition level_of :: "string \<Rightarrow> level" where
  "level_of s =
     (let l = map lower s
      in if l = ''debug'' then LevelDebug
         else if l = ''warn'' \<or> l = ''warning'' then LevelWarn
         else if l = ''error'' then LevelError
         else LevelInfo)"

definition logger_New :: "string \<Rightarrow> string \<Rightarrow> level \<times> bool \<times> string" where
  "logger_New level service = (level_of level, level_of level = LevelDebug, service)"

section \<open>The HTTP port\<close>

text \<open>
  \<open>quote\<close> is the verb \<open>%q\<close>. The mux takes the path of a request as it is; \<open>/\<close> stands for all paths without a route of
  their own. \<open>metrics\<close>, the WebSocket and the files are answered by libraries and by \<open>proxy_Handler\<close>.
\<close>

datatype answer = Body string | JSON string | Scrape | Upgrade | File string

definition version_json :: "(string \<Rightarrow> string) \<Rightarrow> Info \<Rightarrow> string" where
  "version_json quote v = CHR ''{'' # quote ''version'' @ '':'' @ quote (vi_Version v) @ '','' @ quote ''commit'' @ '':'' @ quote (vi_Commit v)
     @ '','' @ quote ''date'' @ '':'' @ quote (vi_Date v) @ '','' @ quote ''go'' @ '':'' @ quote (vi_GoVersion v) @ ''}''"

definition admin_route :: "(string \<Rightarrow> string) \<Rightarrow> string \<Rightarrow> string \<Rightarrow> answer" where
  "admin_route quote go path =
     (if path = ''/healthz'' \<or> path = ''/readyz'' then Body ''ok''
      else if path = ''/metrics'' then Scrape
      else if path = ''/version'' then JSON (version_json quote (version_Get go))
      else if path = ''/ws'' then Upgrade
      else File path)"

section \<open>The server\<close>

datatype run_error = ErrConfig config_error | ErrStart | ErrStatic | ErrAdmin

text \<open>What a run does to the server: it is made with a tick rate, started, and stopped.\<close>

datatype run_action = Makes int | Starts | ShutsAdmin | Stops

datatype wakes = Signal | AdminFails

definition server_run ::
    "(string \<Rightarrow> duration option) \<Rightarrow> environ \<Rightarrow> bool \<Rightarrow> bool \<Rightarrow> wakes \<Rightarrow> run_error option \<times> run_action list" where
  "server_run pd vars listens static wake =
     (case Load pd vars of
        Inl e \<Rightarrow> (Some (ErrConfig e), [])
      | Inr c \<Rightarrow>
         (let made = [Makes (sc_TickRate (cfg_Server c))]
          in case Start listens of
               None \<Rightarrow> (Some ErrStart, made)
             | Some _ \<Rightarrow>
                 if \<not> static then (Some ErrStatic, made @ [Starts])
                 else case wake of
                        Signal \<Rightarrow> (None, made @ [Starts, ShutsAdmin, Stops])
                      | AdminFails \<Rightarrow> (Some ErrAdmin, made @ [Starts])))"

definition exit_code :: "run_error option \<Rightarrow> nat" where
  "exit_code e = (case e of None \<Rightarrow> 0 | Some _ \<Rightarrow> 1)"

section \<open>The client\<close>

definition client_run ::
    "raymath \<Rightarrow> (cli_msg \<Rightarrow> bytes) \<Rightarrow> (string \<Rightarrow> duration option) \<Rightarrow> environ \<Rightarrow> frame list \<Rightarrow> config_error + App option" where
  "client_run R m pd vars frs =
     (case Load pd vars of
        Inl e \<Rightarrow> Inl e
      | Inr c \<Rightarrow> Inr (app_Run R m frs (app_New (cc_Nick (cfg_Client c)) (cc_StartAddr (cfg_Client c)))))"

section \<open>What a run shows\<close>

text \<open>
  The server ends with exit code 0 exactly when it was ended by a signal, and then alone it is stopped; what it is made with is a
  tick rate with which it starts in a reachable state, at a pace between one millisecond and one second. So a failure of the HTTP port, which is
  found only after the start, takes the players' connections away without \<open>Stop\<close>.
\<close>

theorem server_run_correct:
  assumes "server_run pd vars listens static wake = (e, acts)"
  shows "(exit_code e = 0 \<longleftrightarrow> (\<exists>c. Load pd vars = Inr c) \<and> listens \<and> static \<and> wake = Signal) \<and>
    (Stops \<in> set acts \<longleftrightarrow> exit_code e = 0) \<and> (Stops \<in> set acts \<longrightarrow> Starts \<in> set acts) \<and>
    (Makes n \<in> set acts \<longrightarrow> reachable K (New E n r, \<lambda>_. None) \<and> 1000000 \<le> tickDur n \<and> tickDur n \<le> 1000000000)"
proof -
  have "1 \<le> sc_TickRate (cfg_Server c) \<and> sc_TickRate (cfg_Server c) \<le> 1000" if "Load pd vars = Inr c" for c
    using that by (auto simp: Load_def validate_def split: option.splits if_splits)
  then have n: "1 \<le> n \<and> n \<le> 1000" if "Makes n \<in> set acts"
    using assms that by (auto simp: server_run_def Start_def Let_def split: sum.splits if_splits wakes.splits)
  have "(exit_code e = 0 \<longleftrightarrow> (\<exists>c. Load pd vars = Inr c) \<and> listens \<and> static \<and> wake = Signal) \<and>
    (Stops \<in> set acts \<longleftrightarrow> exit_code e = 0) \<and> (Stops \<in> set acts \<longrightarrow> Starts \<in> set acts)"
    using assms by (auto simp: server_run_def exit_code_def Start_def Let_def split: sum.splits if_splits wakes.splits)
  then show ?thesis using n tickDur_bounds [of n] by (auto intro: reachable.start)
qed

end
