(* ===== verification/Go_Fmt.thy ===== *)
theory Go_Fmt
  imports Palette
begin

text \<open>
  The verbs of package \<open>fmt\<close> that the client shows numbers with: \<open>%d\<close>, and \<open>%.pf\<close> and \<open>%+.pf\<close>, which print the
  exact value of a float rounded to \<open>p\<close> decimal places, ties to even.
\<close>

definition fmt_nat :: "nat \<Rightarrow> string" where
  "fmt_nat n = (if n = 0 then ''0'' else dec_digits n)"

definition fmt_d :: "int \<Rightarrow> string" where
  "fmt_d n = (if n < 0 then ''-'' else '''') @ fmt_nat (nat \<bar>n\<bar>)"

definition zero_pad :: "nat \<Rightarrow> string \<Rightarrow> string" where
  "zero_pad p s = replicate (p - length s) (CHR ''0'') @ s"

text \<open>\<open>n\<close> units of the last decimal place.\<close>

definition fixed_digits :: "nat \<Rightarrow> nat \<Rightarrow> string" where
  "fixed_digits p n = fmt_nat (n div 10 ^ p) @ (if p = 0 then '''' else ''.'' @ zero_pad p (dec_digits (n mod 10 ^ p)))"

definition sign_text :: "bool \<Rightarrow> bool \<Rightarrow> string" where
  "sign_text pl neg = (if neg then ''-'' else if pl then ''+'' else '''')"

definition fmt_raw :: "bool \<Rightarrow> nat \<Rightarrow> gofloat \<Rightarrow> string" where
  "fmt_raw pl p x =
     (if x = NaN then (if pl then ''+NaN'' else ''NaN'')
      else if x = PInf then ''+Inf'' else if x = NInf then ''-Inf''
      else sign_text pl (sign_bit x) @ fixed_digits p (nat (rne (\<bar>fval x\<bar> * 10 ^ p))))"

definition fmt_f :: "nat \<Rightarrow> f32 \<Rightarrow> string" where "fmt_f p x = fmt_raw False p (raw32 x)"
definition fmt_plus_f :: "nat \<Rightarrow> f32 \<Rightarrow> string" where "fmt_plus_f p x = fmt_raw True p (raw32 x)"

section \<open>Reading them back\<close>

text \<open>A sign, digits, and the last \<open>p\<close> of them behind the point.\<close>

definition split_sign :: "string \<Rightarrow> bool \<times> string" where
  "split_sign s = (if s \<noteq> '''' \<and> hd s = CHR ''-'' then (True, tl s)
     else if s \<noteq> '''' \<and> hd s = CHR ''+'' then (False, tl s) else (False, s))"

definition read_unsigned :: "nat \<Rightarrow> string \<Rightarrow> nat option" where
  "read_unsigned p s =
     (if p = 0 then read_nat s
      else let whole = take (length s - Suc p) s; rest = drop (length s - Suc p) s
           in if length s < Suc p \<or> hd rest \<noteq> CHR ''.'' \<or> whole = '''' then None else read_nat (whole @ tl rest))"

definition read_fixed :: "nat \<Rightarrow> string \<Rightarrow> rat option" where
  "read_fixed p s = (case split_sign s of (neg, t) \<Rightarrow>
     map_option (\<lambda>n. (if neg then - 1 else 1) * (of_nat n / 10 ^ p)) (read_unsigned p t))"

lemma read_digits_shift: "\<forall>c\<in>set s. digit_of c \<noteq> None \<Longrightarrow>
    read_digits m s = map_option (\<lambda>k. m * 10 ^ length s + k) (read_digits 0 s)"
proof (induction s arbitrary: m)
  case (Cons c s)
  then obtain d where d: "digit_of c = Some d" by auto
  from Cons have s: "\<forall>c\<in>set s. digit_of c \<noteq> None" by simp
  from Cons.IH [OF s, of "m * 10 + d"] Cons.IH [OF s, of d] show ?case
    by (cases "read_digits 0 s") (simp_all add: d algebra_simps)
qed simp

lemma zero_digit: "digit_of (CHR ''0'') = Some 0"
  by (simp add: digit_of_def)

lemma dec_all_digits: "\<forall>c\<in>set (dec_digits v). digit_of c \<noteq> None"
  using dec_digits_chars by blast

lemma read_zeros: "read_digits 0 (replicate k (CHR ''0'') @ s) = read_digits 0 s"
  by (induction k) (simp_all add: zero_digit)

lemma read_zero_pad:
  assumes "v < 10 ^ p"
  shows "read_digits m (zero_pad p (dec_digits v)) = Some (m * 10 ^ p + v)"
proof -
  have l: "length (dec_digits v) \<le> p" using assms length_dec_digits by simp
  then have "length (zero_pad p (dec_digits v)) = p" by (simp add: zero_pad_def)
  moreover have "\<forall>c\<in>set (zero_pad p (dec_digits v)). digit_of c \<noteq> None"
    using dec_all_digits [of v] by (auto simp: zero_pad_def zero_digit)
  ultimately show ?thesis
    using read_digits_shift [of "zero_pad p (dec_digits v)" m] by (simp add: zero_pad_def read_zeros read_dec_digits)
qed

lemma length_zero_pad: "v < 10 ^ p \<Longrightarrow> length (zero_pad p (dec_digits v)) = p"
  using length_dec_digits [of v p] by (simp add: zero_pad_def)

lemma fmt_nat_digits: "\<forall>c\<in>set (fmt_nat n). digit_of c \<noteq> None" and fmt_nat_nonempty: "fmt_nat n \<noteq> ''''"
  using dec_all_digits [of n] by (auto simp: fmt_nat_def zero_digit dec_digits_empty)

lemma read_fmt_nat_whole: "read_digits 0 (fmt_nat n) = Some n"
  by (simp add: fmt_nat_def read_dec_digits zero_digit)

lemma read_fixed_digits: "read_unsigned p (fixed_digits p n) = Some n"
proof (cases "p = 0")
  case True
  then show ?thesis by (simp add: read_unsigned_def fixed_digits_def read_nat_def read_fmt_nat_whole fmt_nat_nonempty)
next
  case False
  let ?w = "fmt_nat (n div 10 ^ p)" and ?z = "zero_pad p (dec_digits (n mod 10 ^ p))"
  have m: "n mod 10 ^ p < 10 ^ p" by simp
  have l: "length ?z = p" by (rule length_zero_pad [OF m])
  have eq: "fixed_digits p n = ?w @ CHR ''.'' # ?z" using False by (simp add: fixed_digits_def)
  have "length (fixed_digits p n) - Suc p = length ?w" using l by (simp add: eq)
  then have "take (length (fixed_digits p n) - Suc p) (fixed_digits p n) = ?w"
    "drop (length (fixed_digits p n) - Suc p) (fixed_digits p n) = CHR ''.'' # ?z" by (simp_all add: eq)
  moreover have "\<not> length (fixed_digits p n) < Suc p" using l by (simp add: eq)
  moreover have "read_nat (?w @ ?z) = Some n"
    using read_zero_pad [OF m, of "n div 10 ^ p"] fmt_nat_nonempty [of "n div 10 ^ p"]
    by (simp only: div_mult_mod_eq) (simp add: read_nat_def read_digits_append read_fmt_nat_whole)
  ultimately show ?thesis using False fmt_nat_nonempty by (simp add: read_unsigned_def Let_def)
qed

lemma split_sign_text: "split_sign (sign_text pl neg @ fixed_digits p n) = (neg, fixed_digits p n)"
proof -
  have h: "hd (fixed_digits p n) = hd (fmt_nat (n div 10 ^ p))" "fixed_digits p n \<noteq> ''''"
    using fmt_nat_nonempty [of "n div 10 ^ p"] by (simp_all add: fixed_digits_def)
  have "hd (fmt_nat (n div 10 ^ p)) \<in> set (fmt_nat (n div 10 ^ p))" using fmt_nat_nonempty by simp
  then have "digit_of (hd (fixed_digits p n)) \<noteq> None" using fmt_nat_digits h by metis
  then have "hd (fixed_digits p n) \<noteq> CHR ''-''" "hd (fixed_digits p n) \<noteq> CHR ''+''" by (auto simp: digit_of_def)
  with h(2) show ?thesis by (auto simp: split_sign_def sign_text_def)
qed

lemma rne_half: "\<bar>of_int (rne y) - y\<bar> \<le> 1 / 2"
proof -
  have "of_int \<lfloor>y\<rfloor> \<le> y" "y < of_int \<lfloor>y\<rfloor> + 1" by linarith+
  then show ?thesis by (auto simp: rne_def rne_at_def rne_sel_def abs_le_iff) (linarith+)?
qed

text \<open>
  What the client prints of a finite float with \<open>p\<close> decimal places reads back as a number that
  differs from the float by at most half a unit of the last place shown, with the sign of the float, whether
  or not the verb asks for a plus sign; infinities and NaN are printed as words without digits.
\<close>
theorem shown_number:
  assumes "is_fin (raw32 x)"
  shows "\<exists>v. read_fixed p (fmt_f p x) = Some v \<and> read_fixed p (fmt_plus_f p x) = Some v \<and>
      \<bar>v - val32 x\<bar> \<le> 1 / 2 / 10 ^ p \<and> 0 \<le> v * (if sign_bit (raw32 x) then - 1 else 1)"
proof -
  define n where "n = rne (\<bar>val32 x\<bar> * 10 ^ p)"
  define s :: rat where "s = (if sign_bit (raw32 x) then - 1 else 1)"
  define v where "v = s * (of_nat (nat n) / 10 ^ p)"
  have n: "0 \<le> n" using rne_mono [of 0 "\<bar>val32 x\<bar> * 10 ^ p"] rne_of_int [of 0] by (simp add: n_def)
  have eq: "fmt_raw b p (raw32 x) = sign_text b (sign_bit (raw32 x)) @ fixed_digits p (nat n)" for b
    using assms by (cases "raw32 x") (simp_all add: fmt_raw_def n_def)
  have rd: "read_fixed p (fmt_raw b p (raw32 x)) = Some v" for b
    unfolding eq read_fixed_def split_sign_text by (simp add: read_fixed_digits v_def s_def)
  have val: "val32 x = s * \<bar>val32 x\<bar>" using assms by (cases "raw32 x") (auto simp: s_def)
  have "\<bar>of_int n - \<bar>val32 x\<bar> * 10 ^ p\<bar> \<le> 1 / 2" unfolding n_def by (rule rne_half)
  then have "\<bar>(of_int n - \<bar>val32 x\<bar> * 10 ^ p) / 10 ^ p\<bar> \<le> 1 / 2 / 10 ^ p"
    unfolding abs_divide by (simp add: divide_right_mono [of _ "1 / 2" "10 ^ p", simplified] field_simps)
  moreover have "v - val32 x = s * ((of_int n - \<bar>val32 x\<bar> * 10 ^ p) / 10 ^ p)"
    using n by (subst val) (simp add: v_def field_simps)
  ultimately have "\<bar>v - val32 x\<bar> \<le> 1 / 2 / 10 ^ p" by (simp add: abs_mult s_def)
  moreover have "0 \<le> v * (if sign_bit (raw32 x) then - 1 else 1)" by (simp add: v_def s_def)
  ultimately show ?thesis using rd by (auto simp: fmt_f_def fmt_plus_f_def)
qed

theorem shown_number_witness:
  "fmt_f 1 (c32 (- 1 / 4)) = ''-0.2'' \<and> (\<exists>v. read_fixed 1 (fmt_f 1 (c32 (- 1 / 4))) = Some v \<and> \<bar>v - (- 1 / 4)\<bar> \<le> 1 / 20)"
proof -
  have "is_fin (raw32 (c32 (- 1 / 4)))" "val32 (c32 (- 1 / 4)) = - 1 / 4" "fmt_f 1 (c32 (- 1 / 4)) = ''-0.2''" by code_simp+
  then show ?thesis using shown_number [of "c32 (- 1 / 4)" 1] by auto
qed

end
