(* ===== verification/Loadtest.thy ===== *)
theory Loadtest
  imports Client_Link Go_Fmt
begin

text \<open>
  The load generator \<open>cmd/loadtest/main.go\<close>: its bots, which shake hands, send their state and pings and count what
  arrives, and its figures. The random draws of a bot are the record \<open>draws\<close>; what the tickers and the
  context do is the list of events that the sender meets and the test \<open>over\<close> of the reader. The reader and the
  sender of a bot are two goroutines that share only the counters, to which both only add.
\<close>

section \<open>A bot\<close>

record stats =
  lt_snapshots :: "64 word"
  lt_bytes :: "64 word"
  lt_errors :: "64 word"

definition add_error :: "stats \<Rightarrow> stats" where "add_error st = st\<lparr>lt_errors := lt_errors st + 1\<rparr>"

record draws =
  dr_theta :: f64
  dr_phi :: f64
  dr_yaw :: f64

record place =
  bp_X :: f32
  bp_Y :: f32
  bp_Z :: f32
  bp_Yaw :: f32

text \<open>A point at the player's height above the ground, in a random direction.\<close>

definition bot_place :: "env \<Rightarrow> draws \<Rightarrow> place" where
  "bot_place E d =
     (let theta = dr_theta d * c64 2 * c64 pi_rat; phi = m_acos E (c64 2 * dr_phi d - 1);
          nx = f32_of (m_sin E phi * m_cos E theta); ny = f32_of (m_cos E phi); nz = f32_of (m_sin E phi * m_sin E theta);
          h = TerrainHeight E nx ny nz + PlayerHeight
      in \<lparr>bp_X = nx * h, bp_Y = ny * h, bp_Z = nz * h, bp_Yaw = f32_of (dr_yaw d * c64 2 * c64 pi_rat)\<rparr>)"

definition bot_nick :: "nat \<Rightarrow> string" where "bot_nick i = ''bot-'' @ zero_pad 3 (fmt_nat i)"

definition bot_hello :: "nat \<Rightarrow> Hello" where
  "bot_hello i = \<lparr>hello_Nick = bot_nick i, hello_Version = ''loadtest'', hello_ColorHex = ''''\<rparr>"

text \<open>The state at an angle around the vertical axis of the world.\<close>

definition bot_state :: "env \<Rightarrow> place \<Rightarrow> string \<Rightarrow> nat \<Rightarrow> f64 \<Rightarrow> PlayerState" where
  "bot_state E p pid i angle =
     (let c = f32_of (m_cos E angle); s = f32_of (m_sin E angle)
      in \<lparr>ps_ID = pid, ps_Nick = bot_nick i, ps_X = bp_X p * c + bp_Z p * s, ps_Y = bp_Y p, ps_Z = - bp_X p * s + bp_Z p * c,
          ps_Yaw = bp_Yaw p, ps_Pitch = 0, ps_Hunger = c32 100, ps_HP = 100, ps_RTTms = 0, ps_ColorHex = ''''\<rparr>)"

section \<open>Sending\<close>

text \<open>A tick of the sender, a tick of the pings at a time; the list ends with the context.\<close>

datatype bot_event = SendTick | PingTick gotime

definition bot_angle :: "nat \<Rightarrow> f64" where "bot_angle n = ((\<lambda>a. a + c64 (1 / 100)) ^^ n) 0"

primrec bot_messages :: "env \<Rightarrow> place \<Rightarrow> string \<Rightarrow> nat \<Rightarrow> nat \<Rightarrow> bot_event list \<Rightarrow> cli_msg list" where
  "bot_messages E p pid i n [] = []"
| "bot_messages E p pid i n (e # es) =
     (case e of
        SendTick \<Rightarrow> CState (bot_state E p pid i (bot_angle (Suc n))) # bot_messages E p pid i (Suc n) es
      | PingTick t \<Rightarrow> CPing \<lparr>ping_Sent = unix_milli t\<rparr> # bot_messages E p pid i n es)"

text \<open>
  Errors of \<open>NewEnvelope\<close> and \<open>Marshal\<close> are ignored, so that a state with a number that is not finite is sent as
  the empty envelope \<open>blank\<close>. A failed write of a state ends the bot, that of a ping does not.
\<close>

definition bot_bytes :: "(cli_msg \<Rightarrow> bytes) \<Rightarrow> bytes \<Rightarrow> cli_msg \<Rightarrow> bytes" where
  "bot_bytes m blank x = (if cli_finite x then m x else blank)"

primrec bot_send :: "(cli_msg \<Rightarrow> bytes) \<Rightarrow> bytes \<Rightarrow> cli_msg list \<Rightarrow> writer \<Rightarrow> stats \<Rightarrow> writer \<times> stats" where
  "bot_send m blank [] w st = (w, st)"
| "bot_send m blank (x # xs) w st =
     (case WriteFrame w (bot_bytes m blank x) of
        (None, w') \<Rightarrow> bot_send m blank xs w' st
      | (Some _, w') \<Rightarrow> (case x of CState _ \<Rightarrow> (w', add_error st) | _ \<Rightarrow> bot_send m blank xs w' st))"

section \<open>Receiving\<close>

text \<open>Every frame is counted as a snapshot, whatever it holds.\<close>

function bot_read :: "(nat \<Rightarrow> bool) \<Rightarrow> nat \<Rightarrow> bytes \<Rightarrow> stats \<Rightarrow> stats" where
  "bot_read over k r st =
     (if over k then st
      else case ReadFrame r of
             Inl _ \<Rightarrow> st
           | Inr (frame, r') \<Rightarrow> bot_read over (Suc k) r'
               (st\<lparr>lt_snapshots := lt_snapshots st + 1, lt_bytes := lt_bytes st + of_nat (length frame)\<rparr>))"
  by pat_completeness auto
termination
  by (relation "measure (\<lambda>(_, _, r, _). length r)") (auto dest: ReadFrame_shorter)

declare bot_read.simps [simp del]

section \<open>The run of a bot\<close>

text \<open>
  The handshake. The error of decoding the welcome is ignored: \<open>partial\<close> is the identifier that a failed
  decoding leaves behind.
\<close>

definition bot_handshake ::
    "client_codec \<Rightarrow> (Envelope \<Rightarrow> string) \<Rightarrow> (cli_msg \<Rightarrow> bytes) \<Rightarrow> nat \<Rightarrow> bytes \<Rightarrow> writer \<Rightarrow> (string \<times> writer \<times> bytes) option" where
  "bot_handshake K partial m i r w =
     (case WriteFrame w (m (CHello (bot_hello i))) of
        (Some _, _) \<Rightarrow> None
      | (None, w') \<Rightarrow>
         (case ReadFrame r of
            Inl _ \<Rightarrow> None
          | Inr (payload, r') \<Rightarrow>
             (case d_Envelope K payload of
                None \<Rightarrow> None
              | Some e \<Rightarrow>
                  if env_Type e \<noteq> tag TypeWelcome then None
                  else Some (case Decode (d_Welcome K) zero_welcome e of Some wel \<Rightarrow> welcome_PlayerID wel | None \<Rightarrow> partial e,
                        w', r'))))"

text \<open>\<open>NewTicker(time.Second / time.Duration(rate))\<close> panics unless the interval is positive.\<close>

definition rate_ok :: "int \<Rightarrow> bool" where "rate_ok rate \<longleftrightarrow> rate \<noteq> 0 \<and> 0 < second sdiv rate"

record bot_in =
  bi_dial :: "(bytes \<times> writer) option"
  bi_draws :: draws
  bi_events :: "bot_event list"
  bi_over :: "nat \<Rightarrow> bool"

text \<open>\<open>None\<close> is a panic, which ends the whole program; otherwise what was sent, and the counters.\<close>

definition bot ::
    "client_codec \<Rightarrow> (Envelope \<Rightarrow> string) \<Rightarrow> (cli_msg \<Rightarrow> bytes) \<Rightarrow> bytes \<Rightarrow> env \<Rightarrow> int \<Rightarrow> bot_in \<Rightarrow> nat \<Rightarrow> stats \<Rightarrow>
     (writer option \<times> stats) option" where
  "bot K partial m blank E rate b i st =
     (case bi_dial b of
        None \<Rightarrow> Some (None, add_error st)
      | Some (r, w) \<Rightarrow>
         (case bot_handshake K partial m i r w of
            None \<Rightarrow> Some (None, add_error st)
          | Some (pid, w', r') \<Rightarrow>
              if \<not> rate_ok rate then None
              else case bot_send m blank (bot_messages E (bot_place E (bi_draws b)) pid i 0 (bi_events b)) w'
                     (bot_read (bi_over b) 0 r' st) of
                     (w'', st') \<Rightarrow> Some (Some w'', st')))"

text \<open>All bots of a run share the counters.\<close>

fun run_bots ::
    "client_codec \<Rightarrow> (Envelope \<Rightarrow> string) \<Rightarrow> (cli_msg \<Rightarrow> bytes) \<Rightarrow> bytes \<Rightarrow> env \<Rightarrow> int \<Rightarrow> bot_in list \<Rightarrow> nat \<Rightarrow> stats \<Rightarrow> stats option" where
  "run_bots K partial m blank E rate [] i st = Some st"
| "run_bots K partial m blank E rate (b # bs) i st =
     (case bot K partial m blank E rate b i st of
        None \<Rightarrow> None | Some (_, st') \<Rightarrow> run_bots K partial m blank E rate bs (Suc i) st')"

text \<open>The figures of the reporter for five seconds, and those of the whole run.\<close>

definition u64f :: "64 word \<Rightarrow> f64" where "u64f n = f64_of_int (uint n)"

definition report_rates :: "stats \<Rightarrow> stats \<Rightarrow> f64 \<times> f64" where
  "report_rates cur prev = (u64f (lt_snapshots cur - lt_snapshots prev) / c64 5,
     u64f (lt_bytes cur - lt_bytes prev) / c64 5 / c64 1024)"

definition final_rates :: "duration \<Rightarrow> stats \<Rightarrow> f64 \<times> f64 \<times> f64" where
  "final_rates elapsed st = (u64f (lt_snapshots st) / dur_seconds elapsed, u64f (lt_bytes st) / u64f (lt_snapshots st + 1),
     u64f (lt_bytes st) / dur_seconds elapsed / c64 1024)"

section \<open>What a run shows\<close>

lemma bot_read_frames:
  assumes "list_all (client_gets K ms) q"
  shows "bot_read (\<lambda>_. False) k (concat (map encode_frame (map ms q))) st = st\<lparr>lt_snapshots := lt_snapshots st + of_nat (length q),
     lt_bytes := lt_bytes st + of_nat (sum_list (map (\<lambda>x. length (ms x)) q))\<rparr>"
  using assms
proof (induction q arbitrary: k st)
  case Nil
  show ?case by (simp add: bot_read.simps ReadFrame_def read_full_def)
next
  case (Cons x q)
  then have "length (ms x) \<le> MaxFrameSize" by (simp add: client_gets_def)
  with Cons show ?case by (simp add: bot_read.simps [of _ k] ReadFrame_encode algebra_simps)
qed

lemma bot_send_frames:
  assumes "list_all (\<lambda>x. cli_finite x \<and> length (m x) \<le> MaxFrameSize) xs"
    and "sum_list (map (\<lambda>x. length (m x) + 4) xs) \<le> w_room w"
  shows "snd (bot_send m blank xs w st) = st \<and>
    w_out (fst (bot_send m blank xs w st)) = w_out w @ concat (map (\<lambda>x. encode_frame (m x)) xs)"
  using assms
proof (induction xs arbitrary: w)
  case (Cons x xs)
  let ?w = "w\<lparr>w_out := w_out w @ encode_frame (m x), w_room := w_room w - (length (m x) + 4)\<rparr>"
  have "WriteFrame w (m x) = (None, ?w)" using Cons.prems by (intro WriteFrame_out) auto
  moreover have "sum_list (map (\<lambda>x. length (m x) + 4) xs) \<le> w_room ?w" using Cons.prems(2) by simp
  ultimately show ?case using Cons.IH [of ?w] Cons.prems(1) by (simp add: bot_bytes_def)
qed simp

text \<open>
  C40. A bot and the server. The server accepts the bot under its nick, and then does exactly what the bot's states and pings
  ask for, one after the other. The bot reports no error; but what it counts as snapshots is every
  message of the player's queue after the welcome, its own pongs, the inventory and the chat
  included, and so it is for the bytes. With a rate of zero, or one over a thousand million, the program panics.
\<close>
theorem bot_session:
  assumes "bi_dial b = Some (w_out (snd (writeLoop ms (MsgWelcome wel # q) w0)), w)" "w_out w = []" "w_out w0 = []"
    and "list_all (client_gets K ms) (MsgWelcome wel # q)" "bi_over b = (\<lambda>_. False)"
    and "sum_list (map (\<lambda>x. length (ms x) + 4) (MsgWelcome wel # q)) \<le> w_room w0"
    and "xs = bot_messages E (bot_place E (bi_draws b)) (welcome_PlayerID wel) i 0 (bi_events b)"
    and "list_all (\<lambda>x. cli_finite x \<and> arrives Ks m x) (CHello (bot_hello i) # xs)"
    and "sum_list (map (\<lambda>x. length (m x) + 4) (CHello (bot_hello i) # xs)) \<le> w_room w"
  shows "case bot K partial m blank E rate b i st of
      None \<Rightarrow> rate = 0 \<or> second sdiv rate \<le> 0
    | Some (w', st') \<Rightarrow> 0 < second sdiv rate \<and>
        st' = st\<lparr>lt_snapshots := lt_snapshots st + of_nat (length q),
                lt_bytes := lt_bytes st + of_nat (sum_list (map (\<lambda>x. length (ms x)) q))\<rparr> \<and>
        (case w' of None \<Rightarrow> False | Some out \<Rightarrow>
           \<exists>rest. performHelloHandshake Ks (w_out out) (new_client cid) = Some (greet (bot_hello i) (new_client cid), rest) \<and>
             readLoop Ks Es n cid rest s = fold (\<lambda>(j, x). server_effect (Es j) cid x) (enumerate n xs) s)"
proof -
  let ?h = "CHello (bot_hello i)"
  define w1 where "w1 = w\<lparr>w_out := w_out w @ encode_frame (m ?h), w_room := w_room w - (length (m ?h) + 4)\<rparr>"
  have h: "length (m ?h) \<le> MaxFrameSize" using assms(8) by (simp add: arrives_def)
  then have wf: "WriteFrame w (m ?h) = (None, w1)" unfolding w1_def using assms(9) by (intro WriteFrame_out) auto
  obtain w2 where w2: "writeLoop ms (MsgWelcome wel # q) w0 = (True, w2)"
    "w_out w2 = concat (map encode_frame (map ms (MsgWelcome wel # q)))"
    using queue_frames [OF assms(4,6,3)] by blast
  obtain e where e: "d_Envelope K (ms (MsgWelcome wel)) = Some e" "env_Type e = tag TypeWelcome" "env_Data e \<noteq> []"
    "d_Welcome K (env_Data e) = Some wel" "length (ms (MsgWelcome wel)) \<le> MaxFrameSize"
    using assms(4) by (auto simp: client_gets_def split: option.splits)
  have hs: "bot_handshake K partial m i (w_out w2) w = Some (welcome_PlayerID wel, w1, concat (map encode_frame (map ms q)))"
    using e wf by (simp add: bot_handshake_def w2(2) ReadFrame_encode Decode_def)
  define st1 where "st1 = st\<lparr>lt_snapshots := lt_snapshots st + of_nat (length q),
      lt_bytes := lt_bytes st + of_nat (sum_list (map (\<lambda>x. length (ms x)) q))\<rparr>"
  define out where "out = fst (bot_send m blank xs w1 st1)"
  have fr: "list_all (\<lambda>x. cli_finite x \<and> length (m x) \<le> MaxFrameSize) xs"
    using assms(8) by (auto simp: list_all_iff arrives_def)
  have room: "sum_list (map (\<lambda>x. length (m x) + 4) xs) \<le> w_room w1" using assms(9) by (simp add: w1_def)
  have sent: "bot_send m blank xs w1 st1 = (out, st1)"
    "w_out out = encode_frame (m ?h) @ concat (map (\<lambda>x. encode_frame (m x)) xs)"
    using bot_send_frames [OF fr room, of blank st1] assms(2) by (auto simp: w1_def out_def prod_eq_iff)
  have "bot_read (bi_over b) 0 (concat (map encode_frame (map ms q))) st = st1"
    unfolding st1_def assms(5) using assms(4) by (intro bot_read_frames [of K]) simp
  then have run: "bot K partial m blank E rate b i st = (if rate_ok rate then Some (Some out, st1) else None)"
    using assms(1) by (simp add: bot_def w2(1) hs assms(7) [symmetric] sent(1) del: writeLoop.simps)
  have "arrives Ks m ?h" "list_all (arrives Ks m) xs" using assms(8) by (auto simp: list_all_iff)
  then show ?thesis
    using hello_accepted [of Ks m "bot_hello i"] readLoop_messages [of Ks m xs]
    by (simp add: run rate_ok_def sent(2) st1_def)
qed

text \<open>A bot whose queue holds an inventory and no snapshot at all.\<close>

theorem bot_session_witness:
  "case bot \<lparr>d_Envelope = (\<lambda>b. Some \<lparr>env_Type = if b = [1] then ''welcome'' else ''inventory_update'', env_Data = [2]\<rparr>),
        d_Welcome = (\<lambda>_. Some (zero_welcome\<lparr>welcome_PlayerID := ''a''\<rparr>)), d_Snapshot = (\<lambda>_. zero_snapshot), d_ChatMessage = (\<lambda>_. zero_chat),
        d_Items = (\<lambda>_. Some mempty), d_Teleport = (\<lambda>_. zero_teleport), d_Pong = (\<lambda>_. zero_pong)\<rparr> (\<lambda>_. '''') (\<lambda>_. [1]) [] flat_env 20
      \<lparr>bi_dial = Some (w_out (snd (writeLoop (\<lambda>x. case x of MsgWelcome _ \<Rightarrow> [1] | _ \<Rightarrow> [2])
          [MsgWelcome (zero_welcome\<lparr>welcome_PlayerID := ''a''\<rparr>), MsgInventory mempty] \<lparr>w_out = [], w_room = 99\<rparr>)), \<lparr>w_out = [], w_room = 99\<rparr>),
        bi_draws = \<lparr>dr_theta = 0, dr_phi = 0, dr_yaw = 0\<rparr>, bi_events = [], bi_over = (\<lambda>_. False)\<rparr>
      7 \<lparr>lt_snapshots = 0, lt_bytes = 0, lt_errors = 0\<rparr> of
     None \<Rightarrow> False | Some (w', st') \<Rightarrow> st' = \<lparr>lt_snapshots = 1, lt_bytes = 1, lt_errors = 0\<rparr> \<and> w' \<noteq> None"
proof -
  let ?wel = "zero_welcome\<lparr>welcome_PlayerID := ''a''\<rparr>" and ?w = "\<lparr>w_out = [], w_room = 99\<rparr>"
  let ?K = "\<lparr>d_Envelope = (\<lambda>b. Some \<lparr>env_Type = if b = [1] then ''welcome'' else ''inventory_update'', env_Data = [2]\<rparr>),
        d_Welcome = (\<lambda>_. Some ?wel), d_Snapshot = (\<lambda>_. zero_snapshot), d_ChatMessage = (\<lambda>_. zero_chat),
        d_Items = (\<lambda>_. Some mempty), d_Teleport = (\<lambda>_. zero_teleport), d_Pong = (\<lambda>_. zero_pong)\<rparr>"
  let ?Ks = "toy_codec\<lparr>u_Envelope := \<lambda>_. Some \<lparr>env_Type = ''hello'', env_Data = [2]\<rparr>, u_Hello := \<lambda>_. Some (bot_hello 7)\<rparr>"
  let ?ms = "\<lambda>x. case x of MsgWelcome _ \<Rightarrow> [1] | _ \<Rightarrow> [2 :: 8 word]"
  let ?b = "\<lparr>bi_dial = Some (w_out (snd (writeLoop ?ms [MsgWelcome ?wel, MsgInventory mempty] ?w)), ?w),
        bi_draws = \<lparr>dr_theta = 0, dr_phi = 0, dr_yaw = 0\<rparr>, bi_events = [], bi_over = (\<lambda>_. False)\<rparr>"
  let ?B = "bot ?K (\<lambda>_. '''') (\<lambda>_. [1]) [] flat_env 20 ?b 7 \<lparr>lt_snapshots = 0, lt_bytes = 0, lt_errors = 0\<rparr>"
  have gets: "list_all (client_gets ?K ?ms) (MsgWelcome ?wel # [MsgInventory mempty])" by (simp add: client_gets_def MaxFrameSize_def)
  have arr: "list_all (\<lambda>x. cli_finite x \<and> arrives ?Ks (\<lambda>_. [1]) x) (CHello (bot_hello 7) # [])"
    by (simp add: arrives_def MaxFrameSize_def)
  have "case ?B of None \<Rightarrow> (20 :: int) = 0 \<or> second sdiv 20 \<le> 0
    | Some (w', st') \<Rightarrow> 0 < second sdiv 20 \<and> st' = \<lparr>lt_snapshots = 1, lt_bytes = 1, lt_errors = 0\<rparr> \<and> w' \<noteq> None"
    using bot_session [where b = ?b and ms = ?ms and wel = ?wel and q = "[MsgInventory mempty]" and ?w0.0 = ?w and w = ?w and K = ?K
        and xs = "[]" and E = flat_env and i = 7 and Ks = ?Ks and m = "\<lambda>_. [1]" and partial = "\<lambda>_. ''''" and blank = "[]" and rate = 20
        and st = "\<lparr>lt_snapshots = 0, lt_bytes = 0, lt_errors = 0\<rparr>" and cid = "''b''" and Es = "\<lambda>_. flat_env" and n = 0
        and s = "lone_server (new_client ''b'')", OF _ _ _ gets _ _ _ arr]
    by (cases ?B) (auto simp del: writeLoop.simps simp: split_beta split: option.splits)
  moreover have "0 < second sdiv 20" by code_simp
  ultimately show ?thesis by (auto split: option.splits simp del: writeLoop.simps)
qed

end
