(* ===== verification/Client_Shutdown.thy ===== *)
theory Client_Shutdown
  imports Client_Actions
begin

text \<open>
  \<open>Disconnect\<close> and the end of \<open>readLoop\<close> of \<open>internal/client/net/client.go\<close> run in two goroutines.
  This theory models the two in steps at the grain of their accesses to \<open>c.conn\<close> and \<open>c.done\<close>: the
  test of \<open>done\<close> by \<open>select\<close> with a \<open>default\<close> branch and the \<open>close\<close> in that branch are two steps,
  and every round of the read loop reads the field \<open>c.conn\<close> again. A panic is a state.
\<close>

section \<open>The two goroutines\<close>

datatype reader_pc = RRead | RHandle | RSelect | RClose | REnd
datatype main_pc = MRun | MSelect | MClose | MWait | MEnd
datatype panic = NoPanic | NilConn | DoubleClose

record shutdown =
  sd_reader :: reader_pc
  sd_main :: main_pc
  sd_conn_nil :: bool
  sd_done_closed :: bool
  sd_panic :: panic

definition sd_start :: shutdown where
  "sd_start = \<lparr>sd_reader = RRead, sd_main = MRun, sd_conn_nil = False, sd_done_closed = False, sd_panic = NoPanic\<rparr>"

text \<open>Steps of \<open>readLoop\<close>; \<open>frame\<close> says whether a frame arrives or the read fails.\<close>

fun reader_step :: "bool \<Rightarrow> shutdown \<Rightarrow> shutdown option" where
  "reader_step frame s =
     (case sd_reader s of
        RRead \<Rightarrow> Some (if sd_conn_nil s then s\<lparr>sd_panic := NilConn\<rparr>
                      else s\<lparr>sd_reader := (if frame then RHandle else RSelect)\<rparr>)
      | RHandle \<Rightarrow> Some (s\<lparr>sd_reader := RRead\<rparr>)
      | RSelect \<Rightarrow> Some (s\<lparr>sd_reader := (if sd_done_closed s then REnd else RClose)\<rparr>)
      | RClose \<Rightarrow> Some (if sd_done_closed s then s\<lparr>sd_panic := DoubleClose\<rparr>
                       else s\<lparr>sd_reader := REnd, sd_done_closed := True\<rparr>)
      | REnd \<Rightarrow> None)"

text \<open>Steps of \<open>Disconnect\<close>: close and forget the connection, test, close, wait for the read loop.\<close>

fun main_step :: "shutdown \<Rightarrow> shutdown option" where
  "main_step s =
     (case sd_main s of
        MRun \<Rightarrow> Some (s\<lparr>sd_main := MSelect, sd_conn_nil := True\<rparr>)
      | MSelect \<Rightarrow> Some (s\<lparr>sd_main := (if sd_done_closed s then MWait else MClose)\<rparr>)
      | MClose \<Rightarrow> Some (if sd_done_closed s then s\<lparr>sd_panic := DoubleClose\<rparr>
                       else s\<lparr>sd_main := MWait, sd_done_closed := True\<rparr>)
      | MWait \<Rightarrow> (if sd_reader s = REnd then Some (s\<lparr>sd_main := MEnd\<rparr>) else None)
      | MEnd \<Rightarrow> None)"

inductive sd_step :: "shutdown \<Rightarrow> shutdown \<Rightarrow> bool" where
  reader: "sd_panic s = NoPanic \<Longrightarrow> reader_step f s = Some s' \<Longrightarrow> sd_step s s'"
| main: "sd_panic s = NoPanic \<Longrightarrow> main_step s = Some s' \<Longrightarrow> sd_step s s'"

definition sd_reachable :: "shutdown \<Rightarrow> bool" where "sd_reachable s \<longleftrightarrow> sd_step\<^sup>*\<^sup>* sd_start s"

section \<open>Correctness\<close>

definition sd_inv :: "shutdown \<Rightarrow> bool" where
  "sd_inv s \<longleftrightarrow> (sd_conn_nil s \<longleftrightarrow> sd_main s \<noteq> MRun) \<and>
     (sd_main s \<in> {MWait, MEnd} \<longrightarrow> sd_done_closed s) \<and> (sd_reader s = REnd \<longrightarrow> sd_done_closed s) \<and>
     (sd_main s = MEnd \<longrightarrow> sd_reader s = REnd) \<and>
     (sd_done_closed s \<longrightarrow> sd_main s \<in> {MWait, MEnd} \<or> sd_reader s = REnd) \<and>
     (case sd_panic s of NoPanic \<Rightarrow> True
      | NilConn \<Rightarrow> sd_reader s = RRead \<and> sd_conn_nil s
      | DoubleClose \<Rightarrow> sd_done_closed s \<and> (sd_reader s = RClose \<or> sd_main s = MClose))"

lemma sd_inv_reader: "reader_step f s = Some s' \<Longrightarrow> sd_panic s = NoPanic \<Longrightarrow> sd_inv s \<Longrightarrow> sd_inv s'"
  by (cases "sd_reader s"; cases "sd_conn_nil s"; cases "sd_done_closed s") (auto simp: sd_inv_def split: if_splits)

lemma sd_inv_main: "main_step s = Some s' \<Longrightarrow> sd_panic s = NoPanic \<Longrightarrow> sd_inv s \<Longrightarrow> sd_inv s'"
  by (cases "sd_main s"; cases "sd_done_closed s") (auto simp: sd_inv_def split: if_splits)

lemma sd_inv_step: "sd_step s s' \<Longrightarrow> sd_inv s \<Longrightarrow> sd_inv s'"
  by (erule sd_step.cases) (auto simp del: reader_step.simps main_step.simps intro: sd_inv_reader sd_inv_main)

interpretation shutdown: invariant_machine sd_step sd_inv
  by unfold_locales (rule sd_inv_step)

text \<open>A schedule: \<open>True\<close> for a step of \<open>Disconnect\<close>, \<open>False\<close> for a step of the read loop, whose reads all fail or all succeed.\<close>

fun run_schedule :: "bool \<Rightarrow> bool list \<Rightarrow> shutdown \<Rightarrow> shutdown" where
  "run_schedule f [] s = s"
| "run_schedule f (b # bs) s =
     (if sd_panic s \<noteq> NoPanic then s
      else case (if b then main_step s else reader_step f s) of None \<Rightarrow> s | Some s' \<Rightarrow> run_schedule f bs s')"

lemma run_schedule_steps: "sd_step\<^sup>*\<^sup>* s (run_schedule f bs s)"
proof (induction f bs s rule: run_schedule.induct)
  case (2 f b bs s)
  show ?case
  proof (cases "sd_panic s = NoPanic")
    case True
    show ?thesis
    proof (cases "if b then main_step s else reader_step f s")
      case (Some s')
      then have "sd_step s s'" using True by (auto simp del: main_step.simps reader_step.simps split: if_splits intro: sd_step.intros)
      with 2 [OF _ Some] True Some show ?thesis
        by (auto simp del: main_step.simps reader_step.simps intro: converse_rtranclp_into_rtranclp)
    qed simp
  qed simp
qed simp

text \<open>
  Both ways to panic are reachable. When the connection ends just as \<open>Disconnect\<close> is called, both
  goroutines can find \<open>done\<close> open and the second \<open>close\<close> panics; and when the read loop is busy
  with a message while \<open>Disconnect\<close> runs, its next read is on a \<open>nil\<close> connection.
\<close>

lemma shutdown_races:
  "(\<exists>s. sd_reachable s \<and> sd_panic s = DoubleClose) \<and> (\<exists>s. sd_reachable s \<and> sd_panic s = NilConn)"
proof
  have "sd_panic (run_schedule False [False, True, False, True, True, False] sd_start) = DoubleClose"
    by (simp add: sd_start_def)
  then show "\<exists>s. sd_reachable s \<and> sd_panic s = DoubleClose"
    using run_schedule_steps unfolding sd_reachable_def by blast
  have "sd_panic (run_schedule True [False, True, False, False] sd_start) = NilConn"
    by (simp add: sd_start_def)
  then show "\<exists>s. sd_reachable s \<and> sd_panic s = NilConn"
    using run_schedule_steps unfolding sd_reachable_def by blast
qed

text \<open>
  C18. Whenever \<open>Disconnect\<close> returns, the read loop has ended, the connection is forgotten, the
  \<open>done\<close> channel is closed, so that the other loops end as well, and nothing has panicked. Before that the two
  goroutines are never stuck unless the program has panicked: some step is possible. Exactly two panics can happen, and both
  do in some run: the second of two closes of \<open>done\<close>, when both goroutines found it open, and a read on the
  connection that \<open>Disconnect\<close> has forgotten.
\<close>

theorem shutdown_correct:
  assumes "sd_reachable s"
  shows "(sd_main s = MEnd \<longrightarrow> sd_reader s = REnd \<and> sd_conn_nil s \<and> sd_done_closed s \<and> sd_panic s = NoPanic) \<and>
    (sd_main s \<noteq> MEnd \<longrightarrow> ((\<exists>s'. sd_step s s') \<longleftrightarrow> sd_panic s = NoPanic)) \<and>
    (sd_panic s = DoubleClose \<longrightarrow> sd_done_closed s \<and> (sd_reader s = RClose \<or> sd_main s = MClose)) \<and>
    (sd_panic s = NilConn \<longrightarrow> sd_reader s = RRead \<and> sd_conn_nil s) \<and>
    (\<exists>t. sd_reachable t \<and> sd_panic t = DoubleClose) \<and> (\<exists>t. sd_reachable t \<and> sd_panic t = NilConn)"
proof -
  have "sd_inv sd_start" by (simp add: sd_inv_def sd_start_def)
  then have inv: "sd_inv s" using assms shutdown.steps_inv by (simp add: sd_reachable_def)
  have stop: "sd_panic s = NoPanic" if "sd_step s s'" for s' using that by (cases rule: sd_step.cases) auto
  have "\<exists>s'. sd_step s s'" if "sd_main s \<noteq> MEnd" "sd_panic s = NoPanic"
  proof (cases "sd_main s = MWait \<and> sd_reader s \<noteq> REnd")
    case True
    then have "reader_step True s \<noteq> None" by (auto split: reader_pc.splits)
    then show ?thesis using that(2) sd_step.reader by blast
  next
    case False
    then have "main_step s \<noteq> None" using that(1) by (auto split: main_pc.splits)
    then show ?thesis using that(2) sd_step.main by blast
  qed
  with inv stop shutdown_races show ?thesis by (auto simp: sd_inv_def split: panic.splits)
qed

theorem shutdown_correct_witness:
  "sd_main (run_schedule False [False, True, False, False, True, True] sd_start) = MEnd \<and>
   sd_reader (run_schedule False [False, True, False, False, True, True] sd_start) = REnd"
proof -
  let ?s = "run_schedule False [False, True, False, False, True, True] sd_start"
  have "sd_reachable ?s" unfolding sd_reachable_def by (rule run_schedule_steps)
  moreover have "sd_main ?s = MEnd" by (simp add: sd_start_def)
  ultimately show ?thesis using shutdown_correct [of ?s] by simp
qed

end
