(* ===== verification/App_Facts.thy ===== *)
theory App_Facts
  imports App_Run
begin

text \<open>
  What a run of the graphical client keeps: the types of its state (\<open>app_ok\<close>), the machine of its modes,
  when it panics, the lock of the player while a window is open, and the position of the Earth between
  two snapshots.
\<close>

named_theorems app_intros \<open>operations of the client that keep its state typed\<close>

section \<open>The types of the state\<close>

definition autopilots :: "string list" where
  "autopilots = ['''', ''prograde'', ''retrograde'', ''radial_out'', ''radial_in'', ''normal'', ''antinormal'']"

definition ui_typed :: "UIState \<Rightarrow> bool" where
  "ui_typed u \<longleftrightarrow> 0 \<le> ui_selectedSlot u \<and> ui_selectedSlot u < 16 \<and> ui_menuFocus u \<in> {0, 1} \<and>
     length (ui_invSlots u) = 256 \<and> ui_dragFrom u < 256"

definition app_ok :: "App \<Rightarrow> bool" where
  "app_ok a \<longleftrightarrow> (a_flight a = None \<longrightarrow> a_mode a = ModeMenu) \<and> pred_option flight_inv (a_flight a) \<and> ui_typed (a_ui a) \<and>
     length (w_earthHistory (a_world a)) \<le> 30 \<and> or_focus (a_orbit a) \<in> set focuses \<and>
     rs_autoPilot (a_rocket a) \<in> set autopilots \<and> box_inv (a_chat a) \<and>
     0 \<le> dg_diagFrames (a_diag a) \<and> dg_diagFrames (a_diag a) \<le> 120"

text \<open>The parts that \<open>app_ok\<close> reads; an operation that leaves them alone keeps it.\<close>

definition typed_parts where
  "typed_parts a = (a_mode a, a_flight a, w_earthHistory (a_world a), or_focus (a_orbit a), rs_autoPilot (a_rocket a),
     a_chat a, dg_diagFrames (a_diag a),
     (ui_selectedSlot (a_ui a), ui_menuFocus (a_ui a), ui_invSlots (a_ui a), ui_dragFrom (a_ui a)))"

lemma app_ok_cong: "typed_parts a' = typed_parts a \<Longrightarrow> app_ok a' = app_ok a"
  by (simp add: typed_parts_def app_ok_def ui_typed_def)

lemma app_ok_frame: "typed_parts a' = typed_parts a \<Longrightarrow> app_ok a \<Longrightarrow> app_ok a'"
  using app_ok_cong by blast

lemma app_okD: "app_ok a \<Longrightarrow> a_flight a = Some f \<Longrightarrow> flight_inv f"
  by (simp add: app_ok_def)

lemma app_ok_flight: "app_ok a \<Longrightarrow> flight_inv f \<Longrightarrow> app_ok (a\<lparr>a_flight := Some f\<rparr>)"
  by (simp add: app_ok_def)

lemma flight_inv_fields:
  "flight_inv (f\<lparr>fc_Pos := p\<rparr>) = flight_inv f" "flight_inv (f\<lparr>fc_Vel := v\<rparr>) = flight_inv f"
  "flight_inv (f\<lparr>fc_RelPos := p\<rparr>) = flight_inv f" "flight_inv (f\<lparr>fc_RelVel := v\<rparr>) = flight_inv f"
  "flight_inv (f\<lparr>fc_RelInit := b\<rparr>) = flight_inv f" "flight_inv (f\<lparr>fc_HelioInit := b\<rparr>) = flight_inv f"
  "flight_inv (f\<lparr>fc_EarthPos := p\<rparr>) = flight_inv f" "flight_inv (f\<lparr>fc_EarthVel := v\<rparr>) = flight_inv f"
  "flight_inv (f\<lparr>fc_SunPos := p\<rparr>) = flight_inv f" "flight_inv (f\<lparr>fc_Riding := b\<rparr>) = flight_inv f"
  "flight_inv (f\<lparr>fc_InBoat := b\<rparr>) = flight_inv f"
  by (simp_all add: flight_inv_def)

lemma set_flight_ok: "(\<And>f. flight_inv f \<Longrightarrow> flight_inv (g f)) \<Longrightarrow> app_ok a \<Longrightarrow> app_ok (set_flight g a)"
  by (cases "a_flight a") (auto simp: set_flight_def app_ok_def)

lemma flight_New_inv: "flight_inv (flight_New R p)"
proof -
  have "in32 10 5000 (c32 40)" "not_beyond (c32 (- (13 / 8))) (c32 (13 / 8)) 0" by code_simp+
  then show ?thesis by (simp add: flight_New_def flight_inv_def Let_def)
qed

lemma app_New_ok: "app_ok (app_New nick addr)"
  by (simp add: app_ok_def app_New_def ui_typed_def focuses_def autopilots_def box_inv_def chat_New_def line_ok_def zero_orbit_def)

section \<open>The operations of a frame keep them\<close>

lemma parts_say [simp]: "typed_parts (say m x a) = typed_parts a"
  by (simp add: typed_parts_def)

lemma ui_cursor [simp]: "typed_parts (setCursorCaptured c a) = typed_parts a" "typed_parts (EnableCursor a) = typed_parts a"
    "typed_parts (DisableCursor a) = typed_parts a" "typed_parts (goroutines g a) = typed_parts a"
  by (simp_all add: typed_parts_def setCursorCaptured_def EnableCursor_def DisableCursor_def goroutines_def Let_def)

lemma ok_cursor [simp]: "app_ok (setCursorCaptured c a) = app_ok a" "app_ok (EnableCursor a) = app_ok a"
    "app_ok (DisableCursor a) = app_ok a" "app_ok (say m x a) = app_ok a" "app_ok (goroutines g a) = app_ok a"
  by (rule app_ok_cong, simp)+

lemma find_less: "find_free xs = Some i \<Longrightarrow> i < length xs"
  using find_free_spec [of xs] by simp

lemma length_place: "length (fst (fold place_new es (xs, S))) = length xs"
proof (induction es arbitrary: xs S)
  case (Cons e es)
  have "length (fst (place_new e (xs, S))) = length xs"
    by (auto simp: place_new_def split: prod.split option.split)
  then show ?case using Cons by (cases "place_new e (xs, S)") simp
qed simp

lemma syncInvSlots_ok [app_intros]: "app_ok a \<Longrightarrow> app_ok (syncInvSlots E a)"
  by (simp add: syncInvSlots_def app_ok_def ui_typed_def sync_slots_def clear_gone_def length_place)

lemma SyncToEarthFrame_inv: "flight_inv f \<Longrightarrow> flight_inv (SyncToEarthFrame R dt f)"
  using flight_inv_cong [OF controls_parts(11,12)] by blast

lemma TickPhysicsOnly_inv: "flight_inv f \<Longrightarrow> flight_inv (TickPhysicsOnly R E dt f)"
  using flight_inv_cong [OF controls_tick] by blast

lemma UpdateLookOnly_inv: "flight_inv f \<Longrightarrow> flight_inv (UpdateLookOnly R i dt md f)"
  using look_inv [of f R md] by (simp add: UpdateLookOnly_def flight_inv_controls controls_creativeLook)

lemma syncFlightBodies_ok [app_intros]: "app_ok a \<Longrightarrow> app_ok (syncFlightBodies R dt a)"
  unfolding syncFlightBodies_def by (rule set_flight_ok) (simp_all add: SyncToEarthFrame_inv flight_inv_fields)

lemma applyUILock_ok [app_intros]: "app_ok a \<Longrightarrow> app_ok (applyUILock R E a)"
  by (auto simp: applyUILock_def unlocked_def Let_def app_ok_def flight_inv_fields split: option.splits)

lemma dialogs_ok [app_intros]: "app_ok a \<Longrightarrow> app_ok (snd (updateDialogOverlays E i a))"
  by (auto simp: updateDialogOverlays_def updateContract_def updateFactory_def close_contract_def app_ok_def ui_typed_def DisableCursor_def)

lemma syncHP_ok [app_intros]: "app_ok a \<Longrightarrow> app_ok (syncHPFromNetwork a)"
  by (auto simp: syncHPFromNetwork_def app_ok_def Let_def)

lemma box_inv_ops: "box_inv c \<Longrightarrow> box_inv (Push x c)" "box_inv c \<Longrightarrow> box_inv (Begin c)" "box_inv c \<Longrightarrow> box_inv (BeginWith ''/'' c)"
    "box_inv c \<Longrightarrow> box_inv (snd (chat_Update k c))"
proof -
  assume c: "box_inv c"
  then have ed: "line_ok 200 (edit_line maxInput k (cb_Input c))"
    using line_ok_edit [of maxInput "cb_Input c" k] by (simp add: box_inv_def maxInput_def)
  show "box_inv (Push x c)" using c by (auto simp: box_inv_def Push_def Let_def)
  show "box_inv (Begin c)" using c by (simp add: box_inv_def Begin_def line_ok_def)
  have "line_ok 200 ''/''" by code_simp
  then show "box_inv (BeginWith ''/'' c)" using c by (simp add: box_inv_def BeginWith_def maxInput_def)
  show "box_inv (snd (chat_Update k c))"
    using c ed by (auto simp: chat_Update_def Let_def box_inv_def Cancel_def maxInput_def line_ok_def)
qed

lemma chat_ok: "app_ok a \<Longrightarrow> box_inv b \<Longrightarrow> app_ok (a\<lparr>a_chat := b\<rparr>)"
  by (simp add: app_ok_def)

lemma updateChatOverlay_ok [app_intros]: "app_ok a \<Longrightarrow> app_ok (snd (updateChatOverlay m i a))"
proof -
  assume a: "app_ok a"
  then have "app_ok (a\<lparr>a_chat := snd (chat_Update (i_text i) (a_chat a))\<rparr>)"
    by (intro chat_ok box_inv_ops) (simp_all add: app_ok_def)
  moreover have "typed_parts ((setCursorCaptured False a)\<lparr>a_chat := b\<rparr>) = typed_parts (a\<lparr>a_chat := b\<rparr>)" for b
    by (simp add: typed_parts_def setCursorCaptured_def EnableCursor_def Let_def)
  ultimately have "app_ok ((setCursorCaptured False a)\<lparr>a_chat := snd (chat_Update (i_text i) (a_chat a))\<rparr>)"
    using app_ok_frame by blast
  then show ?thesis
    using a by (cases "chat_Update (i_text i) (a_chat a)") (auto simp: updateChatOverlay_def Let_def split: option.split)
qed

lemma orbit_focus_known:
  "or_focus s \<in> set focuses \<Longrightarrow> or_focus (orbit_cycle i (orbit_zoom i (orbit_release i (orbit_drag i (orbit_press i s))))) \<in> set focuses"
proof -
  assume s: "or_focus s \<in> set focuses"
  have next_ok: "f \<in> set focuses \<Longrightarrow> next_focus f \<in> set focuses" for f using next_focus_cycle by (simp add: list_all_iff)
  have "or_focus (orbit_press i s) \<in> set focuses" using s by (simp add: orbit_press_def)
  then have "or_focus (orbit_drag i (orbit_press i s)) \<in> set focuses" by (simp add: orbit_drag_def Let_def)
  then have "or_focus (orbit_release i (orbit_drag i (orbit_press i s))) \<in> set focuses"
    by (simp add: orbit_release_def handleOrbitMapClick_def click_focus_known)
  then have "or_focus (orbit_zoom i (orbit_release i (orbit_drag i (orbit_press i s)))) \<in> set focuses"
    by (simp add: orbit_zoom_def Let_def)
  then show ?thesis by (simp add: orbit_cycle_def next_ok)
qed

lemma orbit_ok: "app_ok a \<Longrightarrow> or_focus s \<in> set focuses \<Longrightarrow> app_ok (a\<lparr>a_orbit := s\<rparr>)"
  by (simp add: app_ok_def)

lemma app_ok_focus: "app_ok a \<Longrightarrow> or_focus (a_orbit a) \<in> set focuses"
  by (simp add: app_ok_def)

lemma updateOrbitMapInput_ok [app_intros]: "app_ok a \<Longrightarrow> app_ok (updateOrbitMapInput i a)"
  unfolding updateOrbitMapInput_def by (intro orbit_ok orbit_focus_known app_ok_focus)

lemma updateOrbitMapOverlay_ok [app_intros]: "app_ok a \<Longrightarrow> app_ok (snd (updateOrbitMapOverlay i a))"
  using app_ok_focus [of a]
  by (auto simp: updateOrbitMapOverlay_def Let_def intro!: updateOrbitMapInput_ok orbit_ok)

lemma handleModeSwitchKey_ok [app_intros]: "asin_ok R \<Longrightarrow> app_ok a \<Longrightarrow> app_ok (handleModeSwitchKey R E i a)"
  by (auto simp: handleModeSwitchKey_def intro!: set_flight_ok SwitchMode_inv)

lemma show_windows_ok [simp]: "app_ok (show_windows x y a) = app_ok a"
  by (rule app_ok_cong) (simp add: typed_parts_def show_windows_def)

lemma updateInventoryOverlay_ok [app_intros]: "app_ok a \<Longrightarrow> app_ok (snd (updateInventoryOverlay i a))"
  by (simp add: updateInventoryOverlay_def Let_def)

lemma slot_range: "0 \<le> k \<Longrightarrow> k < 16 \<Longrightarrow> 0 \<le> (k + d) smod 16 \<and> (k + d) smod 16 < 16" if "0 \<le> d" for k d :: int
  using that by (simp add: signed_modulo_int_def signed_divide_int_def sgn_if)

lemma updateSlotWheel_ok [app_intros]: "app_ok a \<Longrightarrow> app_ok (updateSlotWheel i a)"
  by (auto simp: updateSlotWheel_def app_ok_def ui_typed_def slot_range split: option.split)

lemma player_ok [simp]: "app_ok (a\<lparr>a_player := q\<rparr>) = app_ok a" "app_ok (a\<lparr>a_nc := c\<rparr>) = app_ok a"
    "app_ok (a\<lparr>a_camera := k\<rparr>) = app_ok a" "app_ok (a\<lparr>a_pause := s\<rparr>) = app_ok a"
  by (rule app_ok_cong, simp add: typed_parts_def)+

lemma syncHeldItem_ok [app_intros]: "app_ok a \<Longrightarrow> app_ok (syncHeldItem m a)"
  by (simp add: syncHeldItem_def Let_def)

lemma handleChatKeys_ok [app_intros]: "app_ok a \<Longrightarrow> app_ok (snd (handleChatKeys i a))"
  by (auto simp: handleChatKeys_def app_ok_def intro: box_inv_ops)

lemma tryPickup_ok [app_intros]: "app_ok a \<Longrightarrow> app_ok (tryPickup m a)"
  by (simp add: tryPickup_def split: option.split)

lemma handlePickupKey_ok [app_intros]: "app_ok a \<Longrightarrow> app_ok (handlePickupKey m i a)"
  by (simp add: handlePickupKey_def tryPickup_ok)

lemma handleMountKey_ok [app_intros]: "app_ok a \<Longrightarrow> app_ok (handleMountKey m i a)"
  by (simp add: handleMountKey_def Let_def set_flight_ok flight_inv_fields)


lemma parts_hands: "typed_parts (throwSpear m E fw a) = typed_parts a" "typed_parts (useFruit R m fw a) = typed_parts a"
    "typed_parts (useWater m fw a) = typed_parts a" "typed_parts (useLeash m fw a) = typed_parts a"
    "typed_parts (placeStructure R m fw k a) = typed_parts a"
  by (simp_all add: typed_parts_def throwSpear_def useFruit_def useWater_def useLeash_def placeStructure_def Let_def split: prod.split)

lemma parts_held: "typed_parts (handleHeldItemClick R m E fw held a) = typed_parts a"
  by (auto simp: handleHeldItemClick_def Let_def parts_hands split: prod.split)

lemma parts_empty: "typed_parts (snd (handleEmptyHandClick m E fw a)) = typed_parts a"
  by (auto simp: handleEmptyHandClick_def Let_def typed_parts_def EnableCursor_def split: prod.split)

lemma parts_click: "typed_parts (snd (handleMouseClick R m E i a)) = typed_parts a"
  by (simp add: handleMouseClick_def Let_def parts_held parts_empty split: option.split)

lemma handleMouseClick_ok [app_intros]: "app_ok a \<Longrightarrow> app_ok (snd (handleMouseClick R m E i a))"
  using parts_click app_ok_frame by blast

text \<open>A change of the mode keeps the types when there is a player.\<close>

lemma mode_ok: "app_ok a \<Longrightarrow> a_flight a \<noteq> None \<Longrightarrow> app_ok (a\<lparr>a_mode := md\<rparr>)"
  by (auto simp: app_ok_def)

definition with_player :: "App \<Rightarrow> bool" where "with_player a \<longleftrightarrow> app_ok a \<and> a_flight a \<noteq> None"

lemma checkDeath_ok: "with_player a \<Longrightarrow> app_ok (snd (checkDeath a))"
  by (auto simp: checkDeath_def with_player_def app_ok_def EnableCursor_def)

lemma checkPause_ok: "with_player a \<Longrightarrow> app_ok (snd (checkPause i a))"
  by (auto simp: checkPause_def with_player_def app_ok_def Let_def)

lemma updateUnfocusFreeze_ok [app_intros]: "app_ok a \<Longrightarrow> app_ok (snd (updateUnfocusFreeze R E i a))"
proof -
  assume a: "app_ok a"
  define b where "b = setCursorCaptured False a"
  have b: "app_ok b" using a by (simp add: b_def)
  have cam: "typed_parts (set_camera c x) = typed_parts x" for c x by (simp add: set_camera_def typed_parts_def)

  show ?thesis
    using a b app_okD [OF b] unfolding updateUnfocusFreeze_def Let_def b_def [symmetric]
    by (auto simp: app_ok_cong [OF cam] flight_inv_fields intro!: app_ok_flight [OF b] split: option.split)
qed

lemma restoreFocus_ok [app_intros]: "app_ok a \<Longrightarrow> app_ok (restoreFocus a)"
  by (simp add: restoreFocus_def)

lemma updateFlightPhysics_ok [app_intros]:
  assumes "app_ok a" "raw32 (i_wheel i) \<noteq> NaN"
  shows "app_ok (updateFlightPhysics R E i dt a)"
proof -
  define b where "b = setCursorCaptured True a"
  have b: "app_ok b" using assms(1) by (simp add: b_def)
  have helio: "flight_inv f \<Longrightarrow> flight_inv (initHelio R p f)" for p f by (simp add: initHelio_def flight_inv_fields)
  have diag: "dg_diagFrames (logFlightDiag E i f d) = dg_diagFrames d" for f d by (simp add: logFlightDiag_def Let_def)
  have pl: "app_ok (b\<lparr>a_flight := Some f, a_diag := logFlightDiag E i f (a_diag b)\<rparr>)" if "flight_inv f" for f
    using app_ok_flight [OF b that] by (simp add: app_ok_def diag)
  show ?thesis
    using b app_okD [OF b] assms(2) unfolding updateFlightPhysics_def Let_def b_def [symmetric]
    by (auto intro!: pl flight_Update_inv helio split: option.split)
qed

lemma emitPlayerState_ok [app_intros]: "app_ok a \<Longrightarrow> app_ok (emitPlayerState R E a)"
  by (simp add: emitPlayerState_def Let_def split: option.split)

lemma autopilot_known: "rs_autoPilot s \<in> set autopilots \<Longrightarrow> rs_autoPilot (handleAutopilotKeys i s) \<in> set autopilots"
  by (simp add: handleAutopilotKeys_def autopilots_def)

lemma rocket_ok: "app_ok a \<Longrightarrow> rs_autoPilot s \<in> set autopilots \<Longrightarrow> app_ok (a\<lparr>a_rocket := s\<rparr>)"
  by (simp add: app_ok_def)

lemma handleRocketExitKey_ok: "app_ok a \<Longrightarrow> app_ok (snd (handleRocketExitKey m i a))"
  by (auto simp: handleRocketExitKey_def app_ok_def Let_def)

lemma applyLookOrMap_ok: "app_ok a \<Longrightarrow> app_ok (applyLookOrMap R i dt a)"
  by (simp add: applyLookOrMap_def updateOrbitMapInput_ok set_flight_ok UpdateLookOnly_inv)

lemma updateRocketCamera_ok: "app_ok a \<Longrightarrow> app_ok (updateRocketCamera R E a)"
  by (simp add: updateRocketCamera_def split: option.split)

lemma steer_keeps: "rs_autoPilot (handleNoseRotation R E i dt up fw (initRocketNoseIfNeeded (s\<lparr>rs_hudRocket := r\<rparr>))) = rs_autoPilot s"
  by (simp add: handleNoseRotation_def initRocketNoseIfNeeded_def set_nose_def Let_def)

lemma updatePilotedRocket_ok:
  assumes "app_ok a" "flight_inv f"
  shows "app_ok (snd (updatePilotedRocket R m E i dt f a))"
proof -
  have f: "flight_inv (syncPlayerToRocket r f)" for r using assms(2) by (simp add: syncPlayerToRocket_def flight_inv_fields)
  have s: "app_ok ((say m x (a\<lparr>a_flight := Some (syncPlayerToRocket r f)\<rparr>))\<lparr>a_rocket := handleAutopilotKeys i
      (handleNoseRotation R E i dt up fw (initRocketNoseIfNeeded ((a_rocket a)\<lparr>rs_hudRocket := r\<rparr>)))\<rparr>)" for x r up fw
  proof (rule rocket_ok)
    show "app_ok (say m x (a\<lparr>a_flight := Some (syncPlayerToRocket r f)\<rparr>))" using app_ok_flight [OF assms(1) f] by simp
    show "rs_autoPilot (handleAutopilotKeys i
      (handleNoseRotation R E i dt up fw (initRocketNoseIfNeeded ((a_rocket a)\<lparr>rs_hudRocket := r\<rparr>)))) \<in> set autopilots"
      by (rule autopilot_known) (use assms(1) in \<open>simp add: steer_keeps app_ok_def\<close>)
  qed
  show ?thesis
    using assms(1) unfolding updatePilotedRocket_def Let_def
    by (auto intro!: handleRocketExitKey_ok updateRocketCamera_ok applyLookOrMap_ok s split: option.split)
qed

lemma updateRocketMode_ok [app_intros]:
  assumes "app_ok a"
  shows "app_ok (snd (updateRocketMode R m E i dt a))"
proof (cases "a_flight a")
  case (Some f)
  then have "app_ok (snd (updatePilotedRocket R m E i dt f a))"
    using assms by (intro updatePilotedRocket_ok) (auto dest: app_okD)
  then show ?thesis using Some assms
    by (cases "updatePilotedRocket R m E i dt f a") (auto simp: updateRocketMode_def split: bool.split)
qed (simp add: updateRocketMode_def assms)


section \<open>The modes\<close>

lemma parts_mode: "typed_parts a' = typed_parts a \<Longrightarrow> a_mode a' = a_mode a"
  by (simp add: typed_parts_def)

lemma mode_cursor [simp]: "a_mode (EnableCursor a) = a_mode a" "a_mode (DisableCursor a) = a_mode a"
    "a_mode (goroutines g a) = a_mode a" "a_mode (set_flight h a) = a_mode a"
  by (simp_all add: EnableCursor_def DisableCursor_def goroutines_def set_flight_def)

lemma mode_rocket_mode [simp]: "a_mode (snd (updateRocketMode R m E i dt a)) = a_mode a"
proof (cases "a_flight a")
  case (Some f)
  have "a_mode (snd (updatePilotedRocket R m E i dt f a)) = a_mode a"
    by (simp add: updatePilotedRocket_def Let_def handleRocketExitKey_def updateRocketCamera_def applyLookOrMap_def
        updateOrbitMapInput_def split: option.split)
  then show ?thesis using Some
    by (cases "updatePilotedRocket R m E i dt f a") (auto simp: updateRocketMode_def split: bool.split)
qed (simp add: updateRocketMode_def)

lemma mode_click [simp]: "a_mode (snd (handleMouseClick R m E i a)) = a_mode a"
  by (rule parts_mode [OF parts_click])

lemma mode_steps [simp]:
  "a_mode (syncInvSlots E a) = a_mode a" "a_mode (syncFlightBodies R dt a) = a_mode a" "a_mode (applyUILock R E a) = a_mode a"
  "a_mode (snd (updateDialogOverlays E i a)) = a_mode a" "a_mode (syncHPFromNetwork a) = a_mode a"
  "a_mode (snd (updateChatOverlay m i a)) = a_mode a" "a_mode (snd (updateOrbitMapOverlay i a)) = a_mode a"
  "a_mode (handleModeSwitchKey R E i a) = a_mode a" "a_mode (snd (updateInventoryOverlay i a)) = a_mode a"
  "a_mode (updateSlotWheel i a) = a_mode a" "a_mode (syncHeldItem m a) = a_mode a" "a_mode (snd (handleChatKeys i a)) = a_mode a"
  "a_mode (handlePickupKey m i a) = a_mode a" "a_mode (tryPickup m a) = a_mode a" "a_mode (handleMountKey m i a) = a_mode a"
  "a_mode (snd (updateUnfocusFreeze R E i a)) = a_mode a" "a_mode (restoreFocus a) = a_mode a"
  "a_mode (updateFlightPhysics R E i dt a) = a_mode a" "a_mode (emitPlayerState R E a) = a_mode a"
  by (simp_all add: syncInvSlots_def syncFlightBodies_def applyUILock_def unlocked_def updateDialogOverlays_def updateContract_def
      close_contract_def updateFactory_def syncHPFromNetwork_def updateChatOverlay_def updateOrbitMapOverlay_def updateOrbitMapInput_def
      handleModeSwitchKey_def updateInventoryOverlay_def show_windows_def updateSlotWheel_def syncHeldItem_def handleChatKeys_def
      handlePickupKey_def tryPickup_def handleMountKey_def updateUnfocusFreeze_def set_camera_def restoreFocus_def
      updateFlightPhysics_def emitPlayerState_def Let_def split: option.split prod.split)

definition died :: "App \<Rightarrow> bool" where
  "died a \<longleftrightarrow> pl_hpReceived (a_player a) \<and> pl_hp (a_player a) \<le> 0 \<and> (case g_conn (a_nc a) of None \<Rightarrow> True | Some w \<Rightarrow> w_room w = 0)"

text \<open>What a step of a frame may do from the mode of playing, and where the frame may end.\<close>

definition playing_ok :: "App \<Rightarrow> bool" where "playing_ok a \<longleftrightarrow> app_ok a \<and> a_mode a = ModePlaying"

definition played :: "frame_in \<Rightarrow> App \<Rightarrow> bool" where
  "played i a \<longleftrightarrow> app_ok a \<and>
     (a_mode a = ModePlaying \<or> a_mode a = ModePaused \<and> i_pressed i KeyEscape \<or> a_mode a = ModeDead \<and> died a)"

lemma playing_player: "playing_ok a \<Longrightarrow> with_player a"
  by (auto simp: playing_ok_def with_player_def app_ok_def)

lemma until_done_ends:
  assumes "P s" "\<And>s. P s \<Longrightarrow> Q s"
    and "\<And>f s. f \<in> set fs \<Longrightarrow> P s \<Longrightarrow> if fst (f s) then Q (snd (f s)) else P (snd (f s))"
  shows "Q (until_done fs s)"
  using assms(1,3)
proof (induction fs arbitrary: s)
  case (Cons f fs)
  have "if fst (f s) then Q (snd (f s)) else P (snd (f s))" using Cons.prems by simp
  with Cons show ?case by (cases "f s") (auto split: if_splits)
qed (simp add: assms(2))

lemma until_done_all: "list_all (\<lambda>f. \<forall>s. P s \<longrightarrow> (if fst (f s) then Q (snd (f s)) else P (snd (f s)))) fs \<Longrightarrow>
    P s \<Longrightarrow> (\<And>s. P s \<Longrightarrow> Q s) \<Longrightarrow> Q (until_done fs s)"
  by (rule until_done_ends [of P]) (auto simp: list_all_iff)

lemma step_kept: "app_ok (snd r) \<Longrightarrow> a_mode (snd r) = ModePlaying \<Longrightarrow> if fst r then played i (snd r) else playing_ok (snd r)"
  by (simp add: played_def playing_ok_def)

lemma always_parts [simp]: "fst (always g s) = False" "snd (always g s) = g s"
  by (simp_all add: always_def)

lemma updatePlaying_played:
  assumes "asin_ok R" "raw32 (i_wheel i) \<noteq> NaN" "playing_ok a"
  shows "played i (updatePlaying R m E i dt a)"
  unfolding updatePlaying_def
proof (rule until_done_all [where P = playing_ok, OF _ assms(3)])
  have death: "\<forall>s. playing_ok s \<longrightarrow> (if fst (checkDeath s) then played i (snd (checkDeath s)) else playing_ok (snd (checkDeath s)))"
    using checkDeath_ok [OF playing_player]
    by (auto simp: checkDeath_def played_def playing_ok_def died_def EnableCursor_def client_Close_def split: option.split)
  have pause: "\<forall>s. playing_ok s \<longrightarrow> (if fst (checkPause i s) then played i (snd (checkPause i s)) else playing_ok (snd (checkPause i s)))"
    using checkPause_ok [OF playing_player, of _ i]
    by (auto simp: checkPause_def played_def playing_ok_def Let_def)
  have kept: "(\<And>s. app_ok s \<Longrightarrow> app_ok (snd (f s))) \<Longrightarrow> (\<And>s. a_mode (snd (f s)) = a_mode s) \<Longrightarrow>
      \<forall>s. playing_ok s \<longrightarrow> (if fst (f s) then played i (snd (f s)) else playing_ok (snd (f s)))" for f
    by (intro allI impI step_kept) (auto simp: playing_ok_def)
  show "list_all (\<lambda>f. \<forall>s. playing_ok s \<longrightarrow> (if fst (f s) then played i (snd (f s)) else playing_ok (snd (f s))))
      (playing_steps R m E i dt)"
    unfolding playing_steps_def list.pred_inject
    by (intro conjI TrueI) (rule death pause list.pred_inject(1) | (rule kept; (simp add: app_intros assms(1,2); fail)))+
qed (simp add: playing_ok_def played_def)


text \<open>The ways through a frame: \<open>update\<close> follows keys and health, \<open>draw\<close> the left button.\<close>

inductive update_edge :: "frame_in \<Rightarrow> Mode \<Rightarrow> Mode \<Rightarrow> bool" for i where
  stay: "update_edge i md md"
| enter: "i_pressed i KeyEnter \<Longrightarrow> update_edge i ModeMenu ModePlaying"
| die: "update_edge i ModePlaying ModeDead"
| pause: "i_pressed i KeyEscape \<Longrightarrow> update_edge i ModePlaying ModePaused"
| unpause: "i_pressed i KeyEscape \<Longrightarrow> update_edge i ModePaused ModePlaying"
| again: "i_pressed i KeyR \<Longrightarrow> update_edge i ModeDead ModePlaying"
| give_up: "i_pressed i KeyEscape \<Longrightarrow> update_edge i ModeDead ModeMenu"

inductive draw_edge :: "frame_in \<Rightarrow> Mode \<Rightarrow> Mode \<Rightarrow> bool" for i where
  stay: "draw_edge i md md"
| enter: "i_lmbPressed i \<Longrightarrow> draw_edge i ModeMenu ModePlaying"
| resume: "i_lmbPressed i \<Longrightarrow> draw_edge i ModePaused ModePlaying"
| leave: "i_lmbPressed i \<Longrightarrow> draw_edge i ModePaused ModeMenu"
| again: "i_lmbPressed i \<Longrightarrow> draw_edge i ModeDead ModePlaying"
| give_up: "i_lmbPressed i \<Longrightarrow> draw_edge i ModeDead ModeMenu"

inductive_simps update_edge_simps [simp]: "update_edge i md md'"
inductive_simps draw_edge_simps [simp]: "draw_edge i md md'"

lemma menu_error_ok [simp]: "app_ok (menu_error e a) = app_ok a" "a_mode (menu_error e a) = a_mode a"
    "a_flight (menu_error e a) = a_flight a"
  by (rule app_ok_cong) (simp_all add: typed_parts_def menu_error_def)

lemma startConnect_cases:
  obtains (stays) "a_mode (startConnect R m N a) = a_mode a" "app_ok a \<longrightarrow> app_ok (startConnect R m N a)"
    | (plays) "a_mode (startConnect R m N a) = ModePlaying" "app_ok a \<longrightarrow> app_ok (startConnect R m N a)"
      "get_Status (a_nc (startConnect R m N a)) = StatusConnected" "get_Status (a_nc a) \<noteq> StatusConnected"
proof -
  let ?b = "menu_error '''' a"
  let ?r = "Connect (ni_codec N) m (ni_dial N) (ui_menuNick (a_ui a)) (ui_menuColor (a_ui a)) (a_nc ?b)"
  have ok: "app_ok a \<longrightarrow> app_ok (?b\<lparr>a_nc := c, a_player := q, a_flight := Some (flight_New R p), a_mode := ModePlaying\<rparr>)" for c q p
    by (simp add: app_ok_def menu_error_def ui_typed_def flight_New_inv)
  consider "get_Status (a_nc a) = StatusConnected \<or> ui_menuNick (a_ui a) = '''' \<or> ui_menuAddr (a_ui a) = ''''"
    | "get_Status (a_nc a) \<noteq> StatusConnected" "ui_menuNick (a_ui a) \<noteq> ''''" "ui_menuAddr (a_ui a) \<noteq> ''''" by blast
  then show thesis
  proof cases
    case 1
    then show thesis by (intro stays) (auto simp: startConnect_def)
  next
    case 2
    show thesis
    proof (cases "fst ?r")
      case (Inl e)
      then show thesis using 2 by (intro stays) (cases ?r; simp add: startConnect_def Let_def)+
    next
      case (Inr w)
      have "g_status (fst (snd ?r)) = StatusConnected"
        using Inr by (auto simp: Connect_def Let_def split: if_splits option.splits sum.splits prod.splits)
      then show thesis using 2 Inr ok
        by (intro plays) (cases ?r; simp add: startConnect_def Let_def getter_defs)+
    qed
  qed
qed


lemma startConnect_ok: "app_ok a \<Longrightarrow> app_ok (startConnect R m N a)"
  by (rule startConnect_cases [of R m N a]) simp_all

lemma startConnect_mode: "a_mode (startConnect R m N a) \<in> {a_mode a, ModePlaying}"
  by (rule startConnect_cases [of R m N a]) simp_all

definition updated :: "frame_in \<Rightarrow> App \<Rightarrow> App \<Rightarrow> bool" where
  "updated i a a' \<longleftrightarrow> app_ok a' \<and> update_edge i (a_mode a) (a_mode a') \<and> (a_mode a = ModePlaying \<and> a_mode a' = ModeDead \<longrightarrow> died a')"

lemma updateMenu_updated:
  assumes "app_ok a" "a_mode a = ModeMenu"
  shows "updated i a (updateMenu R m N i a)"
proof -
  define u where "u = a_ui (setCursorCaptured False a)"
  define u2 where "u2 = (let u1 = u\<lparr>ui_menuNick := EditField (i_text i) (ui_menuNick u) (ui_menuFocus u = 0) 32,
      ui_menuAddr := EditField (i_text i) (ui_menuAddr u) (ui_menuFocus u = 1) 64\<rparr>
    in if i_pressed i KeyTab then u1\<lparr>ui_menuFocus := (ui_menuFocus u + 1) smod 2\<rparr> else u1)"
  have "app_ok (setCursorCaptured False a)" using assms(1) by simp
  then have u: "ui_typed u" by (simp add: app_ok_def u_def)
  have one: "(1 :: int) smod 2 = 1" "(2 :: int) smod 2 = 0" by code_simp+
  have "ui_typed u2" using u one unfolding u2_def Let_def by (auto simp: ui_typed_def)
  then have b: "app_ok ((setCursorCaptured False a)\<lparr>a_ui := u2\<rparr>)" using \<open>app_ok (setCursorCaptured False a)\<close> by (simp add: app_ok_def)
  have e: "updateMenu R m N i a = (let b = (setCursorCaptured False a)\<lparr>a_ui := u2\<rparr> in
      if i_pressed i KeyEnter then startConnect R m N b else b)"
    by (simp add: updateMenu_def u2_def u_def Let_def)
  show ?thesis
    using b startConnect_ok [OF b] startConnect_mode [of R m N "(setCursorCaptured False a)\<lparr>a_ui := u2\<rparr>"] assms(2)
    unfolding e Let_def updated_def by auto
qed

lemma exitPause_ok: "app_ok a \<Longrightarrow> a_flight a \<noteq> None \<Longrightarrow> app_ok (exitPause a)"
  by (cases "a_flight a") (auto simp: exitPause_def app_ok_def flight_inv_fields)

lemma updatePaused_updated:
  assumes "app_ok a" "a_mode a = ModePaused"
  shows "updated i a (updatePaused m i a)"
proof -
  define b where "b = (let a1 = setCursorCaptured False a in if i_pressed i KeyF then tryPickup m a1 else a1)"
  have b: "app_ok b" "a_mode b = ModePaused" using assms by (auto simp: b_def Let_def tryPickup_ok)
  then have "app_ok (exitPause b)" by (intro exitPause_ok) (auto simp: app_ok_def)
  moreover have "a_mode (exitPause b) = ModePlaying" by (simp add: exitPause_def split: option.split)
  ultimately show ?thesis using b assms(2) by (simp add: updatePaused_def Let_def b_def [unfolded Let_def, symmetric] updated_def)
qed

lemma reset_hp_ok [simp]: "app_ok (reset_hp a) = app_ok a" "a_mode (reset_hp a) = a_mode a"
  by (simp_all add: reset_hp_def)

lemma respawn_ok: "app_ok a \<Longrightarrow> app_ok (respawn R m N a)" "a_mode (respawn R m N a) \<in> {a_mode a, ModePlaying}"
  using startConnect_ok [of "reset_hp a"] startConnect_mode [of R m N "reset_hp a"] by (simp_all add: respawn_def)

lemma returnToMenu_ok: "app_ok a \<Longrightarrow> app_ok (returnToMenu a)" "a_mode (returnToMenu a) = ModeMenu"
  by (simp_all add: returnToMenu_def reset_hp_def app_ok_def EnableCursor_def)

lemma updateDead_updated:
  assumes "app_ok a" "a_mode a = ModeDead"
  shows "updated i a (updateDead R m N i a)"
  using assms respawn_ok [where a = a and R = R and m = m and N = N] returnToMenu_ok
  by (auto simp: updateDead_def Let_def updated_def)

lemma dispatchMode_updated:
  assumes "asin_ok R" "raw32 (i_wheel i) \<noteq> NaN" "app_ok a"
  shows "updated i a (dispatchMode R m E N i dt a)"
proof (cases "a_mode a")
  case ModePlaying
  then have "played i (updatePlaying R m E i dt a)"
    using assms by (intro updatePlaying_played) (auto simp: playing_ok_def)
  then show ?thesis using ModePlaying by (auto simp: dispatchMode_def updated_def played_def)
qed (use assms in \<open>simp_all add: dispatchMode_def updateMenu_updated updatePaused_updated updateDead_updated\<close>)

lemma teleport_ok:
  assumes "app_handleTeleport a = Some b" "app_ok a"
  shows "app_ok b \<and> a_mode b = a_mode a"
proof -
  have "f = None \<Longrightarrow> a_flight a = f \<Longrightarrow> g_teleportCh (a_nc a) = []" for f
    using assms(1) by (auto simp: app_handleTeleport_def split: list.splits)
  then show ?thesis
    using assms by (auto simp: app_handleTeleport_def app_ok_def flight_inv_fields split: list.splits option.splits)
qed

lemma push_history: "length h \<le> 30 \<Longrightarrow> length (pushEarthSnapshot E t p v h) \<le> 30"
  by (simp add: pushEarthSnapshot_def Let_def)

lemma updateEarthHistory_ok: "app_ok a \<Longrightarrow> app_ok (updateEarthHistory E dt a)"
  by (auto simp: updateEarthHistory_def Let_def app_ok_def push_history split: prod.split)

lemma world_ok: "app_ok a \<Longrightarrow> app_ok (updatePlanet2 a)"
  by (simp add: updatePlanet2_def app_ok_def)

lemma debug_ok: "app_ok a \<Longrightarrow> app_ok (handleDebugKeys i a)"
  by (auto simp: handleDebugKeys_def Let_def app_ok_def)

lemma drainChat_ok: "app_ok a \<Longrightarrow> app_ok (drainChat a)"
proof -
  assume a: "app_ok a"
  then have "box_inv (fold Push xs (a_chat a))" for xs
    by (intro fold_invariant_on [of _ box_inv]) (auto simp: app_ok_def intro: box_inv_ops)
  then show ?thesis using a by (simp add: drainChat_def app_ok_def)
qed

lemma shots_ok: "app_ok a \<Longrightarrow> app_ok (app_updateProjectiles R E m i a)"
proof -
  assume a: "app_ok a"
  have "app_ok (snd (shot_loop R E m dt c p acc)) = app_ok (snd acc)" for dt c p acc
    by (simp add: shot_loop_def split: shot.split)
  then have "app_ok (snd (fold (shot_loop R E m dt c) ps ([], a)))" for dt c ps
    using fold_preserves [where g = "\<lambda>acc. app_ok (snd acc)" and f = "shot_loop R E m dt c"] a by simp
  then show ?thesis using a by (auto simp: app_updateProjectiles_def split: prod.split) (metis snd_conv)
qed

lemma pause_physics_ok: "app_ok a \<Longrightarrow> app_ok (updatePausePhysics R E i a)"
proof -
  assume a: "app_ok a"
  have cam: "typed_parts (set_camera c x) = typed_parts x" for c x by (simp add: set_camera_def typed_parts_def)
  have f: "a_flight a = Some f \<Longrightarrow> flight_inv (TickPhysicsOnly R E dt (f\<lparr>fc_EarthPos := p, fc_EarthVel := v\<rparr>))" for f dt p v
    by (intro TickPhysicsOnly_inv) (simp add: flight_inv_fields app_okD [OF a])
  show ?thesis using a f
    by (auto simp: updatePausePhysics_def Let_def app_ok_cong [OF cam] intro!: app_ok_flight split: option.split)
qed

lemma updateDiag_ok: "app_ok a \<Longrightarrow> app_ok (updateDiag a)"
  by (auto simp: updateDiag_def app_ok_def)


lemma mode_before_dispatch [simp]: "a_mode (updateEarthHistory E dt a) = a_mode a" "a_mode (updatePlanet2 a) = a_mode a"
    "a_mode (handleDebugKeys i a) = a_mode a" "a_mode (drainChat a) = a_mode a"
    "a_mode (updatePausePhysics R E i a) = a_mode a" "a_mode (updateDiag a) = a_mode a"
  by (simp_all add: updateEarthHistory_def updatePlanet2_def handleDebugKeys_def drainChat_def updatePausePhysics_def set_camera_def
      updateDiag_def Let_def split: option.split prod.split)

lemma mode_shots [simp]: "a_mode (app_updateProjectiles R E m i a) = a_mode a"
proof -
  have "a_mode (snd (shot_loop R E m dt c p acc)) = a_mode (snd acc)" for dt c p acc
    by (simp add: shot_loop_def split: shot.split)
  then have "a_mode (snd (fold (shot_loop R E m dt c) ps ([], a))) = a_mode a" for dt c ps
    using fold_preserves [where g = "\<lambda>acc. a_mode (snd acc)" and f = "shot_loop R E m dt c"] by simp
  then show ?thesis by (auto simp: app_updateProjectiles_def split: prod.split) (metis snd_conv)
qed

lemma died_diag [simp]: "died (updateDiag a) = died a"
  by (simp add: updateDiag_def died_def)

lemma update_updated:
  assumes "asin_ok R" "raw32 (i_wheel i) \<noteq> NaN" "app_ok a" "update R m E N i dt a = Some b"
  shows "updated i a b"
proof -
  obtain a0 where a0: "app_handleTeleport a = Some a0" using assms(4) by (auto simp: update_def split: option.splits)
  define a3 where "a3 = updatePausePhysics R E i (app_updateProjectiles R E m i (drainChat (handleDebugKeys i
     (updatePlanet2 (updateEarthHistory E dt a0)))))"
  have "app_ok a3" "a_mode a3 = a_mode a" using teleport_ok [OF a0 assms(3)]
    by (auto simp: a3_def intro!: pause_physics_ok shots_ok drainChat_ok debug_ok world_ok updateEarthHistory_ok)
  with dispatchMode_updated [OF assms(1,2), of a3 m E N dt]
  have d: "updated i a (dispatchMode R m E N i dt a3)" by (simp add: updated_def)
  have "b = updateDiag (dispatchMode R m E N i dt a3)" using assms(4) a0 by (simp add: update_def a3_def Let_def)
  then show ?thesis using d by (simp add: updated_def updateDiag_ok)
qed

section \<open>The buttons keep the types\<close>

definition drawn_ok :: "frame_in \<Rightarrow> App \<Rightarrow> App \<Rightarrow> bool" where
  "drawn_ok i a a' \<longleftrightarrow> app_ok a' \<and> draw_edge i (a_mode a) (a_mode a')"

lemma set_ui_ok: "app_ok a \<Longrightarrow> (\<And>u. ui_typed u \<Longrightarrow> ui_typed (f u)) \<Longrightarrow> app_ok (set_ui f a)"
  by (simp add: set_ui_def app_ok_def)

lemma set_ui_mode [simp]: "a_mode (set_ui f a) = a_mode a"
  by (simp add: set_ui_def)

lemma on_click_ok: "app_ok a \<Longrightarrow> (\<And>a. app_ok a \<Longrightarrow> app_ok (f a)) \<Longrightarrow> app_ok (on_click R i b f a)"
  by (simp add: on_click_def)

lemma on_click_mode: "(\<And>a. a_mode (f a) = a_mode a) \<Longrightarrow> a_mode (on_click R i b f a) = a_mode a"
  by (simp add: on_click_def)

lemma click_pressed: "Clicked R i b \<Longrightarrow> i_lmbPressed i"
  by (simp add: Clicked_def)

lemma flags_ok [simp]: "app_ok (toggleFullscreen a) = app_ok a" "app_ok (quit_app a) = app_ok a"
    "a_mode (toggleFullscreen a) = a_mode a" "a_mode (quit_app a) = a_mode a"
  by (simp_all add: toggleFullscreen_def quit_app_def app_ok_def)

lemma pick_color_ok: "app_ok a \<Longrightarrow> app_ok (pick_color i a)" "a_mode (pick_color i a) = a_mode a"
  unfolding pick_color_def by (rule set_ui_ok) (simp_all add: ui_typed_def)

lemma drawMenu_ok:
  assumes "app_ok a" "a_mode a = ModeMenu"
  shows "drawn_ok i a (drawMenu R m N i a)"
proof -
  define b where "b = pick_color i (on_click R i (menu_rect (i_screen i) 278 34) (set_ui (\<lambda>u. u\<lparr>ui_menuFocus := 1\<rparr>))
    (on_click R i (menu_rect (i_screen i) 202 34) (set_ui (\<lambda>u. u\<lparr>ui_menuFocus := 0\<rparr>)) a))"
  have "app_ok b" unfolding b_def
    by (intro pick_color_ok(1) on_click_ok set_ui_ok assms(1)) (simp_all add: ui_typed_def)
  moreover have "a_mode b = ModeMenu" unfolding b_def by (simp add: pick_color_ok(2) on_click_mode assms(2))
  ultimately have c: "drawn_ok i a (on_click R i (menu_rect (i_screen i) 582 42) (startConnect R m N) b)"
    using startConnect_ok [of b R m N] startConnect_mode [of R m N b] assms(2) click_pressed [of R i "menu_rect (i_screen i) 582 42"]
    by (auto simp: drawn_ok_def on_click_def)
  then show ?thesis
    by (simp add: drawMenu_def Let_def b_def [symmetric] drawn_ok_def on_click_ok on_click_mode)
qed

lemma disconnect_ok: "app_ok a \<Longrightarrow> app_ok (disconnect a)" "a_mode (disconnect a) = ModeMenu"
proof -
  assume a: "app_ok a"
  have "app_ok (setCursorCaptured False a)" using a by simp
  then show "app_ok (disconnect a)" by (simp add: disconnect_def app_ok_def Let_def)
qed (simp add: disconnect_def Let_def)

lemma drawPause_ok:
  assumes "app_ok a" "a_mode a = ModePaused"
  shows "drawn_ok i a (drawPause R i a)"
proof -
  define b where "b = on_click R i (pause_rect (i_screen i) 150) toggleFullscreen (on_click R i (pause_rect (i_screen i) 90) resume a)"
  have "a_flight a \<noteq> None" using assms by (auto simp: app_ok_def)
  then have "app_ok (resume a)" unfolding resume_def by (rule mode_ok [OF assms(1)])
  then have "drawn_ok i a b"
    using assms click_pressed [of R i "pause_rect (i_screen i) 90"] by (auto simp: b_def drawn_ok_def on_click_def resume_def)
  then have "drawn_ok i a (on_click R i (pause_rect (i_screen i) 210) disconnect b)"
    using click_pressed [of R i "pause_rect (i_screen i) 210"] assms(2) disconnect_ok [of b]
    by (auto simp: drawn_ok_def on_click_def)
  then show ?thesis by (simp add: drawPause_def Let_def b_def [symmetric] drawn_ok_def on_click_ok on_click_mode)
qed

lemma drawDead_ok:
  assumes "app_ok a" "a_mode a = ModeDead"
  shows "drawn_ok i a (drawDead R m N i a)"
proof -
  define b where "b = on_click R i (dead_rect (i_screen i) 60) (respawn R m N) a"
  have b: "drawn_ok i a b"
    using assms respawn_ok [where a = a and R = R and m = m and N = N] click_pressed [of R i "dead_rect (i_screen i) 60"]
    by (auto simp: b_def drawn_ok_def on_click_def)
  have e: "drawDead R m N i a = on_click R i (dead_rect (i_screen i) 130) returnToMenu b" by (simp add: drawDead_def b_def)
  show ?thesis
  proof (cases "Clicked R i (dead_rect (i_screen i) 130)")
    case True
    then show ?thesis using b assms(2) returnToMenu_ok [of b] click_pressed [OF True]
      unfolding e by (simp add: drawn_ok_def on_click_def)
  qed (use b in \<open>simp add: e on_click_def\<close>)
qed

lemma drag_typed: "ui_typed u \<Longrightarrow> ui_typed (drag_release R i (drag_press R i u))"
proof -
  assume "ui_typed u"
  then have "ui_typed (drag_press R i u)"
    using slot_under_less [of R i] by (auto simp: drag_press_def ui_typed_def split: option.split)
  then show ?thesis by (auto simp: drag_release_def ui_typed_def swap_slots_def split: option.split)
qed

lemma drawInventory_ok: "app_ok a \<Longrightarrow> app_ok (drawInventory R i a)"
  by (simp add: drawInventory_def app_ok_def drag_typed)

lemma parts_craft: "typed_parts (drawCraft R m i a) = typed_parts a"
  unfolding drawCraft_def by (rule fold_preserves) (simp add: craft_click_def)

lemma parts_close [simp]: "typed_parts (close_contract a) = typed_parts a"
  by (simp add: close_contract_def) (simp add: typed_parts_def)

lemma parts_contract: "typed_parts (drawContract R m E i a) = typed_parts a"
  by (simp add: drawContract_def contract_click_def Let_def)

lemma parts_factory: "typed_parts (drawFactory R m E i a) = typed_parts a"
  unfolding drawFactory_def by (rule fold_preserves) (simp add: factory_click_def)

lemma mode_inventory [simp]: "a_mode (drawInventory R i a) = a_mode a"
  by (simp add: drawInventory_def)

lemma drawHUD_ok: "app_ok a \<Longrightarrow> app_ok (drawHUD R m i a)" "a_mode (drawHUD R m i a) = a_mode a"
  using app_ok_cong [OF parts_craft] parts_mode [OF parts_craft] drawInventory_ok [of a R i]
  by (simp_all add: drawHUD_def Let_def)

lemma parts_overlays: "typed_parts (drawOrbitOverlays R gw i cam fwd scale hr r a) = typed_parts a"
proof -
  have "or_focus (drawOrbitSunOverlay R gw i cam fwd scale s) = or_focus s"
      "or_focus (drawOrbitStar2Overlay gw i cam scale s) = or_focus s"
      "or_focus (drawOrbitPlanet2Overlay gw i cam scale p s) = or_focus s"
      "or_focus (drawOrbitEarthOverlay R gw i cam fwd scale p s) = or_focus s"
      "or_focus (drawOrbitRocketOverlay R gw i cam fwd scale p r s) = or_focus s" for p s
    by (simp_all add: drawOrbitSunOverlay_def drawOrbitStar2Overlay_def drawOrbitPlanet2Overlay_def
        drawOrbitEarthOverlay_def drawOrbitRocketOverlay_def Let_def)
  then show ?thesis by (simp add: drawOrbitOverlays_def typed_parts_def Let_def)
qed

lemma parts_drawOrbitMap: "typed_parts (drawOrbitMap R E gw i a) = typed_parts a"
proof -
  have "typed_parts (a\<lparr>a_orbit := initOrbitCameraIfNeeded r h (a_orbit a)\<rparr>) = typed_parts a" for r h
    by (simp add: typed_parts_def initOrbitCameraIfNeeded_def Let_def)
  then show ?thesis by (simp add: drawOrbitMap_def Let_def parts_overlays split: prod.split)
qed

lemma drawOrbitMap_ok: "app_ok a \<Longrightarrow> app_ok (drawOrbitMap R E gw i a)" "a_mode (drawOrbitMap R E gw i a) = a_mode a"
  using app_ok_frame [OF parts_drawOrbitMap] parts_mode [OF parts_drawOrbitMap] by blast+

lemma draw_drawn:
  assumes "app_ok a"
  shows "drawn_ok i a (draw R m E W N i a)"
proof (cases "a_mode a = ModeMenu \<or> a_mode a = ModeDead")
  case True
  then show ?thesis
    using assms drawMenu_ok [of a i R m N] drawDead_ok [of "drawHUD R m i a" i R m N] drawHUD_ok [where a = a and R = R and m = m and i = i]
    by (auto simp: draw_def drawn_ok_def)
next
  case False
  define b where "b = (if a_mode a = ModePaused then drawPause R i a else a)"
  have b: "drawn_ok i a b" using drawPause_ok [OF assms, of i R] assms by (simp add: b_def drawn_ok_def)
  have "draw R m E W N i a =
      (let a1 = drawHUD R m i b; a2 = (if ui_showContract (a_ui a1) then drawContract R m E i a1 else a1);
         a3 = (if ui_showFactory (a_ui a2) then drawFactory R m E i a2 else a2)
       in if or_showOrbitMap (a_orbit a3) then drawOrbitMap R E W i a3 else a3)"
    using False by (cases "a_mode a") (simp_all add: draw_def b_def)
  then show ?thesis
    using b drawHUD_ok [where a = b and R = R and m = m and i = i] app_ok_cong [OF parts_contract] app_ok_cong [OF parts_factory]
      parts_mode [OF parts_contract] parts_mode [OF parts_factory]
    by (simp add: drawn_ok_def Let_def drawOrbitMap_ok)
qed

section \<open>Runs\<close>

definition frame_ok :: "frame \<Rightarrow> bool" where "frame_ok fr \<longleftrightarrow> raw32 (i_wheel (fr_in fr)) \<noteq> NaN"

inductive app_step :: "raymath \<Rightarrow> (cli_msg \<Rightarrow> bytes) \<Rightarrow> App \<Rightarrow> App \<Rightarrow> bool" for R m where
  "frame_ok fr \<Longrightarrow> run_frame R m fr a = Some a' \<Longrightarrow> app_step R m a a'"

definition app_reachable :: "raymath \<Rightarrow> (cli_msg \<Rightarrow> bytes) \<Rightarrow> App \<Rightarrow> bool" where
  "app_reachable R m a \<longleftrightarrow> (\<exists>nick addr. (app_step R m)\<^sup>*\<^sup>* (app_New nick addr) a)"

lemma run_frame_ok:
  assumes "asin_ok R" "frame_ok fr" "app_ok a" "run_frame R m fr a = Some a'"
  obtains b where "updated (fr_in fr) a b" "drawn_ok (fr_in fr) b a'"
proof -
  obtain b where b: "update R m (fr_env fr) (fr_update fr) (fr_in fr) (i_dt (fr_in fr)) (goroutines (fr_before fr) a) = Some b"
      "a' = draw R m (fr_env fr) (fr_screen fr) (fr_draw fr) (fr_in fr) (goroutines (fr_between fr) b)"
    using assms(4) by (auto simp: run_frame_def)
  have "updated (fr_in fr) (goroutines (fr_before fr) a) b"
    using assms(1-3) by (intro update_updated [OF _ _ _ b(1)]) (simp_all add: frame_ok_def)
  then have u: "updated (fr_in fr) a b" by (simp add: updated_def)
  have "app_ok (goroutines (fr_between fr) b)" using u by (simp add: updated_def)
  from draw_drawn [OF this] have "drawn_ok (fr_in fr) b a'" by (simp add: b(2) drawn_ok_def)
  with u show thesis by (rule that)
qed

lemma app_ok_step: "asin_ok R \<Longrightarrow> app_step R m a a' \<Longrightarrow> app_ok a \<Longrightarrow> app_ok a'"
  by (erule app_step.cases) (auto elim: run_frame_ok simp: drawn_ok_def)

interpretation app: invariant_machine "\<lambda>a a'. asin_ok R \<and> app_step R m a a'" app_ok for R m
  by unfold_locales (auto intro: app_ok_step)

lemma reachable_ok: "asin_ok R \<Longrightarrow> app_reachable R m a \<Longrightarrow> app_ok a"
  unfolding app_reachable_def using app.steps_inv [of R m] app_New_ok by auto

text \<open>
  C22. In every state that a run of the client reaches, whatever keys, mouse and network do, the selected
  slot is one of the hotbar's 16, the two input fields of the menu share the focus, the inventory has 256 slots and
  is dragged from one of them, the history of the Earth has at most 30 entries, the focus of the map and the
  autopilot are known ones, the chat shows at most 8 lines, and only the menu is without a player.
\<close>
theorem app_typed:
  assumes "asin_ok R" "app_reachable R m a"
  shows "ui_selectedSlot (a_ui a) \<in> {0..<16} \<and> ui_menuFocus (a_ui a) \<in> {0, 1} \<and> length (ui_invSlots (a_ui a)) = 256 \<and>
    ui_dragFrom (a_ui a) < 256 \<and> length (w_earthHistory (a_world a)) \<le> 30 \<and> or_focus (a_orbit a) \<in> set focuses \<and>
    rs_autoPilot (a_rocket a) \<in> set autopilots \<and> length (cb_Lines (a_chat a)) \<le> 8 \<and> length (cb_Input (a_chat a)) \<le> 200 \<and>
    dg_diagFrames (a_diag a) \<in> {0..120} \<and>
    (case a_flight a of None \<Rightarrow> a_mode a = ModeMenu | Some f \<Rightarrow> in32 10 5000 (fc_Speed f))"
  using reachable_ok [OF assms]
  by (auto simp: app_ok_def ui_typed_def box_inv_def maxLines_def maxInput_def line_ok_def flight_inv_def split: option.split)


lemma plain_asin: "asin_ok plain_raymath"
  by (simp add: asin_ok_def plain_raymath_def less_f64_def const32 raw64_ops(6))

lemma start_reachable: "app_reachable R m (app_New nick addr)"
  unfolding app_reachable_def by blast

theorem app_typed_witness: "ui_selectedSlot (a_ui (app_New ''ann'' ''host'')) \<in> {0..<16}"
  using app_typed [OF plain_asin start_reachable [of plain_raymath "\<lambda>_. []" "''ann''" "''host''"]] by blast

end
