(* ===== verification/App_Safety.thy ===== *)
theory App_Safety
  imports App_Facts
begin

text \<open>
  The machine of the client's modes, its only panic, the window that holds the player in place, the
  death that is noticed late, and the position of the Earth between two snapshots.
\<close>

section \<open>Panics\<close>

lemma update_panics: "update R m E N i dt a = None \<longleftrightarrow> g_teleportCh (a_nc a) \<noteq> [] \<and> a_flight a = None"
  by (auto simp: update_def app_handleTeleport_def Let_def split: option.splits list.splits)

lemma frame_panics: "run_frame R m fr a = None \<longleftrightarrow> g_teleportCh (fr_before fr (a_nc a)) \<noteq> [] \<and> a_flight a = None"
  by (simp add: run_frame_def update_panics goroutines_def)

text \<open>
  In a reachable state a frame of the client panics exactly when a teleport is waiting and there is
  no player, which can only be in the menu: every other step meets a player or tests for one.
\<close>
theorem client_panics:
  assumes "asin_ok R" "app_reachable R m a"
  shows "(run_frame R m fr a = None \<longleftrightarrow> a_mode a = ModeMenu \<and> a_flight a = None \<and> g_teleportCh (fr_before fr (a_nc a)) \<noteq> []) \<and>
    (a_mode a \<noteq> ModeMenu \<longrightarrow> run_frame R m fr a \<noteq> None)"
  using reachable_ok [OF assms] by (auto simp: frame_panics app_ok_def)

definition idle_run :: frame where
  "idle_run = \<lparr>fr_in = idle_frame, fr_env = flat_env, fr_screen = (\<lambda>_ _. (0, 0)),
     fr_update = \<lparr>ni_codec = snap_codec zero_snapshot, ni_dial = None, ni_error = (\<lambda>_. ''no connection'')\<rparr>,
     fr_draw = \<lparr>ni_codec = snap_codec zero_snapshot, ni_dial = None, ni_error = (\<lambda>_. ''no connection'')\<rparr>,
     fr_before = id, fr_between = id\<rparr>"

theorem client_panics_witness:
  "run_frame plain_raymath (\<lambda>_. []) (idle_run\<lparr>fr_before := g_teleportCh_update (\<lambda>_. [zero_teleport])\<rparr>) (app_New ''ann'' ''host'') = None"
  using client_panics [OF plain_asin start_reachable [of plain_raymath "\<lambda>_. []" "''ann''" "''host''"],
      of "idle_run\<lparr>fr_before := g_teleportCh_update (\<lambda>_. [zero_teleport])\<rparr>"]
  by (simp add: app_New_def)

section \<open>Modes\<close>

lemma draw_unpressed_dead:
  assumes "\<not> i_lmbPressed i" "a_mode a = ModeDead"
  shows "a_mode (draw R m E W N i a) = ModeDead \<and> a_player (draw R m E W N i a) = a_player a"
proof -
  have no: "on_click R i b f x = x" for b f x using assms(1) by (simp add: on_click_def Clicked_def)
  have "craft_click R m i inv e x = x" for inv e x using assms(1) by (simp add: craft_click_def Clicked_def)
  then have "fold (craft_click R m i inv) es x = x" for inv es x by (induction es) simp_all
  then have "drawCraft R m i x = x" for x by (simp add: drawCraft_def)
  then show ?thesis using assms(2) by (simp add: draw_def drawDead_def no drawHUD_def drawInventory_def Let_def)
qed

text \<open>
  C23. A frame takes the client from mode to mode only along the ways of the design: with Enter or the
  button from the menu into the game, with Escape into and out of the pause, with the buttons from the pause to the
  game or the menu, with R, Escape or the buttons from death to the game or the menu. Without one of these keys and
  without the left button the mode stays, except that a player whose health the server has reported as gone dies.
\<close>
theorem mode_machine:
  assumes "asin_ok R" "app_reachable R m a" "frame_ok fr" "run_frame R m fr a = Some a'"
  shows "(\<exists>md. update_edge (fr_in fr) (a_mode a) md \<and> draw_edge (fr_in fr) md (a_mode a')) \<and>
    (\<not> i_pressed (fr_in fr) KeyEnter \<longrightarrow> \<not> i_pressed (fr_in fr) KeyEscape \<longrightarrow> \<not> i_pressed (fr_in fr) KeyR \<longrightarrow>
     \<not> i_lmbPressed (fr_in fr) \<longrightarrow>
       a_mode a' = a_mode a \<or> a_mode a = ModePlaying \<and> a_mode a' = ModeDead \<and> pl_hpReceived (a_player a') \<and> pl_hp (a_player a') \<le> 0)"
proof -
  obtain b where b: "update R m (fr_env fr) (fr_update fr) (fr_in fr) (i_dt (fr_in fr)) (goroutines (fr_before fr) a) = Some b"
      "a' = draw R m (fr_env fr) (fr_screen fr) (fr_draw fr) (fr_in fr) (goroutines (fr_between fr) b)"
    using assms(4) by (auto simp: run_frame_def)
  have ok: "app_ok (goroutines (fr_before fr) a)" using reachable_ok [OF assms(1,2)] by simp
  have u: "updated (fr_in fr) (goroutines (fr_before fr) a) b"
    using assms(1,3) by (intro update_updated [OF _ _ ok b(1)]) (simp_all add: frame_ok_def)
  then have d: "drawn_ok (fr_in fr) b a'"
    using draw_drawn [of "goroutines (fr_between fr) b"] by (simp add: b(2) drawn_ok_def updated_def)
  have "a_player (goroutines g x) = a_player x" for g x by (simp add: goroutines_def)
  then have dead: "\<not> i_lmbPressed (fr_in fr) \<Longrightarrow> a_mode b = ModeDead \<Longrightarrow> a_mode a' = ModeDead \<and> a_player a' = a_player b"
    using draw_unpressed_dead [of "fr_in fr" "goroutines (fr_between fr) b"] by (simp add: b(2))
  have ways: "update_edge (fr_in fr) (a_mode a) (a_mode b)" "draw_edge (fr_in fr) (a_mode b) (a_mode a')"
    using u d by (simp_all only: updated_def drawn_ok_def mode_cursor)
  have "a_mode a' = a_mode a \<or> a_mode a = ModePlaying \<and> a_mode a' = ModeDead \<and> pl_hpReceived (a_player a') \<and> pl_hp (a_player a') \<le> 0"
    if k: "\<not> i_pressed (fr_in fr) KeyEnter" "\<not> i_pressed (fr_in fr) KeyEscape" "\<not> i_pressed (fr_in fr) KeyR" "\<not> i_lmbPressed (fr_in fr)"
  proof -
    have "a_mode b = a_mode a \<or> a_mode a = ModePlaying \<and> a_mode b = ModeDead" using ways(1) k by auto
    moreover have "a_mode a' = a_mode b" using ways(2) k(4) by auto
    moreover have "a_mode a = ModePlaying \<Longrightarrow> a_mode b = ModeDead \<Longrightarrow> died b" using u by (simp add: updated_def)
    ultimately show ?thesis using dead [OF k(4)] by (auto simp: died_def)
  qed
  with ways show ?thesis by blast
qed

theorem mode_machine_witness:
  "\<exists>a'. run_frame plain_raymath (\<lambda>_. []) idle_run (app_New ''ann'' ''host'') = Some a' \<and> a_mode a' = ModeMenu"
proof -
  have "frame_ok idle_run" by (simp add: frame_ok_def idle_run_def idle_frame_def raw32_ops)
  moreover obtain a' where a': "run_frame plain_raymath (\<lambda>_. []) idle_run (app_New ''ann'' ''host'') = Some a'"
    using frame_panics [of plain_raymath "\<lambda>_. []" idle_run "app_New ''ann'' ''host''"]
    by (auto simp: app_New_def client_New_def idle_run_def)
  moreover have "a_mode (app_New ''ann'' ''host'') = ModeMenu" by (simp add: app_New_def)
  ultimately show ?thesis
    using mode_machine [OF plain_asin start_reachable _ a'] by (auto simp: idle_run_def idle_frame_def)
qed


section \<open>A teleport after the end of the game\<close>

lemma flight_windows [simp]: "a_flight (drawCraft R m i a) = a_flight a" "a_flight (drawContract R m E i a) = a_flight a"
    "a_flight (drawFactory R m E i a) = a_flight a"
  using parts_craft [of R m i a] parts_contract [of R m E i a] parts_factory [of R m E i a] by (simp_all add: typed_parts_def)

definition waiting :: "App \<Rightarrow> Teleport list" where "waiting a = g_teleportCh (a_nc a)"

lemma waiting_say [simp]: "waiting (say m x a) = waiting a"
  by (simp add: waiting_def say_def client_send_def Let_def split: option.split prod.split sum.split)

lemma waiting_draws [simp]: "waiting (drawCraft R m i a) = waiting a" "waiting (drawContract R m E i a) = waiting a"
    "waiting (drawFactory R m E i a) = waiting a" "waiting (drawInventory R i a) = waiting a"
    "waiting (drawOrbitMap R E W i a) = waiting a"
proof -
  show "waiting (drawCraft R m i a) = waiting a"
    unfolding drawCraft_def by (rule fold_preserves) (simp add: craft_click_def)
  have "waiting (close_contract x) = waiting x" for x by (simp add: waiting_def close_contract_def DisableCursor_def)
  then show "waiting (drawContract R m E i a) = waiting a" by (simp add: drawContract_def contract_click_def Let_def)
  show "waiting (drawFactory R m E i a) = waiting a"
    unfolding drawFactory_def by (rule fold_preserves) (simp add: factory_click_def)
  show "waiting (drawInventory R i a) = waiting a" by (simp add: waiting_def drawInventory_def)
  show "waiting (drawOrbitMap R E W i a) = waiting a"
    by (simp add: waiting_def drawOrbitMap_def drawOrbitOverlays_def Let_def split: prod.split)
qed

lemma waiting_update [simp]: "waiting (setCursorCaptured c a) = waiting a" "waiting (updateEarthHistory E dt a) = waiting a"
    "waiting (updatePlanet2 a) = waiting a" "waiting (handleDebugKeys i a) = waiting a" "waiting (drainChat a) = waiting a"
    "waiting (updatePausePhysics R E i a) = waiting a" "waiting (tryPickup m a) = waiting a" "waiting (updateDiag a) = waiting a"
  by (simp_all add: updateEarthHistory_def updatePlanet2_def handleDebugKeys_def drainChat_def updatePausePhysics_def set_camera_def
      tryPickup_def updateDiag_def Let_def split: option.split prod.split) (simp_all add: waiting_def split: prod.split option.split)

lemma waiting_shots [simp]: "waiting (app_updateProjectiles R E m i a) = waiting a"
proof -
  have "waiting (snd (shot_loop R E m dt c p acc)) = waiting (snd acc)" for dt c p acc
    by (simp add: shot_loop_def split: shot.split)
  then have "waiting (snd (fold (shot_loop R E m dt c) ps ([], a))) = waiting a" for dt c ps
    using fold_preserves [where g = "\<lambda>acc. waiting (snd acc)" and f = "shot_loop R E m dt c"] by simp
  then show ?thesis by (auto simp: app_updateProjectiles_def waiting_def split: prod.split) (metis snd_conv)
qed

lemma waiting_paused:
  assumes "\<not> i_pressed i KeyEscape"
  shows "waiting (updatePaused m i a) = waiting a" "a_mode (updatePaused m i a) = a_mode a"
  using assms by (simp_all add: updatePaused_def Let_def)

lemma pause_draw:
  assumes "a_mode a = ModePaused" "Clicked R i (pause_rect (i_screen i) 210)" "\<not> Clicked R i (pause_rect (i_screen i) 90)"
  shows "a_flight (draw R m E W N i a) = None" "waiting (draw R m E W N i a) = waiting a"
proof -
  define p where "p = drawPause R i a"
  have "a_flight p = None" "waiting p = waiting a" "a_quit p = (a_quit a \<or> Clicked R i (pause_rect (i_screen i) 270))"
    using assms by (auto simp: p_def drawPause_def on_click_def Let_def disconnect_def toggleFullscreen_def quit_app_def waiting_def
      Disconnect_def setCursorCaptured_def EnableCursor_def)
  moreover have "a_flight (drawOrbitMap R E W i x) = a_flight x" for x
    using parts_drawOrbitMap [of R E W i x] by (simp add: typed_parts_def)
  moreover have "a_flight (drawInventory R i x) = a_flight x" for x by (simp add: drawInventory_def)
  ultimately show "a_flight (draw R m E W N i a) = None" "waiting (draw R m E W N i a) = waiting a"
    using assms(1) by (simp_all add: draw_def p_def [symmetric] drawHUD_def Let_def)
qed


definition no_teleports :: "(GameClient \<Rightarrow> GameClient) \<Rightarrow> bool" where
  "no_teleports g \<longleftrightarrow> (\<forall>c. g_teleportCh (g c) = g_teleportCh c)"

text \<open>
  C25. The panic is within reach of a player: two teleports that wait when a frame of the pause
  begins, and the button \<open>Disconnect\<close> in that frame. The frame takes one of the two; the other one meets no
  player in the next frame, whatever that frame's input is.
\<close>
theorem disconnect_panics:
  assumes "a_mode a = ModePaused" "a_flight a \<noteq> None" "g_teleportCh (fr_before fr (a_nc a)) = t1 # t2 # ts"
    "\<not> i_pressed (fr_in fr) KeyEscape" "Clicked R (fr_in fr) (pause_rect (i_screen (fr_in fr)) 210)"
    "\<not> Clicked R (fr_in fr) (pause_rect (i_screen (fr_in fr)) 90)"
    "no_teleports (fr_between fr)" "no_teleports (fr_before fr')"
  shows "\<exists>a'. run_frame R m fr a = Some a' \<and> a_mode a' = ModeMenu \<and> run_frame R m fr' a' = None"
proof -
  let ?i = "fr_in fr" and ?a = "goroutines (fr_before fr) a"
  obtain f where f: "a_flight a = Some f" using assms(2) by auto
  obtain a0 where a0: "app_handleTeleport ?a = Some a0" "waiting a0 = t2 # ts" "a_mode a0 = ModePaused"
    using assms(1,3) f by (auto simp: app_handleTeleport_def goroutines_def waiting_def)
  define a3 where "a3 = updatePausePhysics R (fr_env fr) ?i (app_updateProjectiles R (fr_env fr) m ?i (drainChat (handleDebugKeys ?i
     (updatePlanet2 (updateEarthHistory (fr_env fr) (i_dt ?i) a0)))))"
  define b where "b = updateDiag (updatePaused m ?i a3)"
  have "a_mode a3 = ModePaused" using a0(3) by (simp add: a3_def)
  then have b: "update R m (fr_env fr) (fr_update fr) ?i (i_dt ?i) ?a = Some b"
    by (simp add: update_def a0(1) b_def a3_def Let_def dispatchMode_def)
  have w: "waiting b = t2 # ts" "a_mode b = ModePaused"
    using a0(2,3) waiting_paused [OF assms(4)] by (simp_all add: b_def a3_def)
  define c where "c = goroutines (fr_between fr) b"
  have c: "waiting c = t2 # ts" "a_mode c = ModePaused"
    using w assms(7) by (simp_all add: c_def goroutines_def waiting_def no_teleports_def)
  define a' where "a' = draw R m (fr_env fr) (fr_screen fr) (fr_draw fr) ?i c"
  have r: "run_frame R m fr a = Some a'" by (simp add: run_frame_def b a'_def c_def)
  have a': "a_flight a' = None" "waiting a' = t2 # ts"
    using pause_draw [OF c(2) assms(5,6)] c(1) by (simp_all add: a'_def)
  then have "run_frame R m fr' a' = None"
    using assms(8) by (simp add: frame_panics waiting_def no_teleports_def)
  moreover have "a_mode a' = ModeMenu"
  proof -
    define p where "p = drawPause R ?i c"
    have "a_mode p = ModeMenu"
      using assms(5,6) c(2) by (simp add: p_def drawPause_def on_click_def Let_def disconnect_def)
    then show ?thesis
      using c(2) parts_mode [OF parts_contract] parts_mode [OF parts_factory] drawOrbitMap_ok(2) drawHUD_ok(2)
      by (simp add: a'_def draw_def Let_def p_def [symmetric])
  qed
  ultimately show ?thesis using r by blast
qed

text \<open>The middle of the button on a screen of 1280 by 720.\<close>

definition click_disconnect :: frame_in where
  "click_disconnect = idle_frame\<lparr>i_lmbPressed := True, i_mouse := (c32 640, c32 410)\<rparr>"

definition paused_game :: App where
  "paused_game = (app_New ''ann'' ''host'')\<lparr>a_mode := ModePaused, a_flight := Some (flight_New plain_raymath zero_vec),
     a_nc := client_New\<lparr>g_teleportCh := [zero_teleport, zero_teleport]\<rparr>\<rparr>"

theorem disconnect_panics_witness:
  "\<exists>a'. run_frame plain_raymath (\<lambda>_. []) (idle_run\<lparr>fr_in := click_disconnect\<rparr>) paused_game = Some a' \<and> a_mode a' = ModeMenu \<and>
     run_frame plain_raymath (\<lambda>_. []) idle_run a' = None"
proof (rule disconnect_panics)
  have "Clicked plain_raymath click_disconnect (pause_rect (1280, 720) 210)"
      "\<not> Clicked plain_raymath click_disconnect (pause_rect (1280, 720) 90)"
    by (simp_all add: Clicked_def Hovered_def click_disconnect_def plain_raymath_def) code_simp+
  moreover have "i_screen click_disconnect = (1280, 720)" by (simp add: click_disconnect_def idle_frame_def)
  ultimately show "Clicked plain_raymath (fr_in (idle_run\<lparr>fr_in := click_disconnect\<rparr>))
      (pause_rect (i_screen (fr_in (idle_run\<lparr>fr_in := click_disconnect\<rparr>))) 210)"
    "\<not> Clicked plain_raymath (fr_in (idle_run\<lparr>fr_in := click_disconnect\<rparr>))
      (pause_rect (i_screen (fr_in (idle_run\<lparr>fr_in := click_disconnect\<rparr>))) 90)"
    by simp_all
qed (simp_all add: paused_game_def idle_run_def click_disconnect_def idle_frame_def no_teleports_def)


section \<open>A window holds the player\<close>

definition quiet :: "frame_in \<Rightarrow> bool" where "quiet i \<longleftrightarrow> (\<forall>k. \<not> i_pressed i k)"

text \<open>What the lock is about: the player, the place on the Earth where it is held, the open windows.\<close>

definition lock_view where
  "lock_view a = (a_mode a, a_flight a, a_world a, pl_flightLocked (a_player a), pl_lockedRelPos (a_player a), pl_lockedRelVel (a_player a),
     pl_rocketID (a_player a))"

lemma lock_say [simp]: "lock_view (say m x a) = lock_view a" "lock_view (setCursorCaptured c a) = lock_view a"
  by (simp_all add: lock_view_def)

definition windows where
  "windows a = (ui_showInventory (a_ui a), ui_showCraft (a_ui a), ui_showContract (a_ui a), ui_showFactory (a_ui a), cb_Open (a_chat a))"

lemma any_windows: "anyUI a \<longleftrightarrow> (case windows a of (p, c, k, f, t) \<Rightarrow> p \<or> c \<or> k \<or> f \<or> t)"
  by (auto simp: anyUI_def windows_def)

lemma rest_held:
  assumes "anyUI a" "quiet i"
  shows "lock_view (until_done (drop 4 (playing_steps R m E i dt)) a) = lock_view a"
proof -
  have no: "\<not> i_pressed i k" for k using assms(2) by (simp add: quiet_def)
  have hp: "lock_view (syncHPFromNetwork x) = lock_view x" "windows (syncHPFromNetwork x) = windows x"
      "a_orbit (syncHPFromNetwork x) = a_orbit x" for x
    by (simp_all add: syncHPFromNetwork_def lock_view_def windows_def Let_def)
  have dlg: "updateDialogOverlays E i a = (ui_showContract (a_ui a) \<or> ui_showFactory (a_ui a), a)"
    by (simp add: updateDialogOverlays_def updateContract_def updateFactory_def no)
  have map_hold: "lock_view (updateOrbitMapInput i x) = lock_view x" for x by (simp add: updateOrbitMapInput_def lock_view_def)
  have omap: "updateOrbitMapOverlay i x = (or_showOrbitMap (a_orbit x), if or_showOrbitMap (a_orbit x) then updateOrbitMapInput i x else x)" for x
    by (simp add: updateOrbitMapOverlay_def Let_def no)
  have key: "handleModeSwitchKey R E i x = x" for x by (simp add: handleModeSwitchKey_def no)
  have inven: "updateInventoryOverlay i x = (ui_showInventory (a_ui x) \<or> ui_showCraft (a_ui x), x)" for x
    by (simp add: updateInventoryOverlay_def Let_def no)
  have chat: "cb_Open (a_chat x) \<Longrightarrow> fst (updateChatOverlay m i x) \<and> lock_view (snd (updateChatOverlay m i x)) = lock_view x"
      "\<not> cb_Open (a_chat x) \<Longrightarrow> updateChatOverlay m i x = (False, x)" for x
    by (auto simp: updateChatOverlay_def lock_view_def setCursorCaptured_def EnableCursor_def Let_def split: prod.split option.split)
  define d where "d = syncHPFromNetwork a"
  have d: "lock_view d = lock_view a" "windows d = windows a" by (simp_all add: d_def hp)
  show ?thesis
  proof (cases "ui_showContract (a_ui a) \<or> ui_showFactory (a_ui a)")
    case True
    then show ?thesis by (simp add: playing_steps_def dlg)
  next
    case dialogs: False
    show ?thesis
    proof (cases "cb_Open (a_chat d)")
      case True
      then show ?thesis using dialogs chat(1) [OF True] d
        by (cases "updateChatOverlay m i d") (simp add: playing_steps_def dlg always_def d_def [symmetric])
    next
      case False
      then have "ui_showInventory (a_ui d) \<or> ui_showCraft (a_ui d)"
        using assms(1) dialogs d(2) by (auto simp: any_windows windows_def)
      then show ?thesis using dialogs chat(2) [OF False] d
        by (simp add: playing_steps_def dlg always_def d_def [symmetric] omap map_hold key inven)
    qed
  qed
qed


lemma flight_locked: "a_flight x = Some f \<Longrightarrow> anyUI x \<Longrightarrow> pl_flightLocked (a_player x) \<Longrightarrow> a_mode x = ModePlaying \<Longrightarrow>
    pl_rocketID (a_player x) = '''' \<Longrightarrow> quiet i \<Longrightarrow>
    \<exists>g. lock_view (updatePlaying R m E i dt x) = lock_view (x\<lparr>a_flight := Some g\<rparr>) \<and>
      fc_Pos g = vsum (w_earthPos (a_world x)) (pl_lockedRelPos (a_player x)) \<and>
      fc_Vel g = vsum (w_earthVel (a_world x)) (pl_lockedRelVel (a_player x)) \<and> fc_HelioInit g = fc_HelioInit f"
proof -
  assume x: "a_flight x = Some f" "anyUI x" "pl_flightLocked (a_player x)" "a_mode x = ModePlaying" "pl_rocketID (a_player x) = ''''" "quiet i"
  define y where "y = applyUILock R E (syncFlightBodies R dt (syncInvSlots E x))"
  have s: "anyUI (syncInvSlots E x)" "a_flight (syncInvSlots E x) = Some f" "a_player (syncInvSlots E x) = a_player x"
      "a_world (syncInvSlots E x) = a_world x" "windows (syncInvSlots E x) = windows x"
    using x(1,2) by (simp_all add: syncInvSlots_def anyUI_def windows_def)
  have helio: "fc_HelioInit (SyncToEarthFrame R dt h) = fc_HelioInit h" for h
    by (simp add: SyncToEarthFrame_def split: flight_mode.split)
  have u: "anyUI (syncFlightBodies R dt z) = anyUI z" for z by (simp add: syncFlightBodies_def set_flight_def anyUI_def)
  have open_y: "anyUI y" using s(1) by (simp add: y_def applyUILock_def unlocked_def anyUI_def syncFlightBodies_def set_flight_def Let_def split: option.split)
  obtain g where g: "lock_view y = lock_view (x\<lparr>a_flight := Some g\<rparr>)"
      "fc_Pos g = vsum (w_earthPos (a_world x)) (pl_lockedRelPos (a_player x))"
      "fc_Vel g = vsum (w_earthVel (a_world x)) (pl_lockedRelVel (a_player x))" "fc_HelioInit g = fc_HelioInit f"
    using s x(2-5) by (auto simp: y_def applyUILock_def u [THEN iffD2, OF s(1)] syncFlightBodies_def set_flight_def anyUI_def
        lock_view_def Let_def helio)
  have rocket: "updateRocketMode R m E i dt (syncInvSlots E x) = (False, syncInvSlots E x)"
    using s(2,3) x(5) by (simp add: updateRocketMode_def)
  have "updatePlaying R m E i dt x = until_done (drop 4 (playing_steps R m E i dt)) y"
    by (simp add: updatePlaying_def playing_steps_def always_def rocket y_def)
  then show ?thesis using rest_held [OF open_y x(6), of R m E dt] g by auto
qed

lemma lock_shots: "lock_view (app_updateProjectiles R E m i a) = lock_view a \<and> windows (app_updateProjectiles R E m i a) = windows a"
proof -
  have w: "windows (say m x a) = windows a" for x a by (simp add: windows_def)
  have "(lock_view (snd (shot_loop R E m dt c p acc)), windows (snd (shot_loop R E m dt c p acc))) = (lock_view (snd acc), windows (snd acc))" for dt c p acc
    by (simp add: shot_loop_def w split: shot.split)
  then have "(lock_view (snd (fold (shot_loop R E m dt c) ps ([], a))), windows (snd (fold (shot_loop R E m dt c) ps ([], a)))) = (lock_view a, windows a)"
    for dt c ps
    using fold_preserves [where g = "\<lambda>acc. (lock_view (snd acc), windows (snd acc))" and f = "shot_loop R E m dt c"] by simp
  then have f: "lock_view (snd (fold (shot_loop R E m dt c) ps ([], a))) = lock_view a"
      "windows (snd (fold (shot_loop R E m dt c) ps ([], a))) = windows a" for dt c ps by simp_all
  obtain alive a' where e: "fold (shot_loop R E m (i_dt i) (a_nc a)) (pl_projectiles (a_player a)) ([], a) = (alive, a')" by fastforce
  have "lock_view a' = lock_view a" "windows a' = windows a"
    using f [of "i_dt i" "a_nc a" "pl_projectiles (a_player a)"] by (simp_all add: e)
  moreover have "lock_view (a'\<lparr>a_player := (a_player a')\<lparr>pl_projectiles := alive\<rparr>\<rparr>) = lock_view a'"
      "windows (a'\<lparr>a_player := (a_player a')\<lparr>pl_projectiles := alive\<rparr>\<rparr>) = windows a'"
    by (simp_all add: lock_view_def windows_def)
  ultimately show ?thesis by (simp add: app_updateProjectiles_def e)
qed

lemma push_open: "cb_Open (fold Push xs c) = cb_Open c"
  by (rule fold_preserves) (simp add: Push_def Let_def)

text \<open>
  C24. While a window, a dialog or the chat is open and no key is pressed, the player stands still
  with respect to the Earth, wherever the Earth moves, and stays in the game whatever health the server reports: death
  is noticed only when the window is closed. A teleport that arrives meanwhile is taken from its queue and lost: the
  player's place does not depend on it, but the flag that the place is heliocentric has been cleared.
\<close>
theorem window_holds_player:
  assumes "a_mode a = ModePlaying" "a_flight a = Some f" "pl_rocketID (a_player a) = ''''" "anyUI a"
    "pl_flightLocked (a_player a)" "quiet i"
  shows "\<exists>b g. update R m E N i dt a = Some b \<and> a_mode b = ModePlaying \<and> a_flight b = Some g \<and>
     fc_Pos g = vsum (w_earthPos (a_world b)) (pl_lockedRelPos (a_player a)) \<and>
     fc_Vel g = vsum (w_earthVel (a_world b)) (pl_lockedRelVel (a_player a)) \<and>
     pl_flightLocked (a_player b) \<and> pl_lockedRelPos (a_player b) = pl_lockedRelPos (a_player a) \<and>
     pl_lockedRelVel (a_player b) = pl_lockedRelVel (a_player a) \<and>
     fc_HelioInit g = (fc_HelioInit f \<and> waiting a = [])"
proof -
  obtain a0 f0 where a0: "app_handleTeleport a = Some a0" "a_flight a0 = Some f0" "fc_HelioInit f0 = (fc_HelioInit f \<and> waiting a = [])"
      "a_mode a0 = ModePlaying" "a_player a0 = a_player a" "windows a0 = windows a"
    using assms(1,2) by (cases "g_teleportCh (a_nc a)") (auto simp: app_handleTeleport_def waiting_def windows_def)
  define h where "h = updatePlanet2 (updateEarthHistory E dt a0)"
  have h: "a_flight h = Some f0" "a_mode h = ModePlaying" "a_player h = a_player a" "windows h = windows a"
    using a0 by (simp_all add: h_def updatePlanet2_def updateEarthHistory_def windows_def Let_def split: prod.split)
  define c where "c = drainChat (handleDebugKeys i h)"
  have c: "a_flight c = Some f0" "a_mode c = ModePlaying" "a_player c = a_player a" "windows c = windows a"
    using h by (simp_all add: c_def drainChat_def handleDebugKeys_def windows_def push_open Let_def)
  define x where "x = updatePausePhysics R E i (app_updateProjectiles R E m i c)"
  have "x = app_updateProjectiles R E m i c"
    using c(2) by (simp add: x_def updatePausePhysics_def split: option.split)
  then have x: "lock_view x = lock_view c" "windows x = windows c" using lock_shots by simp_all
  then have xs: "a_flight x = Some f0" "a_mode x = ModePlaying" "pl_rocketID (a_player x) = ''''" "pl_flightLocked (a_player x)" "anyUI x"
      "pl_lockedRelPos (a_player x) = pl_lockedRelPos (a_player a)" "pl_lockedRelVel (a_player x) = pl_lockedRelVel (a_player a)"
    using c assms(3-5) by (auto simp: lock_view_def any_windows)
  define b where "b = updateDiag (updatePlaying R m E i dt x)"
  have b: "update R m E N i dt a = Some b"
    using xs(2) by (simp add: update_def a0(1) b_def x_def c_def h_def Let_def dispatchMode_def)
  have "lock_view b = lock_view (updatePlaying R m E i dt x)" by (simp add: b_def updateDiag_def lock_view_def)
  with flight_locked [OF xs(1,5,4,2,3) assms(6), of R m E dt] b xs a0(3) show ?thesis by (auto simp: lock_view_def)
qed


definition typing_game :: App where
  "typing_game = (app_New ''ann'' ''host'')\<lparr>a_mode := ModePlaying, a_flight := Some (flight_New plain_raymath zero_vec),
     a_chat := Begin chat_New, a_nc := client_New\<lparr>g_teleportCh := [\<lparr>tp_X = c32 500, tp_Y = 0, tp_Z = 0\<rparr>]\<rparr>,
     a_player := (a_player (app_New ''ann'' ''host''))\<lparr>pl_flightLocked := True, pl_lockedRelPos := vec 0 (c32 102) 0\<rparr>\<rparr>"

theorem window_holds_player_witness:
  "\<exists>b g. update plain_raymath (\<lambda>_. []) flat_env (fr_update idle_run) idle_frame 1 typing_game = Some b \<and>
     a_flight b = Some g \<and> fc_Pos g = vsum (w_earthPos (a_world b)) (vec 0 (c32 102) 0) \<and> \<not> fc_HelioInit g"
proof -
  have "\<exists>b g. update plain_raymath (\<lambda>_. []) flat_env (fr_update idle_run) idle_frame 1 typing_game = Some b \<and> a_mode b = ModePlaying \<and> a_flight b = Some g \<and>
     fc_Pos g = vsum (w_earthPos (a_world b)) (pl_lockedRelPos (a_player typing_game)) \<and>
     fc_Vel g = vsum (w_earthVel (a_world b)) (pl_lockedRelVel (a_player typing_game)) \<and>
     pl_flightLocked (a_player b) \<and> pl_lockedRelPos (a_player b) = pl_lockedRelPos (a_player typing_game) \<and>
     pl_lockedRelVel (a_player b) = pl_lockedRelVel (a_player typing_game) \<and>
     fc_HelioInit g = (fc_HelioInit (flight_New plain_raymath zero_vec) \<and> waiting typing_game = [])"
    by (rule window_holds_player) (simp_all add: typing_game_def app_New_def anyUI_def Begin_def quiet_def idle_frame_def)
  then show ?thesis by (auto simp: typing_game_def waiting_def)
qed

section \<open>The Earth between two snapshots\<close>

lemma surround_fold:
  assumes "n \<le> length h"
  shows "case fst (fold (surround_step rt h) [0..<n] (None, None)) of
      None \<Rightarrow> (\<forall>j<n. \<not> f64_of_tick (es_tick (h ! j)) \<le> rt) \<and> snd (fold (surround_step rt h) [0..<n] (None, None)) = None
    | Some s \<Rightarrow> \<exists>k<n. s = h ! k \<and> f64_of_tick (es_tick (h ! k)) \<le> rt \<and> (\<forall>j. k < j \<and> j < n \<longrightarrow> \<not> f64_of_tick (es_tick (h ! j)) \<le> rt) \<and>
        (k + 1 < length h \<longrightarrow> snd (fold (surround_step rt h) [0..<n] (None, None)) = Some (h ! (k + 1)))"
  using assms
proof (induction n)
  case (Suc n)
  define s where "s = fold (surround_step rt h) [0..<n] (None, None)"
  have e: "fold (surround_step rt h) [0..<Suc n] (None, None) = surround_step rt h n s" by (simp add: s_def)
  show ?case
  proof (cases "f64_of_tick (es_tick (h ! n)) \<le> rt")
    case True
    then show ?thesis unfolding e by (auto simp: surround_step_def)
  next
    case False
    then have "surround_step rt h n s = s" by (simp add: surround_step_def)
    with Suc False show ?thesis unfolding e s_def [symmetric]
      by (auto simp: less_Suc_eq split: option.splits)
  qed
qed simp

text \<open>The newest snapshot that is not after the time of rendering, if there is one, else the oldest.\<close>

definition newest_before :: "f64 \<Rightarrow> earthSnap list \<Rightarrow> nat \<Rightarrow> bool" where
  "newest_before rt h k \<longleftrightarrow> k < length h \<and>
     (f64_of_tick (es_tick (h ! k)) \<le> rt \<and> (\<forall>j. k < j \<and> j < length h \<longrightarrow> \<not> f64_of_tick (es_tick (h ! j)) \<le> rt) \<or>
      k = 0 \<and> (\<forall>j < length h. \<not> f64_of_tick (es_tick (h ! j)) \<le> rt))"

lemma surrounding:
  assumes "h \<noteq> []"
  obtains k where "newest_before rt h k" "fst (findEarthSurrounding rt h) = Some (h ! k)"
    "k + 1 < length h \<longrightarrow> snd (findEarthSurrounding rt h) = Some (h ! (k + 1))"
proof -
  define s where "s = fold (surround_step rt h) [0..<length h] (None, None)"
  note spec = surround_fold [OF order_refl, of h rt, folded s_def]
  show thesis
  proof (cases "fst s")
    case None
    then have n: "\<forall>j<length h. \<not> f64_of_tick (es_tick (h ! j)) \<le> rt" using spec by simp
    have "findEarthSurrounding rt h = (Some (h ! 0), if 1 < length h then Some (h ! 1) else snd s)"
      using None by (cases s) (simp add: findEarthSurrounding_def s_def [symmetric])
    then show thesis using n assms by (intro that [of 0]) (auto simp: newest_before_def)
  next
    case (Some e)
    then obtain k where k: "k < length h" "e = h ! k" "f64_of_tick (es_tick (h ! k)) \<le> rt"
        "\<forall>j. k < j \<and> j < length h \<longrightarrow> \<not> f64_of_tick (es_tick (h ! j)) \<le> rt" "k + 1 < length h \<longrightarrow> snd s = Some (h ! (k + 1))"
      using spec by auto
    have "findEarthSurrounding rt h = (Some e, snd s)"
      using Some by (cases s) (simp add: findEarthSurrounding_def s_def [symmetric])
    then show thesis using k by (intro that [of k]) (auto simp: newest_before_def)
  qed
qed


lemma tick_finite: "is_fin (raw64 (f64_of_tick t)) \<and> 0 \<le> fval (raw64 (f64_of_tick t))"
proof -
  have hi: "rv Binary64 18446744073709551616 = 18446744073709551616" by code_simp
  have "(18446744073709551616 :: rat) \<le> fmax Binary64" by (simp add: fmax_def)
  moreover have "uint t < 18446744073709551616" using uint_lt2p [of t] by simp
  then have "(of_int (uint t) :: rat) \<le> 18446744073709551616" by linarith
  ultimately have "in_rng 0 18446744073709551616 (raw64 (f64_of_int (uint t)))"
    using of_int64_in_rng [of "uint t" 18446744073709551616] hi by simp
  then show ?thesis by (simp add: f64_of_tick_def in_rng_def)
qed

lemma snap_factor_unit:
  assumes "is_fin (raw64 rt)"
  shows "in_rng 0 1 (raw64 (snap_factor rt s1 s2))"
proof -
  define span where "span = f64_of_tick (es_tick s2 - es_tick s1)"
  define t where "t = (if 0 < span then (rt - f64_of_tick (es_tick s1)) / span else 0)"
  have "raw64 t \<noteq> NaN"
  proof (cases "0 < span")
    case True
    have s: "is_fin (raw64 span)" using tick_finite by (simp add: span_def)
    then have "0 < fval (raw64 span)"
      using True by (cases "raw64 span") (auto simp: less_f64_def raw64_ops flt_def split: if_splits)
    moreover have "raw64 (rt - f64_of_tick (es_tick s1)) \<noteq> NaN"
      using assms tick_finite [of "es_tick s1"] unfolding raw64_ops by (intro fadd_not_NaN) (auto simp: fneg_NaN)
    ultimately show ?thesis using True s by (auto simp: t_def raw64_ops fdiv_def mk_not_NaN Let_def)
  qed (simp add: t_def raw64_ops)
  then have "in_rng 0 1 (raw64 (clamp01 t))" by (rule clamp01_unit)
  then show ?thesis unfolding clamp01_def t_def span_def snap_factor_def Let_def .
qed


text \<open>
  Between two snapshots the client shows the Earth on the line from the newest one that is
  not after the time of rendering to the one that follows it, by a factor between 0 and 1; with one
  snapshot it shows that one, and before all of them it starts from the oldest.
\<close>
theorem interpolateEarth_correct:
  assumes "h \<noteq> []" "is_fin (raw64 rt)"
  shows "\<exists>k. newest_before rt h k \<and>
    (length h = 1 \<longrightarrow> interpolateEarth rt h ep ev = (es_pos (h ! k), es_vel (h ! k))) \<and>
    (k + 1 < length h \<longrightarrow>
      (let t = snap_factor rt (h ! k) (h ! (k + 1))
       in in_rng 0 1 (raw64 t) \<and>
          interpolateEarth rt h ep ev = (lerp_vec (f32_of t) (es_pos (h ! k)) (es_pos (h ! (k + 1))),
            lerp_vec (f32_of t) (es_vel (h ! k)) (es_vel (h ! (k + 1))))))"
proof -
  obtain k where k: "newest_before rt h k" "fst (findEarthSurrounding rt h) = Some (h ! k)"
      "k + 1 < length h \<longrightarrow> snd (findEarthSurrounding rt h) = Some (h ! (k + 1))"
    using surrounding [OF assms(1)] .
  have "length h = 1 \<Longrightarrow> k = 0" using k(1) by (auto simp: newest_before_def)
  with k snap_factor_unit [OF assms(2)] assms(1) show ?thesis
    by (intro exI [of _ k]) (cases "findEarthSurrounding rt h"; auto simp: interpolateEarth_def Let_def)
qed

definition two_snaps :: "earthSnap list" where
  "two_snaps = [\<lparr>es_tick = 10, es_pos = zero_vec, es_vel = zero_vec, es_at = zero_time\<rparr>,
     \<lparr>es_tick = 12, es_pos = vec (c32 8) 0 0, es_vel = zero_vec, es_at = zero_time\<rparr>]"

theorem interpolateEarth_correct_witness:
  "\<exists>k. newest_before (c64 11) two_snaps k \<and> k = 0 \<and> in_rng 0 1 (raw64 (snap_factor (c64 11) (two_snaps ! 0) (two_snaps ! 1)))"
proof -
  have h: "two_snaps \<noteq> []" "length two_snaps = 2" by (simp_all add: two_snaps_def)
  have f: "is_fin (raw64 (c64 11))" by code_simp
  have less: "f64_of_tick (es_tick (two_snaps ! 0)) \<le> c64 11" "\<not> f64_of_tick (es_tick (two_snaps ! 1)) \<le> c64 11"
    unfolding two_snaps_def by code_simp+
  obtain k where k: "newest_before (c64 11) two_snaps k" "k + 1 < length two_snaps \<longrightarrow>
      in_rng 0 1 (raw64 (snap_factor (c64 11) (two_snaps ! k) (two_snaps ! (k + 1))))"
    using interpolateEarth_correct [OF h(1) f, of zero_vec zero_vec] by (auto simp: Let_def)
  have "k = 0"
  proof (rule ccontr)
    assume "k \<noteq> 0"
    then have "k = 1" using k(1) h(2) by (auto simp: newest_before_def)
    then show False using k(1) less by (auto simp: newest_before_def)
  qed
  with k h(2) show ?thesis by auto
qed

end
