(* ===== verification/Canvas.thy ===== *)
theory Canvas
  imports App_Safety
begin

text \<open>
  What a drawing function does, as the list of the calls it makes, in order: raylib's drawing calls and
  state changes under their own names, and the calls of package \<open>fonts\<close> (\<open>DrawText\<close> is \<open>fonts.Draw\<close>,
  \<open>MeasureText\<close> is \<open>fonts.Measure\<close>). \<open>gl_run\<close> is the machine behind them: which calls are allowed in which
  state, and the stack of matrices. Screen coordinates are plain integers, as in \<open>Palette\<close>.
\<close>

datatype call =
    DrawCircle int int f32 Color | DrawCircleLines int int f32 Color | DrawLine int int int int Color
  | DrawRectangle int int int int Color | DrawRectangleLines int int int int Color
  | DrawRectangleRec Rectangle Color | DrawRectangleLinesEx Rectangle f32 Color
  | DrawTexturePro Rectangle Rectangle Color | ClearBackground Color
  | DrawText string int int int Color | MeasureText string int
  | DrawLine3D Vector3 Vector3 Color | DrawCube Vector3 f32 f32 f32 Color | DrawCubeWires Vector3 f32 f32 f32 Color
  | DrawSphere Vector3 f32 Color | DrawSphereWires Vector3 f32 int int Color
  | DrawCylinder Vector3 f32 f32 f32 int Color | DrawCylinderEx Vector3 Vector3 f32 f32 int Color
  | DrawModel string Vector3 f32 Color | SetShaderValue string string "f32 list"
  | BeginDrawing | EndDrawing | BeginMode3D Camera3D | EndMode3D | BeginTextureMode | EndTextureMode
  | PushMatrix | PopMatrix | Translatef f32 f32 f32 | Rotatef f32 f32 f32 f32 | Scalef f32 f32 f32
  | BeginBlendMode | EndBlendMode | DisableDepthMask | EnableDepthMask
  | DisableBackfaceCulling | EnableBackfaceCulling | EnableWireMode | DisableWireMode

text \<open>\<open>int32(x)\<close> of a float, with the result of amd64 for what does not fit.\<close>

definition i32_of_f32 :: "f32 \<Rightarrow> int" where
  "i32_of_f32 a = (if is_fin (raw32 a) \<and> - (2 ^ 31) \<le> trunc_rat (val32 a) \<and> trunc_rat (val32 a) < 2 ^ 31
     then trunc_rat (val32 a) else - (2 ^ 31))"

text \<open>raylib's named colours, and \<open>rl.Fade\<close> of black, the only colour that is faded.\<close>

definition col_White :: Color where "col_White = NewColor 255 255 255 255"
definition col_Black :: Color where "col_Black = NewColor 0 0 0 255"
definition col_Blank :: Color where "col_Blank = NewColor 0 0 0 0"
definition col_RayWhite :: Color where "col_RayWhite = NewColor 245 245 245 255"
definition col_LightGray :: Color where "col_LightGray = NewColor 200 200 200 255"
definition col_Gray :: Color where "col_Gray = NewColor 130 130 130 255"
definition col_DarkGray :: Color where "col_DarkGray = NewColor 80 80 80 255"
definition col_Yellow :: Color where "col_Yellow = NewColor 253 249 0 255"
definition col_Red :: Color where "col_Red = NewColor 230 41 55 255"
definition col_SkyBlue :: Color where "col_SkyBlue = NewColor 102 191 255 255"
definition fade_black :: "f32 \<Rightarrow> Color" where
  "fade_black a = NewColor 0 0 0 (word_of_int (int_of_f32 (c32 255 * a)))"

text \<open>\<open>strconv.Itoa\<close>-like text of the hand-written \<open>itoa\<close>, which never panics on 64-bit integers (\<open>itoa_correct\<close>).\<close>

definition itoa_text :: "int \<Rightarrow> string" where
  "itoa_text v = (case itoa v of Some s \<Rightarrow> s | None \<Rightarrow> '''')"

section \<open>The state behind the calls\<close>

datatype xform = Move f32 f32 f32 | Turn f32 f32 f32 f32 | Grow f32 f32 f32

text \<open>The matrix is the list of the transformations applied so far, the newest last; \<open>gl_mats\<close> are the saved ones.\<close>

record gl =
  gl_drawing :: bool
  gl_target :: bool
  gl_3d :: bool
  gl_blend :: bool
  gl_depth :: bool
  gl_cull :: bool
  gl_wire :: bool
  gl_mat :: "xform list"
  gl_mats :: "xform list list"

definition gl_start :: gl where
  "gl_start = \<lparr>gl_drawing = False, gl_target = False, gl_3d = False, gl_blend = False, gl_depth = True, gl_cull = True,
     gl_wire = False, gl_mat = [], gl_mats = []\<rparr>"

definition require :: "bool \<Rightarrow> 'a \<Rightarrow> 'a option" where "require b x = (if b then Some x else None)"

definition on_flat :: "gl \<Rightarrow> bool" where "on_flat g \<longleftrightarrow> gl_drawing g \<and> \<not> gl_3d g"
definition in_space :: "gl \<Rightarrow> bool" where "in_space g \<longleftrightarrow> gl_drawing g \<and> gl_3d g"

text \<open>
  raylib documents no answer to a call in the wrong state; \<open>None\<close> says that a drawing breaks the rules:
  flat shapes are drawn outside the 3D mode, solids inside, modes are opened once and closed, a matrix is
  restored only after it was saved, and never more than 32 are.
\<close>

definition max_mats :: nat where "max_mats = 32"

fun gl_step :: "call \<Rightarrow> gl \<Rightarrow> gl option" where
  "gl_step BeginDrawing g = require (\<not> gl_drawing g) (g\<lparr>gl_drawing := True\<rparr>)"
| "gl_step EndDrawing g = require (on_flat g \<and> \<not> gl_target g) (g\<lparr>gl_drawing := False\<rparr>)"
| "gl_step BeginTextureMode g = require (on_flat g \<and> \<not> gl_target g) (g\<lparr>gl_target := True\<rparr>)"
| "gl_step EndTextureMode g = require (on_flat g \<and> gl_target g) (g\<lparr>gl_target := False\<rparr>)"
| "gl_step (BeginMode3D c) g = require (on_flat g \<and> gl_mats g = []) (g\<lparr>gl_3d := True\<rparr>)"
| "gl_step EndMode3D g = require (in_space g \<and> gl_mats g = [] \<and> \<not> gl_blend g) (g\<lparr>gl_3d := False\<rparr>)"
| "gl_step PushMatrix g = require (in_space g \<and> length (gl_mats g) < max_mats) (g\<lparr>gl_mats := gl_mat g # gl_mats g\<rparr>)"
| "gl_step PopMatrix g =
     require (in_space g \<and> gl_mats g \<noteq> []) (g\<lparr>gl_mat := hd (gl_mats g), gl_mats := tl (gl_mats g)\<rparr>)"
| "gl_step (Translatef x y z) g = require (in_space g \<and> gl_mats g \<noteq> []) (g\<lparr>gl_mat := gl_mat g @ [Move x y z]\<rparr>)"
| "gl_step (Rotatef a x y z) g = require (in_space g \<and> gl_mats g \<noteq> []) (g\<lparr>gl_mat := gl_mat g @ [Turn a x y z]\<rparr>)"
| "gl_step (Scalef x y z) g = require (in_space g \<and> gl_mats g \<noteq> []) (g\<lparr>gl_mat := gl_mat g @ [Grow x y z]\<rparr>)"
| "gl_step BeginBlendMode g = require (\<not> gl_blend g) (g\<lparr>gl_blend := True\<rparr>)"
| "gl_step EndBlendMode g = require (gl_blend g) (g\<lparr>gl_blend := False\<rparr>)"
| "gl_step DisableDepthMask g = require (gl_depth g) (g\<lparr>gl_depth := False\<rparr>)"
| "gl_step EnableDepthMask g = require (\<not> gl_depth g) (g\<lparr>gl_depth := True\<rparr>)"
| "gl_step DisableBackfaceCulling g = require (gl_cull g) (g\<lparr>gl_cull := False\<rparr>)"
| "gl_step EnableBackfaceCulling g = require (\<not> gl_cull g) (g\<lparr>gl_cull := True\<rparr>)"
| "gl_step EnableWireMode g = require (\<not> gl_wire g) (g\<lparr>gl_wire := True\<rparr>)"
| "gl_step DisableWireMode g = require (gl_wire g) (g\<lparr>gl_wire := False\<rparr>)"
| "gl_step (DrawLine3D a b c) g = require (in_space g) g"
| "gl_step (DrawCube p w h l c) g = require (in_space g) g"
| "gl_step (DrawCubeWires p w h l c) g = require (in_space g) g"
| "gl_step (DrawSphere p r c) g = require (in_space g) g"
| "gl_step (DrawSphereWires p r m n c) g = require (in_space g) g"
| "gl_step (DrawCylinder p r s h n c) g = require (in_space g) g"
| "gl_step (DrawCylinderEx a b r s n c) g = require (in_space g) g"
| "gl_step (DrawModel m p s c) g = require (in_space g) g"
| "gl_step (SetShaderValue s n v) g = Some g"
| "gl_step (MeasureText s n) g = Some g"
| "gl_step (DrawCircle x y r c) g = require (on_flat g) g"
| "gl_step (DrawCircleLines x y r c) g = require (on_flat g) g"
| "gl_step (DrawLine x y v w c) g = require (on_flat g) g"
| "gl_step (DrawRectangle x y w h c) g = require (on_flat g) g"
| "gl_step (DrawRectangleLines x y w h c) g = require (on_flat g) g"
| "gl_step (DrawRectangleRec r c) g = require (on_flat g) g"
| "gl_step (DrawRectangleLinesEx r t c) g = require (on_flat g) g"
| "gl_step (DrawTexturePro s d c) g = require (on_flat g) g"
| "gl_step (ClearBackground c) g = require (on_flat g) g"
| "gl_step (DrawText s x y n c) g = require (on_flat g) g"

fun gl_run :: "call list \<Rightarrow> gl \<Rightarrow> gl option" where
  "gl_run [] g = Some g"
| "gl_run (c # cs) g = Option.bind (gl_step c g) (gl_run cs)"

lemma gl_run_append: "gl_run (xs @ ys) g = Option.bind (gl_run xs g) (gl_run ys)"
proof (induction xs arbitrary: g)
  case (Cons c xs)
  then show ?case by (cases "gl_step c g") simp_all
qed simp

text \<open>A flat drawing: only calls that need the flat state and leave everything as it was.\<close>

fun flat_call :: "call \<Rightarrow> bool" where
  "flat_call (DrawCircle x y r c) = True" | "flat_call (DrawCircleLines x y r c) = True"
| "flat_call (DrawLine x y v w c) = True" | "flat_call (DrawRectangle x y w h c) = True"
| "flat_call (DrawRectangleLines x y w h c) = True" | "flat_call (DrawRectangleRec r c) = True"
| "flat_call (DrawRectangleLinesEx r t c) = True" | "flat_call (DrawTexturePro s d c) = True"
| "flat_call (ClearBackground c) = True" | "flat_call (DrawText s x y n c) = True"
| "flat_call (MeasureText s n) = True" | "flat_call _ = False"

fun solid_call :: "call \<Rightarrow> bool" where
  "solid_call (DrawLine3D a b c) = True" | "solid_call (DrawCube p w h l c) = True"
| "solid_call (DrawCubeWires p w h l c) = True" | "solid_call (DrawSphere p r c) = True"
| "solid_call (DrawSphereWires p r m n c) = True" | "solid_call (DrawCylinder p r s h n c) = True"
| "solid_call (DrawCylinderEx a b r s n c) = True" | "solid_call (DrawModel m p s c) = True"
| "solid_call (SetShaderValue s n v) = True" | "solid_call _ = False"

text \<open>The transformation under which each solid is drawn: its place in space.\<close>

fun placed :: "call list \<Rightarrow> xform list \<Rightarrow> xform list list \<Rightarrow> (xform list \<times> call) list" where
  "placed [] M S = []"
| "placed (c # cs) M S =
     (case c of
        PushMatrix \<Rightarrow> placed cs M (M # S)
      | PopMatrix \<Rightarrow> (case S of [] \<Rightarrow> placed cs M S | N # S' \<Rightarrow> placed cs N S')
      | Translatef x y z \<Rightarrow> placed cs (M @ [Move x y z]) S
      | Rotatef a x y z \<Rightarrow> placed cs (M @ [Turn a x y z]) S
      | Scalef x y z \<Rightarrow> placed cs (M @ [Grow x y z]) S
      | _ \<Rightarrow> if solid_call c then (M, c) # placed cs M S else placed cs M S)"

section \<open>Drawings that leave the state as they found it\<close>

definition flat :: "call list \<Rightarrow> bool" where "flat cs \<longleftrightarrow> list_all flat_call cs"

lemma flat_simps [simp]: "flat []" "flat (c # cs) \<longleftrightarrow> flat_call c \<and> flat cs" "flat (xs @ ys) \<longleftrightarrow> flat xs \<and> flat ys"
  by (simp_all add: flat_def)

lemma flat_concat [intro]: "(\<And>x. x \<in> set xs \<Longrightarrow> flat (f x)) \<Longrightarrow> flat (concat (map f xs))"
  by (induction xs) auto

lemma flat_maps [intro]: "(\<And>x. x \<in> set xs \<Longrightarrow> flat_call (f x)) \<Longrightarrow> flat (map f xs)"
  by (induction xs) auto

lemma flat_step: "flat_call c \<Longrightarrow> on_flat g \<Longrightarrow> gl_step c g = Some g"
  by (cases c) (simp_all add: require_def)

lemma flat_run: "flat cs \<Longrightarrow> on_flat g \<Longrightarrow> gl_run cs g = Some g"
  by (induction cs) (simp_all add: flat_step)

text \<open>
  \<open>solid n cs\<close>: in space, with no special mode on and room for \<open>n\<close> more matrices, \<open>cs\<close> keeps all of the
  state; \<open>inner n cs\<close>: after a matrix was saved, it keeps all but the current matrix.
\<close>

definition calm :: "gl \<Rightarrow> bool" where
  "calm g \<longleftrightarrow> \<not> gl_blend g \<and> gl_depth g \<and> gl_cull g \<and> \<not> gl_wire g"

definition has_room :: "nat \<Rightarrow> gl \<Rightarrow> bool" where
  "has_room n g \<longleftrightarrow> in_space g \<and> calm g \<and> length (gl_mats g) + n \<le> max_mats"

definition solid :: "nat \<Rightarrow> call list \<Rightarrow> bool" where
  "solid n cs \<longleftrightarrow> (\<forall>g. has_room n g \<longrightarrow> gl_run cs g = Some g)"

definition inner :: "nat \<Rightarrow> call list \<Rightarrow> bool" where
  "inner n cs \<longleftrightarrow> (\<forall>g. has_room n g \<and> gl_mats g \<noteq> [] \<longrightarrow> (\<exists>M. gl_run cs g = Some (g\<lparr>gl_mat := M\<rparr>)))"

named_theorems solid_intros

lemma solid_nil [solid_intros]: "solid n []"
  by (simp add: solid_def)

lemma solid_call_step: "solid_call c \<Longrightarrow> in_space g \<Longrightarrow> gl_step c g = Some g"
  by (cases c) (simp_all add: require_def)

lemma solid_cons [solid_intros]: "solid_call c \<Longrightarrow> solid n cs \<Longrightarrow> solid n (c # cs)"
  by (simp add: solid_def solid_call_step has_room_def)

lemma solid_append [solid_intros]: "solid n xs \<Longrightarrow> solid n ys \<Longrightarrow> solid n (xs @ ys)"
  by (simp add: solid_def gl_run_append)

lemma solid_concat [solid_intros]: "(\<And>x. x \<in> set xs \<Longrightarrow> solid n (f x)) \<Longrightarrow> solid n (concat (map f xs))"
  by (induction xs) (simp_all add: solid_nil solid_append)

lemma solid_if [solid_intros]: "(b \<Longrightarrow> solid n xs) \<Longrightarrow> (\<not> b \<Longrightarrow> solid n ys) \<Longrightarrow> solid n (if b then xs else ys)"
  by simp

lemma inner_solid: "solid n cs \<Longrightarrow> inner n cs"
proof -
  assume s: "solid n cs"
  have "gl_run cs g = Some (g\<lparr>gl_mat := gl_mat g\<rparr>)" if "has_room n g" for g
    using s that by (simp add: solid_def)
  then show "inner n cs" unfolding inner_def by blast
qed

lemma inner_nil [solid_intros]: "inner n []"
  by (rule inner_solid [OF solid_nil])

lemma has_room_mat [simp]: "has_room n (g\<lparr>gl_mat := M\<rparr>) \<longleftrightarrow> has_room n g"
  by (simp add: has_room_def in_space_def calm_def)

lemma inner_append [solid_intros]: "inner n xs \<Longrightarrow> inner n ys \<Longrightarrow> inner n (xs @ ys)"
  unfolding inner_def gl_run_append
proof (intro allI impI)
  fix g
  assume x: "\<forall>g. has_room n g \<and> gl_mats g \<noteq> [] \<longrightarrow> (\<exists>M. gl_run xs g = Some (g\<lparr>gl_mat := M\<rparr>))"
    and y: "\<forall>g. has_room n g \<and> gl_mats g \<noteq> [] \<longrightarrow> (\<exists>M. gl_run ys g = Some (g\<lparr>gl_mat := M\<rparr>))"
    and g: "has_room n g \<and> gl_mats g \<noteq> []"
  from x g obtain M where M: "gl_run xs g = Some (g\<lparr>gl_mat := M\<rparr>)" by blast
  have "has_room n (g\<lparr>gl_mat := M\<rparr>) \<and> gl_mats (g\<lparr>gl_mat := M\<rparr>) \<noteq> []" using g by simp
  with y obtain N where "gl_run ys (g\<lparr>gl_mat := M\<rparr>) = Some (g\<lparr>gl_mat := M\<rparr>\<lparr>gl_mat := N\<rparr>)" by blast
  with M show "\<exists>M. Option.bind (gl_run xs g) (gl_run ys) = Some (g\<lparr>gl_mat := M\<rparr>)" by auto
qed

lemma inner_step:
  assumes "inner n cs" "\<And>g. in_space g \<Longrightarrow> gl_mats g \<noteq> [] \<Longrightarrow> \<exists>M. gl_step c g = Some (g\<lparr>gl_mat := M\<rparr>)"
  shows "inner n (c # cs)"
  unfolding inner_def
proof (intro allI impI)
  fix g assume g: "has_room n g \<and> gl_mats g \<noteq> []"
  then obtain M where M: "gl_step c g = Some (g\<lparr>gl_mat := M\<rparr>)" using assms(2) by (auto simp: has_room_def)
  have "has_room n (g\<lparr>gl_mat := M\<rparr>) \<and> gl_mats (g\<lparr>gl_mat := M\<rparr>) \<noteq> []" using g by simp
  with assms(1) obtain N where "gl_run cs (g\<lparr>gl_mat := M\<rparr>) = Some (g\<lparr>gl_mat := M\<rparr>\<lparr>gl_mat := N\<rparr>)"
    unfolding inner_def by blast
  with M show "\<exists>M. gl_run (c # cs) g = Some (g\<lparr>gl_mat := M\<rparr>)" by auto
qed

lemma inner_move [solid_intros]: "inner n cs \<Longrightarrow> inner n (Translatef x y z # cs)"
  and inner_turn [solid_intros]: "inner n cs \<Longrightarrow> inner n (Rotatef a x y z # cs)"
  and inner_grow [solid_intros]: "inner n cs \<Longrightarrow> inner n (Scalef x y z # cs)"
  by (auto intro!: inner_step simp: require_def)

lemma inner_cons [solid_intros]: "solid_call c \<Longrightarrow> inner n cs \<Longrightarrow> inner n (c # cs)"
  using inner_append [OF inner_solid [OF solid_cons [OF _ solid_nil]], of c n cs] by simp

lemma inner_if [solid_intros]: "(b \<Longrightarrow> inner n xs) \<Longrightarrow> (\<not> b \<Longrightarrow> inner n ys) \<Longrightarrow> inner n (if b then xs else ys)"
  by simp

lemma inner_concat [solid_intros]: "(\<And>x. x \<in> set xs \<Longrightarrow> inner n (f x)) \<Longrightarrow> inner n (concat (map f xs))"
  by (induction xs) (simp_all add: inner_nil inner_append)

text \<open>\<open>saved cs\<close>: \<open>cs\<close> between \<open>PushMatrix\<close> and \<open>PopMatrix\<close>.\<close>

definition saved :: "call list \<Rightarrow> call list" where "saved cs = PushMatrix # cs @ [PopMatrix]"

lemma solid_saved [solid_intros]:
  assumes "inner n cs"
  shows "solid (Suc n) (saved cs)"
  unfolding solid_def saved_def
proof (intro allI impI)
  fix g assume g: "has_room (Suc n) g"
  define h where "h = g\<lparr>gl_mats := gl_mat g # gl_mats g\<rparr>"
  have "has_room n h \<and> gl_mats h \<noteq> []" using g by (simp add: h_def has_room_def in_space_def calm_def)
  then obtain M where "gl_run cs h = Some (h\<lparr>gl_mat := M\<rparr>)" using assms by (auto simp: inner_def)
  then show "gl_run (PushMatrix # cs @ [PopMatrix]) g = Some g"
    using g by (simp add: gl_run_append require_def h_def has_room_def in_space_def)
qed

lemma inner_saved [solid_intros]: "inner n cs \<Longrightarrow> inner (Suc n) (saved cs)"
  by (rule inner_solid [OF solid_saved])

lemma solid_weaken: "solid m cs \<Longrightarrow> m \<le> n \<Longrightarrow> solid n cs"
  by (auto simp: solid_def has_room_def)

lemma solid_run: "solid n cs \<Longrightarrow> in_space g \<Longrightarrow> calm g \<Longrightarrow> length (gl_mats g) + n \<le> max_mats \<Longrightarrow> gl_run cs g = Some g"
  by (simp add: solid_def has_room_def)

end
