(* ===== verification/Fonts.thy ===== *)
theory Fonts
  imports Canvas
begin

text \<open>
  Package \<open>fonts\<close>: text is rendered once into a texture, which a cache keeps by text and size, and is
  shown from the cache ever after. The font and its metrics (package \<open>gg\<close>) are the record \<open>face\<close>;
  a texture is modelled by its size and the colour in which the text was rendered into it.
\<close>

record face =
  fa_loaded :: bool
  fa_measure :: "string \<Rightarrow> int \<Rightarrow> nat \<times> nat"

record texture =
  tx_Width :: int
  tx_Height :: int
  tx_color :: Color

type_synonym fcache = "string \<times> int \<Rightarrow> texture option"

definition textPad :: int where "textPad = 8"

text \<open>
  \<open>getTexture\<close>: \<open>None\<close> is the texture without ID; \<open>fa_measure\<close> is \<open>MeasureString\<close> at twice the size, rounded
  towards zero. The key is the text and the size.
\<close>

definition getTexture :: "face \<Rightarrow> string \<Rightarrow> int \<Rightarrow> Color \<Rightarrow> fcache \<Rightarrow> (texture option \<times> int \<times> int) \<times> fcache" where
  "getTexture F text sz col c =
     (case c (text, sz) of
        Some t \<Rightarrow> ((Some t, tx_Width t - textPad * 2, tx_Height t - textPad * 2), c)
      | None \<Rightarrow>
          if \<not> fa_loaded F then ((None, 0, 0), c)
          else let wh = fa_measure F text sz;
                   tex = \<lparr>tx_Width = int (fst wh) + textPad * 2, tx_Height = int (snd wh) + textPad * 2, tx_color = col\<rparr>
               in ((Some tex, int (fst wh), int (snd wh)), c((text, sz) \<mapsto> tex)))"

text \<open>What appears on the screen: text, place, size, and the colour it has there.\<close>

datatype shown_text = Shown string int int int Color

text \<open>Textures are tinted with white, which leaves their colour; without a texture raylib's own font is used.\<close>

definition fonts_Draw :: "face \<Rightarrow> string \<Rightarrow> int \<Rightarrow> int \<Rightarrow> int \<Rightarrow> Color \<Rightarrow> fcache \<Rightarrow> shown_text list \<times> fcache" where
  "fonts_Draw F text x y sz col c =
     (if text = '''' then ([], c)
      else case getTexture F text sz col c of
             ((None, _), c') \<Rightarrow> ([Shown text x y sz col], c')
           | ((Some t, _), c') \<Rightarrow> ([Shown text x y sz (tx_color t)], c'))"

definition fonts_Measure :: "face \<Rightarrow> string \<Rightarrow> int \<Rightarrow> fcache \<Rightarrow> int \<times> fcache" where
  "fonts_Measure F text sz c =
     (if text = '''' then (0, c)
      else case getTexture F text sz col_White c of ((_, w, _), c') \<Rightarrow> (w sdiv 2, c'))"

definition DebugDump :: "face \<Rightarrow> fcache \<Rightarrow> fcache" where
  "DebugDump F c = fold (\<lambda>n c. snd (getTexture F ''Ag0'' n col_White c)) [16, 20, 32, 64] c"

definition fonts_itoa :: "int \<Rightarrow> string option" where
  "fonts_itoa n = itoa_buf 20 n"

text \<open>The texts of a drawing, one call after the other.\<close>

fun paint :: "face \<Rightarrow> call list \<Rightarrow> fcache \<Rightarrow> shown_text list \<times> fcache" where
  "paint F [] c = ([], c)"
| "paint F (DrawText s x y n col # cs) c =
     (let d = fonts_Draw F s x y n col c; r = paint F cs (snd d) in (fst d @ fst r, snd r))"
| "paint F (MeasureText s n # cs) c = paint F cs (snd (fonts_Measure F s n c))"
| "paint F (_ # cs) c = paint F cs c"

section \<open>How wide a text is\<close>

definition cache_ok :: "face \<Rightarrow> fcache \<Rightarrow> bool" where
  "cache_ok F c \<longleftrightarrow> (\<forall>s n t. c (s, n) = Some t \<longrightarrow> fa_loaded F \<and>
     tx_Width t = int (fst (fa_measure F s n)) + textPad * 2 \<and> tx_Height t = int (snd (fa_measure F s n)) + textPad * 2)"

lemma cache_ok_empty [simp]: "cache_ok F (\<lambda>_. None)"
  by (simp add: cache_ok_def)

lemma getTexture_ok: "cache_ok F c \<Longrightarrow> cache_ok F (snd (getTexture F s n col c))"
  by (auto simp: getTexture_def cache_ok_def Let_def split: option.splits if_splits)

lemma fonts_Draw_ok: "cache_ok F c \<Longrightarrow> cache_ok F (snd (fonts_Draw F s x y n col c))"
  using getTexture_ok [of F c s n col] by (auto simp: fonts_Draw_def split: prod.splits option.splits)

lemma fonts_Measure_ok: "cache_ok F c \<Longrightarrow> cache_ok F (snd (fonts_Measure F s n c))"
  using getTexture_ok [of F c s n col_White] by (auto simp: fonts_Measure_def split: prod.splits)

lemma paint_ok: "cache_ok F c \<Longrightarrow> cache_ok F (snd (paint F cs c))"
  by (induction F cs c rule: paint.induct) (simp_all add: Let_def fonts_Draw_ok fonts_Measure_ok)

text \<open>The width of a text in pixels, which is what \<open>Measure\<close> answers in every reachable state of the cache.\<close>

definition text_width :: "face \<Rightarrow> string \<Rightarrow> int \<Rightarrow> int" where
  "text_width F s n = (if s = '''' \<or> \<not> fa_loaded F then 0 else int (fst (fa_measure F s n)) sdiv 2)"

lemma Measure_width: "cache_ok F c \<Longrightarrow> fst (fonts_Measure F s n c) = text_width F s n"
  by (auto simp: fonts_Measure_def getTexture_def cache_ok_def text_width_def Let_def split: option.splits)

lemma text_width_nonneg: "0 \<le> text_width F s n"
  by (simp add: text_width_def signed_divide_int_def)

section \<open>Which colour a text has\<close>

text \<open>The calls that render a text of a size, and the colour in which they render it.\<close>

fun renders :: "string \<times> int \<Rightarrow> call \<Rightarrow> Color option" where
  "renders k (DrawText s x y n col) = (if (s, n) = k then Some col else None)"
| "renders k (MeasureText s n) = (if (s, n) = k then Some col_White else None)"
| "renders k _ = None"

definition first_of :: "'a option \<Rightarrow> 'a option \<Rightarrow> 'a option" where
  "first_of a b = (case a of None \<Rightarrow> b | Some _ \<Rightarrow> a)"

lemma first_of_simps [simp]: "first_of None b = b" "first_of (Some x) b = Some x" "first_of a None = a"
  and first_of_assoc: "first_of (first_of a b) c = first_of a (first_of b c)"
  by (simp_all add: first_of_def split: option.splits)

primrec first_render :: "string \<times> int \<Rightarrow> call list \<Rightarrow> Color option" where
  "first_render k [] = None"
| "first_render k (c # cs) = first_of (renders k c) (first_render k cs)"

definition colour_in :: "fcache \<Rightarrow> string \<times> int \<Rightarrow> Color option" where
  "colour_in c k = map_option tx_color (c k)"

lemma getTexture_colour:
  "fa_loaded F \<Longrightarrow> colour_in (snd (getTexture F s n col c)) k = first_of (colour_in c k) (renders k (DrawText s x y n col))"
  by (auto simp: getTexture_def Let_def colour_in_def first_of_def split: option.splits)

lemma fonts_Draw_colour:
  assumes "fa_loaded F" "fst k \<noteq> ''''"
  shows "colour_in (snd (fonts_Draw F s x y n col c)) k = first_of (colour_in c k) (renders k (DrawText s x y n col))"
  using getTexture_colour [OF assms(1), of s n col c k x y] assms(2)
  by (cases "s = ''''") (auto simp: fonts_Draw_def split: prod.splits option.splits)

lemma fonts_Measure_colour:
  assumes "fa_loaded F" "fst k \<noteq> ''''"
  shows "colour_in (snd (fonts_Measure F s n c)) k = first_of (colour_in c k) (renders k (MeasureText s n))"
  using getTexture_colour [OF assms(1), of s n col_White c k] assms(2)
  by (cases "s = ''''") (auto simp: fonts_Measure_def split: prod.splits option.splits)

lemma paint_colour:
  assumes "fa_loaded F" "fst k \<noteq> ''''"
  shows "colour_in (snd (paint F cs c)) k = first_of (colour_in c k) (first_render k cs)"
proof (induction cs arbitrary: c)
  case (Cons e cs)
  then show ?case
    by (cases e) (simp_all add: Let_def fonts_Draw_colour [OF assms] fonts_Measure_colour [OF assms] first_of_assoc
        del: renders.simps(1,2))
qed simp

lemma paint_append:
  "paint F (xs @ ys) c = (let a = paint F xs c; b = paint F ys (snd a) in (fst a @ fst b, snd b))"
  by (induction F xs c rule: paint.induct) (simp_all add: Let_def)

definition or_else :: "'a option \<Rightarrow> 'a \<Rightarrow> 'a" where "or_else a d = (case a of None \<Rightarrow> d | Some x \<Rightarrow> x)"

lemma or_else_simps [simp]: "or_else None d = d" "or_else (Some x) d = x"
  by (simp_all add: or_else_def)

lemma Draw_shows:
  "fa_loaded F \<Longrightarrow> s \<noteq> '''' \<Longrightarrow> fst (fonts_Draw F s x y n col c) = [Shown s x y n (or_else (colour_in c (s, n)) col)]"
  by (auto simp: fonts_Draw_def getTexture_def Let_def colour_in_def split: option.splits)

text \<open>
  C30. The colour of a text on the screen. Whatever was drawn and measured since the start, a text
  is shown in the colour of the first call that named the same text in the same size, where measuring counts
  as drawing in white: the colour that \<open>Draw\<close> is given now matters only when there was no such call, because
  the cache holds rendered text and its key has no colour. Where the font is missing, every text has the
  colour that was asked for. The width that \<open>Measure\<close> answers never depends on the history.
\<close>
theorem shown_colour:
  assumes "s \<noteq> ''''"
  shows "let c = snd (paint F history (\<lambda>_. None));
             asked = (if fa_loaded F then first_render (s, n) history else None)
    in fst (fonts_Draw F s x y n col c) = [Shown s x y n (or_else asked col)] \<and>
       fst (fonts_Measure F t m c) = text_width F t m"
proof -
  let ?c = "snd (paint F history (\<lambda>_. None))"
  have ok: "cache_ok F ?c" by (simp add: paint_ok)
  have "fst (fonts_Draw F s x y n col ?c) =
      [Shown s x y n (or_else (if fa_loaded F then first_render (s, n) history else None) col)]"
  proof (cases "fa_loaded F")
    case True
    with paint_colour [OF True, of "(s, n)" history "\<lambda>_. None"] Draw_shows [OF True assms] assms
    show ?thesis by (simp add: colour_in_def [of "\<lambda>_. None"])
  next
    case False
    then have "?c (s, n) = None" using ok by (cases "?c (s, n)") (auto simp: cache_ok_def)
    with False assms show ?thesis by (simp add: fonts_Draw_def getTexture_def)
  qed
  with Measure_width [OF ok] show ?thesis by (simp add: Let_def)
qed

definition mono_face :: face where
  "mono_face = \<lparr>fa_loaded = True, fa_measure = (\<lambda>s n. (length s * nat n, nat n))\<rparr>"

theorem shown_colour_witness:
  "fst (fonts_Draw mono_face ''Hint'' 1 2 18 col_Yellow (snd (paint mono_face [MeasureText ''Hint'' 18] (\<lambda>_. None)))) =
     [Shown ''Hint'' 1 2 18 col_White] \<and>
   fst (fonts_Draw mono_face ''Hint'' 1 2 18 col_Yellow (snd (paint mono_face [DrawText ''Hint'' 1 2 16 col_White] (\<lambda>_. None)))) =
     [Shown ''Hint'' 1 2 18 col_Yellow]"
  using shown_colour [of "''Hint''" mono_face "[MeasureText ''Hint'' 18]" 18 1 2 col_Yellow]
    shown_colour [of "''Hint''" mono_face "[DrawText ''Hint'' 1 2 16 col_White]" 18 1 2 col_Yellow]
  by (simp add: Let_def mono_face_def)

end
