(* ===== verification/Panels.thy ===== *)
theory Panels
  imports Fonts Go_Fmt
begin

text \<open>
  What the windows of the client draw: \<open>Button.Draw\<close>, \<open>TextField\<close> (\<open>ui.go\<close>) and \<open>Place\<close> (\<open>anchor.go\<close>), the chat
  (\<open>chat.go\<close>), the inventory, crafting, contract and factory windows, and the menu, pause and death screens
  (\<open>menu.go\<close>, \<open>dead.go\<close>). What their clicks change is in \<open>Windows\<close> and \<open>App_Run\<close>; the rectangles of the buttons
  are the ones tested there. \<open>F\<close> is the font, which says how wide a text is.
\<close>

section \<open>Widgets\<close>

definition rec_at :: "f32 \<Rightarrow> f32 \<Rightarrow> f32 \<Rightarrow> f32 \<Rightarrow> Rectangle" where
  "rec_at x y w h = \<lparr>r_X = x, r_Y = y, r_W = w, r_H = h\<rparr>"

definition Button_Draw :: "face \<Rightarrow> raymath \<Rightarrow> frame_in \<Rightarrow> Rectangle \<Rightarrow> string \<Rightarrow> call list" where
  "Button_Draw F R i b text =
     (let fill = (if Hovered R i b then NewColor 70 70 95 245 else NewColor 35 35 45 230);
          tw = text_width F text 20;
          tx = i32_of_f32 (r_X b) + (i32_of_f32 (r_W b) - tw) sdiv 2;
          ty = i32_of_f32 (r_Y b) + (i32_of_f32 (r_H b) - 20) sdiv 2
      in [DrawRectangleRec b fill, DrawRectangleLinesEx b 1 (NewColor 120 120 140 255),
          MeasureText text 20, DrawText text tx ty 20 col_White])"

definition TextField_Draw :: "Rectangle \<Rightarrow> string \<Rightarrow> bool \<Rightarrow> call list" where
  "TextField_Draw rect v focused =
     (let fill = (if focused then NewColor 35 35 50 255 else NewColor 25 25 35 255);
          border = (if focused then col_SkyBlue else col_Gray)
      in [DrawRectangleRec rect fill, DrawRectangleLinesEx rect 1 border,
          DrawText (if focused then v @ ''_'' else v) (i32_of_f32 (r_X rect) + 8) (i32_of_f32 (r_Y rect) + 6) 20 col_White])"

datatype Anchor = TopLeft | TopRight | BottomLeft | BottomRight | Center | CenterTop | CenterBottom

fun Place :: "int \<times> int \<Rightarrow> Anchor \<Rightarrow> int \<Rightarrow> int \<Rightarrow> int \<Rightarrow> int \<Rightarrow> int \<times> int" where
  "Place (sw, sh) TopLeft offX offY w h = (offX, offY)"
| "Place (sw, sh) TopRight offX offY w h = (sw - w - offX, offY)"
| "Place (sw, sh) BottomLeft offX offY w h = (offX, sh - h - offY)"
| "Place (sw, sh) BottomRight offX offY w h = (sw - w - offX, sh - h - offY)"
| "Place (sw, sh) Center offX offY w h = ((sw - w) sdiv 2, (sh - h) sdiv 2)"
| "Place (sw, sh) CenterTop offX offY w h = ((sw - w) sdiv 2, offY)"
| "Place (sw, sh) CenterBottom offX offY w h = ((sw - w) sdiv 2, sh - h - offY)"

text \<open>A text whose width decides its place: measured first, then drawn.\<close>

definition measured :: "face \<Rightarrow> string \<Rightarrow> int \<Rightarrow> (int \<Rightarrow> int \<times> int) \<Rightarrow> Color \<Rightarrow> call list" where
  "measured F s n place col =
     (case place (text_width F s n) of (x, y) \<Rightarrow> [MeasureText s n, DrawText s x y n col])"

definition chat_Draw :: "int \<Rightarrow> int \<Rightarrow> ChatBox \<Rightarrow> call list" where
  "chat_Draw screenW screenH c =
     (let baseY = screenH - 10 - 22; n = int (length (cb_Lines c));
          rect = rec_at (c32 8) (f32_of_int (baseY - 2)) (f32_of_int (screenW - 20 + 4)) (c32 22)
      in map (\<lambda>(k, m). DrawText (chat_From m @ '': '' @ chat_Text m) 10 (baseY - (n - 1 - int k) * 22 - 22) 18 col_RayWhite)
           (enumerate 0 (cb_Lines c)) @
         (if cb_Open c
          then [DrawRectangleRec rect (fade_black (c32 (6 / 10))), DrawRectangleLinesEx rect 1 col_Gray,
                DrawText (''> '' @ cb_Input c @ ''_'') 10 baseY 18 col_White]
          else []))"

section \<open>The inventory\<close>

definition slot_xy :: "int \<times> int \<Rightarrow> nat \<Rightarrow> int \<times> int" where
  "slot_xy scr k =
     ((fst scr - (16 * 38 + 10 * 2)) sdiv 2 + 10 + int (k mod 16) * 38,
      (snd scr - (16 * 38 + 10 * 2 + 30)) sdiv 2 + 30 + 10 + int (k div 16) * 38)"

definition draw_slot :: "raymath \<Rightarrow> frame_in \<Rightarrow> int gomap \<Rightarrow> UIState \<Rightarrow> nat \<Rightarrow> call list" where
  "draw_slot R i items u k =
     (let rect = slot_rect (i_screen i) k; cx = fst (slot_xy (i_screen i) k); cy = snd (slot_xy (i_screen i) k);
          typ = ui_invSlots u ! k
      in [DrawRectangleRec rect (if k div 16 = 0 then NewColor 60 50 30 255 else NewColor 32 32 44 255),
          DrawRectangleLinesEx rect 1 (NewColor 70 70 90 255)] @
         (if k div 16 = 0 \<and> int (k mod 16) = ui_selectedSlot u
          then [DrawRectangleLinesEx rect (c32 3) (NewColor 255 220 90 255)] else []) @
         (if ui_dragging u \<and> rm_PointRec R (i_mouse i) rect
          then [DrawRectangleLinesEx rect (c32 2) (NewColor 80 200 120 255)] else []) @
         (if typ = '''' then []
          else [DrawRectangleRec (rect_at (cx + 8) (cy + 8) (38 - 18) (38 - 18)) (itemColor typ),
                DrawText (fmt_d (mget_int items typ)) (cx + 3) (cy + 38 - 18) 14 col_White]))"

text \<open>The text of the slot under the mouse: the last one that the loop finds.\<close>

definition slot_label :: "int gomap \<Rightarrow> string \<Rightarrow> string" where
  "slot_label items typ = itemName typ @ ''  x'' @ fmt_d (mget_int items typ)"

definition hovered_name :: "raymath \<Rightarrow> frame_in \<Rightarrow> int gomap \<Rightarrow> UIState \<Rightarrow> string" where
  "hovered_name R i items u =
     fold (\<lambda>k s. if ui_invSlots u ! k \<noteq> '''' \<and> rm_PointRec R (i_mouse i) (slot_rect (i_screen i) k)
                 then slot_label items (ui_invSlots u ! k) else s) [0..<256] ''''"

definition drag_ghost :: "frame_in \<Rightarrow> UIState \<Rightarrow> call list" where
  "drag_ghost i u =
     (let typ = ui_invSlots u ! ui_dragFrom u
      in if ui_dragging u \<and> typ \<noteq> ''''
         then let gx = i32_of_f32 (fst (i_mouse i)) - 38 sdiv 2 + 2; gy = i32_of_f32 (snd (i_mouse i)) - 38 sdiv 2 + 2;
                  ghost = rect_at gx gy (38 - 4) (38 - 4)
              in [DrawRectangleRec ghost (itemColor typ\<lparr>col_A := 200\<rparr>), DrawRectangleLinesEx ghost (c32 2) col_White,
                  DrawText (itemName typ) (gx + 4) (gy + 38 - 20) 14 col_White]
         else [])"

definition tooltip :: "face \<Rightarrow> frame_in \<Rightarrow> string \<Rightarrow> call list" where
  "tooltip F i name =
     (let tw = text_width F name 16; mx = i32_of_f32 (fst (i_mouse i)); my = i32_of_f32 (snd (i_mouse i));
          tx = (if fst (i_screen i) < mx + 18 + tw + 20 then mx - tw - 22 else mx + 18);
          ty = (if snd (i_screen i) < my + 14 + 30 then snd (i_screen i) - 34 else my + 14);
          box = rect_at (tx - 6) (ty - 4) (tw + 12) 24
      in [MeasureText name 16, DrawRectangleRec box (NewColor 10 10 20 245),
          DrawRectangleLinesEx box 1 (NewColor 200 200 220 255), DrawText name tx ty 16 col_White])"

definition dimmed :: "int \<times> int \<Rightarrow> f32 \<Rightarrow> call" where
  "dimmed scr alpha = DrawRectangle 0 0 (fst scr) (snd scr) (fade_black alpha)"

definition framed :: "Rectangle \<Rightarrow> Color \<Rightarrow> Color \<Rightarrow> call list" where
  "framed r fill border = [DrawRectangleRec r fill, DrawRectangleLinesEx r (c32 2) border]"

text \<open>\<open>u\<close> is the state after the mouse of this frame was handled.\<close>

definition inventory_calls :: "face \<Rightarrow> raymath \<Rightarrow> frame_in \<Rightarrow> App \<Rightarrow> call list" where
  "inventory_calls F R i a =
     (let scr = i_screen i; u = a_ui (drawInventory R i a); items = get_Inventory (a_nc a);
          px = (fst scr - (16 * 38 + 10 * 2)) sdiv 2; py = (snd scr - (16 * 38 + 10 * 2 + 30)) sdiv 2;
          name = hovered_name R i items u
      in dimmed scr (c32 (6 / 10)) #
         framed (rect_at px py (16 * 38 + 10 * 2) (16 * 38 + 10 * 2 + 30)) (NewColor 20 20 30 245) (NewColor 120 120 140 255) @
         [DrawText ''Inventory   [I / Esc close]   LMB: drag item between slots'' (px + 10) (py + 6) 20 col_RayWhite] @
         concat (map (draw_slot R i items u) [0..<256]) @ drag_ghost i u @
         (if name \<noteq> '''' \<and> \<not> ui_dragging u then tooltip F i name else []))"

section \<open>Crafting, contract and factory\<close>

definition craft_icon :: "string \<Rightarrow> Color" where
  "craft_icon out = (if out = ''spear'' then NewColor 180 160 120 255
     else if out = ''torch'' then NewColor 240 180 80 255 else col_White)"

definition craft_needs :: "craftRecipe \<Rightarrow> int gomap \<Rightarrow> string" where
  "craft_needs rec items = concat (map (\<lambda>k. case map_of (cr_req rec) k of None \<Rightarrow> ''''
     | Some need \<Rightarrow> k @ '' '' @ fmt_d (mget_int items k) @ ''/'' @ fmt_d need @ ''   '') craft_items)"

definition draw_recipe :: "face \<Rightarrow> raymath \<Rightarrow> frame_in \<Rightarrow> int gomap \<Rightarrow> nat \<times> craftRecipe \<Rightarrow> call list" where
  "draw_recipe F R i items e =
     (let scr = i_screen i; rec = snd e; px = (fst scr - 660) sdiv 2;
          cardY = (snd scr - (120 + 90 * int (length craftRecipes))) sdiv 2 + 50 + int (fst e) * 90;
          card = rect_at (px + 12) cardY (660 - 24) (90 - 8)
      in [DrawRectangleRec card (NewColor 30 30 42 255), DrawRectangleLinesEx card 1 (NewColor 70 70 90 255),
          DrawRectangleRec (rect_at (px + 22) (cardY + 9) 56 56) (craft_icon (cr_out rec)),
          DrawText (cr_name rec) (px + 94) (cardY + 8) 22 col_RayWhite,
          DrawText (craft_needs rec items) (px + 94) (cardY + 42) 16
            (if canCraft rec items then NewColor 90 220 90 255 else NewColor 230 90 90 255)] @
         Button_Draw F R i (craft_button scr (fst e)) ''Craft'')"

definition craft_calls :: "face \<Rightarrow> raymath \<Rightarrow> frame_in \<Rightarrow> App \<Rightarrow> call list" where
  "craft_calls F R i a =
     (let scr = i_screen i; ph = 120 + 90 * int (length craftRecipes);
          px = (fst scr - 660) sdiv 2; py = (snd scr - ph) sdiv 2
      in dimmed scr (c32 (6 / 10)) # framed (rect_at px py 660 ph) (NewColor 20 20 30 245) (NewColor 120 120 140 255) @
         [DrawText ''Crafting   [C / Esc to close]'' (px + 14) (py + 10) 22 col_RayWhite] @
         concat (map (draw_recipe F R i (get_Inventory (a_nc a))) (enumerate 0 craftRecipes)))"

definition contract_calls :: "face \<Rightarrow> raymath \<Rightarrow> frame_in \<Rightarrow> call list" where
  "contract_calls F R i =
     (let scr = i_screen i; px = (fst scr - 520) sdiv 2; py = (snd scr - 300) sdiv 2
      in dimmed scr (c32 (55 / 100)) # framed (rect_at px py 520 300) (NewColor 40 40 50 245) (NewColor 240 130 175 255) @
         measured F ''HELPER'' 36 (\<lambda>tw. (px + (520 - tw) sdiv 2, py + 20)) (NewColor 240 130 175 255) @
         Button_Draw F R i (contract_button scr 100) ''Give 1 fruit -> brings 4 resources'' @
         Button_Draw F R i (contract_button scr 170) ''Give 10 spears -> guard me'')"

text \<open>The needs of a recipe of the factory are a Go map: their order on the button is that of \<open>range\<close>.\<close>

definition need_map :: "factoryRecipeUI \<Rightarrow> int gomap" where
  "need_map r = fold (\<lambda>e. mput (fst e) (snd e)) (fu_need r) mempty"

definition need_text :: "env \<Rightarrow> factoryRecipeUI \<Rightarrow> string" where
  "need_text E r = fst (fold (\<lambda>e acc. (fst acc @ (if snd acc then '''' else '', '') @ fst e @ '' x'' @ itoa_text (snd e), False))
     (range_entries (e_ord E) [''drawFactory'', fu_id r] (need_map r)) ('''', True))"

definition factory_label :: "env \<Rightarrow> factoryRecipeUI \<Rightarrow> string" where
  "factory_label E r = fu_name r @ ''  ['' @ need_text E r @ '']  E:'' @ itoa_text (fu_energy r)"

definition factory_calls :: "face \<Rightarrow> raymath \<Rightarrow> env \<Rightarrow> frame_in \<Rightarrow> call list" where
  "factory_calls F R E i =
     (let scr = i_screen i; ph = int (length factoryRecipeList) * 80 + 100;
          px = (fst scr - 560) sdiv 2; py = (snd scr - ph) sdiv 2
      in dimmed scr (c32 (6 / 10)) # framed (rect_at px py 560 ph) (NewColor 40 45 60 245) (NewColor 120 180 240 255) @
         measured F ''FACTORY'' 36 (\<lambda>tw. (px + (560 - tw) sdiv 2, py + 18)) (NewColor 150 200 255 255) @
         concat (map (\<lambda>e. Button_Draw F R i (factory_button scr (fst e)) (factory_label E (snd e))) (enumerate 0 factoryRecipeList)) @
         measured F ''Esc - close'' 16 (\<lambda>w. (px + (560 - w) sdiv 2, py + ph - 28)) col_Gray)"

section \<open>Menu, pause and death\<close>

definition PaletteNames :: "string list" where
  "PaletteNames =
    [(map char_of [208 :: nat, 154, 209, 128, 208, 176, 209, 129, 208, 189, 209, 139, 208, 185]),
     (map char_of [208 :: nat, 158, 209, 128, 208, 176, 208, 189, 208, 182, 208, 181, 208, 178, 209, 139, 208,
      185]),
     (map char_of [208 :: nat, 150, 209, 145, 208, 187, 209, 130, 209, 139, 208, 185]),
     (map char_of [208 :: nat, 151, 208, 181, 208, 187, 209, 145, 208, 189, 209, 139, 208, 185]),
     (map char_of [208 :: nat, 145, 208, 184, 209, 128, 209, 142, 208, 183, 208, 190, 208, 178, 209, 139, 208,
      185]),
     (map char_of [208 :: nat, 161, 208, 184, 208, 189, 208, 184, 208, 185]),
     (map char_of [208 :: nat, 164, 208, 184, 208, 190, 208, 187, 208, 181, 209, 130, 208, 190, 208, 178, 209, 139,
      208, 185]),
     (map char_of [208 :: nat, 160, 208, 190, 208, 183, 208, 190, 208, 178, 209, 139, 208, 185]),
     (map char_of [208 :: nat, 162, 209, 145, 208, 188, 208, 189, 208, 190, 45, 208, 186, 209, 128, 208, 176, 209,
      129, 208, 189, 209, 139, 208, 185]),
     (map char_of [208 :: nat, 162, 209, 145, 208, 188, 208, 189, 208, 190, 45, 208, 183, 208, 181, 208, 187, 209,
      145, 208, 189, 209, 139, 208, 185]),
     (map char_of [208 :: nat, 162, 209, 145, 208, 188, 208, 189, 208, 190, 45, 209, 129, 208, 184, 208, 189, 208,
      184, 208, 185]),
     (map char_of [208 :: nat, 154, 208, 190, 209, 128, 208, 184, 209, 135, 208, 189, 208, 181, 208, 178, 209, 139,
      208, 185]),
     (map char_of [208 :: nat, 145, 208, 181, 208, 187, 209, 139, 208, 185]),
     (map char_of [208 :: nat, 161, 208, 181, 209, 128, 209, 139, 208, 185]),
     (map char_of [208 :: nat, 162, 209, 145, 208, 188, 208, 189, 208, 190, 45, 209, 129, 208, 181, 209, 128, 209,
      139, 208, 185]),
     (map char_of [208 :: nat, 167, 209, 145, 209, 128, 208, 189, 209, 139, 208, 185])]"

text \<open>One cell of the picker; the colour chosen so far is threaded, as a click in a cell changes it.\<close>

definition draw_cell :: "int \<Rightarrow> int \<Rightarrow> f32 \<Rightarrow> f32 \<Rightarrow> bool \<Rightarrow> nat \<times> string \<Rightarrow> picker \<Rightarrow> call list" where
  "draw_cell gridX gridY mx my clicked e st =
     (case e of (k, hex) \<Rightarrow> case HexColor hex of
        None \<Rightarrow> []
      | Some c \<Rightarrow>
          let x = cell_x gridX k; y = cell_y gridY k
          in DrawRectangle x y 40 40 c #
             (if in_cell gridX gridY mx my k then [DrawRectangleLinesEx (rect_at x y 40 40) (c32 2) col_White] else []) @
             (if pk_color (pick_cell gridX gridY mx my clicked e st) = hex
              then [DrawRectangleLinesEx (rec_at (f32_of_int x - c32 2) (f32_of_int y - c32 2) (c32 40 + c32 4) (c32 40 + c32 4))
                      (c32 3) col_White,
                    DrawRectangleLinesEx (rec_at (f32_of_int x - c32 4) (f32_of_int y - c32 4) (c32 40 + c32 8) (c32 40 + c32 8))
                      1 col_Black]
              else []))"

fun draw_cells :: "int \<Rightarrow> int \<Rightarrow> f32 \<Rightarrow> f32 \<Rightarrow> bool \<Rightarrow> (nat \<times> string) list \<Rightarrow> picker \<Rightarrow> call list" where
  "draw_cells gridX gridY mx my clicked [] st = []"
| "draw_cells gridX gridY mx my clicked (e # es) st =
     draw_cell gridX gridY mx my clicked e st @
     draw_cells gridX gridY mx my clicked es (pick_cell gridX gridY mx my clicked e st)"

definition zero_color :: Color where "zero_color = NewColor 0 0 0 0"

definition picker_label :: "picker \<Rightarrow> string" where
  "picker_label p =
     (let name = (if 0 \<le> pk_selected p \<and> pk_selected p < int (length PaletteNames) then PaletteNames ! nat (pk_selected p) else '''')
      in if name \<noteq> '''' then name @ ''  '' @ pk_color p else pk_color p)"

definition picker_calls :: "int \<Rightarrow> int \<Rightarrow> f32 \<Rightarrow> f32 \<Rightarrow> bool \<Rightarrow> string \<Rightarrow> call list" where
  "picker_calls labelX labelY mx my clicked color =
     (let gridX = labelX; gridY = labelY + 26; gridW = 4 * (40 + 6) - 6; gridH = 4 * (40 + 6) - 6;
          p = drawColorPicker labelX labelY mx my clicked color; prevY = gridY + gridH + 14;
          pc = (case HexColor (pk_color p) of Some c \<Rightarrow> c | None \<Rightarrow> zero_color)
      in DrawText ''Color'' labelX labelY 18 col_LightGray #
         draw_cells gridX gridY mx my clicked (enumerate 0 palette_list) \<lparr>pk_color = color, pk_selected = - 1\<rparr> @
         [DrawRectangleLinesEx (rec_at (f32_of_int gridX - c32 3) (f32_of_int gridY - c32 3) (f32_of_int gridW + c32 6)
            (f32_of_int gridH + c32 6)) 1 col_Gray,
          DrawRectangle gridX prevY 32 32 pc, DrawRectangleLinesEx (rect_at gridX prevY 32 32) 1 col_White,
          DrawText (picker_label p) (gridX + 32 + 10) (prevY + 9) 16 col_LightGray])"

definition fullscreen_label :: "App \<Rightarrow> string" where
  "fullscreen_label a = (if a_fullscreen a then ''Fullscreen: On'' else ''Fullscreen: Off'')"

text \<open>
  The state changes between the widgets, by the clicks on the widgets before: \<open>a1\<close> and \<open>a2\<close> follow the two
  fields, \<open>a3\<close> the Connect button, \<open>a4\<close> and \<open>a5\<close> the other two.
\<close>

definition menu_calls :: "face \<Rightarrow> raymath \<Rightarrow> (cli_msg \<Rightarrow> bytes) \<Rightarrow> net_in \<Rightarrow> frame_in \<Rightarrow> App \<Rightarrow> call list" where
  "menu_calls F R m N i a =
     (let s = i_screen i; fx = (fst s - 400) sdiv 2;
          a1 = on_click R i (menu_rect s 202 34) (set_ui (\<lambda>u. u\<lparr>ui_menuFocus := 0\<rparr>)) a;
          a2 = on_click R i (menu_rect s 278 34) (set_ui (\<lambda>u. u\<lparr>ui_menuFocus := 1\<rparr>)) a1;
          a3 = on_click R i (menu_rect s 582 42) (startConnect R m N) (pick_color i a2);
          err = ui_menuErr (a_ui (drawMenu R m N i a))
      in measured F ''LODEEN'' 56 (\<lambda>tw. ((fst s - tw) sdiv 2, 60)) col_RayWhite @
         measured F ''federated cooperative multiplayer - pve'' 18 (\<lambda>w. ((fst s - w) sdiv 2, 130)) col_Gray @
         DrawText ''Nick'' fx 180 18 col_LightGray #
         TextField_Draw (menu_rect s 202 34) (ui_menuNick (a_ui a)) (ui_menuFocus (a_ui a) = 0) @
         DrawText ''Server'' fx 256 18 col_LightGray #
         TextField_Draw (menu_rect s 278 34) (ui_menuAddr (a_ui a1)) (ui_menuFocus (a_ui a1) = 1) @
         picker_calls fx 332 (fst (i_mouse i)) (snd (i_mouse i)) (i_lmbPressed i) (ui_menuColor (a_ui a2)) @
         Button_Draw F R i (menu_rect s 582 42) ''Connect'' @
         Button_Draw F R i (menu_rect s 634 42) (fullscreen_label a3) @
         Button_Draw F R i (menu_rect s 686 42) ''Quit'' @
         (if err \<noteq> '''' then [DrawText err fx 744 16 col_Red] else []) @
         measured F ''Tab - switch field   Enter - connect'' 14 (\<lambda>w. ((fst s - w) sdiv 2, snd s - 30)) col_DarkGray)"

definition pause_calls :: "face \<Rightarrow> raymath \<Rightarrow> frame_in \<Rightarrow> App \<Rightarrow> call list" where
  "pause_calls F R i a =
     (let s = i_screen i; px = f32_of_int (fst s) / c32 2 - c32 200; py = f32_of_int (snd s) / c32 2 - c32 180;
          a1 = on_click R i (pause_rect s 90) resume a
      in framed (rec_at px py (c32 400) (c32 360)) (NewColor 18 18 28 240) col_Gray @
         measured F ''Paused'' 36 (\<lambda>tw. (i32_of_f32 px + (400 - tw) sdiv 2, i32_of_f32 py + 20)) col_White @
         Button_Draw F R i (pause_rect s 90) ''Resume'' @
         Button_Draw F R i (pause_rect s 150) (fullscreen_label a1) @
         Button_Draw F R i (pause_rect s 210) ''Disconnect'' @
         Button_Draw F R i (pause_rect s 270) ''Quit'')"

definition dead_calls :: "face \<Rightarrow> raymath \<Rightarrow> frame_in \<Rightarrow> call list" where
  "dead_calls F R i =
     (let s = i_screen i
      in dimmed s (c32 (78 / 100)) #
         measured F ''YOUR CHARACTER DIED'' 72 (\<lambda>tw. ((fst s - tw) sdiv 2, snd s sdiv 3)) (NewColor 220 40 40 255) @
         Button_Draw F R i (dead_rect s 60) ''Respawn  [R]'' @ Button_Draw F R i (dead_rect s 130) ''Main Menu  [Esc]'')"

end
