(* ===== verification/Hud.thy ===== *)
theory Hud
  imports Panels
begin

text \<open>
  The head-up display: \<open>hud.go\<close>, \<open>hud_debug.go\<close> and \<open>hud_hotbar.go\<close>. \<open>rl.GetFPS\<close>, the start of the window and
  the cached frame rate, which only the display uses, are the record \<open>fps\<close>.
\<close>

record fps =
  fp_startAt :: gotime
  fp_lastAt :: gotime
  fp_cached :: int
  fp_GetFPS :: int

section \<open>The status panel\<close>

text \<open>The body that the player is attached to: name, position, radius, velocity.\<close>

definition status_body :: "App \<Rightarrow> FlightController \<Rightarrow> bool \<times> Vector3 \<times> Vector3" where
  "status_body a f = (if fc_AttachedBody f = ''sun'' then (True, SunPos, zero_vec)
     else (False, w_earthPos (a_world a), w_earthVel (a_world a)))"

record status =
  st_sun :: bool
  st_alt :: f32
  st_speed :: f32
  st_radial :: f32
  st_ground :: bool

definition status_of :: "env \<Rightarrow> App \<Rightarrow> FlightController \<Rightarrow> status" where
  "status_of E a f =
     (case status_body a f of (sun, pos, vel) \<Rightarrow>
        let rel = vsub (fc_Pos f) pos; d = vlen rel;
            surfaceR = (if sun then SunRadius else SurfaceRadius E rel);
            alt = d - surfaceR; rv = vsub (fc_Vel f) vel; up = vdiv rel d
        in \<lparr>st_sun = sun, st_alt = alt, st_speed = vlen rv,
            st_radial = v_X rv * v_X up + v_Y rv * v_Y up + v_Z rv * v_Z up,
            st_ground = alt \<le> PlayerHeight + c32 (1 / 2)\<rparr>)"

definition vertical_color :: "f32 \<Rightarrow> Color" where
  "vertical_color v = (if c32 (1 / 2) < v then NewColor 100 240 120 240
     else if v < c32 (- 1 / 2) then NewColor 240 120 120 240 else NewColor 200 200 220 220)"

definition status_calls :: "status \<Rightarrow> call list" where
  "status_calls s =
     [DrawRectangle 20 120 220 70 (NewColor 10 15 30 200), DrawRectangleLines 20 120 220 70 (NewColor 120 180 240 255),
      DrawText (if st_sun s then ''SUN'' else ''EARTH'') 30 130 16
        (if st_sun s then NewColor 240 180 60 255 else NewColor 100 180 240 255),
      DrawText (if st_ground s then ''ON GROUND'' else ''AIRBORNE'') 110 130 16
        (if st_ground s then NewColor 100 240 120 255 else NewColor 240 180 100 255),
      DrawText (''ALT '' @ fmt_f 1 (st_alt s) @ '' m'') 30 152 14 col_RayWhite,
      DrawText (''SPD '' @ fmt_f 1 (st_speed s) @ '' m/s'') 30 172 14 col_RayWhite] @
     (if st_ground s then []
      else [DrawText (''V/S '' @ fmt_plus_f 1 (st_radial s) @ '' m/s'') 130 172 14 (vertical_color (st_radial s))])"

definition drawMiniStatus :: "env \<Rightarrow> App \<Rightarrow> call list" where
  "drawMiniStatus E a = (case a_flight a of None \<Rightarrow> [] | Some f \<Rightarrow> status_calls (status_of E a f))"

section \<open>The debug overlay\<close>

definition fmt3 :: "nat \<Rightarrow> Vector3 \<Rightarrow> string" where
  "fmt3 p v = fmt_f p (v_X v) @ '' '' @ fmt_f p (v_Y v) @ '' '' @ fmt_f p (v_Z v)"

definition mode_text :: "FlightController \<Rightarrow> string" where
  "mode_text f = (if fc_Mode f = ModeCreative
     then ''CREATIVE'' @ (if fc_AttachedBody f \<noteq> '''' then ''  ATTACHED:'' @ fc_AttachedBody f else '''') else ''SURVIVAL'')"

definition debug_calls :: "env \<Rightarrow> int \<Rightarrow> App \<Rightarrow> FlightController \<Rightarrow> call list" where
  "debug_calls E x a f =
     (let col = NewColor 200 220 255 220; dim = NewColor 140 160 200 180;
          rel = vsub (fc_Pos f) (w_earthPos (a_world a)); d = vlen rel;
          minR = SurfaceRadius E rel + PlayerHeight; ground = (d \<le> minR + c32 (1 / 2))
      in [DrawText ''F3 DEBUG'' x 80 16 (NewColor 255 200 60 255),
          DrawText (''HELIO '' @ fmt3 1 (fc_Pos f)) x 102 14 col,
          DrawText (''GEO  '' @ fmt3 1 rel @ ''  |r|='' @ fmt_f 2 d) x 120 14 col,
          DrawText (''VEL  '' @ fmt_f 2 (vlen (fc_Vel f)) @ '' ('' @ fmt3 2 (fc_Vel f) @ '')'') x 138 14 col,
          DrawText ((if ground then ''ON GROUND'' else ''AIRBORNE'') @ ''  minR='' @ fmt_f 2 minR) x 156 14
            (if ground then NewColor 100 240 120 240 else NewColor 240 180 100 240),
          DrawText (mode_text f) x 174 14 dim,
          DrawText (''EARTH '' @ fmt3 1 (w_earthPos (a_world a))) x 192 14 dim,
          DrawText (''EVEL '' @ fmt3 2 (w_earthVel (a_world a))) x 210 14 dim])"

definition drawDebugOverlay :: "env \<Rightarrow> frame_in \<Rightarrow> App \<Rightarrow> call list" where
  "drawDebugOverlay E i a =
     (case a_flight a of
        None \<Rightarrow> []
      | Some f \<Rightarrow> if dg_showDebug (a_diag a) then debug_calls E (fst (i_screen i) - 340) a f else [])"

section \<open>The hotbar\<close>

definition hotbar_x :: "int \<times> int \<Rightarrow> int" where "hotbar_x scr = (fst scr - (16 * 44 + 6 * 2)) sdiv 2"
definition hotbar_y :: "int \<times> int \<Rightarrow> int" where "hotbar_y scr = snd scr - (44 + 6 * 2) - 20"

definition hotbar_slot :: "int \<times> int \<Rightarrow> int gomap \<Rightarrow> UIState \<Rightarrow> nat \<Rightarrow> call list" where
  "hotbar_slot scr items u k =
     (let cx = hotbar_x scr + 6 + int k * 44; cy = hotbar_y scr + 6; rect = rect_at cx cy (44 - 2) (44 - 2);
          typ = (if k < length (ui_invSlots u) then ui_invSlots u ! k else ''''); n = mget_int items typ
      in [DrawRectangleRec rect (NewColor 30 30 40 255), DrawRectangleLinesEx rect 1 (NewColor 70 70 90 255)] @
         (if int k = ui_selectedSlot u then [DrawRectangleLinesEx rect (c32 3) (NewColor 255 220 90 255)] else []) @
         (if typ = '''' then []
          else DrawRectangleRec (rect_at (cx + 9) (cy + 9) (44 - 20) (44 - 20)) (itemColor typ) #
               (if 0 < n then [DrawText (fmt_d n) (cx + 4) (cy + 44 - 20) 14 col_White] else [])))"

definition drawHotbar :: "frame_in \<Rightarrow> App \<Rightarrow> call list" where
  "drawHotbar i a =
     framed (rect_at (hotbar_x (i_screen i)) (hotbar_y (i_screen i)) (16 * 44 + 6 * 2) (44 + 6 * 2))
       (NewColor 15 15 25 200) (NewColor 120 120 140 255) @
     concat (map (hotbar_slot (i_screen i) (get_Inventory (a_nc a)) (a_ui a)) [0..<16])"

section \<open>The display\<close>

definition frame_hint :: string where
  "frame_hint = (map char_of [82 :: nat, 32, 226, 128, 148, 32, 208, 191, 208, 181, 209, 128, 208, 181, 208, 186, 208, 187,
      209, 142, 209, 135, 208, 184, 209, 130, 209, 140, 32, 209, 129, 208, 184, 209, 129, 209, 130, 208, 181,
      208, 188, 209, 131, 32, 208, 190, 209, 130, 209, 129, 209, 135, 209, 145, 209, 130, 208, 176])"

definition frame_label :: "FlightController \<Rightarrow> call list" where
  "frame_label f =
     (let lc = (if fc_AttachedBody f = ''earth'' then (''ATTACHED: EARTH'', NewColor 100 180 240 240)
                else if fc_AttachedBody f = ''sun'' then (''ATTACHED: SUN'', NewColor 240 180 60 240)
                else (''FREE'', NewColor 200 200 200 220))
      in [DrawText (''FRAME: '' @ fst lc) 30 210 16 (snd lc), DrawText frame_hint 30 232 13 (NewColor 140 160 200 200)])"

text \<open>The frame rate is read twice a second, and not in the first two seconds.\<close>

definition update_fps :: "gotime \<Rightarrow> fps \<Rightarrow> fps" where
  "update_fps now p =
     (if 500 * millisecond < time_sub now (fp_lastAt p)
      then p\<lparr>fp_cached := (if 2 * second < time_sub now (fp_startAt p) then fp_GetFPS p else 0), fp_lastAt := now\<rparr>
      else p)"

definition fps_calls :: "fps \<Rightarrow> call list" where
  "fps_calls p = (if 0 < fp_cached p then [DrawText (''FPS: '' @ fmt_d (fp_cached p)) 10 10 18 col_RayWhite] else [])"

definition clamp_hunger :: "f32 \<Rightarrow> f32" where
  "clamp_hunger h = (if h < 0 then 0 else if c32 100 < h then c32 100 else h)"

definition hunger_color :: "f32 \<Rightarrow> Color" where
  "hunger_color h = (if c32 60 < h then NewColor 90 200 90 240
     else if c32 25 < h then NewColor 230 180 60 240 else NewColor 210 70 70 240)"

definition hunger_fill :: "f32 \<Rightarrow> int" where
  "hunger_fill h = i32_of_f32 (c32 180 * h / c32 100)"

definition hunger_bar :: "f32 \<Rightarrow> call list" where
  "hunger_bar h0 =
     (let h = clamp_hunger h0; fill = hunger_fill h
      in DrawRectangle 10 36 180 14 (NewColor 40 40 40 220) #
         (if 0 < fill then [DrawRectangle 10 36 fill 14 (hunger_color h)] else []) @
         [DrawRectangleLines 10 36 180 14 (NewColor 120 120 130 255),
          DrawText (''Hunger: '' @ fmt_f 0 h) 198 36 16 col_RayWhite])"

definition hp_fill :: "int \<Rightarrow> int" where
  "hp_fill hp = (let w = c32 200 * f32_of_int hp / c32 100 in i32_of_f32 (if w < 0 then 0 else w))"

definition hp_bar :: "int \<Rightarrow> call list" where
  "hp_bar hp =
     [DrawRectangle 20 60 200 16 (NewColor 60 20 20 200), DrawRectangle 20 60 (hp_fill hp) 16 (NewColor 200 40 40 255),
      DrawRectangleLines 20 60 200 16 col_Black, DrawText (''HP: '' @ fmt_d hp) 228 60 16 col_RayWhite]"

definition placed_text :: "face \<Rightarrow> int \<times> int \<Rightarrow> Anchor \<Rightarrow> int \<Rightarrow> string \<Rightarrow> int \<Rightarrow> Color \<Rightarrow> call list" where
  "placed_text F scr anchor offY s n col = measured F s n (\<lambda>w. Place scr anchor 10 offY w n) col"

text \<open>The round trip in milliseconds, cut to tens.\<close>

definition rtt_text :: "duration \<Rightarrow> string" where
  "rtt_text d = ''RTT: '' @ fmt_d ((d sdiv millisecond) sdiv 10 * 10) @ '' ms''"

definition speed_calls :: "face \<Rightarrow> int \<times> int \<Rightarrow> FlightController \<Rightarrow> call list" where
  "speed_calls F scr f =
     placed_text F scr TopRight 54 (''Speed: '' @ fmt_f 0 (fc_Speed f)) 18 col_RayWhite @
     placed_text F scr TopRight 76
       (''Mode: '' @ (if fc_Mode f = ModeSurvival then ''Survival'' else ''Creative'') @ ''  [F1]'') 18 col_Yellow"

definition pickup_hint :: string where "pickup_hint = ''F - pick up resource   |   T - chat   |   Esc - pause''"
definition help_text :: string where "help_text = ''WASD - move - Space up - Shift down - Q/E roll - Mouse wheel slot/speed''"

definition survival_flight :: "App \<Rightarrow> bool" where
  "survival_flight a = (case a_flight a of None \<Rightarrow> False | Some f \<Rightarrow> fc_Mode f = ModeSurvival)"

text \<open>\<open>drawInventory\<close> and \<open>drawCraft\<close> handle the mouse while they draw, so what follows sees their effect.\<close>

definition hud_windows :: "face \<Rightarrow> raymath \<Rightarrow> (cli_msg \<Rightarrow> bytes) \<Rightarrow> frame_in \<Rightarrow> App \<Rightarrow> call list" where
  "hud_windows F R m i a =
     (let a1 = (if ui_showInventory (a_ui a) then drawInventory R i a else a)
      in (if ui_showInventory (a_ui a) then inventory_calls F R i a else []) @
         (if ui_showCraft (a_ui a1) then craft_calls F R i a1 else []))"

definition hud_calls ::
    "face \<Rightarrow> raymath \<Rightarrow> (cli_msg \<Rightarrow> bytes) \<Rightarrow> env \<Rightarrow> frame_in \<Rightarrow> fps \<Rightarrow> App \<Rightarrow> call list" where
  "hud_calls F R m E i p a =
     (let scr = i_screen i; nc = a_nc a
      in drawMiniStatus E a @
         (case a_flight a of None \<Rightarrow> [] | Some f \<Rightarrow> if fc_Mode f = ModeCreative then frame_label f else []) @
         fps_calls (update_fps (e_now E) p) @ hunger_bar (get_Hunger nc) @ hunger_bar (get_Hunger nc) @
         placed_text F scr TopRight 10 (rtt_text (get_RTT nc)) 18 col_RayWhite @
         placed_text F scr TopRight 32 (''Players: '' @ fmt_d (int (length (InterpolatedSnapshot E nc)))) 18 col_RayWhite @
         (case a_flight a of None \<Rightarrow> [] | Some f \<Rightarrow> speed_calls F scr f) @
         placed_text F scr BottomLeft 80 pickup_hint 18 col_Yellow @
         placed_text F scr BottomLeft 50 help_text 16 col_Gray @
         chat_Draw (fst scr) (snd scr - 30) (a_chat a) @ hud_windows F R m i a @
         (if survival_flight a then drawHotbar i (drawHUD R m i a) else []) @
         hp_bar (pl_hp (a_player a)) @ drawDebugOverlay E i a)"

end
