(* ===== verification/Navball.thy ===== *)
theory Navball
  imports Hud
begin

text \<open>
  The navigation ball and the panel of a piloted rocket (\<open>navball.go\<close>). The ball shows directions in the frame
  of the rocket: forward (its nose), right and true up. The log line of \<open>logNavBallDebug\<close> is left out.
\<close>

section \<open>The frame of the rocket\<close>

record navballFrame =
  nf_f :: Vector3
  nf_r :: Vector3
  nf_tu :: Vector3
  nf_w :: Vector3

record navBallLayout =
  nb_cx :: int
  nb_cy :: int
  nb_radius :: int

definition computeNavBallLayout :: "int \<times> int \<Rightarrow> navBallLayout" where
  "computeNavBallLayout scr = \<lparr>nb_cx = fst scr - 90 - 30, nb_cy = snd scr - 90 - 30, nb_radius = 90\<rparr>"

definition nav_cross :: "Vector3 \<Rightarrow> Vector3 \<Rightarrow> Vector3" where
  "nav_cross a b = vec (v_Y a * v_Z b - v_Z a * v_Y b) (v_Z a * v_X b - v_X a * v_Z b) (v_X a * v_Y b - v_Y a * v_X b)"

definition prock_nose :: "PRocket \<Rightarrow> Vector3" where "prock_nose r = vec (prock_DX r) (prock_DY r) (prock_DZ r)"

definition buildNavBallFrame :: "PRocket \<Rightarrow> navballFrame option" where
  "buildNavBallFrame r =
     (let f = prock_nose r; pLen = vlen (prock_pos r); w = vdiv (prock_pos r) pLen;
          r0 = nav_cross f w; rLen = vlen r0; rt = vdiv r0 rLen
      in if pLen < c32 (1 / 100) then None
         else if rLen < c32 (1 / 100) then None
         else Some \<lparr>nf_f = f, nf_r = rt, nf_tu = nav_cross rt f, nf_w = w\<rparr>)"

section \<open>The ball\<close>

definition drawNavBallBackground :: "navBallLayout \<Rightarrow> call list" where
  "drawNavBallBackground l =
     (let R = f32_of_int (nb_radius l); h = i32_of_f32 (R * c32 (9 / 10))
      in [DrawCircle (nb_cx l) (nb_cy l) R (NewColor 20 30 50 220),
          DrawCircleLines (nb_cx l) (nb_cy l) R (NewColor 120 180 240 255),
          DrawCircleLines (nb_cx l) (nb_cy l) (R * c32 (66 / 100)) (NewColor 80 100 140 180),
          DrawCircleLines (nb_cx l) (nb_cy l) (R * c32 (33 / 100)) (NewColor 80 100 140 180),
          DrawLine (nb_cx l - h) (nb_cy l) (nb_cx l + h) (nb_cy l) (NewColor 120 140 180 220)])"

definition nav_dot :: "Vector3 \<Rightarrow> Vector3 \<Rightarrow> f32" where
  "nav_dot v a = v_X v * v_X a + v_Y v * v_Y a + v_Z v * v_Z a"

text \<open>\<open>None\<close>: the direction lies behind the ball.\<close>

definition navProject :: "navBallLayout \<Rightarrow> navballFrame \<Rightarrow> Vector3 \<Rightarrow> (int \<times> int) option" where
  "navProject l f v =
     (if nav_dot v (nf_f f) < c32 (- 1 / 5) then None
      else Some (nb_cx l + i32_of_f32 (nav_dot v (nf_r f) * f32_of_int (nb_radius l)),
                 nb_cy l - i32_of_f32 (nav_dot v (nf_tu f) * f32_of_int (nb_radius l))))"

definition drawNavBallTarget :: "(Vector3 \<Rightarrow> (int \<times> int) option) \<Rightarrow> Vector3 \<Rightarrow> Color \<Rightarrow> string \<Rightarrow> call list" where
  "drawNavBallTarget project v col label =
     (let l = vlen v
      in if l < c32 (1 / 100) then []
         else case project (vdiv v l) of
                None \<Rightarrow> []
              | Some (px, py) \<Rightarrow>
                  [DrawCircleLines px py (c32 6) col, DrawCircleLines px py (c32 7) col] @
                  (if label \<noteq> '''' then [DrawText label (px + 8) (py - 8) 12 col] else []))"

definition vminus :: "Vector3 \<Rightarrow> Vector3" where "vminus v = vec (- v_X v) (- v_Y v) (- v_Z v)"

text \<open>The six directions, with the colour and the name of each.\<close>

definition nav_markers :: "PRocket \<Rightarrow> navballFrame \<Rightarrow> (Vector3 \<times> Color \<times> string) list" where
  "nav_markers r f =
     (let v = prock_vel r; n = nav_cross (prock_pos r) v; nl = vlen n
      in (if c32 (1 / 2) < vlen v
          then [(v, NewColor 80 220 100 255, ''PRO''), (vminus v, NewColor 230 140 40 255, ''RET'')] else []) @
         [(nf_w f, NewColor 230 200 60 255, ''RAD+''), (vminus (nf_w f), NewColor 180 100 220 255, ''RAD-'')] @
         (if c32 (1 / 10) < nl
          then [(vdiv n nl, NewColor 100 180 255 255, ''NRM''), (vdiv (vminus n) nl, NewColor 100 180 255 255, ''ANM'')] else []))"

definition drawNavBallMarkers :: "PRocket \<Rightarrow> navballFrame \<Rightarrow> (Vector3 \<Rightarrow> (int \<times> int) option) \<Rightarrow> call list" where
  "drawNavBallMarkers r f project = concat (map (\<lambda>(v, col, s). drawNavBallTarget project v col s) (nav_markers r f))"

definition autopilot_label :: "string \<Rightarrow> string \<times> Color" where
  "autopilot_label md =
     (if md = ''prograde'' then (''PROGRADE'', NewColor 80 220 100 255)
      else if md = ''retrograde'' then (''RETROGRADE'', NewColor 230 140 40 255)
      else if md = ''radial_out'' then (''RADIAL+'', NewColor 230 200 60 255)
      else if md = ''radial_in'' then (''RADIAL-'', NewColor 180 100 220 255)
      else if md = ''normal'' then (''NORMAL'', NewColor 100 180 255 255)
      else if md = ''antinormal'' then (''ANTINORMAL'', NewColor 100 180 255 255)
      else (''MANUAL'', col_LightGray))"

definition drawNavBallAutoPilotLabel :: "face \<Rightarrow> string \<Rightarrow> navBallLayout \<Rightarrow> call list" where
  "drawNavBallAutoPilotLabel F md l =
     (case autopilot_label md of (s, col) \<Rightarrow>
        measured F s 16 (\<lambda>w. (nb_cx l - w sdiv 2, nb_cy l + nb_radius l + 8)) col)"

definition drawNavBall :: "face \<Rightarrow> frame_in \<Rightarrow> RocketState \<Rightarrow> call list" where
  "drawNavBall F i s =
     (let r = rs_hudRocket s; l = computeNavBallLayout (i_screen i)
      in if prock_ID r = '''' then []
         else case buildNavBallFrame r of
                None \<Rightarrow> []
              | Some f \<Rightarrow>
                  drawNavBallBackground l @ [DrawCircle (nb_cx l) (nb_cy l) (c32 3) (NewColor 80 220 255 255)] @
                  drawNavBallMarkers r f (navProject l f) @ drawNavBallAutoPilotLabel F (rs_autoPilot s) l)"

section \<open>The panel of the rocket\<close>

definition rocket_escaping :: "PRocket \<Rightarrow> bool" where
  "rocket_escaping r \<longleftrightarrow> eq32 (prock_Apoapsis r) 0 \<and> 0 < prock_Altitude r \<and> c32 5 < prock_Speed r"

text \<open>Background, border and title: outside the reach of the Earth, in orbit, escaping, or none of these.\<close>

definition rocket_panel :: "PRocket \<Rightarrow> bool \<Rightarrow> bool \<Rightarrow> Color \<times> Color \<times> string" where
  "rocket_panel r escaping leftEarth =
     (if leftEarth then (NewColor 30 15 45 230, NewColor 200 120 240 255, ''HELIOCENTRIC ORBIT'')
      else if prock_InOrbit r then (NewColor 15 30 15 230, NewColor 80 220 100 255, ''ORBIT ACHIEVED'')
      else if escaping then (NewColor 40 15 15 230, NewColor 220 60 60 255, ''ESCAPE TRAJECTORY'')
      else (NewColor 10 15 30 220, NewColor 120 180 240 255, ''ROCKET''))"

definition drawRocketHUDPanel :: "int \<Rightarrow> int \<Rightarrow> int \<Rightarrow> int \<Rightarrow> PRocket \<Rightarrow> bool \<Rightarrow> bool \<Rightarrow> call list" where
  "drawRocketHUDPanel px py w h r escaping leftEarth =
     (case rocket_panel r escaping leftEarth of (bg, border, title) \<Rightarrow>
        framed (rect_at px py w h) bg border @ [DrawText title (px + 12) (py + 8) 20 border])"

definition rocketVelocityLine :: "PRocket \<Rightarrow> string" where
  "rocketVelocityLine r = ''VEL: '' @ itoa_text (int_of_f32 (prock_Speed r)) @ '' m/s'' @
     (if 0 < prock_TargetVelocity r then ''  (orbit: '' @ itoa_text (int_of_f32 (prock_TargetVelocity r)) @ '')'' else '''')"

definition rocketVelocityColor :: "PRocket \<Rightarrow> Color" where
  "rocketVelocityColor r =
     (let ratio = prock_Speed r / prock_TargetVelocity r
      in if prock_TargetVelocity r \<le> 0 then col_RayWhite
         else if c32 (85 / 100) \<le> ratio \<and> ratio \<le> c32 (115 / 100) then NewColor 80 220 100 255
         else if c32 (1 / 2) \<le> ratio \<and> ratio \<le> c32 (3 / 2) then NewColor 230 200 60 255
         else NewColor 220 60 60 255)"

definition rocketPeriapsisColor :: "PRocket \<Rightarrow> Color" where
  "rocketPeriapsisColor r = (if c32 60 < prock_Periapsis r then NewColor 80 220 100 255
     else if 0 < prock_Periapsis r then NewColor 230 200 60 255 else NewColor 220 60 60 255)"

definition metres :: "f32 \<Rightarrow> string" where "metres x = itoa_text (int_of_f32 x) @ '' m''"

definition drawRocketHUDTelemetry :: "int \<Rightarrow> int \<Rightarrow> PRocket \<Rightarrow> call list" where
  "drawRocketHUDTelemetry px py r =
     [DrawText (''FUEL: '' @ itoa_text (prock_Fuel r) @ '' / '' @ itoa_text (prock_MaxFuel r)) (px + 12) (py + 40) 16 col_RayWhite,
      DrawText (''ORBIT: '' @ (if prock_PrimaryBody r = ''sun'' then ''SUN'' else ''EARTH'')) (px + 162) (py + 40) 16
        (if prock_PrimaryBody r = ''sun'' then NewColor 240 180 60 255 else NewColor 100 180 240 255),
      DrawText (''ALT: '' @ metres (prock_Altitude r)) (px + 12) (py + 60) 16 col_RayWhite,
      DrawText (rocketVelocityLine r) (px + 12) (py + 80) 16 (rocketVelocityColor r),
      DrawText (''APO: '' @ metres (prock_Apoapsis r)) (px + 12) (py + 100) 16
        (if 0 < prock_Apoapsis r then col_RayWhite else col_LightGray),
      DrawText (''PER: '' @ metres (prock_Periapsis r)) (px + 152) (py + 100) 16 (rocketPeriapsisColor r)]"

definition too_fast_hint :: string where
  "too_fast_hint = ''TOO FAST '' @ map char_of [226 :: nat, 128, 148] @ '' turn sideways, release Space''"

definition drawRocketHUDHints :: "int \<Rightarrow> int \<Rightarrow> int \<Rightarrow> bool \<Rightarrow> call list" where
  "drawRocketHUDHints px py panelH escaping =
     [DrawText ''Auto: G=prograde  H=retro  J=radial+  K=radial-  N=normal  B=anti  X=off'' (px + 12) (py + panelH - 40) 11 col_Gray,
      DrawText (if escaping then too_fast_hint else ''WASD nose | Space thrust | Ctrl retro | M map | E exit'')
        (px + 12) (py + panelH - 24) 12 col_Gray]"

definition drawRocketHUD :: "frame_in \<Rightarrow> App \<Rightarrow> call list" where
  "drawRocketHUD i a =
     (let r = rs_hudRocket (a_rocket a); px = fst (i_screen i) - 360 - 20; escaping = rocket_escaping r
      in if pl_rocketID (a_player a) = '''' then []
         else if prock_ID r \<noteq> pl_rocketID (a_player a) then []
         else drawRocketHUDPanel px 20 360 200 r escaping (prock_PrimaryBody r = ''sun'') @
              drawRocketHUDTelemetry px 20 r @ drawRocketHUDHints px 20 200 escaping)"

end
