(* ===== verification/Orbit_Draw.thy ===== *)
theory Orbit_Draw
  imports Navball
begin

text \<open>
  What the orbital map draws: its scene (\<open>orbitmap_3d.go\<close>), the marks of the bodies on the screen
  (\<open>orbitmap_overlay.go\<close>), its texts (\<open>orbitmap_hud.go\<close>) and the whole of it (\<open>orbitmap.go\<close>). What it computes and
  keeps is in \<open>Orbit_Map\<close>.
\<close>

section \<open>The scene\<close>

definition pi32 :: f32 where "pi32 = c32 pi_rat"

text \<open>The lines \<open>-half\<close> to \<open>half\<close> of a grid around a body, in both directions.\<close>

definition orbit_grid :: "Vector3 \<Rightarrow> f32 \<Rightarrow> int \<Rightarrow> Color \<Rightarrow> call list" where
  "orbit_grid c gridStep half col =
     (let ext = f32_of_int half * gridStep
      in concat (map (\<lambda>i. let off = f32_of_int i * gridStep in
           [DrawLine3D (vec (v_X c + off) 0 (v_Z c - ext)) (vec (v_X c + off) 0 (v_Z c + ext)) col,
            DrawLine3D (vec (v_X c - ext) 0 (v_Z c + off)) (vec (v_X c + ext) 0 (v_Z c + off)) col]) [- half..half]))"

definition drawOrbitGrids :: "Vector3 \<Rightarrow> call list" where
  "drawOrbitGrids star2H =
     orbit_grid star2H (c32 500) (int_of_f32 (Planet2OrbitRadius * c32 2 / c32 500) + 2) (NewColor 80 50 30 100) @
     orbit_grid SunPos (c32 1000) (int_of_f32 (SunDistance * c32 2 / c32 1000) + 2) (NewColor 40 60 90 100)"

definition circle_angle :: "int \<Rightarrow> int \<Rightarrow> f32" where
  "circle_angle i steps = f32_of_int i * c32 2 * pi32 / f32_of_int steps"

definition circle_point :: "env \<Rightarrow> Vector3 \<Rightarrow> f32 \<Rightarrow> int \<Rightarrow> f32 \<Rightarrow> int \<Rightarrow> Vector3" where
  "circle_point E c radius steps y i =
     (let a = f64_of (circle_angle i steps)
      in vec (v_X c + radius * f32_of (m_cos E a)) y (v_Z c + radius * f32_of (m_sin E a)))"

definition drawOrbitCircle :: "env \<Rightarrow> Vector3 \<Rightarrow> f32 \<Rightarrow> Color \<Rightarrow> bool \<Rightarrow> call list" where
  "drawOrbitCircle E c radius col double =
     (let steps = (if double then 96 * 2 else 96)
      in concat (map (\<lambda>i. DrawLine3D (circle_point E c radius steps 0 i) (circle_point E c radius steps 0 (i + 1)) col #
           (if double
            then [DrawLine3D (circle_point E c radius steps (c32 (1 / 2)) i) (circle_point E c radius steps (c32 (1 / 2)) (i + 1)) col]
            else [])) [0..steps - 1]))"

definition drawOrbitBodies :: "helio \<Rightarrow> call list" where
  "drawOrbitBodies h =
     [DrawSphere (h_earth h) PlanetRadius (NewColor 50 80 130 255),
      DrawSphereWires (h_earth h) PlanetRadius 16 16 (NewColor 80 120 180 200),
      DrawSphereWires (h_earth h) (PlanetRadius + c32 50) 16 16 (NewColor 80 100 140 100),
      DrawSphere (h_sun h) SunRadius (NewColor 255 220 100 255),
      DrawSphereWires (h_sun h) SunRadius 16 16 (NewColor 255 180 60 220),
      DrawSphere (h_star2 h) Star2Radius (NewColor 255 140 60 255),
      DrawSphereWires (h_star2 h) Star2Radius 16 16 (NewColor 200 80 30 220),
      DrawSphere (h_planet2 h) Planet2Radius (NewColor 80 180 200 255),
      DrawSphereWires (h_planet2 h) Planet2Radius 16 16 (NewColor 40 120 160 220)]"

definition between :: "Vector3 \<Rightarrow> Vector3 \<Rightarrow> f32 \<Rightarrow> Vector3" where
  "between p q t = vec (v_X p + (v_X q - v_X p) * t) (v_Y p + (v_Y q - v_Y p) * t) (v_Z p + (v_Z q - v_Z p) * t)"

definition drawOrbitSunEarthLine :: "Vector3 \<Rightarrow> Vector3 \<Rightarrow> call list" where
  "drawOrbitSunEarthLine sun earth =
     map (\<lambda>i. let t0 = f32_of_int i / c32 48; t1 = t0 + c32 (1 / 2 / 48); t1' = (if 1 < t1 then 1 else t1)
              in DrawLine3D (between sun earth t0) (between sun earth t1') (NewColor 180 180 100 100)) [0..47]"

definition drawOrbitAxes :: "call list" where
  "drawOrbitAxes =
     (let r = PlanetRadius * c32 2
      in [DrawLine3D zero_vec (vec r 0 0) (NewColor 120 50 50 180), DrawLine3D zero_vec (vec 0 r 0) (NewColor 50 120 50 180),
          DrawLine3D zero_vec (vec 0 0 r) (NewColor 50 50 120 180)])"

fun polyline :: "Color \<Rightarrow> Vector3 list \<Rightarrow> call list" where
  "polyline col (p # q # ps) = DrawLine3D p q col # polyline col (q # ps)"
| "polyline col _ = []"

definition drawOrbitTrajectory_calls :: "App \<Rightarrow> PRocket \<Rightarrow> call list" where
  "drawOrbitTrajectory_calls a r =
     (case drawOrbitTrajectory a r of
        None \<Rightarrow> []
      | Some (future, past) \<Rightarrow>
          polyline (NewColor 230 200 60 220) future @
          (if 2 \<le> length future
           then [DrawSphere (last future) (c32 6) (NewColor 230 200 60 220), DrawSphereWires (last future) (c32 6) 8 8 col_White]
           else []) @
          polyline (NewColor 70 130 220 200) past)"

definition drawOrbitRocket3D :: "PRocket \<Rightarrow> Vector3 \<Rightarrow> Vector3 \<Rightarrow> call list" where
  "drawOrbitRocket3D r rocketH earthVel =
     (let hv = vsum (prock_vel r) earthVel; l = vlen hv;
          vEnd = vec (v_X rocketH + v_X hv / l * c32 30) (v_Y rocketH + v_Y hv / l * c32 30) (v_Z rocketH + v_Z hv / l * c32 30);
          upEnd = vec (v_X rocketH + prock_DX r * c32 15) (v_Y rocketH + prock_DY r * c32 15) (v_Z rocketH + prock_DZ r * c32 15)
      in [DrawSphere rocketH (c32 4) (NewColor 100 255 100 255), DrawSphereWires rocketH (c32 4) 8 8 col_White] @
         (if c32 (1 / 10) < l then [DrawLine3D rocketH vEnd (NewColor 255 80 80 255)] else []) @
         [DrawLine3D rocketH upEnd (NewColor 80 200 255 255)])"

definition drawOrbitPlayers :: "env \<Rightarrow> App \<Rightarrow> call list" where
  "drawOrbitPlayers E a =
     concat (map (\<lambda>p. let ph = vsum (vec (ps_X p) (ps_Y p) (ps_Z p)) (w_earthPos (a_world a)) in
        [DrawSphere ph (c32 3) (NewColor 255 220 80 255), DrawSphereWires ph (c32 3) 6 6 (NewColor 120 80 0 255)])
       (InterpolatedSnapshot E (a_nc a)))"

definition drawOrbit3DScene :: "env \<Rightarrow> App \<Rightarrow> PRocket \<Rightarrow> bool \<Rightarrow> helio \<Rightarrow> call list" where
  "drawOrbit3DScene E a r haveRocket h =
     drawOrbitGrids (h_star2 h) @
     drawOrbitCircle E (h_sun h) SunDistance (NewColor 80 200 140 220) True @
     drawOrbitCircle E (h_star2 h) Planet2OrbitRadius (NewColor 255 140 60 180) True @
     drawOrbitCircle E (h_earth h) SOIEarth (NewColor 120 180 240 120) False @
     drawOrbitCircle E (h_planet2 h) SOIPlanet2 (NewColor 120 200 220 120) False @
     drawOrbitBodies h @ drawOrbitSunEarthLine (h_sun h) (h_earth h) @ drawOrbitAxes @
     (if haveRocket then drawOrbitTrajectory_calls a r @ drawOrbitRocket3D r (h_rocket h) (w_earthVel (a_world a)) else []) @
     drawOrbitPlayers E a"

section \<open>The marks on the screen\<close>

definition ring :: "int \<times> int \<Rightarrow> f32 \<Rightarrow> Color \<Rightarrow> call" where
  "ring c r col = DrawCircleLines (fst c) (snd c) r col"

definition disc :: "int \<times> int \<Rightarrow> f32 \<Rightarrow> Color \<Rightarrow> call" where
  "disc c r col = DrawCircle (fst c) (snd c) r col"

definition label_at :: "int \<times> int \<Rightarrow> int \<Rightarrow> int \<Rightarrow> string \<Rightarrow> int \<Rightarrow> Color \<Rightarrow> call" where
  "label_at c dx dy s n col = DrawText s (fst c + dx) (snd c + dy) n col"

definition on_pixel :: "f32 \<times> f32 \<Rightarrow> int \<times> int" where
  "on_pixel p = (i32_of_f32 (fst p), i32_of_f32 (snd p))"

text \<open>The mark of a body is drawn where its point is seen; \<open>needFront\<close>: only if it is in front of the camera.\<close>

definition mark_at ::
    "raymath \<Rightarrow> to_screen \<Rightarrow> frame_in \<Rightarrow> Camera3D \<Rightarrow> Vector3 \<Rightarrow> bool \<Rightarrow> f32 \<Rightarrow> Vector3 \<Rightarrow> (int \<times> int \<Rightarrow> call list) \<Rightarrow> call list" where
  "mark_at R gw i cam fwd needFront margin p f =
     (if needFront \<and> \<not> inFront R cam p fwd then []
      else if \<not> onScreen (gw p cam) (i_screen i) margin then [] else f (on_pixel (gw p cam)))"

definition sun_mark :: "int \<times> int \<Rightarrow> call list" where
  "sun_mark c = [disc c (c32 16) (NewColor 255 220 100 255), ring c (c32 16) (NewColor 255 180 60 255),
     ring c (c32 22) (NewColor 255 220 100 140), ring c (c32 28) (NewColor 255 220 100 80),
     label_at c 20 (- 10) ''SUN'' 16 (NewColor 255 220 100 255)]"

definition star2_mark :: "int \<times> int \<Rightarrow> call list" where
  "star2_mark c = [disc c (c32 14) (NewColor 255 140 60 255), ring c (c32 14) (NewColor 200 80 30 255),
     ring c (c32 20) (NewColor 255 140 60 140), ring c (c32 26) (NewColor 255 140 60 80),
     label_at c 18 (- 10) ''STAR2'' 16 (NewColor 255 140 60 255)]"

definition planet2_mark :: "int \<times> int \<Rightarrow> call list" where
  "planet2_mark c = [disc c (c32 8) (NewColor 80 180 200 255), ring c (c32 8) (NewColor 40 120 160 255),
     ring c (c32 12) (NewColor 80 180 200 140), label_at c 12 (- 8) ''PLANET2'' 14 (NewColor 120 200 220 255)]"

definition rocket_mark :: "int \<times> int \<Rightarrow> call list" where
  "rocket_mark c = [disc c (c32 6) (NewColor 80 220 100 255), ring c (c32 6) (NewColor 20 80 20 255),
     ring c (c32 10) (NewColor 80 220 100 200), ring c (c32 14) (NewColor 80 220 100 100)]"

text \<open>A length at a distance, in pixels, for a view of 60 degrees.\<close>

definition projected :: "f32 \<Rightarrow> f32 \<Rightarrow> f32 \<Rightarrow> int \<Rightarrow> f32" where
  "projected len scale d sh = (len / scale) / d * (f32_of_int sh / c32 2) / c32 (5773 / 10000)"

definition earth_mark :: "int \<times> int \<Rightarrow> f32 \<Rightarrow> f32 \<Rightarrow> int \<times> int \<Rightarrow> call list" where
  "earth_mark scr scale d0 c =
     (let d = (if d0 < 1 then 1 else d0);
          r0 = projected PlanetRadius scale d (snd scr);
          r1 = (if r0 < c32 5 then c32 5 else r0); r = (if c32 220 < r1 then c32 220 else r1);
          soiR = projected SOIEarth scale d (snd scr);
          lx = fst c + i32_of_f32 r + 6; lx' = (if fst scr - 60 < lx then fst c - i32_of_f32 r - 60 else lx)
      in (if r + c32 4 < soiR \<and> soiR < c32 3000 then [ring c soiR (NewColor 120 180 240 90)] else []) @
         [disc c r (NewColor 60 130 200 255), ring c r (NewColor 140 200 255 255), ring c (r + c32 3) (NewColor 80 140 200 160),
          DrawText ''EARTH'' lx' (snd c - 8) 14 (NewColor 140 200 255 255)])"

definition overlay_calls ::
    "raymath \<Rightarrow> to_screen \<Rightarrow> frame_in \<Rightarrow> Camera3D \<Rightarrow> Vector3 \<Rightarrow> f32 \<Rightarrow> bool \<Rightarrow> PRocket \<Rightarrow> WorldState \<Rightarrow> call list" where
  "overlay_calls R gw i cam fwd scale haveRocket r w =
     (let e = vdiv (w_earthPos w) scale
      in mark_at R gw i cam fwd True (c32 200) (vdiv SunPos scale) sun_mark @
         mark_at R gw i cam fwd False (c32 200) (vdiv Star2Pos scale) star2_mark @
         mark_at R gw i cam fwd False (c32 200) (vdiv (w_planet2Pos w) scale) planet2_mark @
         mark_at R gw i cam fwd True (c32 800) e (earth_mark (i_screen i) scale (rm_Distance R (cam_Position cam) e)) @
         (if haveRocket
          then mark_at R gw i cam fwd True (c32 200) (vdiv (vsum (prock_pos r) (w_earthPos w)) scale) rocket_mark else []))"

section \<open>The texts\<close>

definition focus_label :: "string \<Rightarrow> PRocket \<Rightarrow> string" where
  "focus_label focus r =
     (if focus = ''earth'' then ''FOCUS: EARTH'' else if focus = ''sun'' then ''FOCUS: SUN''
      else if focus = ''rocket'' then ''FOCUS: ROCKET'' else ''FOCUS: AUTO ('' @ prock_PrimaryBody r @ '')'')"

definition drawOrbitHeader :: "string \<Rightarrow> PRocket \<Rightarrow> call list" where
  "drawOrbitHeader focus r =
     [DrawText ''ORBITAL MAP'' 30 30 28 (NewColor 150 200 255 255), DrawText (focus_label focus r) 30 62 14 (NewColor 150 200 255 200)]"

definition drawOrbitTelemetry :: "PRocket \<Rightarrow> call list" where
  "drawOrbitTelemetry r =
     [DrawText (''FUEL: '' @ itoa_text (prock_Fuel r) @ '' / '' @ itoa_text (prock_MaxFuel r)) 30 80 18 col_RayWhite,
      DrawText (''ALT: '' @ metres (prock_Altitude r)) 30 104 18 col_RayWhite,
      DrawText (''VEL: '' @ itoa_text (int_of_f32 (prock_Speed r)) @ '' m/s'') 30 128 18 col_RayWhite,
      DrawText (''APO: '' @ metres (prock_Apoapsis r)) 30 152 18
        (if 0 < prock_Apoapsis r then NewColor 150 200 255 255 else col_RayWhite),
      DrawText (''PER: '' @ metres (prock_Periapsis r)) 30 176 18
        (if c32 60 < prock_Periapsis r then NewColor 80 220 100 255
         else if 0 < prock_Periapsis r then NewColor 230 200 60 255 else NewColor 220 60 60 255)]"

definition drawOrbitHint :: "face \<Rightarrow> int \<times> int \<Rightarrow> call list" where
  "drawOrbitHint F scr =
     measured F ''LMB drag: camera | LMB click: focus | Shift+Wheel: fast zoom | F: cycle focus | M: close'' 18
       (\<lambda>w. ((fst scr - w) sdiv 2, snd scr - 40)) col_LightGray"

definition autopilot_rows :: "(string \<times> Color) list" where
  "autopilot_rows =
     [(''G  prograde'', NewColor 80 220 100 255), (''H  retrograde'', NewColor 230 140 40 255),
      (''J  radial+'', NewColor 230 200 60 255), (''K  radial-'', NewColor 180 100 220 255),
      (''N  normal'', NewColor 100 180 255 255), (''B  antinormal'', NewColor 100 180 255 255), (''X  off'', col_LightGray)]"

definition drawOrbitAutopilot :: "string \<Rightarrow> int \<Rightarrow> call list" where
  "drawOrbitAutopilot autoPilot sh =
     DrawText ''AUTOPILOT'' 30 (sh - 220) 16 (NewColor 150 200 255 255) #
     map (\<lambda>(k, s, col). DrawText s 40 (sh - 198 + int k * 20) 14 col) (enumerate 0 autopilot_rows) @
     [DrawText (''current: '' @ (if autoPilot \<noteq> '''' then autoPilot else ''MANUAL'')) 30
        (sh - 198 + int (length autopilot_rows) * 20 + 8) 16 col_RayWhite]"

definition drawOrbitHUD :: "face \<Rightarrow> int \<times> int \<Rightarrow> string \<Rightarrow> string \<Rightarrow> PRocket \<Rightarrow> call list" where
  "drawOrbitHUD F scr focus autoPilot r =
     drawOrbitHeader focus r @ drawOrbitTelemetry r @ drawOrbitHint F scr @ drawOrbitAutopilot autoPilot (snd scr)"

section \<open>The map\<close>

definition orbitMap_calls :: "face \<Rightarrow> raymath \<Rightarrow> env \<Rightarrow> to_screen \<Rightarrow> frame_in \<Rightarrow> App \<Rightarrow> call list" where
  "orbitMap_calls F R E gw i a =
     (let r = rs_hudRocket (a_rocket a); haveRocket = (prock_ID r \<noteq> '''');
          a1 = a\<lparr>a_orbit := initOrbitCameraIfNeeded r haveRocket (a_orbit a)\<rparr>;
          h = computeHelioPositions a1 r haveRocket; scr = i_screen i
      in case buildOrbitCamera E (computeOrbitCenter (or_focus (a_orbit a1)) h) (a_orbit a1) of
           (scale, cam) \<Rightarrow>
             DrawRectangle 0 0 (fst scr) (snd scr) (NewColor 3 5 15 255) #
             BeginMode3D cam #
             saved (Scalef (1 / scale) (1 / scale) (1 / scale) # drawOrbit3DScene E a1 r haveRocket h) @
             [EndMode3D] @
             overlay_calls R gw i cam (cameraForward cam) scale haveRocket r (a_world a1) @
             drawOrbitHUD F scr (or_focus (a_orbit a1)) (rs_autoPilot (a_rocket a1)) r)"

end
