(* ===== verification/World_Draw.thy ===== *)
theory World_Draw
  imports Orbit_Draw
begin

text \<open>
  What stands on the Earth, as the client draws it: \<open>entities.go\<close>, \<open>mobs.go\<close>, \<open>nametags.go\<close>, and the shots and
  the held item of the player (\<open>projectiles.go\<close>, \<open>inventory.go\<close>). The animation of walking is the only state.
\<close>

section \<open>Simple things\<close>

definition deg :: "f32 \<Rightarrow> f32" where "deg yaw = yaw * c32 180 / c32 (314159265 / 10 ^ 8)"

definition box :: "f32 \<Rightarrow> f32 \<Rightarrow> f32 \<Rightarrow> rat \<times> rat \<times> rat \<Rightarrow> Color \<Rightarrow> call" where
  "box x y z s col = (case s of (w, h, l) \<Rightarrow> DrawCube (vec x y z) (c32 w) (c32 h) (c32 l) col)"
definition box_wires :: "f32 \<Rightarrow> f32 \<Rightarrow> f32 \<Rightarrow> rat \<times> rat \<times> rat \<Rightarrow> Color \<Rightarrow> call" where
  "box_wires x y z s col = (case s of (w, h, l) \<Rightarrow> DrawCubeWires (vec x y z) (c32 w) (c32 h) (c32 l) col)"
definition walls :: "rat \<Rightarrow> rat \<Rightarrow> rat \<Rightarrow> rat \<times> rat \<times> rat \<Rightarrow> Color \<Rightarrow> Color \<Rightarrow> call list" where
  "walls x y z s col wires = [box (c32 x) (c32 y) (c32 z) s col, box_wires (c32 x) (c32 y) (c32 z) s wires]"

text \<open>A drawing at a place, turned around the vertical axis of the world.\<close>

definition standing :: "f32 \<Rightarrow> f32 \<Rightarrow> f32 \<Rightarrow> f32 \<Rightarrow> call list \<Rightarrow> call list" where
  "standing x y z yaw cs = saved (Translatef x y z # Rotatef (deg yaw) 0 1 0 # cs)"

definition resource_color :: "Resource \<Rightarrow> Color" where
  "resource_color r =
     (case res_Type r of t \<Rightarrow>
        if t = ''stone'' then NewColor 140 140 150 255 else if t = ''wood'' then NewColor 120 80 40 255
        else if t = ''ore'' then NewColor 200 170 60 255 else if t = ''fruit'' then NewColor 230 70 70 255
        else if t = ''meat'' then NewColor 200 100 100 255 else if t = ''spear'' then NewColor 180 160 120 255
        else if t = ''water'' then NewColor 60 120 220 255
        else if t = ''seed'' then (if res_Watered r then NewColor 150 240 100 255 else NewColor 30 100 30 255)
        else NewColor 255 0 255 255)"

definition cube_at :: "Vector3 \<Rightarrow> f32 \<Rightarrow> Color \<Rightarrow> Color \<Rightarrow> call list" where
  "cube_at pos s col wires = [DrawCube pos s s s col, DrawCubeWires pos s s s wires]"

definition DrawResources :: "Resource list \<Rightarrow> call list" where
  "DrawResources rs = concat (map (\<lambda>r. cube_at (vec (res_X r) (res_Y r) (res_Z r))
     (if res_Type r = ''seed'' then c32 (14 / 10) else 1) (resource_color r) col_Black) rs)"

definition DrawLeash :: "Vector3 \<Rightarrow> Vector3 \<Rightarrow> call list" where
  "DrawLeash p q = [DrawLine3D p q (NewColor 150 110 70 255)]"

definition house_calls :: "PHouse \<Rightarrow> call list" where
  "house_calls h =
     (let wood = NewColor 140 95 55 255; dark = NewColor 90 60 35 255
      in standing (phouse_X h) (phouse_Y h) (phouse_Z h) (phouse_Yaw h)
          (walls 0 (- 3 / 2) 0 (6, 1 / 5, 6) wood dark @ walls 0 (3 / 2) 0 (6, 1 / 5, 6) wood dark @
           walls 0 0 (- 3) (6, 3, 1 / 5) wood dark @ walls (- 3) 0 0 (1 / 5, 3, 6) wood dark @
           walls 3 0 0 (1 / 5, 3, 6) wood dark @ walls (- 18 / 10) 0 3 (24 / 10, 3, 1 / 5) wood dark @
           walls (18 / 10) 0 3 (24 / 10, 3, 1 / 5) wood dark @ walls 0 (11 / 10) 3 (12 / 10, 8 / 10, 1 / 5) wood dark @
           saved (Translatef (c32 (- 6 / 10)) (c32 (- 4 / 10)) (c32 3) #
                  Rotatef (if phouse_DoorOpen h then c32 (- 80) else 0) 0 1 0 #
                  walls (6 / 10) 0 0 (12 / 10, 22 / 10, 1 / 10) (NewColor 190 130 75 255) dark)))"

definition DrawHouses :: "PHouse list \<Rightarrow> call list" where "DrawHouses hs = concat (map house_calls hs)"

definition boat_calls :: "PBoat \<Rightarrow> call list" where
  "boat_calls b =
     (let side = NewColor 140 95 55 255
      in standing (pboat_X b) (pboat_Y b) (pboat_Z b) (pboat_Yaw b)
          (walls 0 (- 1 / 2) 0 (3, 4 / 10, 6) (NewColor 120 80 40 255) col_Black @
           [box (c32 (- 14 / 10)) 0 0 (1 / 5, 8 / 10, 6) side, box (c32 (14 / 10)) 0 0 (1 / 5, 8 / 10, 6) side,
            box 0 0 (c32 (- 29 / 10)) (3, 8 / 10, 1 / 5) side, box 0 0 (c32 (29 / 10)) (3, 8 / 10, 1 / 5) side]))"

definition DrawBoats :: "PBoat list \<Rightarrow> call list" where "DrawBoats bs = concat (map boat_calls bs)"

definition DrawProjectiles :: "MobProjectile list \<Rightarrow> call list" where
  "DrawProjectiles ps = concat (map (\<lambda>p. let pos = vec (pproj_X p) (pproj_Y p) (pproj_Z p) in
     [DrawSphere pos (c32 (3 / 10)) (NewColor 255 200 60 255), DrawSphereWires pos (c32 (3 / 10)) 8 8 (NewColor 180 120 20 255)]) ps)"

definition solar_calls :: "PSolar \<Rightarrow> call list" where
  "solar_calls s =
     (let cell = NewColor 60 130 220 255; p = c32 (7 / 10); n = c32 (- 7 / 10); y = c32 (1 / 10)
      in standing (psolar_X s) (psolar_Y s) (psolar_Z s) (psolar_Yaw s)
          ([box 0 (c32 (- 6 / 10)) 0 (3, 3 / 10, 3) (NewColor 60 60 70 255)] @
           walls 0 0 0 (3, 15 / 100, 3) (NewColor 30 60 130 255) (NewColor 20 40 90 255) @
           [box n y n (8 / 10, 5 / 100, 8 / 10) cell, box p y n (8 / 10, 5 / 100, 8 / 10) cell,
            box n y p (8 / 10, 5 / 100, 8 / 10) cell, box p y p (8 / 10, 5 / 100, 8 / 10) cell]))"

definition DrawSolar :: "PSolar list \<Rightarrow> call list" where "DrawSolar ss = concat (map solar_calls ss)"

definition battery_level :: "PBattery \<Rightarrow> f32" where
  "battery_level b = (if 0 < pbat_MaxEnergy b then f32_of_int (pbat_Energy b) / f32_of_int (pbat_MaxEnergy b) else 0)"

definition battery_color :: "f32 \<Rightarrow> Color" where
  "battery_color l = (if c32 (66 / 100) < l then NewColor 60 220 100 255
     else if c32 (33 / 100) < l then NewColor 230 200 60 255 else NewColor 220 60 60 255)"

definition battery_calls :: "PBattery \<Rightarrow> call list" where
  "battery_calls b =
     standing (pbat_X b) (pbat_Y b) (pbat_Z b) (pbat_Yaw b)
       (walls 0 0 0 (2, 3, 2) (NewColor 60 60 80 255) (NewColor 20 20 30 255) @
        [box 0 (c32 (11 / 10)) 0 (12 / 10, 4 / 10, 12 / 10) (battery_color (battery_level b))])"

definition DrawBatteries :: "PBattery list \<Rightarrow> call list" where "DrawBatteries bs = concat (map battery_calls bs)"

definition factory_model :: "PFactory \<Rightarrow> call list" where
  "factory_model f =
     (let pipe = NewColor 80 70 60 255
      in standing (pfac_X f) (pfac_Y f) (pfac_Z f) (pfac_Yaw f)
          (walls 0 0 0 (4, 3, 4) (NewColor 110 100 90 255) (NewColor 60 50 40 255) @
           [box (- 1) (c32 (22 / 10)) (- 1) (6 / 10, 3 / 2, 6 / 10) pipe, box 1 (c32 (22 / 10)) (- 1) (6 / 10, 3 / 2, 6 / 10) pipe,
            box 0 (c32 (1 / 2)) (c32 (205 / 100)) (3 / 2, 8 / 10, 1 / 10)
              (if pfac_Crafting f \<noteq> '''' then NewColor 255 200 60 255 else NewColor 40 80 40 255)]))"

definition DrawFactories :: "PFactory list \<Rightarrow> call list" where "DrawFactories fs = concat (map factory_model fs)"

definition along_up :: "PRocket \<Rightarrow> f32 \<Rightarrow> Vector3" where
  "along_up r k = vec (prock_X r + prock_DX r * k) (prock_Y r + prock_DY r * k) (prock_Z r + prock_DZ r * k)"

definition rocket_calls :: "PRocket \<Rightarrow> call list" where
  "rocket_calls r =
     (let base = prock_pos r; top = along_up r (c32 8); h = c32 (1 / 2);
          nozzle = vec (prock_X r - prock_DX r * h) (prock_Y r - prock_DY r * h) (prock_Z r - prock_DZ r * h)
      in [DrawCylinderEx base top (c32 (6 / 10)) (c32 (6 / 10)) 8 (NewColor 220 220 230 255),
          DrawCylinderEx top (along_up r (c32 11)) (c32 (6 / 10)) (c32 (5 / 100)) 8 (NewColor 200 60 60 255),
          DrawCylinderEx base nozzle (c32 (6 / 10)) (c32 (9 / 10)) 8 (NewColor 60 60 70 255)])"

definition DrawRockets :: "PRocket list \<Rightarrow> call list" where "DrawRockets rs = concat (map rocket_calls rs)"

definition DrawWells :: "Well list \<Rightarrow> call list" where
  "DrawWells ws = concat (map (\<lambda>w. cube_at (vec (well_X w) (well_Y w) (well_Z w)) (c32 4)
     (NewColor 40 110 220 255) (NewColor 20 60 140 255)) ws)"

definition mammoth_color :: "PMammoth \<Rightarrow> Color" where
  "mammoth_color m =
     (let c = (if pmam_Sex m = ''f'' then NewColor 150 110 80 255 else NewColor 110 80 60 255)
      in if pmam_Tamed m then c\<lparr>col_R := col_R c + 40, col_G := col_G c + 40, col_B := col_B c + 40\<rparr> else c)"

definition mammoth_calls :: "PMammoth \<Rightarrow> call list" where
  "mammoth_calls m =
     (let s = (if pmam_Baby m then c32 (3 / 2) else c32 3); h = c32 (1 / 2); t = c32 (3 / 10);
          saddle = vec (pmam_X m) (pmam_Y m + s * c32 (6 / 10)) (pmam_Z m)
      in cube_at (vec (pmam_X m) (pmam_Y m) (pmam_Z m)) s (mammoth_color m) col_Black @
         (if pmam_Saddle m
          then [DrawCube saddle (s * h) (s * t) (s * h) (NewColor 90 60 40 255), DrawCubeWires saddle (s * h) (s * t) (s * h) col_Black]
          else []))"

definition DrawMammoths :: "PMammoth list \<Rightarrow> call list" where "DrawMammoths ms = concat (map mammoth_calls ms)"

section \<open>Walking figures\<close>

record mobAnim =
  an_phase :: f32
  an_lastPos :: Vector3
  an_lastMove :: f64

type_synonym anims = "string \<Rightarrow> mobAnim option"

text \<open>The clock and the frame time of raylib.\<close>

record clock =
  ck_now :: f64
  ck_dt :: f32

definition animate :: "raymath \<Rightarrow> clock \<Rightarrow> f32 \<Rightarrow> string \<Rightarrow> Vector3 \<Rightarrow> anims \<Rightarrow> f32 \<times> anims" where
  "animate R k least_move i pos m =
     (let a0 = (case m i of Some a \<Rightarrow> a | None \<Rightarrow> \<lparr>an_phase = 0, an_lastPos = pos, an_lastMove = ck_now k - c64 10\<rparr>);
          a1 = (if least_move < rm_Distance R (an_lastPos a0) pos then a0\<lparr>an_lastPos := pos, an_lastMove := ck_now k\<rparr> else a0);
          a2 = (if ck_now k - an_lastMove a1 < c64 (15 / 100) then a1\<lparr>an_phase := an_phase a1 + ck_dt k * c32 2\<rparr> else a1)
      in (an_phase a2, m(i \<mapsto> a2)))"

text \<open>One bone: what is drawn, and where it ends.\<close>

definition limb_end :: "env \<Rightarrow> Vector3 \<Rightarrow> f32 \<Rightarrow> f32 \<Rightarrow> Vector3" where
  "limb_end E pivot swing len = vec (v_X pivot) (v_Y pivot - len * f32_of (m_cos E (f64_of swing)))
     (v_Z pivot + len * f32_of (m_sin E (f64_of swing)))"

definition limb_calls :: "Vector3 \<Rightarrow> f32 \<Rightarrow> f32 \<Rightarrow> f32 \<Rightarrow> Color \<Rightarrow> call list" where
  "limb_calls pivot swing len r col =
     saved [Translatef (v_X pivot) (v_Y pivot) (v_Z pivot), Rotatef (f32_of (- f64_of swing * c64 180 / c64 pi_rat)) 1 0 0,
            DrawCylinder (vec 0 (- len / c32 2) 0) (r * c32 (85 / 100)) r len 8 col]"

definition abs64 :: "f64 \<Rightarrow> f64" where "abs64 x = (if sign_bit (raw64 x) then - x else x)"

text \<open>The turn that brings the vertical axis to the direction up.\<close>

definition upright :: "raymath \<Rightarrow> env \<Rightarrow> Vector3 \<Rightarrow> call list" where
  "upright R E up =
     (let u = rm_Normalize R up; y = vec 0 1 0; axis = rm_Cross R y u; l = rm_Length R axis; ax = rm_Scale R axis (1 / l)
      in if \<not> c32 (1 / 1000) < rm_Distance R u y then []
         else if rm_Distance R u (vec 0 (- 1) 0) < c32 (1 / 1000) then [Rotatef (c32 180) 1 0 0]
         else if c32 (1 / 10000) < l
         then [Rotatef (f32_of (m_acos E (f64_of (v_Y u))) * c32 180 / pi32) (v_X ax) (v_Y ax) (v_Z ax)] else [])"

definition leg_calls :: "env \<Rightarrow> f32 \<Rightarrow> f32 \<Rightarrow> f32 \<Rightarrow> Color \<Rightarrow> Color \<Rightarrow> call list" where
  "leg_calls E x hipY swing base dark =
     (let hip = vec x hipY 0; len = c32 (38 / 100); knee = limb_end E hip swing len; bend = - swing * c32 (55 / 100);
          ankle = limb_end E knee bend len
      in [DrawSphere hip (c32 (9 / 100)) dark] @ limb_calls hip swing len (c32 (1 / 10)) base @
         [DrawSphere knee (c32 (8 / 100)) dark] @ limb_calls knee bend len (c32 (85 / 1000)) base @
         [DrawCube (vec (v_X ankle) (v_Y ankle - c32 (3 / 100)) (v_Z ankle + c32 (6 / 100)))
            (c32 (14 / 100)) (c32 (6 / 100)) (c32 (22 / 100)) dark])"

definition arm_calls :: "env \<Rightarrow> Vector3 \<Rightarrow> f32 \<Rightarrow> Color \<Rightarrow> Color \<Rightarrow> call list" where
  "arm_calls E shoulder swing base dark =
     (let elbow = limb_end E shoulder swing (c32 (32 / 100))
      in limb_calls shoulder swing (c32 (32 / 100)) (c32 (75 / 1000)) base @ [DrawSphere elbow (c32 (7 / 100)) dark] @
         limb_calls elbow (swing + c32 (1 / 2)) (c32 (3 / 10)) (c32 (65 / 1000)) base)"

definition horn :: "f32 \<Rightarrow> f32 \<Rightarrow> f32 \<Rightarrow> call list" where
  "horn x y tilt =
     (let col = NewColor 235 225 200 255
      in saved [Translatef x y 0, Rotatef tilt 0 0 1, Rotatef (c32 (- 20)) 1 0 0,
           DrawCylinder (vec 0 (c32 (16 / 100)) 0) (c32 (12 / 1000)) (c32 (45 / 1000)) (c32 (32 / 100)) 8 col,
           DrawCylinder (vec 0 (c32 (38 / 100)) 0) (c32 (1 / 1000)) (c32 (12 / 1000)) (c32 (14 / 100)) 8 col])"

definition drawHumanoidMob ::
    "raymath \<Rightarrow> env \<Rightarrow> Vector3 \<Rightarrow> Vector3 \<Rightarrow> Color \<Rightarrow> Color \<Rightarrow> f32 \<Rightarrow> bool \<Rightarrow> call list" where
  "drawHumanoidMob R E pos up base accent walkPhase hasHorns =
     (let dark = NewColor 20 10 10 255; eye = NewColor 255 110 20 255;
          sw = f32_of (m_sin E (f64_of walkPhase));
          legL = sw * c32 (35 / 100); legR = - legL; armL = - legL * c32 (6 / 10); armR = - legR * c32 (6 / 10);
          bob = f32_of (abs64 (m_sin E (f64_of (walkPhase * c32 2)))) * c32 (3 / 100);
          hipY = c32 (75 / 100) + bob; shoulderY = hipY + c32 (6 / 10);
          shL = vec (c32 (- 28 / 100)) shoulderY 0; shR = vec (c32 (28 / 100)) shoulderY 0;
          neckY = shoulderY + c32 (14 / 100); headY = neckY + c32 (2 / 10)
      in saved
          ([Translatef (v_X pos) (v_Y pos - c32 (75 / 100)) (v_Z pos)] @ upright R E up @
           leg_calls E (c32 (- 12 / 100)) hipY legL base dark @ leg_calls E (c32 (12 / 100)) hipY legR base dark @
           [box 0 (hipY + c32 (3 / 10)) 0 (42 / 100, 6 / 10, 26 / 100) base,
            box 0 (hipY + c32 (32 / 100)) (c32 (14 / 100)) (32 / 100, 4 / 10, 2 / 100) accent,
            DrawSphere shL (c32 (11 / 100)) dark, DrawSphere shR (c32 (11 / 100)) dark] @
           arm_calls E shL armL base dark @ arm_calls E shR armR base dark @
           [box 0 neckY 0 (13 / 100, 12 / 100, 13 / 100) dark, DrawSphere (vec 0 headY 0) (c32 (22 / 100)) base,
            DrawSphere (vec (c32 (- 8 / 100)) (headY + c32 (3 / 100)) (c32 (19 / 100))) (c32 (45 / 1000)) eye,
            DrawSphere (vec (c32 (8 / 100)) (headY + c32 (3 / 100)) (c32 (19 / 100))) (c32 (45 / 1000)) eye] @
           (if hasHorns
            then horn (c32 (- 17 / 100)) (headY + c32 (12 / 100)) (c32 45) @ horn (c32 (17 / 100)) (headY + c32 (12 / 100)) (c32 (- 45))
            else [])))"

definition shade :: "8 word \<Rightarrow> 8 word" where "shade b = u8_of_f32 (f32_of_int (uint b) * c32 (65 / 100))"

definition draw_player :: "raymath \<Rightarrow> env \<Rightarrow> clock \<Rightarrow> string \<Rightarrow> PlayerState \<Rightarrow> call list \<times> anims \<Rightarrow> call list \<times> anims" where
  "draw_player R E k ownID p acc =
     (if ps_ID p = ownID then acc
      else let pos = vec (ps_X p) (ps_Y p) (ps_Z p); base = playerColor p;
               accent = NewColor (shade (col_R base)) (shade (col_G base)) (shade (col_B base)) 255;
               an = animate R k (c32 (5 / 100)) (ps_ID p) pos (snd acc)
           in (fst acc @ drawHumanoidMob R E pos (rm_Normalize R pos) base accent (fst an) False, snd an))"

definition DrawPlayers :: "raymath \<Rightarrow> env \<Rightarrow> clock \<Rightarrow> PlayerState list \<Rightarrow> string \<Rightarrow> anims \<Rightarrow> call list \<times> anims" where
  "DrawPlayers R E k players ownID m = fold (draw_player R E k ownID) players ([], m)"

definition mob_look :: "string \<Rightarrow> Color \<times> Color \<times> bool" where
  "mob_look kind =
     (if kind = ''hostile'' then (NewColor 150 25 25 255, NewColor 200 60 40 255, True)
      else if kind = ''collector'' then (NewColor 30 100 45 255, NewColor 60 150 70 255, False)
      else if kind = ''pink'' then (NewColor 240 130 175 255, NewColor 255 190 220 255, False)
      else (NewColor 60 60 70 255, NewColor 90 90 100 255, False))"

definition draw_mob :: "raymath \<Rightarrow> env \<Rightarrow> clock \<Rightarrow> PMob \<Rightarrow> call list \<times> anims \<Rightarrow> call list \<times> anims" where
  "draw_mob R E k b acc =
     (case mob_look (pmob_Kind b) of (base, accent, hasHorns) \<Rightarrow>
        let pos = vec (pmob_X b) (pmob_Y b) (pmob_Z b); an = animate R k (c32 (2 / 100)) (pmob_ID b) pos (snd acc)
        in (fst acc @ drawHumanoidMob R E pos (rm_Normalize R pos) base accent (fst an) hasHorns, snd an))"

definition DrawMobs :: "raymath \<Rightarrow> env \<Rightarrow> clock \<Rightarrow> PMob list \<Rightarrow> anims \<Rightarrow> call list \<times> anims" where
  "DrawMobs R E k mobs m = fold (draw_mob R E k) mobs ([], m)"

section \<open>The player's own things\<close>

definition spear_calls :: "raymath \<Rightarrow> app_projectile \<Rightarrow> call list" where
  "spear_calls R p =
     (let d = rm_Normalize R (pj_dir p);
          yaw = f32_of (rm_atan2 R (f64_of (v_X d)) (f64_of (v_Z d))) * c32 180 / pi32;
          pitch = - f32_of (rm_asin R (f64_of (v_Y d))) * c32 180 / pi32
      in saved
          ([Translatef (v_X (pj_pos p)) (v_Y (pj_pos p)) (v_Z (pj_pos p)), Rotatef yaw 0 1 0, Rotatef pitch 1 0 0] @
           saved [Rotatef (c32 90) 1 0 0,
                  DrawCylinder zero_vec (c32 (25 / 1000)) (c32 (25 / 1000)) 1 8 (NewColor 140 100 60 255)] @
           saved [Translatef 0 0 (c32 (6 / 10)), Rotatef (c32 (- 90)) 1 0 0,
                  DrawCylinder zero_vec (c32 (6 / 100)) (c32 (1 / 1000)) (c32 (1 / 4)) 8 (NewColor 220 220 200 255)]))"

definition app_drawProjectiles :: "raymath \<Rightarrow> App \<Rightarrow> call list" where
  "app_drawProjectiles R a = concat (map (spear_calls R) (pl_projectiles (a_player a)))"

definition held_pos :: "raymath \<Rightarrow> Camera3D \<Rightarrow> Vector3" where
  "held_pos R c =
     (let fw = rm_Normalize R (rm_Sub R (cam_Target c) (cam_Position c)); right = rm_Normalize R (rm_Cross R fw (cam_Up c));
          up = rm_Normalize R (rm_Cross R right fw)
      in rm_Sub R (rm_Add R (rm_Add R (cam_Position c) (rm_Scale R fw (c32 (7 / 10)))) (rm_Scale R right (c32 (4 / 10))))
           (rm_Scale R up (c32 (35 / 100))))"

definition drawHeldItem :: "raymath \<Rightarrow> App \<Rightarrow> call list" where
  "drawHeldItem R a =
     (if \<not> survival_flight a \<or> heldItem a = '''' then []
      else cube_at (held_pos R (cs_camera (a_camera a))) (c32 (1 / 4)) (itemColor (heldItem a)) col_Black)"

section \<open>Names above the players\<close>

definition head_of :: "raymath \<Rightarrow> Vector3 \<Rightarrow> PlayerState \<Rightarrow> Vector3" where
  "head_of R earthPos p =
     (let pos = vec (ps_X p) (ps_Y p) (ps_Z p)
      in rm_Add R (rm_Add R pos (rm_Scale R (rm_Normalize R pos) (c32 (17 / 10)))) earthPos)"

text \<open>Full up to 25 metres, then fading; \<open>None\<close>: not drawn.\<close>

definition tag_alpha :: "f32 \<Rightarrow> (8 word) option" where
  "tag_alpha d =
     (if c32 100 < d then None
      else if c32 25 < d
      then let al = u8_of_f32 (c32 255 * (1 - (d - c32 25) / c32 75)) in if al < 50 then None else Some al
      else Some 255)"

definition tag_name :: "PlayerState \<Rightarrow> string" where
  "tag_name p = (if ps_Nick p \<noteq> '''' then ps_Nick p else if 6 \<le> length (ps_ID p) then take 6 (ps_ID p) else ps_ID p)"

definition tag_background :: "8 word \<Rightarrow> Color" where "tag_background al = NewColor 0 0 0 (160 * al div 255)"

definition tag_calls :: "face \<Rightarrow> int \<times> int \<Rightarrow> 8 word \<Rightarrow> PlayerState \<Rightarrow> call list" where
  "tag_calls F c al p =
     (let name = tag_name p; col = (case HexColor (ps_ColorHex p) of Some c \<Rightarrow> c | None \<Rightarrow> colorForID (ps_ID p))\<lparr>col_A := al\<rparr>;
          tw = text_width F name 16; bgW = 5 + 10 + 5 + tw + 5; bgH = 16 + 6;
          x = fst c - bgW sdiv 2; y = snd c - bgH - 4
      in [MeasureText name 16, DrawRectangle x y bgW bgH (tag_background al),
          DrawRectangleLines x y bgW bgH (NewColor 255 255 255 (al div 2)),
          DrawRectangle (x + 5) (y + 3) 10 10 col, DrawRectangleLines (x + 5) (y + 3) 10 10 (NewColor 0 0 0 al),
          DrawText name (x + 5 + 10 + 5) (y + 3) 16 (NewColor 255 255 255 al)])"

definition name_tag ::
    "face \<Rightarrow> raymath \<Rightarrow> to_screen \<Rightarrow> string \<Rightarrow> Camera3D \<Rightarrow> Vector3 \<Rightarrow> int \<times> int \<Rightarrow> PlayerState \<Rightarrow> call list" where
  "name_tag F R gw ownID cam earthPos scr p =
     (let fw = rm_Normalize R (rm_Sub R (cam_Target cam) (cam_Position cam)); head = head_of R earthPos p;
          toP = rm_Normalize R (rm_Sub R head (cam_Position cam)); s = gw head cam
      in if ps_ID p = ownID then []
         else if rm_Dot R fw toP < c32 (1 / 10) then []
         else if fst s < 0 \<or> f32_of_int (fst scr) < fst s \<or> snd s < 0 \<or> f32_of_int (snd scr) < snd s then []
         else case tag_alpha (rm_Distance R (cam_Position cam) head) of
                None \<Rightarrow> [] | Some al \<Rightarrow> tag_calls F (on_pixel s) al p)"

definition DrawPlayerNameTags ::
    "face \<Rightarrow> raymath \<Rightarrow> to_screen \<Rightarrow> PlayerState list \<Rightarrow> string \<Rightarrow> Camera3D \<Rightarrow> Vector3 \<Rightarrow> int \<times> int \<Rightarrow> call list" where
  "DrawPlayerNameTags F R gw players ownID cam earthPos scr =
     concat (map (name_tag F R gw ownID cam earthPos scr) players)"

end
