(* ===== verification/Sky_Draw.thy ===== *)
theory Sky_Draw
  imports World_Draw
begin

text \<open>
  The sky and the planet: the stars (\<open>skybox.go\<close>), the far bodies, the texture of the sun and the shape of the
  planet's mesh (\<open>celestial.go\<close>), and the resources of the scene (\<open>scene.go\<close>). \<open>math.Tan\<close>, the random draws of
  the stars and what the graphics card answers are parameters; shader programs are only names.
\<close>

section \<open>Stars\<close>

record spectralClass =
  sp_color :: Color
  sp_weight :: f32
  sp_sizeMin :: f32
  sp_sizeMax :: f32

record skyStar =
  sky_dir :: Vector3
  sky_color :: Color
  sky_size :: f32

definition spectral :: "8 word \<Rightarrow> 8 word \<Rightarrow> 8 word \<Rightarrow> rat \<Rightarrow> rat \<Rightarrow> rat \<Rightarrow> spectralClass" where
  "spectral r g b w lo hi = \<lparr>sp_color = NewColor r g b 255, sp_weight = c32 w, sp_sizeMin = c32 lo, sp_sizeMax = c32 hi\<rparr>"

definition spectralClasses :: "spectralClass list" where
  "spectralClasses =
     [spectral 155 176 255 (3 / 100000) 5 6, spectral 170 191 255 (13 / 10000) (45 / 10) (55 / 10),
      spectral 202 215 255 (6 / 1000) 4 (48 / 10), spectral 248 247 255 (3 / 100) (35 / 10) (42 / 10),
      spectral 255 244 234 (76 / 1000) (32 / 10) (38 / 10), spectral 255 210 161 (121 / 1000) (28 / 10) (34 / 10),
      spectral 255 180 120 (765 / 1000) (24 / 10) 3]"

text \<open>The first class whose cumulated weight reaches \<open>r\<close>.\<close>

fun find_class :: "f32 \<Rightarrow> f32 \<Rightarrow> spectralClass list \<Rightarrow> spectralClass option" where
  "find_class r cum [] = None"
| "find_class r cum (c # cs) = (let cum' = cum + sp_weight c in if r \<le> cum' then Some c else find_class r cum' cs)"

definition class_of :: "f32 \<Rightarrow> spectralClass" where
  "class_of r = (case find_class r 0 spectralClasses of Some c \<Rightarrow> c | None \<Rightarrow> last spectralClasses)"

definition star_dir :: "env \<Rightarrow> f32 \<Rightarrow> f32 \<Rightarrow> Vector3" where
  "star_dir E u v =
     (let z = c32 2 * u - 1; theta = c32 (2 * pi_rat) * v; rxy = sqrt32 (1 - z * z)
      in vec (rxy * f32_of (m_cos E (f64_of theta))) z (rxy * f32_of (m_sin E (f64_of theta))))"

definition new_star :: "env \<Rightarrow> rng \<Rightarrow> skyStar \<times> rng" where
  "new_star E g0 =
     (case mrand_float32 g0 of (r, g1) \<Rightarrow> case mrand_float32 g1 of (u, g2) \<Rightarrow> case mrand_float32 g2 of (v, g3) \<Rightarrow>
      case mrand_float32 g3 of (q, g4) \<Rightarrow>
        let c = class_of r
        in (\<lparr>sky_dir = star_dir E u v, sky_color = sp_color c, sky_size = sp_sizeMin c + q * (sp_sizeMax c - sp_sizeMin c)\<rparr>, g4))"

fun new_stars :: "env \<Rightarrow> nat \<Rightarrow> rng \<Rightarrow> skyStar list" where
  "new_stars E 0 g = []"
| "new_stars E (Suc n) g = (case new_star E g of (s, g') \<Rightarrow> s # new_stars E n g')"

text \<open>The stars of the program; \<open>seeded\<close> are the draws of the generator with seed 42.\<close>

definition initSkybox :: "env \<Rightarrow> rng \<Rightarrow> skyStar list" where
  "initSkybox E seeded = new_stars E 1200 seeded"

record lens =
  ln_fwd :: Vector3
  ln_right :: Vector3
  ln_up :: Vector3
  ln_factor :: f32

definition sky_lens :: "raymath \<Rightarrow> (f64 \<Rightarrow> f64) \<Rightarrow> Camera3D \<Rightarrow> f32 \<Rightarrow> int \<times> int \<Rightarrow> lens" where
  "sky_lens R tan64 cam fovy scr =
     (let fwd = rm_Normalize R (rm_Sub R (cam_Target cam) (cam_Position cam));
          r0 = rm_Cross R fwd (rm_Normalize R (cam_Up cam));
          right = (if rm_Length R r0 < c32 (1 / 1000) then vec 1 0 0 else rm_Normalize R r0);
          fovRad = f64_of fovy * c64 pi_rat / c64 180
      in \<lparr>ln_fwd = fwd, ln_right = right, ln_up = rm_Cross R right fwd,
          ln_factor = f32_of_int (snd scr) / (c32 2 * f32_of (tan64 (fovRad / c64 2)))\<rparr>)"

definition star_calls :: "lens \<Rightarrow> int \<times> int \<Rightarrow> skyStar \<Rightarrow> call list" where
  "star_calls l scr s =
     (let sw = f32_of_int (fst scr); sh = f32_of_int (snd scr);
          z = nav_dot (sky_dir s) (ln_fwd l); x = nav_dot (sky_dir s) (ln_right l); y = nav_dot (sky_dir s) (ln_up l);
          sx = sw / c32 2 + (x / z) * ln_factor l; sy = sh / c32 2 - (y / z) * ln_factor l
      in if z \<le> c32 (1 / 100) then []
         else if sx < c32 (- 8) \<or> sw + c32 8 < sx \<or> sy < c32 (- 8) \<or> sh + c32 8 < sy then []
         else [DrawCircle (i32_of_f32 sx) (i32_of_f32 sy) (sky_size s) (sky_color s\<lparr>col_A := 50\<rparr>),
               DrawCircle (i32_of_f32 sx) (i32_of_f32 sy) (sky_size s * c32 (45 / 100)) (sky_color s)])"

text \<open>The stars are made by the first call; \<open>None\<close> is the state before it.\<close>

definition DrawSkybox ::
    "raymath \<Rightarrow> env \<Rightarrow> (f64 \<Rightarrow> f64) \<Rightarrow> rng \<Rightarrow> Camera3D \<Rightarrow> f32 \<Rightarrow> int \<times> int \<Rightarrow> skyStar list option \<Rightarrow> call list \<times> skyStar list option" where
  "DrawSkybox R E tan64 seeded cam fovy scr sky =
     (let stars = (case sky of Some ss \<Rightarrow> ss | None \<Rightarrow> initSkybox E seeded); l = sky_lens R tan64 cam fovy scr
      in (concat (map (star_calls l scr) stars), Some stars))"

section \<open>Far bodies\<close>

text \<open>
  A sphere that is more than 850 away is drawn at that distance in the same direction, as much smaller; one
  behind the camera, or around it, is not drawn. \<open>halo\<close> is the size of the outer shell.
\<close>

definition far_place :: "Camera3D \<Rightarrow> Vector3 \<Rightarrow> f32 \<Rightarrow> (Vector3 \<times> f32) option" where
  "far_place cam p radius =
     (let c = cam_Position cam; fw = vsub (cam_Target cam) c; d = vsub p c; l = vlen d; k = c32 850 / l
      in if nav_dot fw d \<le> 0 then None
         else if l < c32 (1 / 100) then None
         else if l \<le> c32 850 then Some (p, radius)
         else Some (vec (v_X c + v_X d * k) (v_Y c + v_Y d * k) (v_Z c + v_Z d * k), radius * k))"

definition far_body :: "Camera3D \<Rightarrow> Vector3 \<Rightarrow> f32 \<Rightarrow> f32 \<Rightarrow> Color \<Rightarrow> Color \<Rightarrow> Color \<Rightarrow> call list" where
  "far_body cam p radius halo core wires shell =
     (case far_place cam p radius of
        None \<Rightarrow> []
      | Some (q, r) \<Rightarrow>
          [DrawSphere q r core, DrawSphereWires q r 24 24 wires] @
          (if r < c32 (850 * 9 / 10) then [DrawSphereWires q (r * halo) 16 16 shell] else []))"

definition DrawSun3D :: "Camera3D \<Rightarrow> call list" where
  "DrawSun3D cam = far_body cam SunPos SunRadius (c32 (112 / 100)) (NewColor 255 220 80 255) (NewColor 255 160 40 160)
     (NewColor 255 200 100 70)"

definition DrawStar2 :: "Camera3D \<Rightarrow> call list" where
  "DrawStar2 cam = far_body cam Star2Pos Star2Radius (c32 (112 / 100)) (NewColor 255 140 60 255) (NewColor 255 90 20 200)
     (NewColor 255 180 100 80)"

definition DrawPlanet2 :: "Camera3D \<Rightarrow> Vector3 \<Rightarrow> call list" where
  "DrawPlanet2 cam p = far_body cam p Planet2Radius (c32 (108 / 100)) (NewColor 80 180 200 255) (NewColor 40 120 160 200)
     (NewColor 160 220 240 60)"

section \<open>The texture of the sun and the mesh of the planet\<close>

definition u8_of_f64 :: "f64 \<Rightarrow> 8 word" where "u8_of_f64 x = word_of_int (f_to_int (raw64 x))"

definition sun_distance :: "nat \<Rightarrow> nat \<Rightarrow> f32" where
  "sun_distance x y =
     (let c = f32_of_int 256 / c32 2; dx = f32_of_int (int x) - c; dy = f32_of_int (int y) - c
      in sqrt32 (dx * dx + dy * dy) / c)"

definition sun_pixel :: "nat \<Rightarrow> nat \<Rightarrow> Color option" where
  "sun_pixel x y =
     (let d = sun_distance x y; f = 1 - f64_of d
      in if 1 < d then None
         else Some (NewColor 255 (u8_of_f32 (c32 240 - c32 60 * d)) (u8_of_f32 (c32 200 - c32 150 * d)) (u8_of_f64 (c64 255 * f * f))))"

definition genSunTexture :: "(nat \<times> nat \<times> Color) list" where
  "genSunTexture = concat (map (\<lambda>y. List.map_filter (\<lambda>x. map_option (\<lambda>c. (x, y, c)) (sun_pixel x y)) [0..<256]) [0..<256])"

definition deform_vertex :: "env \<Rightarrow> Vector3 \<Rightarrow> Vector3" where
  "deform_vertex E v =
     (let l = vlen v; n = vdiv v l; h = TerrainHeight E (v_X n) (v_Y n) (v_Z n)
      in if l < c32 (1 / 100) then v else vec (v_X n * h) (v_Y n * h) (v_Z n * h))"

definition deformMesh :: "env \<Rightarrow> Vector3 list \<Rightarrow> Vector3 list" where
  "deformMesh E vs = map (deform_vertex E) vs"

section \<open>The scene and its resources\<close>

text \<open>A model is the number of its meshes, a shader or texture its ID; 0 is one that failed to load.\<close>

record Scene =
  sc_planet :: nat
  sc_hasPlanet :: bool
  sc_fallback :: nat
  sc_water :: nat
  sc_clouds :: nat
  sc_atmosphere :: nat
  sc_colorShader :: nat
  sc_waterShader :: nat
  sc_atmoShader :: nat
  sc_cloudsShader :: nat
  sc_sunTex :: nat
  sc_planetPos :: Vector3
  sc_planetScale :: f32
  sc_earthPos :: Vector3

text \<open>What the graphics card answers to the loads.\<close>

record loader =
  ld_sphere :: "f32 \<Rightarrow> nat"
  ld_model :: nat
  ld_shader :: "string \<Rightarrow> nat"
  ld_texture :: nat

definition NewScene :: "loader \<Rightarrow> string \<Rightarrow> Scene" where
  "NewScene L planetPath =
     \<lparr>sc_planet = (if planetPath \<noteq> '''' \<and> 0 < ld_model L then ld_model L else 0),
      sc_hasPlanet = (planetPath \<noteq> '''' \<and> 0 < ld_model L),
      sc_fallback = ld_sphere L PlanetRadius, sc_water = ld_sphere L SeaLevel,
      sc_clouds = ld_sphere L (PlanetRadius + c32 15), sc_atmosphere = ld_sphere L (PlanetRadius + c32 20),
      sc_colorShader = ld_shader L ''color'', sc_waterShader = ld_shader L ''water'', sc_atmoShader = ld_shader L ''atmo'',
      sc_cloudsShader = ld_shader L ''clouds'', sc_sunTex = ld_texture L,
      sc_planetPos = zero_vec, sc_planetScale = 1, sc_earthPos = zero_vec\<rparr>"

datatype resource = Model string | Shader string | Texture string

text \<open>The resources that a scene holds after \<open>NewScene\<close>, and those that \<open>Unload\<close> gives back, in its order.\<close>

definition held :: "bool \<Rightarrow> resource \<Rightarrow> resource list" where "held b r = (if b then [r] else [])"

definition scene_holds :: "Scene \<Rightarrow> resource list" where
  "scene_holds s =
     Model ''fallback'' # held (sc_colorShader s \<noteq> 0) (Shader ''color'') @ held (sc_hasPlanet s) (Model ''planet'') @
     held (0 < sc_water s) (Model ''water'') @ held (0 < sc_clouds s) (Model ''clouds'') @
     held (sc_cloudsShader s \<noteq> 0) (Shader ''clouds'') @ held (0 < sc_atmosphere s) (Model ''atmosphere'') @
     held (sc_atmoShader s \<noteq> 0) (Shader ''atmo'') @ held (sc_waterShader s \<noteq> 0) (Shader ''water'') @
     held (sc_sunTex s \<noteq> 0) (Texture ''sun'')"

definition scene_Unload :: "Scene \<Rightarrow> resource list" where
  "scene_Unload s =
     held (sc_colorShader s \<noteq> 0) (Shader ''color'') @ held (sc_waterShader s \<noteq> 0) (Shader ''water'') @
     held (sc_atmoShader s \<noteq> 0) (Shader ''atmo'') @ held (0 < sc_atmosphere s) (Model ''atmosphere'') @
     held (sc_cloudsShader s \<noteq> 0) (Shader ''clouds'') @ held (0 < sc_clouds s) (Model ''clouds'') @
     held (sc_sunTex s \<noteq> 0) (Texture ''sun'') @ held (sc_hasPlanet s) (Model ''planet'') @ [Model ''fallback'']"

definition HasPlanet :: "Scene \<Rightarrow> bool" where "HasPlanet s = sc_hasPlanet s"
definition SetEarthPos :: "Vector3 \<Rightarrow> Scene \<Rightarrow> Scene" where "SetEarthPos p s = s\<lparr>sc_earthPos := p\<rparr>"
definition SetPlanetScale :: "f32 \<Rightarrow> Scene \<Rightarrow> Scene" where "SetPlanetScale k s = s\<lparr>sc_planetScale := k\<rparr>"

definition scene_Draw :: "Scene \<Rightarrow> call list" where
  "scene_Draw s =
     (if sc_hasPlanet s then [DrawModel ''planet'' (sc_planetPos s) (sc_planetScale s) col_White]
      else [DrawModel ''fallback'' (sc_planetPos s) (sc_planetScale s) col_White, EnableWireMode,
            DrawModel ''fallback'' (sc_planetPos s) (sc_planetScale s) (NewColor 20 40 25 255), DisableWireMode])"

definition DrawWater :: "clock \<Rightarrow> Scene \<Rightarrow> call list" where
  "DrawWater k s =
     (if sc_water s = 0 then []
      else (if sc_waterShader s \<noteq> 0 then [SetShaderValue ''water'' ''time'' [f32_of (ck_now k)]] else []) @
           [BeginBlendMode, DrawModel ''water'' (sc_planetPos s) (sc_planetScale s) col_White, EndBlendMode])"

definition veil :: "string \<Rightarrow> call list" where
  "veil name = [BeginBlendMode, DisableDepthMask, DisableBackfaceCulling, DrawModel name zero_vec 1 col_White,
     EnableBackfaceCulling, EnableDepthMask, EndBlendMode]"

definition DrawAtmosphere :: "raymath \<Rightarrow> Camera3D \<Rightarrow> Scene \<Rightarrow> call list" where
  "DrawAtmosphere R cam s =
     (if sc_atmosphere s = 0 then []
      else (if sc_atmoShader s \<noteq> 0
            then let cp = rm_Sub R (cam_Position cam) (sc_earthPos s)
                 in [SetShaderValue ''atmo'' ''cameraPos'' [v_X cp, v_Y cp, v_Z cp]] else []) @ veil ''atmosphere'')"

definition DrawClouds :: "clock \<Rightarrow> Scene \<Rightarrow> call list" where
  "DrawClouds k s =
     (if sc_clouds s = 0 then []
      else (if sc_cloudsShader s \<noteq> 0 then [SetShaderValue ''clouds'' ''time'' [f32_of (ck_now k)]] else []) @ veil ''clouds'')"

end
