(* ===== verification/Draw_Frame.thy ===== *)
theory Draw_Frame
  imports Sky_Draw
begin

text \<open>
  One frame on the screen: \<open>draw\<close> and \<open>resizeUITarget\<close> of \<open>draw.go\<close>, as the list of its calls. The state
  that only the drawing has (the buffer of the user interface, the frame rate, the animations, the stars)
  is the record \<open>view\<close>; scene, clock and lens of the frame are the record \<open>stage\<close>.
\<close>

record view =
  vw_texID :: nat
  vw_w :: int
  vw_h :: int
  vw_loaded :: nat
  vw_fps :: fps
  vw_anims :: anims
  vw_sky :: "skyStar list option"

record stage =
  sg_scene :: Scene
  sg_clock :: clock
  sg_tan :: "f64 \<Rightarrow> f64"
  sg_seeded :: rng
  sg_fovy :: f32
  sg_face :: face

text \<open>\<open>vw_loaded\<close> counts the buffers that were loaded; none is ever given back.\<close>

definition resizeUITarget :: "int \<times> int \<Rightarrow> view \<Rightarrow> view" where
  "resizeUITarget scr v =
     (let wh = (if fst scr \<le> 0 \<or> snd scr \<le> 0 then (1280, 720) else scr)
      in v\<lparr>vw_texID := vw_texID v + 1, vw_w := fst wh, vw_h := snd wh, vw_loaded := vw_loaded v + 1\<rparr>)"

definition fit_target :: "gotime \<Rightarrow> int \<times> int \<Rightarrow> view \<Rightarrow> view" where
  "fit_target now scr v =
     (if fst scr \<noteq> vw_w v \<or> snd scr \<noteq> vw_h v
      then (resizeUITarget scr v)\<lparr>vw_fps := (vw_fps v)\<lparr>fp_startAt := now\<rparr>\<rparr> else v)"

definition leash_calls :: "raymath \<Rightarrow> App \<Rightarrow> call list" where
  "leash_calls R a =
     (let me = get_PlayerID (a_nc a)
      in if me = '''' then []
         else concat (map (\<lambda>m. if pmam_LeashedTo m = me
            then DrawLeash (rm_Sub R (cam_pos a) (w_earthPos (a_world a))) (vec (pmam_X m) (pmam_Y m) (pmam_Z m)) else [])
          (get_Mammoths (a_nc a))))"

text \<open>Everything that stands on the Earth, drawn in coordinates relative to it.\<close>

definition geo_calls :: "raymath \<Rightarrow> env \<Rightarrow> stage \<Rightarrow> App \<Rightarrow> anims \<Rightarrow> call list \<times> anims" where
  "geo_calls R E g a m =
     (let nc = a_nc a; k = sg_clock g; cam = cs_camera (a_camera a); s = sg_scene g;
          ps = DrawPlayers R E k (InterpolatedSnapshot E nc) (get_PlayerID nc) m;
          bs = DrawMobs R E k (get_Mobs nc) (snd ps)
      in (scene_Draw s @ DrawWater k s @ DrawClouds k s @ DrawAtmosphere R cam s @ fst ps @
          DrawResources (get_Resources nc) @ DrawMammoths (get_Mammoths nc) @ DrawWells (get_Wells nc) @
          DrawHouses (get_Houses nc) @ DrawSolar (get_Solar nc) @ DrawBatteries (get_Batteries nc) @
          DrawFactories (get_Factories nc) @ DrawBoats (get_Boats nc) @ fst bs @ DrawProjectiles (get_Projectiles nc) @
          leash_calls R a @ app_drawProjectiles R a @ drawHeldItem R a, snd bs))"

definition space_calls :: "raymath \<Rightarrow> env \<Rightarrow> stage \<Rightarrow> App \<Rightarrow> anims \<Rightarrow> call list \<times> anims" where
  "space_calls R E g a m =
     (let ep = w_earthPos (a_world a); cam = cs_camera (a_camera a); geo = geo_calls R E g a m
      in (BeginMode3D cam # saved (Translatef (v_X ep) (v_Y ep) (v_Z ep) # fst geo) @ DrawRockets (get_Rockets (a_nc a)) @
          DrawSun3D cam @ DrawStar2 cam @ DrawPlanet2 cam (w_planet2Pos (a_world a)) @ [EndMode3D], snd geo))"

definition back_calls :: "raymath \<Rightarrow> env \<Rightarrow> stage \<Rightarrow> frame_in \<Rightarrow> App \<Rightarrow> view \<Rightarrow> call list \<times> view" where
  "back_calls R E g i a v =
     (if a_mode a = ModeMenu then ([ClearBackground (NewColor 12 12 22 255)], v)
      else let sky = DrawSkybox R E (sg_tan g) (sg_seeded g) (cs_camera (a_camera a)) (sg_fovy g) (i_screen i) (vw_sky v);
               sp = space_calls R E g a (vw_anims v)
           in (ClearBackground (NewColor 4 4 12 255) # fst sky @ fst sp, v\<lparr>vw_sky := snd sky, vw_anims := snd sp\<rparr>))"

text \<open>The user interface over a game; the states between its windows are those of \<open>draw\<close> in \<open>App_Run\<close>.\<close>

definition game_ui_calls ::
    "face \<Rightarrow> raymath \<Rightarrow> (cli_msg \<Rightarrow> bytes) \<Rightarrow> env \<Rightarrow> to_screen \<Rightarrow> frame_in \<Rightarrow> fps \<Rightarrow> App \<Rightarrow> call list" where
  "game_ui_calls F R m E W i p a =
     (let a0 = (if a_mode a = ModePaused then drawPause R i a else a);
          a1 = drawHUD R m i a0;
          a2 = (if ui_showContract (a_ui a1) then drawContract R m E i a1 else a1);
          a3 = (if ui_showFactory (a_ui a2) then drawFactory R m E i a2 else a2);
          cam = cs_camera (a_camera a)
      in (if a_mode a = ModePaused then dimmed (i_screen i) (c32 (55 / 100)) # pause_calls F R i a else []) @
         hud_calls F R m E i p a0 @
         DrawPlayerNameTags F R W (InterpolatedSnapshot E (a_nc a1)) (get_PlayerID (a_nc a1)) cam (w_earthPos (a_world a)) (i_screen i) @
         (if ui_showContract (a_ui a1) then contract_calls F R i else []) @
         (if ui_showFactory (a_ui a2) then factory_calls F R E i else []) @
         (if pl_rocketID (a_player a3) \<noteq> '''' then drawRocketHUD i a3 @ drawNavBall F i (a_rocket a3) else []) @
         (if or_showOrbitMap (a_orbit a3) then orbitMap_calls F R E W i a3 else []))"

definition ui_calls ::
    "face \<Rightarrow> raymath \<Rightarrow> (cli_msg \<Rightarrow> bytes) \<Rightarrow> env \<Rightarrow> to_screen \<Rightarrow> net_in \<Rightarrow> frame_in \<Rightarrow> fps \<Rightarrow> App \<Rightarrow> call list" where
  "ui_calls F R m E W N i p a =
     (case a_mode a of
        ModeMenu \<Rightarrow> menu_calls F R m N i a
      | ModeDead \<Rightarrow> hud_calls F R m E i p a @ dead_calls F R i
      | _ \<Rightarrow> game_ui_calls F R m E W i p a)"

definition show_buffer :: "int \<times> int \<Rightarrow> view \<Rightarrow> call" where
  "show_buffer scr v = DrawTexturePro (rec_at 0 0 (f32_of_int (vw_w v)) (- f32_of_int (vw_h v)))
     (rec_at 0 0 (f32_of_int (fst scr)) (f32_of_int (snd scr))) col_White"

text \<open>The frame rate is brought up to date by \<open>drawHUD\<close>, which the menu does not call.\<close>

definition draw_calls ::
    "raymath \<Rightarrow> (cli_msg \<Rightarrow> bytes) \<Rightarrow> env \<Rightarrow> to_screen \<Rightarrow> net_in \<Rightarrow> stage \<Rightarrow> frame_in \<Rightarrow> App \<Rightarrow> view \<Rightarrow> call list \<times> view" where
  "draw_calls R m E W N g i a v0 =
     (let v1 = fit_target (e_now E) (i_screen i) v0; back = back_calls R E g i a v1;
          fps' = (if a_mode a = ModeMenu then vw_fps v1 else update_fps (e_now E) (vw_fps v1))
      in (BeginDrawing # fst back @ BeginTextureMode # ClearBackground col_Blank #
          ui_calls (sg_face g) R m E W N i (vw_fps v1) a @
          [EndTextureMode, show_buffer (i_screen i) (snd back), EndDrawing],
          (snd back)\<lparr>vw_fps := fps'\<rparr>))"

end
