(* ===== verification/Draw_Facts.thy ===== *)
theory Draw_Facts
  imports Draw_Frame
begin

text \<open>
  What holds of everything that the client draws. Each drawing function is flat or leaves the state of the
  graphics machine as it found it; so a whole frame obeys the rules of \<open>gl_step\<close>.
\<close>

section \<open>Flat drawings\<close>

lemma flat_case_option [simp]: "flat (case x of None \<Rightarrow> [] | Some y \<Rightarrow> f y) \<longleftrightarrow> (\<forall>y. x = Some y \<longrightarrow> flat (f y))"
  by (cases x) simp_all

lemma flat_if [simp]: "flat (if b then xs else ys) \<longleftrightarrow> (if b then flat xs else flat ys)"
  by simp

lemma flat_widgets [simp]:
  "flat (Button_Draw F R i b s)" "flat (TextField_Draw r s foc)" "flat (measured F s n pl col)"
  "flat (framed r c d)" "flat_call (dimmed scr al)"
  by (simp_all add: Button_Draw_def TextField_Draw_def measured_def framed_def dimmed_def Let_def split: prod.splits)

lemma flat_chat [simp]: "flat (chat_Draw w h c)"
  by (auto simp: chat_Draw_def Let_def)

lemma flat_slot [simp]: "flat (draw_slot R i items u k)"
  by (auto simp: draw_slot_def Let_def)

lemma flat_inventory [simp]: "flat (inventory_calls F R i a)"
  by (auto simp: inventory_calls_def drag_ghost_def tooltip_def Let_def)

lemma flat_craft [simp]: "flat (craft_calls F R i a)" "flat (contract_calls F R i)" "flat (factory_calls F R E i)"
  by (auto simp: craft_calls_def draw_recipe_def contract_calls_def factory_calls_def Let_def)

lemma flat_cells [simp]: "flat (draw_cells gx gy mx my cl es st)"
  by (induction es arbitrary: st) (auto simp: draw_cell_def Let_def split: option.splits)

lemma flat_screens [simp]: "flat (menu_calls F R m N i a)" "flat (pause_calls F R i a)" "flat (dead_calls F R i)"
  by (simp_all add: menu_calls_def picker_calls_def pause_calls_def dead_calls_def Let_def)

lemma flat_hotbar [simp]: "flat (drawHotbar i a)"
  by (auto simp: drawHotbar_def hotbar_slot_def Let_def)

lemma flat_hud_parts [simp]: "flat (hunger_bar h)" "flat (hp_bar hp)" "flat (fps_calls p)" "flat (frame_label f)"
    "flat (placed_text F scr an y s n col)" "flat (speed_calls F scr f)" "flat (drawMiniStatus E a)"
    "flat (drawDebugOverlay E i a)" "flat (hud_windows F R m i a)"
  by (auto simp: hunger_bar_def hp_bar_def fps_calls_def frame_label_def placed_text_def speed_calls_def
      drawMiniStatus_def status_calls_def drawDebugOverlay_def debug_calls_def hud_windows_def Let_def)

lemma flat_hud [simp]: "flat (hud_calls F R m E i p a)"
  by (simp add: hud_calls_def Let_def)

lemma flat_nav [simp]: "flat (drawNavBall F i s)" "flat (drawRocketHUD i a)"
  by (auto simp: drawNavBall_def drawNavBallBackground_def drawNavBallMarkers_def drawNavBallTarget_def
      drawNavBallAutoPilotLabel_def drawRocketHUD_def drawRocketHUDPanel_def drawRocketHUDTelemetry_def
      drawRocketHUDHints_def Let_def split: prod.splits)

lemma flat_marks [simp]: "flat (sun_mark c)" "flat (star2_mark c)" "flat (planet2_mark c)" "flat (rocket_mark c)"
    "flat (earth_mark scr k d c)"
  by (simp_all add: sun_mark_def star2_mark_def planet2_mark_def rocket_mark_def earth_mark_def ring_def disc_def label_at_def Let_def)

lemma flat_mark_at [simp]: "(\<And>c. flat (f c)) \<Longrightarrow> flat (mark_at R gw i cam fwd b mg p f)"
  by (simp add: mark_at_def)

lemma flat_overlay [simp]: "flat (overlay_calls R gw i cam fwd k b r w)" "flat (drawOrbitHUD F scr foc ap r)"
  by (auto simp: overlay_calls_def drawOrbitHUD_def drawOrbitHeader_def drawOrbitTelemetry_def drawOrbitHint_def
      drawOrbitAutopilot_def Let_def)

lemma flat_tags [simp]: "flat (DrawPlayerNameTags F R gw ps own cam ep scr)"
  by (auto simp: DrawPlayerNameTags_def name_tag_def tag_calls_def Let_def)

lemma flat_sky [simp]: "flat (fst (DrawSkybox R E t g cam fov scr sky))"
  by (auto simp: DrawSkybox_def star_calls_def Let_def)

section \<open>Solid drawings\<close>

lemma inner_solid_list: "list_all solid_call cs \<Longrightarrow> inner n cs"
  by (induction cs) (auto intro: solid_intros)

lemma solid_list: "list_all solid_call cs \<Longrightarrow> solid n cs"
  by (induction cs) (auto intro: solid_intros)

lemma boxes [simp]: "solid_call (box x y z s c)" "solid_call (box_wires x y z s c)" "list_all solid_call (walls a b d s c w)"
    "list_all solid_call (cube_at p k c w)"
  by (auto simp: box_def box_wires_def walls_def cube_at_def split: prod.splits)

lemma list_all_concat [simp]: "list_all P (concat (map f xs)) \<longleftrightarrow> list_all (\<lambda>x. list_all P (f x)) xs"
  by (induction xs) simp_all

lemma list_all_maps [simp]: "list_all P (map f xs) \<longleftrightarrow> list_all (\<lambda>x. P (f x)) xs"
  by (induction xs) simp_all

lemma list_all_True [simp]: "list_all (\<lambda>x. True) xs"
  by (induction xs) simp_all

lemma standing_solid [solid_intros]: "inner n cs \<Longrightarrow> solid (Suc n) (standing x y z yaw cs)"
  unfolding standing_def by (intro solid_intros)

lemma solid_entities: "solid (Suc (Suc 0)) (DrawResources rs)" "solid (Suc (Suc 0)) (DrawHouses hs)"
    "solid (Suc (Suc 0)) (DrawBoats bs)" "solid (Suc (Suc 0)) (DrawProjectiles ps)" "solid (Suc (Suc 0)) (DrawSolar ss)"
    "solid (Suc (Suc 0)) (DrawBatteries bts)" "solid (Suc (Suc 0)) (DrawFactories fs)" "solid (Suc (Suc 0)) (DrawRockets rks)"
    "solid (Suc (Suc 0)) (DrawWells ws)" "solid (Suc (Suc 0)) (DrawMammoths ms)"
  unfolding DrawResources_def DrawHouses_def DrawBoats_def DrawProjectiles_def DrawSolar_def DrawBatteries_def
    DrawFactories_def DrawRockets_def DrawWells_def DrawMammoths_def house_calls_def boat_calls_def solar_calls_def
    battery_calls_def factory_model_def rocket_calls_def mammoth_calls_def Let_def
  by (intro solid_intros inner_solid_list solid_list; simp)+

lemma limb_solid [solid_intros]: "solid (Suc n) (limb_calls p sw l r c)"
  unfolding limb_calls_def by (intro solid_intros) simp

lemma horn_solid [solid_intros]: "solid (Suc n) (horn x y t)"
  unfolding horn_def Let_def by (intro solid_intros) simp_all

lemma upright_inner [solid_intros]: "inner n (upright R E up)"
  unfolding upright_def Let_def by (intro solid_intros)

lemma leg_solid: "solid (Suc n) (leg_calls E x h sw b d)" and arm_solid: "solid (Suc n) (arm_calls E p sw b d)"
  unfolding leg_calls_def arm_calls_def Let_def by (intro solid_intros limb_solid; simp)+

lemmas inner_parts = leg_solid [THEN inner_solid] arm_solid [THEN inner_solid] horn_solid [THEN inner_solid]

lemma humanoid_solid: "solid (Suc (Suc n)) (drawHumanoidMob R E pos up b a ph hn)"
  unfolding drawHumanoidMob_def Let_def by (intro solid_intros inner_parts; simp)

lemma solid_fold:
  assumes "\<And>x acc. \<exists>cs. solid n cs \<and> fst (f x acc) = fst acc @ cs" "solid n (fst acc)"
  shows "solid n (fst (fold f xs acc))"
  using assms(2)
proof (induction xs arbitrary: acc)
  case (Cons x xs)
  obtain cs where "solid n cs" "fst (f x acc) = fst acc @ cs" using assms(1) by blast
  then have "solid n (fst (f x acc))" using Cons.prems by (simp add: solid_append)
  then show ?case using Cons.IH by simp
qed simp

lemma solid_figures: "solid (Suc (Suc n)) (fst (DrawPlayers R E k ps own m))" "solid (Suc (Suc n)) (fst (DrawMobs R E k bs m))"
proof -
  have p: "\<exists>cs. solid (Suc (Suc n)) cs \<and> fst (draw_player R E k own p acc) = fst acc @ cs" for p acc
  proof (cases "ps_ID p = own")
    case True
    then show ?thesis by (intro exI [of _ "[]"]) (simp add: draw_player_def solid_nil)
  qed (auto simp: draw_player_def Let_def intro!: exI humanoid_solid)
  have b: "\<exists>cs. solid (Suc (Suc n)) cs \<and> fst (draw_mob R E k b acc) = fst acc @ cs" for b acc
    by (auto simp: draw_mob_def Let_def split: prod.splits intro!: exI humanoid_solid)
  show "solid (Suc (Suc n)) (fst (DrawPlayers R E k ps own m))"
    unfolding DrawPlayers_def by (rule solid_fold) (simp_all add: p solid_nil)
  show "solid (Suc (Suc n)) (fst (DrawMobs R E k bs m))"
    unfolding DrawMobs_def by (rule solid_fold) (simp_all add: b solid_nil)
qed

lemma solid_own: "solid (Suc (Suc n)) (app_drawProjectiles R a)" "solid n (drawHeldItem R a)" "solid n (leash_calls R a)"
  unfolding app_drawProjectiles_def spear_calls_def drawHeldItem_def leash_calls_def DrawLeash_def Let_def
  by (intro solid_intros solid_list; simp)+

text \<open>The special modes of the water, the clouds and the atmosphere are switched off again.\<close>

lemma solid_modes: "solid n (veil s)" "solid n (scene_Draw sc)" "solid n (DrawWater k sc)" "solid n (DrawClouds k sc)"
    "solid n (DrawAtmosphere R cam sc)"
proof -
  show v: "solid n (veil s)" for s
    by (simp add: solid_def veil_def require_def has_room_def calm_def in_space_def)
  show "solid n (scene_Draw sc)" "solid n (DrawWater k sc)"
    by (simp_all add: solid_def scene_Draw_def DrawWater_def require_def has_room_def calm_def in_space_def)
  show "solid n (DrawClouds k sc)" "solid n (DrawAtmosphere R cam sc)"
    unfolding DrawClouds_def DrawAtmosphere_def Let_def by (intro solid_intros v; simp)+
qed

lemma solid_geo: "solid (Suc (Suc 0)) (fst (geo_calls R E g a m))"
  unfolding geo_calls_def Let_def fst_conv by (intro solid_append solid_modes solid_figures solid_entities solid_own)

lemma solid_far: "solid n (DrawSun3D cam)" "solid n (DrawStar2 cam)" "solid n (DrawPlanet2 cam p)"
  unfolding DrawSun3D_def DrawStar2_def DrawPlanet2_def far_body_def
  by (auto split: option.splits intro!: solid_list)

lemma solid_orbit: "solid n (drawOrbit3DScene E a r b h)"
proof -
  have poly: "list_all solid_call (polyline c ps)" for c ps by (induction c ps rule: polyline.induct) simp_all
  have "list_all solid_call (drawOrbit3DScene E a r b h)"
    by (simp add: drawOrbit3DScene_def drawOrbitGrids_def orbit_grid_def drawOrbitCircle_def drawOrbitBodies_def
        drawOrbitSunEarthLine_def drawOrbitAxes_def drawOrbitTrajectory_calls_def drawOrbitRocket3D_def drawOrbitPlayers_def
        poly Let_def split: option.splits)
  then show ?thesis by (rule solid_list)
qed

section \<open>The whole frame\<close>

lemma run_space:
  assumes "on_flat g" "calm g" "gl_mats g = []" "solid n cs" "n \<le> max_mats"
  shows "gl_run (BeginMode3D c # cs @ [EndMode3D]) g = Some g"
proof -
  define h where "h = g\<lparr>gl_3d := True\<rparr>"
  have h: "in_space h" "calm h" "gl_mats h = []" "h\<lparr>gl_3d := False\<rparr> = g"
    using assms(1-3) by (simp_all add: h_def on_flat_def in_space_def calm_def)
  then have "gl_run cs h = Some h" using assms(4,5) by (intro solid_run [of n]) simp_all
  moreover have "gl_step EndMode3D h = Some g" using h by (simp add: require_def calm_def)
  moreover have "gl_step (BeginMode3D c) g = Some h" using assms(1,3) by (simp add: require_def h_def)
  ultimately show ?thesis by (simp add: gl_run_append)
qed

lemma run_world:
  assumes "on_flat g" "calm g" "gl_mats g = []"
  shows "gl_run (fst (space_calls R E sg a m)) g = Some g"
proof -
  let ?ep = "w_earthPos (a_world a)" and ?cam = "cs_camera (a_camera a)"
  have "solid (Suc (Suc (Suc 0))) (saved (Translatef (v_X ?ep) (v_Y ?ep) (v_Z ?ep) # fst (geo_calls R E sg a m)) @
      DrawRockets (get_Rockets (a_nc a)) @ DrawSun3D ?cam @ DrawStar2 ?cam @ DrawPlanet2 ?cam (w_planet2Pos (a_world a)))"
    by (intro solid_append solid_saved inner_move inner_solid [OF solid_geo] solid_far
        solid_weaken [OF solid_entities(8)]) simp
  from run_space [OF assms this, of ?cam] show ?thesis by (simp add: space_calls_def Let_def max_mats_def)
qed

lemma run_map:
  assumes "on_flat g" "calm g" "gl_mats g = []"
  shows "gl_run (orbitMap_calls F R E gw i a) g = Some g"
proof -
  let ?r = "rs_hudRocket (a_rocket a)"
  let ?b = "prock_ID ?r \<noteq> ''''"
  let ?a = "a\<lparr>a_orbit := initOrbitCameraIfNeeded ?r ?b (a_orbit a)\<rparr>"
  obtain sc cam where b: "buildOrbitCamera E (computeOrbitCenter (or_focus (a_orbit ?a)) (computeHelioPositions ?a ?r ?b)) (a_orbit ?a) = (sc, cam)"
    by force
  have s: "solid (Suc 0) (saved (Scalef (1 / sc) (1 / sc) (1 / sc) # drawOrbit3DScene E ?a ?r ?b (computeHelioPositions ?a ?r ?b)))"
    by (intro solid_saved inner_grow inner_solid [OF solid_orbit])
  let ?over = "overlay_calls R gw i cam (cameraForward cam) sc ?b ?r (a_world ?a) @
      drawOrbitHUD F (i_screen i) (or_focus (a_orbit ?a)) (rs_autoPilot (a_rocket ?a)) ?r"
  define bg where "bg = [DrawRectangle 0 0 (fst (i_screen i)) (snd (i_screen i)) (NewColor 3 5 15 255)]"
  define mid where "mid = BeginMode3D cam # saved (Scalef (1 / sc) (1 / sc) (1 / sc) #
    drawOrbit3DScene E ?a ?r ?b (computeHelioPositions ?a ?r ?b)) @ [EndMode3D]"
  define over where "over = ?over"
  have "orbitMap_calls F R E gw i a = bg @ mid @ over"
    unfolding orbitMap_calls_def Let_def b bg_def mid_def over_def by simp
  moreover have "gl_run bg g = Some g" "gl_run over g = Some g"
    unfolding bg_def over_def using assms(1) by (simp add: require_def, intro flat_run) simp_all
  moreover have "gl_run mid g = Some g"
    unfolding mid_def by (rule run_space [OF assms s]) (simp add: max_mats_def)
  ultimately show ?thesis by (simp add: gl_run_append)
qed

lemma run_ui:
  assumes "on_flat g" "calm g" "gl_mats g = []"
  shows "gl_run (ui_calls F R m E W N i p a) g = Some g"
proof -
  have "gl_run (game_ui_calls F R m E W i p a) g = Some g"
    unfolding game_ui_calls_def Let_def gl_run_append
    using assms by (simp add: flat_run run_map del: gl_run.simps)
  then show ?thesis using assms(1) by (simp add: ui_calls_def flat_run split: Mode.splits)
qed

text \<open>
  C29. Every frame that the client draws obeys the rules of the graphics machine, whatever
  the state of the client, the window and the world: flat shapes are drawn outside the 3D mode and solids
  inside it, every mode is left again, every saved matrix is restored, never more than 32 are saved, and
  the machine ends in the state in which it started, ready for the next frame.
\<close>
theorem frame_obeys_rules:
  "gl_run (fst (draw_calls R m E W N sg i a v)) gl_start = Some gl_start"
proof -
  define g where "g = gl_start\<lparr>gl_drawing := True\<rparr>"
  define h where "h = g\<lparr>gl_target := True\<rparr>"
  have g: "on_flat g" "calm g" "gl_mats g = []" and h: "on_flat h" "calm h" "gl_mats h = []"
    by (simp_all add: g_def h_def gl_start_def on_flat_def calm_def)
  let ?v = "fit_target (e_now E) (i_screen i) v"
  have under: "gl_run (fst (back_calls R E sg i a ?v)) g = Some g"
    using run_world [OF g, of R E sg a] flat_run [OF flat_sky g(1)]
    by (simp add: back_calls_def Let_def gl_run_append require_def g(1))
  note ui = run_ui [OF h, of "sg_face sg" R m E W N i "vw_fps ?v" a]
  have steps: "gl_step BeginDrawing gl_start = Some g" "gl_step BeginTextureMode g = Some h"
    "gl_step (ClearBackground c) h = Some h" "gl_step EndTextureMode h = Some g" "gl_step (show_buffer scr w) g = Some g"
    "gl_step EndDrawing g = Some gl_start" for c scr w
    by (simp_all add: g_def h_def gl_start_def on_flat_def require_def show_buffer_def)
  show ?thesis unfolding draw_calls_def Let_def fst_conv
    by (simp add: gl_run_append steps under ui del: gl_step.simps)
qed

end
