(* ===== verification/Draw_Places.thy ===== *)
theory Draw_Places
  imports Draw_Facts
begin

text \<open>
  Where the client draws things, and what becomes of what it loads: the frame of the held item and of the
  leashes, the buffer of the user interface, the resources of the scene, the plates behind the names.
\<close>

definition idle_stage :: stage where
  "idle_stage = \<lparr>sg_scene = NewScene \<lparr>ld_sphere = (\<lambda>_. 1), ld_model = 0, ld_shader = (\<lambda>_. 1), ld_texture = 1\<rparr> '''',
     sg_clock = \<lparr>ck_now = 0, ck_dt = 0\<rparr>, sg_tan = (\<lambda>_. 1),
     sg_seeded = \<lparr>crypto = (\<lambda>_. 0), cpos = 0, mfloat = (\<lambda>_. 0), mint = (\<lambda>_. 0), mpos = 0\<rparr>, sg_fovy = c32 70, sg_face = mono_face\<rparr>"

definition spear_in_hand :: App where
  "spear_in_hand = (let a = app_New '''' '''' in a\<lparr>a_flight := Some (flight_New plain_raymath (vec (c32 5060) 0 0)),
     a_ui := (a_ui a)\<lparr>ui_invSlots := [''spear'']\<rparr>, a_world := (a_world a)\<lparr>w_earthPos := vec (c32 5000) 0 0\<rparr>,
     a_camera := (a_camera a)\<lparr>cs_camera := \<lparr>cam_Position = vec (c32 5060) 0 0, cam_Target = zero_vec, cam_Up = vec 0 1 0\<rparr>\<rparr>\<rparr>)"

section \<open>Where things are drawn\<close>

lemma placed_run:
  "gl_run xs g = Some g' \<Longrightarrow> placed (xs @ ys) (gl_mat g) (gl_mats g) =
     placed xs (gl_mat g) (gl_mats g) @ placed ys (gl_mat g') (gl_mats g')"
proof (induction xs arbitrary: g)
  case (Cons c xs)
  then obtain h where h: "gl_step c g = Some h" "gl_run xs h = Some g'" by (auto simp: bind_eq_Some_conv)
  from Cons.IH [OF h(2)] h(1) show ?case
    by (cases c) (auto simp: require_def neq_Nil_conv split: if_splits list.splits)
qed simp

definition in_geo :: "gl" where
  "in_geo = \<lparr>gl_drawing = True, gl_target = False, gl_3d = True, gl_blend = False, gl_depth = True, gl_cull = True,
     gl_wire = False, gl_mat = [], gl_mats = [[]]\<rparr>"

lemma placed_solid:
  assumes "solid n xs" "n < max_mats"
  shows "placed (xs @ ys) M [[]] = placed xs M [[]] @ placed ys M [[]]"
proof -
  let ?g = "in_geo\<lparr>gl_mat := M\<rparr>"
  have "gl_run xs ?g = Some ?g"
    using assms by (intro solid_run [of n]) (simp_all add: in_geo_def in_space_def calm_def max_mats_def)
  from placed_run [OF this] show ?thesis by (simp add: in_geo_def)
qed

lemma placed_all_solid: "list_all solid_call cs \<Longrightarrow> placed cs M S = map (Pair M) cs"
proof (induction cs)
  case (Cons c cs)
  then show ?case by (cases c) simp_all
qed simp

lemma placed_mono: "solid n xs \<Longrightarrow> n < max_mats \<Longrightarrow> set (placed ys M [[]]) \<subseteq> set (placed (xs @ ys) M [[]])"
  by (simp add: placed_solid)

definition earth_frame :: "App \<Rightarrow> xform list" where
  "earth_frame a = (let ep = w_earthPos (a_world a) in [Move (v_X ep) (v_Y ep) (v_Z ep)])"

lemma placed_geo:
  assumes "e \<in> set (placed (fst (geo_calls R E sg a m)) (earth_frame a) [[]])"
  shows "e \<in> set (placed (fst (space_calls R E sg a m)) [] [])"
proof -
  have "gl_run (fst (geo_calls R E sg a m)) (in_geo\<lparr>gl_mat := earth_frame a\<rparr>) = Some (in_geo\<lparr>gl_mat := earth_frame a\<rparr>)"
    by (rule solid_run [OF solid_geo]) (simp_all add: in_geo_def in_space_def calm_def max_mats_def)
  from placed_run [OF this] assms show ?thesis
    by (simp add: space_calls_def saved_def Let_def in_geo_def earth_frame_def)
qed

lemma two_small: "Suc (Suc 0) < max_mats"
  by (simp add: max_mats_def)

text \<open>
  C32. The item in the player's hand and the leashes of the player are both drawn in the frame of
  the Earth, that is, moved by the Earth's position. A leash starts at the camera minus that position, so at
  the camera; the item's place is computed from the heliocentric camera itself, so the item is drawn away from the
  camera by the whole vector from the sun's system to the Earth.
\<close>
theorem held_item_place:
  assumes "survival_flight a" "heldItem a \<noteq> ''''"
  shows "let drawn = set (placed (fst (space_calls R E sg a m)) [] []); cam = cs_camera (a_camera a) in
     (earth_frame a, DrawCube (held_pos R cam) (c32 (1 / 4)) (c32 (1 / 4)) (c32 (1 / 4)) (itemColor (heldItem a))) \<in> drawn \<and>
     (\<forall>mm \<in> set (get_Mammoths (a_nc a)). get_PlayerID (a_nc a) \<noteq> '''' \<and> pmam_LeashedTo mm = get_PlayerID (a_nc a) \<longrightarrow>
        (earth_frame a, DrawLine3D (rm_Sub R (cam_Position cam) (w_earthPos (a_world a)))
           (vec (pmam_X mm) (pmam_Y mm) (pmam_Z mm)) (NewColor 150 110 70 255)) \<in> drawn)"
proof -
  let ?own = "leash_calls R a @ app_drawProjectiles R a @ drawHeldItem R a" and ?M = "earth_frame a"
  define pre where "pre = (let nc = a_nc a; k = sg_clock sg; cam = cs_camera (a_camera a); s = sg_scene sg;
      ps = DrawPlayers R E k (InterpolatedSnapshot E nc) (get_PlayerID nc) m; bs = DrawMobs R E k (get_Mobs nc) (snd ps)
    in scene_Draw s @ DrawWater k s @ DrawClouds k s @ DrawAtmosphere R cam s @ fst ps @
      DrawResources (get_Resources nc) @ DrawMammoths (get_Mammoths nc) @ DrawWells (get_Wells nc) @
      DrawHouses (get_Houses nc) @ DrawSolar (get_Solar nc) @ DrawBatteries (get_Batteries nc) @
      DrawFactories (get_Factories nc) @ DrawBoats (get_Boats nc) @ fst bs @ DrawProjectiles (get_Projectiles nc))"
  have pre: "solid (Suc (Suc 0)) pre"
    unfolding pre_def Let_def by (intro solid_append solid_modes solid_figures solid_entities)
  have eq: "fst (geo_calls R E sg a m) = pre @ ?own" by (simp add: geo_calls_def pre_def Let_def)
  have own: "placed ?own ?M [[]] = map (Pair ?M) (leash_calls R a) @ placed (app_drawProjectiles R a) ?M [[]] @
      map (Pair ?M) (drawHeldItem R a)"
  proof -
    have "placed ?own ?M [[]] = placed (leash_calls R a) ?M [[]] @ placed (app_drawProjectiles R a) ?M [[]] @
        placed (drawHeldItem R a) ?M [[]]"
      using placed_solid [OF solid_own(3) two_small] placed_solid [OF solid_own(1) two_small] by simp
    then show ?thesis
      by (subst (asm) (1 3) placed_all_solid) (simp_all add: leash_calls_def DrawLeash_def drawHeldItem_def Let_def)
  qed
  have sub: "e \<in> set (placed (fst (space_calls R E sg a m)) [] [])" if "e \<in> set (placed ?own ?M [[]])" for e
    using placed_geo [of e R E sg a m] placed_mono [OF pre two_small, of ?own ?M] that unfolding eq by blast
  show ?thesis unfolding Let_def
    using assms by (intro conjI ballI impI sub; unfold own)
      (auto simp: drawHeldItem_def cube_at_def leash_calls_def DrawLeash_def cam_pos_def Let_def)
qed

theorem held_item_place_witness:
  "(earth_frame spear_in_hand, DrawCube (held_pos plain_raymath (cs_camera (a_camera spear_in_hand)))
      (c32 (1 / 4)) (c32 (1 / 4)) (c32 (1 / 4)) (NewColor 180 160 120 255))
    \<in> set (placed (fst (space_calls plain_raymath flat_env idle_stage spear_in_hand (\<lambda>_. None))) [] [])"
proof -
  have "survival_flight spear_in_hand" "heldItem spear_in_hand = ''spear''"
    by (simp_all add: spear_in_hand_def survival_flight_def flight_New_def heldItem_def app_New_def Let_def)
  moreover have "itemColor ''spear'' = NewColor 180 160 120 255" by (simp add: itemColor_def)
  ultimately show ?thesis using held_item_place [of spear_in_hand plain_raymath flat_env idle_stage "\<lambda>_. None"]
    by (simp add: Let_def)
qed

section \<open>The buffer of the user interface\<close>

text \<open>
  C31. After a frame the buffer of the user interface has the size of the window, and a further frame
  in a window of the same size loads no other. In a window without size (minimised) every frame loads a new
  buffer and restarts the clock that hides the frame rate; no buffer is ever given back.
\<close>
theorem buffer_fits:
  assumes "0 < vw_w v" "0 < vw_h v"
  shows "let v1 = snd (draw_calls R m E W N sg i a v); v2 = snd (draw_calls R' m' E' W' N' sg' (i'\<lparr>i_screen := i_screen i\<rparr>) a' v1) in
     0 < vw_w v2 \<and> 0 < vw_h v2 \<and>
     (if 0 < fst (i_screen i) \<and> 0 < snd (i_screen i)
     then (vw_w v1, vw_h v1) = i_screen i \<and> vw_loaded v1 \<le> vw_loaded v + 1 \<and> vw_loaded v2 = vw_loaded v1
     else (vw_w v2, vw_h v2) = (1280, 720) \<and> vw_loaded v2 = vw_loaded v1 + 1 \<and> fp_startAt (vw_fps v2) = e_now E')"
proof -
  have view: "vw_w (snd (back_calls R E sg i a w)) = vw_w w" "vw_h (snd (back_calls R E sg i a w)) = vw_h w"
    "vw_loaded (snd (back_calls R E sg i a w)) = vw_loaded w" for R E sg i a w
    by (simp_all add: back_calls_def Let_def)
  have drawn: "vw_w (snd (draw_calls R m E W N sg i a w)) = vw_w (fit_target (e_now E) (i_screen i) w)"
    "vw_h (snd (draw_calls R m E W N sg i a w)) = vw_h (fit_target (e_now E) (i_screen i) w)"
    "vw_loaded (snd (draw_calls R m E W N sg i a w)) = vw_loaded (fit_target (e_now E) (i_screen i) w)"
    "fp_startAt (vw_fps (snd (draw_calls R m E W N sg i a w))) = fp_startAt (vw_fps (fit_target (e_now E) (i_screen i) w))"
    for R m E W N sg i a w
    by (simp_all add: draw_calls_def Let_def view update_fps_def)
  show ?thesis
    using assms by (cases "i_screen i") (auto simp: Let_def drawn fit_target_def resizeUITarget_def)
qed

definition new_view :: view where
  "new_view = \<lparr>vw_texID = 1, vw_w = 1280, vw_h = 720, vw_loaded = 1,
     vw_fps = \<lparr>fp_startAt = 0, fp_lastAt = 0, fp_cached = 0, fp_GetFPS = 60\<rparr>, vw_anims = (\<lambda>_. None), vw_sky = None\<rparr>"

definition blank_frame :: frame_in where "blank_frame = idle_frame\<lparr>i_screen := (0, 0)\<rparr>"

theorem buffer_fits_witness:
  "let v1 = snd (draw_calls plain_raymath (\<lambda>_. []) flat_env (\<lambda>_ _. (0, 0)) (fr_draw idle_run) idle_stage blank_frame spear_in_hand new_view)
   in vw_loaded (snd (draw_calls plain_raymath (\<lambda>_. []) flat_env (\<lambda>_ _. (0, 0)) (fr_draw idle_run) idle_stage blank_frame spear_in_hand v1))
      = vw_loaded v1 + 1"
  using buffer_fits [of new_view plain_raymath "\<lambda>_. []" flat_env "\<lambda>_ _. (0, 0)" "fr_draw idle_run" idle_stage blank_frame
      spear_in_hand plain_raymath "\<lambda>_. []" flat_env "\<lambda>_ _. (0, 0)" "fr_draw idle_run" idle_stage blank_frame spear_in_hand]
  by (simp add: Let_def new_view_def blank_frame_def)

section \<open>Resources of the scene\<close>

text \<open>
  \<open>Unload\<close> gives back each resource that \<open>NewScene\<close> loaded exactly once, and nothing else, but for
  the model of the water, which it forgets.
\<close>
theorem scene_unload:
  "let s = NewScene L path; kept = (if 0 < sc_water s then {Model ''water''} else {}) in
     distinct (scene_Unload s) \<and> set (scene_Unload s) = set (scene_holds s) - kept \<and> kept \<subseteq> set (scene_holds s)"
  by (auto simp: Let_def scene_Unload_def scene_holds_def held_def)

section \<open>Names and figures\<close>

text \<open>
  The plate behind a player's name is meant to be as visible as the name (alpha 160 of 255
  times the alpha of the name). The product is taken in eight bits and wraps around before it is divided by 255, so
  the plate has alpha 0, so it is invisible, for every alpha of the name.
\<close>
theorem tag_background_lost:
  "tag_background al = NewColor 0 0 0 0"
proof -
  have "unat (160 * al :: 8 word) = (160 * unat al) mod 256"
    by (simp add: unat_word_ariths)
  moreover have "(160 * unat al) mod 256 \<noteq> 255"
  proof
    assume "(160 * unat al) mod 256 = 255"
    then have "even ((160 * unat al) mod 256) \<longleftrightarrow> even (255 :: nat)" by simp
    then show False by (simp add: dvd_mod_iff)
  qed
  moreover have "(160 * unat al) mod 256 < 256" by simp
  ultimately have "unat (160 * al :: 8 word) < 255" by linarith
  then have "160 * al div 255 = (0 :: 8 word)"
    by (intro word_unat_eq_iff [THEN iffD2]) (simp only: unat_div, simp)
  then show ?thesis by (simp add: tag_background_def)
qed

end
