(* ===== verification/Hud_Facts.thy ===== *)
theory Hud_Facts
  imports Draw_Places
begin

text \<open>
  What the head-up display tells the player is true: the numbers of its panel are those of the flight up to the
  last digit shown, and its bars are as long as hunger and health say.
\<close>

section \<open>Numbers\<close>

text \<open>A text that reads back as the number up to half a unit of its last place, with the number's sign.\<close>

definition tells :: "nat \<Rightarrow> string \<Rightarrow> f32 \<Rightarrow> bool" where
  "tells p s x \<longleftrightarrow> (case read_fixed p s of None \<Rightarrow> False
     | Some v \<Rightarrow> \<bar>v - val32 x\<bar> \<le> 1 / 2 / 10 ^ p \<and> 0 \<le> v * (if sign_bit (raw32 x) then - 1 else 1))"

lemma fmt_tells: "fin32 x \<Longrightarrow> tells p (fmt_f p x) x" "fin32 x \<Longrightarrow> tells p (fmt_plus_f p x) x"
  using shown_number [of x p] by (auto simp: tells_def)

section \<open>Bars\<close>

lemma trunc_le: "x \<le> of_int n \<Longrightarrow> 0 \<le> n \<Longrightarrow> trunc_rat x \<le> n"
  by (auto simp: trunc_rat_def floor_le_iff le_ceiling_iff ceiling_le_iff)

lemma trunc_nonneg: "0 \<le> x \<Longrightarrow> 0 \<le> trunc_rat x"
  by (auto simp: trunc_rat_def)

lemma i32_le: "in32 (- 1000) (of_int n) x \<Longrightarrow> 0 \<le> n \<Longrightarrow> i32_of_f32 x \<le> n"
  by (auto simp: i32_of_f32_def in_rng_def trunc_le)

text \<open>A part of at most 100 of a bar of at most 1000 pixels.\<close>

lemma bar_part:
  assumes "in32 0 100 x" "raw32 (c32 w) = Fin w" "0 \<le> w" "w \<le> 1000" "rv Binary32 (w * 100) = w * 100" "rv Binary32 w = w"
  shows "in32 (- w) w (c32 w * x / c32 100)"
proof -
  have c: "raw32 (c32 100) = Fin 100" by code_simp
  have "in_rng 0 (rv Binary32 (w * 100)) (fmul Binary32 (Fin w) (raw32 x))"
    using assms by (intro fmul_in_rng_nonneg) (auto simp: in_rng_def)
  then have "in_rng 0 (w * 100) (fmul Binary32 (Fin w) (raw32 x))" using assms(5) by simp
  then show ?thesis
    using fdiv_in_rng [of "fmul Binary32 (Fin w) (raw32 x)" "Fin 100" w Binary32] assms(2,3,4,6)
    by (auto simp: times_f32_def divide_f32_def c in_rng_def)
qed

lemma clamped_hunger: "nan32 (clamp_hunger h) \<or> in32 0 100 (clamp_hunger h)"
proof -
  have c: "raw32 (c32 100) = Fin 100" by code_simp
  show ?thesis
    by (cases "raw32 h") (auto simp: clamp_hunger_def less_f32_def flt_def c zero_f32_def in_rng_def)
qed

lemma hunger_fits: "hunger_fill (clamp_hunger h) \<le> 180"
proof (cases "nan32 (clamp_hunger h)")
  case True
  then show ?thesis by (simp add: hunger_fill_def i32_of_f32_def times_f32_def divide_f32_def fmul_def fdiv_def Let_def)
next
  case False
  have w: "raw32 (c32 180) = Fin 180" "rv Binary32 (180 * 100) = 180 * 100" "rv Binary32 180 = 180" by code_simp+
  from False clamped_hunger have "in32 0 100 (clamp_hunger h)" by blast
  from bar_part [OF this w(1) _ _ w(2,3)] show ?thesis
    using i32_le [of 180] by (simp add: hunger_fill_def in_rng_def)
qed

text \<open>Two pixels per point of health, with nothing that holds the bar in its frame.\<close>

lemma whole_exact: "\<bar>k\<bar> \<le> 2 ^ 24 \<Longrightarrow> 0 \<le> k \<Longrightarrow> mk Binary32 False (of_int k) = Fin (of_int k)"
  using mouse_cell [of k] by (simp add: f32_of_int_def raw32_ops)

lemma hp_points: assumes "0 \<le> hp" "hp \<le> 80000" shows "hp_fill hp = 2 * hp"
proof -
  have w: "raw32 (c32 200) = Fin 200" "raw32 (c32 100) = Fin 100" by code_simp+
  have i: "raw32 (f32_of_int hp) = Fin (of_int hp)" by (rule mouse_cell) (use assms in simp)
  have "raw32 (c32 200 * f32_of_int hp) = Fin (of_int (200 * hp))"
    using whole_exact [of "200 * hp"] assms by (simp add: times_f32_def w i fmul_def Let_def)
  then have "raw32 (c32 200 * f32_of_int hp / c32 100) = Fin (of_int (2 * hp))"
    using whole_exact [of "2 * hp"] assms by (simp add: divide_f32_def w fdiv_def Let_def)
  then show ?thesis using assms floor_of_int [where 'a = rat, of "2 * hp"]
    by (simp add: hp_fill_def Let_def less_f32_def zero_f32_def i32_of_f32_def trunc_rat_def)
qed

text \<open>A number at or below a bound, an overflow to minus infinity included.\<close>

definition at_most :: "rat \<Rightarrow> gofloat \<Rightarrow> bool" where
  "at_most c a \<longleftrightarrow> a = NInf \<or> (case a of Fin r \<Rightarrow> r \<le> c | _ \<Rightarrow> False)"

lemma mk_at_most: "x \<le> c \<Longrightarrow> rv Binary32 c = c \<Longrightarrow> c < 0 \<Longrightarrow> - fmax Binary32 \<le> c \<Longrightarrow> at_most c (mk Binary32 n x)"
  using rv_mono [of x c Binary32] by (auto simp: at_most_def mk_def mk_sel_def)

lemma at_mostE: "at_most c a \<Longrightarrow> (a = NInf \<Longrightarrow> P) \<Longrightarrow> (\<And>r. a = Fin r \<Longrightarrow> r \<le> c \<Longrightarrow> P) \<Longrightarrow> P"
  by (auto simp: at_most_def split: gofloat.splits)

lemma at_most_NInf: "at_most c NInf"
  by (simp add: at_most_def)

lemma hp_negative: assumes "hp < 0" shows "hp_fill hp = 0"
proof -
  have w: "raw32 (c32 200) = Fin 200" "raw32 (c32 100) = Fin 100" by code_simp+
  have r: "rv Binary32 (- 1) = - 1" "rv Binary32 (- 2) = - 2" "rv Binary32 (- 200) = - 200" by code_simp+
  have f: "200 \<le> fmax Binary32" by code_simp
  have "of_int hp \<le> (- 1 :: rat)" using assms by (metis of_int_le_iff of_int_1 of_int_minus zle_diff1_eq diff_0)
  then have "at_most (- 1) (raw32 (f32_of_int hp))" using f mk_at_most [OF _ r(1), of "of_int hp" False] by (simp add: f32_of_int_def raw32_ops)
  then have "at_most (- 200) (raw32 (c32 200 * f32_of_int hp))"
    using f by (auto simp: times_f32_def w fmul_def Let_def elim!: at_mostE intro!: at_most_NInf mk_at_most [OF _ r(3)])
  then have "at_most (- 2) (raw32 (c32 200 * f32_of_int hp / c32 100))"
    using f by (auto simp: divide_f32_def w fdiv_def Let_def elim!: at_mostE intro!: at_most_NInf mk_at_most [OF _ r(2)])
  then have "c32 200 * f32_of_int hp / c32 100 < 0"
    by (auto simp: less_f32_def flt_def zero_f32_def elim!: at_mostE)
  moreover have "i32_of_f32 0 = 0" by code_simp
  ultimately show ?thesis by (simp add: hp_fill_def Let_def)
qed

section \<open>The display\<close>

text \<open>
  C37. What the display of a game tells the player: whenever the numbers of the flight are finite,
  the height above the body and the speed relative to it stand in the panel up to 0.05, with their sign, and in the air
  also the vertical speed. The bar for hunger never leaves its frame of 180 pixels, whatever the server sends, NaN included.
  The bar for health is two pixels per point, empty below zero, and has no upper limit: it leaves its frame of 200 pixels
  as soon as the server sends more than 100.
\<close>
theorem display_truthful:
  assumes "a_flight a = Some f" "s = status_of E a f" "fin32 (st_alt s)" "fin32 (st_speed s)" "fin32 (st_radial s)"
  shows "let D = set (hud_calls F R m E i p a); w = hunger_fill (clamp_hunger (get_Hunger (a_nc a))); hp = pl_hp (a_player a) in
     (\<exists>h v. tells 1 h (st_alt s) \<and> tells 1 v (st_speed s) \<and>
        DrawText (''ALT '' @ h @ '' m'') 30 152 14 col_RayWhite \<in> D \<and> DrawText (''SPD '' @ v @ '' m/s'') 30 172 14 col_RayWhite \<in> D) \<and>
     (if st_ground s then True
      else \<exists>u. tells 1 u (st_radial s) \<and> DrawText (''V/S '' @ u @ '' m/s'') 130 172 14 (vertical_color (st_radial s)) \<in> D) \<and>
     w \<le> 180 \<and> (if 0 < w then DrawRectangle 10 36 w 14 (hunger_color (clamp_hunger (get_Hunger (a_nc a)))) \<in> D else True) \<and>
     (\<exists>k. DrawRectangle 20 60 k 16 (NewColor 200 40 40 255) \<in> D \<and>
        (if hp < 0 then k = 0 else if hp \<le> 80000 then k = 2 * hp else True))"
proof -
  have D: "set (status_calls s) \<subseteq> set (hud_calls F R m E i p a)" "set (hunger_bar (get_Hunger (a_nc a))) \<subseteq> set (hud_calls F R m E i p a)"
    "set (hp_bar (pl_hp (a_player a))) \<subseteq> set (hud_calls F R m E i p a)"
    using assms(1,2) by (auto simp: hud_calls_def Let_def drawMiniStatus_def)
  have "DrawText (''ALT '' @ fmt_f 1 (st_alt s) @ '' m'') 30 152 14 col_RayWhite \<in> set (status_calls s)"
    "DrawText (''SPD '' @ fmt_f 1 (st_speed s) @ '' m/s'') 30 172 14 col_RayWhite \<in> set (status_calls s)"
    "\<not> st_ground s \<Longrightarrow> DrawText (''V/S '' @ fmt_plus_f 1 (st_radial s) @ '' m/s'') 130 172 14 (vertical_color (st_radial s)) \<in> set (status_calls s)"
    by (simp_all add: status_calls_def)
  note panel = this [THEN subsetD [OF D(1)]]
  have "w = hunger_fill (clamp_hunger h) \<Longrightarrow> 0 < w \<Longrightarrow> DrawRectangle 10 36 w 14 (hunger_color (clamp_hunger h)) \<in> set (hunger_bar h)" for w h
    by (simp add: hunger_bar_def Let_def)
  note bar = this [THEN subsetD [OF D(2)], OF refl]
  have "DrawRectangle 20 60 (hp_fill (pl_hp (a_player a))) 16 (NewColor 200 40 40 255) \<in> set (hp_bar (pl_hp (a_player a)))"
    by (simp add: hp_bar_def)
  with D(3) have hp: "\<exists>k. DrawRectangle 20 60 k 16 (NewColor 200 40 40 255) \<in> set (hud_calls F R m E i p a) \<and>
      (if pl_hp (a_player a) < 0 then k = 0 else if pl_hp (a_player a) \<le> 80000 then k = 2 * pl_hp (a_player a) else True)"
    using hp_points [of "pl_hp (a_player a)"] hp_negative [of "pl_hp (a_player a)"] by (intro exI [of _ "hp_fill (pl_hp (a_player a))"]) auto
  show ?thesis unfolding Let_def
    using panel fmt_tells(1) [OF assms(3)] fmt_tells(1) [OF assms(4)] fmt_tells(2) [OF assms(5)] hunger_fits bar hp by auto
qed

theorem display_truthful_witness:
  "\<exists>h. tells 1 h (c32 8) \<and> DrawText (''ALT '' @ h @ '' m'') 30 152 14 col_RayWhite
     \<in> set (hud_calls mono_face plain_raymath (\<lambda>_. []) flat_env idle_frame (vw_fps new_view) spear_in_hand)"
proof -
  define f where "f = flight_New plain_raymath (vec (c32 5060) 0 0)"
  have f: "a_flight spear_in_hand = Some f" "pl_hp (a_player spear_in_hand) = 100"
    by (simp_all add: spear_in_hand_def f_def app_New_def Let_def)
  have g: "fc_AttachedBody f = ''''" "fc_Pos f = vec (c32 5060) 0 0" "fc_Vel f = zero_vec"
    "w_earthPos (a_world spear_in_hand) = vec (c32 5000) 0 0" "w_earthVel (a_world spear_in_hand) = zero_vec"
    by (simp_all add: spear_in_hand_def f_def flight_New_def app_New_def Let_def)
  let ?rel = "vsub (vec (c32 5060) 0 0) (vec (c32 5000) 0 0)" and ?v = "vsub zero_vec zero_vec"
  have s: "status_of flat_env spear_in_hand f = (let d = vlen ?rel; alt = d - SurfaceRadius flat_env ?rel; up = vdiv ?rel d
      in \<lparr>st_sun = False, st_alt = alt, st_speed = vlen ?v, st_radial = v_X ?v * v_X up + v_Y ?v * v_Y up + v_Z ?v * v_Z up,
          st_ground = alt \<le> PlayerHeight + c32 (1 / 2)\<rparr>)"
    by (simp add: status_of_def status_body_def g Let_def)
  have a: "st_alt (status_of flat_env spear_in_hand f) = c32 8" "fin32 (st_speed (status_of flat_env spear_in_hand f))"
    "fin32 (st_radial (status_of flat_env spear_in_hand f))" "fin32 (c32 8)"
    unfolding s Let_def by code_simp+
  have fin: "fin32 (st_alt (status_of flat_env spear_in_hand f))" by (simp only: a)
  note all = display_truthful [OF f(1) refl fin a(2,3), of mono_face plain_raymath "\<lambda>_. []" idle_frame "vw_fps new_view",
      unfolded Let_def a(1), THEN conjunct1]
  then show ?thesis by blast
qed

end
