(* ===== verification/Nav_Facts.thy ===== *)
theory Nav_Facts
  imports Draw_Facts Rocket_Facts
begin

text \<open>
  What the navigation ball shows: of two opposite directions at least one, exactly mirrored, and how its
  marks compare with what the server's autopilot steers to.
\<close>

section \<open>Opposite floats\<close>

text \<open>Negations of each other, but for the sign of zero.\<close>

definition opp :: "gofloat \<Rightarrow> gofloat \<Rightarrow> bool" where
  "opp a b \<longleftrightarrow> b = fneg a \<or> (is_zero a \<and> is_zero b)"

abbreviation opp32 :: "f32 \<Rightarrow> f32 \<Rightarrow> bool" where "opp32 x y \<equiv> opp (raw32 x) (raw32 y)"

lemma opp_fneg [simp]: "opp a (fneg a)"
  by (simp add: opp_def)

lemma opp_cases:
  assumes "opp a b"
  obtains "a = NaN" "b = NaN" | "a = PInf" "b = NInf" | "a = NInf" "b = PInf" | "is_fin a" "is_fin b" "fval b = - fval a"
proof -
  have "a = NaN \<and> b = NaN \<or> a = PInf \<and> b = NInf \<or> a = NInf \<and> b = PInf \<or> is_fin a \<and> is_fin b \<and> fval b = - fval a"
    using assms by (cases a; cases b) (auto simp: opp_def split: if_splits)
  then show ?thesis using that by blast
qed

lemma opp_finI: "is_fin a \<Longrightarrow> is_fin b \<Longrightarrow> fval b = - fval a \<Longrightarrow> opp a b"
  by (cases a; cases b) (auto simp: opp_def)

lemma is_zero_cases: "is_zero a \<Longrightarrow> (a = NZero \<Longrightarrow> P) \<Longrightarrow> (a = Fin 0 \<Longrightarrow> P) \<Longrightarrow> P"
  by (cases a) auto

lemma fin_zero: "is_fin a \<Longrightarrow> is_zero a \<longleftrightarrow> fval a = 0"
  by (cases a) auto

lemma opp_mk: "opp (mk f m x) (mk f n (- x))"
  using fmax_pos [of f] by (auto simp: opp_def mk_def mk_sel_def rv_minus)

lemma opp_add: "opp a a' \<Longrightarrow> opp b b' \<Longrightarrow> opp (fadd f a b) (fadd f a' b')"
proof (elim opp_cases)
  assume "is_fin a" "is_fin a'" "fval a' = - fval a" "is_fin b" "is_fin b'" "fval b' = - fval b"
  moreover from this have "fval a' + fval b' = - (fval a + fval b)" by simp
  ultimately show ?thesis using opp_mk [of f _ "fval a + fval b"]
    by (cases a; cases b; cases a'; cases b') (simp_all add: fadd_def)
qed (auto simp: fadd_def opp_def)

lemma sign_fneg: "a \<noteq> NaN \<Longrightarrow> sign_bit (fneg a) = (\<not> sign_bit a)"
  by (cases a) auto

lemma zero_fneg [simp]: "is_zero (fneg a) = is_zero a"
  by (cases a) auto

lemma fneg_inf: "fneg a = PInf \<longleftrightarrow> a = NInf" "fneg a = NInf \<longleftrightarrow> a = PInf" "fneg a = NaN \<longleftrightarrow> a = NaN"
  by (cases a; simp)+

lemma opp_mul_fneg: "opp (fmul f a b) (fmul f (fneg a) b)"
proof (cases "a = NaN \<or> b = NaN")
  case False
  then show ?thesis using opp_mk [of f _ "fval a * fval b"]
    by (auto simp: fmul_def Let_def fneg_inf sign_fneg) (auto simp: opp_def)
qed (auto simp: fmul_def Let_def fneg_inf opp_def)

lemma opp_div_fneg: "opp (fdiv f a b) (fdiv f (fneg a) b)"
proof (cases "a = NaN \<or> b = NaN")
  case False
  then show ?thesis using opp_mk [of f _ "fval a / fval b"]
    by (auto simp: fdiv_def Let_def fneg_inf sign_fneg) (auto simp: opp_def)
qed (auto simp: fdiv_def Let_def fneg_inf opp_def)

lemma fmul_fneg_self: "fmul f (fneg a) (fneg a) = fmul f a a"
  by (cases "a = NaN") (auto simp: fmul_def Let_def fneg_inf)

lemma opp_mul: "opp a a' \<Longrightarrow> opp (fmul f a b) (fmul f a' b)"
proof -
  assume o: "opp a a'"
  show ?thesis
  proof (cases "a' = fneg a")
    case True
    then show ?thesis by (simp add: opp_mul_fneg)
  next
    case False
    with o have z: "is_zero a" "is_zero a'" by (simp_all add: opp_def)
    then show ?thesis using fmax_pos [of f]
      by (cases a; cases a'; cases b) (auto simp: fmul_def Let_def opp_def mk_def mk_sel_def)
  qed
qed

lemma opp_square: "opp a a' \<Longrightarrow> fmul f a' a' = fmul f a a"
proof (cases "a' = fneg a")
  case True
  then show ?thesis by (simp add: fmul_fneg_self)
next
  case False
  moreover assume "opp a a'"
  ultimately have "is_zero a" "is_zero a'" by (simp_all add: opp_def)
  then show ?thesis by (auto simp: fmul_def Let_def elim!: is_zero_cases)
qed

definition vopp :: "Vector3 \<Rightarrow> Vector3 \<Rightarrow> bool" where
  "vopp v w \<longleftrightarrow> opp32 (v_X v) (v_X w) \<and> opp32 (v_Y v) (v_Y w) \<and> opp32 (v_Z v) (v_Z w)"

lemma vopp_vminus [simp]: "vopp v (vminus v)"
  by (simp add: vopp_def vminus_def vec_def raw32_ops)

lemma f32_square: "opp32 x y \<Longrightarrow> y * y = x * x"
  by (simp add: times_f32_def opp_square)

lemma vopp_vlen: "vopp v w \<Longrightarrow> vlen w = vlen v"
  by (simp add: vlen_def sq3_def len3_def vopp_def f32_square [of "v_X v"] f32_square [of "v_Y v"] f32_square [of "v_Z v"])

lemma vopp_vdiv_minus: "vopp (vdiv v l) (vdiv (vminus v) l)"
  by (simp add: vopp_def vdiv_def vminus_def vec_def raw32_ops opp_div_fneg)

lemma nav_dot_opp: "vopp v w \<Longrightarrow> opp32 (nav_dot v a) (nav_dot w a)"
  by (simp add: nav_dot_def vopp_def raw32_ops opp_add opp_mul)

lemma not_both_below: "opp a b \<Longrightarrow> r < 0 \<Longrightarrow> \<not> (flt a (Fin r) \<and> flt b (Fin r))"
  by (erule opp_cases) (cases a; cases b; auto simp: flt_def)+

lemma not_both_behind: "opp32 x y \<Longrightarrow> \<not> (x < c32 (- 1 / 5) \<and> y < c32 (- 1 / 5))"
proof -
  assume o: "opp32 x y"
  have "raw32 (c32 (- 1 / 5)) = Fin (- 13421773 / 67108864)" by code_simp
  then show ?thesis using not_both_below [OF o, of "- 13421773 / 67108864"] by (simp add: less_f32_def)
qed

section \<open>Two opposite marks\<close>

lemma opp_div: "opp a a' \<Longrightarrow> opp (fdiv f a b) (fdiv f a' b)"
proof -
  assume o: "opp a a'"
  show ?thesis
  proof (cases "a' = fneg a")
    case True
    then show ?thesis by (simp add: opp_div_fneg)
  next
    case False
    with o have z: "is_zero a" "is_zero a'" by (simp_all add: opp_def)
    then show ?thesis using fmax_pos [of f]
      by (cases a; cases a'; cases b) (auto simp: fdiv_def Let_def opp_def mk_def mk_sel_def)
  qed
qed

lemma vopp_vdiv: "vopp v w \<Longrightarrow> vopp (vdiv v l) (vdiv w l)"
  by (simp add: vopp_def vdiv_def vec_def raw32_ops opp_div)

type_synonym mark = "Vector3 \<times> Color \<times> string"

fun pairs_of :: "'a list \<Rightarrow> ('a \<times> 'a) list" where
  "pairs_of (x # y # xs) = (x, y) # pairs_of xs"
| "pairs_of _ = []"

definition one_shown :: "navBallLayout \<Rightarrow> navballFrame \<Rightarrow> mark \<times> mark \<Rightarrow> bool" where
  "one_shown l f p = (case p of ((v, c, s), (w, d, t)) \<Rightarrow>
     vlen v < c32 (1 / 100) \<or> drawNavBallTarget (navProject l f) v c s \<noteq> [] \<or> drawNavBallTarget (navProject l f) w d t \<noteq> [])"

lemma opposite_shown: "vopp v w \<Longrightarrow> one_shown l f ((v, c, s), (w, d, t))"
  using not_both_behind [OF nav_dot_opp [OF vopp_vdiv, of v w "vlen v" "nf_f f"]]
  by (auto simp: one_shown_def drawNavBallTarget_def Let_def vopp_vlen navProject_def)

text \<open>
  C33. The marks of the navigation ball come in pairs of opposite directions (along and against the
  velocity, away from and towards the origin, along both normals), and of each pair whose direction has a length
  the ball always shows at least one, whatever the attitude of the rocket: a pilot is never without a mark.
\<close>
theorem opposite_marks:
  "list_all (one_shown l f) (pairs_of (nav_markers r f)) \<and> even (length (nav_markers r f)) \<and>
     map (\<lambda>((v, c, s), (w, d, t)). (s, t)) (pairs_of (nav_markers r f)) =
       (if c32 (1 / 2) < vlen (prock_vel r) then [(''PRO'', ''RET'')] else []) @ [(''RAD+'', ''RAD-'')] @
       (if c32 (1 / 10) < vlen (nav_cross (prock_pos r) (prock_vel r)) then [(''NRM'', ''ANM'')] else [])"
  by (auto simp: nav_markers_def Let_def intro!: opposite_shown vopp_vdiv_minus)

section \<open>The ball and the autopilot\<close>

lemma fmul_one: "a = mk f n x \<Longrightarrow> fmul f a (Fin 1) = a"
  using rep_rv [of f x] fmax_pos [of f]
  by (auto simp: mk_def mk_sel_def fmul_def Let_def rep_def)

lemma fdiv_one: "fmul f (fdiv f a b) (Fin 1) = fdiv f a b"
proof -
  have "fmul f c (Fin 1) = c" if "c \<in> {NaN, PInf, NInf, NZero, Fin 0}" for c
    using that fmax_pos [of f] by (auto simp: fmul_def Let_def mk_def mk_sel_def)
  then show ?thesis using fmul_one by (auto simp: fdiv_def Let_def)
qed

lemma f32_div_one: "a / b * c32 1 = a / (b :: f32)"
proof -
  have "raw32 (c32 1) = Fin 1" by code_simp
  then show ?thesis by (simp add: times_f32_def divide_f32_def fdiv_one)
qed

lemma cross_nav: "cross = nav_cross"
  by (intro ext) (simp add: cross_def nav_cross_def)

lemma lt_consts: "c32 (1 / 2) < x \<Longrightarrow> c32 (1 / 10) < x" "c32 (1 / 10) < x \<Longrightarrow> c32 (1 / 100) < x"
proof -
  have c: "raw32 (c32 (1 / 2)) = Fin (1 / 2)" "raw32 (c32 (1 / 10)) = Fin (13421773 / 134217728)"
    "raw32 (c32 (1 / 100)) = Fin (5368709 / 536870912)" by code_simp+
  show "c32 (1 / 2) < x \<Longrightarrow> c32 (1 / 10) < x" "c32 (1 / 10) < x \<Longrightarrow> c32 (1 / 100) < x"
    by (auto simp: less_f32_def flt_def c split: if_splits)
qed

lemma vneg_vminus: "vneg v = vminus v"
  by (simp add: vneg_def vminus_def)

definition marked :: "PRocket \<Rightarrow> navballFrame \<Rightarrow> string \<Rightarrow> Vector3 \<Rightarrow> bool" where
  "marked r f s v \<longleftrightarrow> (\<exists>c. (v, c, s) \<in> set (nav_markers r f))"

text \<open>
  The ball and the autopilot. For an Earth at rest in the origin they agree: the marks PRO, RET,
  RAD+ and NRM are exactly what the autopilot of the server aims at in the modes prograde, retrograde, radial
  out and normal. But the autopilot works relative to the moving Earth and the ball with the heliocentric position and
  velocity: for a rocket that flies along with the Earth, which has no prograde direction, the autopilot
  has no target, and the ball marks the direction in which the Earth flies.
\<close>
theorem ball_vs_autopilot:
  assumes "buildNavBallFrame r = Some f" "c32 (1 / 2) < vlen (prock_vel r)" "c32 (1 / 10) < vlen (prock_pos r)"
    and "c32 (1 / 10) < vlen (nav_cross (prock_pos r) (prock_vel r))"
  shows "let p = prock_pos r; v = prock_vel r; aim = (\<lambda>md. autopilot_target md p v (vlen v) (vlen p)) in
     marked r f ''PRO'' v \<and> aim ''prograde'' = vdiv v (vlen v) \<and>
     marked r f ''RET'' (vminus v) \<and> aim ''retrograde'' = vdiv (vminus v) (vlen (vminus v)) \<and>
     marked r f ''RAD+'' (aim ''radial_out'') \<and> marked r f ''NRM'' (aim ''normal'') \<and>
     (fin32 (v_X v) \<and> fin32 (v_Y v) \<and> fin32 (v_Z v) \<longrightarrow>
        (let rv = vsub v v in autopilot_target ''prograde'' rp rv (vlen rv) d = zero_vec))"
proof -
  let ?p = "prock_pos r" and ?v = "prock_vel r"
  let ?n = "nav_cross ?p ?v"
  have f: "nf_w f = vdiv ?p (vlen ?p)" using assms(1) by (auto simp: buildNavBallFrame_def Let_def split: if_splits)
  have n: "orbit_normal ?n (vlen ?n) (c32 1) = vdiv ?n (vlen ?n)"
    using lt_consts(2) [OF assms(4)] by (simp add: orbit_normal_def vdiv_def f32_div_one)
  have rest: "vsub ?v ?v = zero_vec" if "fin32 (v_X ?v)" "fin32 (v_Y ?v)" "fin32 (v_Z ?v)"
  proof -
    have "x - x = (0 :: f32)" if "fin32 x" for x
      using that by (cases "raw32 x") (simp_all add: minus_f32_def zero_f32_def fadd_def mk_def mk_sel_def)
    with that show ?thesis by (simp add: vsub_def zero_vec_def vec_def)
  qed
  have "\<not> c32 (1 / 10) < vlen zero_vec" by code_simp
  then show ?thesis
    using lt_consts(1) [OF assms(2)] assms(2-4)
    by (auto simp: Let_def marked_def nav_markers_def autopilot_target_def unit_if_def f n cross_nav vneg_vminus rest
        vopp_vlen [OF vopp_vminus])
qed

definition tilted :: PRocket where
  "tilted = zero_rocket \<lparr>prock_X := c32 60, prock_VZ := c32 30, prock_DY := c32 1\<rparr>"

definition tilted_frame :: navballFrame where
  "tilted_frame = (case buildNavBallFrame tilted of Some f \<Rightarrow> f | None \<Rightarrow> \<lparr>nf_f = zero_vec, nf_r = zero_vec, nf_tu = zero_vec, nf_w = zero_vec\<rparr>)"

theorem ball_vs_autopilot_witness:
  "marked tilted tilted_frame ''PRO'' (prock_vel tilted) \<and> marked tilted tilted_frame ''RAD+'' (vec (c32 1) 0 0) \<and>
     (let v = prock_vel tilted; rv = vsub v v in autopilot_target ''prograde'' (vec (c32 20) 0 0) rv (vlen rv) (c32 20) = zero_vec)"
proof -
  have a: "buildNavBallFrame tilted = Some tilted_frame" "c32 (1 / 2) < vlen (prock_vel tilted)"
      "c32 (1 / 10) < vlen (prock_pos tilted)" "c32 (1 / 10) < vlen (nav_cross (prock_pos tilted) (prock_vel tilted))"
      "fin32 (v_X (prock_vel tilted))" "fin32 (v_Y (prock_vel tilted))" "fin32 (v_Z (prock_vel tilted))"
      "autopilot_target ''radial_out'' (prock_pos tilted) (prock_vel tilted) (vlen (prock_vel tilted)) (vlen (prock_pos tilted)) = vec (c32 1) 0 0"
    by code_simp+
  show ?thesis
    using ball_vs_autopilot [OF a(1-4), of "vec (c32 20) 0 0" "c32 20"] a(5-8) unfolding Let_def by simp
qed

end
