(* ===== verification/Spec2Isabelle.thy ===== *)
theory Spec2Isabelle
  imports Ticks Commands Loadtest Chat_Box Client_Shutdown App_Safety Hud_Facts Nav_Facts
begin

text \<open>
  \<^bold>\<open>The LODEEN game, verified.\<close>

  LODEEN is a multiplayer game in Go: a server keeps a small planetary system with players,
  resources, animals, mobs, buildings and rockets; clients connect over TCP, send JSON messages
  in length-prefixed frames and receive a snapshot of the world about twenty times a second.
  This development models the server (\<open>internal/server/net\<close>), the shared protocol
  (\<open>internal/shared/protocol\<close>), the configuration (\<open>internal/shared/config\<close>), the WebSocket
  proxy (\<open>internal/server/ws\<close>), the programs under \<open>cmd\<close> with the load generator, and the graphical client: its network layer (\<open>internal/client/net\<close>),
  chat box (\<open>internal/client/chat\<close>), flight controller (\<open>internal/client/input\<close>), the application with all that
  changes its state (\<open>internal/client/app\<close>), and everything it draws (\<open>internal/client/app\<close>,
  \<open>internal/client/render\<close>, \<open>internal/client/fonts\<close>, \<open>internal/client/ui\<close>).

  \<^bold>\<open>Parts and how they interact.\<close> A connection (\<open>handleConn\<close>) performs the handshake, registers
  the player and then reads one envelope after the other (\<open>readLoop\<close>); the dispatcher decodes
  each by its tag and calls one handler, which reads and changes the players and the entity
  stores. Independently the tick loop runs its phases in a fixed order: hunger, mammoths, boats,
  mobs, projectiles, breeding, resources, energy, the planets, rockets and the snapshot. Handlers and ticks answer players through bounded queues, which the write loop of
  each connection empties. Everything but the stores' mutexes orders these activities freely.
  The client's read loop applies what arrives to a mirror of the world, from which the rest of
  the client reads; its actions send one message each. The application runs one frame after the
  other: \<open>update\<close> reads the keyboard, moves the player and sends messages, \<open>draw\<close> shows the result and
  handles the buttons. Browsers reach the server through a proxy
  that relays WebSocket messages as frames.

  \<^bold>\<open>Theories.\<close>
  \<^item> \<open>Prelude\<close>: collections of facts, Go's 64-bit \<open>int\<close>, Go maps (type \<open>gomap\<close>: finite, with the
    iteration order of \<open>range\<close> as an oracle), shared lemmas.
  \<^item> \<open>Go_Float\<close>: \<open>float32\<close> and \<open>float64\<close> as rational numbers with infinities and NaN, operations
    correctly rounded to nearest even, comparisons with Go's treatment of NaN, conversions.
    \<open>Go_Runtime\<close>: clock, random bytes, identifiers (\<open>newID\<close>) and the record \<open>env\<close> of what an
    operation takes from its surroundings.
  \<^item> \<open>Frame\<close>, \<open>Protocol\<close>, \<open>Terrain\<close>: \<open>frame.go\<close>, the messages and constants, \<open>terrain.go\<close>.
  \<^item> \<open>Store\<close>: \<open>store.go\<close> and its contract as a locale. \<open>Server_State\<close>: one record per entity
    struct and the record \<open>Server\<close>, whose fields are those of the Go struct. \<open>Player\<close>: the methods
    of the server's \<open>Client\<close>.
  \<^item> \<open>Invariants\<close>: the predicate \<open>server_inv\<close> and the rules by which changes keep it
    (collection \<open>inv_intros\<close>).
  \<^item> \<open>Handlers\<close>, \<open>Hunger\<close>, \<open>Farm\<close>, \<open>Structures\<close>, \<open>Energy\<close>, \<open>Mammoths\<close>, \<open>Mobs\<close> with \<open>Mob_Facts\<close>,
    \<open>Rockets\<close> with \<open>Rocket_Facts\<close>: one operation per function of the files that each theory
    names at its top, with its behaviour on every branch and that it keeps \<open>server_inv\<close>.
  \<^item> \<open>Snapshot\<close>, \<open>Chat\<close>, \<open>Conn\<close>, \<open>Dispatch\<close>: \<open>snapshot.go\<close> and \<open>snapshot_collect.go\<close>,
    \<open>handlers_chat.go\<close>, \<open>server_conn.go\<close>, \<open>dispatch.go\<close>.
  \<^item> \<open>Game\<close>: \<open>New\<close>, the tick loop and the state machine of the whole server. \<open>Ticks\<close>: a whole tick. \<open>Config\<close>:
    \<open>config.go\<close>. \<open>Proxy\<close>: \<open>proxy.go\<close>. \<open>Server_Life\<close>: the goroutines of \<open>Start\<close>, \<open>Stop\<close>, \<open>acceptLoop\<close>, \<open>handleConn\<close>
    and \<open>tickLoop\<close> in steps. \<open>Commands\<close>: \<open>cmd/server\<close>, \<open>cmd/client\<close>, \<open>version.go\<close>, \<open>logger.go\<close>. \<open>Loadtest\<close>: \<open>cmd/loadtest\<close>.
  \<^item> \<open>Client_Net\<close> with \<open>Client_Facts\<close>: the client's mirror, handlers, histories and interpolation
    (\<open>client.go\<close>, \<open>handlers.go\<close>, \<open>getters.go\<close>; the record \<open>GameClient\<close> is the struct \<open>Client\<close>).
    \<open>Client_Actions\<close>: \<open>send\<close>, \<open>Connect\<close>, \<open>Disconnect\<close> and \<open>actions.go\<close>. \<open>Client_Link\<close>: client and
    server together. \<open>Client_Shutdown\<close>: \<open>Disconnect\<close> and \<open>readLoop\<close> as two goroutines. \<open>Chat_Box\<close>:
    \<open>chat.go\<close> and \<open>EditField\<close> of \<open>ui.go\<close>.
  \<^item> \<open>Palette\<close>: \<open>palette.go\<close>, the colour picker and the number printers. \<open>Raylib\<close>: vectors, keyboard,
    mouse and window as parameters. \<open>Flight\<close> with \<open>Flight_Facts\<close>: the flight controller.
  \<^item> \<open>App_State\<close>: the struct \<open>App\<close> and the structs of \<open>state_*.go\<close> as records. \<open>Sight\<close> and \<open>Hands\<close>:
    \<open>input.go\<close>, \<open>pickup.go\<close>, \<open>update_playing_items.go\<close>, \<open>update_playing_input.go\<close>, \<open>projectiles.go\<close>.
    \<open>Windows\<close>: inventory, crafting, contract and factory. \<open>Orbit_Map\<close> with \<open>Orbit_Facts\<close>: the orbital
    map, the predicted trajectory and the controls of a rocket.
  \<^item> \<open>App_Frame\<close>: every step of \<open>update.go\<close>, \<open>update_playing*.go\<close>, \<open>connect.go\<close> and \<open>dead.go\<close>; \<open>App_Run\<close>: the
    frame and the loop that compose them. \<open>App_Facts\<close> and \<open>App_Safety\<close>: what every run keeps.
  \<^item> \<open>Canvas\<close>: a drawing as the list of its raylib calls (type \<open>call\<close>) and the machine that carries
    them out (\<open>gl_run\<close>). \<open>Fonts\<close>: \<open>fonts.go\<close> with its cache. \<open>Go_Fmt\<close>: the verbs of \<open>fmt\<close> that the client uses.
    \<open>Panels\<close>: buttons, fields, chat, inventory, crafting, contract, factory, menu, pause and death. \<open>Hud\<close>:
    \<open>hud*.go\<close>. \<open>Navball\<close>: \<open>navball.go\<close>. \<open>Orbit_Draw\<close>: the drawing half of \<open>orbitmap*.go\<close>. \<open>World_Draw\<close>:
    \<open>entities.go\<close>, \<open>mobs.go\<close>, \<open>nametags.go\<close>, held item and spears. \<open>Sky_Draw\<close>: \<open>skybox.go\<close>, \<open>celestial.go\<close>,
    \<open>scene.go\<close>. \<open>Draw_Frame\<close>: \<open>draw.go\<close>. \<open>Draw_Facts\<close>, \<open>Draw_Places\<close>, \<open>Hud_Facts\<close>, \<open>Nav_Facts\<close>: what holds of it.

  \<^bold>\<open>State and steps.\<close> An operation is a function from \<open>Server\<close> to \<open>Server\<close> that takes the \<open>env\<close>
  of its call first; a handler gets the identifier of its player. Names are those of the source;
  record fields carry a short prefix (\<open>s_\<close> server, \<open>c_\<close> client, \<open>rk_\<close> rocket, ...). A helper that
  models a part of a function is mapped to the lines of that part. Errors are values: \<open>option\<close>
  or a sum. The steps of \<open>srv_step\<close> are single handlers, single tick phases, joins, departures and
  writes of a queued message, in any order, so the theorems about \<open>reachable\<close> states cover every
  interleaving at that grain. The two handlers that release a store's mutex half-way, taming and watering,
  are steps of their own for each part between two locks: \<open>opens\<close> says when a message leads into the gap, the
  datatype \<open>half\<close> what the goroutine of a player has left to do, \<open>goes_on\<close> how it goes on, and \<open>halves_compose\<close>
  shows that the parts, undisturbed, are the handler. Every other handler is one step: what it reads under
  one lock and writes under the next is taken to be undisturbed in between.

  \<^bold>\<open>What is shown.\<close> \<open>Game\<close>: every reachable state satisfies \<open>server_inv\<close>, the gap of taming lets a wild mammoth
  get a saddle (\<open>saddle_race\<close>), and the tick loop keeps its pace. \<open>Ticks\<close>: what a whole tick does to the world, the
  rockets, the batteries and the players, and that its snapshot shows it. \<open>Conn\<close>, \<open>Dispatch\<close>
  and \<open>Frame\<close>: frames are read back as written, every envelope is handled once and in order, the
  handshake accepts exactly the decodable hellos, joining and leaving cancel out. Component
  theories: crafting, picking up, planting, placing, riding, boarding, contracts and throws do
  exactly what they should and nothing on refusal; ticks keep their bounds; the loops of eating
  and of burning fuel end. \<open>Snapshot\<close>: a snapshot shows the world exactly. \<open>Client_Link\<close>: what the
  client sends is what the server does, what the server broadcasts is what the client shows, and
  the handshake ends with both sides agreeing. \<open>Client_Facts\<close>: the mirror stays bounded and the
  interpolation shows every player once, between two known states. \<open>Client_Shutdown\<close>: what holds
  when \<open>Disconnect\<close> returns, and the two panics that its races allow. \<open>Server_Life\<close>: what holds when \<open>Stop\<close> returns and
  what can keep it waiting. \<open>Commands\<close>: the exit code. \<open>Loadtest\<close>: what the server does with a bot and what the bot
  counts. The application: \<open>App_Facts\<close>
  shows that its state stays typed in every run, \<open>App_Safety\<close> the machine of its modes, its one panic,
  and what an open window does to the player; \<open>Flight_Facts\<close>, \<open>Sight\<close>, \<open>Hands\<close>, \<open>Windows\<close>, \<open>Palette\<close> and
  \<open>Orbit_Facts\<close> show what the single steps do, where client and server agree, and where they do not. The
  drawing: \<open>Draw_Facts\<close> shows that every frame obeys the rules of the graphics machine, \<open>Draw_Places\<close> where
  things are drawn and what becomes of the buffer and the resources of the scene, \<open>Fonts\<close> which colour a text
  really has, \<open>Hud_Facts\<close> that the display tells the truth and where it leaves its frame, and \<open>Nav_Facts\<close> that a mark of the
  navigation ball is always in sight, and where it differs from the server's autopilot.

  \<^bold>\<open>Termination.\<close> No fuel is used: loops recurse on lists or have a measure (the food left, the
  fuel left, the bytes left to read).

  \<^bold>\<open>Parameters.\<close> Code outside the repository is an argument: the JSON decoder (record \<open>codec\<close>) and
  the bytes of marshalled messages, \<open>time.ParseDuration\<close>, sine, cosine, arc cosine and exponential
  of package \<open>math\<close>, the clock, both random sources and the order of map iteration. Square roots
  and the other arithmetic are computed, without the fused multiply-add that Go permits on some
  processors.

  The client has its own decoder (record \<open>client_codec\<close>); the theorems that join both sides assume
  that the text of each message at hand is decoded to that message. The WebSocket library is a
  function that writes a message and the list of messages read; the keyboard is a record of what
  raylib reports in one frame (\<open>frame_in\<close>), and so are mouse, window and frame time; raylib's and
  raymath's vector functions are the record \<open>raymath\<close>, whose documented laws (\<open>raymath_ok\<close>, \<open>asin_ok\<close>) the
  theorems that need them assume; \<open>to_screen\<close> projects a point to the screen. For the drawing the metrics of the
  font (record \<open>face\<close>), the answers of the graphics card to a load (record \<open>loader\<close>), raylib's clock and
  the random draws of the stars (record \<open>stage\<close>) are parameters too; a call of raylib is a value, and only the
  modes, the transformations and the matrix stack have a meaning in the machine. What the network does during
  a frame is a parameter of the frame, so that the theorems about runs hold for every behaviour of it.

  \<^bold>\<open>Not modelled.\<close> The GLSL programs in \<open>scene.go\<close> (another language, run by the graphics card) and the search
  for a font file (\<open>fonts.Load\<close>). Sockets, \<open>Addr\<close>, flags and printing of the commands, the embedded files of the web page;
  log output, frame statistics and the registration of metrics.
\<close>

end
